(* ===== verification/Sonde_Prelude.thy ===== *)
theory Sonde_Prelude
  imports Main "HOL-Library.Word" "HOL-Library.Signed_Division"
begin

unbundle bit_operations_syntax

text \<open>
  Shared vocabulary of the development: the machine integer types of the Rust sources, the
  \<open>Result\<close> type as a sum with its combinators, big- and little-endian byte strings, checked and
  signed arithmetic of the Rust standard library, and the generic lemmas on lists and words that
  the component theories use. The locale \<open>int_codec\<close> is the contract of a fixed-width integer
  encoding; it is interpreted here on every width the wire formats use.
\<close>

named_theorems result_simps \<open>rewriting rules for results\<close>
named_theorems byte_simps \<open>lengths and round trips of byte strings\<close>

section \<open>Machine integers\<close>

type_synonym u8 = "8 word"
type_synonym u16 = "16 word"
type_synonym u32 = "32 word"
type_synonym u64 = "64 word"
type_synonym bytes = "u8 list"

text \<open>\<open>checked_add\<close> of the standard library: \<open>None\<close> on overflow.\<close>

definition checked_add :: "'a::len word \<Rightarrow> 'a word \<Rightarrow> 'a word option" where
  "checked_add a b = (if uint a + uint b < 2 ^ LENGTH('a) then Some (a + b) else None)"

text \<open>\<open>checked_add_signed\<close> on \<open>u64\<close>: the second operand is read as two's complement.\<close>

definition checked_add_signed :: "u64 \<Rightarrow> int \<Rightarrow> u64 option" where
  "checked_add_signed a k =
     (if 0 \<le> uint a + k \<and> uint a + k < 2 ^ 64 then Some (word_of_int (uint a + k)) else None)"

text \<open>\<open>wrapping_div\<close> and \<open>wrapping_rem\<close> on signed integers truncate towards zero;
  \<open>MIN / -1\<close> wraps to \<open>MIN\<close>. The divisor is non-zero in every call.\<close>

definition wrapping_div :: "'a::len word \<Rightarrow> 'a word \<Rightarrow> 'a word" where
  "wrapping_div a b = word_of_int (sint a sdiv sint b)"

definition wrapping_rem :: "'a::len word \<Rightarrow> 'a word \<Rightarrow> 'a word" where
  "wrapping_rem a b = word_of_int (sint a smod sint b)"

lemma checked_add_unat:
  "checked_add a b = (if unat a + unat b < 2 ^ LENGTH('a) then Some (a + b) else None)"
  for a b :: "'a::len word"
proof -
  have "uint a + uint b < 2 ^ LENGTH('a) \<longleftrightarrow> int (unat a + unat b) < int (2 ^ LENGTH('a))"
    by simp
  then show ?thesis
    unfolding checked_add_def of_nat_less_iff by simp
qed

lemma checked_add_SomeD:
  "checked_add a b = Some c \<Longrightarrow> c = a + b \<and> unat c = unat a + unat b"
  for a b c :: "'a::len word"
  by (auto simp: checked_add_unat unat_word_ariths split: if_splits)

lemma checked_add_eq_None:
  "checked_add a b = None \<longleftrightarrow> 2 ^ LENGTH('a) \<le> unat a + unat b" for a b :: "'a::len word"
  by (auto simp: checked_add_unat not_less)

section \<open>Results\<close>

text \<open>\<open>Result<T, E>\<close> is \<open>'e + 'a\<close> with \<open>Inl\<close> the error; \<open>res_bind\<close> is the \<open>?\<close> operator.\<close>

definition res_bind :: "'e + 'a \<Rightarrow> ('a \<Rightarrow> 'e + 'b) \<Rightarrow> 'e + 'b" where
  "res_bind r k = (case r of Inl e \<Rightarrow> Inl e | Inr x \<Rightarrow> k x)"

definition ok_or :: "'e \<Rightarrow> 'a option \<Rightarrow> 'e + 'a" where
  "ok_or e m = (case m of None \<Rightarrow> Inl e | Some x \<Rightarrow> Inr x)"

lemma res_bind_simps [simp, result_simps]:
  "res_bind (Inl e) k = Inl e" "res_bind (Inr x) k = k x"
  by (simp_all add: res_bind_def)

lemma res_bind_Inr_iff [result_simps]:
  "res_bind r k = Inr y \<longleftrightarrow> (\<exists>x. r = Inr x \<and> k x = Inr y)"
  by (cases r) auto

lemma res_bind_Inl_iff [result_simps]:
  "res_bind r k = Inl e \<longleftrightarrow> r = Inl e \<or> (\<exists>x. r = Inr x \<and> k x = Inl e)"
  by (cases r) auto

lemma ok_or_simps [simp, result_simps]:
  "ok_or e None = Inl e" "ok_or e (Some x) = Inr x"
  by (simp_all add: ok_or_def)

lemma ok_or_Inr_iff [result_simps]: "ok_or e m = Inr x \<longleftrightarrow> m = Some x"
  by (cases m) auto

lemma ok_or_Inl_iff [result_simps]: "ok_or e m = Inl d \<longleftrightarrow> m = None \<and> d = e"
  by (cases m) auto

text \<open>A loop over a list that leaves the function at the first error.\<close>

primrec res_fold :: "('s \<Rightarrow> 'a \<Rightarrow> 'e + 's) \<Rightarrow> 's \<Rightarrow> 'a list \<Rightarrow> 'e + 's" where
  "res_fold f s [] = Inr s"
| "res_fold f s (x # xs) = res_bind (f s x) (\<lambda>s'. res_fold f s' xs)"

lemma res_fold_append [simp]: "res_fold f s (xs @ ys) = res_bind (res_fold f s xs) (\<lambda>s'. res_fold f s' ys)"
proof (induction xs arbitrary: s)
  case (Cons x xs)
  then show ?case by (cases "f s x") simp_all
qed simp

lemma res_fold_invariant:
  assumes "res_fold f s xs = Inr s'" and "P s"
    and "\<And>s x s'. x \<in> set xs \<Longrightarrow> P s \<Longrightarrow> f s x = Inr s' \<Longrightarrow> P s'"
  shows "P s'"
  using assms
proof (induction xs arbitrary: s)
  case (Cons x xs)
  then obtain t where "f s x = Inr t" "res_fold f t xs = Inr s'" by (auto simp: res_bind_Inr_iff)
  with Cons show ?case by (metis list.set_intros)
qed simp

text \<open>\<open>or_else\<close>: the first of two partial results, as consecutive arms of a match.\<close>

definition or_else :: "'a option \<Rightarrow> 'a option \<Rightarrow> 'a option" where
  "or_else a b = (case a of None \<Rightarrow> b | Some x \<Rightarrow> Some x)"

lemma or_else_simps [simp]: "or_else None b = b" "or_else (Some x) b = Some x"
  by (simp_all add: or_else_def)

lemma or_else_SomeD: "or_else a b = Some x \<Longrightarrow> a = Some x \<or> b = Some x"
  by (cases a) auto

section \<open>Fallible operations on a state\<close>

text \<open>A method on \<open>&mut self\<close> that returns a \<open>Result\<close>: the state is kept on errors too. \<open>st_bind\<close> is
  the \<open>?\<close> operator, \<open>st_keeps\<close> the property of an operation that never changes what \<open>f\<close> observes.\<close>

type_synonym ('s, 'e, 'a) op = "'s \<Rightarrow> ('e + 'a) \<times> 's"

definition st_return :: "'a \<Rightarrow> ('s, 'e, 'a) op" where "st_return x s = (Inr x, s)"
definition st_fail :: "'e \<Rightarrow> ('s, 'e, 'a) op" where "st_fail e s = (Inl e, s)"

definition st_bind :: "('s, 'e, 'a) op \<Rightarrow> ('a \<Rightarrow> ('s, 'e, 'b) op) \<Rightarrow> ('s, 'e, 'b) op" where
  "st_bind m k s = (case m s of (Inl e, s') \<Rightarrow> (Inl e, s') | (Inr x, s') \<Rightarrow> k x s')"

definition st_seq :: "('s, 'e, 'a) op \<Rightarrow> ('s, 'e, 'b) op \<Rightarrow> ('s, 'e, 'b) op" where
  "st_seq m k = st_bind m (\<lambda>_. k)"

definition st_lift :: "'e + 'a \<Rightarrow> ('s, 'e, 'a) op" where "st_lift r s = (r, s)"

definition st_keeps :: "('s \<Rightarrow> 'v) \<Rightarrow> ('s, 'e, 'a) op \<Rightarrow> bool" where
  "st_keeps f m \<longleftrightarrow> (\<forall>s. f (snd (m s)) = f s)"

lemma st_bind_Inr: "st_bind m k s = (Inr y, t) \<longleftrightarrow> (\<exists>x s'. m s = (Inr x, s') \<and> k x s' = (Inr y, t))"
  by (auto simp: st_bind_def split: prod.splits sum.splits)

lemma st_bind_Inl:
  "st_bind m k s = (Inl e, t) \<longleftrightarrow> m s = (Inl e, t) \<or> (\<exists>x s'. m s = (Inr x, s') \<and> k x s' = (Inl e, t))"
  by (auto simp: st_bind_def split: prod.splits sum.splits)

lemma st_keepsI: "(\<And>s. f (snd (m s)) = f s) \<Longrightarrow> st_keeps f m"
  by (simp add: st_keeps_def)

lemma st_keepsD: "st_keeps f m \<Longrightarrow> m s = (r, t) \<Longrightarrow> f t = f s"
  unfolding st_keeps_def by (metis snd_conv)

lemma st_keeps_bind [intro]: "st_keeps f m \<Longrightarrow> (\<And>x. st_keeps f (k x)) \<Longrightarrow> st_keeps f (st_bind m k)"
  by (auto simp: st_keeps_def st_bind_def split: prod.splits sum.splits) (metis snd_conv)+

lemma st_keeps_seq [intro]: "st_keeps f m \<Longrightarrow> st_keeps f k \<Longrightarrow> st_keeps f (st_seq m k)"
  unfolding st_seq_def by (rule st_keeps_bind)

lemma st_keeps_simple [simp, intro]: "st_keeps f (st_return x)" "st_keeps f (st_fail e)" "st_keeps f (st_lift r)"
  by (simp_all add: st_keeps_def st_return_def st_fail_def st_lift_def)

section \<open>Byte strings\<close>

primrec to_le_bytes :: "nat \<Rightarrow> 'a::len word \<Rightarrow> bytes" where
  "to_le_bytes 0 w = []"
| "to_le_bytes (Suc n) w = ucast w # to_le_bytes n (drop_bit 8 w)"

primrec from_le_bytes :: "bytes \<Rightarrow> 'a::len word" where
  "from_le_bytes [] = 0"
| "from_le_bytes (b # bs) = ucast b OR push_bit 8 (from_le_bytes bs)"

definition to_be_bytes :: "nat \<Rightarrow> 'a::len word \<Rightarrow> bytes" where
  "to_be_bytes n w = rev (to_le_bytes n w)"

definition from_be_bytes :: "bytes \<Rightarrow> 'a::len word" where
  "from_be_bytes bs = from_le_bytes (rev bs)"

lemma length_to_le_bytes [simp, byte_simps]: "length (to_le_bytes n w) = n"
  by (induction n arbitrary: w) auto

lemma length_to_be_bytes [simp, byte_simps]: "length (to_be_bytes n w) = n"
  by (simp add: to_be_bytes_def)

lemma bit_from_le_bytes:
  "bit (from_le_bytes bs :: 'a::len word) i \<longleftrightarrow>
     i < LENGTH('a) \<and> i < 8 * length bs \<and> bit (bs ! (i div 8)) (i mod 8)"
proof (induction bs arbitrary: i)
  case Nil
  then show ?case by simp
next
  case (Cons b bs)
  show ?case
  proof (cases "i < 8")
    case True
    then show ?thesis
      by (auto simp: bit_or_iff bit_push_bit_iff bit_unsigned_iff)
  next
    case False
    then have "\<not> bit b i"
      using bit_imp_le_length by fastforce
    moreover from False have "i div 8 = Suc ((i - 8) div 8)" "i mod 8 = (i - 8) mod 8"
      by (simp_all add: le_div_geq le_mod_geq)
    ultimately show ?thesis
      using False Cons.IH [of "i - 8"]
      by (auto simp: bit_or_iff bit_push_bit_iff bit_unsigned_iff)
  qed
qed

lemma nth_to_le_bytes:
  "i < n \<Longrightarrow> to_le_bytes n w ! i = ucast (drop_bit (8 * i) w)"
proof (induction n arbitrary: w i)
  case 0
  then show ?case by simp
next
  case (Suc n)
  then show ?case
    by (cases i) (simp_all add: ac_simps)
qed

lemma from_to_le_bytes:
  assumes "LENGTH('a) \<le> 8 * n"
  shows "from_le_bytes (to_le_bytes n w) = (w :: 'a::len word)"
proof (rule bit_word_eqI)
  fix i assume i: "i < LENGTH('a)"
  with assms have "i < 8 * n" by simp
  then have "i div 8 < n" by auto
  then show "bit (from_le_bytes (to_le_bytes n w) :: 'a word) i = bit w i"
    using i \<open>i < 8 * n\<close>
    by (simp add: bit_from_le_bytes nth_to_le_bytes bit_unsigned_iff bit_drop_bit_eq)
qed

lemma to_from_le_bytes:
  assumes "8 * length bs \<le> LENGTH('a)"
  shows "to_le_bytes (length bs) (from_le_bytes bs :: 'a::len word) = bs"
proof (rule nth_equalityI)
  fix j assume "j < length (to_le_bytes (length bs) (from_le_bytes bs :: 'a word))"
  then have j: "j < length bs" by simp
  show "to_le_bytes (length bs) (from_le_bytes bs :: 'a word) ! j = bs ! j"
  proof (rule bit_word_eqI)
    fix i assume i: "i < LENGTH(8)"
    with j assms show "bit (to_le_bytes (length bs) (from_le_bytes bs :: 'a word) ! j) i = bit (bs ! j) i"
      by (simp add: nth_to_le_bytes bit_unsigned_iff bit_drop_bit_eq bit_from_le_bytes)
  qed
qed simp

lemma from_to_be_bytes [byte_simps]:
  "LENGTH('a) \<le> 8 * n \<Longrightarrow> from_be_bytes (to_be_bytes n w) = (w :: 'a::len word)"
  by (simp add: from_be_bytes_def to_be_bytes_def from_to_le_bytes)

lemma to_from_be_bytes:
  "8 * length bs \<le> LENGTH('a) \<Longrightarrow> n = length bs \<Longrightarrow>
     to_be_bytes n (from_be_bytes bs :: 'a::len word) = bs"
  using to_from_le_bytes [where 'a = 'a, of "rev bs"] by (simp add: from_be_bytes_def to_be_bytes_def)

section \<open>Fixed-width integer encodings\<close>

locale int_codec =
  fixes enc :: "'a \<Rightarrow> bytes"
    and dec :: "bytes \<Rightarrow> 'a"
    and width :: nat
  assumes length_enc: "length (enc x) = width"
    and dec_enc: "dec (enc x) = x"
    and enc_dec: "length bs = width \<Longrightarrow> enc (dec bs) = bs"
begin

lemma dec_take_enc: "dec (take width (enc x @ rest)) = x"
  by (simp add: length_enc dec_enc)

lemma drop_enc: "drop width (enc x @ rest) = rest"
  by (simp add: length_enc)

lemma enc_inject: "enc x = enc y \<longleftrightarrow> x = y"
  by (metis dec_enc)

lemma enc_append_inject: "enc x @ xs = enc y @ ys \<longleftrightarrow> x = y \<and> xs = ys"
  by (auto simp: length_enc enc_inject append_eq_append_conv)

end

abbreviation be16 :: "u16 \<Rightarrow> bytes" where "be16 \<equiv> to_be_bytes 2"
abbreviation be32 :: "u32 \<Rightarrow> bytes" where "be32 \<equiv> to_be_bytes 4"
abbreviation be64 :: "u64 \<Rightarrow> bytes" where "be64 \<equiv> to_be_bytes 8"

interpretation be16: int_codec be16 from_be_bytes 2
  by unfold_locales (simp_all add: byte_simps to_from_be_bytes)

interpretation be32: int_codec be32 from_be_bytes 4
  by unfold_locales (simp_all add: byte_simps to_from_be_bytes)

interpretation be64: int_codec be64 from_be_bytes 8
  by unfold_locales (simp_all add: byte_simps to_from_be_bytes)

section \<open>Loops\<close>

text \<open>A loop body either goes round again or leaves the loop with an exit value. \<open>run_loop\<close> runs it
  with fuel; \<open>None\<close> means that the fuel ran out. \<open>loop_invariant\<close> and \<open>loop_variant\<close> are the
  contracts a body meets for partial and total correctness.\<close>

datatype ('x, 's) step_result = Next 's | Stop 'x 's

primrec run_loop :: "('s \<Rightarrow> ('x, 's) step_result) \<Rightarrow> nat \<Rightarrow> 's \<Rightarrow> ('x \<times> 's) option" where
  "run_loop step 0 s = None"
| "run_loop step (Suc fuel) s =
     (case step s of Next s' \<Rightarrow> run_loop step fuel s' | Stop x s' \<Rightarrow> Some (x, s'))"

lemma run_loop_numeral:
  "run_loop step (numeral n) s =
     (case step s of Next s' \<Rightarrow> run_loop step (pred_numeral n) s' | Stop x s' \<Rightarrow> Some (x, s'))"
  by (simp add: numeral_eq_Suc)

lemma run_loop_mono: "run_loop step n s = Some r \<Longrightarrow> n \<le> n' \<Longrightarrow> run_loop step n' s = Some r"
proof (induction n arbitrary: s n')
  case 0
  then show ?case by simp
next
  case (Suc n)
  then obtain k where "n' = Suc k" "n \<le> k" by (cases n') auto
  with Suc show ?case by (auto split: step_result.splits)
qed

locale loop_invariant =
  fixes step :: "'s \<Rightarrow> ('x, 's) step_result"
    and inv :: "'s \<Rightarrow> bool"
    and post :: "'x \<Rightarrow> 's \<Rightarrow> bool"
  assumes step_Next: "inv s \<Longrightarrow> step s = Next s' \<Longrightarrow> inv s'"
    and step_Stop: "inv s \<Longrightarrow> step s = Stop x s' \<Longrightarrow> post x s'"
begin

lemma run_post: "inv s \<Longrightarrow> run_loop step n s = Some (x, s') \<Longrightarrow> post x s'"
proof (induction n arbitrary: s)
  case 0
  then show ?case by simp
next
  case (Suc n)
  then show ?case
    by (auto split: step_result.splits intro: step_Next step_Stop)
qed

end

locale loop_variant =
  fixes step :: "'s \<Rightarrow> ('x, 's) step_result"
    and inv :: "'s \<Rightarrow> bool"
    and var :: "'s \<Rightarrow> nat"
  assumes variant_Next: "inv s \<Longrightarrow> step s = Next s' \<Longrightarrow> inv s' \<and> var s' < var s"
begin

lemma run_terminates: "inv s \<Longrightarrow> var s < n \<Longrightarrow> \<exists>r. run_loop step n s = Some r"
proof (induction n arbitrary: s)
  case 0
  then show ?case by simp
next
  case (Suc n)
  show ?case
  proof (cases "step s")
    case (Next s')
    with Suc.prems variant_Next have "inv s'" "var s' < n" by fastforce+
    with Suc.IH Next show ?thesis by simp
  next
    case (Stop x s')
    then show ?thesis by simp
  qed
qed

end

section \<open>Lists\<close>

lemma set_list_updateD: "x \<in> set (xs[i := y]) \<Longrightarrow> x = y \<or> x \<in> set xs"
  using set_update_subset_insert [of xs i y] by auto

lemma all_set_list_update:
  "(\<forall>x \<in> set xs. P x) \<Longrightarrow> P y \<Longrightarrow> \<forall>x \<in> set (xs[i := y]). P x"
  by (auto dest: set_list_updateD)

lemma foldl_invariant:
  assumes "P a" and "\<And>a x. x \<in> set xs \<Longrightarrow> P a \<Longrightarrow> P (f a x)"
  shows "P (foldl f a xs)"
  using assms by (induction xs arbitrary: a) simp_all

lemma concat_chunks:
  "c > 0 \<Longrightarrow> concat (map (\<lambda>i. take c (drop (i * c) xs)) [0..<n]) = take (n * c) xs"
proof (induction n)
  case (Suc n)
  then show ?case by (simp add: take_add [symmetric] add.commute)
qed simp

lemma concat_nth:
  assumes "\<And>x. x \<in> set xs \<Longrightarrow> length (f x) = n" and "i < length xs" and "j < n"
  shows "concat (map f xs) ! (i * n + j) = f (xs ! i) ! j"
  using assms
proof (induction xs arbitrary: i)
  case (Cons x xs)
  then show ?case by (cases i) (simp_all add: nth_append add.assoc)
qed simp

lemma length_concat_const: "(\<And>x. x \<in> set xs \<Longrightarrow> length (f x) = n) \<Longrightarrow> length (concat (map f xs)) = length xs * n"
  by (induction xs) simp_all

text \<open>\<open>copy_from_slice\<close> into \<open>buf[off..off + n]\<close>.\<close>

definition copy_at :: "nat \<Rightarrow> 'a list \<Rightarrow> 'a list \<Rightarrow> 'a list" where
  "copy_at off bs buf = take off buf @ bs @ drop (off + length bs) buf"

lemma length_copy_at: "off + length bs \<le> length buf \<Longrightarrow> length (copy_at off bs buf) = length buf"
  by (simp add: copy_at_def)

lemma copy_at_read_same:
  "off + length bs \<le> length buf \<Longrightarrow> take (length bs) (drop off (copy_at off bs buf)) = bs"
  by (simp add: copy_at_def)

lemma nth_copy_at:
  "off + length bs \<le> length buf \<Longrightarrow> k < length buf \<Longrightarrow>
   copy_at off bs buf ! k = (if off \<le> k \<and> k < off + length bs then bs ! (k - off) else buf ! k)"
  by (auto simp: copy_at_def nth_append)

lemma copy_at_read_other:
  assumes "off + length bs \<le> length buf" and "k + n \<le> off \<or> off + length bs \<le> k"
  shows "take n (drop k (copy_at off bs buf)) = take n (drop k buf)"
proof (rule nth_equalityI)
  fix i assume "i < length (take n (drop k (copy_at off bs buf)))"
  then show "take n (drop k (copy_at off bs buf)) ! i = take n (drop k buf) ! i"
    using assms by (auto simp: length_copy_at nth_copy_at)
qed (simp add: length_copy_at assms)

section \<open>Keyed stores\<close>

text \<open>What a client of a keyed store relies on: a write succeeds or is refused without effect, keeps
  the store's invariant, is read back under its key, and is invisible under every other key.\<close>

locale keyed_store =
  fixes inv :: "'s \<Rightarrow> bool"
    and get :: "'s \<Rightarrow> 'k \<Rightarrow> 'v option"
    and put :: "'s \<Rightarrow> 'k \<Rightarrow> 'v \<Rightarrow> 's option"
  assumes put_inv: "inv s \<Longrightarrow> put s k v = Some s' \<Longrightarrow> inv s'"
    and get_put: "inv s \<Longrightarrow> put s k v = Some s' \<Longrightarrow> get s' k' = (if k' = k then Some v else get s k')"
begin

text \<open>A run of writes, refused ones skipped.\<close>

lemma run_puts:
  assumes "inv s"
  defines "step \<equiv> \<lambda>s (k, v). case put s k v of None \<Rightarrow> s | Some s' \<Rightarrow> s'"
  shows "inv (foldl step s kvs) \<and>
    (get (foldl step s kvs) k = get s k \<or> (\<exists>v. (k, v) \<in> set kvs \<and> get (foldl step s kvs) k = Some v))"
  using assms(1)
proof (induction kvs rule: rev_induct)
  case Nil
  then show ?case by simp
next
  case (snoc kv kvs)
  obtain k0 v0 where kv: "kv = (k0, v0)" by (cases kv)
  let ?s = "foldl step s kvs"
  show ?case
  proof (cases "put ?s k0 v0")
    case None
    then show ?thesis using snoc by (auto simp: kv step_def)
  next
    case (Some s')
    have "inv ?s" using snoc by simp
    from put_inv [OF this Some] get_put [OF this Some, of k] snoc Some show ?thesis
      by (auto simp: kv step_def)
  qed
qed

text \<open>The last successful write to a key is what is read, whatever is written to other keys later.\<close>

lemma get_after_other_puts:
  assumes "inv s" and "put s k v = Some s'" and "\<And>k' v'. (k', v') \<in> set kvs \<Longrightarrow> k' \<noteq> k"
  defines "step \<equiv> \<lambda>s (k, v). case put s k v of None \<Rightarrow> s | Some s' \<Rightarrow> s'"
  shows "get (foldl step s' kvs) k = Some v"
proof -
  have "inv s'" using put_inv assms(1,2) .
  with run_puts [of s' kvs k, folded step_def] assms(3) have "get (foldl step s' kvs) k = get s' k" by auto
  with get_put [OF assms(1,2), of k] show ?thesis by simp
qed

end

section \<open>Runs of operations and their refinement\<close>

text \<open>The outputs of a sequence of operations, and the state it ends in.\<close>

primrec run_ops :: "('x \<Rightarrow> 's \<Rightarrow> 'o \<times> 's) \<Rightarrow> 'x list \<Rightarrow> 's \<Rightarrow> 'o list \<times> 's" where
  "run_ops step [] s = ([], s)"
| "run_ops step (x # xs) s =
     (case step x s of (out, s') \<Rightarrow> case run_ops step xs s' of (outs, s'') \<Rightarrow> (out # outs, s''))"

lemma run_ops_snoc:
  "run_ops step (xs @ [x]) s =
     (case run_ops step xs s of (outs, s') \<Rightarrow> case step x s' of (out, s'') \<Rightarrow> (outs @ [out], s''))"
  by (induction xs arbitrary: s) (auto split: prod.splits)

text \<open>A forward simulation with the same outputs. The number counts the operations the relation is good
  for, for components whose counters saturate.\<close>

locale op_refinement =
  fixes R :: "nat \<Rightarrow> 'c \<Rightarrow> 'a \<Rightarrow> bool"
    and cstep :: "'x \<Rightarrow> 'c \<Rightarrow> 'o \<times> 'c"
    and astep :: "'x \<Rightarrow> 'a \<Rightarrow> 'o \<times> 'a"
  assumes simulates: "R (Suc n) c a \<Longrightarrow>
      fst (cstep x c) = fst (astep x a) \<and> R n (snd (cstep x c)) (snd (astep x a))"
begin

lemma run_simulates:
  "R (length xs + n) c a \<Longrightarrow>
     fst (run_ops cstep xs c) = fst (run_ops astep xs a) \<and> R n (snd (run_ops cstep xs c)) (snd (run_ops astep xs a))"
proof (induction xs arbitrary: c a)
  case (Cons x xs)
  then have "fst (cstep x c) = fst (astep x a)" "R (length xs + n) (snd (cstep x c)) (snd (astep x a))"
    using simulates [of "length xs + n" c a x] by simp_all
  with Cons.IH [of "snd (cstep x c)" "snd (astep x a)"] show ?case by (auto split: prod.splits)
qed simp

end

end
