(* ===== verification/Ebpf.thy ===== *)
theory Ebpf
  imports Sonde_Prelude
begin

unbundle bit_operations_syntax

text \<open>
  \<open>crates/sonde-bpf/src/ebpf.rs\<close>: the opcode constants of RFC 9669 and the decoding of one
  eight-byte instruction slot. The collection \<open>ebpf_consts\<close> rewrites every constant to its
  numeral. The constants are those of the default feature set (no \<open>stack-512\<close>).
\<close>

named_theorems ebpf_consts \<open>numeric values of the opcode constants\<close>

section \<open>Opcode constants\<close>

definition INSN_SIZE :: nat where "INSN_SIZE = 8"
definition MAX_CALL_DEPTH :: nat where "MAX_CALL_DEPTH = 8"
definition STACK_SIZE_PER_FRAME :: nat where "STACK_SIZE_PER_FRAME = 512"
definition STACK_SIZE :: nat where "STACK_SIZE = STACK_SIZE_PER_FRAME * MAX_CALL_DEPTH"

subsection \<open>Instruction classes\<close>

definition BPF_LD :: u8 where "BPF_LD = 0x00"
definition BPF_LDX :: u8 where "BPF_LDX = 0x01"
definition BPF_ST :: u8 where "BPF_ST = 0x02"
definition BPF_STX :: u8 where "BPF_STX = 0x03"
definition BPF_ALU :: u8 where "BPF_ALU = 0x04"
definition BPF_JMP :: u8 where "BPF_JMP = 0x05"
definition BPF_JMP32 :: u8 where "BPF_JMP32 = 0x06"
definition BPF_ALU64 :: u8 where "BPF_ALU64 = 0x07"

subsection \<open>Size modifiers\<close>

definition BPF_W :: u8 where "BPF_W = 0x00"
definition BPF_H :: u8 where "BPF_H = 0x08"
definition BPF_B :: u8 where "BPF_B = 0x10"
definition BPF_DW :: u8 where "BPF_DW = 0x18"

subsection \<open>Mode modifiers\<close>

definition BPF_IMM :: u8 where "BPF_IMM = 0x00"
definition BPF_ABS :: u8 where "BPF_ABS = 0x20"
definition BPF_IND :: u8 where "BPF_IND = 0x40"
definition BPF_MEM :: u8 where "BPF_MEM = 0x60"
definition BPF_MEMSX :: u8 where "BPF_MEMSX = 0x80"
definition BPF_ATOMIC :: u8 where "BPF_ATOMIC = 0xc0"

subsection \<open>Source modifiers\<close>

definition BPF_K :: u8 where "BPF_K = 0x00"
definition BPF_X :: u8 where "BPF_X = 0x08"

subsection \<open>ALU operation codes\<close>

definition BPF_ADD :: u8 where "BPF_ADD = 0x00"
definition BPF_SUB :: u8 where "BPF_SUB = 0x10"
definition BPF_MUL :: u8 where "BPF_MUL = 0x20"
definition BPF_DIV :: u8 where "BPF_DIV = 0x30"
definition BPF_OR :: u8 where "BPF_OR = 0x40"
definition BPF_AND :: u8 where "BPF_AND = 0x50"
definition BPF_LSH :: u8 where "BPF_LSH = 0x60"
definition BPF_RSH :: u8 where "BPF_RSH = 0x70"
definition BPF_NEG :: u8 where "BPF_NEG = 0x80"
definition BPF_MOD :: u8 where "BPF_MOD = 0x90"
definition BPF_XOR :: u8 where "BPF_XOR = 0xa0"
definition BPF_MOV :: u8 where "BPF_MOV = 0xb0"
definition BPF_ARSH :: u8 where "BPF_ARSH = 0xc0"
definition BPF_END :: u8 where "BPF_END = 0xd0"

subsection \<open>JMP operation codes\<close>

definition BPF_JA :: u8 where "BPF_JA = 0x00"
definition BPF_JEQ :: u8 where "BPF_JEQ = 0x10"
definition BPF_JGT :: u8 where "BPF_JGT = 0x20"
definition BPF_JGE :: u8 where "BPF_JGE = 0x30"
definition BPF_JSET :: u8 where "BPF_JSET = 0x40"
definition BPF_JNE :: u8 where "BPF_JNE = 0x50"
definition BPF_JSGT :: u8 where "BPF_JSGT = 0x60"
definition BPF_JSGE :: u8 where "BPF_JSGE = 0x70"
definition BPF_CALL :: u8 where "BPF_CALL = 0x80"
definition BPF_EXIT :: u8 where "BPF_EXIT = 0x90"
definition BPF_JLT :: u8 where "BPF_JLT = 0xa0"
definition BPF_JLE :: u8 where "BPF_JLE = 0xb0"
definition BPF_JSLT :: u8 where "BPF_JSLT = 0xc0"
definition BPF_JSLE :: u8 where "BPF_JSLE = 0xd0"

subsection \<open>Atomic operation codes\<close>

definition BPF_ATOMIC_ADD :: u32 where "BPF_ATOMIC_ADD = 0x00"
definition BPF_ATOMIC_OR :: u32 where "BPF_ATOMIC_OR = 0x40"
definition BPF_ATOMIC_AND :: u32 where "BPF_ATOMIC_AND = 0x50"
definition BPF_ATOMIC_XOR :: u32 where "BPF_ATOMIC_XOR = 0xa0"
definition BPF_ATOMIC_FETCH :: u32 where "BPF_ATOMIC_FETCH = 0x01"
definition BPF_ATOMIC_XCHG :: u32 where "BPF_ATOMIC_XCHG = 0xe0 OR 0x01"
definition BPF_ATOMIC_CMPXCHG :: u32 where "BPF_ATOMIC_CMPXCHG = 0xf0 OR 0x01"

subsection \<open>Composite opcodes: ALU32\<close>

definition ADD32_IMM :: u8 where "ADD32_IMM = BPF_ALU OR BPF_K OR BPF_ADD"
definition ADD32_REG :: u8 where "ADD32_REG = BPF_ALU OR BPF_X OR BPF_ADD"
definition SUB32_IMM :: u8 where "SUB32_IMM = BPF_ALU OR BPF_K OR BPF_SUB"
definition SUB32_REG :: u8 where "SUB32_REG = BPF_ALU OR BPF_X OR BPF_SUB"
definition MUL32_IMM :: u8 where "MUL32_IMM = BPF_ALU OR BPF_K OR BPF_MUL"
definition MUL32_REG :: u8 where "MUL32_REG = BPF_ALU OR BPF_X OR BPF_MUL"
definition DIV32_IMM :: u8 where "DIV32_IMM = BPF_ALU OR BPF_K OR BPF_DIV"
definition DIV32_REG :: u8 where "DIV32_REG = BPF_ALU OR BPF_X OR BPF_DIV"
definition OR32_IMM :: u8 where "OR32_IMM = BPF_ALU OR BPF_K OR BPF_OR"
definition OR32_REG :: u8 where "OR32_REG = BPF_ALU OR BPF_X OR BPF_OR"
definition AND32_IMM :: u8 where "AND32_IMM = BPF_ALU OR BPF_K OR BPF_AND"
definition AND32_REG :: u8 where "AND32_REG = BPF_ALU OR BPF_X OR BPF_AND"
definition LSH32_IMM :: u8 where "LSH32_IMM = BPF_ALU OR BPF_K OR BPF_LSH"
definition LSH32_REG :: u8 where "LSH32_REG = BPF_ALU OR BPF_X OR BPF_LSH"
definition RSH32_IMM :: u8 where "RSH32_IMM = BPF_ALU OR BPF_K OR BPF_RSH"
definition RSH32_REG :: u8 where "RSH32_REG = BPF_ALU OR BPF_X OR BPF_RSH"
definition NEG32 :: u8 where "NEG32 = BPF_ALU OR BPF_K OR BPF_NEG"
definition MOD32_IMM :: u8 where "MOD32_IMM = BPF_ALU OR BPF_K OR BPF_MOD"
definition MOD32_REG :: u8 where "MOD32_REG = BPF_ALU OR BPF_X OR BPF_MOD"
definition XOR32_IMM :: u8 where "XOR32_IMM = BPF_ALU OR BPF_K OR BPF_XOR"
definition XOR32_REG :: u8 where "XOR32_REG = BPF_ALU OR BPF_X OR BPF_XOR"
definition MOV32_IMM :: u8 where "MOV32_IMM = BPF_ALU OR BPF_K OR BPF_MOV"
definition MOV32_REG :: u8 where "MOV32_REG = BPF_ALU OR BPF_X OR BPF_MOV"
definition ARSH32_IMM :: u8 where "ARSH32_IMM = BPF_ALU OR BPF_K OR BPF_ARSH"
definition ARSH32_REG :: u8 where "ARSH32_REG = BPF_ALU OR BPF_X OR BPF_ARSH"
definition LE :: u8 where "LE = BPF_ALU OR BPF_K OR BPF_END"
definition BE :: u8 where "BE = BPF_ALU OR BPF_X OR BPF_END"
definition BSWAP :: u8 where "BSWAP = BPF_ALU64 OR BPF_K OR BPF_END"

subsection \<open>Composite opcodes: ALU64\<close>

definition ADD64_IMM :: u8 where "ADD64_IMM = BPF_ALU64 OR BPF_K OR BPF_ADD"
definition ADD64_REG :: u8 where "ADD64_REG = BPF_ALU64 OR BPF_X OR BPF_ADD"
definition SUB64_IMM :: u8 where "SUB64_IMM = BPF_ALU64 OR BPF_K OR BPF_SUB"
definition SUB64_REG :: u8 where "SUB64_REG = BPF_ALU64 OR BPF_X OR BPF_SUB"
definition MUL64_IMM :: u8 where "MUL64_IMM = BPF_ALU64 OR BPF_K OR BPF_MUL"
definition MUL64_REG :: u8 where "MUL64_REG = BPF_ALU64 OR BPF_X OR BPF_MUL"
definition DIV64_IMM :: u8 where "DIV64_IMM = BPF_ALU64 OR BPF_K OR BPF_DIV"
definition DIV64_REG :: u8 where "DIV64_REG = BPF_ALU64 OR BPF_X OR BPF_DIV"
definition OR64_IMM :: u8 where "OR64_IMM = BPF_ALU64 OR BPF_K OR BPF_OR"
definition OR64_REG :: u8 where "OR64_REG = BPF_ALU64 OR BPF_X OR BPF_OR"
definition AND64_IMM :: u8 where "AND64_IMM = BPF_ALU64 OR BPF_K OR BPF_AND"
definition AND64_REG :: u8 where "AND64_REG = BPF_ALU64 OR BPF_X OR BPF_AND"
definition LSH64_IMM :: u8 where "LSH64_IMM = BPF_ALU64 OR BPF_K OR BPF_LSH"
definition LSH64_REG :: u8 where "LSH64_REG = BPF_ALU64 OR BPF_X OR BPF_LSH"
definition RSH64_IMM :: u8 where "RSH64_IMM = BPF_ALU64 OR BPF_K OR BPF_RSH"
definition RSH64_REG :: u8 where "RSH64_REG = BPF_ALU64 OR BPF_X OR BPF_RSH"
definition NEG64 :: u8 where "NEG64 = BPF_ALU64 OR BPF_K OR BPF_NEG"
definition MOD64_IMM :: u8 where "MOD64_IMM = BPF_ALU64 OR BPF_K OR BPF_MOD"
definition MOD64_REG :: u8 where "MOD64_REG = BPF_ALU64 OR BPF_X OR BPF_MOD"
definition XOR64_IMM :: u8 where "XOR64_IMM = BPF_ALU64 OR BPF_K OR BPF_XOR"
definition XOR64_REG :: u8 where "XOR64_REG = BPF_ALU64 OR BPF_X OR BPF_XOR"
definition MOV64_IMM :: u8 where "MOV64_IMM = BPF_ALU64 OR BPF_K OR BPF_MOV"
definition MOV64_REG :: u8 where "MOV64_REG = BPF_ALU64 OR BPF_X OR BPF_MOV"
definition ARSH64_IMM :: u8 where "ARSH64_IMM = BPF_ALU64 OR BPF_K OR BPF_ARSH"
definition ARSH64_REG :: u8 where "ARSH64_REG = BPF_ALU64 OR BPF_X OR BPF_ARSH"

subsection \<open>Composite opcodes: load and store\<close>

definition LD_DW_IMM :: u8 where "LD_DW_IMM = BPF_LD OR BPF_IMM OR BPF_DW"
definition LD_B_REG :: u8 where "LD_B_REG = BPF_LDX OR BPF_MEM OR BPF_B"
definition LD_H_REG :: u8 where "LD_H_REG = BPF_LDX OR BPF_MEM OR BPF_H"
definition LD_W_REG :: u8 where "LD_W_REG = BPF_LDX OR BPF_MEM OR BPF_W"
definition LD_DW_REG :: u8 where "LD_DW_REG = BPF_LDX OR BPF_MEM OR BPF_DW"
definition LDSX_B_REG :: u8 where "LDSX_B_REG = BPF_LDX OR BPF_MEMSX OR BPF_B"
definition LDSX_H_REG :: u8 where "LDSX_H_REG = BPF_LDX OR BPF_MEMSX OR BPF_H"
definition LDSX_W_REG :: u8 where "LDSX_W_REG = BPF_LDX OR BPF_MEMSX OR BPF_W"
definition ST_B_IMM :: u8 where "ST_B_IMM = BPF_ST OR BPF_MEM OR BPF_B"
definition ST_H_IMM :: u8 where "ST_H_IMM = BPF_ST OR BPF_MEM OR BPF_H"
definition ST_W_IMM :: u8 where "ST_W_IMM = BPF_ST OR BPF_MEM OR BPF_W"
definition ST_DW_IMM :: u8 where "ST_DW_IMM = BPF_ST OR BPF_MEM OR BPF_DW"
definition ST_B_REG :: u8 where "ST_B_REG = BPF_STX OR BPF_MEM OR BPF_B"
definition ST_H_REG :: u8 where "ST_H_REG = BPF_STX OR BPF_MEM OR BPF_H"
definition ST_W_REG :: u8 where "ST_W_REG = BPF_STX OR BPF_MEM OR BPF_W"
definition ST_DW_REG :: u8 where "ST_DW_REG = BPF_STX OR BPF_MEM OR BPF_DW"
definition ST_W_ATOMIC :: u8 where "ST_W_ATOMIC = BPF_STX OR BPF_ATOMIC OR BPF_W"
definition ST_DW_ATOMIC :: u8 where "ST_DW_ATOMIC = BPF_STX OR BPF_ATOMIC OR BPF_DW"
definition LD_ABS_B :: u8 where "LD_ABS_B = BPF_LD OR BPF_ABS OR BPF_B"
definition LD_ABS_H :: u8 where "LD_ABS_H = BPF_LD OR BPF_ABS OR BPF_H"
definition LD_ABS_W :: u8 where "LD_ABS_W = BPF_LD OR BPF_ABS OR BPF_W"
definition LD_ABS_DW :: u8 where "LD_ABS_DW = BPF_LD OR BPF_ABS OR BPF_DW"
definition LD_IND_B :: u8 where "LD_IND_B = BPF_LD OR BPF_IND OR BPF_B"
definition LD_IND_H :: u8 where "LD_IND_H = BPF_LD OR BPF_IND OR BPF_H"
definition LD_IND_W :: u8 where "LD_IND_W = BPF_LD OR BPF_IND OR BPF_W"
definition LD_IND_DW :: u8 where "LD_IND_DW = BPF_LD OR BPF_IND OR BPF_DW"

subsection \<open>Composite opcodes: JMP\<close>

definition JA :: u8 where "JA = BPF_JMP OR BPF_JA"
definition JEQ_IMM :: u8 where "JEQ_IMM = BPF_JMP OR BPF_K OR BPF_JEQ"
definition JEQ_REG :: u8 where "JEQ_REG = BPF_JMP OR BPF_X OR BPF_JEQ"
definition JGT_IMM :: u8 where "JGT_IMM = BPF_JMP OR BPF_K OR BPF_JGT"
definition JGT_REG :: u8 where "JGT_REG = BPF_JMP OR BPF_X OR BPF_JGT"
definition JGE_IMM :: u8 where "JGE_IMM = BPF_JMP OR BPF_K OR BPF_JGE"
definition JGE_REG :: u8 where "JGE_REG = BPF_JMP OR BPF_X OR BPF_JGE"
definition JLT_IMM :: u8 where "JLT_IMM = BPF_JMP OR BPF_K OR BPF_JLT"
definition JLT_REG :: u8 where "JLT_REG = BPF_JMP OR BPF_X OR BPF_JLT"
definition JLE_IMM :: u8 where "JLE_IMM = BPF_JMP OR BPF_K OR BPF_JLE"
definition JLE_REG :: u8 where "JLE_REG = BPF_JMP OR BPF_X OR BPF_JLE"
definition JSET_IMM :: u8 where "JSET_IMM = BPF_JMP OR BPF_K OR BPF_JSET"
definition JSET_REG :: u8 where "JSET_REG = BPF_JMP OR BPF_X OR BPF_JSET"
definition JNE_IMM :: u8 where "JNE_IMM = BPF_JMP OR BPF_K OR BPF_JNE"
definition JNE_REG :: u8 where "JNE_REG = BPF_JMP OR BPF_X OR BPF_JNE"
definition JSGT_IMM :: u8 where "JSGT_IMM = BPF_JMP OR BPF_K OR BPF_JSGT"
definition JSGT_REG :: u8 where "JSGT_REG = BPF_JMP OR BPF_X OR BPF_JSGT"
definition JSGE_IMM :: u8 where "JSGE_IMM = BPF_JMP OR BPF_K OR BPF_JSGE"
definition JSGE_REG :: u8 where "JSGE_REG = BPF_JMP OR BPF_X OR BPF_JSGE"
definition JSLT_IMM :: u8 where "JSLT_IMM = BPF_JMP OR BPF_K OR BPF_JSLT"
definition JSLT_REG :: u8 where "JSLT_REG = BPF_JMP OR BPF_X OR BPF_JSLT"
definition JSLE_IMM :: u8 where "JSLE_IMM = BPF_JMP OR BPF_K OR BPF_JSLE"
definition JSLE_REG :: u8 where "JSLE_REG = BPF_JMP OR BPF_X OR BPF_JSLE"
definition CALL :: u8 where "CALL = BPF_JMP OR BPF_K OR BPF_CALL"
definition EXIT :: u8 where "EXIT = BPF_JMP OR BPF_K OR BPF_EXIT"

subsection \<open>Composite opcodes: JMP32\<close>

definition JA32 :: u8 where "JA32 = BPF_JMP32 OR BPF_K OR BPF_JA"
definition JEQ_IMM32 :: u8 where "JEQ_IMM32 = BPF_JMP32 OR BPF_K OR BPF_JEQ"
definition JEQ_REG32 :: u8 where "JEQ_REG32 = BPF_JMP32 OR BPF_X OR BPF_JEQ"
definition JGT_IMM32 :: u8 where "JGT_IMM32 = BPF_JMP32 OR BPF_K OR BPF_JGT"
definition JGT_REG32 :: u8 where "JGT_REG32 = BPF_JMP32 OR BPF_X OR BPF_JGT"
definition JGE_IMM32 :: u8 where "JGE_IMM32 = BPF_JMP32 OR BPF_K OR BPF_JGE"
definition JGE_REG32 :: u8 where "JGE_REG32 = BPF_JMP32 OR BPF_X OR BPF_JGE"
definition JLT_IMM32 :: u8 where "JLT_IMM32 = BPF_JMP32 OR BPF_K OR BPF_JLT"
definition JLT_REG32 :: u8 where "JLT_REG32 = BPF_JMP32 OR BPF_X OR BPF_JLT"
definition JLE_IMM32 :: u8 where "JLE_IMM32 = BPF_JMP32 OR BPF_K OR BPF_JLE"
definition JLE_REG32 :: u8 where "JLE_REG32 = BPF_JMP32 OR BPF_X OR BPF_JLE"
definition JSET_IMM32 :: u8 where "JSET_IMM32 = BPF_JMP32 OR BPF_K OR BPF_JSET"
definition JSET_REG32 :: u8 where "JSET_REG32 = BPF_JMP32 OR BPF_X OR BPF_JSET"
definition JNE_IMM32 :: u8 where "JNE_IMM32 = BPF_JMP32 OR BPF_K OR BPF_JNE"
definition JNE_REG32 :: u8 where "JNE_REG32 = BPF_JMP32 OR BPF_X OR BPF_JNE"
definition JSGT_IMM32 :: u8 where "JSGT_IMM32 = BPF_JMP32 OR BPF_K OR BPF_JSGT"
definition JSGT_REG32 :: u8 where "JSGT_REG32 = BPF_JMP32 OR BPF_X OR BPF_JSGT"
definition JSGE_IMM32 :: u8 where "JSGE_IMM32 = BPF_JMP32 OR BPF_K OR BPF_JSGE"
definition JSGE_REG32 :: u8 where "JSGE_REG32 = BPF_JMP32 OR BPF_X OR BPF_JSGE"
definition JSLT_IMM32 :: u8 where "JSLT_IMM32 = BPF_JMP32 OR BPF_K OR BPF_JSLT"
definition JSLT_REG32 :: u8 where "JSLT_REG32 = BPF_JMP32 OR BPF_X OR BPF_JSLT"
definition JSLE_IMM32 :: u8 where "JSLE_IMM32 = BPF_JMP32 OR BPF_K OR BPF_JSLE"
definition JSLE_REG32 :: u8 where "JSLE_REG32 = BPF_JMP32 OR BPF_X OR BPF_JSLE"

subsection \<open>Masks\<close>

definition BPF_CLS_MASK :: u8 where "BPF_CLS_MASK = 0x07"
definition BPF_ALU_OP_MASK :: u8 where "BPF_ALU_OP_MASK = 0xf0"
section \<open>Values and distinctness\<close>

lemma ebpf_values [ebpf_consts]:
  "BPF_LD = 0"
  "BPF_LDX = 1"
  "BPF_ST = 2"
  "BPF_STX = 3"
  "BPF_ALU = 4"
  "BPF_JMP = 5"
  "BPF_JMP32 = 6"
  "BPF_ALU64 = 7"
  "BPF_W = 0"
  "BPF_H = 8"
  "BPF_B = 16"
  "BPF_DW = 24"
  "BPF_IMM = 0"
  "BPF_ABS = 32"
  "BPF_IND = 64"
  "BPF_MEM = 96"
  "BPF_MEMSX = 128"
  "BPF_ATOMIC = 192"
  "BPF_K = 0"
  "BPF_X = 8"
  "BPF_ADD = 0"
  "BPF_SUB = 16"
  "BPF_MUL = 32"
  "BPF_DIV = 48"
  "BPF_OR = 64"
  "BPF_AND = 80"
  "BPF_LSH = 96"
  "BPF_RSH = 112"
  "BPF_NEG = 128"
  "BPF_MOD = 144"
  "BPF_XOR = 160"
  "BPF_MOV = 176"
  "BPF_ARSH = 192"
  "BPF_END = 208"
  "BPF_JA = 0"
  "BPF_JEQ = 16"
  "BPF_JGT = 32"
  "BPF_JGE = 48"
  "BPF_JSET = 64"
  "BPF_JNE = 80"
  "BPF_JSGT = 96"
  "BPF_JSGE = 112"
  "BPF_CALL = 128"
  "BPF_EXIT = 144"
  "BPF_JLT = 160"
  "BPF_JLE = 176"
  "BPF_JSLT = 192"
  "BPF_JSLE = 208"
  "BPF_ATOMIC_ADD = 0"
  "BPF_ATOMIC_OR = 64"
  "BPF_ATOMIC_AND = 80"
  "BPF_ATOMIC_XOR = 160"
  "BPF_ATOMIC_FETCH = 1"
  "BPF_ATOMIC_XCHG = 225"
  "BPF_ATOMIC_CMPXCHG = 241"
  "ADD32_IMM = 4"
  "ADD32_REG = 12"
  "SUB32_IMM = 20"
  "SUB32_REG = 28"
  "MUL32_IMM = 36"
  "MUL32_REG = 44"
  "DIV32_IMM = 52"
  "DIV32_REG = 60"
  "OR32_IMM = 68"
  "OR32_REG = 76"
  "AND32_IMM = 84"
  "AND32_REG = 92"
  "LSH32_IMM = 100"
  "LSH32_REG = 108"
  "RSH32_IMM = 116"
  "RSH32_REG = 124"
  "NEG32 = 132"
  "MOD32_IMM = 148"
  "MOD32_REG = 156"
  "XOR32_IMM = 164"
  "XOR32_REG = 172"
  "MOV32_IMM = 180"
  "MOV32_REG = 188"
  "ARSH32_IMM = 196"
  "ARSH32_REG = 204"
  "LE = 212"
  "BE = 220"
  "BSWAP = 215"
  "ADD64_IMM = 7"
  "ADD64_REG = 15"
  "SUB64_IMM = 23"
  "SUB64_REG = 31"
  "MUL64_IMM = 39"
  "MUL64_REG = 47"
  "DIV64_IMM = 55"
  "DIV64_REG = 63"
  "OR64_IMM = 71"
  "OR64_REG = 79"
  "AND64_IMM = 87"
  "AND64_REG = 95"
  "LSH64_IMM = 103"
  "LSH64_REG = 111"
  "RSH64_IMM = 119"
  "RSH64_REG = 127"
  "NEG64 = 135"
  "MOD64_IMM = 151"
  "MOD64_REG = 159"
  "XOR64_IMM = 167"
  "XOR64_REG = 175"
  "MOV64_IMM = 183"
  "MOV64_REG = 191"
  "ARSH64_IMM = 199"
  "ARSH64_REG = 207"
  "LD_DW_IMM = 24"
  "LD_B_REG = 113"
  "LD_H_REG = 105"
  "LD_W_REG = 97"
  "LD_DW_REG = 121"
  "LDSX_B_REG = 145"
  "LDSX_H_REG = 137"
  "LDSX_W_REG = 129"
  "ST_B_IMM = 114"
  "ST_H_IMM = 106"
  "ST_W_IMM = 98"
  "ST_DW_IMM = 122"
  "ST_B_REG = 115"
  "ST_H_REG = 107"
  "ST_W_REG = 99"
  "ST_DW_REG = 123"
  "ST_W_ATOMIC = 195"
  "ST_DW_ATOMIC = 219"
  "LD_ABS_B = 48"
  "LD_ABS_H = 40"
  "LD_ABS_W = 32"
  "LD_ABS_DW = 56"
  "LD_IND_B = 80"
  "LD_IND_H = 72"
  "LD_IND_W = 64"
  "LD_IND_DW = 88"
  "JA = 5"
  "JEQ_IMM = 21"
  "JEQ_REG = 29"
  "JGT_IMM = 37"
  "JGT_REG = 45"
  "JGE_IMM = 53"
  "JGE_REG = 61"
  "JLT_IMM = 165"
  "JLT_REG = 173"
  "JLE_IMM = 181"
  "JLE_REG = 189"
  "JSET_IMM = 69"
  "JSET_REG = 77"
  "JNE_IMM = 85"
  "JNE_REG = 93"
  "JSGT_IMM = 101"
  "JSGT_REG = 109"
  "JSGE_IMM = 117"
  "JSGE_REG = 125"
  "JSLT_IMM = 197"
  "JSLT_REG = 205"
  "JSLE_IMM = 213"
  "JSLE_REG = 221"
  "CALL = 133"
  "EXIT = 149"
  "JA32 = 6"
  "JEQ_IMM32 = 22"
  "JEQ_REG32 = 30"
  "JGT_IMM32 = 38"
  "JGT_REG32 = 46"
  "JGE_IMM32 = 54"
  "JGE_REG32 = 62"
  "JLT_IMM32 = 166"
  "JLT_REG32 = 174"
  "JLE_IMM32 = 182"
  "JLE_REG32 = 190"
  "JSET_IMM32 = 70"
  "JSET_REG32 = 78"
  "JNE_IMM32 = 86"
  "JNE_REG32 = 94"
  "JSGT_IMM32 = 102"
  "JSGT_REG32 = 110"
  "JSGE_IMM32 = 118"
  "JSGE_REG32 = 126"
  "JSLT_IMM32 = 198"
  "JSLT_REG32 = 206"
  "JSLE_IMM32 = 214"
  "JSLE_REG32 = 222"
  "BPF_CLS_MASK = 7"
  "BPF_ALU_OP_MASK = 240"
  by (simp_all add: BPF_LD_def BPF_LDX_def BPF_ST_def BPF_STX_def BPF_ALU_def BPF_JMP_def BPF_JMP32_def BPF_ALU64_def BPF_W_def BPF_H_def BPF_B_def BPF_DW_def BPF_IMM_def BPF_ABS_def BPF_IND_def BPF_MEM_def BPF_MEMSX_def BPF_ATOMIC_def BPF_K_def BPF_X_def BPF_ADD_def BPF_SUB_def BPF_MUL_def BPF_DIV_def BPF_OR_def BPF_AND_def BPF_LSH_def BPF_RSH_def BPF_NEG_def BPF_MOD_def BPF_XOR_def BPF_MOV_def BPF_ARSH_def BPF_END_def BPF_JA_def BPF_JEQ_def BPF_JGT_def BPF_JGE_def BPF_JSET_def BPF_JNE_def BPF_JSGT_def BPF_JSGE_def BPF_CALL_def BPF_EXIT_def BPF_JLT_def BPF_JLE_def BPF_JSLT_def BPF_JSLE_def BPF_ATOMIC_ADD_def BPF_ATOMIC_OR_def BPF_ATOMIC_AND_def BPF_ATOMIC_XOR_def BPF_ATOMIC_FETCH_def BPF_ATOMIC_XCHG_def BPF_ATOMIC_CMPXCHG_def ADD32_IMM_def ADD32_REG_def SUB32_IMM_def SUB32_REG_def MUL32_IMM_def MUL32_REG_def DIV32_IMM_def DIV32_REG_def OR32_IMM_def OR32_REG_def AND32_IMM_def AND32_REG_def LSH32_IMM_def LSH32_REG_def RSH32_IMM_def RSH32_REG_def NEG32_def MOD32_IMM_def MOD32_REG_def XOR32_IMM_def XOR32_REG_def MOV32_IMM_def MOV32_REG_def ARSH32_IMM_def ARSH32_REG_def LE_def BE_def BSWAP_def ADD64_IMM_def ADD64_REG_def SUB64_IMM_def SUB64_REG_def MUL64_IMM_def MUL64_REG_def DIV64_IMM_def DIV64_REG_def OR64_IMM_def OR64_REG_def AND64_IMM_def AND64_REG_def LSH64_IMM_def LSH64_REG_def RSH64_IMM_def RSH64_REG_def NEG64_def MOD64_IMM_def MOD64_REG_def XOR64_IMM_def XOR64_REG_def MOV64_IMM_def MOV64_REG_def ARSH64_IMM_def ARSH64_REG_def LD_DW_IMM_def LD_B_REG_def LD_H_REG_def LD_W_REG_def LD_DW_REG_def LDSX_B_REG_def LDSX_H_REG_def LDSX_W_REG_def ST_B_IMM_def ST_H_IMM_def ST_W_IMM_def ST_DW_IMM_def ST_B_REG_def ST_H_REG_def ST_W_REG_def ST_DW_REG_def ST_W_ATOMIC_def ST_DW_ATOMIC_def LD_ABS_B_def LD_ABS_H_def LD_ABS_W_def LD_ABS_DW_def LD_IND_B_def LD_IND_H_def LD_IND_W_def LD_IND_DW_def JA_def JEQ_IMM_def JEQ_REG_def JGT_IMM_def JGT_REG_def JGE_IMM_def JGE_REG_def JLT_IMM_def JLT_REG_def JLE_IMM_def JLE_REG_def JSET_IMM_def JSET_REG_def JNE_IMM_def JNE_REG_def JSGT_IMM_def JSGT_REG_def JSGE_IMM_def JSGE_REG_def JSLT_IMM_def JSLT_REG_def JSLE_IMM_def JSLE_REG_def CALL_def EXIT_def JA32_def JEQ_IMM32_def JEQ_REG32_def JGT_IMM32_def JGT_REG32_def JGE_IMM32_def JGE_REG32_def JLT_IMM32_def JLT_REG32_def JLE_IMM32_def JLE_REG32_def JSET_IMM32_def JSET_REG32_def JNE_IMM32_def JNE_REG32_def JSGT_IMM32_def JSGT_REG32_def JSGE_IMM32_def JSGE_REG32_def JSLT_IMM32_def JSLT_REG32_def JSLE_IMM32_def JSLE_REG32_def BPF_CLS_MASK_def BPF_ALU_OP_MASK_def)

lemma ebpf_sizes [ebpf_consts]:
  "INSN_SIZE = 8" "MAX_CALL_DEPTH = 8" "STACK_SIZE_PER_FRAME = 512" "STACK_SIZE = 4096"
  by (simp_all add: INSN_SIZE_def MAX_CALL_DEPTH_def STACK_SIZE_PER_FRAME_def STACK_SIZE_def)

definition all_opcodes :: "u8 list" where
  "all_opcodes = [ADD32_IMM, ADD32_REG, SUB32_IMM, SUB32_REG, MUL32_IMM, MUL32_REG, DIV32_IMM, DIV32_REG,
     OR32_IMM, OR32_REG, AND32_IMM, AND32_REG, LSH32_IMM, LSH32_REG, RSH32_IMM, RSH32_REG,
     NEG32, MOD32_IMM, MOD32_REG, XOR32_IMM, XOR32_REG, MOV32_IMM, MOV32_REG, ARSH32_IMM,
     ARSH32_REG, LE, BE, BSWAP, ADD64_IMM, ADD64_REG, SUB64_IMM, SUB64_REG,
     MUL64_IMM, MUL64_REG, DIV64_IMM, DIV64_REG, OR64_IMM, OR64_REG, AND64_IMM, AND64_REG,
     LSH64_IMM, LSH64_REG, RSH64_IMM, RSH64_REG, NEG64, MOD64_IMM, MOD64_REG, XOR64_IMM,
     XOR64_REG, MOV64_IMM, MOV64_REG, ARSH64_IMM, ARSH64_REG, LD_DW_IMM, LD_B_REG, LD_H_REG,
     LD_W_REG, LD_DW_REG, LDSX_B_REG, LDSX_H_REG, LDSX_W_REG, ST_B_IMM, ST_H_IMM, ST_W_IMM,
     ST_DW_IMM, ST_B_REG, ST_H_REG, ST_W_REG, ST_DW_REG, ST_W_ATOMIC, ST_DW_ATOMIC, LD_ABS_B,
     LD_ABS_H, LD_ABS_W, LD_ABS_DW, LD_IND_B, LD_IND_H, LD_IND_W, LD_IND_DW, JA,
     JEQ_IMM, JEQ_REG, JGT_IMM, JGT_REG, JGE_IMM, JGE_REG, JLT_IMM, JLT_REG,
     JLE_IMM, JLE_REG, JSET_IMM, JSET_REG, JNE_IMM, JNE_REG, JSGT_IMM, JSGT_REG,
     JSGE_IMM, JSGE_REG, JSLT_IMM, JSLT_REG, JSLE_IMM, JSLE_REG, CALL, EXIT,
     JA32, JEQ_IMM32, JEQ_REG32, JGT_IMM32, JGT_REG32, JGE_IMM32, JGE_REG32, JLT_IMM32,
     JLT_REG32, JLE_IMM32, JLE_REG32, JSET_IMM32, JSET_REG32, JNE_IMM32, JNE_REG32, JSGT_IMM32,
     JSGT_REG32, JSGE_IMM32, JSGE_REG32, JSLT_IMM32, JSLT_REG32, JSLE_IMM32, JSLE_REG32]"

section \<open>Instruction decoding\<close>

text \<open>\<open>off\<close> and \<open>imm\<close> hold the two's complement of the source's \<open>i16\<close> and \<open>i32\<close>.\<close>

record insn =
  i_opc :: u8
  i_dst :: u8
  i_src :: u8
  i_off :: u16
  i_imm :: u32

text \<open>The slice \<open>&prog[off..off + INSN_SIZE]\<close> panics when the program is too short: \<open>None\<close>.\<close>

definition get_insn :: "bytes \<Rightarrow> nat \<Rightarrow> insn option" where
  "get_insn prog idx =
     (let o' = idx * INSN_SIZE; b = take INSN_SIZE (drop o' prog) in
      if o' + INSN_SIZE \<le> length prog then
        Some \<lparr>i_opc = b ! 0, i_dst = b ! 1 AND 0x0f, i_src = drop_bit 4 (b ! 1) AND 0x0f,
              i_off = from_le_bytes [b ! 2, b ! 3],
              i_imm = from_le_bytes [b ! 4, b ! 5, b ! 6, b ! 7]\<rparr>
      else None)"

text \<open>The slot layout of RFC 9669, section 3: the reference \<open>get_insn\<close> is checked against.\<close>

definition encode_insn :: "insn \<Rightarrow> bytes" where
  "encode_insn i =
     [i_opc i, i_dst i OR push_bit 4 (i_src i)] @ to_le_bytes 2 (i_off i) @ to_le_bytes 4 (i_imm i)"

definition encode_prog :: "insn list \<Rightarrow> bytes" where
  "encode_prog is = concat (map encode_insn is)"

definition insn_ok :: "insn \<Rightarrow> bool" where
  "insn_ok i \<longleftrightarrow> i_dst i < 16 \<and> i_src i < 16"

lemma length_encode_insn [simp]: "length (encode_insn i) = 8"
  by (simp add: encode_insn_def)

lemma length_encode_prog [simp]: "length (encode_prog is) = 8 * length is"
  by (induction "is") (simp_all add: encode_prog_def)

lemma get_insn_Some: "Suc idx * 8 \<le> length prog \<Longrightarrow> \<exists>i. get_insn prog idx = Some i"
  by (simp add: get_insn_def Let_def ebpf_consts)

lemma drop_encode_prog:
  "idx < length is \<Longrightarrow>
     drop (idx * 8) (encode_prog is) = encode_insn (is ! idx) @ encode_prog (drop (Suc idx) is)"
proof (induction "is" arbitrary: idx)
  case Nil
  then show ?case by simp
next
  case (Cons i "is")
  then show ?case
    by (cases idx) (simp_all add: encode_prog_def)
qed

lemma mask_15: "x AND 15 = take_bit 4 x" for x :: u8
  by (simp add: take_bit_eq_mask mask_eq_exp_minus_1)

lemma take_bit_4_small: "x < 16 \<Longrightarrow> take_bit 4 x = x" for x :: u8
  by (rule word_unat_eq_iff [THEN iffD2])
    (simp add: unsigned_take_bit_eq take_bit_nat_eq_self_iff word_less_nat_alt)

lemma nibbles:
  fixes d s :: u8
  assumes "d < 16" and "s < 16"
  shows "(d OR push_bit 4 s) AND 15 = d" and "drop_bit 4 (d OR push_bit 4 s) AND 15 = s"
proof -
  have d: "take_bit 4 d = d" and s: "take_bit 4 s = s"
    using assms by (simp_all add: take_bit_4_small)
  show "(d OR push_bit 4 s) AND 15 = d"
    unfolding mask_15 by (simp only: take_bit_or take_bit_push_bit d) simp
  have "drop_bit 4 d = 0"
    using d by (simp only: take_bit_eq_self_iff_drop_bit_eq_0)
  moreover have "drop_bit 4 (push_bit 4 s) = s"
  proof (rule bit_word_eqI)
    fix n assume n: "n < LENGTH(8)"
    have "n < 4" if "bit s n"
      using that s bit_take_bit_iff [of 4 s n] by simp
    then show "bit (drop_bit 4 (push_bit 4 s)) n = bit s n"
      using n by (auto simp: bit_drop_bit_eq bit_push_bit_iff)
  qed
  ultimately show "drop_bit 4 (d OR push_bit 4 s) AND 15 = s"
    unfolding mask_15 by (simp add: s)
qed

text \<open>Decoding undoes the reference slot layout, at every index of a program.\<close>

lemma get_insn_encode_prog:
  assumes "idx < length is" and "insn_ok (is ! idx)"
  shows "get_insn (encode_prog is) idx = Some (is ! idx)"
proof -
  let ?i = "is ! idx"
  have ok: "i_dst ?i < 16" "i_src ?i < 16"
    using assms(2) by (simp_all add: insn_ok_def)
  have off: "from_le_bytes [to_le_bytes 2 (i_off ?i) ! 0, to_le_bytes 2 (i_off ?i) ! Suc 0] = i_off ?i"
    using from_to_le_bytes [of 2 "i_off ?i"] by (simp add: numeral_2_eq_2)
  have imm: "from_le_bytes [to_le_bytes 4 (i_imm ?i) ! 0, to_le_bytes 4 (i_imm ?i) ! Suc 0,
      to_le_bytes 4 (i_imm ?i) ! 2, to_le_bytes 4 (i_imm ?i) ! 3] = i_imm ?i"
    using from_to_le_bytes [of 4 "i_imm ?i"] by (simp add: numeral_eq_Suc)
  have "idx * 8 + 8 \<le> 8 * length is"
    using assms(1) by simp
  moreover have "take 8 (drop (idx * 8) (encode_prog is)) = encode_insn ?i"
    using assms(1) by (simp add: drop_encode_prog)
  ultimately show ?thesis
    using off imm
    by (simp add: get_insn_def Let_def ebpf_consts encode_insn_def nibbles [OF ok] nth_append
        nth_Cons' del: push_bit_numeral drop_bit_or)
qed

end
