(* ===== verification/Bpf_Memory.thy ===== *)
theory Bpf_Memory
  imports Ebpf
begin

unbundle bit_operations_syntax

text \<open>
  \<open>crates/sonde-bpf/src/interpreter.rs\<close>, first half: interpreter errors, memory regions, tagged
  registers, the spill tracker that carries region tags through the stack, call frames, and the
  choke-point functions through which every load, store and atomic operation of a BPF program goes.
  Memory is a total function from 64-bit addresses to bytes: the raw pointers of the source are
  addresses in it, and \<open>read_unaligned\<close>/\<open>write_unaligned\<close> are little-endian, as on
  every target of the crate. \<open>usize\<close> has 64 bits.
\<close>

section \<open>Errors, regions, tagged registers\<close>

datatype bpf_error =
    OutOfBounds nat
  | UnknownOpcode nat u8
  | UnknownHelper nat u32
  | CallDepthExceeded nat
  | MemoryAccessViolation nat u64 nat
  | NonDereferenceableAccess nat
  | InvalidHelperArgument nat u8
  | ReadOnlyWrite nat
  | InvalidPointerArithmetic nat
  | InvalidMapIndex nat u32
  | InstructionBudgetExceeded nat

datatype region_tag = Stack | Context | Memory | MapValue u32 | MapDescriptor u32

record region =
  rtag :: region_tag
  rbase :: u64
  rend :: u64

record tagged_reg =
  tvalue :: u64
  tregion :: "region option"

definition scalar :: "u64 \<Rightarrow> tagged_reg" where
  "scalar v = \<lparr>tvalue = v, tregion = None\<rparr>"

definition zeroed_reg :: tagged_reg where
  "zeroed_reg = \<lparr>tvalue = 0, tregion = None\<rparr>"

fun is_descriptor :: "region_tag \<Rightarrow> bool" where
  "is_descriptor (MapDescriptor _) = True"
| "is_descriptor _ = False"

definition stack_tagged :: "tagged_reg \<Rightarrow> bool" where
  "stack_tagged r = (case tregion r of Some g \<Rightarrow> rtag g = Stack | None \<Rightarrow> False)"

definition descriptor_tagged :: "tagged_reg \<Rightarrow> bool" where
  "descriptor_tagged r = (case tregion r of Some g \<Rightarrow> is_descriptor (rtag g) | None \<Rightarrow> False)"

lemma scalar_simps [simp]: "tvalue (scalar v) = v" "tregion (scalar v) = None"
  by (simp_all add: scalar_def)

lemma zeroed_reg_simps [simp]: "tvalue zeroed_reg = 0" "tregion zeroed_reg = None"
  by (simp_all add: zeroed_reg_def)

section \<open>Spill tracker\<close>

definition MAX_SPILL_SLOTS :: nat where "MAX_SPILL_SLOTS = 32"

record spill_entry =
  stack_offset :: u16
  sregion :: region

record spill_tracker =
  bitmap :: "u8 list"
  entries :: "spill_entry list"
  scount :: nat

definition new_spill_tracker :: spill_tracker where
  "new_spill_tracker =
     \<lparr>bitmap = replicate (STACK_SIZE div 64) 0,
      entries = replicate MAX_SPILL_SLOTS
        \<lparr>stack_offset = 0, sregion = \<lparr>rtag = Stack, rbase = 0, rend = 0\<rparr>\<rparr>,
      scount = 0\<rparr>"

text \<open>The index loop \<open>for i in 0..count\<close> of \<open>record_spill\<close> and \<open>check_restore\<close>.\<close>

definition find_entry :: "spill_tracker \<Rightarrow> u16 \<Rightarrow> nat option" where
  "find_entry t o16 = find (\<lambda>i. stack_offset (entries t ! i) = o16) [0..<scount t]"

definition bm_set :: "u8 list \<Rightarrow> nat \<Rightarrow> u8 list" where
  "bm_set bm slot = bm[slot div 8 := bm ! (slot div 8) OR push_bit (slot mod 8) 1]"

definition bm_clear :: "u8 list \<Rightarrow> nat \<Rightarrow> u8 list" where
  "bm_clear bm slot = bm[slot div 8 := bm ! (slot div 8) AND NOT (push_bit (slot mod 8) 1)]"

definition bm_test :: "u8 list \<Rightarrow> nat \<Rightarrow> bool" where
  "bm_test bm slot \<longleftrightarrow> bm ! (slot div 8) AND push_bit (slot mod 8) 1 \<noteq> 0"

definition record_spill :: "spill_tracker \<Rightarrow> u64 \<Rightarrow> u64 \<Rightarrow> region \<Rightarrow> spill_tracker" where
  "record_spill t stack_base addr g =
     (let offset = unat (addr - stack_base); slot = offset div 8 in
      if slot \<ge> STACK_SIZE div 8 then t
      else
        let t1 = t\<lparr>bitmap := bm_set (bitmap t) slot\<rparr>; o16 = of_nat offset in
        case find_entry t1 o16 of
          Some i \<Rightarrow> t1\<lparr>entries := (entries t1)[i := (entries t1 ! i)\<lparr>sregion := g\<rparr>]\<rparr>
        | None \<Rightarrow>
            if scount t1 < MAX_SPILL_SLOTS then
              t1\<lparr>entries := (entries t1)[scount t1 := \<lparr>stack_offset = o16, sregion = g\<rparr>],
                 scount := scount t1 + 1\<rparr>
            else t1\<lparr>bitmap := bm_clear (bitmap t1) slot\<rparr>)"

definition check_restore :: "spill_tracker \<Rightarrow> u64 \<Rightarrow> u64 \<Rightarrow> region option" where
  "check_restore t stack_base addr =
     (let offset = unat (addr - stack_base); slot = offset div 8 in
      if slot \<ge> STACK_SIZE div 8 then None
      else if \<not> bm_test (bitmap t) slot then None
      else map_option (\<lambda>i. sregion (entries t ! i)) (find_entry t (of_nat offset)))"

text \<open>The loop over \<open>first_slot..=last_slot\<close> leaves at the first slot past the stack.\<close>

definition invalidate :: "spill_tracker \<Rightarrow> u64 \<Rightarrow> u64 \<Rightarrow> nat \<Rightarrow> spill_tracker" where
  "invalidate t stack_base addr len =
     (let offset_start = unat (addr - stack_base);
          offset_end = min (offset_start + len) (2 ^ 64 - 1);
          first_slot = offset_start div 8;
          last_slot = (if offset_end = 0 then 0 else (offset_end - 1) div 8)
      in t\<lparr>bitmap := foldl bm_clear (bitmap t)
             (takeWhile (\<lambda>slot. slot < STACK_SIZE div 8) [first_slot..<Suc last_slot])\<rparr>)"

section \<open>Call frames and jumps\<close>

record call_frame =
  saved_regs :: "u64 list"
  saved_regions :: "region option list"
  return_pc :: nat
  frame_size :: u64

definition zeroed_frame :: call_frame where
  "zeroed_frame = \<lparr>saved_regs = replicate 4 0, saved_regions = replicate 4 None,
     return_pc = 0, frame_size = 0\<rparr>"

definition check_jump :: "nat \<Rightarrow> int \<Rightarrow> nat \<Rightarrow> bpf_error + nat" where
  "check_jump pc offset num_insns =
     (let target = int pc + offset in
      if target < 0 \<or> nat target \<ge> num_insns then Inl (OutOfBounds (pc - 1))
      else Inr (nat target))"

section \<open>Choke-point memory access\<close>

type_synonym memory = "u64 \<Rightarrow> u8"

primrec load_le :: "nat \<Rightarrow> memory \<Rightarrow> u64 \<Rightarrow> u64" where
  "load_le 0 m a = 0"
| "load_le (Suc n) m a = ucast (m a) OR push_bit 8 (load_le n m (a + 1))"

primrec store_le :: "nat \<Rightarrow> memory \<Rightarrow> u64 \<Rightarrow> u64 \<Rightarrow> memory" where
  "store_le 0 m a v = m"
| "store_le (Suc n) m a v = store_le n (m(a := ucast v)) (a + 1) (drop_bit 8 v)"

text \<open>The checks that open \<open>mem_load\<close>, \<open>mem_load_sign_extend\<close>, \<open>mem_store\<close> and the atomic
  operations, in the same order in each; the result is the region and the address.\<close>

definition check_access :: "tagged_reg \<Rightarrow> u16 \<Rightarrow> nat \<Rightarrow> nat \<Rightarrow> bpf_error + (region \<times> u64)" where
  "check_access base_reg off n pc =
     (case tregion base_reg of
        None \<Rightarrow> Inl (NonDereferenceableAccess pc)
      | Some g \<Rightarrow>
          if is_descriptor (rtag g) then Inl (NonDereferenceableAccess pc)
          else
            let addr = tvalue base_reg + scast off in
            case checked_add addr (of_nat n) of
              None \<Rightarrow> Inl (MemoryAccessViolation pc addr n)
            | Some end_addr \<Rightarrow>
                if addr < rbase g \<or> end_addr > rend g
                then Inl (MemoryAccessViolation pc addr n)
                else Inr (g, addr))"

definition mem_load :: "nat \<Rightarrow> tagged_reg \<Rightarrow> u16 \<Rightarrow> nat \<Rightarrow> memory \<Rightarrow> bpf_error + u64" where
  "mem_load n base_reg off pc m =
     res_bind (check_access base_reg off n pc) (\<lambda>(g, addr). Inr (load_le n m addr))"

definition mem_load_sign_extend ::
    "nat \<Rightarrow> tagged_reg \<Rightarrow> u16 \<Rightarrow> nat \<Rightarrow> memory \<Rightarrow> bpf_error + u64" where
  "mem_load_sign_extend n base_reg off pc m =
     res_bind (check_access base_reg off n pc) (\<lambda>(g, addr).
       Inr (if n = 1 then scast (ucast (load_le 1 m addr) :: 8 word)
            else if n = 2 then scast (ucast (load_le 2 m addr) :: 16 word)
            else scast (ucast (load_le 4 m addr) :: 32 word)))"

definition mem_store :: "nat \<Rightarrow> tagged_reg \<Rightarrow> u16 \<Rightarrow> u64 \<Rightarrow> nat \<Rightarrow> memory \<Rightarrow> bpf_error + memory" where
  "mem_store n base_reg off val pc m =
     res_bind (check_access base_reg off n pc) (\<lambda>(g, addr).
       if rtag g = Context then Inr m else Inr (store_le n m addr val))"

definition mem_atomic32 ::
    "tagged_reg \<Rightarrow> u16 \<Rightarrow> tagged_reg list \<Rightarrow> nat \<Rightarrow> u32 \<Rightarrow> nat \<Rightarrow> memory
       \<Rightarrow> bpf_error + (tagged_reg list \<times> memory)" where
  "mem_atomic32 base_reg off reg src op pc m =
     res_bind (check_access base_reg off 4 pc) (\<lambda>(g, addr).
       let read_only = (rtag g = Context);
           fetch = (op AND BPF_ATOMIC_FETCH \<noteq> 0);
           base_op = op AND NOT BPF_ATOMIC_FETCH;
           old = ucast (load_le 4 m addr) :: u32;
           sv = ucast (tvalue (reg ! src)) :: u32;
           write = (\<lambda>v :: u32. if read_only then m else store_le 4 m addr (ucast v));
           fetched = (if fetch then reg[src := scalar (ucast old)] else reg)
       in if base_op = BPF_ATOMIC_ADD then Inr (fetched, write (old + sv))
          else if base_op = BPF_ATOMIC_OR then Inr (fetched, write (old OR sv))
          else if base_op = BPF_ATOMIC_AND then Inr (fetched, write (old AND sv))
          else if base_op = BPF_ATOMIC_XOR then Inr (fetched, write (old XOR sv))
          else if base_op = 0xe0 then Inr (reg[src := scalar (ucast old)], write sv)
          else if base_op = 0xf0 then
            Inr (reg[0 := scalar (ucast old)],
                 if old = ucast (tvalue (reg ! 0)) then write sv else m)
          else Inl (UnknownOpcode pc ST_W_ATOMIC))"

definition mem_atomic64 ::
    "tagged_reg \<Rightarrow> u16 \<Rightarrow> tagged_reg list \<Rightarrow> nat \<Rightarrow> u32 \<Rightarrow> nat \<Rightarrow> memory
       \<Rightarrow> bpf_error + (tagged_reg list \<times> memory)" where
  "mem_atomic64 base_reg off reg src op pc m =
     res_bind (check_access base_reg off 8 pc) (\<lambda>(g, addr).
       let read_only = (rtag g = Context);
           fetch = (op AND BPF_ATOMIC_FETCH \<noteq> 0);
           base_op = op AND NOT BPF_ATOMIC_FETCH;
           old = load_le 8 m addr;
           sv = tvalue (reg ! src);
           write = (\<lambda>v :: u64. if read_only then m else store_le 8 m addr v);
           fetched = (if fetch then reg[src := scalar old] else reg)
       in if base_op = BPF_ATOMIC_ADD then Inr (fetched, write (old + sv))
          else if base_op = BPF_ATOMIC_OR then Inr (fetched, write (old OR sv))
          else if base_op = BPF_ATOMIC_AND then Inr (fetched, write (old AND sv))
          else if base_op = BPF_ATOMIC_XOR then Inr (fetched, write (old XOR sv))
          else if base_op = 0xe0 then Inr (reg[src := scalar old], write sv)
          else if base_op = 0xf0 then
            Inr (reg[0 := scalar old],
                 if old = tvalue (reg ! 0) then write sv else m)
          else Inl (UnknownOpcode pc ST_DW_ATOMIC))"

end
