(* ===== verification/Bpf_Machine.thy ===== *)
theory Bpf_Machine
  imports Bpf_Memory
begin

unbundle bit_operations_syntax

text \<open>
  \<open>crates/sonde-bpf/src/interpreter.rs\<close>, second half: \<open>execute_program\<close>. The arguments of the
  call and the addresses of its two buffers are the record \<open>bpf_env\<close>; the mutable locals of the
  interpreter loop are the record \<open>vm\<close>. One iteration of the loop is \<open>bpf_step\<close>; the arms of the
  opcode match are grouped by what they do: \<open>alu32\<close>, \<open>byte_swap\<close> and \<open>alu64\<close> compute the new
  destination register, \<open>jump_cond\<close> decides a branch, and \<open>exec_ld_dw_imm\<close>, \<open>exec_load\<close>,
  \<open>exec_store\<close>, \<open>exec_atomic\<close>, \<open>exec_jump\<close>, \<open>exec_call\<close>, \<open>exec_exit\<close> change the machine.
  Helper functions are code outside this crate: each is a function of its five arguments, of the
  memory and of a host state of arbitrary type. A group returns \<open>None\<close> for an opcode that is not
  its own. \<open>e_overflow_checks\<close> says whether the build panics on arithmetic overflow (debug profile)
  or wraps (release profile): it matters for the three unchecked additions of the loop.
\<close>

section \<open>Arguments and state\<close>

datatype helper_return = RetScalar | MapValueOrNull u8

record 'w helper_descriptor =
  h_id :: u32
  h_func :: "u64 \<Rightarrow> u64 \<Rightarrow> u64 \<Rightarrow> u64 \<Rightarrow> u64 \<Rightarrow> memory \<times> 'w \<Rightarrow> u64 \<times> (memory \<times> 'w)"
  h_ret :: helper_return

record map_region =
  relocated_ptr :: u64
  mr_key_size :: u32
  mr_value_size :: u32
  data_start :: u64
  data_end :: u64

record context_pointer_field =
  cpf_offset :: u16
  cpf_region :: region

record 'w bpf_env =
  e_prog :: bytes
  e_ctx_len :: nat
  e_helpers :: "'w helper_descriptor list"
  e_maps :: "map_region list"
  e_read_only_ctx :: bool
  e_budget :: u64
  e_ctx_ptrs :: "context_pointer_field list"
  e_stack_base :: u64
  e_ctx_base :: u64
  e_overflow_checks :: bool

record 'w vm =
  v_reg :: "tagged_reg list"
  v_mem :: memory
  v_world :: 'w
  v_spill :: spill_tracker
  v_frames :: "call_frame list"
  v_frame_idx :: nat
  v_pc :: nat
  v_count :: u64

datatype bpf_exit = Returned u64 | Failed bpf_error | Panicked

type_synonym 'w vm_result = "(bpf_exit, 'w vm) step_result"

definition num_insns :: "'w bpf_env \<Rightarrow> nat" where
  "num_insns e = length (e_prog e) div INSN_SIZE"

definition lift_res :: "'w vm \<Rightarrow> bpf_error + 'a \<Rightarrow> ('a \<Rightarrow> 'w vm_result) \<Rightarrow> 'w vm_result" where
  "lift_res s r k = (case r of Inl err \<Rightarrow> Stop (Failed err) s | Inr x \<Rightarrow> k x)"

definition set_reg :: "'w vm \<Rightarrow> nat \<Rightarrow> tagged_reg \<Rightarrow> 'w vm" where
  "set_reg s d r = s\<lparr>v_reg := (v_reg s)[d := r]\<rparr>"

text \<open>Plain \<open>+=\<close> and \<open>-=\<close> on \<open>u64\<close>: \<open>None\<close> is the overflow panic of a checked build.\<close>

definition plain_add :: "'w bpf_env \<Rightarrow> u64 \<Rightarrow> u64 \<Rightarrow> u64 option" where
  "plain_add e a b =
     (if e_overflow_checks e \<and> checked_add a b = None then None else Some (a + b))"

definition plain_sub :: "'w bpf_env \<Rightarrow> u64 \<Rightarrow> u64 \<Rightarrow> u64 option" where
  "plain_sub e a b = (if e_overflow_checks e \<and> a < b then None else Some (a - b))"

section \<open>Arithmetic\<close>

text \<open>The ALU32 arms. The outer \<open>None\<close>: not an ALU32 opcode; \<open>Some None\<close>: the arm that returns
  \<open>UnknownOpcode\<close>; \<open>Some (Some v)\<close>: the destination becomes the scalar \<open>v\<close>.\<close>

definition alu32_arith :: "u8 \<Rightarrow> u16 \<Rightarrow> u32 \<Rightarrow> u64 \<Rightarrow> u64 \<Rightarrow> u64 option option" where
  "alu32_arith opc off imm dv sv =
     (let d = ucast dv :: u32; s = ucast sv :: u32 in
      if opc = ADD32_IMM then Some (Some (ucast (d + imm)))
      else if opc = ADD32_REG then Some (Some (ucast (d + s)))
      else if opc = SUB32_IMM then Some (Some (ucast (d - imm)))
      else if opc = SUB32_REG then Some (Some (ucast (d - s)))
      else if opc = MUL32_IMM then Some (Some (ucast (d * imm)))
      else if opc = MUL32_REG then Some (Some (ucast (d * s)))
      else if opc = DIV32_IMM then Some (Some (if off = 0 then (if imm = 0 then 0 else ucast (d div imm))
                  else (if imm = 0 then 0 else ucast (wrapping_div d imm))))
      else if opc = DIV32_REG then Some (Some (if off = 0 then (if s = 0 then 0 else ucast (d div s))
                  else (if s = 0 then 0 else ucast (wrapping_div d s))))
      else None)"

definition alu32_logic :: "u8 \<Rightarrow> u16 \<Rightarrow> u32 \<Rightarrow> u64 \<Rightarrow> u64 \<Rightarrow> u64 option option" where
  "alu32_logic opc off imm dv sv =
     (let d = ucast dv :: u32; s = ucast sv :: u32 in
      if opc = OR32_IMM then Some (Some (ucast (d OR imm)))
      else if opc = OR32_REG then Some (Some (ucast (d OR s)))
      else if opc = AND32_IMM then Some (Some (ucast (d AND imm)))
      else if opc = AND32_REG then Some (Some (ucast (d AND s)))
      else if opc = LSH32_IMM then Some (Some (ucast (push_bit (unat (imm AND 0x1f)) d)))
      else if opc = LSH32_REG then Some (Some (ucast (push_bit (unat (s AND 0x1f)) d)))
      else if opc = RSH32_IMM then Some (Some (ucast (drop_bit (unat (imm AND 0x1f)) d)))
      else if opc = RSH32_REG then Some (Some (ucast (drop_bit (unat (s AND 0x1f)) d)))
      else if opc = NEG32 then Some (Some (ucast (- d)))
      else if opc = MOD32_IMM then Some (Some (if off = 0 then (if imm \<noteq> 0 then ucast (d mod imm) else dv AND 0xffffffff)
                  else (if imm \<noteq> 0 then ucast (wrapping_rem d imm) else dv AND 0xffffffff)))
      else if opc = MOD32_REG then Some (Some (if off = 0 then (if s \<noteq> 0 then ucast (d mod s) else dv AND 0xffffffff)
                  else (if s \<noteq> 0 then ucast (wrapping_rem d s) else dv AND 0xffffffff)))
      else if opc = XOR32_IMM then Some (Some (ucast (d XOR imm)))
      else if opc = XOR32_REG then Some (Some (ucast (d XOR s)))
      else if opc = MOV32_IMM then (if off = 0 then Some (Some (ucast imm)) else Some None)
      else if opc = MOV32_REG then (if off = 0 then Some (Some (ucast s))
        else if off = 8 then Some (Some (ucast (scast (ucast sv :: u8) :: u32)))
        else if off = 16 then Some (Some (ucast (scast (ucast sv :: u16) :: u32)))
        else Some None)
      else if opc = ARSH32_IMM then Some (Some (ucast (signed_drop_bit (unat (imm AND 0x1f)) d)))
      else if opc = ARSH32_REG then Some (Some (ucast (signed_drop_bit (unat (s AND 0x1f)) d)))
      else None)"

definition alu32 :: "u8 \<Rightarrow> u16 \<Rightarrow> u32 \<Rightarrow> u64 \<Rightarrow> u64 \<Rightarrow> u64 option option" where
  "alu32 opc off imm dv sv =
     or_else (alu32_arith opc off imm dv sv) (alu32_logic opc off imm dv sv)"

text \<open>The byte swap arms; \<open>to_le\<close> is the identity on a little-endian target.\<close>

definition swap16 :: "u16 \<Rightarrow> u16" where "swap16 w = from_be_bytes (to_le_bytes 2 w)"
definition swap32 :: "u32 \<Rightarrow> u32" where "swap32 w = from_be_bytes (to_le_bytes 4 w)"
definition swap64 :: "u64 \<Rightarrow> u64" where "swap64 w = from_be_bytes (to_le_bytes 8 w)"

definition byte_swap :: "u8 \<Rightarrow> u32 \<Rightarrow> u64 \<Rightarrow> u64 option option" where
  "byte_swap opc imm dv =
     (if opc = LE then
        (if imm = 16 then Some (Some (ucast (ucast dv :: u16)))
         else if imm = 32 then Some (Some (ucast (ucast dv :: u32)))
         else if imm = 64 then Some (Some dv)
         else Some None)
      else if opc = BE \<or> opc = BSWAP then
        (if imm = 16 then Some (Some (ucast (swap16 (ucast dv))))
         else if imm = 32 then Some (Some (ucast (swap32 (ucast dv))))
         else if imm = 64 then Some (Some (swap64 dv))
         else Some None)
      else None)"

text \<open>The ALU64 arms, which propagate region tags: the result is an error or the new destination
  register. \<open>None\<close>: not an ALU64 opcode.\<close>

definition add_region :: "nat \<Rightarrow> region option \<Rightarrow> region option \<Rightarrow> bpf_error + region option" where
  "add_region pc d s =
     (case (d, s) of
        (Some r, None) \<Rightarrow> if is_descriptor (rtag r) then Inl (InvalidPointerArithmetic pc) else Inr (Some r)
      | (None, Some r) \<Rightarrow> if is_descriptor (rtag r) then Inl (InvalidPointerArithmetic pc) else Inr (Some r)
      | (None, None) \<Rightarrow> Inr None
      | (Some _, Some _) \<Rightarrow> Inl (InvalidPointerArithmetic pc))"

definition sub_region :: "nat \<Rightarrow> region option \<Rightarrow> region option \<Rightarrow> bpf_error + region option" where
  "sub_region pc d s =
     (case (d, s) of
        (Some x, Some y) \<Rightarrow> if x = y then Inr None else Inl (InvalidPointerArithmetic pc)
      | (Some r, None) \<Rightarrow> if is_descriptor (rtag r) then Inl (InvalidPointerArithmetic pc) else Inr (Some r)
      | (None, Some _) \<Rightarrow> Inl (InvalidPointerArithmetic pc)
      | (None, None) \<Rightarrow> Inr None)"

definition alu64_ptr ::
    "u8 \<Rightarrow> u16 \<Rightarrow> u32 \<Rightarrow> tagged_reg \<Rightarrow> tagged_reg \<Rightarrow> nat \<Rightarrow> (bpf_error + tagged_reg) option" where
  "alu64_ptr opc off imm d s pc =
     (if opc = ADD64_IMM then Some (if descriptor_tagged d then Inl (InvalidPointerArithmetic pc)
              else Inr (d\<lparr>tvalue := tvalue d + scast imm\<rparr>))
      else if opc = ADD64_REG then Some (res_bind (add_region pc (tregion d) (tregion s)) (\<lambda>g.
              Inr \<lparr>tvalue = tvalue d + tvalue s, tregion = g\<rparr>))
      else if opc = SUB64_IMM then Some (if descriptor_tagged d then Inl (InvalidPointerArithmetic pc)
              else Inr (d\<lparr>tvalue := tvalue d - scast imm\<rparr>))
      else if opc = SUB64_REG then Some (res_bind (sub_region pc (tregion d) (tregion s)) (\<lambda>g.
              Inr \<lparr>tvalue = tvalue d - tvalue s, tregion = g\<rparr>))
      else None)"

definition alu64_muldiv ::
    "u8 \<Rightarrow> u16 \<Rightarrow> u32 \<Rightarrow> tagged_reg \<Rightarrow> tagged_reg \<Rightarrow> nat \<Rightarrow> (bpf_error + tagged_reg) option" where
  "alu64_muldiv opc off imm d s pc =
     (if opc = MUL64_IMM then Some (Inr (scalar (tvalue d * scast imm)))
      else if opc = MUL64_REG then Some (Inr (scalar (tvalue d * tvalue s)))
      else if opc = DIV64_IMM then Some (Inr (scalar (let m = scast imm in
              if off = 0 then (if m = 0 then 0 else tvalue d div m)
              else (if m = 0 then 0 else wrapping_div (tvalue d) m))))
      else if opc = DIV64_REG then Some (Inr (scalar (let m = tvalue s in
              if off = 0 then (if m = 0 then 0 else tvalue d div m)
              else (if m = 0 then 0 else wrapping_div (tvalue d) m))))
      else None)"

definition alu64_logic ::
    "u8 \<Rightarrow> u16 \<Rightarrow> u32 \<Rightarrow> tagged_reg \<Rightarrow> tagged_reg \<Rightarrow> nat \<Rightarrow> (bpf_error + tagged_reg) option" where
  "alu64_logic opc off imm d s pc =
     (if opc = OR64_IMM then Some (if tregion d \<noteq> None then Inl (InvalidPointerArithmetic pc)
              else Inr (d\<lparr>tvalue := tvalue d OR scast imm\<rparr>))
      else if opc = OR64_REG then Some (if tregion d \<noteq> None \<or> tregion s \<noteq> None
              then Inl (InvalidPointerArithmetic pc)
              else Inr (d\<lparr>tvalue := tvalue d OR tvalue s\<rparr>))
      else if opc = AND64_IMM then Some (if tregion d \<noteq> None then Inl (InvalidPointerArithmetic pc)
              else Inr (d\<lparr>tvalue := tvalue d AND scast imm\<rparr>))
      else if opc = AND64_REG then Some (if tregion d \<noteq> None \<or> tregion s \<noteq> None
              then Inl (InvalidPointerArithmetic pc)
              else Inr (d\<lparr>tvalue := tvalue d AND tvalue s\<rparr>))
      else if opc = LSH64_IMM then Some (Inr (scalar (push_bit (unat (imm AND 0x3f)) (tvalue d))))
      else if opc = LSH64_REG then Some (Inr (scalar (push_bit (unat ((ucast (tvalue s) :: u32) AND 0x3f)) (tvalue d))))
      else if opc = RSH64_IMM then Some (Inr (scalar (drop_bit (unat (imm AND 0x3f)) (tvalue d))))
      else if opc = RSH64_REG then Some (Inr (scalar (drop_bit (unat ((ucast (tvalue s) :: u32) AND 0x3f)) (tvalue d))))
      else if opc = NEG64 then Some (Inr (scalar (- tvalue d)))
      else if opc = MOD64_IMM then Some (Inr (scalar (let m = scast imm in
              if off = 0 then (if m \<noteq> 0 then tvalue d mod m else tvalue d)
              else (if m \<noteq> 0 then wrapping_rem (tvalue d) m else tvalue d))))
      else if opc = MOD64_REG then Some (Inr (scalar (let m = tvalue s in
              if off = 0 then (if m \<noteq> 0 then tvalue d mod m else tvalue d)
              else (if m \<noteq> 0 then wrapping_rem (tvalue d) m else tvalue d))))
      else if opc = XOR64_IMM then Some (if tregion d \<noteq> None then Inl (InvalidPointerArithmetic pc)
              else Inr (d\<lparr>tvalue := tvalue d XOR scast imm\<rparr>))
      else if opc = XOR64_REG then Some (if tregion d \<noteq> None \<or> tregion s \<noteq> None
              then Inl (InvalidPointerArithmetic pc)
              else Inr (d\<lparr>tvalue := tvalue d XOR tvalue s\<rparr>))
      else if opc = MOV64_IMM then Some (Inr (scalar (scast imm)))
      else if opc = MOV64_REG then Some (if off = 0 then Inr s
              else if off = 8 then Inr (scalar (scast (ucast (tvalue s) :: u8)))
              else if off = 16 then Inr (scalar (scast (ucast (tvalue s) :: u16)))
              else if off = 32 then Inr (scalar (scast (ucast (tvalue s) :: u32)))
              else Inl (UnknownOpcode pc opc))
      else if opc = ARSH64_IMM then Some (Inr (scalar (signed_drop_bit (unat (imm AND 0x3f)) (tvalue d))))
      else if opc = ARSH64_REG then Some (Inr (scalar (signed_drop_bit (unat ((ucast (tvalue s) :: u32) AND 0x3f)) (tvalue d))))
      else None)"

definition alu64 ::
    "u8 \<Rightarrow> u16 \<Rightarrow> u32 \<Rightarrow> tagged_reg \<Rightarrow> tagged_reg \<Rightarrow> nat \<Rightarrow> (bpf_error + tagged_reg) option" where
  "alu64 opc off imm d s pc =
     or_else (alu64_ptr opc off imm d s pc)
       (or_else (alu64_muldiv opc off imm d s pc) (alu64_logic opc off imm d s pc))"

section \<open>Branch conditions\<close>

text \<open>Whether the branch is taken; \<open>None\<close>: not a branch with a 16-bit offset.\<close>

definition jump_cond64 :: "u8 \<Rightarrow> u32 \<Rightarrow> u64 \<Rightarrow> u64 \<Rightarrow> bool option" where
  "jump_cond64 opc imm dv sv =
     (if opc = JA then Some True
      else if opc = JEQ_IMM then Some (dv = scast imm)
      else if opc = JEQ_REG then Some (dv = sv)
      else if opc = JGT_IMM then Some (dv > scast imm)
      else if opc = JGT_REG then Some (dv > sv)
      else if opc = JGE_IMM then Some (dv \<ge> scast imm)
      else if opc = JGE_REG then Some (dv \<ge> sv)
      else if opc = JLT_IMM then Some (dv < scast imm)
      else if opc = JLT_REG then Some (dv < sv)
      else if opc = JLE_IMM then Some (dv \<le> scast imm)
      else if opc = JLE_REG then Some (dv \<le> sv)
      else if opc = JSET_IMM then Some (dv AND scast imm \<noteq> 0)
      else if opc = JSET_REG then Some (dv AND sv \<noteq> 0)
      else if opc = JNE_IMM then Some (dv \<noteq> scast imm)
      else if opc = JNE_REG then Some (dv \<noteq> sv)
      else if opc = JSGT_IMM then Some (sint dv > sint imm)
      else if opc = JSGT_REG then Some (sint dv > sint sv)
      else if opc = JSGE_IMM then Some (sint dv \<ge> sint imm)
      else if opc = JSGE_REG then Some (sint dv \<ge> sint sv)
      else if opc = JSLT_IMM then Some (sint dv < sint imm)
      else if opc = JSLT_REG then Some (sint dv < sint sv)
      else if opc = JSLE_IMM then Some (sint dv \<le> sint imm)
      else if opc = JSLE_REG then Some (sint dv \<le> sint sv)
      else None)"

definition jump_cond32 :: "u8 \<Rightarrow> u32 \<Rightarrow> u64 \<Rightarrow> u64 \<Rightarrow> bool option" where
  "jump_cond32 opc imm dv sv =
     (let d = ucast dv :: u32; s = ucast sv :: u32 in
      if opc = JEQ_IMM32 then Some (d = imm)
      else if opc = JEQ_REG32 then Some (d = s)
      else if opc = JGT_IMM32 then Some (d > imm)
      else if opc = JGT_REG32 then Some (d > s)
      else if opc = JGE_IMM32 then Some (d \<ge> imm)
      else if opc = JGE_REG32 then Some (d \<ge> s)
      else if opc = JLT_IMM32 then Some (d < imm)
      else if opc = JLT_REG32 then Some (d < s)
      else if opc = JLE_IMM32 then Some (d \<le> imm)
      else if opc = JLE_REG32 then Some (d \<le> s)
      else if opc = JSET_IMM32 then Some (d AND imm \<noteq> 0)
      else if opc = JSET_REG32 then Some (d AND s \<noteq> 0)
      else if opc = JNE_IMM32 then Some (d \<noteq> imm)
      else if opc = JNE_REG32 then Some (d \<noteq> s)
      else if opc = JSGT_IMM32 then Some (sint d > sint imm)
      else if opc = JSGT_REG32 then Some (sint d > sint s)
      else if opc = JSGE_IMM32 then Some (sint d \<ge> sint imm)
      else if opc = JSGE_REG32 then Some (sint d \<ge> sint s)
      else if opc = JSLT_IMM32 then Some (sint d < sint imm)
      else if opc = JSLT_REG32 then Some (sint d < sint s)
      else if opc = JSLE_IMM32 then Some (sint d \<le> sint imm)
      else if opc = JSLE_REG32 then Some (sint d \<le> sint s)
      else None)"

section \<open>The opcode arms that change the machine\<close>

text \<open>In every arm the program counter already points behind the instruction.\<close>

definition map_descriptor_region :: "nat \<Rightarrow> region" where
  "map_descriptor_region idx = \<lparr>rtag = MapDescriptor (of_nat idx), rbase = 0, rend = 0\<rparr>"

definition map_value_reg :: "map_region \<Rightarrow> u32 \<Rightarrow> nat \<Rightarrow> bpf_error + tagged_reg" where
  "map_value_reg mp next_imm pc =
     res_bind (ok_or (MemoryAccessViolation pc (data_start mp) (unat (mr_key_size mp)))
                 (checked_add (data_start mp) (ucast (mr_key_size mp)))) (\<lambda>value_base.
     let violation = MemoryAccessViolation pc value_base (unat (mr_value_size mp)) in
     res_bind (ok_or violation (checked_add_signed value_base (sint next_imm))) (\<lambda>value_addr.
     res_bind (ok_or violation (checked_add value_base (ucast (mr_value_size mp)))) (\<lambda>value_end.
     if value_base < data_start mp \<or> value_end > data_end mp then Inl violation
     else if value_addr < value_base \<or> value_addr \<ge> value_end
       then Inl (MemoryAccessViolation pc value_addr 0)
     else Inr \<lparr>tvalue = value_addr,
                tregion = Some \<lparr>rtag = MapValue (mr_value_size mp), rbase = value_base,
                                 rend = value_end\<rparr>\<rparr>)))"

definition exec_ld_dw_imm :: "'w bpf_env \<Rightarrow> insn \<Rightarrow> 'w vm \<Rightarrow> 'w vm_result" where
  "exec_ld_dw_imm e i s =
     (let pc = v_pc s; imm = i_imm i; d = unat (i_dst i) in
      if pc \<ge> num_insns e then Stop (Failed (OutOfBounds (pc - 1))) s
      else case get_insn (e_prog e) pc of
        None \<Rightarrow> Stop Panicked s
      | Some nxt \<Rightarrow>
         (case plain_add e (v_count s) 1 of
            None \<Rightarrow> Stop Panicked s
          | Some c \<Rightarrow>
             let s1 = s\<lparr>v_pc := pc + 1, v_count := c\<rparr> in
             if c > e_budget e then Stop (Failed (InstructionBudgetExceeded pc)) s1
             else if i_src i = 0 then
               Next (set_reg s1 d (scalar (ucast imm OR push_bit 32 (scast (i_imm nxt)))))
             else if i_src i = 1 then
               (if sint imm < 0 \<or> unat imm \<ge> length (e_maps e)
                then Stop (Failed (InvalidMapIndex (pc - 1) imm)) s1
                else Next (set_reg s1 d
                  \<lparr>tvalue = relocated_ptr (e_maps e ! unat imm),
                   tregion = Some (map_descriptor_region (unat imm))\<rparr>))
             else if i_src i = 6 then
               (if sint imm < 0 \<or> unat imm \<ge> length (e_maps e)
                then Stop (Failed (InvalidMapIndex (pc - 1) imm)) s1
                else lift_res s1 (map_value_reg (e_maps e ! unat imm) (i_imm nxt) (pc - 1))
                       (\<lambda>r. Next (set_reg s1 d r)))
             else Stop (Failed (UnknownOpcode (pc - 1) (i_opc i))) s1))"

text \<open>\<open>LD_DW_REG\<close>: the tag of a 64-bit value loaded through \<open>base\<close> at \<open>addr\<close>.\<close>

definition loaded_region :: "'w bpf_env \<Rightarrow> 'w vm \<Rightarrow> tagged_reg \<Rightarrow> u64 \<Rightarrow> region option" where
  "loaded_region e s base addr =
     (if stack_tagged base then check_restore (v_spill s) (e_stack_base e) addr
      else case tregion base of
        Some g \<Rightarrow>
          if rtag g = Context \<or> rtag g = Memory then
            (let ctx_off = addr - e_ctx_base e in
             if ctx_off + 8 \<le> of_nat (e_ctx_len e) then
               map_option cpf_region (find (\<lambda>c. ctx_off = ucast (cpf_offset c)) (e_ctx_ptrs e))
             else None)
          else None
      | None \<Rightarrow> None)"

definition exec_load :: "'w bpf_env \<Rightarrow> insn \<Rightarrow> 'w vm \<Rightarrow> 'w vm_result option" where
  "exec_load e i s =
     (let opc = i_opc i; off = i_off i; pc = v_pc s - 1; d = unat (i_dst i);
          base = v_reg s ! unat (i_src i); m = v_mem s;
          ld = (\<lambda>n. Some (lift_res s (mem_load n base off pc m) (\<lambda>v. Next (set_reg s d (scalar v)))));
          ldsx = (\<lambda>n. Some (lift_res s (mem_load_sign_extend n base off pc m)
                             (\<lambda>v. Next (set_reg s d (scalar v)))))
      in if opc = LD_B_REG then ld 1
         else if opc = LD_H_REG then ld 2
         else if opc = LD_W_REG then ld 4
         else if opc = LD_DW_REG then
           Some (lift_res s (mem_load 8 base off pc m) (\<lambda>v.
             Next (set_reg s d \<lparr>tvalue = v,
                     tregion = loaded_region e s base (tvalue base + scast off)\<rparr>)))
         else if opc = LDSX_B_REG then ldsx 1
         else if opc = LDSX_H_REG then ldsx 2
         else if opc = LDSX_W_REG then ldsx 4
         else None)"

text \<open>The spill bookkeeping that follows a store of \<open>n\<close> bytes through \<open>base\<close>: a store of a plain
  value invalidates the slots it touches.\<close>

definition invalidate_after :: "'w bpf_env \<Rightarrow> tagged_reg \<Rightarrow> u16 \<Rightarrow> nat \<Rightarrow> 'w vm \<Rightarrow> 'w vm" where
  "invalidate_after e base off n s =
     (if stack_tagged base
      then s\<lparr>v_spill := invalidate (v_spill s) (e_stack_base e) (tvalue base + scast off) n\<rparr>
      else s)"

definition spill_after :: "'w bpf_env \<Rightarrow> tagged_reg \<Rightarrow> u16 \<Rightarrow> tagged_reg \<Rightarrow> 'w vm \<Rightarrow> 'w vm" where
  "spill_after e base off stored s =
     (if stack_tagged base then
        let addr = tvalue base + scast off in
        case tregion stored of
          Some g \<Rightarrow>
            if unat (addr - e_stack_base e) mod 8 = 0
            then s\<lparr>v_spill := record_spill (v_spill s) (e_stack_base e) addr g\<rparr>
            else s\<lparr>v_spill := invalidate (v_spill s) (e_stack_base e) addr 8\<rparr>
        | None \<Rightarrow> s\<lparr>v_spill := invalidate (v_spill s) (e_stack_base e) addr 8\<rparr>
      else s)"

definition exec_store_imm :: "'w bpf_env \<Rightarrow> insn \<Rightarrow> 'w vm \<Rightarrow> 'w vm_result option" where
  "exec_store_imm e i s =
     (let opc = i_opc i; off = i_off i; pc = v_pc s - 1; base = v_reg s ! unat (i_dst i);
          st = (\<lambda>n. Some (lift_res s (mem_store n base off (scast (i_imm i)) pc (v_mem s))
                      (\<lambda>m. Next (invalidate_after e base off n (s\<lparr>v_mem := m\<rparr>)))))
      in if opc = ST_B_IMM then st 1
         else if opc = ST_H_IMM then st 2
         else if opc = ST_W_IMM then st 4
         else if opc = ST_DW_IMM then st 8
         else None)"

definition exec_store_reg :: "'w bpf_env \<Rightarrow> insn \<Rightarrow> 'w vm \<Rightarrow> 'w vm_result option" where
  "exec_store_reg e i s =
     (let opc = i_opc i; off = i_off i; pc = v_pc s - 1; base = v_reg s ! unat (i_dst i);
          stored = v_reg s ! unat (i_src i);
          st = (\<lambda>n. Some (lift_res s (mem_store n base off (tvalue stored) pc (v_mem s))
                      (\<lambda>m. Next (invalidate_after e base off n (s\<lparr>v_mem := m\<rparr>)))))
      in if opc = ST_B_REG then st 1
         else if opc = ST_H_REG then st 2
         else if opc = ST_W_REG then st 4
         else if opc = ST_DW_REG then
           Some (lift_res s (mem_store 8 base off (tvalue stored) pc (v_mem s))
                   (\<lambda>m. Next (spill_after e base off stored (s\<lparr>v_mem := m\<rparr>))))
         else None)"

definition exec_atomic :: "'w bpf_env \<Rightarrow> insn \<Rightarrow> 'w vm \<Rightarrow> 'w vm_result option" where
  "exec_atomic e i s =
     (let opc = i_opc i; off = i_off i; pc = v_pc s - 1; base = v_reg s ! unat (i_dst i);
          sr = unat (i_src i)
      in if opc = ST_W_ATOMIC then
           Some (lift_res s (mem_atomic32 base off (v_reg s) sr (i_imm i) pc (v_mem s))
             (\<lambda>(rs, m). Next (invalidate_after e base off 4 (s\<lparr>v_reg := rs, v_mem := m\<rparr>))))
         else if opc = ST_DW_ATOMIC then
           Some (lift_res s (mem_atomic64 base off (v_reg s) sr (i_imm i) pc (v_mem s))
             (\<lambda>(rs, m). Next (invalidate_after e base off 8 (s\<lparr>v_reg := rs, v_mem := m\<rparr>))))
         else None)"

definition exec_alu :: "insn \<Rightarrow> 'w vm \<Rightarrow> 'w vm_result option" where
  "exec_alu i s =
     (let opc = i_opc i; pc = v_pc s - 1; d = unat (i_dst i);
          dr = v_reg s ! d; sr = v_reg s ! unat (i_src i)
      in case or_else (alu32 opc (i_off i) (i_imm i) (tvalue dr) (tvalue sr))
                      (byte_swap opc (i_imm i) (tvalue dr)) of
           Some (Some v) \<Rightarrow> Some (Next (set_reg s d (scalar v)))
         | Some None \<Rightarrow> Some (Stop (Failed (UnknownOpcode pc opc)) s)
         | None \<Rightarrow> map_option (\<lambda>r. lift_res s r (\<lambda>t. Next (set_reg s d t)))
                     (alu64 opc (i_off i) (i_imm i) dr sr pc))"

definition exec_jump :: "'w bpf_env \<Rightarrow> insn \<Rightarrow> 'w vm \<Rightarrow> 'w vm_result option" where
  "exec_jump e i s =
     (let opc = i_opc i; dv = tvalue (v_reg s ! unat (i_dst i)); sv = tvalue (v_reg s ! unat (i_src i));
          goto = (\<lambda>k. lift_res s (check_jump (v_pc s) k (num_insns e)) (\<lambda>p. Next (s\<lparr>v_pc := p\<rparr>)))
      in if opc = JA32 then Some (goto (sint (i_imm i)))
         else case or_else (jump_cond64 opc (i_imm i) dv sv) (jump_cond32 opc (i_imm i) dv sv) of
           Some taken \<Rightarrow> Some (if taken then goto (sint (i_off i)) else Next s)
         | None \<Rightarrow> None)"

text \<open>The result register of a helper that returns a map value pointer or null. \<open>Inl None\<close> is the
  out-of-range panic of \<open>maps[map_index]\<close>.\<close>

definition helper_map_value ::
    "map_region list \<Rightarrow> tagged_reg list \<Rightarrow> u8 \<Rightarrow> u64 \<Rightarrow> nat \<Rightarrow> bpf_error option + tagged_reg" where
  "helper_map_value maps reg map_arg result pc =
     (if \<not> (1 \<le> map_arg \<and> map_arg \<le> 5) then Inl (Some (InvalidHelperArgument pc map_arg))
      else if result = 0 then Inr (scalar 0)
      else case map_option rtag (tregion (reg ! unat map_arg)) of
        Some (MapDescriptor map_index) \<Rightarrow>
          if unat map_index \<ge> length maps then Inl None
          else
            let mp = maps ! unat map_index; vs = ucast (mr_value_size mp) :: u64 in
            (case checked_add result vs of
               None \<Rightarrow> Inl (Some (MemoryAccessViolation pc result (unat vs)))
             | Some end_addr \<Rightarrow>
                 if result < data_start mp \<or> end_addr > data_end mp
                 then Inl (Some (MemoryAccessViolation pc result (unat vs)))
                 else Inr \<lparr>tvalue = result,
                            tregion = Some \<lparr>rtag = MapValue (mr_value_size mp), rbase = result,
                                             rend = end_addr\<rparr>\<rparr>)
      | _ \<Rightarrow> Inl (Some (InvalidHelperArgument pc map_arg)))"

text \<open>R1-R5 keep their values and lose their tags.\<close>

definition clobber_tags :: "tagged_reg list \<Rightarrow> tagged_reg list" where
  "clobber_tags reg =
     foldl (\<lambda>rs k. rs[k := (rs ! k)\<lparr>tregion := None\<rparr>]) reg [1, 2, 3, 4, 5]"

definition exec_helper :: "'w bpf_env \<Rightarrow> insn \<Rightarrow> 'w vm \<Rightarrow> 'w vm_result" where
  "exec_helper e i s =
     (let pc = v_pc s - 1; hid = i_imm i; reg = v_reg s in
      case find (\<lambda>h. h_id h = hid) (e_helpers e) of
        None \<Rightarrow> Stop (Failed (UnknownHelper pc hid)) s
      | Some desc \<Rightarrow>
         (case h_func desc (tvalue (reg ! 1)) (tvalue (reg ! 2)) (tvalue (reg ! 3))
                 (tvalue (reg ! 4)) (tvalue (reg ! 5)) (v_mem s, v_world s) of
            (result, (m, w)) \<Rightarrow>
              let s1 = s\<lparr>v_mem := m, v_world := w\<rparr> in
              case h_ret desc of
                RetScalar \<Rightarrow> Next (s1\<lparr>v_reg := clobber_tags (reg[0 := scalar result])\<rparr>)
              | MapValueOrNull map_arg \<Rightarrow>
                 (case helper_map_value (e_maps e) reg map_arg result pc of
                    Inl (Some err) \<Rightarrow> Stop (Failed err) s1
                  | Inl None \<Rightarrow> Stop Panicked s1
                  | Inr r0 \<Rightarrow> Next (s1\<lparr>v_reg := clobber_tags (reg[0 := r0])\<rparr>))))"

definition exec_local_call :: "'w bpf_env \<Rightarrow> insn \<Rightarrow> 'w vm \<Rightarrow> 'w vm_result" where
  "exec_local_call e i s =
     (let pc = v_pc s; reg = v_reg s; k = v_frame_idx s in
      if k \<ge> MAX_CALL_DEPTH then Stop (Failed (CallDepthExceeded (pc - 1))) s
      else
        let size = of_nat STACK_SIZE_PER_FRAME;
            frame = \<lparr>saved_regs = map (\<lambda>j. tvalue (reg ! (6 + j))) [0..<4],
                     saved_regions = map (\<lambda>j. tregion (reg ! (6 + j))) [0..<4],
                     return_pc = pc, frame_size = size\<rparr>
        in case plain_sub e (tvalue (reg ! 10)) size of
             None \<Rightarrow> Stop Panicked s
           | Some fp \<Rightarrow>
               let s1 = s\<lparr>v_frames := (v_frames s)[k := frame],
                          v_reg := reg[10 := (reg ! 10)\<lparr>tvalue := fp\<rparr>],
                          v_frame_idx := k + 1\<rparr>
               in lift_res s1 (check_jump pc (sint (i_imm i)) (num_insns e))
                    (\<lambda>p. Next (s1\<lparr>v_pc := p\<rparr>)))"

definition exec_call :: "'w bpf_env \<Rightarrow> insn \<Rightarrow> 'w vm \<Rightarrow> 'w vm_result" where
  "exec_call e i s =
     (if i_src i = 0 \<or> i_src i = 2 then exec_helper e i s
      else if i_src i = 1 then exec_local_call e i s
      else Stop (Failed (UnknownOpcode (v_pc s - 1) (i_opc i))) s)"

definition restore_regs :: "call_frame \<Rightarrow> tagged_reg list \<Rightarrow> tagged_reg list" where
  "restore_regs f reg =
     foldl (\<lambda>rs j. rs[6 + j := \<lparr>tvalue = saved_regs f ! j, tregion = saved_regions f ! j\<rparr>])
       reg [0..<4]"

definition exec_exit :: "'w bpf_env \<Rightarrow> 'w vm \<Rightarrow> 'w vm_result" where
  "exec_exit e s =
     (if v_frame_idx s > 0 then
        let k = v_frame_idx s - 1; f = v_frames s ! k; reg = restore_regs f (v_reg s) in
        case plain_add e (tvalue (reg ! 10)) (frame_size f) of
          None \<Rightarrow> Stop Panicked s
        | Some fp \<Rightarrow> Next (s\<lparr>v_frame_idx := k,
                              v_reg := reg[10 := (reg ! 10)\<lparr>tvalue := fp\<rparr>],
                              v_pc := return_pc f\<rparr>)
      else Stop (Returned (tvalue (v_reg s ! 0))) s)"

section \<open>The interpreter loop\<close>

definition exec_insn :: "'w bpf_env \<Rightarrow> insn \<Rightarrow> 'w vm \<Rightarrow> 'w vm_result" where
  "exec_insn e i s =
     (if i_opc i = LD_DW_IMM then exec_ld_dw_imm e i s
      else if i_opc i = CALL then exec_call e i s
      else if i_opc i = EXIT then exec_exit e s
      else
        case or_else (exec_load e i s) (or_else (exec_store_imm e i s)
               (or_else (exec_store_reg e i s) (or_else (exec_atomic e i s)
               (or_else (exec_alu i s) (exec_jump e i s))))) of
          Some r \<Rightarrow> r
        | None \<Rightarrow> Stop (Failed (UnknownOpcode (v_pc s - 1) (i_opc i))) s)"

text \<open>One iteration of \<open>while pc < num_insns\<close>; leaving the loop is the \<open>OutOfBounds\<close> error.\<close>

definition bpf_step :: "'w bpf_env \<Rightarrow> 'w vm \<Rightarrow> 'w vm_result" where
  "bpf_step e s =
     (let pc = v_pc s in
      if \<not> pc < num_insns e then Stop (Failed (OutOfBounds pc)) s
      else case plain_add e (v_count s) 1 of
        None \<Rightarrow> Stop Panicked s
      | Some c \<Rightarrow>
          let s1 = s\<lparr>v_count := c\<rparr> in
          if c > e_budget e then Stop (Failed (InstructionBudgetExceeded pc)) s1
          else case get_insn (e_prog e) pc of
            None \<Rightarrow> Stop Panicked s1
          | Some i \<Rightarrow>
              let s2 = s1\<lparr>v_pc := pc + 1\<rparr> in
              if i_dst i > 10 \<or> i_src i > 10
              then Stop (Failed (UnknownOpcode pc (i_opc i))) s2
              else exec_insn e i s2)"

text \<open>The loop with fuel: \<open>None\<close> means the fuel ran out before the loop ended.\<close>

definition bpf_run :: "nat \<Rightarrow> 'w bpf_env \<Rightarrow> 'w vm \<Rightarrow> (bpf_exit \<times> 'w vm) option" where
  "bpf_run fuel e s = run_loop (bpf_step e) fuel s"

definition stack_end :: "'w bpf_env \<Rightarrow> u64" where
  "stack_end e = e_stack_base e + of_nat STACK_SIZE"

definition ctx_end :: "'w bpf_env \<Rightarrow> u64" where
  "ctx_end e = e_ctx_base e + of_nat (e_ctx_len e)"

definition stack_region :: "'w bpf_env \<Rightarrow> region" where
  "stack_region e = \<lparr>rtag = Stack, rbase = e_stack_base e, rend = stack_end e\<rparr>"

definition ctx_region :: "'w bpf_env \<Rightarrow> region" where
  "ctx_region e =
     \<lparr>rtag = (if e_read_only_ctx e then Context else Memory),
      rbase = e_ctx_base e, rend = ctx_end e\<rparr>"

definition initial_vm :: "'w bpf_env \<Rightarrow> memory \<Rightarrow> 'w \<Rightarrow> 'w vm" where
  "initial_vm e m w =
     \<lparr>v_reg = (replicate 11 zeroed_reg)
        [1 := \<lparr>tvalue = e_ctx_base e,
               tregion = (if e_ctx_len e = 0 then None else Some (ctx_region e))\<rparr>,
         2 := scalar (of_nat (e_ctx_len e)),
         10 := \<lparr>tvalue = stack_end e, tregion = Some (stack_region e)\<rparr>],
      v_mem = (\<lambda>a. if e_stack_base e \<le> a \<and> a < stack_end e then 0 else m a),
      v_world = w,
      v_spill = new_spill_tracker,
      v_frames = replicate MAX_CALL_DEPTH zeroed_frame,
      v_frame_idx = 0, v_pc = 0, v_count = 0\<rparr>"

definition execute_program ::
    "nat \<Rightarrow> 'w bpf_env \<Rightarrow> memory \<Rightarrow> 'w \<Rightarrow> (bpf_exit \<times> 'w vm) option" where
  "execute_program fuel e m w =
     (let s = initial_vm e m w in
      if length (e_prog e) mod INSN_SIZE \<noteq> 0 then Some (Failed (OutOfBounds (num_insns e)), s)
      else if checked_add (e_stack_base e) (of_nat STACK_SIZE) = None then Some (Panicked, s)
      else if checked_add (e_ctx_base e) (of_nat (e_ctx_len e)) = None then Some (Panicked, s)
      else bpf_run fuel e s)"

definition UNLIMITED_BUDGET :: u64 where "UNLIMITED_BUDGET = 0xffffffffffffffff"

definition execute_program_no_maps ::
    "nat \<Rightarrow> 'w bpf_env \<Rightarrow> memory \<Rightarrow> 'w \<Rightarrow> (bpf_exit \<times> 'w vm) option" where
  "execute_program_no_maps fuel e m w =
     execute_program fuel (e\<lparr>e_maps := [], e_ctx_ptrs := []\<rparr>) m w"

end
