(* ===== verification/Bpf_Spill.thy ===== *)
theory Bpf_Spill
  imports Bpf_Memory
begin

unbundle bit_operations_syntax

text \<open>
  The spill tracker as an abstract map. \<open>spill_view\<close> reads a tracker as a partial function from
  stack offsets to the region tag a 64-bit load from that offset restores; the operations of
  \<open>SpillTracker\<close> are updates of that function.
\<close>

section \<open>The slot bitmap\<close>

lemma bm_test_bit: "bm_test bm s \<longleftrightarrow> bit (bm ! (s div 8)) (s mod 8)"
  using and_exp_eq_0_iff_not_bit [of "bm ! (s div 8)" "s mod 8"]
  by (simp add: bm_test_def push_bit_of_1)

lemma length_bm [simp]: "length (bm_set bm s) = length bm" "length (bm_clear bm s) = length bm"
  by (simp_all add: bm_set_def bm_clear_def)

lemma slot_eq: "s div 8 = s' div 8 \<Longrightarrow> s mod 8 = s' mod 8 \<longleftrightarrow> s = s'" for s s' :: nat
  by (metis div_mult_mod_eq)

lemma bm_test_set:
  assumes "s div 8 < length bm"
  shows "bm_test (bm_set bm s) s' \<longleftrightarrow> s' = s \<or> bm_test bm s'"
  using assms slot_eq [of s s']
  by (cases "s div 8 = s' div 8")
    (auto simp: bm_test_bit bm_set_def bit_or_iff push_bit_of_1 bit_exp_iff)

lemma bm_test_clear:
  assumes "s div 8 < length bm"
  shows "bm_test (bm_clear bm s) s' \<longleftrightarrow> s' \<noteq> s \<and> bm_test bm s'"
  using assms slot_eq [of s s']
  by (cases "s div 8 = s' div 8")
    (auto simp: bm_test_bit bm_clear_def bit_and_iff bit_not_iff push_bit_of_1 bit_exp_iff
      dest: bit_imp_le_length)

lemma length_foldl_clear [simp]: "length (foldl bm_clear bm ss) = length bm"
  by (induction ss arbitrary: bm) simp_all

lemma bm_test_foldl_clear:
  "\<forall>s \<in> set ss. s div 8 < length bm \<Longrightarrow>
     bm_test (foldl bm_clear bm ss) s' \<longleftrightarrow> s' \<notin> set ss \<and> bm_test bm s'"
  by (induction ss arbitrary: bm) (auto simp: bm_test_clear)

section \<open>Well-formed trackers and their view\<close>

definition spill_wf :: "spill_tracker \<Rightarrow> bool" where
  "spill_wf t \<longleftrightarrow> length (bitmap t) = STACK_SIZE div 64 \<and> length (entries t) = MAX_SPILL_SLOTS \<and>
     scount t \<le> MAX_SPILL_SLOTS \<and>
     (\<forall>i < scount t. unat (stack_offset (entries t ! i)) mod 8 = 0)"

definition spill_view :: "spill_tracker \<Rightarrow> nat \<rightharpoonup> region" where
  "spill_view t o' =
     (if o' < STACK_SIZE \<and> bm_test (bitmap t) (o' div 8)
      then map_option (\<lambda>i. sregion (entries t ! i)) (find_entry t (of_nat o')) else None)"

lemma spill_wf_new: "spill_wf new_spill_tracker"
  by (simp add: spill_wf_def new_spill_tracker_def)

lemma spill_view_new: "spill_view new_spill_tracker = Map.empty"
  by (rule ext) (simp add: spill_view_def find_entry_def new_spill_tracker_def)

lemma check_restore_view: "check_restore t sb addr = spill_view t (unat (addr - sb))"
  by (auto simp: check_restore_def spill_view_def Let_def ebpf_consts)

lemma find_entry_SomeD:
  "find_entry t o16 = Some i \<Longrightarrow> i < scount t \<and> stack_offset (entries t ! i) = o16"
  by (auto simp: find_entry_def find_Some_iff)

lemma find_entry_NoneD: "find_entry t o16 = None \<Longrightarrow> i < scount t \<Longrightarrow> stack_offset (entries t ! i) \<noteq> o16"
  by (auto simp: find_entry_def find_None_iff)

lemma of_nat_u16_eq:
  "a < STACK_SIZE \<Longrightarrow> b < STACK_SIZE \<Longrightarrow> (of_nat a :: u16) = of_nat b \<longleftrightarrow> a = b"
  by (auto simp: ebpf_consts dest!: arg_cong [where f = unat] simp: unat_of_nat)

section \<open>The operations on the view\<close>

lemma set_takeWhile_upt:
  "set (takeWhile (\<lambda>x. x < k) [i..<j]) = {x. i \<le> x \<and> x < j \<and> x < k}" for i j k :: nat
proof (induction "j - i" arbitrary: i)
  case 0
  then show ?case by auto
next
  case (Suc d)
  then have "[i..<j] = i # [Suc i..<j]" by (simp add: upt_rec)
  then show ?case
    using Suc.hyps(1) [of "Suc i"] Suc.hyps(2) by auto
qed

lemma find_append_option: "find P (xs @ ys) = or_else (find P xs) (find P ys)"
  by (induction xs) simp_all

lemma find_entry_cong:
  assumes "scount t' = scount t"
    and "\<And>i. i < scount t \<Longrightarrow> stack_offset (entries t' ! i) = stack_offset (entries t ! i)"
  shows "find_entry t' o16 = find_entry t o16"
  unfolding find_entry_def assms(1) by (rule find_cong) (simp_all add: assms(2))

lemma stack_offset_retag [simp]:
  "stack_offset (xs[i := (xs ! i)\<lparr>sregion := g\<rparr>] ! j) = stack_offset (xs ! j)"
  by (cases "i < length xs"; cases "i = j") (simp_all add: list_update_beyond)

lemma find_entry_retag:
  "find_entry (t\<lparr>bitmap := b, entries := (entries t)[i := (entries t ! i)\<lparr>sregion := g\<rparr>]\<rparr>) o16
     = find_entry t o16"
  by (rule find_entry_cong) simp_all

lemma find_entry_push:
  assumes "scount t < length (entries t)"
  shows "find_entry (t\<lparr>bitmap := b, entries := (entries t)[scount t := x], scount := Suc (scount t)\<rparr>) o16
     = or_else (find_entry t o16) (if stack_offset x = o16 then Some (scount t) else None)"
proof -
  have "find (\<lambda>i. stack_offset ((entries t)[scount t := x] ! i) = o16) [0..<scount t] = find_entry t o16"
    unfolding find_entry_def by (rule find_cong) simp_all
  with assms show ?thesis
    by (simp add: find_entry_def find_append_option)
qed

lemma find_entry_bitmap [simp]: "find_entry (t\<lparr>bitmap := b\<rparr>) o16 = find_entry t o16"
  by (simp add: find_entry_def)

lemma find_entry_unaligned:
  assumes "spill_wf t" and "o' < STACK_SIZE" and "o' mod 8 \<noteq> 0"
  shows "find_entry t (of_nat o') = None"
proof (rule ccontr)
  assume "find_entry t (of_nat o') \<noteq> None"
  then obtain i where "find_entry t (of_nat o') = Some i" by auto
  then have "i < scount t" "stack_offset (entries t ! i) = of_nat o'"
    by (simp_all add: find_entry_SomeD)
  with assms show False
    by (auto simp: spill_wf_def unat_of_nat ebpf_consts)
qed

lemma spill_wf_record:
  assumes "spill_wf t" and "unat (addr - sb) mod 8 = 0"
  shows "spill_wf (record_spill t sb addr g)"
proof -
  let ?o = "unat (addr - sb)"
  have "unat (of_nat ?o :: u16) mod 8 = 0"
    using assms(2) by (simp add: unsigned_ucast_eq take_bit_eq_mod mod_mod_cancel)
  with assms(1) show ?thesis
    by (auto simp: record_spill_def Let_def spill_wf_def nth_list_update less_Suc_eq
        split: option.splits)
qed

lemma spill_wf_invalidate: "spill_wf t \<Longrightarrow> spill_wf (invalidate t sb addr n)"
  by (simp add: invalidate_def Let_def spill_wf_def)

lemma record_spill_view:
  fixes addr sb :: u64
  defines "o' \<equiv> unat (addr - sb)"
  assumes wf: "spill_wf t" and o: "o' < STACK_SIZE" "o' mod 8 = 0"
  shows "spill_view (record_spill t sb addr g) =
    (spill_view t)(o' := (if find_entry t (of_nat o') = None \<and> scount t = MAX_SPILL_SLOTS
                          then None else Some g))"
proof (rule ext)
  fix a
  let ?t = "record_spill t sb addr g"
  have len: "o' div 8 div 8 < length (bitmap t)" "length (entries t) = MAX_SPILL_SLOTS"
    and cnt: "scount t \<le> MAX_SPILL_SLOTS"
    using wf o by (auto simp: spill_wf_def ebpf_consts)
  have same: "find_entry t (of_nat a) = None"
    if "a < STACK_SIZE" "a div 8 = o' div 8" "a \<noteq> o'"
    using find_entry_unaligned [OF wf, of a] that o by (metis slot_eq)
  have o16: "(of_nat a :: u16) = of_nat o' \<longleftrightarrow> a = o'" if "a < STACK_SIZE"
    using of_nat_u16_eq that o by simp
  have rec: "?t = (let t1 = t\<lparr>bitmap := bm_set (bitmap t) (o' div 8)\<rparr> in
        case find_entry t (of_nat o') of
          Some i \<Rightarrow> t1\<lparr>entries := (entries t)[i := (entries t ! i)\<lparr>sregion := g\<rparr>]\<rparr>
        | None \<Rightarrow>
            if scount t < MAX_SPILL_SLOTS then
              t1\<lparr>entries := (entries t)[scount t := \<lparr>stack_offset = of_nat o', sregion = g\<rparr>],
                 scount := Suc (scount t)\<rparr>
            else t1\<lparr>bitmap := bm_clear (bitmap t1) (o' div 8)\<rparr>)"
    using o by (simp add: record_spill_def Let_def o'_def [symmetric] ebpf_consts cong: option.case_cong)
  show "spill_view ?t a = ((spill_view t)(o' := (if find_entry t (of_nat o') = None \<and>
      scount t = MAX_SPILL_SLOTS then None else Some g))) a"
  proof (cases "find_entry t (of_nat o')")
    case (Some i)
    then have i: "i < scount t" "i < length (entries t)"
      using find_entry_SomeD cnt len by fastforce+
    have other: "j \<noteq> i" if "find_entry t (of_nat a) = Some j" "a < STACK_SIZE" "a \<noteq> o'" for j
      using that Some o16 find_entry_SomeD by metis
    show ?thesis
      using Some i o len same other
      by (cases "find_entry t (of_nat a)")
        (auto simp: rec Let_def spill_view_def find_entry_retag bm_test_set)
  next
    case None
    show ?thesis
    proof (cases "scount t < MAX_SPILL_SLOTS")
      case True
      then have t: "?t = t\<lparr>bitmap := bm_set (bitmap t) (o' div 8),
          entries := (entries t)[scount t := \<lparr>stack_offset = of_nat o', sregion = g\<rparr>],
          scount := Suc (scount t)\<rparr>"
        using None by (simp add: rec)
      have push: "find_entry ?t o16 = or_else (find_entry t o16)
          (if of_nat o' = o16 then Some (scount t) else None)" for o16
        unfolding t using True len by (subst find_entry_push) simp_all
      consider "\<not> a < STACK_SIZE" | "a = o'" | "a < STACK_SIZE" "a \<noteq> o'" by blast
      then show ?thesis
      proof cases
        case 1
        then show ?thesis using o by (simp add: spill_view_def)
      next
        case 2
        then have "spill_view ?t a = Some g"
          using True None o len unfolding spill_view_def push by (simp add: t bm_test_set)
        with 2 True show ?thesis by simp
      next
        case 3
        then have "find_entry ?t (of_nat a) = find_entry t (of_nat a)"
          using o16 unfolding push by (cases "find_entry t (of_nat a)") auto
        moreover have "sregion (entries ?t ! j) = sregion (entries t ! j)"
          if "find_entry t (of_nat a) = Some j" for j
          using find_entry_SomeD [OF that] by (simp add: t)
        ultimately have "spill_view ?t a = spill_view t a"
          using 3 len same
          by (cases "find_entry t (of_nat a)") (auto simp: spill_view_def t bm_test_set)
        with 3 show ?thesis by simp
      qed
    next
      case False
      then show ?thesis
        using None cnt o len same
        by (auto simp: rec Let_def spill_view_def bm_test_set bm_test_clear)
    qed
  qed
qed

lemma invalidate_view:
  assumes wf: "spill_wf t" and n: "0 < n" "n \<le> 8"
  shows "spill_view (invalidate t sb addr n) =
    (\<lambda>a. if a div 8 \<in> {unat (addr - sb) div 8 .. (unat (addr - sb) + n - 1) div 8}
         then None else spill_view t a)"
proof (rule ext)
  fix a
  let ?o = "unat (addr - sb)"
  define last where "last = (if min (?o + n) (2 ^ 64 - 1) = 0 then 0 else (min (?o + n) (2 ^ 64 - 1) - 1) div 8)"
  have last: "a div 8 \<le> last \<longleftrightarrow> a div 8 \<le> (?o + n - 1) div 8" if "a < STACK_SIZE"
  proof (cases "?o + n \<le> 2 ^ 64 - 1")
    case True
    with n show ?thesis by (simp add: last_def min_def)
  next
    case False
    then have "last = (2 ^ 64 - 2) div 8" "(2 ^ 64 - 1) div 8 \<le> (?o + n - 1) div 8"
      by (simp_all add: last_def min_def div_le_mono)
    then show ?thesis using that by (simp add: ebpf_consts) linarith
  qed
  let ?slots = "takeWhile (\<lambda>slot. slot < STACK_SIZE div 8) [?o div 8..<Suc last]"
  have slots: "x \<in> set ?slots \<longleftrightarrow> ?o div 8 \<le> x \<and> x \<le> last \<and> x < STACK_SIZE div 8" for x
    unfolding set_takeWhile_upt by auto
  show "spill_view (invalidate t sb addr n) a = (if a div 8 \<in> {?o div 8 .. (?o + n - 1) div 8}
         then None else spill_view t a)"
  proof (cases "a < STACK_SIZE")
    case True
    have "\<forall>x \<in> set ?slots. x div 8 < length (bitmap t)"
      unfolding Ball_def slots using wf by (auto simp: spill_wf_def ebpf_consts)
    then have "bm_test (foldl bm_clear (bitmap t) ?slots) (a div 8) \<longleftrightarrow>
        a div 8 \<notin> set ?slots \<and> bm_test (bitmap t) (a div 8)"
      by (rule bm_test_foldl_clear)
    moreover have "bitmap (invalidate t sb addr n) = foldl bm_clear (bitmap t) ?slots"
      unfolding invalidate_def Let_def last_def by simp
    moreover have "find_entry (invalidate t sb addr n) o16 = find_entry t o16"
      "entries (invalidate t sb addr n) = entries t" for o16
      by (simp_all add: invalidate_def Let_def)
    moreover have "a div 8 < STACK_SIZE div 8"
      using True by (simp add: ebpf_consts)
    ultimately show ?thesis
      unfolding spill_view_def slots using True last by auto
  next
    case False
    then show ?thesis by (simp add: spill_view_def)
  qed
qed

end
