(* ===== verification/Bpf_Safety.thy ===== *)
theory Bpf_Safety
  imports Bpf_Machine Bpf_Spill
begin

unbundle bit_operations_syntax

text \<open>
  Safety of the interpreter. \<open>granted\<close> are the region descriptors the caller hands out: the BPF
  stack, the context buffer, the regions of the context pointer fields, pieces of the map storage,
  and map descriptors. \<open>vm_inv\<close> says that every tag in a register, a spill slot or a saved frame is
  granted; every iteration keeps it. It follows that the interpreter reads and writes only memory it
  was given, never writes a read-only context, and in a release build never panics.
\<close>

section \<open>Granted regions and addresses\<close>

definition in_region :: "region \<Rightarrow> u64 \<Rightarrow> bool" where
  "in_region g a \<longleftrightarrow> rbase g \<le> a \<and> a < rend g"

definition granted :: "'w bpf_env \<Rightarrow> region \<Rightarrow> bool" where
  "granted e g \<longleftrightarrow>
     g = stack_region e \<or> g = ctx_region e \<or> g \<in> cpf_region ` set (e_ctx_ptrs e) \<or>
     (\<exists>k < length (e_maps e). g = map_descriptor_region k) \<or>
     (\<exists>vs. rtag g = MapValue vs) \<and>
       (\<exists>mp \<in> set (e_maps e). data_start mp \<le> rbase g \<and> rend g \<le> data_end mp)"

definition readable :: "'w bpf_env \<Rightarrow> u64 \<Rightarrow> bool" where
  "readable e a \<longleftrightarrow>
     e_stack_base e \<le> a \<and> a < stack_end e \<or>
     e_ctx_base e \<le> a \<and> a < ctx_end e \<or>
     (\<exists>c \<in> set (e_ctx_ptrs e). in_region (cpf_region c) a) \<or>
     (\<exists>mp \<in> set (e_maps e). data_start mp \<le> a \<and> a < data_end mp)"

definition writable :: "'w bpf_env \<Rightarrow> u64 \<Rightarrow> bool" where
  "writable e a \<longleftrightarrow>
     e_stack_base e \<le> a \<and> a < stack_end e \<or>
     \<not> e_read_only_ctx e \<and> e_ctx_base e \<le> a \<and> a < ctx_end e \<or>
     (\<exists>c \<in> set (e_ctx_ptrs e). rtag (cpf_region c) \<noteq> Context \<and> in_region (cpf_region c) a) \<or>
     (\<exists>mp \<in> set (e_maps e). data_start mp \<le> a \<and> a < data_end mp)"

text \<open>The caller's contract on context pointer fields: they describe memory, not map descriptors.\<close>

definition env_ok :: "'w bpf_env \<Rightarrow> bool" where
  "env_ok e \<longleftrightarrow> (\<forall>c \<in> set (e_ctx_ptrs e). \<not> is_descriptor (rtag (cpf_region c)))"

lemma granted_readable: "granted e g \<Longrightarrow> \<not> is_descriptor (rtag g) \<Longrightarrow> in_region g a \<Longrightarrow> readable e a"
  by (auto simp: granted_def readable_def in_region_def stack_region_def ctx_region_def
      map_descriptor_region_def intro: order_trans less_le_trans)

lemma granted_writable:
  "granted e g \<Longrightarrow> \<not> is_descriptor (rtag g) \<Longrightarrow> rtag g \<noteq> Context \<Longrightarrow> in_region g a \<Longrightarrow> writable e a"
  by (auto simp: granted_def writable_def in_region_def stack_region_def ctx_region_def
      map_descriptor_region_def intro: order_trans less_le_trans split: if_splits)

lemma granted_descriptor:
  assumes "env_ok e" and "granted e g" and "rtag g = MapDescriptor k"
  shows "unat k < length (e_maps e)"
proof -
  from assms obtain j where j: "j < length (e_maps e)" and "g = map_descriptor_region j"
    by (auto simp: granted_def env_ok_def stack_region_def ctx_region_def split: if_splits)
  with assms(3) have "unat k = j mod 2 ^ 32"
    by (auto simp: map_descriptor_region_def unat_of_nat)
  with j show ?thesis
    using mod_less_eq_dividend [of j "2 ^ 32"] by linarith
qed

section \<open>Accesses stay inside the region\<close>

lemma check_access_InrD:
  assumes "check_access r off n pc = Inr (g, addr)"
  shows "tregion r = Some g" "\<not> is_descriptor (rtag g)" "addr = tvalue r + scast off"
    and "unat addr + unat (of_nat n :: u64) \<le> unat (rend g)" "rbase g \<le> addr"
  using assms
  by (auto simp: check_access_def Let_def word_le_nat_alt not_less split: option.splits if_splits
      dest: checked_add_SomeD)

lemma check_access_in_region:
  assumes "check_access r off n pc = Inr (g, addr)" and "i < n" and "n \<le> 8"
  shows "in_region g (addr + of_nat i)"
proof -
  note D = check_access_InrD [OF assms(1)]
  have "unat (of_nat n :: u64) = n" and i: "unat (of_nat i :: u64) = i"
    using assms(2,3) by (simp_all add: unat_of_nat)
  moreover have "unat (rend g) < 2 ^ LENGTH(64)"
    by (rule unsigned_less)
  ultimately have "unat addr + n < 2 ^ 64 + 1"
    using D(4) by simp
  with assms(2) i have "unat (addr + of_nat i) = unat addr + i"
    by (simp add: unat_word_ariths)
  with D(4,5) assms(2) \<open>unat (of_nat n :: u64) = n\<close> show ?thesis
    by (simp add: in_region_def word_le_nat_alt word_less_nat_alt)
qed

lemma load_le_cong:
  "(\<And>i. i < n \<Longrightarrow> m (a + of_nat i) = m' (a + of_nat i)) \<Longrightarrow> load_le n m a = load_le n m' a"
proof (induction n arbitrary: a)
  case 0
  then show ?case by simp
next
  case (Suc n)
  have "load_le n m (a + 1) = load_le n m' (a + 1)"
    using Suc.prems [of "Suc i" for i] by (intro Suc.IH) (simp add: ac_simps)
  with Suc.prems [of 0] show ?case by simp
qed

lemma store_le_outside:
  "(\<And>i. i < n \<Longrightarrow> b \<noteq> a + of_nat i) \<Longrightarrow> store_le n m a v b = m b"
proof (induction n arbitrary: m a v)
  case 0
  then show ?case by simp
next
  case (Suc n)
  have "store_le n (m(a := ucast v)) (a + 1) (drop_bit 8 v) b = (m(a := ucast v)) b"
    using Suc.prems [of "Suc i" for i] by (intro Suc.IH) (simp add: ac_simps)
  with Suc.prems [of 0] show ?case by simp
qed

section \<open>The invariant\<close>

definition reg_ok :: "'w bpf_env \<Rightarrow> tagged_reg \<Rightarrow> bool" where
  "reg_ok e r \<longleftrightarrow> (\<forall>g. tregion r = Some g \<longrightarrow> granted e g)"

definition spill_ok :: "'w bpf_env \<Rightarrow> spill_tracker \<Rightarrow> bool" where
  "spill_ok e t \<longleftrightarrow> spill_wf t \<and> (\<forall>i < scount t. granted e (sregion (entries t ! i)))"

definition frame_ok :: "'w bpf_env \<Rightarrow> call_frame \<Rightarrow> bool" where
  "frame_ok e f \<longleftrightarrow> length (saved_regs f) = 4 \<and> length (saved_regions f) = 4 \<and>
     (\<forall>g. Some g \<in> set (saved_regions f) \<longrightarrow> granted e g)"

definition vm_inv :: "'w bpf_env \<Rightarrow> 'w vm \<Rightarrow> bool" where
  "vm_inv e s \<longleftrightarrow>
     length (v_reg s) = 11 \<and> (\<forall>r \<in> set (v_reg s). reg_ok e r) \<and>
     spill_ok e (v_spill s) \<and>
     length (v_frames s) = MAX_CALL_DEPTH \<and> (\<forall>f \<in> set (v_frames s). frame_ok e f) \<and>
     v_frame_idx s \<le> MAX_CALL_DEPTH"

lemma reg_ok_scalar [simp]: "reg_ok e (scalar v)"
  by (simp add: reg_ok_def)

lemma reg_ok_value [simp]: "reg_ok e (r\<lparr>tvalue := v\<rparr>) = reg_ok e r"
  by (simp add: reg_ok_def)

lemma reg_ok_untag [simp]: "reg_ok e (r\<lparr>tregion := None\<rparr>)"
  by (simp add: reg_ok_def)

lemma vm_inv_fields [simp]:
  "vm_inv e (s\<lparr>v_pc := p\<rparr>) = vm_inv e s" "vm_inv e (s\<lparr>v_count := c\<rparr>) = vm_inv e s"
  "vm_inv e (s\<lparr>v_mem := m\<rparr>) = vm_inv e s" "vm_inv e (s\<lparr>v_world := w\<rparr>) = vm_inv e s"
  by (simp_all add: vm_inv_def)

lemma vm_inv_reg: "vm_inv e s \<Longrightarrow> k < 11 \<Longrightarrow> reg_ok e (v_reg s ! k)"
  by (simp add: vm_inv_def)

lemma vm_inv_length: "vm_inv e s \<Longrightarrow> length (v_reg s) = 11"
  by (simp add: vm_inv_def)

lemma vm_inv_regs:
  "vm_inv e s \<Longrightarrow> length rs = 11 \<Longrightarrow> \<forall>r \<in> set rs. reg_ok e r \<Longrightarrow> vm_inv e (s\<lparr>v_reg := rs\<rparr>)"
  by (simp add: vm_inv_def)

lemma vm_inv_set_reg: "vm_inv e s \<Longrightarrow> reg_ok e r \<Longrightarrow> vm_inv e (set_reg s d r)"
  unfolding set_reg_def by (rule vm_inv_regs) (auto simp: vm_inv_def dest: set_list_updateD)

lemma vm_inv_spill: "vm_inv e s \<Longrightarrow> spill_ok e t \<Longrightarrow> vm_inv e (s\<lparr>v_spill := t\<rparr>)"
  by (simp add: vm_inv_def)

lemma spill_ok_record:
  assumes "spill_ok e t" and "granted e g" and "unat (addr - sb) mod 8 = 0"
  shows "spill_ok e (record_spill t sb addr g)"
proof -
  have len: "scount t \<le> length (entries t)" "length (entries t) = MAX_SPILL_SLOTS"
    using assms(1) by (simp_all add: spill_ok_def spill_wf_def)
  have found: "i < length (entries t)" if "find_entry t o16 = Some i" for i o16
    using find_entry_SomeD [OF that] len by simp
  show ?thesis
    using assms len found spill_wf_record [of t addr sb g]
    by (auto simp: spill_ok_def record_spill_def Let_def nth_list_update less_Suc_eq
        split: option.splits)
qed

lemma spill_ok_invalidate: "spill_ok e t \<Longrightarrow> spill_ok e (invalidate t sb addr n)"
  using spill_wf_invalidate [of t sb addr n] by (simp add: spill_ok_def) (simp add: invalidate_def Let_def)

lemma spill_ok_restore: "spill_ok e t \<Longrightarrow> check_restore t sb addr = Some g \<Longrightarrow> granted e g"
  by (auto simp: spill_ok_def check_restore_def Let_def split: if_splits dest: find_entry_SomeD)

lemma initial_vm_inv: "vm_inv e (initial_vm e m w)"
proof -
  have "spill_ok e new_spill_tracker"
    by (simp add: spill_ok_def spill_wf_new) (simp add: new_spill_tracker_def)
  moreover have "granted e (stack_region e)" "granted e (ctx_region e)"
    by (simp_all add: granted_def)
  ultimately show ?thesis
    by (auto simp: vm_inv_def initial_vm_def reg_ok_def frame_ok_def zeroed_frame_def
        dest!: set_list_updateD split: if_splits)
qed

section \<open>One iteration\<close>

text \<open>Helpers are code of the host: the frame statements assume that they, too, write only memory
  the caller made writable.\<close>

definition helpers_confined :: "'w bpf_env \<Rightarrow> bool" where
  "helpers_confined e \<longleftrightarrow>
     (\<forall>h \<in> set (e_helpers e). \<forall>a1 a2 a3 a4 a5 m w x. \<not> writable e x \<longrightarrow>
        fst (snd (h_func h a1 a2 a3 a4 a5 (m, w))) x = m x)"

definition confined :: "'w bpf_env \<Rightarrow> 'w vm \<Rightarrow> 'w vm \<Rightarrow> bool" where
  "confined e s s' \<longleftrightarrow> (helpers_confined e \<longrightarrow> (\<forall>a. \<not> writable e a \<longrightarrow> v_mem s' a = v_mem s a))"

definition step_safe :: "'w bpf_env \<Rightarrow> 'w vm \<Rightarrow> 'w vm_result \<Rightarrow> bool" where
  "step_safe e s r \<longleftrightarrow>
     (case r of
        Next s' \<Rightarrow> vm_inv e s' \<and> confined e s s'
      | Stop x s' \<Rightarrow> (x = Panicked \<longrightarrow> e_overflow_checks e) \<and> confined e s s')"

lemma step_safe_simps [simp]:
  "step_safe e s (Next s') \<longleftrightarrow> vm_inv e s' \<and> confined e s s'"
  "step_safe e s (Stop x s') \<longleftrightarrow> (x = Panicked \<longrightarrow> e_overflow_checks e) \<and> confined e s s'"
  by (simp_all add: step_safe_def)

lemma confined_same_mem: "v_mem s' = v_mem s \<Longrightarrow> confined e s s'"
  by (simp add: confined_def)

lemma confined_trans: "confined e s t \<Longrightarrow> confined e t u \<Longrightarrow> confined e s u"
  by (simp add: confined_def)

lemma step_safe_lift:
  "confined e s s1 \<Longrightarrow> (\<And>x. r = Inr x \<Longrightarrow> step_safe e s (k x)) \<Longrightarrow> step_safe e s (lift_res s1 r k)"
  by (cases r) (simp_all add: lift_res_def)

lemma mem_store_confined:
  assumes "mem_store n r off v pc (v_mem s) = Inr m" and "reg_ok e r" and "n \<le> 8"
  shows "confined e s (s\<lparr>v_mem := m\<rparr>)"
proof -
  from assms(1) obtain g addr where c: "check_access r off n pc = Inr (g, addr)"
    and m: "m = (if rtag g = Context then v_mem s else store_le n (v_mem s) addr v)"
    by (auto simp: mem_store_def result_simps split: if_splits)
  note D = check_access_InrD [OF c]
  have "granted e g" using D(1) assms(2) by (simp add: reg_ok_def)
  have "m b = v_mem s b" if "\<not> writable e b" for b
  proof (cases "rtag g = Context")
    case True
    then show ?thesis by (simp add: m)
  next
    case False
    have "b \<noteq> addr + of_nat i" if "i < n" for i
      using granted_writable [OF \<open>granted e g\<close> D(2) False check_access_in_region [OF c that assms(3)]]
        \<open>\<not> writable e b\<close> by auto
    with False show ?thesis by (simp add: m store_le_outside)
  qed
  then show ?thesis by (simp add: confined_def)
qed

lemmas mem_store_confined_sizes =
  mem_store_confined [where n = "Suc 0", simplified] mem_store_confined [where n = 2, simplified]
  mem_store_confined [where n = 4, simplified] mem_store_confined [where n = 8, simplified]

text \<open>The value an atomic operation writes does not matter for safety: it writes back through the
  checked address, or not at all, and leaves scalars in the registers it changes.\<close>

lemma atomic_writes:
  assumes c: "check_access r off n pc = Inr (g, addr)" and "n \<le> 8" and "reg_ok e r"
    and m: "m' = m \<or> rtag g \<noteq> Context \<and> (\<exists>v. m' = store_le n m addr v)"
  shows "\<not> writable e b \<Longrightarrow> m' b = m b"
proof -
  assume b: "\<not> writable e b"
  note D = check_access_InrD [OF c]
  have "granted e g" using D(1) assms(3) by (simp add: reg_ok_def)
  have "b \<noteq> addr + of_nat i" if "i < n" "rtag g \<noteq> Context" for i
    using granted_writable [OF \<open>granted e g\<close> D(2) that(2) check_access_in_region [OF c that(1) assms(2)]] b
    by auto
  with m show ?thesis by (auto simp: store_le_outside)
qed

lemma mem_atomic32_InrD:
  assumes "mem_atomic32 r off reg sr op pc m = Inr (reg', m')"
  obtains g addr where "check_access r off 4 pc = Inr (g, addr)"
    and "m' = m \<or> rtag g \<noteq> Context \<and> (\<exists>v. m' = store_le 4 m addr v)"
    and "reg' = reg \<or> (\<exists>k v. reg' = reg[k := scalar v])"
  using assms
  by (auto simp: mem_atomic32_def result_simps Let_def split: if_splits)

lemma mem_atomic64_InrD:
  assumes "mem_atomic64 r off reg sr op pc m = Inr (reg', m')"
  obtains g addr where "check_access r off 8 pc = Inr (g, addr)"
    and "m' = m \<or> rtag g \<noteq> Context \<and> (\<exists>v. m' = store_le 8 m addr v)"
    and "reg' = reg \<or> (\<exists>k v. reg' = reg[k := scalar v])"
  using assms
  by (auto simp: mem_atomic64_def result_simps Let_def split: if_splits)

lemma vm_inv_invalidate_after:
  "vm_inv e s \<Longrightarrow> vm_inv e (invalidate_after e base off n s)"
  by (auto simp: invalidate_after_def intro!: vm_inv_spill spill_ok_invalidate) (simp add: vm_inv_def)

lemma vm_inv_spill_after:
  "vm_inv e s \<Longrightarrow> reg_ok e stored \<Longrightarrow> vm_inv e (spill_after e base off stored s)"
  by (auto simp: spill_after_def Let_def reg_ok_def vm_inv_def split: option.splits
      intro!: spill_ok_invalidate spill_ok_record)

lemma v_mem_after [simp]:
  "v_mem (invalidate_after e base off n s) = v_mem s"
  "v_mem (spill_after e base off stored s) = v_mem s"
  "v_mem (set_reg s d r) = v_mem s"
  by (simp_all add: invalidate_after_def spill_after_def set_reg_def Let_def split: option.splits)

lemma confined_set_mem: "confined e s (s\<lparr>v_mem := m\<rparr>) \<Longrightarrow> v_mem t = m \<Longrightarrow> confined e s t"
  by (simp add: confined_def)

lemma add_region_cases: "add_region pc d s = Inr g \<Longrightarrow> g = None \<or> g = d \<or> g = s"
  by (auto simp: add_region_def split: option.splits if_splits)

lemma sub_region_cases: "sub_region pc d s = Inr g \<Longrightarrow> g = None \<or> g = d \<or> g = s"
  by (auto simp: sub_region_def split: option.splits if_splits)

lemma alu64_ptr_region:
  "alu64_ptr opc off imm d s pc = Some (Inr r) \<Longrightarrow>
     tregion r = None \<or> tregion r = tregion d \<or> tregion r = tregion s"
  by (auto simp: alu64_ptr_def result_simps split: if_splits dest: add_region_cases sub_region_cases)

lemma alu64_muldiv_region: "alu64_muldiv opc off imm d s pc = Some (Inr r) \<Longrightarrow> tregion r = None"
  by (auto simp: alu64_muldiv_def split: if_splits)

lemma alu64_logic_region:
  "alu64_logic opc off imm d s pc = Some (Inr r) \<Longrightarrow>
     tregion r = None \<or> tregion r = tregion d \<or> tregion r = tregion s"
  unfolding alu64_logic_def by (auto split: if_splits)

lemma alu64_region:
  "alu64 opc off imm d s pc = Some (Inr r) \<Longrightarrow>
     tregion r = None \<or> tregion r = tregion d \<or> tregion r = tregion s"
  unfolding alu64_def
  by (auto dest!: or_else_SomeD dest: alu64_ptr_region alu64_muldiv_region alu64_logic_region)

lemma map_value_reg_granted:
  assumes "map_value_reg mp nimm pc = Inr r" and "mp \<in> set (e_maps e)"
  shows "reg_ok e r"
proof -
  from assms(1) obtain g where "tregion r = Some g" "rtag g = MapValue (mr_value_size mp)"
      "data_start mp \<le> rbase g" "rend g \<le> data_end mp"
    by (auto simp: map_value_reg_def result_simps Let_def not_less split: if_splits)
  with assms(2) show ?thesis
    by (auto simp: reg_ok_def granted_def)
qed

lemma ctx_ptr_granted: "find P (e_ctx_ptrs e) = Some c \<Longrightarrow> granted e (cpf_region c)"
  by (auto simp: granted_def find_Some_iff)

lemma loaded_region_granted:
  assumes "vm_inv e s" and "loaded_region e s base addr = Some g"
  shows "granted e g"
proof (cases "stack_tagged base")
  case True
  with assms show ?thesis
    by (auto simp: loaded_region_def vm_inv_def dest: spill_ok_restore)
next
  case False
  with assms(2) show ?thesis
    by (auto simp: loaded_region_def Let_def split: if_splits option.splits dest: ctx_ptr_granted)
qed

lemma helper_map_value_ok:
  assumes "helper_map_value (e_maps e) reg arg result pc = Inr r"
  shows "reg_ok e r"
proof (cases "result = 0")
  case True
  with assms show ?thesis
    by (auto simp: helper_map_value_def split: if_splits)
next
  case False
  with assms obtain k where k: "k < length (e_maps e)"
    and r: "map_option rtag (tregion r) = Some (MapValue (mr_value_size (e_maps e ! k)))"
      "data_start (e_maps e ! k) \<le> rbase (the (tregion r))"
      "rend (the (tregion r)) \<le> data_end (e_maps e ! k)"
    by (fastforce simp: helper_map_value_def Let_def not_less not_le
        split: if_splits option.splits region_tag.splits)
  then show ?thesis
    by (auto simp: reg_ok_def granted_def intro!: bexI [of _ "e_maps e ! k"])
qed

lemma helper_map_value_no_panic:
  assumes "env_ok e" and "length reg = 11" and "\<forall>r \<in> set reg. reg_ok e r"
  shows "helper_map_value (e_maps e) reg arg result pc \<noteq> Inl None"
proof
  assume p: "helper_map_value (e_maps e) reg arg result pc = Inl None"
  then obtain g k where g: "tregion (reg ! unat arg) = Some g" "rtag g = MapDescriptor k"
      and k: "length (e_maps e) \<le> unat k" and "arg \<le> 5"
    by (auto simp: helper_map_value_def Let_def split: if_splits option.splits region_tag.splits)
  then have "unat arg < length reg"
    using assms(2) by (simp add: word_le_nat_alt)
  with assms(3) g have "granted e g" by (auto simp: reg_ok_def)
  from granted_descriptor [OF assms(1) this g(2)] k show False by simp
qed

subsection \<open>The opcode arms are safe\<close>

lemma confined_after [simp]:
  "confined e s (invalidate_after e' base off n t) = confined e s t"
  "confined e s (spill_after e' base off stored t) = confined e s t"
  by (simp_all add: confined_def)

lemma step_safe_lift_same:
  "(\<And>x. r = Inr x \<Longrightarrow> step_safe e s (k x)) \<Longrightarrow> step_safe e s (lift_res s r k)"
  by (rule step_safe_lift) (simp_all add: confined_same_mem)

lemma safe_set_reg: "vm_inv e s \<Longrightarrow> reg_ok e r \<Longrightarrow> step_safe e s (Next (set_reg s d r))"
  by (simp add: vm_inv_set_reg confined_same_mem)

lemma safe_load:
  assumes "vm_inv e s" and "exec_load e i s = Some r"
  shows "step_safe e s r"
  using assms(2)
  by (auto simp: exec_load_def Let_def reg_ok_def split: if_splits
      intro!: step_safe_lift_same safe_set_reg assms(1)
      intro: loaded_region_granted [OF assms(1)] simp del: step_safe_simps)

lemma safe_store_imm:
  assumes "vm_inv e s" and "exec_store_imm e i s = Some r" and "i_dst i \<le> 10"
  shows "step_safe e s r"
proof -
  have "reg_ok e (v_reg s ! unat (i_dst i))"
    using assms by (intro vm_inv_reg) (simp_all add: word_le_nat_alt)
  then show ?thesis
    using assms(1,2)
    by (auto simp: exec_store_imm_def Let_def vm_inv_invalidate_after split: if_splits
        intro!: step_safe_lift_same intro: mem_store_confined_sizes)
qed

lemma safe_store_reg:
  assumes "vm_inv e s" and "exec_store_reg e i s = Some r" and "i_dst i \<le> 10" and "i_src i \<le> 10"
  shows "step_safe e s r"
proof -
  have "reg_ok e (v_reg s ! unat (i_dst i))" "reg_ok e (v_reg s ! unat (i_src i))"
    using assms by (auto intro!: vm_inv_reg simp: word_le_nat_alt)
  then show ?thesis
    using assms(1,2)
    by (auto simp: exec_store_reg_def Let_def vm_inv_invalidate_after vm_inv_spill_after
        split: if_splits intro!: step_safe_lift_same
        intro: mem_store_confined_sizes)
qed

lemma vm_inv_scalar_update:
  "vm_inv e s \<Longrightarrow> rs = v_reg s \<or> (\<exists>k v. rs = (v_reg s)[k := scalar v]) \<Longrightarrow> vm_inv e (s\<lparr>v_reg := rs\<rparr>)"
  by (auto simp: vm_inv_def dest: set_list_updateD)

lemma safe_atomic:
  assumes "vm_inv e s" and "exec_atomic e i s = Some r" and "i_dst i \<le> 10"
  shows "step_safe e s r"
proof -
  let ?base = "v_reg s ! unat (i_dst i)"
  have base: "reg_ok e ?base"
    using assms by (intro vm_inv_reg) (simp_all add: word_le_nat_alt)
  have ok: "step_safe e s (Next (invalidate_after e ?base (i_off i) n (s\<lparr>v_reg := rs, v_mem := m\<rparr>)))"
    if "check_access ?base (i_off i) n pc = Inr (g, addr)" "n \<le> 8"
      "m = v_mem s \<or> rtag g \<noteq> Context \<and> (\<exists>v. m = store_le n (v_mem s) addr v)"
      "rs = v_reg s \<or> (\<exists>k v. rs = (v_reg s)[k := scalar v])" for n rs m pc g addr
  proof -
    have "vm_inv e (s\<lparr>v_reg := rs, v_mem := m\<rparr>)"
      using vm_inv_scalar_update [OF assms(1) that(4)] by simp
    moreover have "m b = v_mem s b" if "\<not> writable e b" for b
      using atomic_writes [OF _ _ base] \<open>check_access ?base (i_off i) n pc = Inr (g, addr)\<close>
        \<open>n \<le> 8\<close> \<open>m = v_mem s \<or> _\<close> that by blast
    ultimately show ?thesis
      by (simp add: vm_inv_invalidate_after confined_def)
  qed
  have "step_safe e s (lift_res s (mem_atomic32 ?base (i_off i) (v_reg s) sr op pc (v_mem s))
      (\<lambda>(rs, m). Next (invalidate_after e ?base (i_off i) 4 (s\<lparr>v_reg := rs, v_mem := m\<rparr>))))"
    for sr op pc
  proof (rule step_safe_lift_same, clarify)
    fix rs m assume "mem_atomic32 ?base (i_off i) (v_reg s) sr op pc (v_mem s) = Inr (rs, m)"
    then show "step_safe e s (Next (invalidate_after e ?base (i_off i) 4 (s\<lparr>v_reg := rs, v_mem := m\<rparr>)))"
      by (rule mem_atomic32_InrD) (rule ok, assumption, simp, assumption+)
  qed
  moreover have "step_safe e s (lift_res s (mem_atomic64 ?base (i_off i) (v_reg s) sr op pc (v_mem s))
      (\<lambda>(rs, m). Next (invalidate_after e ?base (i_off i) 8 (s\<lparr>v_reg := rs, v_mem := m\<rparr>))))"
    for sr op pc
  proof (rule step_safe_lift_same, clarify)
    fix rs m assume "mem_atomic64 ?base (i_off i) (v_reg s) sr op pc (v_mem s) = Inr (rs, m)"
    then show "step_safe e s (Next (invalidate_after e ?base (i_off i) 8 (s\<lparr>v_reg := rs, v_mem := m\<rparr>)))"
      by (rule mem_atomic64_InrD) (rule ok, assumption, simp, assumption+)
  qed
  ultimately show ?thesis
    using assms(2) by (auto simp: exec_atomic_def Let_def split: if_splits)
qed

lemma safe_alu:
  assumes "vm_inv e s" and "exec_alu i s = Some r" and "i_dst i \<le> 10" and "i_src i \<le> 10"
  shows "step_safe e s r"
proof -
  have ok: "reg_ok e (v_reg s ! unat (i_dst i))" "reg_ok e (v_reg s ! unat (i_src i))"
    using assms by (auto intro!: vm_inv_reg simp: word_le_nat_alt)
  have "reg_ok e t"
    if "alu64 opc off imm (v_reg s ! unat (i_dst i)) (v_reg s ! unat (i_src i)) pc = Some (Inr t)"
    for opc off imm pc t
    using alu64_region [OF that] ok by (auto simp: reg_ok_def)
  then show ?thesis
    using assms(1,2)
    by (auto simp: exec_alu_def Let_def confined_same_mem split: option.splits
        simp del: step_safe_simps(1) intro!: step_safe_lift_same safe_set_reg)
qed

lemma safe_jump:
  assumes "vm_inv e s" and "exec_jump e i s = Some r"
  shows "step_safe e s r"
  using assms
  by (auto simp: exec_jump_def Let_def confined_same_mem split: option.splits if_splits
      intro!: step_safe_lift_same)

definition regs_ok :: "'w bpf_env \<Rightarrow> tagged_reg list \<Rightarrow> bool" where
  "regs_ok e rs \<longleftrightarrow> length rs = 11 \<and> (\<forall>r \<in> set rs. reg_ok e r)"

lemma regs_ok_update: "regs_ok e rs \<Longrightarrow> reg_ok e x \<Longrightarrow> regs_ok e (rs[k := x])"
  by (auto simp: regs_ok_def dest: set_list_updateD)

lemma regs_ok_clobber: "regs_ok e rs \<Longrightarrow> regs_ok e (clobber_tags rs)"
  unfolding clobber_tags_def by (erule foldl_invariant) (simp add: regs_ok_update)

lemma regs_ok_restore:
  assumes "regs_ok e rs" and "frame_ok e f"
  shows "regs_ok e (restore_regs f rs)"
  unfolding restore_regs_def
proof (rule foldl_invariant)
  fix rs j assume "j \<in> set [0..<4]" "regs_ok e rs"
  moreover have "reg_ok e \<lparr>tvalue = saved_regs f ! j, tregion = saved_regions f ! j\<rparr>" if "j < 4"
    using assms(2) that nth_mem [of j "saved_regions f"] unfolding frame_ok_def reg_ok_def
    by (metis tagged_reg.select_convs(2))
  ultimately show "regs_ok e (rs[6 + j := \<lparr>tvalue = saved_regs f ! j, tregion = saved_regions f ! j\<rparr>])"
    by (simp add: regs_ok_update)
qed (rule assms(1))

lemma vm_inv_regs_ok: "vm_inv e s \<Longrightarrow> regs_ok e (v_reg s)"
  by (simp add: vm_inv_def regs_ok_def)

lemma vm_inv_with_regs: "vm_inv e s \<Longrightarrow> regs_ok e rs \<Longrightarrow> vm_inv e (s\<lparr>v_reg := rs\<rparr>)"
  by (simp add: vm_inv_def regs_ok_def)

lemma safe_helper:
  assumes env: "env_ok e" and inv: "vm_inv e s"
  shows "step_safe e s (exec_helper e i s)"
proof (cases "find (\<lambda>h. h_id h = i_imm i) (e_helpers e)")
  case None
  then show ?thesis
    by (simp add: exec_helper_def confined_same_mem)
next
  case (Some h)
  then have h: "h \<in> set (e_helpers e)" by (auto simp: find_Some_iff)
  let ?reg = "v_reg s"
  obtain result m w where call: "h_func h (tvalue (?reg ! 1)) (tvalue (?reg ! 2)) (tvalue (?reg ! 3))
      (tvalue (?reg ! 4)) (tvalue (?reg ! 5)) (v_mem s, v_world s) = (result, m, w)"
    by (metis prod.exhaust)
  then have conf: "confined e s t" if "v_mem t = m" for t
    using h that unfolding confined_def helpers_confined_def by (metis fst_conv snd_conv)
  have regs: "length ?reg = 11" "\<forall>r \<in> set ?reg. reg_ok e r"
    using inv by (simp_all add: vm_inv_def)
  have inv': "vm_inv e (s\<lparr>v_mem := m, v_world := w, v_reg := clobber_tags (?reg[0 := r])\<rparr>)"
    if "reg_ok e r" for r
    using inv that vm_inv_regs_ok [OF inv]
    by (intro vm_inv_with_regs regs_ok_clobber regs_ok_update) simp_all
  show ?thesis
  proof (cases "h_ret h")
    case RetScalar
    with Some call inv' show ?thesis
      by (simp add: exec_helper_def Let_def conf)
  next
    case (MapValueOrNull arg)
    let ?r = "helper_map_value (e_maps e) ?reg arg result (v_pc s - 1)"
    from helper_map_value_no_panic [OF env regs, of arg result "v_pc s - 1"]
    consider err where "?r = Inl (Some err)" | r where "?r = Inr r" "reg_ok e r"
      using helper_map_value_ok [of e ?reg arg result "v_pc s - 1"]
      by (cases ?r) (auto simp: not_None_eq)
    then show ?thesis
      by cases (use Some call MapValueOrNull inv' in \<open>simp_all add: exec_helper_def Let_def conf\<close>)
  qed
qed

lemma safe_local_call:
  assumes inv: "vm_inv e s"
  shows "step_safe e s (exec_local_call e i s)"
proof (cases "v_frame_idx s \<ge> MAX_CALL_DEPTH \<or> plain_sub e (tvalue (v_reg s ! 10)) (of_nat STACK_SIZE_PER_FRAME) = None")
  case True
  then show ?thesis
    by (auto simp: exec_local_call_def Let_def confined_same_mem plain_sub_def split: option.splits if_splits)
next
  case False
  then obtain fp where k: "v_frame_idx s < MAX_CALL_DEPTH"
    and fp: "plain_sub e (tvalue (v_reg s ! 10)) (of_nat STACK_SIZE_PER_FRAME) = Some fp"
    by auto
  let ?f = "\<lparr>saved_regs = map (\<lambda>j. tvalue (v_reg s ! (6 + j))) [0..<4],
      saved_regions = map (\<lambda>j. tregion (v_reg s ! (6 + j))) [0..<4],
      return_pc = v_pc s, frame_size = of_nat STACK_SIZE_PER_FRAME\<rparr>"
  have "reg_ok e (v_reg s ! (6 + j))" if "j < 4" for j
    using that by (intro vm_inv_reg [OF inv]) simp
  then have "frame_ok e ?f"
    by (auto simp: frame_ok_def reg_ok_def)
  then have "\<forall>f \<in> set ((v_frames s)[v_frame_idx s := ?f]). frame_ok e f"
    using inv by (intro all_set_list_update) (simp_all add: vm_inv_def)
  moreover have "regs_ok e ((v_reg s)[10 := (v_reg s ! 10)\<lparr>tvalue := fp\<rparr>])"
    using vm_inv_regs_ok [OF inv] vm_inv_reg [OF inv, of 10] by (simp add: regs_ok_update)
  ultimately show ?thesis
    using inv k fp
    by (auto simp: exec_local_call_def Let_def vm_inv_def regs_ok_def confined_same_mem
        intro!: step_safe_lift)
qed

lemma safe_exit:
  assumes inv: "vm_inv e s"
  shows "step_safe e s (exec_exit e s)"
proof (cases "v_frame_idx s > 0")
  case False
  then show ?thesis by (simp add: exec_exit_def confined_same_mem)
next
  case True
  let ?f = "v_frames s ! (v_frame_idx s - 1)"
  let ?rs = "restore_regs ?f (v_reg s)"
  have "frame_ok e ?f"
    using inv True nth_mem [of "v_frame_idx s - 1" "v_frames s"] by (auto simp: vm_inv_def)
  then have rs: "regs_ok e ?rs"
    by (rule regs_ok_restore [OF vm_inv_regs_ok [OF inv]])
  then have "reg_ok e (?rs ! 10)" by (simp add: regs_ok_def)
  with rs have "regs_ok e (?rs[10 := (?rs ! 10)\<lparr>tvalue := fp\<rparr>])" for fp
    by (simp add: regs_ok_update)
  with inv True show ?thesis
    by (auto simp: exec_exit_def Let_def confined_same_mem vm_inv_def regs_ok_def plain_add_def
        split: option.splits if_splits)
qed

lemma safe_ld_dw_imm:
  assumes inv: "vm_inv e s" and fetch: "get_insn (e_prog e) (v_pc s) \<noteq> None \<or> v_pc s \<ge> num_insns e"
  shows "step_safe e s (exec_ld_dw_imm e i s)"
proof -
  have map: "reg_ok e \<lparr>tvalue = v, tregion = Some (map_descriptor_region k)\<rparr>" if "k < length (e_maps e)" for k v
    using that by (auto simp: reg_ok_def granted_def)
  have val: "reg_ok e r" if "map_value_reg (e_maps e ! k) n pc = Inr r" "k < length (e_maps e)" for k n pc r
    using map_value_reg_granted [OF that(1), of e] that(2) by simp
  show ?thesis
    using inv fetch
    by (auto simp: exec_ld_dw_imm_def Let_def confined_same_mem plain_add_def not_le not_less
        split: option.splits if_splits intro!: vm_inv_set_reg step_safe_lift map intro: val)
qed

lemma safe_insn:
  assumes "env_ok e" and "vm_inv e s" and "i_dst i \<le> 10" and "i_src i \<le> 10"
    and "get_insn (e_prog e) (v_pc s) \<noteq> None \<or> v_pc s \<ge> num_insns e"
  shows "step_safe e s (exec_insn e i s)"
  using assms
  by (auto simp: exec_insn_def exec_call_def confined_same_mem split: option.splits
      intro: safe_ld_dw_imm safe_helper safe_local_call safe_exit
      dest!: or_else_SomeD
      dest: safe_load safe_store_imm safe_store_reg safe_atomic safe_alu safe_jump
      simp del: step_safe_simps(1))

lemma get_insn_in_range: "length p mod INSN_SIZE = 0 \<Longrightarrow> k < length p div INSN_SIZE \<Longrightarrow> get_insn p k \<noteq> None"
  by (auto simp: get_insn_def INSN_SIZE_def Let_def)

lemma safe_step:
  assumes "env_ok e" and "vm_inv e s" and "length (e_prog e) mod INSN_SIZE = 0"
  shows "step_safe e s (bpf_step e s)"
proof -
  have fetch: "get_insn (e_prog e) k \<noteq> None \<or> k \<ge> num_insns e" for k
    using get_insn_in_range [OF assms(3)] by (auto simp: num_insns_def not_le)
  have "step_safe e s (exec_insn e i (s\<lparr>v_count := c, v_pc := p\<rparr>))"
    if "i_dst i \<le> 10" "i_src i \<le> 10" for i c p
    using safe_insn [OF assms(1), of "s\<lparr>v_count := c, v_pc := p\<rparr>" i] fetch [of p] that assms(2)
    by (auto simp: step_safe_def confined_def split: step_result.splits)
  then show ?thesis
    using fetch [of "v_pc s"]
    by (auto simp: bpf_step_def Let_def plain_add_def confined_same_mem not_less split: option.splits)
qed

section \<open>The loop\<close>

text \<open>The invariant of the loop relative to the memory \<open>m0\<close> it started with.\<close>

definition env_wf :: "'w bpf_env \<Rightarrow> bool" where
  "env_wf e \<longleftrightarrow> env_ok e \<and> length (e_prog e) mod INSN_SIZE = 0"

definition mem_kept :: "'w bpf_env \<Rightarrow> memory \<Rightarrow> memory \<Rightarrow> bool" where
  "mem_kept e m0 m \<longleftrightarrow> (helpers_confined e \<longrightarrow> (\<forall>a. \<not> writable e a \<longrightarrow> m a = m0 a))"

lemma mem_kept_confined: "mem_kept e m0 (v_mem s) \<Longrightarrow> confined e s s' \<Longrightarrow> mem_kept e m0 (v_mem s')"
  by (simp add: mem_kept_def confined_def)

interpretation bpf_safe: loop_invariant "bpf_step e"
    "\<lambda>s. env_wf e \<and> vm_inv e s \<and> mem_kept e m0 (v_mem s)"
    "\<lambda>x s. mem_kept e m0 (v_mem s) \<and> (x = Panicked \<longrightarrow> e_overflow_checks e)"
  for e :: "'w bpf_env" and m0 :: memory
proof unfold_locales
  fix s s' x
  assume inv: "env_wf e \<and> vm_inv e s \<and> mem_kept e m0 (v_mem s)"
  then have safe: "step_safe e s (bpf_step e s)"
    by (intro safe_step) (simp_all add: env_wf_def)
  show "env_wf e \<and> vm_inv e s' \<and> mem_kept e m0 (v_mem s')" if "bpf_step e s = Next s'"
    using safe that inv by (auto intro: mem_kept_confined)
  show "mem_kept e m0 (v_mem s') \<and> (x = Panicked \<longrightarrow> e_overflow_checks e)" if "bpf_step e s = Stop x s'"
    using safe that inv by (auto intro: mem_kept_confined)
qed

lemma initial_mem_kept: "mem_kept e m (v_mem (initial_vm e m w))"
  by (simp add: mem_kept_def initial_vm_def writable_def)

end
