(* ===== verification/Bpf_Correct.thy ===== *)
theory Bpf_Correct
  imports Bpf_Termination
begin

unbundle bit_operations_syntax

text \<open>
  The theorems about the BPF interpreter, over \<open>execute_program\<close> and its operations, with witnesses
  on small programs: memory confinement, absence of panics, termination within the budget, local
  calls, the load/store round trip, the spill tracker, and the arithmetic helpers.
\<close>

section \<open>Reachable states\<close>

inductive bpf_reachable :: "'w bpf_env \<Rightarrow> memory \<Rightarrow> 'w \<Rightarrow> 'w vm \<Rightarrow> bool" for e m w where
  init: "bpf_reachable e m w (initial_vm e m w)"
| step: "bpf_reachable e m w s \<Longrightarrow> bpf_step e s = Next s' \<Longrightarrow> bpf_reachable e m w s'"

lemma reachable_inv:
  "bpf_reachable e m w s \<Longrightarrow> env_ok e \<Longrightarrow> length (e_prog e) mod INSN_SIZE = 0 \<Longrightarrow> vm_inv e s"
proof (induction rule: bpf_reachable.induct)
  case init
  then show ?case by (simp add: initial_vm_inv)
next
  case (step s s')
  then show ?case using safe_step [of e s] by simp
qed

lemma execute_program_post:
  assumes "env_ok e" and "execute_program fuel e m w = Some (x, s)"
  shows "mem_kept e m (v_mem s)"
    and "x = Panicked \<Longrightarrow> e_overflow_checks e \<or>
           checked_add (e_stack_base e) (of_nat STACK_SIZE) = None \<or>
           checked_add (e_ctx_base e) (of_nat (e_ctx_len e)) = None"
proof -
  consider "s = initial_vm e m w" "x \<noteq> Panicked"
    | "s = initial_vm e m w" "checked_add (e_stack_base e) (of_nat STACK_SIZE) = None \<or>
           checked_add (e_ctx_base e) (of_nat (e_ctx_len e)) = None"
    | "env_wf e" "run_loop (bpf_step e) fuel (initial_vm e m w) = Some (x, s)"
    using assms by (auto simp: execute_program_def Let_def bpf_run_def env_wf_def split: if_splits)
  then have "mem_kept e m (v_mem s) \<and> (x = Panicked \<longrightarrow> e_overflow_checks e \<or>
           checked_add (e_stack_base e) (of_nat STACK_SIZE) = None \<or>
           checked_add (e_ctx_base e) (of_nat (e_ctx_len e)) = None)"
  proof cases
    case 3
    then show ?thesis
      using bpf_safe.run_post [OF _ 3(2)] initial_vm_inv [of e m w] initial_mem_kept [of e m w] by blast
  qed (use initial_mem_kept [of e m w] in auto)
  then show "mem_kept e m (v_mem s)"
    and "x = Panicked \<Longrightarrow> e_overflow_checks e \<or>
           checked_add (e_stack_base e) (of_nat STACK_SIZE) = None \<or>
           checked_add (e_ctx_base e) (of_nat (e_ctx_len e)) = None" by auto
qed

lemma load_le_store_le:
  "n \<le> 8 \<Longrightarrow> load_le n (store_le n m a v) a = take_bit (8 * n) v"
proof (induction n arbitrary: m a v)
  case 0
  then show ?case by simp
next
  case (Suc n)
  have "a + 1 + of_nat i \<noteq> a" if "i < n" for i
  proof -
    have "(1 + of_nat i :: u64) = of_nat (Suc i)" by simp
    also have "\<dots> \<noteq> 0" using that Suc.prems by (simp only: word_unat_eq_iff unat_of_nat) simp
    finally show ?thesis by (simp add: add.assoc)
  qed
  then have "store_le n (m(a := ucast v)) (a + 1) (drop_bit 8 v) a = ucast v"
    by (subst store_le_outside) auto
  moreover have "load_le n (store_le n (m(a := ucast v)) (a + 1) (drop_bit 8 v)) (a + 1) =
      take_bit (8 * n) (drop_bit 8 v)"
    using Suc by simp
  moreover have "ucast (ucast v :: u8) OR push_bit 8 (take_bit (8 * n) (drop_bit 8 v)) =
      take_bit (8 * Suc n) v"
    by (rule bit_eqI) (auto simp: bit_simps)
  ultimately show ?case by simp
qed

lemma execute_program_ends:
  assumes "e_budget e \<noteq> UNLIMITED_BUDGET" and "unat (e_budget e) < fuel"
  shows "\<exists>x s. execute_program fuel e m w = Some (x, s)"
proof -
  have "\<exists>r. run_loop (bpf_step e) fuel (initial_vm e m w) = Some r"
    by (rule bpf_budget.run_terminates) (use assms in \<open>simp_all add: initial_vm_def\<close>)
  then show ?thesis by (auto simp: execute_program_def bpf_run_def Let_def)
qed

section \<open>Example programs\<close>

definition ex_env :: "insn list \<Rightarrow> bool \<Rightarrow> unit bpf_env" where
  "ex_env is chk = \<lparr>e_prog = encode_prog is, e_ctx_len = 0, e_helpers = [], e_maps = [],
     e_read_only_ctx = True, e_budget = 100, e_ctx_ptrs = [], e_stack_base = 0x10000,
     e_ctx_base = 0x20000, e_overflow_checks = chk\<rparr>"

definition ex_insns :: "insn list" where
  "ex_insns =
     [\<lparr>i_opc = ST_DW_IMM, i_dst = 10, i_src = 0, i_off = - 8, i_imm = 7\<rparr>,
      \<lparr>i_opc = LD_DW_REG, i_dst = 0, i_src = 10, i_off = - 8, i_imm = 0\<rparr>,
      \<lparr>i_opc = EXIT, i_dst = 0, i_src = 0, i_off = 0, i_imm = 0\<rparr>]"

definition ex_call_insns :: "insn list" where
  "ex_call_insns =
     [\<lparr>i_opc = CALL, i_dst = 0, i_src = 1, i_off = 0, i_imm = 1\<rparr>,
      \<lparr>i_opc = EXIT, i_dst = 0, i_src = 0, i_off = 0, i_imm = 0\<rparr>,
      \<lparr>i_opc = MOV64_IMM, i_dst = 6, i_src = 0, i_off = 0, i_imm = 9\<rparr>,
      \<lparr>i_opc = EXIT, i_dst = 0, i_src = 0, i_off = 0, i_imm = 0\<rparr>]"

definition ex_underflow_insns :: "insn list" where
  "ex_underflow_insns =
     [\<lparr>i_opc = MOV64_IMM, i_dst = 10, i_src = 0, i_off = 0, i_imm = 0\<rparr>,
      \<lparr>i_opc = CALL, i_dst = 0, i_src = 1, i_off = 0, i_imm = 0\<rparr>,
      \<lparr>i_opc = EXIT, i_dst = 0, i_src = 0, i_off = 0, i_imm = 0\<rparr>]"

lemma num_insns_ex [simp]: "num_insns (ex_env is chk) = length is"
  by (simp add: num_insns_def ex_env_def length_encode_prog INSN_SIZE_def)

lemma fetch_ex:
  "k < length is \<Longrightarrow> insn_ok (is ! k) \<Longrightarrow> get_insn (e_prog (ex_env is chk)) k = Some (is ! k)"
  by (simp add: ex_env_def get_insn_encode_prog)

lemma ex_fields [simp]:
  "e_ctx_len (ex_env is chk) = 0" "e_helpers (ex_env is chk) = []" "e_maps (ex_env is chk) = []"
  "e_read_only_ctx (ex_env is chk) = True" "e_budget (ex_env is chk) = 100"
  "e_ctx_ptrs (ex_env is chk) = []" "e_stack_base (ex_env is chk) = 0x10000"
  "e_ctx_base (ex_env is chk) = 0x20000" "e_overflow_checks (ex_env is chk) = chk"
  "length (e_prog (ex_env is chk)) = 8 * length is"
  by (simp_all add: ex_env_def length_encode_prog)

lemma ex_env_ok [simp]: "env_ok (ex_env is chk)" "helpers_confined (ex_env is chk)"
  by (simp_all add: env_ok_def helpers_confined_def)

lemmas bpf_eval = execute_program_def bpf_run_def run_loop_numeral bpf_step_def Let_def plain_add_def
  plain_sub_def fetch_ex insn_ok_def initial_vm_def ebpf_consts exec_insn_def checked_add_def
  stack_end_def stack_region_def ctx_region_def ctx_end_def or_else_def lift_res_def result_simps
  exec_store_imm_def exec_store_reg_def exec_atomic_def exec_load_def exec_alu_def exec_exit_def
  exec_call_def exec_local_call_def check_jump_def restore_regs_def
  mem_store_def mem_load_def check_access_def set_reg_def loaded_region_def
  invalidate_after_def alu32_def alu32_arith_def alu32_logic_def byte_swap_def alu64_def
  alu64_ptr_def alu64_muldiv_def alu64_logic_def

lemma ex_insns_run:
  "\<exists>s. execute_program 4 (ex_env ex_insns chk) (\<lambda>_. 0) () = Some (Returned 7, s)"
  by (simp add: bpf_eval ex_insns_def) (simp add: load_le_store_le)

section \<open>Whole executions\<close>

text \<open>C3. Memory confinement: whatever the program does, an execution of the interpreter changes no
  byte outside the BPF stack, the context (unless it is read-only), the writable regions behind
  context pointer fields and the map storage, provided the host's helpers do not either.\<close>

theorem bpf_memory_confined:
  assumes "env_ok e" and "helpers_confined e"
    and "execute_program fuel e m w = Some (x, s)" and "\<not> writable e a"
  shows "v_mem s a = m a"
  using execute_program_post(1) [OF assms(1,3)] assms(2,4) by (simp add: mem_kept_def)

theorem bpf_memory_confined_witness:
  "\<exists>s. execute_program 4 (ex_env ex_insns False) (\<lambda>_. 0) () = Some (Returned 7, s) \<and> v_mem s 0x20000 = 0"
proof -
  obtain s where s: "execute_program 4 (ex_env ex_insns False) (\<lambda>_. 0) () = Some (Returned 7, s)"
    using ex_insns_run by blast
  with bpf_memory_confined [OF _ _ this, of "0x20000"] show ?thesis
    by (simp add: writable_def stack_end_def STACK_SIZE_def ebpf_consts)
qed

text \<open>C4. No panics: in a build without overflow checks, when the stack and the context buffer do not
  wrap around the address space, no program makes the interpreter panic; every failure is an
  error value.\<close>

theorem bpf_no_panic:
  assumes "env_ok e" and "\<not> e_overflow_checks e"
    and "checked_add (e_stack_base e) (of_nat STACK_SIZE) \<noteq> None"
    and "checked_add (e_ctx_base e) (of_nat (e_ctx_len e)) \<noteq> None"
    and "execute_program fuel e m w = Some (x, s)"
  shows "x \<noteq> Panicked"
  using execute_program_post(2) [OF assms(1,5)] assms(2-4) by blast

theorem bpf_no_panic_witness:
  "\<exists>x s. execute_program 4 (ex_env ex_insns False) (\<lambda>_. 0) () = Some (x, s) \<and> x \<noteq> Panicked"
proof -
  obtain s where s: "execute_program 4 (ex_env ex_insns False) (\<lambda>_. 0) () = Some (Returned 7, s)"
    using ex_insns_run by blast
  with bpf_no_panic [OF _ _ _ _ this] show ?thesis
    by (simp add: checked_add_def ebpf_consts)
qed

text \<open>C5. Termination: with an instruction budget other than \<open>UNLIMITED_BUDGET\<close>, every program ends,
  and \<open>budget + 1\<close> iterations of the loop are enough.\<close>

theorem bpf_terminates:
  assumes "e_budget e \<noteq> UNLIMITED_BUDGET" and "unat (e_budget e) < fuel"
  shows "\<exists>x s. execute_program fuel e m w = Some (x, s)"
  by (rule execute_program_ends [OF assms])

theorem bpf_terminates_witness:
  "\<exists>x s. execute_program 101 (ex_env ex_insns False) (\<lambda>_. 0) () = Some (x, s)"
  by (rule bpf_terminates) (simp_all add: UNLIMITED_BUDGET_def)

text \<open>C16. Reads are confined too: in every reachable state, an access the checks let through, with
  any register as base and any offset, touches only bytes of the regions the caller granted.\<close>

theorem bpf_reads_confined:
  assumes "env_ok e" and "length (e_prog e) mod INSN_SIZE = 0" and "bpf_reachable e m w s"
    and "k < 11" and "check_access (v_reg s ! k) off n pc = Inr (g, addr)" and "i < n" and "n \<le> 8"
  shows "readable e (addr + of_nat i)"
proof (rule granted_readable)
  have "reg_ok e (v_reg s ! k)"
    using vm_inv_reg [OF reachable_inv [OF assms(3,1,2)] assms(4)] .
  then show "granted e g"
    using check_access_InrD(1) [OF assms(5)] by (simp add: reg_ok_def)
  show "\<not> is_descriptor (rtag g)" by (rule check_access_InrD(2) [OF assms(5)])
  show "in_region g (addr + of_nat i)" by (rule check_access_in_region [OF assms(5-7)])
qed

theorem bpf_reads_confined_witness:
  "readable (ex_env ex_insns False) (0x10ff8 + of_nat 3)"
proof (rule bpf_reads_confined [where k = 10 and off = "- 8" and n = 8 and pc = 0 and m = "\<lambda>_. 0" and w = "()"])
  show "bpf_reachable (ex_env ex_insns False) (\<lambda>_. 0) () (initial_vm (ex_env ex_insns False) (\<lambda>_. 0) ())"
    by (rule init)
  show "check_access (v_reg (initial_vm (ex_env ex_insns False) (\<lambda>_. 0) ()) ! 10) (- 8) 8 0 =
      Inr (stack_region (ex_env ex_insns False), 0x10ff8)"
    by (simp add: bpf_eval)
qed (simp_all add: INSN_SIZE_def)

text \<open>C17. Local calls: when a local call starts a callee that runs, at any depth of further calls, to
  an exit in its own frame, the exit gives the caller back r6-r9 with their region tags and goes on
  after the call; the frame pointer is what the callee left in r10 plus one frame.\<close>

theorem bpf_call_return:
  assumes env: "env_wf e" and inv: "vm_inv e s" and call: "exec_local_call e i s = Next s1"
    and run: "inner e (Suc (v_frame_idx s)) s1 t" and depth: "v_frame_idx t = Suc (v_frame_idx s)"
    and exit: "exec_exit e t = Next u"
  shows "(\<forall>k \<in> {6..9}. v_reg u ! k = v_reg s ! k) \<and> v_pc u = v_pc s \<and> v_frame_idx u = v_frame_idx s \<and>
    tvalue (v_reg u ! 10) = tvalue (v_reg t ! 10) + of_nat STACK_SIZE_PER_FRAME"
proof -
  let ?f = "\<lparr>saved_regs = map (\<lambda>j. tvalue (v_reg s ! (6 + j))) [0..<4],
      saved_regions = map (\<lambda>j. tregion (v_reg s ! (6 + j))) [0..<4],
      return_pc = v_pc s, frame_size = of_nat STACK_SIZE_PER_FRAME\<rparr>"
  have s1: "v_frame_idx s1 = Suc (v_frame_idx s)" "v_frames s1 ! v_frame_idx s = ?f"
    using call inv by (auto elim!: local_call_NextD simp: vm_inv_def)
  have f: "v_frames t ! v_frame_idx s = ?f"
    using inner_frames [OF run, of "v_frame_idx s"] s1 by simp
  have "vm_inv e s1" using safe_local_call [OF inv, of i] call by simp
  then have len: "length (v_reg t) = 11"
    using inner_inv [OF run env] by (simp add: vm_inv_length)
  from exit obtain fp where fp: "plain_add e (tvalue (v_reg t ! 10)) (of_nat STACK_SIZE_PER_FRAME) = Some fp"
    and u: "u = t\<lparr>v_frame_idx := v_frame_idx s, v_reg := (restore_regs ?f (v_reg t))
               [10 := (v_reg t ! 10)\<lparr>tvalue := fp\<rparr>], v_pc := v_pc s\<rparr>"
    by (rule exit_NextD) (simp add: depth f restore_regs_nth len)
  have "tvalue (v_reg u ! 10) = tvalue (v_reg t ! 10) + of_nat STACK_SIZE_PER_FRAME"
    using fp len by (simp add: u length_restore_regs plain_add_def split: if_splits)
  then show ?thesis
    by (auto simp: u restore_regs_nth len)
qed

definition ex_call_env :: "unit bpf_env" where "ex_call_env = ex_env ex_call_insns False"

definition ex_vm :: "unit vm" where "ex_vm = (initial_vm ex_call_env (\<lambda>_. 0) ())\<lparr>v_pc := 1\<rparr>"

lemma ex_call:
  "exec_local_call ex_call_env (ex_call_insns ! 0) ex_vm = Next s1 \<Longrightarrow>
     \<exists>t u. bpf_step ex_call_env s1 = Next t \<and> v_frame_idx t = 1 \<and> exec_exit ex_call_env t = Next u"
  by (auto simp: bpf_eval ex_call_env_def ex_vm_def ex_call_insns_def)

lemma ex_call_ok: "\<exists>s1. exec_local_call ex_call_env (ex_call_insns ! 0) ex_vm = Next s1"
  by (simp add: bpf_eval ex_call_env_def ex_vm_def ex_call_insns_def)

theorem bpf_call_return_witness:
  "\<exists>s1 t u. exec_local_call ex_call_env (ex_call_insns ! 0) ex_vm = Next s1 \<and>
     bpf_step ex_call_env s1 = Next t \<and> exec_exit ex_call_env t = Next u \<and> v_pc u = v_pc ex_vm \<and> v_reg u ! 6 = v_reg ex_vm ! 6"
proof -
  obtain s1 t u where run: "exec_local_call ex_call_env (ex_call_insns ! 0) ex_vm = Next s1"
      "bpf_step ex_call_env s1 = Next t" "v_frame_idx t = 1" "exec_exit ex_call_env t = Next u"
    using ex_call_ok ex_call by blast
  have "env_wf ex_call_env" by (simp add: env_wf_def ex_call_env_def INSN_SIZE_def)
  moreover have "vm_inv ex_call_env ex_vm" by (simp add: ex_vm_def initial_vm_inv)
  moreover have "v_frame_idx ex_vm = 0" by (simp add: ex_vm_def initial_vm_def)
  moreover have "inner ex_call_env 1 s1 t"
    using inner.step [OF inner.refl run(2)] run(3) by simp
  ultimately show ?thesis
    using bpf_call_return [of ex_call_env ex_vm "ex_call_insns ! 0" s1 t u] run by auto
qed

lemma uint_add_neg_offset:
  fixes b :: u64 and off :: u16
  assumes "sint off < 0"
  shows "uint (b + scast off) = (if 0 \<le> uint b + sint off then uint b + sint off else uint b + sint off + 2 ^ 64)"
proof -
  have "uint (b + scast off) = (uint b + sint off) mod 2 ^ 64"
  proof -
    have "b + scast off = word_of_int (uint b + sint off)" by simp
    then show ?thesis by (simp only: uint_word_of_int) simp
  qed
  moreover have "- 32768 \<le> sint off" using sint_ge [of off] by simp
  moreover have "0 \<le> uint b" "uint b < 2 ^ 64" using uint_bounded [of b] by simp_all
  ultimately show ?thesis
  proof (cases "0 \<le> uint b + sint off")
    case False
    have "0 \<le> x + y + 2 ^ 64 \<and> x + y + 2 ^ 64 < 2 ^ 64"
      if "\<not> 0 \<le> x + y" "- 32768 \<le> y" "0 \<le> x" for x y :: int using that by simp
    then have "(uint b + sint off + 2 ^ 64) mod 2 ^ 64 = uint b + sint off + 2 ^ 64"
      using False \<open>- 32768 \<le> sint off\<close> \<open>0 \<le> uint b\<close> by (intro mod_pos_pos_trivial) blast+
    with False \<open>uint (b + scast off) = _\<close> show ?thesis
      by (simp only: mod_add_self2 if_False)
  qed (use assms in simp)
qed

lemma below_base_fails:
  assumes "unat (rend g) \<le> unat (rbase g) + 4096" and "tregion r = Some g" and "tvalue r = rbase g"
    and "sint off < 0" and "n \<le> 8"
  shows "\<exists>err. check_access r off n pc = Inl err"
proof (cases "check_access r off n pc")
  case (Inr q)
  then obtain h a where c: "check_access r off n pc = Inr (h, a)" by (cases q) auto
  note D = check_access_InrD [OF c]
  have "unat (rbase g) \<le> unat a" "unat a \<le> unat (rbase g) + 4096" and a: "a = rbase g + scast off"
    using D assms(1-3) by (simp_all add: word_le_nat_alt)
  then have "uint (rbase g) \<le> uint a" "uint a \<le> uint (rbase g) + 4096"
    unfolding uint_nat by linarith+
  moreover have "- 32768 \<le> sint off" using sint_ge [of off] by simp
  ultimately have False
    using uint_add_neg_offset [OF assms(4), of "rbase g"] assms(4) unfolding a by (simp split: if_splits)
  then show ?thesis ..
qed simp

text \<open>C39. The eighth nested local call is accepted although the stack holds eight frames in all: its
  callee gets a frame pointer at the very base of the stack, and every access below it fails.\<close>

theorem bpf_eighth_call_no_stack:
  assumes "v_frame_idx s = 7" and "length (v_reg s) = 11"
    and "v_reg s ! 10 = \<lparr>tvalue = e_stack_base e + 512, tregion = Some (stack_region e)\<rparr>"
    and "checked_add (e_stack_base e) (of_nat STACK_SIZE) \<noteq> None"
    and "check_jump (v_pc s) (sint (i_imm i)) (num_insns e) = Inr p"
  shows "\<exists>s'. exec_local_call e i s = Next s' \<and> v_frame_idx s' = 8 \<and> v_pc s' = p \<and>
           (\<forall>off n pc. sint off < 0 \<and> n \<le> 8 \<longrightarrow> (\<exists>err. check_access (v_reg s' ! 10) off n pc = Inl err))"
proof -
  let ?b = "e_stack_base e"
  let ?r = "\<lparr>tvalue = ?b, tregion = Some (stack_region e)\<rparr>"
  have room: "unat ?b + 4096 < 2 ^ 64"
    using assms(4) by (simp add: checked_add_eq_None ebpf_consts)
  then have sub: "plain_sub e (?b + 512) 512 = Some ?b"
    by (simp add: plain_sub_def word_less_nat_alt unat_word_ariths)
  have "unat (rend (stack_region e)) \<le> unat (rbase (stack_region e)) + 4096"
    using room by (simp add: stack_region_def stack_end_def ebpf_consts unat_word_ariths)
  then have "\<exists>err. check_access ?r off n pc = Inl err" if "sint off < 0" "n \<le> 8" for off n pc
    using below_base_fails [of "stack_region e" ?r off n pc] that by (simp add: stack_region_def)
  then show ?thesis
    using assms sub by (simp add: exec_local_call_def Let_def ebpf_consts lift_res_def)
qed

definition ex_deep_vm :: "unit vm" where
  "ex_deep_vm = (initial_vm ex_call_env (\<lambda>_. 0) ())\<lparr>v_frame_idx := 7, v_pc := 1,
     v_reg := (replicate 11 zeroed_reg)[10 := \<lparr>tvalue = 0x10200, tregion = Some (stack_region ex_call_env)\<rparr>]\<rparr>"

theorem bpf_eighth_call_no_stack_witness:
  "\<exists>s'. exec_local_call ex_call_env (ex_call_insns ! 0) ex_deep_vm = Next s' \<and>
     (\<exists>err. check_access (v_reg s' ! 10) (- 8) 8 0 = Inl err)"
  using bpf_eighth_call_no_stack [of ex_deep_vm ex_call_env "ex_call_insns ! 0" 2]
  by (fastforce simp: ex_deep_vm_def ex_call_env_def ex_call_insns_def checked_add_def ebpf_consts check_jump_def)

text \<open>With overflow checks compiled in, a two-instruction program makes the interpreter panic: r10
  is an ordinary destination register, and a local call subtracts the frame size from it unchecked.\<close>

theorem bpf_debug_build_panics:
  "\<exists>s. execute_program 3 (ex_env ex_underflow_insns True) (\<lambda>_. 0) () = Some (Panicked, s)"
  by (simp add: bpf_eval ex_underflow_insns_def)

section \<open>Single operations\<close>

text \<open>Load after store: a store the checks let through is read back at its width by a load with the
  same operands, and a store to a read-only context leaves memory as it was.\<close>

theorem mem_store_load:
  assumes "mem_store n r off v pc m = Inr m'" and "n \<le> 8"
  shows "if map_option rtag (tregion r) = Some Context then m' = m
         else mem_load n r off pc m' = Inr (take_bit (8 * n) v)"
proof -
  from assms(1) obtain g a where c: "check_access r off n pc = Inr (g, a)"
    and m': "m' = (if rtag g = Context then m else store_le n m a v)"
    by (auto simp: mem_store_def result_simps split: if_splits)
  with check_access_InrD(1) [OF c] assms(2) show ?thesis
    by (simp add: mem_load_def c result_simps load_le_store_le)
qed

theorem mem_store_load_witness:
  "mem_load 2 \<lparr>tvalue = 0x100, tregion = Some \<lparr>rtag = Memory, rbase = 0x100, rend = 0x110\<rparr>\<rparr> 4 0
     (store_le 2 (\<lambda>_. 0) 0x104 0x12345) = Inr 0x2345"
  using mem_store_load [of 2 "\<lparr>tvalue = 0x100, tregion = Some \<lparr>rtag = Memory, rbase = 0x100, rend = 0x110\<rparr>\<rparr>"
      4 "0x12345" 0 "\<lambda>_. 0" "store_le 2 (\<lambda>_. 0) 0x104 0x12345"]
  by (simp add: mem_store_def check_access_def checked_add_def result_simps)

text \<open>A spilled pointer is restored with its region exactly from the slot it was written to; the
  other slots keep what they held, unless the table of 32 entries is full and the slot is new, when
  the slot is left without a tag.\<close>

theorem spill_record_restore:
  assumes "spill_wf t" and "unat (addr - sb) < STACK_SIZE" and "unat (addr - sb) mod 8 = 0"
  shows "check_restore (record_spill t sb addr g) sb a =
    (if a = addr then
       if find_entry t (of_nat (unat (addr - sb))) = None \<and> scount t = MAX_SPILL_SLOTS then None else Some g
     else check_restore t sb a)"
  using record_spill_view [OF assms, of g]
  by (simp add: check_restore_view word_unat_eq_iff [symmetric])

theorem spill_record_restore_witness:
  "check_restore (record_spill new_spill_tracker 0x100 0x110 (stack_region ex_call_env)) 0x100 0x110 =
     Some (stack_region ex_call_env)"
  using spill_record_restore [OF spill_wf_new, of "0x110" "0x100" "stack_region ex_call_env" "0x110"]
  by (simp add: ebpf_consts new_spill_tracker_def MAX_SPILL_SLOTS_def split: if_splits)

text \<open>Any store that overlaps a spill slot strips the slot of its tag, so a pointer whose bytes were
  changed cannot be restored as a pointer; slots the store does not touch are kept.\<close>

theorem spill_invalidate_restore:
  assumes "spill_wf t" and "0 < n" and "n \<le> 8"
  shows "check_restore (invalidate t sb addr n) sb a =
    (if unat (a - sb) div 8 \<in> {unat (addr - sb) div 8 .. (unat (addr - sb) + n - 1) div 8} then None
     else check_restore t sb a)"
  using invalidate_view [OF assms] by (simp add: check_restore_view)

theorem spill_invalidate_restore_witness:
  "check_restore (invalidate new_spill_tracker 0x100 0x10b 8) 0x100 0x110 = None"
  using spill_invalidate_restore [OF spill_wf_new, of 8 "0x100" "0x10b" "0x110"] by simp

lemma ucast_u32_bound: "ucast (x :: u32) < (2 ^ 32 :: u64)"
proof -
  have "unat (ucast x :: u64) = unat x" by (simp add: unsigned_ucast_eq take_bit_nat_eq_self less_trans [OF unsigned_less])
  then show ?thesis using unsigned_less [of x] by (simp add: word_less_nat_alt)
qed

lemma mask_u32_bound: "v AND 0xffffffff < (2 ^ 32 :: u64)"
  using word_and_le1 [of v "0xffffffff"] by (rule order.strict_trans1) simp

text \<open>Every 32-bit ALU result is zero-extended: the upper half of the destination is clear.\<close>

theorem alu32_zero_extends:
  assumes "alu32 opc off imm dv sv = Some (Some v)"
  shows "v < 2 ^ 32"
proof -
  have "v < 2 ^ 32" if "alu32_arith opc off imm dv sv = Some (Some v)"
    using that ucast_u32_bound by (auto simp: alu32_arith_def Let_def split: if_splits)
  moreover have "v < 2 ^ 32" if "alu32_logic opc off imm dv sv = Some (Some v)"
    using that ucast_u32_bound mask_u32_bound [of dv] by (auto simp: alu32_logic_def Let_def split: if_splits)
  ultimately show ?thesis
    using assms by (auto simp: alu32_def dest: or_else_SomeD)
qed

theorem alu32_zero_extends_witness:
  "alu32 ADD32_IMM 0 0xffffffff 0xffffffffffffffff 0 = Some (Some 0xfffffffe) \<and> (0xfffffffe :: u64) < 2 ^ 32"
proof -
  have "alu32 ADD32_IMM 0 0xffffffff 0xffffffffffffffff 0 = Some (Some 0xfffffffe)"
    by (simp add: alu32_def alu32_arith_def or_else_def ebpf_consts)
  with alu32_zero_extends [OF this] show ?thesis by simp
qed

lemma swap_swap:
  "swap16 (swap16 a) = a" "swap32 (swap32 b) = b" "swap64 (swap64 c) = c"
  by (simp_all add: swap16_def swap32_def swap64_def from_be_bytes_def
      to_from_le_bytes [of "rev (to_le_bytes n w)" for n w, simplified] from_to_le_bytes)

text \<open>The byte swap instructions are involutions on the low 16, 32 or 64 bits.\<close>

theorem byte_swap_involution:
  assumes "n \<in> {16, 32, 64}" and "byte_swap BE n v = Some (Some v')"
  shows "byte_swap BE n v' = Some (Some (take_bit (unat n) v))"
proof -
  have "take_bit 16 v = ucast (ucast v :: u16)" "take_bit 32 v = ucast (ucast v :: u32)" "take_bit 64 v = v"
    by (auto intro!: bit_eqI simp: bit_simps)
  moreover have "ucast (ucast a :: u64) = a" "ucast (ucast b :: u64) = b" for a :: u16 and b :: u32
    by (simp_all add: ucast_up_ucast_id is_up)
  ultimately show ?thesis
    using assms by (auto simp: byte_swap_def swap_swap ebpf_consts)
qed

theorem byte_swap_involution_witness:
  "byte_swap BE 64 (swap64 0x1234) = Some (Some 0x1234)"
  using byte_swap_involution [of 64 "0x1234" "swap64 0x1234"] by (simp add: byte_swap_def ebpf_consts)

end
