(* ===== verification/Frame_Codec.thy ===== *)
theory Frame_Codec
  imports Sonde_Prelude
begin

text \<open>
  The radio frame of \<open>sonde-protocol\<close>: the 11-byte header (\<open>header.rs\<close>), the AES-256-GCM frame
  codec (\<open>aead_codec.rs\<close>), and the chunking of program images (\<open>chunk.rs\<close>). AES-GCM and SHA-256 are
  provided by the caller through the traits of \<open>traits.rs\<close>: \<open>seal\<close>, \<open>unseal\<close> (the trait's \<open>open\<close>)
  and \<open>sha\<close> are arguments of the operations. \<open>usize\<close> is 32 bits on the node and 64 bits on the
  gateway, so the chunk functions take the largest \<open>usize\<close> as an argument.
\<close>

section \<open>Constants and errors\<close>

definition HEADER_SIZE :: nat where "HEADER_SIZE = 11"
definition MAX_FRAME_SIZE :: nat where "MAX_FRAME_SIZE = 250"
definition AEAD_TAG_SIZE :: nat where "AEAD_TAG_SIZE = 16"
definition GCM_NONCE_SIZE :: nat where "GCM_NONCE_SIZE = 12"
definition MIN_FRAME_SIZE :: nat where "MIN_FRAME_SIZE = HEADER_SIZE + AEAD_TAG_SIZE"
definition MAX_PAYLOAD_SIZE :: nat where
  "MAX_PAYLOAD_SIZE = MAX_FRAME_SIZE - HEADER_SIZE - AEAD_TAG_SIZE"
definition OFFSET_KEY_HINT :: nat where "OFFSET_KEY_HINT = 0"
definition OFFSET_MSG_TYPE :: nat where "OFFSET_MSG_TYPE = 2"
definition OFFSET_NONCE :: nat where "OFFSET_NONCE = 3"

lemmas frame_consts = HEADER_SIZE_def MAX_FRAME_SIZE_def AEAD_TAG_SIZE_def GCM_NONCE_SIZE_def
  MIN_FRAME_SIZE_def MAX_PAYLOAD_SIZE_def OFFSET_KEY_HINT_def OFFSET_MSG_TYPE_def OFFSET_NONCE_def

datatype encode_error = FrameTooLarge | EncCborError string | EncInvalidParameter string

datatype decode_error =
    TooShort | TooLong | AuthenticationFailed | InvalidMsgType u8 | InvalidCommandType u8
  | MissingField u64 | InvalidFieldType u64 | DecCborError string | DecInvalidParameter string

section \<open>Header\<close>

record frame_header =
  key_hint :: u16
  msg_type :: u8
  nonce :: u64

definition header_to_bytes :: "frame_header \<Rightarrow> bytes" where
  "header_to_bytes h =
     (let buf = replicate HEADER_SIZE 0;
          buf = copy_at OFFSET_KEY_HINT (be16 (key_hint h)) buf;
          buf = buf[OFFSET_MSG_TYPE := msg_type h]
      in copy_at OFFSET_NONCE (be64 (nonce h)) buf)"

definition header_from_bytes :: "bytes \<Rightarrow> frame_header" where
  "header_from_bytes bs =
     \<lparr>key_hint = from_be_bytes [bs ! OFFSET_KEY_HINT, bs ! (OFFSET_KEY_HINT + 1)],
      msg_type = bs ! OFFSET_MSG_TYPE,
      nonce = from_be_bytes (map (\<lambda>i. bs ! (OFFSET_NONCE + i)) [0..<8])\<rparr>"

lemma header_to_bytes_eq:
  "header_to_bytes h = be16 (key_hint h) @ [msg_type h] @ be64 (nonce h)"
proof -
  have two: "\<exists>a b. xs = [a, b]" if "length xs = 2" for xs :: bytes
    using that by (cases xs) (auto simp: length_Suc_conv numeral_2_eq_2)
  obtain a b where ab: "be16 (key_hint h) = [a, b]"
    using two [of "be16 (key_hint h)"] by auto
  have buf: "copy_at OFFSET_KEY_HINT (be16 (key_hint h)) (replicate HEADER_SIZE 0) = [a, b] @ replicate 9 0"
    by (simp add: copy_at_def frame_consts ab)
  have "([a, b] @ replicate 9 0)[OFFSET_MSG_TYPE := msg_type h] = [a, b, msg_type h] @ replicate 8 0"
    by (simp add: numeral_eq_Suc frame_consts)
  moreover have "copy_at OFFSET_NONCE bs ([a, b, msg_type h] @ replicate 8 0) = [a, b, msg_type h] @ bs"
    if "length bs = 8" for bs
    using that by (simp add: copy_at_def frame_consts)
  ultimately show ?thesis
    unfolding header_to_bytes_def Let_def buf by (simp add: ab)
qed

lemma length_header_to_bytes [simp]: "length (header_to_bytes h) = HEADER_SIZE"
  by (simp add: header_to_bytes_eq HEADER_SIZE_def)

lemma header_from_to_bytes [simp]: "header_from_bytes (header_to_bytes h) = h"
proof -
  have "map (\<lambda>i. header_to_bytes h ! (3 + i)) [0..<8] = be64 (nonce h)"
    by (intro nth_equalityI) (auto simp: header_to_bytes_eq nth_append)
  moreover have "[header_to_bytes h ! 0, header_to_bytes h ! 1] = be16 (key_hint h)"
    by (intro nth_equalityI) (auto simp: header_to_bytes_eq nth_append less_Suc_eq numeral_2_eq_2)
  moreover have "header_to_bytes h ! 2 = msg_type h"
    by (simp add: header_to_bytes_eq nth_append)
  ultimately show ?thesis
    by (simp add: header_from_bytes_def frame_consts from_to_be_bytes)
qed

lemma header_to_from_bytes:
  assumes "length bs = HEADER_SIZE"
  shows "header_to_bytes (header_from_bytes bs) = bs"
proof -
  have "be16 (key_hint (header_from_bytes bs)) = [bs ! 0, bs ! 1]"
    by (simp add: header_from_bytes_def frame_consts to_from_be_bytes)
  moreover have "be64 (nonce (header_from_bytes bs)) = map (\<lambda>i. bs ! (3 + i)) [0..<8]"
    by (simp add: header_from_bytes_def frame_consts to_from_be_bytes)
  moreover have "bs = [bs ! 0, bs ! 1] @ [bs ! 2] @ map (\<lambda>i. bs ! (3 + i)) [0..<8]"
    using assms by (intro nth_equalityI) (auto simp: frame_consts nth_append nth_Cons' less_Suc_eq numeral_eq_Suc)
  ultimately show ?thesis
    by (simp add: header_to_bytes_eq) (simp add: header_from_bytes_def frame_consts)
qed

section \<open>AEAD frames\<close>

text \<open>The traits \<open>AeadProvider\<close> (key, nonce, additional data, text) and \<open>Sha256Provider\<close>.\<close>

type_synonym seal_fn = "bytes \<Rightarrow> bytes \<Rightarrow> bytes \<Rightarrow> bytes \<Rightarrow> bytes"
type_synonym open_fn = "bytes \<Rightarrow> bytes \<Rightarrow> bytes \<Rightarrow> bytes \<Rightarrow> bytes option"
type_synonym sha_fn = "bytes \<Rightarrow> bytes"

record decoded_frame =
  df_header :: frame_header
  ciphertext_and_tag :: bytes

definition build_gcm_nonce :: "bytes \<Rightarrow> u8 \<Rightarrow> bytes \<Rightarrow> sha_fn \<Rightarrow> bytes" where
  "build_gcm_nonce psk mt frame_nonce sha =
     (let hash = sha psk;
          n = replicate GCM_NONCE_SIZE 0;
          n = copy_at 0 (take 3 hash) n;
          n = n[3 := mt]
      in copy_at 4 frame_nonce n)"

definition encode_frame ::
    "frame_header \<Rightarrow> bytes \<Rightarrow> bytes \<Rightarrow> seal_fn \<Rightarrow> sha_fn \<Rightarrow> encode_error + bytes" where
  "encode_frame h payload psk seal sha =
     (let total_size = HEADER_SIZE + length payload + AEAD_TAG_SIZE in
      if total_size > MAX_FRAME_SIZE then Inl FrameTooLarge
      else
        let header_bytes = header_to_bytes h;
            gcm_nonce = build_gcm_nonce psk (msg_type h) (be64 (nonce h)) sha;
            ct = seal psk gcm_nonce header_bytes payload;
            frame_len = HEADER_SIZE + length ct
        in if frame_len > MAX_FRAME_SIZE then Inl FrameTooLarge else Inr (header_bytes @ ct))"

definition decode_frame :: "bytes \<Rightarrow> decode_error + decoded_frame" where
  "decode_frame raw =
     (if length raw < MIN_FRAME_SIZE then Inl TooShort
      else if length raw > MAX_FRAME_SIZE then Inl TooLong
      else Inr \<lparr>df_header = header_from_bytes (take HEADER_SIZE raw),
                ciphertext_and_tag = drop HEADER_SIZE raw\<rparr>)"

definition open_frame :: "decoded_frame \<Rightarrow> bytes \<Rightarrow> open_fn \<Rightarrow> sha_fn \<Rightarrow> decode_error + bytes" where
  "open_frame f psk unseal sha =
     (let h = df_header f;
          gcm_nonce = build_gcm_nonce psk (msg_type h) (be64 (nonce h)) sha
      in ok_or AuthenticationFailed
           (unseal psk gcm_nonce (header_to_bytes h) (ciphertext_and_tag f)))"

text \<open>What AES-256-GCM provides, as the trait documents it: opening a sealed text gives it back, the
  sealed text is the ciphertext (as long as the plaintext) and a 16-byte tag, and, both being
  deterministic, the only text that opens to \<open>p\<close> is the one that sealing \<open>p\<close> gives.\<close>

definition aead_correct :: "seal_fn \<Rightarrow> open_fn \<Rightarrow> bool" where
  "aead_correct seal unseal \<longleftrightarrow> (\<forall>k n a p. unseal k n a (seal k n a p) = Some p)"

definition aead_expands :: "seal_fn \<Rightarrow> bool" where
  "aead_expands seal \<longleftrightarrow> (\<forall>k n a p. length (seal k n a p) = length p + AEAD_TAG_SIZE)"

definition aead_checks_tag :: "seal_fn \<Rightarrow> open_fn \<Rightarrow> bool" where
  "aead_checks_tag seal unseal \<longleftrightarrow> (\<forall>k n a c p. unseal k n a c = Some p \<longrightarrow> c = seal k n a p)"

text \<open>A stand-in with these laws, for the examples: no encryption, and a tag of 16 zero bytes.\<close>

definition plain_seal :: seal_fn where "plain_seal k n a p = p @ replicate AEAD_TAG_SIZE 0"

definition plain_open :: open_fn where
  "plain_open k n a c =
     (let l = length c - AEAD_TAG_SIZE in
      if AEAD_TAG_SIZE \<le> length c \<and> drop l c = replicate AEAD_TAG_SIZE 0 then Some (take l c) else None)"

lemma plain_aead:
  "aead_correct plain_seal plain_open" "aead_expands plain_seal" "aead_checks_tag plain_seal plain_open"
proof -
  show "aead_checks_tag plain_seal plain_open"
    by (auto simp: aead_checks_tag_def plain_seal_def plain_open_def Let_def split: if_splits)
      (metis append_take_drop_id)
qed (simp_all add: aead_correct_def aead_expands_def plain_seal_def plain_open_def)

lemma build_gcm_nonce_eq:
  assumes "length (sha psk) = 32" and "length fn = 8"
  shows "build_gcm_nonce psk mt fn sha = take 3 (sha psk) @ [mt] @ fn"
proof -
  have "copy_at 0 bs (replicate GCM_NONCE_SIZE 0) = bs @ replicate 9 0" if "length bs = 3" for bs :: bytes
    using that by (simp add: copy_at_def frame_consts)
  moreover have "(bs @ replicate 9 0)[3 := mt] = bs @ [mt] @ replicate 8 0" if "length bs = 3" for bs :: bytes
    using that by (simp add: list_update_append numeral_eq_Suc)
  moreover have "copy_at 4 fn (bs @ [mt] @ replicate 8 0) = bs @ [mt] @ fn" if "length bs = 3" for bs :: bytes
    using that assms(2) by (simp add: copy_at_def)
  ultimately show ?thesis
    using assms(1) by (simp add: build_gcm_nonce_def Let_def)
qed

text \<open>The header codec is a bijection between headers and 11-byte strings.\<close>

theorem header_bijection:
  "header_from_bytes (header_to_bytes h) = h \<and>
   (length bs = HEADER_SIZE \<longrightarrow> header_to_bytes (header_from_bytes bs) = bs)"
  by (simp add: header_to_from_bytes)

theorem header_bijection_witness:
  "header_to_bytes (header_from_bytes (replicate 11 7)) = replicate 11 7"
  using header_bijection [where bs = "replicate 11 7"] by (simp add: HEADER_SIZE_def)

lemma encode_frame_opens:
  assumes "aead_correct seal unseal" and "aead_expands seal" and "length payload \<le> MAX_PAYLOAD_SIZE"
  shows "\<exists>raw d. encode_frame h payload psk seal sha = Inr raw \<and> length raw = length payload + 27 \<and>
    decode_frame raw = Inr d \<and> df_header d = h \<and> open_frame d psk unseal sha = Inr payload"
  using assms
  by (auto simp: encode_frame_def decode_frame_def open_frame_def Let_def frame_consts aead_correct_def
      aead_expands_def ok_or_def length_header_to_bytes [unfolded frame_consts])

text \<open>C28. A payload of up to 223 bytes is encoded into a frame of exactly 27 bytes more, which fits the
  250-byte limit and decodes and opens, with the same key, to the same header and payload; a longer
  payload is refused.\<close>

theorem frame_roundtrip:
  assumes "aead_correct seal unseal" and "aead_expands seal"
  shows "if length payload \<le> MAX_PAYLOAD_SIZE
    then \<exists>raw d. encode_frame h payload psk seal sha = Inr raw \<and> length raw = length payload + 27 \<and>
           decode_frame raw = Inr d \<and> df_header d = h \<and> open_frame d psk unseal sha = Inr payload
    else encode_frame h payload psk seal sha = Inl FrameTooLarge"
  using encode_frame_opens [OF assms] by (auto simp: encode_frame_def Let_def frame_consts)

theorem frame_roundtrip_witness:
  "\<exists>raw d. encode_frame \<lparr>key_hint = 1, msg_type = 2, nonce = 3\<rparr> [10, 20] [] plain_seal (\<lambda>_. replicate 32 0) = Inr raw \<and>
     length raw = 29 \<and> decode_frame raw = Inr d \<and>
     open_frame d [] plain_open (\<lambda>_. replicate 32 0) = Inr [10, 20]"
  using frame_roundtrip [OF plain_aead(1,2), where payload = "[10, 20]" and psk = "[]"
      and h = "\<lparr>key_hint = 1, msg_type = 2, nonce = 3\<rparr>" and sha = "\<lambda>_. replicate 32 0"]
  by (auto simp: frame_consts)

text \<open>C10. Only frames made with the key are accepted: if a received frame decodes and opens under a key,
  it is byte for byte the frame the encoder makes from the header and payload that were read, so no
  header bit can be changed in transit without the frame being rejected.\<close>

theorem frame_authentic:
  assumes "aead_checks_tag seal unseal"
    and "decode_frame raw = Inr d" and "open_frame d psk unseal sha = Inr payload"
    and "aead_expands seal"
  shows "encode_frame (df_header d) payload psk seal sha = Inr raw"
proof -
  have len: "27 \<le> length raw" "length raw \<le> 250" and d: "df_header d = header_from_bytes (take 11 raw)"
      "ciphertext_and_tag d = drop 11 raw"
    using assms(2) by (auto simp: decode_frame_def frame_consts split: if_splits)
  then have h: "header_to_bytes (df_header d) = take 11 raw"
    by (simp add: header_to_from_bytes HEADER_SIZE_def)
  have ct: "drop 11 raw = seal psk (build_gcm_nonce psk (msg_type (df_header d)) (be64 (nonce (df_header d))) sha)
      (header_to_bytes (df_header d)) payload"
    using assms(1,3) by (simp add: aead_checks_tag_def open_frame_def Let_def ok_or_Inr_iff d(2))
  then have "length payload + 16 = length raw - 11"
    using assms(4) by (metis AEAD_TAG_SIZE_def aead_expands_def length_drop)
  with len h show ?thesis
    by (simp add: encode_frame_def frame_consts Let_def ct [symmetric, unfolded h])
qed

theorem frame_authentic_witness:
  "encode_frame (header_from_bytes (replicate 11 1)) [5] [] plain_seal (\<lambda>_. []) =
     Inr (replicate 11 1 @ [5] @ replicate 16 0)"
  using frame_authentic [OF plain_aead(3), where raw = "replicate 11 1 @ [5] @ replicate 16 0" and psk = "[]"
      and sha = "\<lambda>_. []" and payload = "[5]"
      and d = "\<lparr>df_header = header_from_bytes (replicate 11 1), ciphertext_and_tag = [5] @ replicate 16 0\<rparr>"]
    plain_aead(2)
  by (simp add: decode_frame_def open_frame_def plain_open_def frame_consts)

text \<open>Under one key, frames that differ in message type or frame nonce use different GCM nonces, and
  a GCM nonce always has 12 bytes.\<close>

theorem gcm_nonce_unique:
  assumes "length (sha psk) = 32" and "length n1 = 8" and "length n2 = 8"
  shows "(build_gcm_nonce psk t1 n1 sha = build_gcm_nonce psk t2 n2 sha \<longleftrightarrow> t1 = t2 \<and> n1 = n2) \<and>
    length (build_gcm_nonce psk t1 n1 sha) = GCM_NONCE_SIZE"
  using assms by (simp add: build_gcm_nonce_eq GCM_NONCE_SIZE_def)

theorem gcm_nonce_unique_witness:
  "build_gcm_nonce [] 1 (be64 5) (\<lambda>_. replicate 32 9) \<noteq> build_gcm_nonce [] 1 (be64 6) (\<lambda>_. replicate 32 9)"
proof -
  have "be64 5 \<noteq> be64 6" using be64.dec_enc [of 5] be64.dec_enc [of 6] by auto
  then show ?thesis
    using gcm_nonce_unique [of "\<lambda>_. replicate 32 9" "[]" "be64 5" "be64 6" 1 1] by simp
qed

section \<open>Chunks\<close>

definition div_ceil :: "nat \<Rightarrow> nat \<Rightarrow> nat" where
  "div_ceil a b = (if a mod b = 0 then a div b else a div b + 1)"

definition chunk_count :: "nat \<Rightarrow> nat \<Rightarrow> u32 option" where
  "chunk_count image_size chunk_size =
     (if chunk_size = 0 then None
      else if image_size = 0 then Some 0
      else let count = div_ceil image_size chunk_size in
        if count < 2 ^ 32 then Some (of_nat count) else None)"

definition get_chunk :: "nat \<Rightarrow> 'a list \<Rightarrow> u32 \<Rightarrow> u32 \<Rightarrow> 'a list option" where
  "get_chunk usize_max img chunk_index chunk_size =
     (if chunk_size = 0 then None
      else
        let start = unat chunk_index * unat chunk_size in
        if start > usize_max then None
        else if start \<ge> length img then None
        else
          let end_unclamped = start + unat chunk_size in
          if end_unclamped > usize_max then None
          else Some (drop start (take (min end_unclamped (length img)) img)))"

text \<open>On a target whose \<open>usize\<close> has at least 32 bits, and for a slice, which is never longer than half
  the address space, none of the overflow checks of \<open>get_chunk\<close> fires.\<close>

lemma get_chunk_eq:
  assumes "2 ^ 32 - 1 \<le> usize_max" and "2 * length img \<le> usize_max"
  shows "get_chunk usize_max img i c =
    (if c \<noteq> 0 \<and> unat i * unat c < length img then Some (take (unat c) (drop (unat i * unat c) img)) else None)"
proof (cases "c \<noteq> 0 \<and> unat i * unat c < length img")
  case True
  have c: "unat c < 2 ^ 32" using unsigned_less [of c] by simp
  have "unat i * unat c + unat c \<le> usize_max"
  proof (cases "unat i = 0")
    case True
    with c assms(1) show ?thesis by simp
  next
    case False
    then have "unat c \<le> unat i * unat c" by simp
    with \<open>c \<noteq> 0 \<and> _\<close> assms(2) show ?thesis by linarith
  qed
  with True show ?thesis
    by (simp add: get_chunk_def Let_def drop_take min_def)
next
  case False
  then show ?thesis by (auto simp: get_chunk_def Let_def)
qed

lemma div_ceil_index:
  assumes "b > 0"
  shows "i * b < a \<longleftrightarrow> i < div_ceil a b"
proof -
  define q r where "q = a div b" and "r = a mod b"
  then have a: "a = q * b + r" "r < b" using assms by simp_all
  show ?thesis
  proof (cases "r = 0")
    case True
    with a assms show ?thesis by (simp add: div_ceil_def q_def [symmetric] r_def [symmetric])
  next
    case False
    have "i * b < q * b + r \<longleftrightarrow> i \<le> q"
    proof
      assume "i * b < q * b + r"
      then have "i * b < Suc q * b" using a(2) by simp
      then show "i \<le> q" by (metis less_Suc_eq_le mult_less_cancel2)
    next
      assume "i \<le> q"
      then have "i * b \<le> q * b" by (rule mult_le_mono1)
      with False show "i * b < q * b + r" by linarith
    qed
    then show ?thesis
      using False unfolding a(1) [symmetric]
      by (simp add: div_ceil_def q_def [symmetric] r_def [symmetric] less_Suc_eq_le)
  qed
qed

lemma div_ceil_covers: "b > 0 \<Longrightarrow> a \<le> div_ceil a b * b"
  using div_ceil_index [of b "div_ceil a b" a] by simp

lemma chunk_count_SomeD:
  assumes "chunk_count a b = Some n"
  shows "0 < b" "unat n = div_ceil a b"
proof -
  show "0 < b" using assms by (auto simp: chunk_count_def split: if_splits)
  have "unat (of_nat k :: u32) = k" if "k < 2 ^ 32" for k
    using that by (simp add: unat_of_nat)
  moreover have "div_ceil 0 b = 0" by (simp add: div_ceil_def)
  ultimately show "unat n = div_ceil a b"
    using assms by (auto simp: chunk_count_def Let_def split: if_splits)
qed

lemma chunk_at:
  assumes "2 ^ 32 - 1 \<le> usize_max" and "2 * length img \<le> usize_max"
    and "chunk_count (length img) (unat c) = Some n" and "i < unat n"
  shows "get_chunk usize_max img (of_nat i) c = Some (take (unat c) (drop (i * unat c) img))"
proof -
  note n = chunk_count_SomeD [OF assms(3)]
  have i: "unat (of_nat i :: u32) = i"
    using assms(4) unsigned_less [of n, where 'a = nat] by (simp add: unat_of_nat)
  have "i * unat c < length img" using div_ceil_index [OF n(1), of i] n(2) assms(4) by simp
  with i n(1) show ?thesis by (auto simp: get_chunk_eq [OF assms(1,2)])
qed

lemma chunks_concat:
  assumes "chunk_count (length img) (unat c) = Some n"
  shows "concat (map (\<lambda>i. take (unat c) (drop (i * unat c) img)) [0..<unat n]) = img"
  using div_ceil_covers [of "unat c" "length img"] chunk_count_SomeD [OF assms] by (simp add: concat_chunks)

text \<open>C29. Chunked transfer is lossless: when \<open>chunk_count\<close> gives a number, exactly the indices below it
  have a chunk, and the chunks in order are the image.\<close>

theorem chunks_reassemble:
  assumes "2 ^ 32 - 1 \<le> usize_max" and "2 * length img \<le> usize_max"
    and "chunk_count (length img) (unat c) = Some n"
  shows "(\<forall>i. get_chunk usize_max img i c \<noteq> None \<longleftrightarrow> i < n) \<and>
    concat (map (\<lambda>i. the (get_chunk usize_max img (of_nat i) c)) [0..<unat n]) = img"
proof -
  note n = chunk_count_SomeD [OF assms(3)]
  have "unat i * unat c < length img \<longleftrightarrow> i < n" for i
    using div_ceil_index [OF n(1), of "unat i"] n(2) by (simp add: word_less_nat_alt)
  moreover have "c \<noteq> 0" using n(1) by auto
  ultimately have "get_chunk usize_max img i c \<noteq> None \<longleftrightarrow> i < n" for i
    by (simp add: get_chunk_eq [OF assms(1,2)])
  moreover have "map (\<lambda>i. the (get_chunk usize_max img (of_nat i) c)) [0..<unat n] =
      map (\<lambda>i. take (unat c) (drop (i * unat c) img)) [0..<unat n]"
    by (intro map_cong refl) (simp add: chunk_at [OF assms])
  ultimately show ?thesis using chunks_concat [OF assms(3)] by metis
qed

theorem chunks_reassemble_witness:
  "concat (map (\<lambda>i. the (get_chunk (2 ^ 32 - 1) [1 :: u8, 2, 3, 4, 5] (of_nat i) 2)) [0..<3]) = [1, 2, 3, 4, 5]"
  using chunks_reassemble [of "2 ^ 32 - 1" "[1 :: u8, 2, 3, 4, 5]" 2 3]
  by (simp add: chunk_count_def div_ceil_def)

end
