(* ===== verification/Modem_Codec.thy ===== *)
theory Modem_Codec
  imports Sonde_Prelude
begin

text \<open>
  The serial protocol between gateway and modem (\<open>sonde-protocol/src/modem.rs\<close>): message types,
  encoder, decoder and the incremental \<open>FrameDecoder\<close>. A fixed-size array is a list with its
  length in \<open>modem_msg_ok\<close>; an \<open>i8\<close> is its byte, since the code only casts it; the static field
  names of \<open>InvalidFieldValue\<close> are strings.
\<close>

section \<open>Constants\<close>

definition SERIAL_LEN_SIZE :: nat where "SERIAL_LEN_SIZE = 2"
definition SERIAL_MAX_LEN :: u16 where "SERIAL_MAX_LEN = 1025"
definition SERIAL_MAX_FRAME_SIZE :: nat where "SERIAL_MAX_FRAME_SIZE = SERIAL_LEN_SIZE + unat SERIAL_MAX_LEN"
definition DECODER_BUF_CAP :: nat where "DECODER_BUF_CAP = SERIAL_MAX_FRAME_SIZE * 4"
definition MAC_SIZE :: nat where "MAC_SIZE = 6"

definition MODEM_MSG_RESET :: u8 where "MODEM_MSG_RESET = 0x01"
definition MODEM_MSG_SEND_FRAME :: u8 where "MODEM_MSG_SEND_FRAME = 0x02"
definition MODEM_MSG_SET_CHANNEL :: u8 where "MODEM_MSG_SET_CHANNEL = 0x03"
definition MODEM_MSG_GET_STATUS :: u8 where "MODEM_MSG_GET_STATUS = 0x04"
definition MODEM_MSG_SCAN_CHANNELS :: u8 where "MODEM_MSG_SCAN_CHANNELS = 0x05"
definition MODEM_MSG_DISPLAY_FRAME_BEGIN :: u8 where "MODEM_MSG_DISPLAY_FRAME_BEGIN = 0x09"
definition MODEM_MSG_DISPLAY_FRAME_CHUNK :: u8 where "MODEM_MSG_DISPLAY_FRAME_CHUNK = 0x0A"
definition MODEM_MSG_BLE_INDICATE :: u8 where "MODEM_MSG_BLE_INDICATE = 0x20"
definition MODEM_MSG_BLE_ENABLE :: u8 where "MODEM_MSG_BLE_ENABLE = 0x21"
definition MODEM_MSG_BLE_DISABLE :: u8 where "MODEM_MSG_BLE_DISABLE = 0x22"
definition MODEM_MSG_BLE_PAIRING_CONFIRM_REPLY :: u8 where "MODEM_MSG_BLE_PAIRING_CONFIRM_REPLY = 0x23"
definition MODEM_MSG_BLE_RECV :: u8 where "MODEM_MSG_BLE_RECV = 0xA0"
definition MODEM_MSG_BLE_CONNECTED :: u8 where "MODEM_MSG_BLE_CONNECTED = 0xA1"
definition MODEM_MSG_BLE_DISCONNECTED :: u8 where "MODEM_MSG_BLE_DISCONNECTED = 0xA2"
definition MODEM_MSG_BLE_PAIRING_CONFIRM :: u8 where "MODEM_MSG_BLE_PAIRING_CONFIRM = 0xA3"
definition MODEM_MSG_EVENT_BUTTON :: u8 where "MODEM_MSG_EVENT_BUTTON = 0xB0"
definition MODEM_MSG_MODEM_READY :: u8 where "MODEM_MSG_MODEM_READY = 0x81"
definition MODEM_MSG_RECV_FRAME :: u8 where "MODEM_MSG_RECV_FRAME = 0x82"
definition MODEM_MSG_SET_CHANNEL_ACK :: u8 where "MODEM_MSG_SET_CHANNEL_ACK = 0x84"
definition MODEM_MSG_STATUS :: u8 where "MODEM_MSG_STATUS = 0x85"
definition MODEM_MSG_SCAN_RESULT :: u8 where "MODEM_MSG_SCAN_RESULT = 0x86"
definition MODEM_MSG_DISPLAY_FRAME_ACK :: u8 where "MODEM_MSG_DISPLAY_FRAME_ACK = 0x87"
definition MODEM_MSG_EVENT_ERROR :: u8 where "MODEM_MSG_EVENT_ERROR = 0x89"
definition MODEM_MSG_ERROR :: u8 where "MODEM_MSG_ERROR = 0x8F"

definition FIRMWARE_COMMIT_SIZE :: nat where "FIRMWARE_COMMIT_SIZE = 8"
definition MODEM_READY_BODY_SIZE :: nat where "MODEM_READY_BODY_SIZE = 4 + MAC_SIZE + FIRMWARE_COMMIT_SIZE"
definition STATUS_BODY_SIZE :: nat where "STATUS_BODY_SIZE = 1 + 4 + 4 + 4 + 4"
definition SEND_FRAME_MIN_BODY_SIZE :: nat where "SEND_FRAME_MIN_BODY_SIZE = MAC_SIZE + 1"
definition SEND_FRAME_MAX_BODY_SIZE :: nat where "SEND_FRAME_MAX_BODY_SIZE = MAC_SIZE + 250"
definition RECV_FRAME_MIN_BODY_SIZE :: nat where "RECV_FRAME_MIN_BODY_SIZE = MAC_SIZE + 1 + 1"
definition RECV_FRAME_MAX_BODY_SIZE :: nat where "RECV_FRAME_MAX_BODY_SIZE = MAC_SIZE + 1 + 250"
definition ESPNOW_MAX_DATA_SIZE :: nat where "ESPNOW_MAX_DATA_SIZE = 250"
definition DISPLAY_FRAME_BODY_SIZE :: nat where "DISPLAY_FRAME_BODY_SIZE = 128 * 64 div 8"
definition DISPLAY_FRAME_CHUNK_SIZE :: nat where "DISPLAY_FRAME_CHUNK_SIZE = 128"
definition DISPLAY_FRAME_CHUNK_COUNT :: u8 where
  "DISPLAY_FRAME_CHUNK_COUNT = of_nat (DISPLAY_FRAME_BODY_SIZE div DISPLAY_FRAME_CHUNK_SIZE)"
definition DISPLAY_FRAME_BEGIN_BODY_SIZE :: nat where "DISPLAY_FRAME_BEGIN_BODY_SIZE = 1"
definition DISPLAY_FRAME_CHUNK_BODY_SIZE :: nat where
  "DISPLAY_FRAME_CHUNK_BODY_SIZE = 2 + DISPLAY_FRAME_CHUNK_SIZE"
definition DISPLAY_FRAME_ACK_BODY_SIZE :: nat where "DISPLAY_FRAME_ACK_BODY_SIZE = 2"
definition BLE_DATA_MAX_BODY_SIZE :: nat where "BLE_DATA_MAX_BODY_SIZE = 511"
definition BLE_CONNECTED_BODY_SIZE :: nat where "BLE_CONNECTED_BODY_SIZE = MAC_SIZE + 2"
definition BLE_DISCONNECTED_BODY_SIZE :: nat where "BLE_DISCONNECTED_BODY_SIZE = MAC_SIZE + 1"
definition BLE_PAIRING_CONFIRM_BODY_SIZE :: nat where "BLE_PAIRING_CONFIRM_BODY_SIZE = 4"
definition BLE_PAIRING_CONFIRM_REPLY_BODY_SIZE :: nat where "BLE_PAIRING_CONFIRM_REPLY_BODY_SIZE = 1"
definition EVENT_BUTTON_BODY_SIZE :: nat where "EVENT_BUTTON_BODY_SIZE = 1"
definition EVENT_ERROR_BODY_SIZE :: nat where "EVENT_ERROR_BODY_SIZE = 1"
definition BLE_PASSKEY_MAX :: u32 where "BLE_PASSKEY_MAX = 999999"
definition BLE_MTU_MIN :: u16 where "BLE_MTU_MIN = 247"
definition BUTTON_TYPE_SHORT :: u8 where "BUTTON_TYPE_SHORT = 0x00"
definition BUTTON_TYPE_LONG :: u8 where "BUTTON_TYPE_LONG = 0x01"

lemmas modem_types = MODEM_MSG_RESET_def MODEM_MSG_SEND_FRAME_def MODEM_MSG_SET_CHANNEL_def
  MODEM_MSG_GET_STATUS_def MODEM_MSG_SCAN_CHANNELS_def MODEM_MSG_DISPLAY_FRAME_BEGIN_def
  MODEM_MSG_DISPLAY_FRAME_CHUNK_def MODEM_MSG_BLE_INDICATE_def MODEM_MSG_BLE_ENABLE_def
  MODEM_MSG_BLE_DISABLE_def MODEM_MSG_BLE_PAIRING_CONFIRM_REPLY_def MODEM_MSG_BLE_RECV_def
  MODEM_MSG_BLE_CONNECTED_def MODEM_MSG_BLE_DISCONNECTED_def MODEM_MSG_BLE_PAIRING_CONFIRM_def
  MODEM_MSG_EVENT_BUTTON_def MODEM_MSG_MODEM_READY_def MODEM_MSG_RECV_FRAME_def
  MODEM_MSG_SET_CHANNEL_ACK_def MODEM_MSG_STATUS_def MODEM_MSG_SCAN_RESULT_def
  MODEM_MSG_DISPLAY_FRAME_ACK_def MODEM_MSG_EVENT_ERROR_def MODEM_MSG_ERROR_def

lemma modem_sizes:
  "SERIAL_LEN_SIZE = 2" "SERIAL_MAX_LEN = 1025" "SERIAL_MAX_FRAME_SIZE = 1027" "DECODER_BUF_CAP = 4108"
  "MAC_SIZE = 6" "FIRMWARE_COMMIT_SIZE = 8" "MODEM_READY_BODY_SIZE = 18" "STATUS_BODY_SIZE = 17"
  "SEND_FRAME_MIN_BODY_SIZE = 7" "SEND_FRAME_MAX_BODY_SIZE = 256" "RECV_FRAME_MIN_BODY_SIZE = 8"
  "RECV_FRAME_MAX_BODY_SIZE = 257" "ESPNOW_MAX_DATA_SIZE = 250" "DISPLAY_FRAME_CHUNK_SIZE = 128"
  "DISPLAY_FRAME_CHUNK_COUNT = 8" "DISPLAY_FRAME_BEGIN_BODY_SIZE = 1"
  "DISPLAY_FRAME_CHUNK_BODY_SIZE = 130" "DISPLAY_FRAME_ACK_BODY_SIZE = 2" "BLE_DATA_MAX_BODY_SIZE = 511"
  "BLE_CONNECTED_BODY_SIZE = 8" "BLE_DISCONNECTED_BODY_SIZE = 7" "BLE_PAIRING_CONFIRM_BODY_SIZE = 4"
  "BLE_PAIRING_CONFIRM_REPLY_BODY_SIZE = 1" "EVENT_BUTTON_BODY_SIZE = 1" "EVENT_ERROR_BODY_SIZE = 1"
  "BLE_PASSKEY_MAX = 999999" "BLE_MTU_MIN = 247" "BUTTON_TYPE_SHORT = 0" "BUTTON_TYPE_LONG = 1"
  by (simp_all add: SERIAL_LEN_SIZE_def SERIAL_MAX_LEN_def SERIAL_MAX_FRAME_SIZE_def DECODER_BUF_CAP_def
      MAC_SIZE_def FIRMWARE_COMMIT_SIZE_def MODEM_READY_BODY_SIZE_def STATUS_BODY_SIZE_def
      SEND_FRAME_MIN_BODY_SIZE_def SEND_FRAME_MAX_BODY_SIZE_def RECV_FRAME_MIN_BODY_SIZE_def
      RECV_FRAME_MAX_BODY_SIZE_def ESPNOW_MAX_DATA_SIZE_def DISPLAY_FRAME_BODY_SIZE_def
      DISPLAY_FRAME_CHUNK_SIZE_def DISPLAY_FRAME_CHUNK_COUNT_def DISPLAY_FRAME_BEGIN_BODY_SIZE_def
      DISPLAY_FRAME_CHUNK_BODY_SIZE_def DISPLAY_FRAME_ACK_BODY_SIZE_def BLE_DATA_MAX_BODY_SIZE_def
      BLE_CONNECTED_BODY_SIZE_def BLE_DISCONNECTED_BODY_SIZE_def BLE_PAIRING_CONFIRM_BODY_SIZE_def
      BLE_PAIRING_CONFIRM_REPLY_BODY_SIZE_def EVENT_BUTTON_BODY_SIZE_def EVENT_ERROR_BODY_SIZE_def
      BLE_PASSKEY_MAX_def BLE_MTU_MIN_def BUTTON_TYPE_SHORT_def BUTTON_TYPE_LONG_def)

section \<open>Errors and messages\<close>

datatype modem_codec_error =
    EmptyFrame
  | SerialFrameTooLarge u16
  | BodyTooShort u8 nat nat
  | BodyTooLong u8 nat nat
  | InvalidFieldValue u8 string nat
  | EncodeTooLong
  | Incomplete

record send_frame =
  sf_peer_mac :: bytes
  sf_frame_data :: bytes

record modem_ready =
  mr_firmware_version :: bytes
  mr_mac_address :: bytes
  mr_firmware_commit :: bytes

record recv_frame =
  rf_peer_mac :: bytes
  rf_rssi :: u8
  rf_frame_data :: bytes

record modem_status =
  ms_channel :: u8
  ms_uptime_s :: u32
  ms_tx_count :: u32
  ms_rx_count :: u32
  ms_tx_fail_count :: u32

record scan_entry =
  se_channel :: u8
  se_ap_count :: u8
  se_strongest_rssi :: u8

record display_frame_chunk =
  dc_transfer_id :: u8
  dc_chunk_index :: u8
  dc_chunk_data :: bytes

record display_frame_ack =
  da_transfer_id :: u8
  da_next_chunk_index :: u8

record modem_error =
  me_error_code :: u8
  me_message :: bytes

record ble_connected =
  bc_peer_addr :: bytes
  bc_mtu :: u16

record ble_disconnected =
  bd_peer_addr :: bytes
  bd_reason :: u8

datatype modem_message =
    Reset
  | SendFrame send_frame
  | SetChannel u8
  | GetStatus
  | ScanChannels
  | DisplayFrameBegin u8
  | DisplayFrameChunk display_frame_chunk
  | ModemReady modem_ready
  | RecvFrame recv_frame
  | SetChannelAck u8
  | ModemStatus modem_status
  | ScanResult "scan_entry list"
  | DisplayFrameAck display_frame_ack
  | EventError u8
  | ModemErr modem_error
  | BleIndicate bytes
  | BleEnable
  | BleDisable
  | BlePairingConfirmReply bool
  | BleRecv bytes
  | BleConnected ble_connected
  | BleDisconnected ble_disconnected
  | BlePairingConfirm u32
  | EventButton u8
  | Unknown u8 bytes

section \<open>Encoding\<close>

definition encode_send_frame :: "send_frame \<Rightarrow> modem_codec_error + (u8 \<times> bytes)" where
  "encode_send_frame sf =
     (if sf_frame_data sf = [] then
        Inl (BodyTooShort MODEM_MSG_SEND_FRAME SEND_FRAME_MIN_BODY_SIZE MAC_SIZE)
      else if length (sf_frame_data sf) > ESPNOW_MAX_DATA_SIZE then
        Inl (BodyTooLong MODEM_MSG_SEND_FRAME SEND_FRAME_MAX_BODY_SIZE (MAC_SIZE + length (sf_frame_data sf)))
      else Inr (MODEM_MSG_SEND_FRAME, sf_peer_mac sf @ sf_frame_data sf))"

definition encode_display_frame_chunk :: "display_frame_chunk \<Rightarrow> modem_codec_error + (u8 \<times> bytes)" where
  "encode_display_frame_chunk c =
     (if dc_chunk_index c \<ge> DISPLAY_FRAME_CHUNK_COUNT then
        Inl (InvalidFieldValue MODEM_MSG_DISPLAY_FRAME_CHUNK ''chunk_index'' (unat (dc_chunk_index c)))
      else Inr (MODEM_MSG_DISPLAY_FRAME_CHUNK, [dc_transfer_id c] @ [dc_chunk_index c] @ dc_chunk_data c))"

definition encode_recv_frame :: "recv_frame \<Rightarrow> modem_codec_error + (u8 \<times> bytes)" where
  "encode_recv_frame rf =
     (if rf_frame_data rf = [] then
        Inl (BodyTooShort MODEM_MSG_RECV_FRAME RECV_FRAME_MIN_BODY_SIZE (MAC_SIZE + 1))
      else if length (rf_frame_data rf) > ESPNOW_MAX_DATA_SIZE then
        Inl (BodyTooLong MODEM_MSG_RECV_FRAME RECV_FRAME_MAX_BODY_SIZE (MAC_SIZE + 1 + length (rf_frame_data rf)))
      else Inr (MODEM_MSG_RECV_FRAME, rf_peer_mac rf @ [rf_rssi rf] @ rf_frame_data rf))"

definition encode_status :: "modem_status \<Rightarrow> bytes" where
  "encode_status s =
     [ms_channel s] @ be32 (ms_uptime_s s) @ be32 (ms_tx_count s) @ be32 (ms_rx_count s) @
     be32 (ms_tx_fail_count s)"

definition encode_scan_result :: "scan_entry list \<Rightarrow> bytes" where
  "encode_scan_result entries =
     (let max_entries = min 255 170;
          count = min (length entries) max_entries
      in [of_nat count] @
         concat (map (\<lambda>x. [se_channel x] @ [se_ap_count x] @ [se_strongest_rssi x]) (take count entries)))"

definition encode_ble_data :: "u8 \<Rightarrow> bytes \<Rightarrow> modem_codec_error + (u8 \<times> bytes)" where
  "encode_ble_data t d =
     (if d = [] then Inl (BodyTooShort t 1 0)
      else if length d > BLE_DATA_MAX_BODY_SIZE then Inl (BodyTooLong t BLE_DATA_MAX_BODY_SIZE (length d))
      else Inr (t, d))"

definition encode_ble_connected :: "ble_connected \<Rightarrow> modem_codec_error + (u8 \<times> bytes)" where
  "encode_ble_connected bc =
     (if bc_mtu bc < BLE_MTU_MIN then
        Inl (InvalidFieldValue MODEM_MSG_BLE_CONNECTED ''mtu'' (unat (bc_mtu bc)))
      else Inr (MODEM_MSG_BLE_CONNECTED, bc_peer_addr bc @ be16 (bc_mtu bc)))"

definition encode_pairing_confirm :: "u32 \<Rightarrow> modem_codec_error + (u8 \<times> bytes)" where
  "encode_pairing_confirm k =
     (if k > BLE_PASSKEY_MAX then Inl (InvalidFieldValue MODEM_MSG_BLE_PAIRING_CONFIRM ''passkey'' (unat k))
      else Inr (MODEM_MSG_BLE_PAIRING_CONFIRM, be32 k))"

definition encode_event_button :: "u8 \<Rightarrow> modem_codec_error + (u8 \<times> bytes)" where
  "encode_event_button b =
     (if b > BUTTON_TYPE_LONG then Inl (InvalidFieldValue MODEM_MSG_EVENT_BUTTON ''button_type'' (unat b))
      else Inr (MODEM_MSG_EVENT_BUTTON, [b]))"

fun encode_body :: "modem_message \<Rightarrow> modem_codec_error + (u8 \<times> bytes)" where
  "encode_body Reset = Inr (MODEM_MSG_RESET, [])"
| "encode_body (SendFrame sf) = encode_send_frame sf"
| "encode_body (SetChannel ch) = Inr (MODEM_MSG_SET_CHANNEL, [ch])"
| "encode_body GetStatus = Inr (MODEM_MSG_GET_STATUS, [])"
| "encode_body ScanChannels = Inr (MODEM_MSG_SCAN_CHANNELS, [])"
| "encode_body (DisplayFrameBegin tid) = Inr (MODEM_MSG_DISPLAY_FRAME_BEGIN, [tid])"
| "encode_body (DisplayFrameChunk c) = encode_display_frame_chunk c"
| "encode_body (ModemReady mr) =
     Inr (MODEM_MSG_MODEM_READY, mr_firmware_version mr @ mr_mac_address mr @ mr_firmware_commit mr)"
| "encode_body (RecvFrame rf) = encode_recv_frame rf"
| "encode_body (SetChannelAck ch) = Inr (MODEM_MSG_SET_CHANNEL_ACK, [ch])"
| "encode_body (ModemStatus s) = Inr (MODEM_MSG_STATUS, encode_status s)"
| "encode_body (ScanResult es) = Inr (MODEM_MSG_SCAN_RESULT, encode_scan_result es)"
| "encode_body (DisplayFrameAck a) =
     Inr (MODEM_MSG_DISPLAY_FRAME_ACK, [da_transfer_id a, da_next_chunk_index a])"
| "encode_body (EventError c) = Inr (MODEM_MSG_EVENT_ERROR, [c])"
| "encode_body (ModemErr e) = Inr (MODEM_MSG_ERROR, [me_error_code e] @ me_message e)"
| "encode_body (BleIndicate d) = encode_ble_data MODEM_MSG_BLE_INDICATE d"
| "encode_body BleEnable = Inr (MODEM_MSG_BLE_ENABLE, [])"
| "encode_body BleDisable = Inr (MODEM_MSG_BLE_DISABLE, [])"
| "encode_body (BlePairingConfirmReply a) =
     Inr (MODEM_MSG_BLE_PAIRING_CONFIRM_REPLY, [if a then 1 else 0])"
| "encode_body (BleRecv d) = encode_ble_data MODEM_MSG_BLE_RECV d"
| "encode_body (BleConnected bc) = encode_ble_connected bc"
| "encode_body (BleDisconnected bd) = Inr (MODEM_MSG_BLE_DISCONNECTED, bd_peer_addr bd @ [bd_reason bd])"
| "encode_body (BlePairingConfirm k) = encode_pairing_confirm k"
| "encode_body (EventButton b) = encode_event_button b"
| "encode_body (Unknown t body) = Inr (t, body)"

definition encode_modem_frame :: "modem_message \<Rightarrow> modem_codec_error + bytes" where
  "encode_modem_frame msg =
     res_bind (encode_body msg) (\<lambda>(t, body).
       let total_len = 1 + length body in
       if total_len > unat SERIAL_MAX_LEN then Inl EncodeTooLong
       else Inr (be16 (of_nat total_len) @ [t] @ body))"

section \<open>Decoding\<close>

definition check_exact_body :: "u8 \<Rightarrow> bytes \<Rightarrow> nat \<Rightarrow> modem_codec_error + unit" where
  "check_exact_body t body expected =
     (if length body < expected then Inl (BodyTooShort t expected (length body))
      else if length body > expected then Inl (BodyTooLong t expected (length body))
      else Inr ())"

definition check_body_range :: "u8 \<Rightarrow> bytes \<Rightarrow> nat \<Rightarrow> nat \<Rightarrow> modem_codec_error + unit" where
  "check_body_range t body mn mx =
     (if length body < mn then Inl (BodyTooShort t mn (length body))
      else if length body > mx then Inl (BodyTooLong t mx (length body))
      else Inr ())"

text \<open>The slice \<open>body[i..j]\<close>.\<close>

definition sub_slice :: "nat \<Rightarrow> nat \<Rightarrow> 'a list \<Rightarrow> 'a list" where
  "sub_slice i j xs = take (j - i) (drop i xs)"

definition decode_scan_result :: "u8 \<Rightarrow> bytes \<Rightarrow> modem_codec_error + modem_message" where
  "decode_scan_result t body =
     (if body = [] then Inl (BodyTooShort t 1 0)
      else
        let count = unat (body ! 0); expected_len = 1 + count * 3 in
        if length body \<noteq> expected_len then
          (if length body < expected_len then Inl (BodyTooShort t expected_len (length body))
           else Inl (BodyTooLong t expected_len (length body)))
        else
          let entries_data = drop 1 body in
          Inr (ScanResult (map (\<lambda>i. let off = i * 3 in
                 \<lparr>se_channel = entries_data ! off, se_ap_count = entries_data ! (off + 1),
                  se_strongest_rssi = entries_data ! (off + 2)\<rparr>) [0..<count])))"

text \<open>The arms of \<open>decode_typed_message\<close> in three groups; \<open>None\<close> means none of the group's types.\<close>

definition decode_command :: "u8 \<Rightarrow> bytes \<Rightarrow> (modem_codec_error + modem_message) option" where
  "decode_command t body =
     (if t = MODEM_MSG_RESET then Some (res_bind (check_exact_body t body 0) (\<lambda>_. Inr Reset))
      else if t = MODEM_MSG_SEND_FRAME then
        Some (res_bind (check_body_range t body SEND_FRAME_MIN_BODY_SIZE SEND_FRAME_MAX_BODY_SIZE) (\<lambda>_.
          Inr (SendFrame \<lparr>sf_peer_mac = take MAC_SIZE body, sf_frame_data = drop MAC_SIZE body\<rparr>)))
      else if t = MODEM_MSG_SET_CHANNEL then
        Some (res_bind (check_exact_body t body 1) (\<lambda>_. Inr (SetChannel (body ! 0))))
      else if t = MODEM_MSG_GET_STATUS then Some (res_bind (check_exact_body t body 0) (\<lambda>_. Inr GetStatus))
      else if t = MODEM_MSG_SCAN_CHANNELS then
        Some (res_bind (check_exact_body t body 0) (\<lambda>_. Inr ScanChannels))
      else if t = MODEM_MSG_DISPLAY_FRAME_BEGIN then
        Some (res_bind (check_exact_body t body DISPLAY_FRAME_BEGIN_BODY_SIZE) (\<lambda>_.
          Inr (DisplayFrameBegin (body ! 0))))
      else if t = MODEM_MSG_DISPLAY_FRAME_CHUNK then
        Some (res_bind (check_exact_body t body DISPLAY_FRAME_CHUNK_BODY_SIZE) (\<lambda>_.
          if body ! 1 \<ge> DISPLAY_FRAME_CHUNK_COUNT then
            Inl (InvalidFieldValue t ''chunk_index'' (unat (body ! 1)))
          else Inr (DisplayFrameChunk \<lparr>dc_transfer_id = body ! 0, dc_chunk_index = body ! 1,
                 dc_chunk_data = drop 2 body\<rparr>)))
      else None)"

definition decode_event :: "u8 \<Rightarrow> bytes \<Rightarrow> (modem_codec_error + modem_message) option" where
  "decode_event t body =
     (if t = MODEM_MSG_MODEM_READY then
        Some (res_bind (check_exact_body t body MODEM_READY_BODY_SIZE) (\<lambda>_.
          Inr (ModemReady \<lparr>mr_firmware_version = take 4 body,
            mr_mac_address = sub_slice 4 (4 + MAC_SIZE) body,
            mr_firmware_commit = sub_slice (4 + MAC_SIZE) (4 + MAC_SIZE + FIRMWARE_COMMIT_SIZE) body\<rparr>)))
      else if t = MODEM_MSG_RECV_FRAME then
        Some (res_bind (check_body_range t body RECV_FRAME_MIN_BODY_SIZE RECV_FRAME_MAX_BODY_SIZE) (\<lambda>_.
          Inr (RecvFrame \<lparr>rf_peer_mac = take MAC_SIZE body, rf_rssi = body ! MAC_SIZE,
            rf_frame_data = drop (MAC_SIZE + 1) body\<rparr>)))
      else if t = MODEM_MSG_SET_CHANNEL_ACK then
        Some (res_bind (check_exact_body t body 1) (\<lambda>_. Inr (SetChannelAck (body ! 0))))
      else if t = MODEM_MSG_STATUS then
        Some (res_bind (check_exact_body t body STATUS_BODY_SIZE) (\<lambda>_.
          Inr (ModemStatus \<lparr>ms_channel = body ! 0,
            ms_uptime_s = from_be_bytes [body ! 1, body ! 2, body ! 3, body ! 4],
            ms_tx_count = from_be_bytes [body ! 5, body ! 6, body ! 7, body ! 8],
            ms_rx_count = from_be_bytes [body ! 9, body ! 10, body ! 11, body ! 12],
            ms_tx_fail_count = from_be_bytes [body ! 13, body ! 14, body ! 15, body ! 16]\<rparr>)))
      else if t = MODEM_MSG_SCAN_RESULT then Some (decode_scan_result t body)
      else if t = MODEM_MSG_DISPLAY_FRAME_ACK then
        Some (res_bind (check_exact_body t body DISPLAY_FRAME_ACK_BODY_SIZE) (\<lambda>_.
          Inr (DisplayFrameAck \<lparr>da_transfer_id = body ! 0, da_next_chunk_index = body ! 1\<rparr>)))
      else if t = MODEM_MSG_EVENT_ERROR then
        Some (res_bind (check_exact_body t body EVENT_ERROR_BODY_SIZE) (\<lambda>_. Inr (EventError (body ! 0))))
      else if t = MODEM_MSG_ERROR then
        Some (if body = [] then Inl (BodyTooShort t 1 0)
              else Inr (ModemErr \<lparr>me_error_code = body ! 0, me_message = drop 1 body\<rparr>))
      else None)"

definition decode_ble :: "u8 \<Rightarrow> bytes \<Rightarrow> (modem_codec_error + modem_message) option" where
  "decode_ble t body =
     (if t = MODEM_MSG_BLE_INDICATE then
        Some (res_bind (check_body_range t body 1 BLE_DATA_MAX_BODY_SIZE) (\<lambda>_. Inr (BleIndicate body)))
      else if t = MODEM_MSG_BLE_ENABLE then Some (res_bind (check_exact_body t body 0) (\<lambda>_. Inr BleEnable))
      else if t = MODEM_MSG_BLE_DISABLE then Some (res_bind (check_exact_body t body 0) (\<lambda>_. Inr BleDisable))
      else if t = MODEM_MSG_BLE_PAIRING_CONFIRM_REPLY then
        Some (res_bind (check_exact_body t body BLE_PAIRING_CONFIRM_REPLY_BODY_SIZE) (\<lambda>_.
          if body ! 0 = 0 then Inr (BlePairingConfirmReply False)
          else if body ! 0 = 1 then Inr (BlePairingConfirmReply True)
          else Inl (InvalidFieldValue t ''accept'' (unat (body ! 0)))))
      else if t = MODEM_MSG_BLE_RECV then
        Some (res_bind (check_body_range t body 1 BLE_DATA_MAX_BODY_SIZE) (\<lambda>_. Inr (BleRecv body)))
      else if t = MODEM_MSG_BLE_CONNECTED then
        Some (res_bind (check_exact_body t body BLE_CONNECTED_BODY_SIZE) (\<lambda>_.
          let mtu = from_be_bytes [body ! MAC_SIZE, body ! (MAC_SIZE + 1)] in
          if mtu < BLE_MTU_MIN then Inl (InvalidFieldValue t ''mtu'' (unat mtu))
          else Inr (BleConnected \<lparr>bc_peer_addr = take MAC_SIZE body, bc_mtu = mtu\<rparr>)))
      else if t = MODEM_MSG_BLE_DISCONNECTED then
        Some (res_bind (check_exact_body t body BLE_DISCONNECTED_BODY_SIZE) (\<lambda>_.
          Inr (BleDisconnected \<lparr>bd_peer_addr = take MAC_SIZE body, bd_reason = body ! MAC_SIZE\<rparr>)))
      else if t = MODEM_MSG_BLE_PAIRING_CONFIRM then
        Some (res_bind (check_exact_body t body BLE_PAIRING_CONFIRM_BODY_SIZE) (\<lambda>_.
          let passkey = from_be_bytes [body ! 0, body ! 1, body ! 2, body ! 3] in
          if passkey > BLE_PASSKEY_MAX then Inl (InvalidFieldValue t ''passkey'' (unat passkey))
          else Inr (BlePairingConfirm passkey)))
      else if t = MODEM_MSG_EVENT_BUTTON then
        Some (res_bind (check_exact_body t body EVENT_BUTTON_BODY_SIZE) (\<lambda>_.
          if body ! 0 > BUTTON_TYPE_LONG then Inl (InvalidFieldValue t ''button_type'' (unat (body ! 0)))
          else Inr (EventButton (body ! 0))))
      else None)"

definition decode_typed_message :: "u8 \<Rightarrow> bytes \<Rightarrow> modem_codec_error + modem_message" where
  "decode_typed_message t body =
     (case or_else (decode_command t body) (or_else (decode_event t body) (decode_ble t body)) of
        Some r \<Rightarrow> r
      | None \<Rightarrow> Inr (Unknown t body))"

definition decode_modem_frame :: "bytes \<Rightarrow> modem_codec_error + (modem_message \<times> nat)" where
  "decode_modem_frame data =
     (if length data < SERIAL_LEN_SIZE then Inl Incomplete
      else
        let len = from_be_bytes [data ! 0, data ! 1] :: u16 in
        if len = 0 then Inl EmptyFrame
        else if len > SERIAL_MAX_LEN then Inl (SerialFrameTooLarge len)
        else
          let expected_total = SERIAL_LEN_SIZE + unat len in
          if length data < expected_total then Inl Incomplete
          else
            let t = data ! SERIAL_LEN_SIZE;
                body = sub_slice (SERIAL_LEN_SIZE + 1) expected_total data
            in res_bind (decode_typed_message t body) (\<lambda>msg. Inr (msg, expected_total)))"

section \<open>The incremental decoder\<close>

record frame_decoder =
  fd_buf :: bytes

definition decoder_new :: frame_decoder where "decoder_new = \<lparr>fd_buf = []\<rparr>"

definition decoder_push :: "bytes \<Rightarrow> frame_decoder \<Rightarrow> frame_decoder" where
  "decoder_push data d =
     (let b = (if length (fd_buf d) + length data > DECODER_BUF_CAP then [] else fd_buf d)
      in d\<lparr>fd_buf := b @ data\<rparr>)"

definition decoder_reset :: "frame_decoder \<Rightarrow> frame_decoder" where
  "decoder_reset d = d\<lparr>fd_buf := []\<rparr>"

definition decoder_decode ::
    "frame_decoder \<Rightarrow> (modem_codec_error + modem_message option) \<times> frame_decoder" where
  "decoder_decode d =
     (let buf = fd_buf d in
      if length buf < SERIAL_LEN_SIZE then (Inr None, d)
      else
        let len = from_be_bytes [buf ! 0, buf ! 1] :: u16 in
        if len = 0 then (Inl EmptyFrame, d\<lparr>fd_buf := drop SERIAL_LEN_SIZE buf\<rparr>)
        else if len > SERIAL_MAX_LEN then (Inl (SerialFrameTooLarge len), d\<lparr>fd_buf := []\<rparr>)
        else
          let total = SERIAL_LEN_SIZE + unat len in
          if length buf < total then (Inr None, d)
          else
            let t = buf ! SERIAL_LEN_SIZE;
                body = sub_slice (SERIAL_LEN_SIZE + 1) total buf
            in (res_bind (decode_typed_message t body) (\<lambda>m. Inr (Some m)), d\<lparr>fd_buf := drop total buf\<rparr>))"

definition buffered :: "frame_decoder \<Rightarrow> nat" where "buffered d = length (fd_buf d)"

end
