(* ===== verification/Stream_Parser.thy ===== *)
theory Stream_Parser
  imports Sonde_Prelude
begin

text \<open>
  Length-prefixed framing over a byte stream, for any one-frame parser. \<open>parse\<close> returns \<open>None\<close> when it
  needs more bytes, else a result and the rest of the buffer. \<open>drain\<close> runs it until it needs more,
  which is how the receivers use a decoder; \<open>feed\<close> does so after every read. The locale states
  what a parser must promise for the results not to depend on how the stream was cut into reads.
\<close>

primrec drain :: "nat \<Rightarrow> (bytes \<Rightarrow> ('r \<times> bytes) option) \<Rightarrow> bytes \<Rightarrow> 'r list \<times> bytes" where
  "drain 0 parse b = ([], b)"
| "drain (Suc n) parse b =
     (case parse b of
        None \<Rightarrow> ([], b)
      | Some (r, b') \<Rightarrow> (let (rs, b'') = drain n parse b' in (r # rs, b'')))"

definition drain_all :: "(bytes \<Rightarrow> ('r \<times> bytes) option) \<Rightarrow> bytes \<Rightarrow> 'r list \<times> bytes" where
  "drain_all parse b = drain (length b) parse b"

primrec feed :: "(bytes \<Rightarrow> ('r \<times> bytes) option) \<Rightarrow> bytes \<Rightarrow> bytes list \<Rightarrow> 'r list \<times> bytes" where
  "feed parse b [] = ([], b)"
| "feed parse b (c # cs) =
     (let (rs, b') = drain_all parse (b @ c); (rs', b'') = feed parse b' cs in (rs @ rs', b''))"

locale stream_parser =
  fixes parse :: "bytes \<Rightarrow> ('r \<times> bytes) option"
    and clean :: "'r \<Rightarrow> bool"
  assumes consumes: "parse b = Some (r, b') \<Longrightarrow> length b' < length b"
    and stable: "parse b = Some (r, b') \<Longrightarrow> clean r \<Longrightarrow> parse (b @ x) = Some (r, b' @ x)"
    and dirty: "parse b = Some (r, b') \<Longrightarrow> \<not> clean r \<Longrightarrow> \<exists>r' b''. parse (b @ x) = Some (r', b'') \<and> \<not> clean r'"
begin

lemma drain_fuel: "length b \<le> n \<Longrightarrow> length b \<le> m \<Longrightarrow> drain n parse b = drain m parse b"
proof (induction n arbitrary: b m)
  case 0
  then show ?case using consumes [of b] by (cases m) (auto split: option.splits)
next
  case (Suc n)
  show ?case
  proof (cases "parse b")
    case None
    then show ?thesis by (cases m) simp_all
  next
    case (Some q)
    then obtain r b' where q: "parse b = Some (r, b')" by (cases q) auto
    note less = consumes [OF q]
    with Suc.prems obtain k where k: "m = Suc k" "length b' \<le> k" by (cases m) auto
    with less Suc.prems have "drain n parse b' = drain k parse b'" by (intro Suc.IH) simp_all
    then show ?thesis by (simp add: k q)
  qed
qed

lemma drain_all_None: "parse b = None \<Longrightarrow> drain_all parse b = ([], b)"
  by (cases "length b") (simp_all add: drain_all_def)

lemma drain_all_Some:
  assumes "parse b = Some (r, b')"
  shows "drain_all parse b = (r # fst (drain_all parse b'), snd (drain_all parse b'))"
proof -
  obtain k where "length b = Suc k" "length b' \<le> k"
    using consumes [OF assms] by (cases "length b") auto
  with drain_fuel [of b' k "length b'"] assms show ?thesis
    by (simp add: drain_all_def split: prod.split)
qed

lemma parse_induct [case_names need_more frame]:
  assumes "\<And>b. parse b = None \<Longrightarrow> P b" and "\<And>b r b'. parse b = Some (r, b') \<Longrightarrow> P b' \<Longrightarrow> P b"
  shows "P b"
proof (induction "length b" arbitrary: b rule: less_induct)
  case less
  then show ?case using assms consumes by (cases "parse b") auto
qed

lemma rest_needs_more: "parse (snd (drain_all parse b)) = None"
  by (induction b rule: parse_induct) (simp_all add: drain_all_None drain_all_Some)

lemma clean_prefix:
  "\<forall>r \<in> set (fst (drain_all parse (b @ x))). clean r \<Longrightarrow> \<forall>r \<in> set (fst (drain_all parse b)). clean r"
proof (induction b rule: parse_induct)
  case (need_more b)
  then show ?case by (simp add: drain_all_None)
next
  case (frame b r b')
  have "clean r"
  proof (rule ccontr)
    assume "\<not> clean r"
    with dirty [OF frame(1), of x] frame(3) show False by (auto simp: drain_all_Some)
  qed
  with frame stable [OF frame(1), of x] show ?case by (simp add: drain_all_Some)
qed

lemma drain_append:
  "\<forall>r \<in> set (fst (drain_all parse b)). clean r \<Longrightarrow>
   drain_all parse (b @ x) =
     (fst (drain_all parse b) @ fst (drain_all parse (snd (drain_all parse b) @ x)),
      snd (drain_all parse (snd (drain_all parse b) @ x)))"
proof (induction b rule: parse_induct)
  case (need_more b)
  then show ?case by (simp add: drain_all_None)
next
  case (frame b r b')
  then show ?case using stable [OF frame(1), of x] by (simp add: drain_all_Some)
qed

text \<open>However the stream is cut into reads, the results are those of the whole stream.\<close>

lemma feed_concat:
  "parse b = None \<Longrightarrow> \<forall>r \<in> set (fst (drain_all parse (b @ concat cs))). clean r \<Longrightarrow>
   feed parse b cs = drain_all parse (b @ concat cs)"
proof (induction cs arbitrary: b)
  case Nil
  then show ?case by (simp add: drain_all_None)
next
  case (Cons c cs)
  let ?d = "drain_all parse (b @ c)"
  have whole: "b @ concat (c # cs) = (b @ c) @ concat cs" by simp
  have clean: "\<forall>r \<in> set (fst ?d). clean r"
    using clean_prefix [of "b @ c" "concat cs"] Cons.prems(2) by simp
  note app = drain_append [OF clean, of "concat cs"]
  have "feed parse (snd ?d) cs = drain_all parse (snd ?d @ concat cs)"
    using Cons.prems(2) unfolding whole app
    by (intro Cons.IH rest_needs_more) simp
  then show ?case
    unfolding whole app by (simp add: case_prod_beta Let_def)
qed

end

end
