(* ===== verification/Modem_Correct.thy ===== *)
theory Modem_Correct
  imports Modem_Codec Stream_Parser
begin

text \<open>
  The modem codec is a round trip in both directions, and the incremental decoder gives back the
  messages of a byte stream however the serial port cut it into reads.
\<close>

section \<open>Well-formed messages\<close>

definition known_types :: "u8 list" where
  "known_types = [MODEM_MSG_RESET, MODEM_MSG_SEND_FRAME, MODEM_MSG_SET_CHANNEL, MODEM_MSG_GET_STATUS,
     MODEM_MSG_SCAN_CHANNELS, MODEM_MSG_DISPLAY_FRAME_BEGIN, MODEM_MSG_DISPLAY_FRAME_CHUNK,
     MODEM_MSG_MODEM_READY, MODEM_MSG_RECV_FRAME, MODEM_MSG_SET_CHANNEL_ACK, MODEM_MSG_STATUS,
     MODEM_MSG_SCAN_RESULT, MODEM_MSG_DISPLAY_FRAME_ACK, MODEM_MSG_EVENT_ERROR, MODEM_MSG_ERROR,
     MODEM_MSG_BLE_INDICATE, MODEM_MSG_BLE_ENABLE, MODEM_MSG_BLE_DISABLE,
     MODEM_MSG_BLE_PAIRING_CONFIRM_REPLY, MODEM_MSG_BLE_RECV, MODEM_MSG_BLE_CONNECTED,
     MODEM_MSG_BLE_DISCONNECTED, MODEM_MSG_BLE_PAIRING_CONFIRM, MODEM_MSG_EVENT_BUTTON]"

text \<open>The array lengths the Rust types fix, an unknown type that is not a known one, and at most as
  many scan entries as the encoder writes.\<close>

fun modem_msg_ok :: "modem_message \<Rightarrow> bool" where
  "modem_msg_ok (SendFrame sf) \<longleftrightarrow> length (sf_peer_mac sf) = MAC_SIZE"
| "modem_msg_ok (DisplayFrameChunk c) \<longleftrightarrow> length (dc_chunk_data c) = DISPLAY_FRAME_CHUNK_SIZE"
| "modem_msg_ok (ModemReady mr) \<longleftrightarrow> length (mr_firmware_version mr) = 4 \<and>
     length (mr_mac_address mr) = MAC_SIZE \<and> length (mr_firmware_commit mr) = FIRMWARE_COMMIT_SIZE"
| "modem_msg_ok (RecvFrame rf) \<longleftrightarrow> length (rf_peer_mac rf) = MAC_SIZE"
| "modem_msg_ok (ScanResult es) \<longleftrightarrow> length es \<le> 170"
| "modem_msg_ok (BleConnected bc) \<longleftrightarrow> length (bc_peer_addr bc) = MAC_SIZE"
| "modem_msg_ok (BleDisconnected bd) \<longleftrightarrow> length (bd_peer_addr bd) = MAC_SIZE"
| "modem_msg_ok (Unknown t body) \<longleftrightarrow> t \<notin> set known_types"
| "modem_msg_ok _ \<longleftrightarrow> True"

lemmas decode_defs = decode_typed_message_def decode_command_def decode_event_def decode_ble_def
  or_else_def check_exact_body_def check_body_range_def modem_types modem_sizes

lemma list_of_4: "length xs = 4 \<Longrightarrow> [xs ! 0, xs ! 1, xs ! 2, xs ! 3] = xs"
  by (auto simp: numeral_eq_Suc length_Suc_conv)

lemma list_of_2: "length xs = 2 \<Longrightarrow> [xs ! 0, xs ! 1] = xs"
  by (auto simp: numeral_eq_Suc length_Suc_conv)

section \<open>Decoding what was encoded\<close>

lemma be32_parts:
  "from_be_bytes [be32 x ! 0, be32 x ! 1, be32 x ! 2, be32 x ! 3] = x"
  by (simp only: list_of_4 length_to_be_bytes be32.dec_enc)

lemma be16_parts: "from_be_bytes [be16 x ! 0, be16 x ! 1] = x"
  by (simp only: list_of_2 length_to_be_bytes be16.dec_enc)

lemma decode_status: "decode_typed_message MODEM_MSG_STATUS (encode_status s) = Inr (ModemStatus s)"
  using be32_parts [of "ms_uptime_s s"] be32_parts [of "ms_tx_count s"] be32_parts [of "ms_rx_count s"]
    be32_parts [of "ms_tx_fail_count s"]
  by (simp add: decode_defs encode_status_def nth_append nth_Cons')

lemma decode_scan:
  assumes "length es \<le> 170"
  shows "decode_typed_message MODEM_MSG_SCAN_RESULT (encode_scan_result es) = Inr (ScanResult es)"
proof -
  let ?f = "\<lambda>x. [se_channel x, se_ap_count x, se_strongest_rssi x]"
  have body: "encode_scan_result es = of_nat (length es) # concat (map ?f es)"
    using assms by (simp add: encode_scan_result_def)
  have len: "length (concat (map ?f es)) = length es * 3"
    by (rule length_concat_const) simp
  have at: "concat (map ?f es) ! (i * 3 + j) = ?f (es ! i) ! j" if "i < length es" "j < 3" for i j
    by (rule concat_nth) (use that in simp_all)
  have "(\<lambda>i. \<lparr>se_channel = concat (map ?f es) ! (i * 3), se_ap_count = concat (map ?f es) ! (i * 3 + 1),
      se_strongest_rssi = concat (map ?f es) ! (i * 3 + 2)\<rparr>) i = es ! i" if "i < length es" for i
    using at [OF that, of 0] at [OF that, of 1] at [OF that, of 2] by simp
  then have "map (\<lambda>i. \<lparr>se_channel = concat (map ?f es) ! (i * 3), se_ap_count = concat (map ?f es) ! (i * 3 + 1),
      se_strongest_rssi = concat (map ?f es) ! (i * 3 + 2)\<rparr>) [0..<length es] = es"
    by (intro nth_equalityI) simp_all
  moreover have "unat (of_nat (length es) :: u8) = length es"
    using assms by (simp add: unat_of_nat)
  ultimately show ?thesis
    by (simp add: decode_defs decode_scan_result_def body len Let_def)
qed

lemma decode_ble_data:
  assumes "encode_ble_data t0 d = Inr (t, body)" and "t0 = MODEM_MSG_BLE_INDICATE \<or> t0 = MODEM_MSG_BLE_RECV"
  shows "decode_typed_message t body = Inr (if t0 = MODEM_MSG_BLE_INDICATE then BleIndicate d else BleRecv d)"
proof -
  from assms(1) have t: "t = t0" "body = d" and d: "d \<noteq> []" "length d \<le> 511"
    by (auto simp: encode_ble_data_def modem_sizes split: if_splits)
  from d(1) have "\<not> length d < 1" by (cases d) simp_all
  with assms(2) d(2) show ?thesis
    by (elim disjE) (simp_all add: t decode_defs)
qed

lemma decode_encode_body:
  assumes "modem_msg_ok m" and "encode_body m = Inr (t, body)"
  shows "decode_typed_message t body = Inr m"
proof (cases m)
  case (ModemStatus s)
  with assms show ?thesis by (auto simp: decode_status)
next
  case (ScanResult es)
  with assms show ?thesis by (auto simp: decode_scan)
next
  case (Unknown u b)
  with assms show ?thesis
    by (auto simp: decode_typed_message_def decode_command_def decode_event_def decode_ble_def known_types_def or_else_def)
next
  case (SendFrame sf)
  with assms have "t = MODEM_MSG_SEND_FRAME" "body = sf_peer_mac sf @ sf_frame_data sf"
      "sf_frame_data sf \<noteq> []" "length (sf_frame_data sf) \<le> 250" "length (sf_peer_mac sf) = 6"
    by (auto simp: encode_send_frame_def modem_sizes split: if_splits)
  with SendFrame show ?thesis by (simp add: decode_defs)
next
  case (DisplayFrameChunk c)
  with assms have "t = MODEM_MSG_DISPLAY_FRAME_CHUNK" "\<not> 8 \<le> dc_chunk_index c"
      "body = dc_transfer_id c # dc_chunk_index c # dc_chunk_data c" "length (dc_chunk_data c) = 128"
    by (auto simp: encode_display_frame_chunk_def modem_sizes split: if_splits)
  with DisplayFrameChunk show ?thesis by (simp add: decode_defs)
next
  case (ModemReady mr)
  with assms show ?thesis by (auto simp: decode_defs sub_slice_def)
next
  case (RecvFrame rf)
  with assms have "t = MODEM_MSG_RECV_FRAME" "body = rf_peer_mac rf @ rf_rssi rf # rf_frame_data rf"
      "rf_frame_data rf \<noteq> []" "1 \<le> length (rf_frame_data rf)" "length (rf_frame_data rf) \<le> 250" "length (rf_peer_mac rf) = 6"
    by (auto simp: encode_recv_frame_def modem_sizes Suc_le_eq split: if_splits)
  with RecvFrame show ?thesis by (simp add: decode_defs nth_append)
next
  case (BleConnected bc)
  with assms have "t = MODEM_MSG_BLE_CONNECTED" "body = bc_peer_addr bc @ be16 (bc_mtu bc)"
      "\<not> bc_mtu bc < 247" "length (bc_peer_addr bc) = 6"
    by (auto simp: encode_ble_connected_def modem_sizes split: if_splits)
  with BleConnected be16_parts [of "bc_mtu bc"] show ?thesis
    by (simp add: decode_defs nth_append)
next
  case (BlePairingConfirm k)
  with assms have "t = MODEM_MSG_BLE_PAIRING_CONFIRM" "body = be32 k" "\<not> 999999 < k"
    by (auto simp: encode_pairing_confirm_def modem_sizes split: if_splits)
  with BlePairingConfirm be32_parts [of k] show ?thesis
    by (simp add: decode_defs)
next
  case (EventButton b)
  with assms have "t = MODEM_MSG_EVENT_BUTTON" "body = [b]" "\<not> 1 < b"
    by (auto simp: encode_event_button_def modem_sizes split: if_splits)
  with EventButton show ?thesis by (simp add: decode_defs)
next
  case (BlePairingConfirmReply a)
  with assms show ?thesis by (cases a) (auto simp: decode_defs)
next
  case (BleIndicate d)
  with assms decode_ble_data [of MODEM_MSG_BLE_INDICATE d t body] show ?thesis by simp
next
  case (BleRecv d)
  with assms decode_ble_data [of MODEM_MSG_BLE_RECV d t body] show ?thesis by (simp add: modem_types)
qed (use assms in \<open>auto simp: decode_defs nth_append\<close>)

section \<open>Encoding what was decoded\<close>

lemma check_exact_body_Inr [simp]: "check_exact_body t body n = Inr u \<longleftrightarrow> length body = n"
  by (auto simp: check_exact_body_def)

lemma check_body_range_Inr [simp]: "check_body_range t body a b = Inr u \<longleftrightarrow> a \<le> length body \<and> length body \<le> b"
  by (auto simp: check_body_range_def)

lemma list_of_1: "length xs = 1 \<Longrightarrow> [xs ! 0] = xs"
  by (cases xs) auto

lemma list_split_at: "k < length xs \<Longrightarrow> take k xs @ (xs ! k) # drop (Suc k) xs = xs"
  by (simp add: id_take_nth_drop [symmetric])

lemma list_pair_split: "2 \<le> length xs \<Longrightarrow> xs ! 0 # xs ! Suc 0 # drop 2 xs = xs"
  by (cases xs; cases "tl xs") auto

lemma encode_decode_command:
  assumes "decode_command t body = Some (Inr m)"
  shows "encode_body m = Inr (t, body) \<and> modem_msg_ok m"
  using assms list_of_1 [of body] list_pair_split [of body]
  by (auto simp: decode_command_def res_bind_Inr_iff modem_sizes encode_send_frame_def
      encode_display_frame_chunk_def split: if_splits)

lemma encode_decode_status:
  assumes "length body = 17"
  shows "encode_status \<lparr>ms_channel = body ! 0,
      ms_uptime_s = from_be_bytes [body ! 1, body ! 2, body ! 3, body ! 4],
      ms_tx_count = from_be_bytes [body ! 5, body ! 6, body ! 7, body ! 8],
      ms_rx_count = from_be_bytes [body ! 9, body ! 10, body ! 11, body ! 12],
      ms_tx_fail_count = from_be_bytes [body ! 13, body ! 14, body ! 15, body ! 16]\<rparr> = body"
  using assms
  by (simp add: encode_status_def to_from_be_bytes) (auto simp: numeral_eq_Suc length_Suc_conv)

lemma encode_decode_scan:
  assumes "decode_scan_result t body = Inr m" and "\<And>es. m = ScanResult es \<Longrightarrow> length es \<le> 170"
  shows "\<exists>es. m = ScanResult es \<and> encode_scan_result es = body"
proof -
  define n where "n = unat (body ! 0)"
  let ?d = "drop 1 body"
  let ?e = "\<lambda>i. \<lparr>se_channel = ?d ! (i * 3), se_ap_count = ?d ! (i * 3 + 1), se_strongest_rssi = ?d ! (i * 3 + 2)\<rparr>"
  have body: "body \<noteq> []" "length ?d = n * 3" and m: "m = ScanResult (map ?e [0..<n])"
    using assms(1) by (auto simp: decode_scan_result_def n_def Let_def split: if_splits)
  have n: "n \<le> 170" using assms(2) [OF m] by simp
  have "[?d ! (i * 3), ?d ! (i * 3 + 1), ?d ! (i * 3 + 2)] = take 3 (drop (i * 3) ?d)" if "i < n" for i
  proof -
    have "length (take 3 (drop (i * 3) ?d)) = 3" using body(2) that by simp
    then show ?thesis by (intro nth_equalityI) (auto simp: less_Suc_eq numeral_3_eq_3)
  qed
  then have "concat (map (\<lambda>i. [?d ! (i * 3), ?d ! (i * 3 + 1), ?d ! (i * 3 + 2)]) [0..<n]) =
      concat (map (\<lambda>i. take 3 (drop (i * 3) ?d)) [0..<n])"
    by (intro arg_cong [where f = concat] map_cong) simp_all
  also have "\<dots> = ?d" using body(2) by (simp only: concat_chunks) simp
  finally have "encode_scan_result (map ?e [0..<n]) = of_nat n # ?d"
    using n by (simp add: encode_scan_result_def comp_def)
  also have "\<dots> = body" using body(1) by (cases body) (simp_all add: n_def)
  finally show ?thesis using m by blast
qed

lemma encode_decode_event:
  assumes "decode_event t body = Some (Inr m)" and "\<And>es. m = ScanResult es \<Longrightarrow> length es \<le> 170"
  shows "encode_body m = Inr (t, body) \<and> modem_msg_ok m"
proof (cases "t = MODEM_MSG_SCAN_RESULT")
  case True
  with assms(1) have "decode_scan_result t body = Inr m"
    by (simp add: decode_event_def modem_types)
  with encode_decode_scan [OF this] assms(2) True show ?thesis by auto
next
  case False
  have ready: "take 4 body @ take 6 (drop 4 body) @ take 8 (drop 10 body) = body" if "length body = 18"
    using that append_take_drop_id [of 4 body] append_take_drop_id [of 6 "drop 4 body"] by simp
  from False assms(1) show ?thesis
    using list_of_1 [of body] list_of_2 [of body] list_split_at [of 6 body] ready
      encode_decode_status [of body]
    by (auto simp: decode_event_def res_bind_Inr_iff modem_sizes encode_recv_frame_def sub_slice_def
        neq_Nil_conv split: if_splits)
qed

lemma encode_decode_ble:
  assumes "decode_ble t body = Some (Inr m)"
  shows "encode_body m = Inr (t, body) \<and> modem_msg_ok m"
proof -
  have connected: "take 6 body @ be16 (from_be_bytes [body ! 6, body ! 7]) = body" if "length body = 8"
    using that list_split_at [of 6 body] list_of_1 [of "drop 7 body"] by (simp add: to_from_be_bytes)
  have pairing: "be32 (from_be_bytes [body ! 0, body ! Suc 0, body ! 2, body ! 3]) = body" if "length body = 4"
    using list_of_4 [OF that] that by (simp add: to_from_be_bytes)
  have disconnected: "take 6 body @ [body ! 6] = body" if "length body = 7"
    using that list_split_at [of 6 body] by simp
  show ?thesis
    using assms list_of_1 [of body] connected pairing disconnected
    by (auto simp: decode_ble_def res_bind_Inr_iff modem_sizes encode_ble_data_def encode_ble_connected_def
        encode_pairing_confirm_def encode_event_button_def Let_def split: if_splits)
qed

lemma encode_body_decode:
  assumes "decode_typed_message t body = Inr m" and "\<And>es. m = ScanResult es \<Longrightarrow> length es \<le> 170"
  shows "encode_body m = Inr (t, body) \<and> modem_msg_ok m"
proof (cases "or_else (decode_command t body) (or_else (decode_event t body) (decode_ble t body))")
  case None
  then have "t \<notin> set known_types"
    by (auto simp: or_else_def decode_command_def decode_event_def decode_ble_def known_types_def
        split: option.splits if_splits)
  with None assms(1) show ?thesis by (auto simp: decode_typed_message_def)
next
  case (Some r)
  with assms show ?thesis
    using encode_decode_command [of t body m] encode_decode_event [of t body m] encode_decode_ble [of t body m]
    by (auto simp: decode_typed_message_def dest!: or_else_SomeD)
qed

section \<open>Frames\<close>

lemma be16_prefix: "from_be_bytes [(be16 l @ x) ! 0, (be16 l @ x) ! Suc 0] = l"
  using be16_parts [of l] by (simp add: nth_append)

lemma decode_modem_frame_eq:
  assumes "unat l = 1 + length body" and "l \<le> SERIAL_MAX_LEN"
  shows "decode_modem_frame (be16 l @ [t] @ body @ rest) =
    res_bind (decode_typed_message t body) (\<lambda>m. Inr (m, 3 + length body))"
proof -
  have "l \<noteq> 0" using assms(1) by auto
  moreover have "(be16 l @ [t] @ body @ rest) ! 2 = t" by (simp add: nth_append)
  moreover have "sub_slice 3 (Suc (Suc (Suc (length body)))) (be16 l @ [t] @ body @ rest) = body"
    by (simp add: sub_slice_def)
  moreover have "\<not> SERIAL_MAX_LEN < l" using assms(2) by simp
  ultimately show ?thesis
    using assms(1) unfolding decode_modem_frame_def
    by (simp add: Let_def modem_sizes be16_prefix) (simp add: numeral_3_eq_3)
qed

lemma encode_modem_frame_InrD:
  assumes "encode_modem_frame m = Inr f"
  obtains t body where "encode_body m = Inr (t, body)" "length body \<le> 1024"
    "f = be16 (of_nat (1 + length body)) @ [t] @ body"
  using assms by (auto simp: encode_modem_frame_def res_bind_Inr_iff Let_def modem_sizes split: if_splits)

text \<open>Round trip: a frame the encoder makes from a well-formed message decodes to that message,
  whatever bytes follow it, and the decoder reports exactly the frame's length.\<close>

theorem modem_roundtrip:
  assumes "modem_msg_ok m" and "encode_modem_frame m = Inr f"
  shows "decode_modem_frame (f @ rest) = Inr (m, length f)"
proof -
  obtain t body where b: "encode_body m = Inr (t, body)" "length body \<le> 1024"
    and f: "f = be16 (of_nat (1 + length body)) @ [t] @ body"
    using encode_modem_frame_InrD [OF assms(2)] .
  have "unat (of_nat (1 + length body) :: u16) = 1 + length body"
    using b(2) by (simp only: unat_of_nat) simp
  moreover from this b(2) have "of_nat (1 + length body) \<le> SERIAL_MAX_LEN"
    by (simp only: word_le_nat_alt) (simp add: modem_sizes)
  ultimately have "decode_modem_frame (f @ rest) =
      res_bind (decode_typed_message t body) (\<lambda>m. Inr (m, 3 + length body))"
    unfolding f by (simp only: append_assoc decode_modem_frame_eq)
  with decode_encode_body [OF assms(1) b(1)] f show ?thesis by simp
qed

theorem modem_roundtrip_witness:
  "\<exists>f. encode_modem_frame (BleIndicate [1, 2, 3]) = Inr f \<and>
     decode_modem_frame (f @ [9, 9]) = Inr (BleIndicate [1, 2, 3], 6)"
proof -
  have "encode_modem_frame (BleIndicate [1, 2, 3]) = Inr (be16 4 @ [0x20, 1, 2, 3])"
    by (simp add: encode_modem_frame_def encode_ble_data_def modem_sizes modem_types)
  with modem_roundtrip [OF _ this, of "[9, 9]"] show ?thesis by simp
qed

text \<open>The decoder accepts only canonical frames: what it decodes, encoded again, is the very bytes it
  consumed, except for scan results of more than 170 entries, which the encoder cannot write.\<close>

theorem modem_canonical:
  assumes "decode_modem_frame data = Inr (m, n)" and "\<And>es. m = ScanResult es \<Longrightarrow> length es \<le> 170"
  shows "encode_modem_frame m = Inr (take n data) \<and> modem_msg_ok m"
proof -
  define l where "l = (from_be_bytes [data ! 0, data ! 1] :: u16)"
  define body where "body = sub_slice 3 (2 + unat l) data"
  have l: "l \<noteq> 0" "l \<le> 1025" "2 + unat l \<le> length data" and n: "n = 2 + unat l"
    and m: "decode_typed_message (data ! 2) body = Inr m"
    using assms(1)
    by (auto simp: decode_modem_frame_def Let_def modem_sizes l_def [symmetric, unfolded One_nat_def] body_def not_less
        res_bind_Inr_iff split: if_splits)
  have pos: "1 \<le> unat l" using l(1) by (simp add: Suc_le_eq unat_gt_0)
  have "unat l \<le> 1025" using l(2) by (simp add: word_le_nat_alt)
  moreover have len: "length body = unat l - 1" using l(3) by (simp add: body_def sub_slice_def)
  moreover have "be16 l = [data ! 0, data ! 1]" by (simp add: l_def to_from_be_bytes)
  moreover have "take n data = [data ! 0, data ! 1] @ [data ! 2] @ body"
  proof -
    have "take 3 data = [data ! 0, data ! 1, data ! 2]"
      using l(3) pos by (intro nth_equalityI) (auto simp: less_Suc_eq numeral_3_eq_3 numeral_2_eq_2)
    moreover have "take n data = take 3 data @ body"
      using pos by (simp add: n body_def sub_slice_def take_add [symmetric])
    ultimately show ?thesis by simp
  qed
  moreover have "(of_nat (1 + length body) :: u16) = l" using len pos by simp
  ultimately show ?thesis
    using encode_body_decode [OF m assms(2)] pos
    by (simp add: encode_modem_frame_def modem_sizes del: of_nat_add of_nat_Suc)
qed

theorem modem_canonical_witness:
  "encode_modem_frame (SetChannel 6) = Inr (be16 2 @ [3, 6])"
proof -
  have "decode_modem_frame (be16 2 @ [3] @ [6] @ []) = Inr (SetChannel 6, 4)"
    by (subst decode_modem_frame_eq) (simp_all add: decode_defs)
  with modem_canonical [OF this] show ?thesis by simp
qed

section \<open>The incremental decoder\<close>

text \<open>\<open>decode\<close> as a one-frame parser: the result is a message or an error that consumed bytes.\<close>

definition decoder_parse :: "bytes \<Rightarrow> ((modem_codec_error + modem_message) \<times> bytes) option" where
  "decoder_parse b =
     (case decoder_decode \<lparr>fd_buf = b\<rparr> of
        (Inr None, d) \<Rightarrow> None
      | (Inr (Some m), d) \<Rightarrow> Some (Inr m, fd_buf d)
      | (Inl err, d) \<Rightarrow> Some (Inl err, fd_buf d))"

text \<open>Only a frame that is too large makes the decoder throw away bytes behind the frame.\<close>

fun in_sync :: "modem_codec_error + modem_message \<Rightarrow> bool" where
  "in_sync (Inl (SerialFrameTooLarge _)) = False"
| "in_sync _ = True"

definition sized :: "modem_codec_error + 'a \<Rightarrow> bool" where
  "sized r \<longleftrightarrow> (\<forall>l. r \<noteq> Inl (SerialFrameTooLarge l))"

lemma sized_simps [simp]:
  "sized (Inr x)" "sized (Inl (InvalidFieldValue t f v))" "sized (Inl (BodyTooShort t k n))"
  "sized (Inl (BodyTooLong t k n))" "sized (check_exact_body t body k)" "sized (check_body_range t body k n)"
  by (simp_all add: sized_def check_exact_body_def check_body_range_def)

lemma sized_bind: "sized r \<Longrightarrow> (\<And>x. sized (k x)) \<Longrightarrow> sized (res_bind r k)"
  by (cases r) (simp_all add: sized_def)

lemma sized_arms:
  "decode_command t body = Some r \<Longrightarrow> sized r"
  "decode_event t body = Some r \<Longrightarrow> sized r"
  "decode_ble t body = Some r \<Longrightarrow> sized r"
  by (auto simp: decode_command_def decode_event_def decode_ble_def decode_scan_result_def Let_def
      intro!: sized_bind split: if_splits)

lemma typed_not_too_large: "decode_typed_message t body \<noteq> Inl (SerialFrameTooLarge l)"
proof -
  have "sized (decode_typed_message t body)"
    by (auto simp: decode_typed_message_def split: option.splits dest!: or_else_SomeD intro: sized_arms)
  then show ?thesis by (simp add: sized_def)
qed

lemma decoder_parse_eq:
  "decoder_parse b =
     (if length b < 2 then None
      else let len = from_be_bytes [b ! 0, b ! 1] :: u16 in
        if len = 0 then Some (Inl EmptyFrame, drop 2 b)
        else if len > 1025 then Some (Inl (SerialFrameTooLarge len), [])
        else if length b < 2 + unat len then None
        else Some (decode_typed_message (b ! 2) (sub_slice 3 (2 + unat len) b), drop (2 + unat len) b))"
  by (auto simp: decoder_parse_def decoder_decode_def Let_def modem_sizes res_bind_def
      split: option.splits sum.splits)

interpretation modem_stream: stream_parser decoder_parse in_sync
proof unfold_locales
  fix b r b' x
  assume p: "decoder_parse b = Some (r, b')"
  define len where "len = (from_be_bytes [b ! 0, b ! Suc 0] :: u16)"
  note eq = decoder_parse_eq [unfolded One_nat_def, of b, folded len_def]
  show "length b' < length b"
    using p unfolding eq by (auto simp: Let_def split: if_splits)
  have same: "from_be_bytes [(b @ x) ! 0, (b @ x) ! Suc 0] = len" "2 \<le> length b"
    using p unfolding eq by (auto simp: len_def nth_append split: if_splits)
  note eqx = decoder_parse_eq [unfolded One_nat_def, of "b @ x", unfolded same(1)]
  show "decoder_parse (b @ x) = Some (r, b' @ x)" if "in_sync r"
    using p that same unfolding eq eqx
    by (auto simp: Let_def nth_append sub_slice_def unat_gt_0 split: if_splits)
  show "\<exists>r' b''. decoder_parse (b @ x) = Some (r', b'') \<and> \<not> in_sync r'" if "\<not> in_sync r"
    using p that same unfolding eq eqx
    by (cases r rule: in_sync.cases) (auto simp: Let_def typed_not_too_large split: if_splits)
qed

text \<open>The bytes that wait for more never fill a frame.\<close>

lemma waiting_short: "decoder_parse b = None \<Longrightarrow> length b < SERIAL_MAX_FRAME_SIZE"
proof -
  assume p: "decoder_parse b = None"
  define len where "len = (from_be_bytes [b ! 0, b ! Suc 0] :: u16)"
  have "length b < 2 \<or> \<not> 1025 < len \<and> length b < 2 + unat len"
    using p unfolding decoder_parse_eq [unfolded One_nat_def, of b, folded len_def]
    by (auto simp: Let_def split: if_splits)
  moreover have "unat len \<le> 1025" if "\<not> 1025 < len"
    using that by (simp add: word_less_nat_alt)
  ultimately show ?thesis by (auto simp: modem_sizes)
qed

text \<open>The receive loop: after each read, \<open>push\<close> and then \<open>decode\<close> until it returns \<open>Ok(None)\<close>.\<close>

primrec receive ::
    "frame_decoder \<Rightarrow> bytes list \<Rightarrow> (modem_codec_error + modem_message) list \<times> frame_decoder" where
  "receive d [] = ([], d)"
| "receive d (c # cs) =
     (let (rs, b) = drain_all decoder_parse (fd_buf (decoder_push c d));
          (rs', d') = receive \<lparr>fd_buf = b\<rparr> cs
      in (rs @ rs', d'))"

lemma receive_feed:
  assumes "decoder_parse (fd_buf d) = None"
    and "\<And>c. c \<in> set cs \<Longrightarrow> length c \<le> DECODER_BUF_CAP - SERIAL_MAX_FRAME_SIZE"
  shows "receive d cs = (fst (feed decoder_parse (fd_buf d) cs), \<lparr>fd_buf = snd (feed decoder_parse (fd_buf d) cs)\<rparr>)"
  using assms
proof (induction cs arbitrary: d)
  case Nil
  then show ?case by simp
next
  case (Cons c cs)
  let ?r = "drain_all decoder_parse (fd_buf d @ c)"
  have "fd_buf (decoder_push c d) = fd_buf d @ c"
    using waiting_short [OF Cons.prems(1)] Cons.prems(2) [of c]
    by (simp add: decoder_push_def modem_sizes)
  moreover have "receive \<lparr>fd_buf = snd ?r\<rparr> cs = (fst (feed decoder_parse (snd ?r) cs),
      \<lparr>fd_buf = snd (feed decoder_parse (snd ?r) cs)\<rparr>)"
    using Cons.IH [of "\<lparr>fd_buf = snd ?r\<rparr>"] modem_stream.rest_needs_more Cons.prems(2) by simp
  ultimately show ?case
    by (simp add: case_prod_beta Let_def)
qed

lemma parse_encoded:
  assumes "modem_msg_ok m" and "encode_modem_frame m = Inr f"
  shows "decoder_parse (f @ rest) = Some (Inr m, rest)"
proof -
  obtain t body where b: "encode_body m = Inr (t, body)" "length body \<le> 1024"
    and f: "f = be16 (of_nat (1 + length body)) @ [t] @ body"
    using encode_modem_frame_InrD [OF assms(2)] .
  define l where "l = (of_nat (1 + length body) :: u16)"
  have u: "unat l = 1 + length body"
    using b(2) unfolding l_def by (simp only: unat_of_nat) simp
  then have "l \<noteq> 0" "\<not> 1025 < l" using b(2) by (auto simp: word_less_nat_alt)
  moreover have "(be16 l @ [t] @ body @ rest) ! 2 = t" by (simp add: nth_append)
  moreover have "sub_slice 3 (Suc (Suc (Suc (length body)))) (be16 l @ [t] @ body @ rest) = body"
    by (simp add: sub_slice_def)
  ultimately have "decoder_parse (be16 l @ [t] @ body @ rest) = Some (decode_typed_message t body, rest)"
    by (simp add: decoder_parse_eq Let_def be16_prefix u)
  with decode_encode_body [OF assms(1) b(1)] f l_def show ?thesis by simp
qed

lemma drain_encoded:
  assumes "list_all2 (\<lambda>m f. modem_msg_ok m \<and> encode_modem_frame m = Inr f) ms fs"
  shows "drain_all decoder_parse (concat fs) = (map Inr ms, [])"
  using assms
proof (induction rule: list_all2_induct)
  case Nil
  show ?case by (simp add: drain_all_def)
next
  case (Cons m ms f fs)
  then show ?case
    using modem_stream.drain_all_Some [OF parse_encoded [of m f "concat fs"]] by simp
qed

lemma receive_encoded:
  assumes "list_all2 (\<lambda>m f. modem_msg_ok m \<and> encode_modem_frame m = Inr f) ms fs"
    and "concat cs = concat fs"
    and "\<And>c. c \<in> set cs \<Longrightarrow> length c \<le> DECODER_BUF_CAP - SERIAL_MAX_FRAME_SIZE"
  shows "receive decoder_new cs = (map Inr ms, decoder_new)"
proof -
  note d = drain_encoded [OF assms(1)]
  have start: "decoder_parse (fd_buf decoder_new) = None"
    by (simp add: decoder_new_def decoder_parse_eq)
  have "feed decoder_parse [] cs = drain_all decoder_parse ([] @ concat cs)"
    using start d assms(2) by (intro modem_stream.feed_concat) (auto simp: decoder_new_def)
  with receive_feed [OF start assms(3)] d assms(2) show ?thesis
    by (simp add: decoder_new_def)
qed

text \<open>C23. Serial streams: when the frames of any sequence of well-formed messages arrive cut into reads
  in any way (each read at most 3081 bytes, so that the buffer is never reset), the incremental decoder
  returns exactly those messages in order and is left with an empty buffer.\<close>

theorem modem_stream_decodes:
  assumes "list_all2 (\<lambda>m f. modem_msg_ok m \<and> encode_modem_frame m = Inr f) ms fs"
    and "concat cs = concat fs"
    and "\<And>c. c \<in> set cs \<Longrightarrow> length c \<le> DECODER_BUF_CAP - SERIAL_MAX_FRAME_SIZE"
  shows "receive decoder_new cs = (map Inr ms, decoder_new)"
  using assms by (rule receive_encoded)

theorem modem_stream_decodes_witness:
  "receive decoder_new [be16 2, [3, 6] @ be16 1, [4]] = ([Inr (SetChannel 6), Inr GetStatus], decoder_new)"
proof -
  have f: "encode_modem_frame (SetChannel 6) = Inr (be16 2 @ [3, 6])"
      "encode_modem_frame GetStatus = Inr (be16 1 @ [4])"
    by (simp_all add: encode_modem_frame_def modem_types modem_sizes)
  have "receive decoder_new [be16 2, [3, 6] @ be16 1, [4]] = (map Inr [SetChannel 6, GetStatus], decoder_new)"
    by (rule modem_stream_decodes [where fs = "[be16 2 @ [3, 6], be16 1 @ [4]]"])
      (use f in \<open>auto simp: modem_sizes\<close>)
  then show ?thesis by simp
qed

text \<open>The decoder never stalls on garbage: on any buffer, \<open>decode\<close> either asks for more bytes and
  leaves the buffer, shorter than one frame, as it is, or consumes at least two bytes.\<close>

theorem decoder_progress:
  "decoder_decode d = (Inr None, d) \<and> buffered d < SERIAL_MAX_FRAME_SIZE \<or>
   fst (decoder_decode d) \<noteq> Inr None \<and> buffered (snd (decoder_decode d)) + 2 \<le> buffered d"
proof (cases "decoder_parse (fd_buf d)")
  case None
  then have "decoder_decode d = (Inr None, d)"
    by (auto simp: decoder_parse_def decoder_decode_def Let_def res_bind_def split: if_splits sum.splits)
  with waiting_short [OF None] show ?thesis by (simp add: buffered_def)
next
  case (Some q)
  then have "fst (decoder_decode d) \<noteq> Inr None" "length (fd_buf (snd (decoder_decode d))) + 2 \<le> length (fd_buf d)"
    by (auto simp: decoder_parse_def decoder_decode_def Let_def modem_sizes res_bind_def split: if_splits sum.splits)
  then show ?thesis by (simp add: buffered_def)
qed

end
