(* ===== verification/Node_Types.thy ===== *)
theory Node_Types
  imports Sonde_Prelude
begin

text \<open>
  Types the node components share: the errors of \<open>sonde-node/src/error.rs\<close> and the map definitions of
  program images (\<open>sonde-protocol/src/program_image.rs\<close>), the board layout (\<open>board_layout.rs\<close>). Static error messages are strings; the
  node runs on a target whose \<open>usize\<close> has 32 bits.
\<close>

datatype node_error =
    AuthFailure
  | ResponseBindingMismatch
  | UnexpectedMsgType u8
  | MalformedPayload string
  | TransportError string
  | Unpaired
  | ProgramHashMismatch
  | ProgramDecodeFailed string
  | MapBudgetExceeded nat nat
  | MapKeyOutOfBounds u32 u32
  | MapValueSizeMismatch u32 nat
  | NodeBpfError string
  | HelperError u32 int
  | EphemeralRestriction u32
  | ChunkTransferFailed u32
  | WakeRetriesExhausted
  | Timeout
  | StorageError string
  | ChunkIndexMismatch u32 u32
  | RebootRequested

record map_def =
  md_map_type :: u32
  md_key_size :: u32
  md_value_size :: u32
  md_max_entries :: u32

record board_layout =
  i2c0_sda :: "u8 option"
  i2c0_scl :: "u8 option"
  one_wire_data :: "u8 option"
  battery_adc :: "u8 option"
  sensor_enable :: "u8 option"

text \<open>Arithmetic on the node's \<open>usize\<close>.\<close>

definition USIZE_MAX :: nat where "USIZE_MAX = 2 ^ 32 - 1"

definition usize_add :: "nat \<Rightarrow> nat \<Rightarrow> nat option" where
  "usize_add a b = (if a + b \<le> USIZE_MAX then Some (a + b) else None)"

definition usize_mul :: "nat \<Rightarrow> nat \<Rightarrow> nat option" where
  "usize_mul a b = (if a * b \<le> USIZE_MAX then Some (a * b) else None)"

end
