(* ===== verification/Map_Storage.thy ===== *)
theory Map_Storage
  imports Node_Types
begin

text \<open>
  The BPF map storage of the node (\<open>sonde-node/src/map_storage.rs\<close>), in the firmware build: map data
  lives in the 4 KB buffer \<open>MAP_BACKING\<close> and the layout record \<open>MAP_LAYOUT\<close>, both in RTC memory, which
  survives deep sleep. An \<open>RtcSlice\<close> is an offset into the buffer and a length; the address of the
  buffer is the argument \<open>base\<close>. The layout record is written by single volatile writes, which
  \<open>rtc_write\<close> makes explicit, so that a reset between two of them can be stated.
\<close>

section \<open>State\<close>

definition BPF_MAP_TYPE_ARRAY :: u32 where "BPF_MAP_TYPE_ARRAY = 1"
definition BPF_MAP_TYPE_GLOBAL_VARIABLE :: u32 where "BPF_MAP_TYPE_GLOBAL_VARIABLE = 0"
definition ARRAY_MAP_KEY_SIZE :: u32 where "ARRAY_MAP_KEY_SIZE = 4"
definition MAP_BUDGET :: nat where "MAP_BUDGET = 4 * 1024"
definition MAX_MAPS :: nat where "MAX_MAPS = 16"

record rtc_memory =
  rtc_backing :: bytes
  rtc_map_count :: u32
  rtc_defs :: "map_def list"

record map_instance =
  mi_def :: map_def
  mi_off :: nat
  mi_len :: nat
  mi_entry_size :: nat

record map_storage =
  st_maps :: "map_instance list"
  st_ptrs :: "u64 list"
  st_budget :: nat

section \<open>Map instances\<close>

definition map_lookup :: "bytes \<Rightarrow> map_instance \<Rightarrow> u32 \<Rightarrow> bytes option" where
  "map_lookup buf mi key =
     (if key \<ge> md_max_entries (mi_def mi) then None
      else
        let off = unat key * mi_entry_size mi + unat (md_key_size (mi_def mi));
            e = off + unat (md_value_size (mi_def mi))
        in if e > mi_len mi then None
           else Some (take (unat (md_value_size (mi_def mi))) (drop (mi_off mi + off) buf)))"

definition map_update :: "bytes \<Rightarrow> map_instance \<Rightarrow> u32 \<Rightarrow> bytes \<Rightarrow> node_error + bytes" where
  "map_update buf mi key val =
     (if key \<ge> md_max_entries (mi_def mi) then Inl (MapKeyOutOfBounds key (md_max_entries (mi_def mi)))
      else if length val \<noteq> unat (md_value_size (mi_def mi)) then
        Inl (MapValueSizeMismatch (md_value_size (mi_def mi)) (length val))
      else
        let off = unat key * mi_entry_size mi + unat (md_key_size (mi_def mi));
            e = off + unat (md_value_size (mi_def mi))
        in if e > mi_len mi then Inl (MapKeyOutOfBounds key (md_max_entries (mi_def mi)))
           else Inr (copy_at (mi_off mi + off) val buf))"

definition data_ptr :: "u64 \<Rightarrow> map_instance \<Rightarrow> u64" where
  "data_ptr base mi = base + of_nat (mi_off mi)"

definition storage_bytes :: "map_instance \<Rightarrow> nat" where "storage_bytes mi = mi_len mi"

section \<open>Storage\<close>

definition storage_new :: "nat \<Rightarrow> map_storage" where
  "storage_new budget = \<lparr>st_maps = [], st_ptrs = [], st_budget = budget\<rparr>"

primrec required_from :: "nat \<Rightarrow> map_def list \<Rightarrow> nat option" where
  "required_from acc [] = Some acc"
| "required_from acc (d # ds) =
     (case usize_add (unat (md_key_size d)) (unat (md_value_size d)) of
        None \<Rightarrow> None
      | Some esize \<Rightarrow>
          (case usize_mul esize (unat (md_max_entries d)) of
             None \<Rightarrow> None
           | Some msize \<Rightarrow>
               (case usize_add acc msize of
                  None \<Rightarrow> None
                | Some acc' \<Rightarrow> required_from acc' ds)))"

definition required_bytes_checked :: "map_def list \<Rightarrow> nat option" where
  "required_bytes_checked defs = required_from 0 defs"

definition required_bytes :: "map_def list \<Rightarrow> nat" where
  "required_bytes defs = (case required_bytes_checked defs of None \<Rightarrow> USIZE_MAX | Some n \<Rightarrow> n)"

definition validate_map_def :: "map_def \<Rightarrow> node_error + unit" where
  "validate_map_def d =
     (if md_map_type d \<noteq> BPF_MAP_TYPE_ARRAY \<and> md_map_type d \<noteq> BPF_MAP_TYPE_GLOBAL_VARIABLE then
        Inl (ProgramDecodeFailed ''unsupported map type: only global variable (0) and BPF_MAP_TYPE_ARRAY (1) are supported'')
      else if md_key_size d \<noteq> ARRAY_MAP_KEY_SIZE then
        Inl (ProgramDecodeFailed ''array map key_size must be 4 (u32)'')
      else if md_max_entries d = 0 then Inl (ProgramDecodeFailed ''map max_entries must be > 0: zero-entry maps produce duplicate data_ptr() values and break map indexing'')
      else if md_value_size d = 0 then Inl (ProgramDecodeFailed ''map value_size must be > 0: zero-byte values are not supported'')
      else Inr ())"

primrec validate_each :: "map_def list \<Rightarrow> node_error + unit" where
  "validate_each [] = Inr ()"
| "validate_each (d # ds) = res_bind (validate_map_def d) (\<lambda>_. validate_each ds)"

definition validate_map_defs :: "map_def list \<Rightarrow> node_error + unit" where
  "validate_map_defs defs =
     (if length defs > MAX_MAPS then Inl (ProgramDecodeFailed ''program defines too many maps (exceeds MAX_MAPS)'')
      else res_bind (validate_each defs) (\<lambda>_.
        if required_bytes_checked defs = None then
          Inl (ProgramDecodeFailed ''invalid map definitions: size calculation overflowed'')
        else Inr ()))"

definition entry_size :: "map_def \<Rightarrow> nat" where
  "entry_size d = unat (md_key_size d) + unat (md_value_size d)"

definition map_size :: "map_def \<Rightarrow> nat" where
  "map_size d = entry_size d * unat (md_max_entries d)"

text \<open>The instances a list of definitions gets, from an offset on (the loops of \<open>allocate\<close> and
  \<open>from_rtc\<close>).\<close>

primrec place_maps :: "nat \<Rightarrow> map_def list \<Rightarrow> map_instance list" where
  "place_maps off [] = []"
| "place_maps off (d # ds) =
     \<lparr>mi_def = d, mi_off = off, mi_len = map_size d, mi_entry_size = entry_size d\<rparr>
       # place_maps (off + map_size d) ds"

text \<open>\<open>make_map_data\<close> and \<open>fill(0)\<close>: zero-fill the region of a map.\<close>

definition zero_map :: "bytes \<Rightarrow> map_instance \<Rightarrow> bytes" where
  "zero_map buf mi = copy_at (mi_off mi) (replicate (mi_len mi) 0) buf"

text \<open>The volatile writes of \<open>write_rtc_layout\<close>, in order.\<close>

datatype rtc_write = WriteCount u32 | WriteDef nat map_def

fun apply_write :: "rtc_memory \<Rightarrow> rtc_write \<Rightarrow> rtc_memory" where
  "apply_write r (WriteCount n) = r\<lparr>rtc_map_count := n\<rparr>"
| "apply_write r (WriteDef i d) = r\<lparr>rtc_defs := (rtc_defs r)[i := d]\<rparr>"

definition layout_writes :: "map_def list \<Rightarrow> rtc_write list" where
  "layout_writes defs =
     (let count = min (length defs) MAX_MAPS in
      [WriteCount 0] @ map (\<lambda>i. WriteDef i (defs ! i)) [0..<count] @ [WriteCount (of_nat count)])"

definition write_rtc_layout :: "map_def list \<Rightarrow> rtc_memory \<Rightarrow> rtc_memory" where
  "write_rtc_layout defs r = foldl apply_write r (layout_writes defs)"

definition allocate ::
    "u64 \<Rightarrow> map_def list \<Rightarrow> map_storage \<Rightarrow> rtc_memory \<Rightarrow> (node_error + unit) \<times> map_storage \<times> rtc_memory" where
  "allocate base defs st r =
     (case validate_map_defs defs of
        Inl e \<Rightarrow> (Inl e, st, r)
      | Inr _ \<Rightarrow>
          (case required_bytes_checked defs of
             None \<Rightarrow> (Inl (ProgramDecodeFailed ''invalid map definitions: size calculation overflowed''), st, r)
           | Some required \<Rightarrow>
               if required > st_budget st then (Inl (MapBudgetExceeded required (st_budget st)), st, r)
               else if required > MAP_BUDGET then (Inl (MapBudgetExceeded required MAP_BUDGET), st, r)
               else
                 let maps = place_maps 0 defs;
                     r1 = r\<lparr>rtc_backing := foldl zero_map (rtc_backing r) maps\<rparr>
                 in (Inr (), st\<lparr>st_maps := maps, st_ptrs := map (data_ptr base) maps\<rparr>,
                     write_rtc_layout defs r1)))"

definition from_rtc :: "u64 \<Rightarrow> nat \<Rightarrow> rtc_memory \<Rightarrow> map_storage option" where
  "from_rtc base budget r =
     (let map_count = unat (rtc_map_count r) in
      if map_count = 0 \<or> map_count > MAX_MAPS then None
      else
        let defs = map (\<lambda>i. rtc_defs r ! i) [0..<map_count] in
        case required_bytes_checked defs of
          None \<Rightarrow> None
        | Some total_bytes \<Rightarrow>
            if total_bytes > budget \<or> total_bytes > MAP_BUDGET then None
            else
              (case validate_map_defs defs of
                 Inl _ \<Rightarrow> None
               | Inr _ \<Rightarrow>
                   let maps = place_maps 0 defs in
                   Some \<lparr>st_maps = maps, st_ptrs = map (data_ptr base) maps, st_budget = budget\<rparr>))"

text \<open>\<open>apply_initial_data\<close>: the outcome of the update is ignored.\<close>

definition apply_initial :: "map_storage \<Rightarrow> bytes \<Rightarrow> nat \<times> bytes \<Rightarrow> bytes" where
  "apply_initial st buf p =
     (case p of (i, data) \<Rightarrow>
        if data = [] \<or> i \<ge> length (st_maps st) then buf
        else if length data = unat (md_value_size (mi_def (st_maps st ! i))) then
          (case map_update buf (st_maps st ! i) 0 data of Inl _ \<Rightarrow> buf | Inr buf' \<Rightarrow> buf')
        else buf)"

definition apply_initial_data :: "bytes list \<Rightarrow> map_storage \<Rightarrow> rtc_memory \<Rightarrow> rtc_memory" where
  "apply_initial_data datas st r =
     r\<lparr>rtc_backing := foldl (apply_initial st) (rtc_backing r) (zip [0..<length datas] datas)\<rparr>"

definition map_count :: "map_storage \<Rightarrow> nat" where "map_count st = length (st_maps st)"

definition layout_matches :: "map_def list \<Rightarrow> map_storage \<Rightarrow> bool" where
  "layout_matches defs st \<longleftrightarrow>
     length (st_maps st) = length defs \<and> list_all (\<lambda>(mi, d). mi_def mi = d) (zip (st_maps st) defs)"

definition clear_all :: "map_storage \<Rightarrow> rtc_memory \<Rightarrow> rtc_memory" where
  "clear_all st r =
     r\<lparr>rtc_backing := foldl zero_map (rtc_backing r) (st_maps st), rtc_map_count := 0\<rparr>"

end
