(* ===== verification/Map_Correct.thy ===== *)
theory Map_Correct
  imports Map_Storage
begin

text \<open>
  Correctness of the map storage: the regions of the maps are packed without overlap inside the
  backing buffer; the storage is a keyed store (the locale's interpretation); the layout survives deep
  sleep; a reset in the middle of writing the layout record is detected.
\<close>

section \<open>Sizes and placement\<close>

lemma required_from_SomeD:
  "required_from acc ds = Some n \<Longrightarrow> n = acc + sum_list (map map_size ds) \<and> n \<le> max acc USIZE_MAX"
proof (induction ds arbitrary: acc)
  case Nil
  then show ?case by simp
next
  case (Cons d ds)
  then have r: "required_from (acc + map_size d) ds = Some n" and "acc + map_size d \<le> USIZE_MAX"
    by (auto simp: usize_add_def usize_mul_def map_size_def entry_size_def split: if_splits)
  with Cons.IH [OF r] show ?case by simp
qed

lemma required_bytes_checked_SomeD:
  "required_bytes_checked ds = Some n \<Longrightarrow> n = sum_list (map map_size ds)"
  using required_from_SomeD [of 0 ds n] by (simp add: required_bytes_checked_def)

lemma length_place_maps [simp]: "length (place_maps off ds) = length ds"
  by (induction ds arbitrary: off) simp_all

lemma map_def_place_maps [simp]: "map mi_def (place_maps off ds) = ds"
  by (induction ds arbitrary: off) simp_all

lemma nth_place_maps:
  "i < length ds \<Longrightarrow> place_maps off ds ! i =
     \<lparr>mi_def = ds ! i, mi_off = off + sum_list (map map_size (take i ds)), mi_len = map_size (ds ! i),
      mi_entry_size = entry_size (ds ! i)\<rparr>"
proof (induction ds arbitrary: off i)
  case (Cons d ds)
  then show ?case by (cases i) simp_all
qed simp

lemma sum_take_mono:
  "i < j \<Longrightarrow> j \<le> length ds \<Longrightarrow> sum_list (map f (take i ds)) + f (ds ! i) \<le> sum_list (map f (take j ds))"
  for f :: "'a \<Rightarrow> nat"
proof (induction ds arbitrary: i j)
  case (Cons d ds)
  then show ?case by (cases i; cases j) (auto simp: gr0_conv_Suc)
qed simp

lemma place_maps_end:
  "i < length ds \<Longrightarrow> mi_off (place_maps off ds ! i) + mi_len (place_maps off ds ! i) \<le> off + sum_list (map map_size ds)"
  using sum_take_mono [of i "length ds" ds map_size] by (simp add: nth_place_maps)

lemma place_maps_disjoint:
  "i < j \<Longrightarrow> j < length ds \<Longrightarrow>
   mi_off (place_maps off ds ! i) + mi_len (place_maps off ds ! i) \<le> mi_off (place_maps off ds ! j)"
  using sum_take_mono [of i j ds map_size] by (simp add: nth_place_maps)

section \<open>The invariant\<close>

definition storage_inv :: "map_storage \<Rightarrow> rtc_memory \<Rightarrow> bool" where
  "storage_inv st r \<longleftrightarrow>
     length (rtc_backing r) = MAP_BUDGET \<and> length (rtc_defs r) = MAX_MAPS \<and>
     st_maps st = place_maps 0 (map mi_def (st_maps st)) \<and>
     sum_list (map (map_size \<circ> mi_def) (st_maps st)) \<le> MAP_BUDGET"

lemma storage_inv_map:
  assumes "storage_inv st r" and "i < length (st_maps st)"
  shows "mi_off (st_maps st ! i) + mi_len (st_maps st ! i) \<le> length (rtc_backing r)"
    and "mi_entry_size (st_maps st ! i) = entry_size (mi_def (st_maps st ! i))"
proof -
  let ?ds = "map mi_def (st_maps st)"
  have st: "st_maps st ! i = place_maps 0 ?ds ! i" and sz: "sum_list (map map_size ?ds) \<le> MAP_BUDGET"
    using assms(1) by (simp_all add: storage_inv_def)
  from place_maps_end [of i ?ds 0] assms sz show "mi_off (st_maps st ! i) + mi_len (st_maps st ! i) \<le> length (rtc_backing r)"
    unfolding st by (simp add: storage_inv_def)
  have "mi_entry_size (place_maps 0 ?ds ! i) = entry_size (mi_def (place_maps 0 ?ds ! i))"
    using assms(2) by (simp add: nth_place_maps)
  then show "mi_entry_size (st_maps st ! i) = entry_size (mi_def (st_maps st ! i))"
    using st by simp
qed

lemma storage_inv_disjoint:
  assumes "storage_inv st r" and "i \<noteq> j" and "i < length (st_maps st)" and "j < length (st_maps st)"
  shows "mi_off (st_maps st ! i) + mi_len (st_maps st ! i) \<le> mi_off (st_maps st ! j) \<or>
         mi_off (st_maps st ! j) + mi_len (st_maps st ! j) \<le> mi_off (st_maps st ! i)"
proof -
  let ?ds = "map mi_def (st_maps st)"
  have st: "st_maps st ! k = place_maps 0 ?ds ! k" for k
    using assms(1) by (simp add: storage_inv_def)
  show ?thesis
    using place_maps_disjoint [of i j ?ds 0] place_maps_disjoint [of j i ?ds 0] assms(2-4)
    unfolding st by (cases "i < j") simp_all
qed

section \<open>Entries\<close>

text \<open>The bytes of an entry's value, relative to the buffer.\<close>

definition entry_pos :: "map_instance \<Rightarrow> u32 \<Rightarrow> nat" where
  "entry_pos mi key = mi_off mi + (unat key * mi_entry_size mi + unat (md_key_size (mi_def mi)))"

lemma map_update_InrD:
  assumes "map_update buf mi key val = Inr buf'"
  shows "key < md_max_entries (mi_def mi)" "length val = unat (md_value_size (mi_def mi))"
    and "buf' = copy_at (entry_pos mi key) val buf"
    and "entry_pos mi key + length val \<le> mi_off mi + mi_len mi" "mi_off mi \<le> entry_pos mi key"
  using assms by (auto simp: map_update_def entry_pos_def Let_def split: if_splits)

lemma map_lookup_eq:
  "map_lookup buf mi key =
     (if key < md_max_entries (mi_def mi) \<and>
         entry_pos mi key + unat (md_value_size (mi_def mi)) \<le> mi_off mi + mi_len mi
      then Some (take (unat (md_value_size (mi_def mi))) (drop (entry_pos mi key) buf)) else None)"
  by (auto simp: map_lookup_def entry_pos_def Let_def add.assoc)

lemma entries_disjoint:
  assumes "mi_entry_size mi = entry_size (mi_def mi)" and "k \<noteq> k'"
  shows "entry_pos mi k + unat (md_value_size (mi_def mi)) \<le> entry_pos mi k' \<or>
         entry_pos mi k' + unat (md_value_size (mi_def mi)) \<le> entry_pos mi k"
proof -
  have step: "a * s + ks + vs \<le> b * s + ks" if "a < b" "s = ks + vs" for a b s ks vs :: nat
  proof -
    have "Suc a * s \<le> b * s" using that(1) by (intro mult_le_mono1) simp
    then show ?thesis using that(2) by simp
  qed
  have "unat k < unat k' \<or> unat k' < unat k"
    using assms(2) by (metis linorder_neqE_nat word_unat_eq_iff)
  then show ?thesis
    using step [of "unat k" "unat k'" "mi_entry_size mi" "unat (md_key_size (mi_def mi))" "unat (md_value_size (mi_def mi))"]
      step [of "unat k'" "unat k" "mi_entry_size mi" "unat (md_key_size (mi_def mi))" "unat (md_value_size (mi_def mi))"]
      assms(1)
    unfolding entry_pos_def entry_size_def by linarith
qed

section \<open>The storage as a keyed store\<close>

text \<open>\<open>get(i)\<close> followed by \<open>lookup\<close>, and \<open>get_mut(i)\<close> followed by \<open>update\<close>.\<close>

definition storage_get :: "map_storage \<times> rtc_memory \<Rightarrow> nat \<times> u32 \<Rightarrow> bytes option" where
  "storage_get s k =
     (if fst k < length (st_maps (fst s))
      then map_lookup (rtc_backing (snd s)) (st_maps (fst s) ! fst k) (snd k) else None)"

definition storage_put ::
    "map_storage \<times> rtc_memory \<Rightarrow> nat \<times> u32 \<Rightarrow> bytes \<Rightarrow> (map_storage \<times> rtc_memory) option" where
  "storage_put s k v =
     (if fst k < length (st_maps (fst s)) then
        (case map_update (rtc_backing (snd s)) (st_maps (fst s) ! fst k) (snd k) v of
           Inl _ \<Rightarrow> None
         | Inr buf \<Rightarrow> Some (fst s, (snd s)\<lparr>rtc_backing := buf\<rparr>))
      else None)"

lemma map_update_length:
  assumes "map_update buf mi key val = Inr buf'" and "mi_off mi + mi_len mi \<le> length buf"
  shows "length buf' = length buf"
  using map_update_InrD [OF assms(1)] assms(2) by (simp add: length_copy_at)

lemma lookup_update:
  assumes u: "map_update buf mi key val = Inr buf'" and b: "mi_off mi + mi_len mi \<le> length buf"
    and e: "mi_entry_size mi = entry_size (mi_def mi)"
  shows "map_lookup buf' mi key' = (if key' = key then Some val else map_lookup buf mi key')"
proof -
  note D = map_update_InrD [OF u]
  have fit: "entry_pos mi key + length val \<le> length buf" using D(4) b by simp
  have "take (length val) (drop (entry_pos mi key') buf') = take (length val) (drop (entry_pos mi key') buf)"
    if "key' \<noteq> key"
    using entries_disjoint [OF e that] D(2) by (simp add: D(3) copy_at_read_other [OF fit])
  moreover have "take (length val) (drop (entry_pos mi key) buf') = val"
    by (simp add: D(3) copy_at_read_same [OF fit])
  ultimately show ?thesis
    using D by (auto simp: map_lookup_eq)
qed

lemma lookup_update_other:
  assumes u: "map_update buf mi key val = Inr buf'" and b: "mi_off mi + mi_len mi \<le> length buf"
    and d: "mi_off mi + mi_len mi \<le> mi_off mj \<or> mi_off mj + mi_len mj \<le> mi_off mi"
  shows "map_lookup buf' mj key' = map_lookup buf mj key'"
proof -
  note D = map_update_InrD [OF u]
  have fit: "entry_pos mi key + length val \<le> length buf" using D(4) b by simp
  have "mi_off mj \<le> entry_pos mj key'" by (simp add: entry_pos_def)
  then show ?thesis
    using d D(4,5) by (auto simp: map_lookup_eq D(3) copy_at_read_other [OF fit])
qed

interpretation map_store: keyed_store "\<lambda>s. storage_inv (fst s) (snd s)" storage_get storage_put
proof unfold_locales
  fix s k v s' k'
  assume inv: "storage_inv (fst s) (snd s)" and put: "storage_put s k v = Some s'"
  let ?mi = "st_maps (fst s) ! fst k"
  from put obtain buf where k: "fst k < length (st_maps (fst s))"
    and u: "map_update (rtc_backing (snd s)) ?mi (snd k) v = Inr buf"
    and s': "s' = (fst s, (snd s)\<lparr>rtc_backing := buf\<rparr>)"
    by (auto simp: storage_put_def split: if_splits sum.splits)
  note M = storage_inv_map [OF inv k]
  show "storage_inv (fst s') (snd s')"
    using inv map_update_length [OF u M(1)] by (simp add: s' storage_inv_def)
  show "storage_get s' k' = (if k' = k then Some v else storage_get s k')"
  proof (cases "fst k' = fst k")
    case True
    then show ?thesis
      using lookup_update [OF u M] k by (cases k; cases k') (simp add: storage_get_def s')
  next
    case False
    then show ?thesis
      using lookup_update_other [OF u M(1)] storage_inv_disjoint [OF inv _ k, of "fst k'"]
      by (auto simp: storage_get_def s')
  qed
qed

section \<open>Allocation\<close>

lemma zero_maps_backing:
  assumes "sum_list (map map_size ds) + off \<le> length buf"
  shows "foldl zero_map buf (place_maps off ds) = copy_at off (replicate (sum_list (map map_size ds)) 0) buf"
  using assms
proof (induction ds arbitrary: off buf)
  case Nil
  then show ?case by (simp add: copy_at_def)
next
  case (Cons d ds)
  let ?n = "map_size d" and ?m = "sum_list (map map_size ds)"
  have "zero_map buf (hd (place_maps off (d # ds))) = copy_at off (replicate ?n 0) buf"
    by (simp add: zero_map_def)
  moreover have "copy_at (off + ?n) (replicate ?m 0) (copy_at off (replicate ?n 0) buf) =
      copy_at off (replicate (?n + ?m) 0) buf"
    using Cons.prems by (simp add: copy_at_def replicate_add ac_simps)
  ultimately show ?case
    using Cons.IH [of "off + ?n" "copy_at off (replicate ?n 0) buf"] Cons.prems
    by (simp add: length_copy_at)
qed

lemma layout_write_effect:
  assumes "length (rtc_defs r) = MAX_MAPS" and "length defs \<le> MAX_MAPS"
  shows "write_rtc_layout defs r = r\<lparr>rtc_map_count := of_nat (length defs),
    rtc_defs := defs @ drop (length defs) (rtc_defs r)\<rparr>"
proof -
  have "foldl apply_write r0 (map (\<lambda>i. WriteDef i (defs ! i)) [0..<n]) =
      r0\<lparr>rtc_defs := take n defs @ drop n (rtc_defs r0)\<rparr>"
    if "n \<le> length defs" "length (rtc_defs r0) = MAX_MAPS" for n r0
    using that
  proof (induction n)
    case (Suc n)
    have "(drop n xs)[0 := y] = y # drop (Suc n) xs" if "n < length xs" for xs and y :: map_def
      using that by (simp add: Cons_nth_drop_Suc [symmetric])
    with Suc assms(2) show ?case
      by (simp add: take_Suc_conv_app_nth list_update_append)
  qed simp
  then show ?thesis
    using assms by (simp add: write_rtc_layout_def layout_writes_def min_def Let_def)
qed

lemma validate_length: "validate_map_defs ds = Inr () \<Longrightarrow> length ds \<le> MAX_MAPS"
  by (simp add: validate_map_defs_def split: if_splits)

lemma allocate_InrD:
  assumes "allocate base defs st r = (Inr (), st', r')"
    and "length (rtc_backing r) = MAP_BUDGET" and "length (rtc_defs r) = MAX_MAPS"
  shows "validate_map_defs defs = Inr ()" and "sum_list (map map_size defs) \<le> min (st_budget st) MAP_BUDGET"
    and "required_bytes_checked defs = Some (sum_list (map map_size defs))"
    and "st' = st\<lparr>st_maps := place_maps 0 defs, st_ptrs := map (data_ptr base) (place_maps 0 defs)\<rparr>"
    and "r' = \<lparr>rtc_backing = copy_at 0 (replicate (sum_list (map map_size defs)) 0) (rtc_backing r),
               rtc_map_count = of_nat (length defs), rtc_defs = defs @ drop (length defs) (rtc_defs r)\<rparr>"
proof -
  from assms(1) obtain n where v: "validate_map_defs defs = Inr ()" and n: "required_bytes_checked defs = Some n"
      and bound: "n \<le> st_budget st" "n \<le> MAP_BUDGET"
      and st': "st' = st\<lparr>st_maps := place_maps 0 defs, st_ptrs := map (data_ptr base) (place_maps 0 defs)\<rparr>"
      and r': "r' = write_rtc_layout defs (r\<lparr>rtc_backing := foldl zero_map (rtc_backing r) (place_maps 0 defs)\<rparr>)"
    by (auto simp: allocate_def Let_def not_less split: sum.splits option.splits if_splits)
  note n' = required_bytes_checked_SomeD [OF n]
  show "validate_map_defs defs = Inr ()" by (rule v)
  show "sum_list (map map_size defs) \<le> min (st_budget st) MAP_BUDGET" using bound n' by simp
  show "required_bytes_checked defs = Some (sum_list (map map_size defs))" using n n' by simp
  show "st' = st\<lparr>st_maps := place_maps 0 defs, st_ptrs := map (data_ptr base) (place_maps 0 defs)\<rparr>" by (rule st')
  have "foldl zero_map (rtc_backing r) (place_maps 0 defs) =
      copy_at 0 (replicate (sum_list (map map_size defs)) 0) (rtc_backing r)"
    using bound n' assms(2) by (intro zero_maps_backing) simp
  then show "r' = \<lparr>rtc_backing = copy_at 0 (replicate (sum_list (map map_size defs)) 0) (rtc_backing r),
               rtc_map_count = of_nat (length defs), rtc_defs = defs @ drop (length defs) (rtc_defs r)\<rparr>"
    using layout_write_effect [of "r\<lparr>rtc_backing := foldl zero_map (rtc_backing r) (place_maps 0 defs)\<rparr>" defs]
      validate_length [OF v] assms(3) by (simp add: r')
qed

lemma allocate_establishes:
  assumes "allocate base defs st r = (Inr (), st', r')"
    and "length (rtc_backing r) = MAP_BUDGET" and "length (rtc_defs r) = MAX_MAPS"
  shows "storage_inv st' r'" "layout_matches defs st'"
proof -
  note A = allocate_InrD [OF assms]
  show "storage_inv st' r'"
    using A(2) validate_length [OF A(1)] assms(2,3)
    by (simp add: storage_inv_def A(4,5) length_copy_at)
      (simp only: map_map [symmetric] map_def_place_maps)
  have "list_all (\<lambda>(mi, d). mi_def mi = d) (zip (place_maps off ds) ds)" for off ds
    by (induction ds arbitrary: off) simp_all
  then show "layout_matches defs st'" by (simp add: layout_matches_def A(4))
qed

lemma entry_fits:
  assumes "mi_entry_size mi = entry_size (mi_def mi)" and "mi_len mi = map_size (mi_def mi)"
    and "key < md_max_entries (mi_def mi)"
  shows "entry_pos mi key + unat (md_value_size (mi_def mi)) \<le> mi_off mi + mi_len mi"
proof -
  have "Suc (unat key) * entry_size (mi_def mi) \<le> unat (md_max_entries (mi_def mi)) * entry_size (mi_def mi)"
    using assms(3) by (intro mult_le_mono1) (simp add: word_less_nat_alt Suc_le_eq)
  then show ?thesis
    using assms(1,2) by (simp add: entry_pos_def map_size_def entry_size_def mult.commute)
qed

lemma zero_prefix_read:
  "p + n \<le> m \<Longrightarrow> m \<le> length buf \<Longrightarrow> take n (drop p (copy_at 0 (replicate m x) buf)) = replicate n x"
  by (simp add: copy_at_def min_def)

lemma allocated_zero:
  assumes "i < length defs" and "key < md_max_entries (defs ! i)"
    and "sum_list (map map_size defs) \<le> length buf"
  shows "map_lookup (copy_at 0 (replicate (sum_list (map map_size defs)) 0) buf) (place_maps 0 defs ! i) key =
    Some (replicate (unat (md_value_size (defs ! i))) 0)"
proof -
  let ?mi = "place_maps 0 defs ! i"
  have mi: "mi_def ?mi = defs ! i" "mi_entry_size ?mi = entry_size (mi_def ?mi)" "mi_len ?mi = map_size (mi_def ?mi)"
    using assms(1) by (simp_all add: nth_place_maps)
  have fits: "entry_pos ?mi key + unat (md_value_size (mi_def ?mi)) \<le> mi_off ?mi + mi_len ?mi"
    using entry_fits [OF mi(2,3)] assms(2) mi(1) by simp
  then have "entry_pos ?mi key + unat (md_value_size (defs ! i)) \<le> sum_list (map map_size defs)"
    using place_maps_end [OF assms(1), of 0] mi(1) by simp
  with fits assms(2,3) mi(1) show ?thesis
    by (simp add: map_lookup_eq zero_prefix_read)
qed

lemma validate_required: "validate_map_defs ds = Inr () \<Longrightarrow> \<exists>n. required_bytes_checked ds = Some n"
  by (auto simp: validate_map_defs_def res_bind_Inr_iff split: if_splits)

lemma allocate_cases:
  shows "fst (allocate base defs st r) = Inr () \<longleftrightarrow>
      validate_map_defs defs = Inr () \<and> sum_list (map map_size defs) \<le> min (st_budget st) MAP_BUDGET"
    and "fst (allocate base defs st r) \<noteq> Inr () \<Longrightarrow> snd (allocate base defs st r) = (st, r)"
proof -
  have "(fst (allocate base defs st r) = Inr () \<longleftrightarrow>
      validate_map_defs defs = Inr () \<and> sum_list (map map_size defs) \<le> min (st_budget st) MAP_BUDGET) \<and>
    (fst (allocate base defs st r) \<noteq> Inr () \<longrightarrow> snd (allocate base defs st r) = (st, r))"
  proof (cases "validate_map_defs defs")
    case (Inl e)
    then show ?thesis by (simp add: allocate_def)
  next
    case (Inr u)
    then obtain n where "required_bytes_checked defs = Some n" using validate_required by auto
    with required_bytes_checked_SomeD [OF this] Inr show ?thesis
      by (simp add: allocate_def Let_def)
  qed
  then show "fst (allocate base defs st r) = Inr () \<longleftrightarrow>
      validate_map_defs defs = Inr () \<and> sum_list (map map_size defs) \<le> min (st_budget st) MAP_BUDGET"
    and "fst (allocate base defs st r) \<noteq> Inr () \<Longrightarrow> snd (allocate base defs st r) = (st, r)" by auto
qed

text \<open>Allocation: it succeeds exactly when the definitions are valid and fit both budgets; then the
  maps are packed without overlap, every entry of every map reads as zeros, and the layout matches the
  definitions. When it fails, neither the storage nor RTC memory changes.\<close>

theorem map_allocate:
  assumes "allocate base defs st r = (res, st', r')"
    and "length (rtc_backing r) = MAP_BUDGET" and "length (rtc_defs r) = MAX_MAPS"
  shows "(res = Inr () \<longleftrightarrow> validate_map_defs defs = Inr () \<and> sum_list (map map_size defs) \<le> min (st_budget st) MAP_BUDGET) \<and>
    (if res = Inr ()
     then storage_inv st' r' \<and> layout_matches defs st' \<and>
       (\<forall>i key. i < length defs \<and> key < md_max_entries (defs ! i) \<longrightarrow>
          storage_get (st', r') (i, key) = Some (replicate (unat (md_value_size (defs ! i))) 0))
     else st' = st \<and> r' = r)"
proof (cases "res = Inr ()")
  case True
  note A = assms(1) [unfolded True]
  note D = allocate_InrD [OF A assms(2,3)] and E = allocate_establishes [OF A assms(2,3)]
  have "storage_get (st', r') (i, key) = Some (replicate (unat (md_value_size (defs ! i))) 0)"
    if "i < length defs" "key < md_max_entries (defs ! i)" for i key
    using allocated_zero [OF that, of "rtc_backing r"] that(1) D(2) assms(2)
    by (simp add: storage_get_def D(4,5))
  with True D(1,2) E show ?thesis by simp
next
  case False
  with allocate_cases [of base defs st r] assms(1) show ?thesis by simp
qed

definition ex_defs :: "map_def list" where
  "ex_defs = [\<lparr>md_map_type = 1, md_key_size = 4, md_value_size = 8, md_max_entries = 3\<rparr>,
              \<lparr>md_map_type = 0, md_key_size = 4, md_value_size = 2, md_max_entries = 1\<rparr>]"

definition ex_rtc :: rtc_memory where
  "ex_rtc = \<lparr>rtc_backing = replicate MAP_BUDGET 7, rtc_map_count = 0, rtc_defs = replicate MAX_MAPS (hd ex_defs)\<rparr>"

lemma ex_defs_valid: "validate_map_defs ex_defs = Inr ()" "sum_list (map map_size ex_defs) = 42"
  by (simp_all add: ex_defs_def validate_map_defs_def validate_map_def_def required_bytes_checked_def
      usize_add_def usize_mul_def USIZE_MAX_def MAX_MAPS_def BPF_MAP_TYPE_ARRAY_def
      BPF_MAP_TYPE_GLOBAL_VARIABLE_def ARRAY_MAP_KEY_SIZE_def map_size_def entry_size_def)

lemma ex_rtc_lengths: "length (rtc_backing ex_rtc) = MAP_BUDGET" "length (rtc_defs ex_rtc) = MAX_MAPS"
  by (simp_all add: ex_rtc_def)

lemma ex_allocate: "\<exists>st r. allocate 0 ex_defs (storage_new 64) ex_rtc = (Inr (), st, r)"
  using allocate_cases(1) [of 0 ex_defs "storage_new 64" ex_rtc] ex_defs_valid
  by (cases "allocate 0 ex_defs (storage_new 64) ex_rtc") (auto simp: storage_new_def MAP_BUDGET_def)

theorem map_allocate_witness:
  "\<exists>st r. allocate 0 ex_defs (storage_new 64) ex_rtc = (Inr (), st, r) \<and>
     storage_get (st, r) (0, 2) = Some (replicate 8 0)"
proof -
  obtain st r where a: "allocate 0 ex_defs (storage_new 64) ex_rtc = (Inr (), st, r)"
    using ex_allocate by blast
  from map_allocate [OF a ex_rtc_lengths] have "storage_get (st, r) (0, 2) = Some (replicate 8 0)"
    by (auto simp: ex_defs_def)
  with a show ?thesis by blast
qed

text \<open>Map contents: after a write to an entry that succeeded, and any number of writes to other
  entries of any maps (successful or refused), reading the entry gives the bytes that were written.\<close>

theorem map_last_write:
  assumes "storage_inv st r" and "storage_put (st, r) k v = Some s'"
    and "\<And>k' v'. (k', v') \<in> set kvs \<Longrightarrow> k' \<noteq> k"
  shows "storage_get (foldl (\<lambda>s (k, v). case storage_put s k v of None \<Rightarrow> s | Some s' \<Rightarrow> s') s' kvs) k = Some v"
  by (rule map_store.get_after_other_puts [of "(st, r)"]) (use assms in auto)

theorem map_last_write_witness:
  "\<exists>s s'. storage_put s (0, 1) [1, 2, 3, 4, 5, 6, 7, 8] = Some s' \<and>
     storage_get (foldl (\<lambda>s (k, v). case storage_put s k v of None \<Rightarrow> s | Some s' \<Rightarrow> s') s'
       [((0, 2), replicate 8 9), ((1, 0), [3, 3]), ((1, 7), [])]) (0, 1) = Some [1, 2, 3, 4, 5, 6, 7, 8]"
proof -
  obtain st r where a: "allocate 0 ex_defs (storage_new 64) ex_rtc = (Inr (), st, r)"
    using ex_allocate by blast
  note D = allocate_InrD [OF a ex_rtc_lengths] and E = allocate_establishes [OF a ex_rtc_lengths]
  have "\<exists>s'. storage_put (st, r) (0, 1) [1, 2, 3, 4, 5, 6, 7, 8] = Some s'"
    by (simp add: storage_put_def D(4) ex_defs_def map_update_def entry_size_def map_size_def word_le_nat_alt)
  then obtain s' where p: "storage_put (st, r) (0, 1) [1, 2, 3, 4, 5, 6, 7, 8] = Some s'" ..
  from map_last_write [OF E(1) p, of "[((0, 2), replicate 8 9), ((1, 0), [3, 3]), ((1, 7), [])]"] p
  show ?thesis by fastforce
qed

section \<open>Deep sleep and resets\<close>

lemma from_rtc_layout:
  assumes "validate_map_defs defs = Inr ()" and "required_bytes_checked defs = Some n"
    and "n \<le> budget" and "n \<le> MAP_BUDGET" and "defs \<noteq> []"
    and "rtc_map_count r = of_nat (length defs)" and "take (length defs) (rtc_defs r) = defs"
  shows "from_rtc base budget r =
    Some \<lparr>st_maps = place_maps 0 defs, st_ptrs = map (data_ptr base) (place_maps 0 defs), st_budget = budget\<rparr>"
proof -
  have len: "length defs \<le> 16" using validate_length [OF assms(1)] by (simp add: MAX_MAPS_def)
  then have "unat (rtc_map_count r) = length defs" by (simp add: assms(6) unat_of_nat)
  moreover have "map (\<lambda>i. rtc_defs r ! i) [0..<length defs] = defs"
  proof (rule nth_equalityI)
    fix i assume "i < length (map (\<lambda>i. rtc_defs r ! i) [0..<length defs])"
    then show "map (\<lambda>i. rtc_defs r ! i) [0..<length defs] ! i = defs ! i"
      using assms(7) by (metis add_0 diff_zero length_map length_upt nth_map nth_take nth_upt)
  qed simp
  ultimately show ?thesis
    using assms len by (simp add: from_rtc_def Let_def MAX_MAPS_def)
qed

text \<open>Deep sleep: after an allocation and any changes to the map data, rebuilding the storage from
  RTC memory gives the same maps and pointers, so every entry reads as it did before the sleep.\<close>

theorem map_survives_sleep:
  assumes "allocate base defs st r = (Inr (), st', r')" and "defs \<noteq> []"
    and "length (rtc_backing r) = MAP_BUDGET" and "length (rtc_defs r) = MAX_MAPS"
  shows "\<exists>st2. from_rtc base (st_budget st') (r'\<lparr>rtc_backing := buf\<rparr>) = Some st2 \<and>
    st_maps st2 = st_maps st' \<and> st_ptrs st2 = st_ptrs st' \<and>
    storage_get (st2, r'\<lparr>rtc_backing := buf\<rparr>) k = storage_get (st', r'\<lparr>rtc_backing := buf\<rparr>) k"
proof -
  note D = allocate_InrD [OF assms(1,3,4)]
  from from_rtc_layout [OF D(1,3) _ _ assms(2), of "st_budget st'" "r'\<lparr>rtc_backing := buf\<rparr>" base] D(2)
  show ?thesis by (simp add: D(4,5) storage_get_def)
qed

theorem map_survives_sleep_witness:
  "\<exists>st' r' st2. allocate 0 ex_defs (storage_new 64) ex_rtc = (Inr (), st', r') \<and>
     from_rtc 0 (st_budget st') (r'\<lparr>rtc_backing := replicate 4096 5\<rparr>) = Some st2 \<and> st_maps st2 = st_maps st'"
proof -
  obtain st r where a: "allocate 0 ex_defs (storage_new 64) ex_rtc = (Inr (), st, r)"
    using ex_allocate by blast
  with map_survives_sleep [OF a _ ex_rtc_lengths, of "replicate 4096 5"] show ?thesis
    by (auto simp: ex_defs_def)
qed

text \<open>C34. A reset while the layout record is being written: after any proper, non-empty prefix of the
  volatile writes the record is rejected on the next boot, so a half-written layout is never used.\<close>

theorem layout_write_reset_safe:
  assumes "0 < k" and "k < length (layout_writes defs)"
  shows "from_rtc base budget (foldl apply_write r (take k (layout_writes defs))) = None"
proof -
  let ?n = "min (length defs) MAX_MAPS"
  have "rtc_map_count (foldl apply_write r0 (map (\<lambda>i. WriteDef i (defs ! i)) is)) = rtc_map_count r0" for r0 "is"
    by (induction "is" arbitrary: r0) simp_all
  moreover obtain j where "take k (layout_writes defs) = WriteCount 0 # map (\<lambda>i. WriteDef i (defs ! i)) (take j [0..<?n])"
  proof
    show "take k (layout_writes defs) = WriteCount 0 # map (\<lambda>i. WriteDef i (defs ! i)) (take (k - 1) [0..<?n])"
      using assms by (cases k) (auto simp: layout_writes_def Let_def take_map)
  qed
  ultimately show ?thesis by (simp add: from_rtc_def Let_def)
qed

theorem layout_write_reset_safe_witness:
  "from_rtc 0 64 (foldl apply_write ex_rtc (take 2 (layout_writes ex_defs))) = None"
  by (rule layout_write_reset_safe) (simp_all add: layout_writes_def ex_defs_def MAX_MAPS_def)

end
