(* ===== verification/Async_Queue.thy ===== *)
theory Async_Queue
  imports Frame_Codec
begin

text \<open>
  The sleep-retained send queue of the node (\<open>sonde-node/src/async_queue.rs\<close>), in the firmware build:
  ten slots of 218 bytes, a count and a magic word in RTC memory. \<open>queue_view\<close> is the list of queued
  blobs; the locale \<open>bounded_queue\<close> is what the wake cycle relies on.
\<close>

definition MAX_MESSAGES :: nat where "MAX_MESSAGES = 10"
definition MAX_APP_DATA_BLOB_SIZE :: nat where "MAX_APP_DATA_BLOB_SIZE = MAX_PAYLOAD_SIZE - 5"
definition MAX_BLOB_SIZE :: nat where "MAX_BLOB_SIZE = MAX_APP_DATA_BLOB_SIZE"
definition QUEUE_MAGIC :: u32 where "QUEUE_MAGIC = 0x51554555"

record rtc_queue_item =
  qi_len :: u32
  qi_data :: bytes

record rtc_queue =
  q_magic :: u32
  q_count :: u32
  q_items :: "rtc_queue_item list"

definition queue_zero :: rtc_queue where
  "queue_zero = \<lparr>q_magic = 0, q_count = 0,
     q_items = replicate MAX_MESSAGES \<lparr>qi_len = 0, qi_data = replicate MAX_BLOB_SIZE 0\<rparr>\<rparr>"

definition queue_new :: "rtc_queue \<Rightarrow> rtc_queue" where
  "queue_new q = q\<lparr>q_count := 0, q_magic := QUEUE_MAGIC\<rparr>"

definition queue_from_rtc :: "rtc_queue \<Rightarrow> rtc_queue" where
  "queue_from_rtc q =
     (if q_magic q \<noteq> QUEUE_MAGIC then queue_new q
      else if unat (q_count q) > MAX_MESSAGES then queue_new q
      else if list_ex (\<lambda>i. unat (qi_len (q_items q ! i)) > MAX_BLOB_SIZE) [0..<unat (q_count q)] then queue_new q
      else q)"

definition read_count :: "rtc_queue \<Rightarrow> nat" where "read_count q = unat (q_count q)"

definition read_item_len :: "rtc_queue \<Rightarrow> nat \<Rightarrow> nat" where
  "read_item_len q i = unat (qi_len (q_items q ! i))"

definition read_item_data :: "rtc_queue \<Rightarrow> nat \<Rightarrow> bytes" where
  "read_item_data q i = take (read_item_len q i) (qi_data (q_items q ! i))"

definition write_item :: "rtc_queue \<Rightarrow> nat \<Rightarrow> bytes \<Rightarrow> rtc_queue" where
  "write_item q i data =
     q\<lparr>q_items := (q_items q)[i :=
         \<lparr>qi_len = of_nat (length data), qi_data = copy_at 0 data (qi_data (q_items q ! i))\<rparr>]\<rparr>"

definition commit_count :: "rtc_queue \<Rightarrow> nat \<Rightarrow> rtc_queue" where
  "commit_count q n = q\<lparr>q_count := of_nat n\<rparr>"

definition queue_push :: "bytes \<Rightarrow> rtc_queue \<Rightarrow> int \<times> rtc_queue" where
  "queue_push blob q =
     (if length blob > MAX_BLOB_SIZE then (- 2, q)
      else
        let count = read_count q in
        if count \<ge> MAX_MESSAGES then (- 1, q)
        else (0, commit_count (write_item q count blob) (count + 1)))"

definition queue_drain :: "rtc_queue \<Rightarrow> bytes list \<times> rtc_queue" where
  "queue_drain q = (map (read_item_data q) [0..<read_count q], commit_count q 0)"

definition queue_is_empty :: "rtc_queue \<Rightarrow> bool" where "queue_is_empty q \<longleftrightarrow> read_count q = 0"

definition queue_len :: "rtc_queue \<Rightarrow> nat" where "queue_len q = read_count q"

definition single_for_piggyback :: "nat \<Rightarrow> rtc_queue \<Rightarrow> bytes option" where
  "single_for_piggyback wake_budget q =
     (if read_count q = 1 then
        let len = read_item_len q 0 in
        if len \<le> wake_budget \<and> len \<le> MAX_BLOB_SIZE then Some (read_item_data q 0) else None
      else None)"

definition queue_clear :: "rtc_queue \<Rightarrow> rtc_queue" where "queue_clear q = commit_count q 0"

section \<open>Bounded queues\<close>

locale bounded_queue =
  fixes inv :: "'q \<Rightarrow> bool"
    and view :: "'q \<Rightarrow> 'a list"
    and push :: "'a \<Rightarrow> 'q \<Rightarrow> int \<times> 'q"
    and drain :: "'q \<Rightarrow> 'a list \<times> 'q"
    and fits :: "'a \<Rightarrow> bool"
    and cap :: nat
  assumes bounded: "inv q \<Longrightarrow> length (view q) \<le> cap"
    and push_inv: "inv q \<Longrightarrow> inv (snd (push x q))"
    and push_view: "inv q \<Longrightarrow> view (snd (push x q)) =
          (if fits x \<and> length (view q) < cap then view q @ [x] else view q)"
    and push_code: "inv q \<Longrightarrow> fst (push x q) =
          (if \<not> fits x then - 2 else if length (view q) < cap then 0 else - 1)"
    and drain_inv: "inv q \<Longrightarrow> inv (snd (drain q))"
    and drain_view: "inv q \<Longrightarrow> fst (drain q) = view q \<and> view (snd (drain q)) = []"
begin

lemma push_all:
  assumes "inv q"
  shows "inv (foldl (\<lambda>q x. snd (push x q)) q xs) \<and>
    view (foldl (\<lambda>q x. snd (push x q)) q xs) = take cap (view q @ filter fits xs)"
  using assms
proof (induction xs arbitrary: q)
  case Nil
  then show ?case using bounded by simp
next
  case (Cons x xs)
  have "take cap (view (snd (push x q)) @ filter fits xs) = take cap (view q @ filter fits (x # xs))"
    using push_view [OF Cons.prems, of x] bounded [OF Cons.prems] by (auto simp: take_Cons')
  with Cons.IH [OF push_inv [OF Cons.prems]] show ?case by simp
qed

text \<open>What one cycle pushes is what the next one drains, in order, up to the capacity.\<close>

lemma drain_after_pushes:
  assumes "inv q" and "view q = []"
  shows "fst (drain (foldl (\<lambda>q x. snd (push x q)) q xs)) = take cap (filter fits xs)"
  using push_all [OF assms(1), of xs] drain_view assms(2) by auto

end

section \<open>The queue is a bounded queue\<close>

definition queue_inv :: "rtc_queue \<Rightarrow> bool" where
  "queue_inv q \<longleftrightarrow> q_magic q = QUEUE_MAGIC \<and> read_count q \<le> MAX_MESSAGES \<and>
     length (q_items q) = MAX_MESSAGES \<and>
     (\<forall>it \<in> set (q_items q). length (qi_data it) = MAX_BLOB_SIZE) \<and>
     (\<forall>i < read_count q. read_item_len q i \<le> MAX_BLOB_SIZE)"

definition queue_view :: "rtc_queue \<Rightarrow> bytes list" where
  "queue_view q = map (read_item_data q) [0..<read_count q]"

lemma queue_consts: "MAX_MESSAGES = 10" "MAX_BLOB_SIZE = 218"
  by (simp_all add: MAX_MESSAGES_def MAX_BLOB_SIZE_def MAX_APP_DATA_BLOB_SIZE_def frame_consts)

lemma length_queue_view [simp]: "length (queue_view q) = read_count q"
  by (simp add: queue_view_def)

lemma read_count_commit: "n \<le> MAX_MESSAGES \<Longrightarrow> read_count (commit_count q n) = n"
  by (simp add: read_count_def commit_count_def unat_of_nat queue_consts)

lemma read_item_commit [simp]:
  "read_item_len (commit_count q n) i = read_item_len q i" "read_item_data (commit_count q n) i = read_item_data q i"
  by (simp_all add: read_item_len_def read_item_data_def commit_count_def)

lemma read_item_write:
  assumes "queue_inv q" and "k < MAX_MESSAGES" and "length blob \<le> MAX_BLOB_SIZE"
  shows "read_item_len (write_item q k blob) i = (if i = k then length blob else read_item_len q i)"
    and "read_item_data (write_item q k blob) i = (if i = k then blob else read_item_data q i)"
proof -
  have k: "k < length (q_items q)" and d: "length (qi_data (q_items q ! k)) = MAX_BLOB_SIZE"
    using assms(1,2) nth_mem by (auto simp: queue_inv_def)
  have u: "unat (of_nat (length blob) :: u32) = length blob"
    using assms(3) by (simp add: unat_of_nat queue_consts)
  show "read_item_len (write_item q k blob) i = (if i = k then length blob else read_item_len q i)"
    using k u by (simp add: read_item_len_def write_item_def nth_list_update)
  then show "read_item_data (write_item q k blob) i = (if i = k then blob else read_item_data q i)"
    using k d assms(3) copy_at_read_same [of 0 blob "qi_data (q_items q ! k)"]
    by (simp add: read_item_data_def) (simp add: write_item_def nth_list_update)
qed

lemma write_item_inv:
  assumes "queue_inv q" and "read_count q < MAX_MESSAGES" and "length blob \<le> MAX_BLOB_SIZE"
  shows "queue_inv (write_item q (read_count q) blob)"
    and "queue_view (write_item q (read_count q) blob) = queue_view q"
proof -
  let ?k = "read_count q"
  have d: "length (qi_data (q_items q ! ?k)) = MAX_BLOB_SIZE"
    using assms(1,2) nth_mem [of ?k "q_items q"] by (auto simp: queue_inv_def)
  have c: "read_count (write_item q ?k blob) = ?k" by (simp add: read_count_def write_item_def)
  have "\<forall>it \<in> set (q_items (write_item q ?k blob)). length (qi_data it) = MAX_BLOB_SIZE"
    unfolding write_item_def
    using assms(1,3) d by (auto simp: queue_inv_def length_copy_at dest!: set_list_updateD)
  with assms c show "queue_inv (write_item q ?k blob)"
    by (auto simp: queue_inv_def read_item_write [OF assms(1,2,3)]) (simp_all add: write_item_def)
  show "queue_view (write_item q ?k blob) = queue_view q"
    using c by (auto simp: queue_view_def read_item_write [OF assms])
qed

lemma queue_push_ok:
  assumes "queue_inv q" and "read_count q < MAX_MESSAGES" and "length blob \<le> MAX_BLOB_SIZE"
  defines "q' \<equiv> commit_count (write_item q (read_count q) blob) (read_count q + 1)"
  shows "queue_inv q'" and "queue_view q' = queue_view q @ [blob]"
proof -
  have c: "read_count q' = Suc (read_count q)"
    using assms(2) by (simp add: q'_def read_count_commit del: of_nat_Suc)
  have f: "q_items q' = q_items (write_item q (read_count q) blob)"
      "q_magic q' = q_magic (write_item q (read_count q) blob)"
    and len: "read_item_len q' i = (if i = read_count q then length blob else read_item_len q i)" for i
    by (simp_all add: q'_def read_item_write [OF assms(1-3)]) (simp_all add: commit_count_def)
  show "queue_inv q'"
    using write_item_inv(1) [OF assms(1-3)] assms(1-3) unfolding queue_inv_def f c len
    by (auto simp: less_Suc_eq)
  show "queue_view q' = queue_view q @ [blob]"
    using c by (auto simp: queue_view_def) (auto simp: q'_def read_item_write [OF assms(1-3)])
qed

interpretation rtc_queue: bounded_queue queue_inv queue_view queue_push queue_drain
    "\<lambda>blob. length blob \<le> MAX_BLOB_SIZE" MAX_MESSAGES
proof unfold_locales
  fix q x assume inv: "queue_inv q"
  show "length (queue_view q) \<le> MAX_MESSAGES" using inv by (simp add: queue_inv_def)
  note ok = queue_push_ok [OF inv, of x]
  show "queue_inv (snd (queue_push x q))"
    using inv ok(1) by (simp add: queue_push_def Let_def not_le)
  show "queue_view (snd (queue_push x q)) =
      (if length x \<le> MAX_BLOB_SIZE \<and> length (queue_view q) < MAX_MESSAGES then queue_view q @ [x] else queue_view q)"
    using ok(2) by (simp add: queue_push_def Let_def not_le)
  show "fst (queue_push x q) =
      (if \<not> length x \<le> MAX_BLOB_SIZE then - 2 else if length (queue_view q) < MAX_MESSAGES then 0 else - 1)"
    by (simp add: queue_push_def Let_def)
  show "queue_inv (snd (queue_drain q))"
    using inv by (simp add: queue_drain_def queue_inv_def read_count_commit) (simp add: commit_count_def)
  show "fst (queue_drain q) = queue_view q \<and> queue_view (snd (queue_drain q)) = []"
    by (simp add: queue_drain_def queue_view_def read_count_commit)
qed

lemma queue_new_inv: "queue_inv (queue_new queue_zero)" "queue_view (queue_new queue_zero) = []"
  by (simp_all add: queue_inv_def queue_view_def queue_new_def queue_zero_def read_count_def)

lemma from_rtc_inv: "queue_inv q \<Longrightarrow> queue_from_rtc q = q"
  by (auto simp: queue_from_rtc_def queue_inv_def read_count_def read_item_len_def list_ex_iff simp flip: not_le)

text \<open>C35. Store and forward: what is pushed onto an empty queue, and then survives a deep sleep, is
  drained in order: the blobs of at most 218 bytes, the first ten of them; the rest was refused.\<close>

theorem queue_store_and_forward:
  assumes "queue_inv q" and "queue_view q = []"
  shows "fst (queue_drain (queue_from_rtc (foldl (\<lambda>q x. snd (queue_push x q)) q xs))) =
    take MAX_MESSAGES (filter (\<lambda>x. length x \<le> MAX_BLOB_SIZE) xs)"
  using rtc_queue.drain_after_pushes [OF assms] rtc_queue.push_all [OF assms(1)] by (simp add: from_rtc_inv)

theorem queue_store_and_forward_witness:
  "fst (queue_drain (queue_from_rtc (foldl (\<lambda>q x. snd (queue_push x q)) (queue_new queue_zero)
     [[1, 2], replicate 219 0, [3]]))) = [[1, 2], [3]]"
  using queue_store_and_forward [OF queue_new_inv, of "[[1, 2], replicate 219 0, [3]]"]
  by (simp add: queue_consts)

text \<open>A reset during a push: the slot is written before the count is committed, so after a reset in
  between the queue recovered from RTC memory holds exactly the blobs from before the push.\<close>

theorem queue_push_reset_safe:
  assumes "queue_inv q" and "read_count q < MAX_MESSAGES" and "length blob \<le> MAX_BLOB_SIZE"
  shows "queue_view (queue_from_rtc (write_item q (read_count q) blob)) = queue_view q"
  using write_item_inv [OF assms] by (simp add: from_rtc_inv)

theorem queue_push_reset_safe_witness:
  "queue_view (queue_from_rtc (write_item (queue_new queue_zero) 0 [7])) = []"
  using queue_push_reset_safe [OF queue_new_inv(1), of "[7]"] queue_new_inv(2)
  by (simp add: queue_new_def read_count_def queue_consts)

end
