(* ===== verification/Cbor.thy ===== *)
theory Cbor
  imports Sonde_Prelude
begin

text \<open>
  The CBOR library is not part of the repository: \<open>ser\<close> and \<open>de\<close> stand for \<open>ciborium::into_writer\<close>
  and \<open>ciborium::from_reader\<close> on its \<open>Value\<close> type, of which \<open>cbor_value\<close> has the variants the sources
  use (\<open>CborOther\<close> for the rest). A text is the list of its bytes. \<open>cbor_faithful\<close> is what the
  sources rely on: a value of the range of CBOR is written, and reading the bytes gives it back. The
  encoding of RFC 8949 is defined at the end to show that the requirement can be met.
\<close>

datatype cbor_value =
    CborInt int
  | CborBytes bytes
  | CborText string
  | CborBool bool
  | CborNull
  | CborArray "cbor_value list"
  | CborMap "(cbor_value \<times> cbor_value) list"
  | CborOther nat

type_synonym cbor_ser = "cbor_value \<Rightarrow> string + bytes"
type_synonym cbor_de = "bytes \<Rightarrow> string + cbor_value"

definition is_ascii :: "string \<Rightarrow> bool" where
  "is_ascii s \<longleftrightarrow> list_all (\<lambda>c. of_char c < (128 :: nat)) s"

text \<open>Integers of at most 64 bits and a sign, ASCII texts, lengths of a 64-bit \<open>usize\<close>.\<close>

fun cbor_wf :: "cbor_value \<Rightarrow> bool" where
  "cbor_wf (CborInt i) \<longleftrightarrow> - (2 ^ 64) \<le> i \<and> i < 2 ^ 64"
| "cbor_wf (CborBytes b) \<longleftrightarrow> length b < 2 ^ 64"
| "cbor_wf (CborText s) \<longleftrightarrow> length s < 2 ^ 64 \<and> is_ascii s"
| "cbor_wf (CborBool _) \<longleftrightarrow> True"
| "cbor_wf CborNull \<longleftrightarrow> True"
| "cbor_wf (CborArray vs) \<longleftrightarrow> length vs < 2 ^ 64 \<and> list_all cbor_wf vs"
| "cbor_wf (CborMap ps) \<longleftrightarrow> length ps < 2 ^ 64 \<and> list_all (\<lambda>(k, v). cbor_wf k \<and> cbor_wf v) ps"
| "cbor_wf (CborOther _) \<longleftrightarrow> False"

definition cbor_faithful :: "cbor_ser \<Rightarrow> cbor_de \<Rightarrow> bool" where
  "cbor_faithful ser de \<longleftrightarrow> (\<forall>v. cbor_wf v \<longrightarrow> (\<exists>b. ser v = Inr b \<and> de b = Inr v))"

lemma cbor_faithfulE:
  assumes "cbor_faithful ser de" and "cbor_wf v"
  obtains b where "ser v = Inr b" and "de b = Inr v"
  using assms unfolding cbor_faithful_def by blast

section \<open>UTF-8\<close>

text \<open>\<open>str::from_utf8\<close>: what a byte string must be to be a text.\<close>

definition cont_byte :: "u8 \<Rightarrow> u8 \<Rightarrow> u8 \<Rightarrow> bool" where "cont_byte lo hi b \<longleftrightarrow> lo \<le> b \<and> b \<le> hi"

fun utf8_valid :: "u8 list \<Rightarrow> bool" where
  "utf8_valid [] = True"
| "utf8_valid (b # bs) =
     (if b < 0x80 then utf8_valid bs
      else (case bs of
        [] \<Rightarrow> False
      | c # cs \<Rightarrow>
          if cont_byte 0xC2 0xDF b then cont_byte 0x80 0xBF c \<and> utf8_valid cs
          else (case cs of
            [] \<Rightarrow> False
          | d # ds \<Rightarrow>
              if cont_byte 0xE0 0xEF b then
                cont_byte (if b = 0xE0 then 0xA0 else 0x80) (if b = 0xED then 0x9F else 0xBF) c \<and>
                cont_byte 0x80 0xBF d \<and> utf8_valid ds
              else (case ds of
                [] \<Rightarrow> False
              | e # es \<Rightarrow>
                  cont_byte 0xF0 0xF4 b \<and>
                  cont_byte (if b = 0xF0 then 0x90 else 0x80) (if b = 0xF4 then 0x8F else 0xBF) c \<and>
                  cont_byte 0x80 0xBF d \<and> cont_byte 0x80 0xBF e \<and> utf8_valid es))))"

section \<open>Accessors of a value\<close>

fun as_integer :: "cbor_value \<Rightarrow> int option" where
  "as_integer (CborInt i) = Some i" | "as_integer _ = None"

fun as_bytes :: "cbor_value \<Rightarrow> bytes option" where
  "as_bytes (CborBytes b) = Some b" | "as_bytes _ = None"

fun as_text :: "cbor_value \<Rightarrow> string option" where
  "as_text (CborText s) = Some s" | "as_text _ = None"

fun as_bool :: "cbor_value \<Rightarrow> bool option" where
  "as_bool (CborBool b) = Some b" | "as_bool _ = None"

fun as_array :: "cbor_value \<Rightarrow> cbor_value list option" where
  "as_array (CborArray vs) = Some vs" | "as_array _ = None"

fun as_map :: "cbor_value \<Rightarrow> (cbor_value \<times> cbor_value) list option" where
  "as_map (CborMap ps) = Some ps" | "as_map _ = None"

text \<open>\<open>try_from\<close> into an unsigned type of \<open>w\<close> bits, and into \<open>i8\<close> (an \<open>i8\<close> is its byte).\<close>

definition to_unsigned :: "int \<Rightarrow> 'a::len word option" where
  "to_unsigned i = (if 0 \<le> i \<and> i < 2 ^ LENGTH('a) then Some (of_int i) else None)"

definition to_i8 :: "int \<Rightarrow> u8 option" where
  "to_i8 i = (if - 128 \<le> i \<and> i < 128 then Some (of_int i) else None)"

lemma to_unsigned_uint [simp]: "to_unsigned (uint (w :: 'a::len word)) = Some w"
  using uint_bounded [of w] by (simp add: to_unsigned_def)

lemma to_unsigned_numeral [simp]:
  "(to_unsigned (numeral n) :: 'a::len word option) =
     (if (numeral n :: int) < 2 ^ LENGTH('a) then Some (numeral n) else None)"
  "(to_unsigned 1 :: 'a::len word option) = Some 1" "(to_unsigned 0 :: 'a::len word option) = Some 0"
  by (simp_all add: to_unsigned_def)

lemma to_unsigned_ucast:
  "LENGTH('b) \<le> LENGTH('a) \<Longrightarrow> to_unsigned (uint (w :: 'b::len word)) = Some (ucast w :: 'a::len word)"
proof -
  assume "LENGTH('b) \<le> LENGTH('a)"
  then have "(2 :: int) ^ LENGTH('b) \<le> 2 ^ LENGTH('a)" by simp
  with uint_bounded [of w] have "uint w < 2 ^ LENGTH('a)" by linarith
  then show ?thesis by (simp add: to_unsigned_def)
qed

lemma to_unsigned_64 [simp]:
  "to_unsigned (uint (a :: u32)) = Some (ucast a :: u64)" "to_unsigned (uint (b :: u8)) = Some (ucast b :: u64)"
  by (simp_all add: to_unsigned_ucast)

lemma to_unsigned_narrow [simp]:
  "to_unsigned (uint (ucast (a :: u32) :: u64)) = Some a" "to_unsigned (uint (ucast (b :: u8) :: u64)) = Some b"
  by (simp_all flip: to_unsigned_uint add: uint_up_ucast is_up)

lemma to_i8_sint [simp]: "to_i8 (sint (w :: u8)) = Some w"
  using sint_range_size [of w] by (simp add: to_i8_def word_size)

lemma cbor_wf_int [simp]: "cbor_wf (CborInt (uint (w :: u64)))" "cbor_wf (CborInt (uint (v :: u32)))"
    "cbor_wf (CborInt (uint (u :: u8)))" "cbor_wf (CborInt (sint (i :: u8)))"
  using uint_bounded [of w] uint_bounded [of v] uint_bounded [of u] sint_range_size [of i]
    order_trans [OF _ uint_ge_0 [of w], of "- (2 ^ 64)"] order_trans [OF _ uint_ge_0 [of v], of "- (2 ^ 64)"]
    order_trans [OF _ uint_ge_0 [of u], of "- (2 ^ 64)"]
  by (simp_all add: word_size)

section \<open>The encoding of RFC 8949\<close>

definition initial_byte :: "nat \<Rightarrow> nat \<Rightarrow> u8" where
  "initial_byte mt ai = of_nat (mt * 32 + ai)"

definition rfc_head :: "nat \<Rightarrow> nat \<Rightarrow> bytes" where
  "rfc_head mt n =
     (if n < 24 then [initial_byte mt n]
      else if n < 2 ^ 8 then [initial_byte mt 24, of_nat n]
      else if n < 2 ^ 16 then initial_byte mt 25 # be16 (of_nat n)
      else if n < 2 ^ 32 then initial_byte mt 26 # be32 (of_nat n)
      else initial_byte mt 27 # be64 (of_nat n))"

fun rfc_encode :: "cbor_value \<Rightarrow> bytes" where
  "rfc_encode (CborInt i) = (if 0 \<le> i then rfc_head 0 (nat i) else rfc_head 1 (nat (- 1 - i)))"
| "rfc_encode (CborBytes b) = rfc_head 2 (length b) @ b"
| "rfc_encode (CborText s) = rfc_head 3 (length s) @ map of_char s"
| "rfc_encode (CborArray vs) = rfc_head 4 (length vs) @ concat (map rfc_encode vs)"
| "rfc_encode (CborMap ps) =
     rfc_head 5 (length ps) @ concat (map (\<lambda>(k, v). rfc_encode k @ rfc_encode v) ps)"
| "rfc_encode (CborBool b) = rfc_head 7 (if b then 21 else 20)"
| "rfc_encode CborNull = rfc_head 7 22"
| "rfc_encode (CborOther n) = rfc_head 7 n"

definition take_n :: "nat \<Rightarrow> 'a list \<Rightarrow> ('a list \<times> 'a list) option" where
  "take_n n xs = (if n \<le> length xs then Some (take n xs, drop n xs) else None)"

definition rfc_read_head :: "bytes \<Rightarrow> (nat \<times> nat \<times> bytes) option" where
  "rfc_read_head bs =
     (case bs of
        [] \<Rightarrow> None
      | b # r \<Rightarrow>
          (let mt = unat b div 32; ai = unat b mod 32 in
           if ai < 24 then Some (mt, ai, r)
           else if ai = 24 then map_option (\<lambda>(h, t). (mt, unat (from_be_bytes h :: u8), t)) (take_n 1 r)
           else if ai = 25 then map_option (\<lambda>(h, t). (mt, unat (from_be_bytes h :: u16), t)) (take_n 2 r)
           else if ai = 26 then map_option (\<lambda>(h, t). (mt, unat (from_be_bytes h :: u32), t)) (take_n 4 r)
           else if ai = 27 then map_option (\<lambda>(h, t). (mt, unat (from_be_bytes h :: u64), t)) (take_n 8 r)
           else None))"

primrec parse_many :: "(bytes \<Rightarrow> ('a \<times> bytes) option) \<Rightarrow> nat \<Rightarrow> bytes \<Rightarrow> ('a list \<times> bytes) option" where
  "parse_many p 0 r = Some ([], r)"
| "parse_many p (Suc n) r =
     Option.bind (p r) (\<lambda>(x, r'). map_option (\<lambda>(xs, r''). (x # xs, r'')) (parse_many p n r'))"

definition parse_pair :: "(bytes \<Rightarrow> ('a \<times> bytes) option) \<Rightarrow> bytes \<Rightarrow> (('a \<times> 'a) \<times> bytes) option" where
  "parse_pair p r = Option.bind (p r) (\<lambda>(k, r'). map_option (\<lambda>(v, r''). ((k, v), r'')) (p r'))"

text \<open>The fuel bounds the nesting depth; the length of the input is enough.\<close>

primrec rfc_parse :: "nat \<Rightarrow> bytes \<Rightarrow> (cbor_value \<times> bytes) option" where
  "rfc_parse 0 bs = None"
| "rfc_parse (Suc fuel) bs =
     Option.bind (rfc_read_head bs) (\<lambda>(mt, n, r).
       if mt = 0 then Some (CborInt (int n), r)
       else if mt = 1 then Some (CborInt (- 1 - int n), r)
       else if mt = 2 then map_option (\<lambda>(b, t). (CborBytes b, t)) (take_n n r)
       else if mt = 3 then map_option (\<lambda>(b, t). (CborText (map (\<lambda>x. char_of (unat x)) b), t)) (take_n n r)
       else if mt = 4 then map_option (\<lambda>(vs, t). (CborArray vs, t)) (parse_many (rfc_parse fuel) n r)
       else if mt = 5 then map_option (\<lambda>(ps, t). (CborMap ps, t)) (parse_many (parse_pair (rfc_parse fuel)) n r)
       else if mt = 7 \<and> n = 20 then Some (CborBool False, r)
       else if mt = 7 \<and> n = 21 then Some (CborBool True, r)
       else if mt = 7 \<and> n = 22 then Some (CborNull, r)
       else if mt = 7 then Some (CborOther n, r)
       else None)"

definition rfc_ser :: cbor_ser where "rfc_ser v = Inr (rfc_encode v)"

definition rfc_de :: cbor_de where
  "rfc_de bs = (case rfc_parse (length bs) bs of None \<Rightarrow> Inl ''invalid'' | Some (v, _) \<Rightarrow> Inr v)"

lemma take_n_append [simp]: "length h = n \<Longrightarrow> take_n n (h @ r) = Some (h, r)"
  by (simp add: take_n_def)

lemma initial_byte_fields [simp]:
  assumes "mt < 8" and "ai < 32"
  shows "unat (initial_byte mt ai) div 32 = mt" and "unat (initial_byte mt ai) mod 32 = ai"
proof -
  have "mt * 32 + ai < 2 ^ LENGTH(8)" using assms by simp
  then have "unat (initial_byte mt ai) = mt * 32 + ai" unfolding initial_byte_def by (simp only: unat_of_nat mod_less)
  with assms show "unat (initial_byte mt ai) div 32 = mt" "unat (initial_byte mt ai) mod 32 = ai"
    by simp_all
qed

lemma from_be_byte: "from_be_bytes [b] = (b :: u8)"
  by (simp add: from_be_bytes_def)

lemma unat_of_nat_small: "n < 2 ^ LENGTH('a) \<Longrightarrow> unat (of_nat n :: 'a::len word) = n"
  by (simp add: unat_of_nat)

lemma char_of_byte [simp]: "char_of (unat (of_char c :: u8)) = c"
proof -
  have "unat (of_nat (of_char c) :: u8) = of_char c" by (simp only: unat_of_nat) simp
  then show ?thesis by (simp only: of_nat_of_char char_of_char)
qed

lemma rfc_read_head [simp]:
  assumes "mt < 8" and "n < 2 ^ 64"
  shows "rfc_read_head (rfc_head mt n @ r) = Some (mt, n, r)"
proof -
  have t1: "take_n (Suc 0) (x # r) = Some ([x], r)" for x :: u8 by (simp add: take_n_def)
  consider "n < 24" | "24 \<le> n" "n < 2 ^ 8" | "2 ^ 8 \<le> n" "n < 2 ^ 16" | "2 ^ 16 \<le> n" "n < 2 ^ 32" | "2 ^ 32 \<le> n"
    by linarith
  then show ?thesis
    using assms by cases (simp_all add: rfc_head_def rfc_read_head_def byte_simps t1 from_be_byte unat_of_nat_small)
qed

lemma parse_many_concat:
  assumes "\<And>x r. x \<in> set xs \<Longrightarrow> p (e x @ r) = Some (x, r)"
  shows "parse_many p (length xs) (concat (map e xs) @ r) = Some (xs, r)"
  using assms by (induction xs) simp_all

lemma rfc_head_pos: "0 < length (rfc_head mt n)"
  by (simp add: rfc_head_def)

lemma length_le_concat: "x \<in> set xs \<Longrightarrow> length (e x) \<le> length (concat (map e xs))"
  by (induction xs) auto

lemma rfc_parse_encode:
  assumes "cbor_wf v" and "length (rfc_encode v) \<le> fuel"
  shows "rfc_parse fuel (rfc_encode v @ r) = Some (v, r)"
  using assms
proof (induction v arbitrary: fuel r)
  case (CborArray vs)
  obtain f where f: "fuel = Suc f" using CborArray.prems(2) rfc_head_pos [of 4 "length vs"] by (cases fuel) auto
  have "rfc_parse f (rfc_encode v @ r) = Some (v, r)" if "v \<in> set vs" for v r
  proof -
    have "length (rfc_encode v) \<le> f"
      using CborArray.prems(2) length_le_concat [OF that, of rfc_encode] rfc_head_pos [of 4 "length vs"]
      unfolding f rfc_encode.simps length_append by linarith
    then show ?thesis using CborArray that by (simp add: list_all_iff)
  qed
  then have "parse_many (rfc_parse f) (length vs) (concat (map rfc_encode vs) @ r) = Some (vs, r)"
    by (rule parse_many_concat)
  then show ?case using CborArray.prems by (simp add: f)
next
  case (CborMap ps)
  obtain f where f: "fuel = Suc f" using CborMap.prems(2) rfc_head_pos [of 5 "length ps"] by (cases fuel) auto
  let ?e = "\<lambda>(k, v). rfc_encode k @ rfc_encode v"
  have "parse_pair (rfc_parse f) (?e p @ r) = Some (p, r)" if p: "p \<in> set ps" for p r
  proof -
    obtain k v where kv: "p = (k, v)" by (cases p)
    have len: "length (rfc_encode k) \<le> f" "length (rfc_encode v) \<le> f"
      using CborMap.prems(2) length_le_concat [OF p, of ?e] rfc_head_pos [of 5 "length ps"]
      unfolding f kv rfc_encode.simps length_append prod.case by linarith+
    moreover have "cbor_wf k" "cbor_wf v" using CborMap.prems(1) p by (auto simp: kv list_all_iff)
    ultimately show ?thesis
      using CborMap.IH [OF p, of k] CborMap.IH [OF p, of v] by (simp add: kv parse_pair_def)
  qed
  then have "parse_many (parse_pair (rfc_parse f)) (length ps) (concat (map ?e ps) @ r) = Some (ps, r)"
    by (rule parse_many_concat)
  then show ?case using CborMap.prems by (simp add: f)
next
  case (CborInt i)
  then obtain f where "fuel = Suc f" using rfc_head_pos [of 0 "nat i"] rfc_head_pos [of 1 "nat (- 1 - i)"]
    by (cases fuel) (auto split: if_splits)
  moreover have "nat i < 2 ^ 64" "nat (- 1 - i) < 2 ^ 64" using CborInt by auto
  ultimately show ?case by simp
next
  case (CborBytes b)
  then show ?case using rfc_head_pos [of 2 "length b"] by (cases fuel) auto
next
  case (CborText s)
  then show ?case using rfc_head_pos [of 3 "length s"] by (cases fuel) (auto simp: o_def)
next
  case (CborBool b)
  then show ?case using rfc_head_pos [of 7 20] rfc_head_pos [of 7 21] by (cases fuel; cases b) auto
next
  case CborNull
  then show ?case using rfc_head_pos [of 7 22] by (cases fuel) auto
qed simp

lemma rfc_faithful: "cbor_faithful rfc_ser rfc_de"
proof -
  have "rfc_de (rfc_encode v) = Inr v" if "cbor_wf v" for v
    using rfc_parse_encode [OF that order.refl, of "[]"] by (simp add: rfc_de_def)
  then show ?thesis by (simp add: cbor_faithful_def rfc_ser_def)
qed

end
