(* ===== verification/Messages.thy ===== *)
theory Messages
  imports Frame_Codec Cbor
begin

text \<open>
  The CBOR messages inside radio frames (\<open>sonde-protocol/src/messages.rs\<close>): the messages of the node and
  of the gateway, their maps of numbered fields and the field accessors. The CBOR library is the pair
  \<open>ser\<close>, \<open>de\<close> of the theory on CBOR values. The assertion of debug builds that only a \<open>Nop\<close> command
  carries a blob is the condition \<open>gateway_message_ok\<close>.
\<close>

section \<open>Constants\<close>

definition MSG_WAKE :: u8 where "MSG_WAKE = 0x01"
definition MSG_GET_CHUNK :: u8 where "MSG_GET_CHUNK = 0x02"
definition MSG_PROGRAM_ACK :: u8 where "MSG_PROGRAM_ACK = 0x03"
definition MSG_APP_DATA :: u8 where "MSG_APP_DATA = 0x04"
definition MSG_PEER_REQUEST :: u8 where "MSG_PEER_REQUEST = 0x05"
definition MSG_DIAG_REQUEST :: u8 where "MSG_DIAG_REQUEST = 0x06"
definition MSG_COMMAND :: u8 where "MSG_COMMAND = 0x81"
definition MSG_CHUNK :: u8 where "MSG_CHUNK = 0x82"
definition MSG_APP_DATA_REPLY :: u8 where "MSG_APP_DATA_REPLY = 0x83"
definition MSG_PEER_ACK :: u8 where "MSG_PEER_ACK = 0x84"
definition MSG_DIAG_REPLY :: u8 where "MSG_DIAG_REPLY = 0x85"
definition CMD_NOP :: u8 where "CMD_NOP = 0x00"
definition CMD_UPDATE_PROGRAM :: u8 where "CMD_UPDATE_PROGRAM = 0x01"
definition CMD_RUN_EPHEMERAL :: u8 where "CMD_RUN_EPHEMERAL = 0x02"
definition CMD_UPDATE_SCHEDULE :: u8 where "CMD_UPDATE_SCHEDULE = 0x03"
definition CMD_REBOOT :: u8 where "CMD_REBOOT = 0x04"
definition KEY_FIRMWARE_ABI_VERSION :: u64 where "KEY_FIRMWARE_ABI_VERSION = 1"
definition KEY_PROGRAM_HASH :: u64 where "KEY_PROGRAM_HASH = 2"
definition KEY_BATTERY_MV :: u64 where "KEY_BATTERY_MV = 3"
definition KEY_COMMAND_TYPE :: u64 where "KEY_COMMAND_TYPE = 4"
definition KEY_PAYLOAD :: u64 where "KEY_PAYLOAD = 5"
definition KEY_PROGRAM_SIZE :: u64 where "KEY_PROGRAM_SIZE = 6"
definition KEY_CHUNK_SIZE :: u64 where "KEY_CHUNK_SIZE = 7"
definition KEY_CHUNK_COUNT :: u64 where "KEY_CHUNK_COUNT = 8"
definition KEY_INTERVAL_S :: u64 where "KEY_INTERVAL_S = 9"
definition KEY_BLOB :: u64 where "KEY_BLOB = 10"
definition KEY_CHUNK_INDEX :: u64 where "KEY_CHUNK_INDEX = 11"
definition KEY_CHUNK_DATA :: u64 where "KEY_CHUNK_DATA = 12"
definition KEY_STARTING_SEQ :: u64 where "KEY_STARTING_SEQ = 13"
definition KEY_TIMESTAMP_MS :: u64 where "KEY_TIMESTAMP_MS = 14"
definition KEY_FIRMWARE_VERSION :: u64 where "KEY_FIRMWARE_VERSION = 15"
definition DIAG_KEY_DIAGNOSTIC_TYPE :: u64 where "DIAG_KEY_DIAGNOSTIC_TYPE = 1"
definition DIAG_KEY_RSSI_DBM :: u64 where "DIAG_KEY_RSSI_DBM = 2"
definition PEER_ACK_KEY_STATUS :: u64 where "PEER_ACK_KEY_STATUS = 1"
definition MAX_STRING_FIELD_LEN :: nat where "MAX_STRING_FIELD_LEN = 32"

lemmas message_consts =  MSG_WAKE_def MSG_GET_CHUNK_def MSG_PROGRAM_ACK_def MSG_APP_DATA_def MSG_PEER_REQUEST_def
  MSG_DIAG_REQUEST_def MSG_COMMAND_def MSG_CHUNK_def MSG_APP_DATA_REPLY_def MSG_PEER_ACK_def
  MSG_DIAG_REPLY_def CMD_NOP_def CMD_UPDATE_PROGRAM_def CMD_RUN_EPHEMERAL_def
  CMD_UPDATE_SCHEDULE_def CMD_REBOOT_def KEY_FIRMWARE_ABI_VERSION_def KEY_PROGRAM_HASH_def
  KEY_BATTERY_MV_def KEY_COMMAND_TYPE_def KEY_PAYLOAD_def KEY_PROGRAM_SIZE_def KEY_CHUNK_SIZE_def
  KEY_CHUNK_COUNT_def KEY_INTERVAL_S_def KEY_BLOB_def KEY_CHUNK_INDEX_def KEY_CHUNK_DATA_def
  KEY_STARTING_SEQ_def KEY_TIMESTAMP_MS_def KEY_FIRMWARE_VERSION_def DIAG_KEY_DIAGNOSTIC_TYPE_def
  DIAG_KEY_RSSI_DBM_def

section \<open>Messages\<close>

datatype node_message =
    Wake u32 bytes u32 string "bytes option"
  | GetChunk u32
  | ProgramAck bytes
  | AppData bytes
  | DiagRequest u8

datatype command_payload =
    Nop
  | UpdateProgram bytes u32 u32 u32
  | RunEphemeral bytes u32 u32 u32
  | UpdateSchedule u32
  | Reboot

fun command_type :: "command_payload \<Rightarrow> u8" where
  "command_type Nop = CMD_NOP"
| "command_type (UpdateProgram _ _ _ _) = CMD_UPDATE_PROGRAM"
| "command_type (RunEphemeral _ _ _ _) = CMD_RUN_EPHEMERAL"
| "command_type (UpdateSchedule _) = CMD_UPDATE_SCHEDULE"
| "command_type Reboot = CMD_REBOOT"

datatype gateway_message =
    Command u64 u64 command_payload "bytes option"
  | Chunk u32 bytes
  | AppDataReply bytes
  | DiagReply u8 u8

section \<open>Maps\<close>

definition cbor_encode_map :: "cbor_ser \<Rightarrow> (u64 \<times> cbor_value) list \<Rightarrow> encode_error + bytes" where
  "cbor_encode_map ser pairs =
     (case ser (CborMap (map (\<lambda>(k, v). (CborInt (uint k), v)) pairs)) of
        Inl e \<Rightarrow> Inl (EncCborError e)
      | Inr b \<Rightarrow> Inr b)"

fun decode_pairs :: "(cbor_value \<times> cbor_value) list \<Rightarrow> decode_error + (u64 \<times> cbor_value) list" where
  "decode_pairs [] = Inr []"
| "decode_pairs ((k, v) # ps) =
     (case as_integer k of
        None \<Rightarrow> decode_pairs ps
      | Some i \<Rightarrow>
          (case to_unsigned i of
             None \<Rightarrow> Inl (DecCborError ''negative CBOR key'')
           | Some key \<Rightarrow> res_bind (decode_pairs ps) (\<lambda>r. Inr ((key, v) # r))))"

definition cbor_decode_map :: "cbor_de \<Rightarrow> bytes \<Rightarrow> decode_error + (u64 \<times> cbor_value) list" where
  "cbor_decode_map de cbor =
     (case de cbor of
        Inl e \<Rightarrow> Inl (DecCborError e)
      | Inr value \<Rightarrow>
          (case as_map value of
             None \<Rightarrow> Inl (DecCborError ''expected CBOR map'')
           | Some pairs \<Rightarrow> decode_pairs pairs))"

definition get_field :: "(u64 \<times> cbor_value) list \<Rightarrow> u64 \<Rightarrow> decode_error + cbor_value" where
  "get_field fs key = ok_or (MissingField key) (map_option snd (find (\<lambda>p. fst p = key) fs))"

definition get_uint :: "(u64 \<times> cbor_value) list \<Rightarrow> u64 \<Rightarrow> decode_error + u64" where
  "get_uint fs key =
     res_bind (get_field fs key) (\<lambda>v.
       ok_or (InvalidFieldType key) (Option.bind (as_integer v) to_unsigned))"

definition get_u32 :: "(u64 \<times> cbor_value) list \<Rightarrow> u64 \<Rightarrow> decode_error + u32" where
  "get_u32 fs key =
     res_bind (get_uint fs key) (\<lambda>v. ok_or (InvalidFieldType key) (to_unsigned (uint v)))"

definition get_u8 :: "(u64 \<times> cbor_value) list \<Rightarrow> u64 \<Rightarrow> decode_error + u8" where
  "get_u8 fs key =
     res_bind (get_uint fs key) (\<lambda>v. ok_or (InvalidFieldType key) (to_unsigned (uint v)))"

definition get_i8 :: "(u64 \<times> cbor_value) list \<Rightarrow> u64 \<Rightarrow> decode_error + u8" where
  "get_i8 fs key =
     res_bind (get_field fs key) (\<lambda>v.
       res_bind (ok_or (InvalidFieldType key) (as_integer v)) (\<lambda>i.
         ok_or (InvalidFieldType key) (to_i8 i)))"

definition get_bytes :: "(u64 \<times> cbor_value) list \<Rightarrow> u64 \<Rightarrow> decode_error + bytes" where
  "get_bytes fs key =
     res_bind (get_field fs key) (\<lambda>v. ok_or (InvalidFieldType key) (as_bytes v))"

definition get_bytes_optional :: "(u64 \<times> cbor_value) list \<Rightarrow> u64 \<Rightarrow> decode_error + bytes option" where
  "get_bytes_optional fs key =
     (case find (\<lambda>p. fst p = key) fs of
        None \<Rightarrow> Inr None
      | Some p \<Rightarrow> ok_or (InvalidFieldType key) (map_option Some (as_bytes (snd p))))"

definition get_string :: "(u64 \<times> cbor_value) list \<Rightarrow> u64 \<Rightarrow> decode_error + string" where
  "get_string fs key =
     res_bind (get_field fs key) (\<lambda>v.
       case as_text v of
         Some s \<Rightarrow> if length s \<le> MAX_STRING_FIELD_LEN \<and> is_ascii s then Inr s else Inl (InvalidFieldType key)
       | None \<Rightarrow> Inl (InvalidFieldType key))"

fun nested_pairs :: "(cbor_value \<times> cbor_value) list \<Rightarrow> (u64 \<times> cbor_value) list" where
  "nested_pairs [] = []"
| "nested_pairs ((k, v) # ps) =
     (case Option.bind (as_integer k) to_unsigned of
        None \<Rightarrow> nested_pairs ps
      | Some key \<Rightarrow> (key, v) # nested_pairs ps)"

definition decode_nested_map ::
    "(u64 \<times> cbor_value) list \<Rightarrow> u64 \<Rightarrow> decode_error + (u64 \<times> cbor_value) list" where
  "decode_nested_map fs key =
     res_bind (get_field fs key) (\<lambda>v.
       case as_map v of
         Some pairs \<Rightarrow> Inr (nested_pairs pairs)
       | None \<Rightarrow> Inl (InvalidFieldType key))"

definition uint_val :: "u64 \<Rightarrow> cbor_value" where "uint_val v = CborInt (uint v)"
definition u32_val :: "u32 \<Rightarrow> cbor_value" where "u32_val v = CborInt (uint v)"
definition u8_val :: "u8 \<Rightarrow> cbor_value" where "u8_val v = CborInt (uint v)"
definition i8_val :: "u8 \<Rightarrow> cbor_value" where "i8_val v = CborInt (sint v)"

section \<open>Node messages\<close>

fun node_message_pairs :: "node_message \<Rightarrow> (u64 \<times> cbor_value) list" where
  "node_message_pairs (Wake abi ph mv fw blob) =
     [(KEY_FIRMWARE_ABI_VERSION, u32_val abi), (KEY_PROGRAM_HASH, CborBytes ph), (KEY_BATTERY_MV, u32_val mv)] @
     (case blob of Some b \<Rightarrow> [(KEY_BLOB, CborBytes b)] | None \<Rightarrow> []) @
     [(KEY_FIRMWARE_VERSION, CborText fw)]"
| "node_message_pairs (GetChunk i) = [(KEY_CHUNK_INDEX, u32_val i)]"
| "node_message_pairs (ProgramAck ph) = [(KEY_PROGRAM_HASH, CborBytes ph)]"
| "node_message_pairs (AppData blob) = [(KEY_BLOB, CborBytes blob)]"
| "node_message_pairs (DiagRequest t) = [(DIAG_KEY_DIAGNOSTIC_TYPE, u8_val t)]"

definition node_message_encode :: "cbor_ser \<Rightarrow> node_message \<Rightarrow> encode_error + bytes" where
  "node_message_encode ser m = cbor_encode_map ser (node_message_pairs m)"

definition node_message_fields :: "u8 \<Rightarrow> (u64 \<times> cbor_value) list \<Rightarrow> decode_error + node_message" where
  "node_message_fields t fs =
     (if t = MSG_WAKE then
        res_bind (get_u32 fs KEY_FIRMWARE_ABI_VERSION) (\<lambda>abi.
        res_bind (get_bytes fs KEY_PROGRAM_HASH) (\<lambda>ph.
        res_bind (get_u32 fs KEY_BATTERY_MV) (\<lambda>mv.
        res_bind (get_string fs KEY_FIRMWARE_VERSION) (\<lambda>fw.
        res_bind (get_bytes_optional fs KEY_BLOB) (\<lambda>blob. Inr (Wake abi ph mv fw blob))))))
      else if t = MSG_GET_CHUNK then res_bind (get_u32 fs KEY_CHUNK_INDEX) (\<lambda>i. Inr (GetChunk i))
      else if t = MSG_PROGRAM_ACK then res_bind (get_bytes fs KEY_PROGRAM_HASH) (\<lambda>h. Inr (ProgramAck h))
      else if t = MSG_APP_DATA then res_bind (get_bytes fs KEY_BLOB) (\<lambda>b. Inr (AppData b))
      else if t = MSG_DIAG_REQUEST then
        res_bind (get_u8 fs DIAG_KEY_DIAGNOSTIC_TYPE) (\<lambda>d. Inr (DiagRequest d))
      else Inl (InvalidMsgType t))"

definition node_message_decode :: "cbor_de \<Rightarrow> u8 \<Rightarrow> bytes \<Rightarrow> decode_error + node_message" where
  "node_message_decode de t cbor = res_bind (cbor_decode_map de cbor) (node_message_fields t)"

fun node_message_type :: "node_message \<Rightarrow> u8" where
  "node_message_type (Wake _ _ _ _ _) = MSG_WAKE"
| "node_message_type (GetChunk _) = MSG_GET_CHUNK"
| "node_message_type (ProgramAck _) = MSG_PROGRAM_ACK"
| "node_message_type (AppData _) = MSG_APP_DATA"
| "node_message_type (DiagRequest _) = MSG_DIAG_REQUEST"

section \<open>Gateway messages\<close>

definition program_payload :: "bytes \<Rightarrow> u32 \<Rightarrow> u32 \<Rightarrow> u32 \<Rightarrow> cbor_value" where
  "program_payload ph psize csize ccount =
     CborMap [(CborInt (uint KEY_PROGRAM_HASH), CborBytes ph), (CborInt (uint KEY_PROGRAM_SIZE), u32_val psize),
              (CborInt (uint KEY_CHUNK_SIZE), u32_val csize), (CborInt (uint KEY_CHUNK_COUNT), u32_val ccount)]"

fun payload_value :: "command_payload \<Rightarrow> cbor_value option" where
  "payload_value Nop = None"
| "payload_value Reboot = None"
| "payload_value (UpdateProgram ph ps cs cc) = Some (program_payload ph ps cs cc)"
| "payload_value (RunEphemeral ph ps cs cc) = Some (program_payload ph ps cs cc)"
| "payload_value (UpdateSchedule s) = Some (CborMap [(CborInt (uint KEY_INTERVAL_S), u32_val s)])"

fun gateway_message_pairs :: "gateway_message \<Rightarrow> (u64 \<times> cbor_value) list" where
  "gateway_message_pairs (Command seq ts payload blob) =
     [(KEY_COMMAND_TYPE, u8_val (command_type payload))] @
     (case payload_value payload of Some pv \<Rightarrow> [(KEY_PAYLOAD, pv)] | None \<Rightarrow> []) @
     (if payload = Nop then (case blob of Some b \<Rightarrow> [(KEY_BLOB, CborBytes b)] | None \<Rightarrow> []) else []) @
     [(KEY_STARTING_SEQ, uint_val seq), (KEY_TIMESTAMP_MS, uint_val ts)]"
| "gateway_message_pairs (Chunk i d) = [(KEY_CHUNK_INDEX, u32_val i), (KEY_CHUNK_DATA, CborBytes d)]"
| "gateway_message_pairs (AppDataReply b) = [(KEY_BLOB, CborBytes b)]"
| "gateway_message_pairs (DiagReply t r) = [(DIAG_KEY_DIAGNOSTIC_TYPE, u8_val t), (DIAG_KEY_RSSI_DBM, i8_val r)]"

definition gateway_message_encode :: "cbor_ser \<Rightarrow> gateway_message \<Rightarrow> encode_error + bytes" where
  "gateway_message_encode ser m = cbor_encode_map ser (gateway_message_pairs m)"

definition command_fields :: "u8 \<Rightarrow> (u64 \<times> cbor_value) list \<Rightarrow> decode_error + command_payload" where
  "command_fields ct fs =
     (if ct = CMD_NOP \<or> ct = CMD_REBOOT then Inr (if ct = CMD_REBOOT then Reboot else Nop)
      else if ct = CMD_UPDATE_PROGRAM \<or> ct = CMD_RUN_EPHEMERAL then
        res_bind (decode_nested_map fs KEY_PAYLOAD) (\<lambda>inner.
        res_bind (get_bytes inner KEY_PROGRAM_HASH) (\<lambda>ph.
        res_bind (get_u32 inner KEY_PROGRAM_SIZE) (\<lambda>ps.
        res_bind (get_u32 inner KEY_CHUNK_SIZE) (\<lambda>cs.
        res_bind (get_u32 inner KEY_CHUNK_COUNT) (\<lambda>cc.
          Inr (if ct = CMD_UPDATE_PROGRAM then UpdateProgram ph ps cs cc else RunEphemeral ph ps cs cc))))))
      else if ct = CMD_UPDATE_SCHEDULE then
        res_bind (decode_nested_map fs KEY_PAYLOAD) (\<lambda>inner.
        res_bind (get_u32 inner KEY_INTERVAL_S) (\<lambda>s. Inr (UpdateSchedule s)))
      else Inl (InvalidCommandType ct))"

definition gateway_message_fields :: "u8 \<Rightarrow> (u64 \<times> cbor_value) list \<Rightarrow> decode_error + gateway_message" where
  "gateway_message_fields t fs =
     (if t = MSG_COMMAND then
        res_bind (get_u8 fs KEY_COMMAND_TYPE) (\<lambda>ct.
        res_bind (get_uint fs KEY_STARTING_SEQ) (\<lambda>seq.
        res_bind (get_uint fs KEY_TIMESTAMP_MS) (\<lambda>ts.
        res_bind (command_fields ct fs) (\<lambda>payload.
        res_bind (if ct = CMD_NOP then get_bytes_optional fs KEY_BLOB else Inr None) (\<lambda>blob.
          Inr (Command seq ts payload blob))))))
      else if t = MSG_CHUNK then
        res_bind (get_u32 fs KEY_CHUNK_INDEX) (\<lambda>i.
        res_bind (get_bytes fs KEY_CHUNK_DATA) (\<lambda>d. Inr (Chunk i d)))
      else if t = MSG_APP_DATA_REPLY then res_bind (get_bytes fs KEY_BLOB) (\<lambda>b. Inr (AppDataReply b))
      else if t = MSG_DIAG_REPLY then
        res_bind (get_u8 fs DIAG_KEY_DIAGNOSTIC_TYPE) (\<lambda>d.
        res_bind (get_i8 fs DIAG_KEY_RSSI_DBM) (\<lambda>r. Inr (DiagReply d r)))
      else Inl (InvalidMsgType t))"

definition gateway_message_decode :: "cbor_de \<Rightarrow> u8 \<Rightarrow> bytes \<Rightarrow> decode_error + gateway_message" where
  "gateway_message_decode de t cbor = res_bind (cbor_decode_map de cbor) (gateway_message_fields t)"

fun gateway_message_type :: "gateway_message \<Rightarrow> u8" where
  "gateway_message_type (Command _ _ _ _) = MSG_COMMAND"
| "gateway_message_type (Chunk _ _) = MSG_CHUNK"
| "gateway_message_type (AppDataReply _) = MSG_APP_DATA_REPLY"
| "gateway_message_type (DiagReply _ _) = MSG_DIAG_REPLY"

section \<open>Round trips\<close>

lemma decode_pairs_encoded [simp]:
  "decode_pairs (map (\<lambda>(k, v). (CborInt (uint k), v)) ps) = Inr ps"
  by (induction ps) auto

lemma cbor_map_roundtrip:
  assumes "cbor_faithful ser de" and "list_all (\<lambda>(k, v). cbor_wf v) ps" and "length ps < 2 ^ 64"
  obtains b where "cbor_encode_map ser ps = Inr b" and "cbor_decode_map de b = Inr ps"
proof -
  let ?v = "CborMap (map (\<lambda>(k, v). (CborInt (uint k), v)) ps)"
  have "cbor_wf ?v" using assms(2,3) by (auto simp: list_all_iff simp del: cbor_wf.simps(1))
  with assms(1) obtain b where "ser ?v = Inr b" "de b = Inr ?v" by (rule cbor_faithfulE)
  then show ?thesis by (intro that [of b]) (simp_all add: cbor_encode_map_def cbor_decode_map_def)
qed

lemmas field_defs = get_field_def get_uint_def get_u32_def get_u8_def get_i8_def get_bytes_def
  get_bytes_optional_def get_string_def decode_nested_map_def uint_val_def u32_val_def u8_val_def i8_val_def

text \<open>A message whose strings the decoder accepts and whose byte strings fit a 64-bit length.\<close>

fun node_message_ok :: "node_message \<Rightarrow> bool" where
  "node_message_ok (Wake _ ph _ fw blob) \<longleftrightarrow>
     length fw \<le> MAX_STRING_FIELD_LEN \<and> is_ascii fw \<and> length ph < 2 ^ 64 \<and>
     (case blob of None \<Rightarrow> True | Some b \<Rightarrow> length b < 2 ^ 64)"
| "node_message_ok (GetChunk _) \<longleftrightarrow> True"
| "node_message_ok (ProgramAck h) \<longleftrightarrow> length h < 2 ^ 64"
| "node_message_ok (AppData b) \<longleftrightarrow> length b < 2 ^ 64"
| "node_message_ok (DiagRequest _) \<longleftrightarrow> True"

fun command_payload_ok :: "command_payload \<Rightarrow> bool" where
  "command_payload_ok (UpdateProgram ph _ _ _) \<longleftrightarrow> length ph < 2 ^ 64"
| "command_payload_ok (RunEphemeral ph _ _ _) \<longleftrightarrow> length ph < 2 ^ 64"
| "command_payload_ok _ \<longleftrightarrow> True"

fun gateway_message_ok :: "gateway_message \<Rightarrow> bool" where
  "gateway_message_ok (Command _ _ payload blob) \<longleftrightarrow>
     command_payload_ok payload \<and>
     (case blob of None \<Rightarrow> True | Some b \<Rightarrow> payload = Nop \<and> length b < 2 ^ 64)"
| "gateway_message_ok (Chunk _ d) \<longleftrightarrow> length d < 2 ^ 64"
| "gateway_message_ok (AppDataReply b) \<longleftrightarrow> length b < 2 ^ 64"
| "gateway_message_ok (DiagReply _ _) \<longleftrightarrow> True"

lemma node_fields_pairs:
  assumes "node_message_ok m"
  shows "node_message_fields (node_message_type m) (node_message_pairs m) = Inr m"
  using assms
  by (cases m) (auto simp: node_message_fields_def field_defs message_consts split: option.splits)

lemma node_pairs_wf:
  assumes "node_message_ok m"
  shows "list_all (\<lambda>(k, v). cbor_wf v) (node_message_pairs m) \<and> length (node_message_pairs m) < 2 ^ 64"
  using assms
  by (cases m) (auto simp: field_defs MAX_STRING_FIELD_LEN_def simp del: cbor_wf.simps(1) split: option.splits)

lemma command_fields_payload:
  assumes "payload_value p = Some v"
  shows "command_fields (command_type p) ((KEY_COMMAND_TYPE, t) # (KEY_PAYLOAD, v) # rest) = Inr p"
  using assms
  by (cases p) (auto simp: command_fields_def program_payload_def field_defs message_consts)

lemma gateway_fields_pairs:
  assumes "gateway_message_ok m"
  shows "gateway_message_fields (gateway_message_type m) (gateway_message_pairs m) = Inr m"
proof (cases m)
  case (Command seq ts payload blob)
  show ?thesis
  proof (cases "payload_value payload")
    case None
    with Command assms show ?thesis
      by (cases payload)
        (auto simp: gateway_message_fields_def command_fields_def field_defs message_consts split: option.splits)
  next
    case (Some v)
    then have "payload \<noteq> Nop" "command_type payload \<noteq> CMD_NOP" by (cases payload; simp add: message_consts)+
    with Command assms Some command_fields_payload [OF Some] show ?thesis
      by (auto simp: gateway_message_fields_def get_u8_def get_uint_def get_field_def u8_val_def uint_val_def
          message_consts(1-16) split: option.splits)
        (simp_all add: message_consts)
  qed
qed (auto simp: gateway_message_fields_def field_defs message_consts)

lemma gateway_pairs_wf:
  assumes "gateway_message_ok m"
  shows "list_all (\<lambda>(k, v). cbor_wf v) (gateway_message_pairs m) \<and> length (gateway_message_pairs m) < 2 ^ 64"
proof (cases m)
  case (Command seq ts payload blob)
  with assms show ?thesis
    by (cases payload)
      (auto simp: field_defs program_payload_def simp del: cbor_wf.simps(1) split: option.splits)
qed (use assms in \<open>auto simp: field_defs simp del: cbor_wf.simps(1)\<close>)

lemma node_encode_decode:
  assumes "cbor_faithful ser de" and "node_message_ok m"
  shows "\<exists>b. node_message_encode ser m = Inr b \<and> node_message_decode de (node_message_type m) b = Inr m"
proof -
  obtain b where "cbor_encode_map ser (node_message_pairs m) = Inr b"
      "cbor_decode_map de b = Inr (node_message_pairs m)"
    using cbor_map_roundtrip [OF assms(1)] node_pairs_wf [OF assms(2)] by blast
  then show ?thesis
    using node_fields_pairs [OF assms(2)] by (simp add: node_message_encode_def node_message_decode_def)
qed

text \<open>Node messages: with a faithful CBOR library, every message whose firmware version is at most
  32 ASCII characters is encoded, and decoding the bytes under the message's own type gives the
  message back, optional blob included.\<close>

theorem node_message_roundtrip:
  assumes "cbor_faithful ser de" and "node_message_ok m"
  shows "\<exists>b. node_message_encode ser m = Inr b \<and> node_message_decode de (node_message_type m) b = Inr m"
  using assms by (rule node_encode_decode)

theorem node_message_roundtrip_witness:
  "\<exists>b. node_message_encode rfc_ser (Wake 3 [1, 2] 2900 ''0.4.1'' (Some [9])) = Inr b \<and>
     node_message_decode rfc_de MSG_WAKE b = Inr (Wake 3 [1, 2] 2900 ''0.4.1'' (Some [9]))"
  using node_message_roundtrip [OF rfc_faithful, of "Wake 3 [1, 2] 2900 ''0.4.1'' (Some [9])"]
  by (simp add: MAX_STRING_FIELD_LEN_def is_ascii_def)

lemma gateway_encode_decode:
  assumes "cbor_faithful ser de" and "gateway_message_ok m"
  shows "\<exists>b. gateway_message_encode ser m = Inr b \<and> gateway_message_decode de (gateway_message_type m) b = Inr m"
proof -
  obtain b where "cbor_encode_map ser (gateway_message_pairs m) = Inr b"
      "cbor_decode_map de b = Inr (gateway_message_pairs m)"
    using cbor_map_roundtrip [OF assms(1)] gateway_pairs_wf [OF assms(2)] by blast
  then show ?thesis
    using gateway_fields_pairs [OF assms(2)] by (simp add: gateway_message_encode_def gateway_message_decode_def)
qed

text \<open>Gateway messages: with a faithful CBOR library, every message that carries a blob only on a
  \<open>Nop\<close> command is encoded, and decoding the bytes under the message's own type gives it back; the
  signal strength of a diagnostic reply keeps its sign.\<close>

theorem gateway_message_roundtrip:
  assumes "cbor_faithful ser de" and "gateway_message_ok m"
  shows "\<exists>b. gateway_message_encode ser m = Inr b \<and> gateway_message_decode de (gateway_message_type m) b = Inr m"
  using assms by (rule gateway_encode_decode)

theorem gateway_message_roundtrip_witness:
  "\<exists>b. gateway_message_encode rfc_ser (Command 7 1000 (UpdateProgram [5] 300 190 2) None) = Inr b \<and>
     gateway_message_decode rfc_de MSG_COMMAND b = Inr (Command 7 1000 (UpdateProgram [5] 300 190 2) None)"
  using gateway_message_roundtrip [OF rfc_faithful, of "Command 7 1000 (UpdateProgram [5] 300 190 2) None"]
  by simp

end
