(* ===== verification/Program_Image.thy ===== *)
theory Program_Image
  imports Cbor Frame_Codec Node_Types
begin

text \<open>
  Program images (\<open>sonde-protocol/src/program_image.rs\<close>): the deterministic CBOR encoding of bytecode,
  map definitions, initial map data and read-only flags, and its decoder with the two nested loops
  over the fields of the image and of each map. \<open>program_hash\<close> takes the SHA-256 provider as an
  argument.
\<close>

definition IMG_KEY_BYTECODE :: u64 where "IMG_KEY_BYTECODE = 1"
definition IMG_KEY_MAPS :: u64 where "IMG_KEY_MAPS = 2"
definition MAP_KEY_TYPE :: u64 where "MAP_KEY_TYPE = 1"
definition MAP_KEY_KEY_SIZE :: u64 where "MAP_KEY_KEY_SIZE = 2"
definition MAP_KEY_VALUE_SIZE :: u64 where "MAP_KEY_VALUE_SIZE = 3"
definition MAP_KEY_MAX_ENTRIES :: u64 where "MAP_KEY_MAX_ENTRIES = 4"
definition MAP_KEY_INITIAL_DATA :: u64 where "MAP_KEY_INITIAL_DATA = 5"
definition MAP_KEY_READONLY :: u64 where "MAP_KEY_READONLY = 6"

lemmas image_consts = IMG_KEY_BYTECODE_def IMG_KEY_MAPS_def MAP_KEY_TYPE_def MAP_KEY_KEY_SIZE_def
  MAP_KEY_VALUE_SIZE_def MAP_KEY_MAX_ENTRIES_def MAP_KEY_INITIAL_DATA_def MAP_KEY_READONLY_def

record program_image =
  bytecode :: bytes
  image_maps :: "map_def list"
  map_initial_data :: "bytes list"
  map_readonly :: "bool list"

fun show_nat :: "nat \<Rightarrow> string" where
  "show_nat n = (if n < 10 then [char_of (48 + n)] else show_nat (n div 10) @ [char_of (48 + n mod 10)])"

declare show_nat.simps [simp del]

section \<open>Encoding\<close>

definition int_pair :: "u64 \<Rightarrow> cbor_value \<Rightarrow> cbor_value \<times> cbor_value" where
  "int_pair k v = (CborInt (uint k), v)"

definition map_value :: "map_def \<Rightarrow> bytes option \<Rightarrow> bool option \<Rightarrow> cbor_value" where
  "map_value m data ro = CborMap
     ([int_pair MAP_KEY_TYPE (CborInt (uint (md_map_type m))),
       int_pair MAP_KEY_KEY_SIZE (CborInt (uint (md_key_size m))),
       int_pair MAP_KEY_VALUE_SIZE (CborInt (uint (md_value_size m))),
       int_pair MAP_KEY_MAX_ENTRIES (CborInt (uint (md_max_entries m)))] @
      (case data of
         Some d \<Rightarrow> if d \<noteq> [] then [int_pair MAP_KEY_INITIAL_DATA (CborBytes d)] else []
       | None \<Rightarrow> []) @
      (if (case ro of Some b \<Rightarrow> b | None \<Rightarrow> False) then [int_pair MAP_KEY_READONLY (CborBool True)] else []))"

definition list_get :: "'a list \<Rightarrow> nat \<Rightarrow> 'a option" where
  "list_get xs i = (if i < length xs then Some (xs ! i) else None)"

definition image_value :: "program_image \<Rightarrow> cbor_value" where
  "image_value p = CborMap
     [int_pair IMG_KEY_BYTECODE (CborBytes (bytecode p)),
      int_pair IMG_KEY_MAPS (CborArray (map (\<lambda>(i, m).
        map_value m (list_get (map_initial_data p) i) (list_get (map_readonly p) i))
          (List.enumerate 0 (image_maps p))))]"

definition encode_deterministic :: "cbor_ser \<Rightarrow> program_image \<Rightarrow> encode_error + bytes" where
  "encode_deterministic ser p =
     (if length (map_initial_data p) \<noteq> length (image_maps p) then
        Inl (EncCborError (''map_initial_data length ('' @ show_nat (length (map_initial_data p)) @
          '') != maps length ('' @ show_nat (length (image_maps p)) @ '')''))
      else if length (map_readonly p) \<noteq> length (image_maps p) then
        Inl (EncCborError (''map_readonly length ('' @ show_nat (length (map_readonly p)) @
          '') != maps length ('' @ show_nat (length (image_maps p)) @ '')''))
      else (case ser (image_value p) of Inl e \<Rightarrow> Inl (EncCborError e) | Inr buf \<Rightarrow> Inr buf))"

section \<open>Decoding\<close>

text \<open>Keys that are not integers of 64 bits count as \<open>u64::MAX\<close>, which is no key.\<close>

definition key_of :: "cbor_value \<Rightarrow> u64" where
  "key_of k = (case Option.bind (as_integer k) to_unsigned of Some key \<Rightarrow> key | None \<Rightarrow> - 1)"

definition u32_of :: "cbor_value \<Rightarrow> u32 option" where
  "u32_of v = Option.bind (as_integer v) (\<lambda>i.
     Option.bind (to_unsigned i :: u64 option) (\<lambda>w. to_unsigned (uint w)))"

record map_acc =
  acc_type :: "u32 option"
  acc_key_size :: "u32 option"
  acc_value_size :: "u32 option"
  acc_max_entries :: "u32 option"
  acc_data :: bytes
  acc_readonly :: bool

definition map_field :: "map_acc \<Rightarrow> cbor_value \<times> cbor_value \<Rightarrow> decode_error + map_acc" where
  "map_field a kv =
     (case kv of (mk, mv) \<Rightarrow>
        let mkey = key_of mk; mval = u32_of mv in
        if mkey = MAP_KEY_TYPE then Inr (a\<lparr>acc_type := mval\<rparr>)
        else if mkey = MAP_KEY_KEY_SIZE then Inr (a\<lparr>acc_key_size := mval\<rparr>)
        else if mkey = MAP_KEY_VALUE_SIZE then Inr (a\<lparr>acc_value_size := mval\<rparr>)
        else if mkey = MAP_KEY_MAX_ENTRIES then Inr (a\<lparr>acc_max_entries := mval\<rparr>)
        else if mkey = MAP_KEY_INITIAL_DATA then
          res_bind (ok_or (InvalidFieldType MAP_KEY_INITIAL_DATA) (as_bytes mv)) (\<lambda>d. Inr (a\<lparr>acc_data := d\<rparr>))
        else if mkey = MAP_KEY_READONLY then
          res_bind (ok_or (InvalidFieldType MAP_KEY_READONLY) (as_bool mv)) (\<lambda>b. Inr (a\<lparr>acc_readonly := b\<rparr>))
        else Inr a)"

definition empty_map_acc :: map_acc where
  "empty_map_acc = \<lparr>acc_type = None, acc_key_size = None, acc_value_size = None, acc_max_entries = None,
     acc_data = [], acc_readonly = False\<rparr>"

definition decode_map_value :: "cbor_value \<Rightarrow> decode_error + (map_def \<times> bytes \<times> bool)" where
  "decode_map_value map_val =
     res_bind (ok_or (InvalidFieldType IMG_KEY_MAPS) (as_map map_val)) (\<lambda>map_fields.
     res_bind (res_fold map_field empty_map_acc map_fields) (\<lambda>a.
     res_bind (ok_or (MissingField MAP_KEY_TYPE) (acc_type a)) (\<lambda>t.
     res_bind (ok_or (MissingField MAP_KEY_KEY_SIZE) (acc_key_size a)) (\<lambda>ks.
     res_bind (ok_or (MissingField MAP_KEY_VALUE_SIZE) (acc_value_size a)) (\<lambda>vs.
     res_bind (ok_or (MissingField MAP_KEY_MAX_ENTRIES) (acc_max_entries a)) (\<lambda>me.
       Inr (\<lparr>md_map_type = t, md_key_size = ks, md_value_size = vs, md_max_entries = me\<rparr>,
            acc_data a, acc_readonly a)))))))"

record image_acc =
  acc_bytecode :: "bytes option"
  acc_maps :: "map_def list"
  acc_map_data :: "bytes list"
  acc_map_readonly :: "bool list"

definition push_map :: "image_acc \<Rightarrow> cbor_value \<Rightarrow> decode_error + image_acc" where
  "push_map s map_val =
     res_bind (decode_map_value map_val) (\<lambda>(m, d, r).
       Inr (s\<lparr>acc_maps := acc_maps s @ [m], acc_map_data := acc_map_data s @ [d],
              acc_map_readonly := acc_map_readonly s @ [r]\<rparr>))"

definition image_field :: "image_acc \<Rightarrow> cbor_value \<times> cbor_value \<Rightarrow> decode_error + image_acc" where
  "image_field s kv =
     (case kv of (k, v) \<Rightarrow>
        if key_of k = IMG_KEY_BYTECODE then
          res_bind (ok_or (InvalidFieldType IMG_KEY_BYTECODE) (as_bytes v)) (\<lambda>b. Inr (s\<lparr>acc_bytecode := Some b\<rparr>))
        else if key_of k = IMG_KEY_MAPS then
          res_bind (ok_or (InvalidFieldType IMG_KEY_MAPS) (as_array v)) (res_fold push_map s)
        else Inr s)"

definition image_decode :: "cbor_de \<Rightarrow> bytes \<Rightarrow> decode_error + program_image" where
  "image_decode de cbor =
     (case de cbor of
        Inl e \<Rightarrow> Inl (DecCborError e)
      | Inr value \<Rightarrow>
          (case as_map value of
             None \<Rightarrow> Inl (DecCborError ''expected CBOR map'')
           | Some fs \<Rightarrow>
               res_bind (res_fold image_field \<lparr>acc_bytecode = None, acc_maps = [], acc_map_data = [],
                                               acc_map_readonly = []\<rparr> fs) (\<lambda>s.
               res_bind (ok_or (MissingField IMG_KEY_BYTECODE) (acc_bytecode s)) (\<lambda>b.
                 Inr \<lparr>bytecode = b, image_maps = acc_maps s, map_initial_data = acc_map_data s,
                      map_readonly = acc_map_readonly s\<rparr>))))"

definition program_hash :: "bytes \<Rightarrow> sha_fn \<Rightarrow> bytes" where
  "program_hash image_cbor sha = sha image_cbor"

section \<open>Round trip\<close>

text \<open>Parallel lists of one length; byte strings and lists whose length fits 64 bits.\<close>

definition image_wf :: "program_image \<Rightarrow> bool" where
  "image_wf p \<longleftrightarrow> length (map_initial_data p) = length (image_maps p) \<and> length (map_readonly p) = length (image_maps p) \<and>
     length (bytecode p) < 2 ^ 64 \<and> length (image_maps p) < 2 ^ 64 \<and>
     list_all (\<lambda>d. length d < 2 ^ 64) (map_initial_data p)"

lemma key_of_int [simp]: "key_of (CborInt (uint k)) = k"
  by (simp add: key_of_def)

lemma u32_of_int [simp]: "u32_of (CborInt (uint (v :: u32))) = Some v"
  by (simp add: u32_of_def)

lemma map_field_encoded:
  "map_field a (int_pair MAP_KEY_TYPE (CborInt (uint v))) = Inr (a\<lparr>acc_type := Some v\<rparr>)"
  "map_field a (int_pair MAP_KEY_KEY_SIZE (CborInt (uint v))) = Inr (a\<lparr>acc_key_size := Some v\<rparr>)"
  "map_field a (int_pair MAP_KEY_VALUE_SIZE (CborInt (uint v))) = Inr (a\<lparr>acc_value_size := Some v\<rparr>)"
  "map_field a (int_pair MAP_KEY_MAX_ENTRIES (CborInt (uint v))) = Inr (a\<lparr>acc_max_entries := Some v\<rparr>)"
  "map_field a (int_pair MAP_KEY_INITIAL_DATA (CborBytes d)) = Inr (a\<lparr>acc_data := d\<rparr>)"
  "map_field a (int_pair MAP_KEY_READONLY (CborBool b)) = Inr (a\<lparr>acc_readonly := b\<rparr>)"
  by (simp_all add: map_field_def int_pair_def key_of_def image_consts)

lemma decode_map_value_encoded:
  "decode_map_value (map_value m (Some d) (Some r)) = Inr (m, d, r)"
  by (cases "d = []"; cases r) (simp_all add: decode_map_value_def map_value_def map_field_encoded empty_map_acc_def)

lemma map_value_wf: "length d < 2 ^ 64 \<Longrightarrow> cbor_wf (map_value m (Some d) (Some r))"
  by (simp add: map_value_def int_pair_def del: cbor_wf.simps(1))

definition triples :: "program_image \<Rightarrow> (map_def \<times> bytes \<times> bool) list" where
  "triples p = zip (image_maps p) (zip (map_initial_data p) (map_readonly p))"

lemma image_value_triples:
  assumes "image_wf p"
  shows "image_value p = CborMap [int_pair IMG_KEY_BYTECODE (CborBytes (bytecode p)),
    int_pair IMG_KEY_MAPS (CborArray (map (\<lambda>(m, d, r). map_value m (Some d) (Some r)) (triples p)))]"
proof -
  have "map (\<lambda>(i, m). map_value m (list_get (map_initial_data p) i) (list_get (map_readonly p) i))
          (List.enumerate 0 (image_maps p)) = map (\<lambda>(m, d, r). map_value m (Some d) (Some r)) (triples p)"
    using assms by (intro nth_equalityI) (auto simp: image_wf_def triples_def nth_enumerate_eq list_get_def)
  then show ?thesis by (simp add: image_value_def)
qed

lemma push_maps:
  "res_fold push_map s (map (\<lambda>(m, d, r). map_value m (Some d) (Some r)) ts) =
     Inr (s\<lparr>acc_maps := acc_maps s @ map fst ts, acc_map_data := acc_map_data s @ map (fst \<circ> snd) ts,
            acc_map_readonly := acc_map_readonly s @ map (snd \<circ> snd) ts\<rparr>)"
  by (induction ts arbitrary: s) (auto simp: push_map_def decode_map_value_encoded)

lemma triples_map:
  assumes "image_wf p"
  shows "map fst (triples p) = image_maps p" and "map (fst \<circ> snd) (triples p) = map_initial_data p"
    and "map (snd \<circ> snd) (triples p) = map_readonly p"
  using assms by (auto simp: triples_def image_wf_def simp flip: map_map)

lemma image_value_wf:
  assumes "image_wf p"
  shows "cbor_wf (image_value p)"
proof -
  have "cbor_wf (map_value m (Some d) (Some r))" if "(m, d, r) \<in> set (triples p)" for m d r
  proof (rule map_value_wf)
    have "d \<in> set (map_initial_data p)" using that by (auto simp: triples_def dest: set_zip_rightD set_zip_leftD)
    with assms show "length d < 2 ^ 64" unfolding image_wf_def list_all_iff by blast
  qed
  then show ?thesis
    using assms by (auto simp: image_value_triples int_pair_def image_wf_def triples_def list_all_iff
        simp del: cbor_wf.simps(1))
qed

text \<open>Program images: an image whose lists are parallel is encoded, and decoding the bytes gives the
  image back, map definitions, initial data and read-only flags in order; an image whose lists are not
  parallel is refused.\<close>

theorem image_roundtrip:
  assumes "cbor_faithful ser de"
  shows "(image_wf p \<longrightarrow> (\<exists>b. encode_deterministic ser p = Inr b \<and> image_decode de b = Inr p)) \<and>
    (length (map_initial_data p) \<noteq> length (image_maps p) \<or> length (map_readonly p) \<noteq> length (image_maps p) \<longrightarrow>
      (\<exists>e. encode_deterministic ser p = Inl (EncCborError e)))"
proof (intro conjI impI)
  assume wf: "image_wf p"
  obtain b where "ser (image_value p) = Inr b" "de b = Inr (image_value p)"
    using cbor_faithfulE [OF assms image_value_wf [OF wf]] by blast
  then show "\<exists>b. encode_deterministic ser p = Inr b \<and> image_decode de b = Inr p"
    using wf triples_map [OF wf]
    by (simp add: encode_deterministic_def image_decode_def image_value_triples int_pair_def image_field_def
        image_consts(1,2) key_of_def push_maps image_wf_def)
qed (auto simp: encode_deterministic_def)

definition sample_image :: program_image where
  "sample_image = \<lparr>bytecode = [0x95], image_maps =
     [\<lparr>md_map_type = 1, md_key_size = 4, md_value_size = 8, md_max_entries = 2\<rparr>],
     map_initial_data = [[1, 2]], map_readonly = [True]\<rparr>"

theorem image_roundtrip_witness:
  "(\<exists>b. encode_deterministic rfc_ser sample_image = Inr b \<and> image_decode rfc_de b = Inr sample_image) \<and>
   (\<exists>e. encode_deterministic rfc_ser (sample_image\<lparr>map_readonly := []\<rparr>) = Inl (EncCborError e))"
  using image_roundtrip [OF rfc_faithful, of sample_image]
    image_roundtrip [OF rfc_faithful, of "sample_image\<lparr>map_readonly := []\<rparr>"]
  by (simp add: image_wf_def sample_image_def)

end
