(* ===== verification/Node_Storage.thy ===== *)
theory Node_Storage
  imports Node_Types Frame_Codec
begin

text \<open>
  The persistent storage of the node (\<open>sonde-node/src/esp_storage.rs\<close>, the firmware's implementation of
  \<open>PlatformStorage\<close>): identity, schedule, program partitions, channel and pairing artefacts in NVS, and
  the flags and records in RTC memory. The NVS driver of the ESP-IDF is not part of the repository: a
  write or removal goes through the argument \<open>drv\<close>, which says whether it succeeded and what NVS holds
  afterwards, and \<open>nvs_driver_ok\<close> states what the code relies on. A read that fails is a read of an
  absent key, as the code treats it, except where the code passes the error on: \<open>drv_blob_fault\<close> says
  which reads of a blob fail.
\<close>

section \<open>NVS\<close>

record nvs =
  nvs_u32 :: "string \<Rightarrow> u32 option"
  nvs_blob :: "string \<Rightarrow> bytes option"

record nvs_driver =
  drv_set_u32 :: "string \<Rightarrow> u32 \<Rightarrow> nvs \<Rightarrow> bool \<times> nvs"
  drv_set_blob :: "string \<Rightarrow> bytes \<Rightarrow> nvs \<Rightarrow> bool \<times> nvs"
  drv_remove :: "string \<Rightarrow> nvs \<Rightarrow> bool \<times> nvs"
  drv_blob_fault :: "string \<Rightarrow> nvs \<Rightarrow> string option"

definition same_except :: "string \<Rightarrow> nvs \<Rightarrow> nvs \<Rightarrow> bool" where
  "same_except k n n' \<longleftrightarrow> (\<forall>j. j \<noteq> k \<longrightarrow> nvs_u32 n' j = nvs_u32 n j \<and> nvs_blob n' j = nvs_blob n j)"

text \<open>What the NVS documentation promises: an operation touches its own key only; a 32-bit value is
  replaced atomically, so after an interrupted write it is the old or the new one; a write that reports
  success has stored the value, and a removal that reports success has removed the key. Nothing is
  assumed of the content of a blob: the code reads it back.\<close>

definition nvs_driver_ok :: "nvs_driver \<Rightarrow> bool" where
  "nvs_driver_ok drv \<longleftrightarrow>
     (\<forall>k v n ok n'. drv_set_u32 drv k v n = (ok, n') \<longrightarrow> same_except k n n' \<and> nvs_blob n' k = nvs_blob n k \<and>
        (nvs_u32 n' k = Some v \<or> \<not> ok \<and> nvs_u32 n' k = nvs_u32 n k)) \<and>
     (\<forall>k b n ok n'. drv_set_blob drv k b n = (ok, n') \<longrightarrow> same_except k n n' \<and> nvs_u32 n' k = nvs_u32 n k) \<and>
     (\<forall>k n ok n'. drv_remove drv k n = (ok, n') \<longrightarrow> same_except k n n' \<and>
        (ok \<longrightarrow> nvs_u32 n' k = None \<and> nvs_blob n' k = None))"

text \<open>A driver that always succeeds.\<close>

definition perfect_driver :: nvs_driver where
  "perfect_driver = \<lparr>
     drv_set_u32 = \<lambda>k v n. (True, n\<lparr>nvs_u32 := (nvs_u32 n)(k := Some v)\<rparr>),
     drv_set_blob = \<lambda>k b n. (True, n\<lparr>nvs_blob := (nvs_blob n)(k := Some b)\<rparr>),
     drv_remove = \<lambda>k n. (True, n\<lparr>nvs_u32 := (nvs_u32 n)(k := None), nvs_blob := (nvs_blob n)(k := None)\<rparr>),
     drv_blob_fault = \<lambda>k n. None\<rparr>"

lemma perfect_driver_ok: "nvs_driver_ok perfect_driver"
  by (auto simp: nvs_driver_ok_def perfect_driver_def same_except_def)

section \<open>State\<close>

definition MAGIC_VALUE :: u32 where "MAGIC_VALUE = 0xDEADBEEF"
definition RTC_STAGED_TEST_MAGIC :: u32 where "RTC_STAGED_TEST_MAGIC = 0x5354434D"
definition DEFAULT_INTERVAL_S :: u32 where "DEFAULT_INTERVAL_S = 300"
definition PEER_PAYLOAD_MAX_LEN :: nat where "PEER_PAYLOAD_MAX_LEN = 202"
definition MAX_PROGRAM_BLOB :: nat where "MAX_PROGRAM_BLOB = 4096"

record staged_test_command =
  stc_test_type :: u64
  stc_rf_channel :: "u8 option"
  stc_payload :: bytes

record rtc_staged_test_command =
  rst_magic :: u32
  rst_valid :: u32
  rst_test_type :: u64
  rst_rf_channel_present :: u32
  rst_rf_channel :: u8
  rst_payload_len :: u16
  rst_payload :: bytes

definition rtc_staged_zero :: rtc_staged_test_command where
  "rtc_staged_zero = \<lparr>rst_magic = 0, rst_valid = 0, rst_test_type = 0, rst_rf_channel_present = 0,
     rst_rf_channel = 0, rst_payload_len = 0, rst_payload = replicate MAX_FRAME_SIZE 0\<rparr>"

record rtc_test_result =
  rtr_magic :: u32
  rtr_valid :: u32
  rtr_status :: u8
  rtr_test_type_present :: u32
  rtr_test_type :: u64
  rtr_reply_frame_len :: u16
  rtr_reply_frame :: bytes
  rtr_reply_rssi_present :: u32
  rtr_reply_rssi_dbm :: u8
  rtr_attempt_count :: u64
  rtr_elapsed_ms :: u64

definition rtc_test_result_zero :: rtc_test_result where
  "rtc_test_result_zero = \<lparr>rtr_magic = 0, rtr_valid = 0, rtr_status = 0, rtr_test_type_present = 0,
     rtr_test_type = 0, rtr_reply_frame_len = 0, rtr_reply_frame = replicate MAX_FRAME_SIZE 0,
     rtr_reply_rssi_present = 0, rtr_reply_rssi_dbm = 0, rtr_attempt_count = 0, rtr_elapsed_ms = 0\<rparr>"

record node_storage =
  st_nvs :: nvs
  EARLY_WAKE_FLAG :: u32
  LAST_BATTERY_MV :: u32
  LAST_BATTERY_VALID :: u32
  STAGED_TEST_COMMAND :: rtc_staged_test_command
  LATEST_TEST_RESULT :: rtc_test_result

type_synonym 'a storage_op = "(node_storage, node_error, 'a) op"

section \<open>Operations\<close>

text \<open>\<open>nvs.set_u32(..).map_err(..)\<close> and its companions.\<close>

definition set_u32 :: "nvs_driver \<Rightarrow> string \<Rightarrow> u32 \<Rightarrow> string \<Rightarrow> unit storage_op" where
  "set_u32 drv k v err s =
     (case drv_set_u32 drv k v (st_nvs s) of (ok, n) \<Rightarrow>
        (if ok then Inr () else Inl (StorageError err), s\<lparr>st_nvs := n\<rparr>))"

definition set_blob :: "nvs_driver \<Rightarrow> string \<Rightarrow> bytes \<Rightarrow> string \<Rightarrow> unit storage_op" where
  "set_blob drv k b err s =
     (case drv_set_blob drv k b (st_nvs s) of (ok, n) \<Rightarrow>
        (if ok then Inr () else Inl (StorageError err), s\<lparr>st_nvs := n\<rparr>))"

definition remove_key :: "nvs_driver \<Rightarrow> string \<Rightarrow> string \<Rightarrow> unit storage_op" where
  "remove_key drv k err s =
     (case drv_remove drv k (st_nvs s) of (ok, n) \<Rightarrow>
        (if ok then Inr () else Inl (StorageError err), s\<lparr>st_nvs := n\<rparr>))"

definition read_key :: "node_storage \<Rightarrow> (u16 \<times> bytes) option" where
  "read_key s =
     Option.bind (nvs_u32 (st_nvs s) ''magic'') (\<lambda>magic.
       if magic \<noteq> MAGIC_VALUE then None
       else Option.bind (nvs_u32 (st_nvs s) ''key_hint'') (\<lambda>kh.
         if unat kh > 0xFFFF then None
         else Option.bind (nvs_blob (st_nvs s) ''psk'') (\<lambda>b.
           if length b \<noteq> 32 then None else Some (ucast kh, b))))"

definition write_key :: "nvs_driver \<Rightarrow> u16 \<Rightarrow> bytes \<Rightarrow> unit storage_op" where
  "write_key drv kh psk s =
     (if read_key s \<noteq> None then (Inl (StorageError ''already paired''), s)
      else st_seq (set_blob drv ''psk'' psk ''psk write failed'')
          (st_seq (set_u32 drv ''key_hint'' (ucast kh) ''key_hint write failed'')
             (set_u32 drv ''magic'' MAGIC_VALUE ''magic write failed'')) s)"

definition erase_key :: "nvs_driver \<Rightarrow> unit storage_op" where
  "erase_key drv =
     st_seq (remove_key drv ''psk'' ''erase psk failed'')
       (st_seq (remove_key drv ''key_hint'' ''erase key_hint failed'')
          (remove_key drv ''magic'' ''erase magic failed''))"

definition read_schedule :: "node_storage \<Rightarrow> u32 \<times> u8" where
  "read_schedule s =
     ((case nvs_u32 (st_nvs s) ''interval'' of Some i \<Rightarrow> i | None \<Rightarrow> DEFAULT_INTERVAL_S),
      ucast (min (case nvs_u32 (st_nvs s) ''active_p'' of Some p \<Rightarrow> p | None \<Rightarrow> 0) 1))"

definition write_schedule_interval :: "nvs_driver \<Rightarrow> u32 \<Rightarrow> unit storage_op" where
  "write_schedule_interval drv i = set_u32 drv ''interval'' i ''interval write failed''"

definition write_active_partition :: "nvs_driver \<Rightarrow> u8 \<Rightarrow> unit storage_op" where
  "write_active_partition drv p =
     (if p > 1 then st_fail (StorageError ''invalid active partition index (must be 0 or 1)'')
      else set_u32 drv ''active_p'' (ucast p) ''active_p write failed'')"

definition reset_schedule :: "nvs_driver \<Rightarrow> unit storage_op" where
  "reset_schedule drv =
     st_seq (set_u32 drv ''interval'' DEFAULT_INTERVAL_S ''interval reset failed'')
       (set_u32 drv ''active_p'' 0 ''active_p reset failed'')"

definition prog_key :: "u8 \<Rightarrow> string" where
  "prog_key p = (if p = 0 then ''prog_a'' else ''prog_b'')"

text \<open>A blob that does not fit the caller's buffer is a failed read.\<close>

definition get_blob :: "node_storage \<Rightarrow> string \<Rightarrow> nat \<Rightarrow> bytes option" where
  "get_blob s k buf_len =
     (case nvs_blob (st_nvs s) k of
        Some b \<Rightarrow> if length b \<le> buf_len then Some b else None
      | None \<Rightarrow> None)"

definition read_program :: "node_storage \<Rightarrow> u8 \<Rightarrow> bytes option" where
  "read_program s p = (if p \<ge> 2 then None else get_blob s (prog_key p) MAX_PROGRAM_BLOB)"

definition write_program :: "nvs_driver \<Rightarrow> u8 \<Rightarrow> bytes \<Rightarrow> unit storage_op" where
  "write_program drv p img =
     (if p > 1 then st_fail (StorageError ''invalid program partition index (must be 0 or 1)'')
      else if length img > MAX_PROGRAM_BLOB then
        st_fail (StorageError ''program image too large (max 4096 bytes)'')
      else set_blob drv (prog_key p) img ''program write failed'')"

definition erase_program :: "nvs_driver \<Rightarrow> u8 \<Rightarrow> unit storage_op" where
  "erase_program drv p =
     (if p > 1 then st_fail (StorageError ''invalid program partition index (must be 0 or 1)'')
      else remove_key drv (prog_key p) ''program erase failed'')"

definition take_early_wake_flag :: "node_storage \<Rightarrow> bool \<times> node_storage" where
  "take_early_wake_flag s = (EARLY_WAKE_FLAG s \<noteq> 0, s\<lparr>EARLY_WAKE_FLAG := 0\<rparr>)"

definition set_early_wake_flag :: "unit storage_op" where
  "set_early_wake_flag s = (Inr (), s\<lparr>EARLY_WAKE_FLAG := 1\<rparr>)"

definition read_channel :: "node_storage \<Rightarrow> u8 option" where
  "read_channel s =
     Option.bind (nvs_u32 (st_nvs s) ''channel'') (\<lambda>ch. if ch \<ge> 1 \<and> ch \<le> 13 then Some (ucast ch) else None)"

definition write_channel :: "nvs_driver \<Rightarrow> u8 \<Rightarrow> unit storage_op" where
  "write_channel drv ch =
     (if ch < 1 \<or> ch > 13 then st_fail (StorageError ''invalid WiFi channel (must be 1-13)'')
      else set_u32 drv ''channel'' (ucast ch) ''channel write failed'')"

definition erase_channel :: "nvs_driver \<Rightarrow> unit storage_op" where
  "erase_channel drv = remove_key drv ''channel'' ''channel erase failed''"

definition read_peer_payload :: "node_storage \<Rightarrow> bytes option" where
  "read_peer_payload s = get_blob s ''peer_payload'' 512"

text \<open>The read into an empty buffer fails exactly when a non-empty blob is stored.\<close>

definition has_peer_payload :: "node_storage \<Rightarrow> bool" where
  "has_peer_payload s =
     (case nvs_blob (st_nvs s) ''peer_payload'' of Some b \<Rightarrow> b \<noteq> [] | None \<Rightarrow> False)"

definition write_peer_payload :: "nvs_driver \<Rightarrow> bytes \<Rightarrow> unit storage_op" where
  "write_peer_payload drv payload =
     (if length payload > PEER_PAYLOAD_MAX_LEN then
        st_fail (StorageError ''peer_payload too large (max 202 bytes for PEER_REQUEST frame)'')
      else set_blob drv ''peer_payload'' payload ''peer_payload write failed'')"

definition erase_peer_payload :: "nvs_driver \<Rightarrow> unit storage_op" where
  "erase_peer_payload drv s =
     (case remove_key drv ''peer_payload'' ''peer_payload erase failed'' s of
        (Inr _, s') \<Rightarrow> (Inr (), s')
      | (Inl e, s') \<Rightarrow> if \<not> has_peer_payload s' then (Inr (), s') else (Inl e, s'))"

definition read_reg_complete :: "node_storage \<Rightarrow> bool" where
  "read_reg_complete s = (case nvs_u32 (st_nvs s) ''reg_complete'' of Some v \<Rightarrow> v \<noteq> 0 | None \<Rightarrow> False)"

definition write_reg_complete :: "nvs_driver \<Rightarrow> bool \<Rightarrow> unit storage_op" where
  "write_reg_complete drv complete =
     set_u32 drv ''reg_complete'' (if complete then 1 else 0) ''reg_complete write failed''"

definition read_last_battery_mv :: "node_storage \<Rightarrow> u32 option" where
  "read_last_battery_mv s = (if LAST_BATTERY_VALID s = 0 then None else Some (LAST_BATTERY_MV s))"

definition write_last_battery_mv :: "u32 \<Rightarrow> unit storage_op" where
  "write_last_battery_mv mv s = (Inr (), s\<lparr>LAST_BATTERY_MV := mv, LAST_BATTERY_VALID := 1\<rparr>)"

definition staged_test_command_is_valid :: "rtc_staged_test_command \<Rightarrow> bool" where
  "staged_test_command_is_valid c \<longleftrightarrow> rst_magic c = RTC_STAGED_TEST_MAGIC \<and> rst_valid c = 1"

definition read_staged_test_command :: "node_storage \<Rightarrow> staged_test_command option" where
  "read_staged_test_command s =
     (let c = STAGED_TEST_COMMAND s in
      if \<not> staged_test_command_is_valid c then None
      else
        let n = unat (rst_payload_len c) in
        if n = 0 \<or> n > MAX_FRAME_SIZE then None
        else Some \<lparr>stc_test_type = rst_test_type c,
                   stc_rf_channel = (if rst_rf_channel_present c \<noteq> 0 then Some (rst_rf_channel c) else None),
                   stc_payload = take n (rst_payload c)\<rparr>)"

definition write_staged_test_command :: "staged_test_command \<Rightarrow> unit storage_op" where
  "write_staged_test_command c s =
     (let n = length (stc_payload c) in
      if n = 0 \<or> n > MAX_FRAME_SIZE then (Inl (StorageError ''staged test payload must be 1..=250 bytes''), s)
      else (Inr (), s\<lparr>STAGED_TEST_COMMAND :=
        \<lparr>rst_magic = RTC_STAGED_TEST_MAGIC, rst_valid = 1, rst_test_type = stc_test_type c,
         rst_rf_channel_present = (if stc_rf_channel c = None then 0 else 1),
         rst_rf_channel = (case stc_rf_channel c of Some ch \<Rightarrow> ch | None \<Rightarrow> 0),
         rst_payload_len = of_nat n,
         rst_payload = stc_payload c @ replicate (MAX_FRAME_SIZE - n) 0\<rparr>\<rparr>))"

definition clear_staged_test_command :: "unit storage_op" where
  "clear_staged_test_command s = (Inr (), s\<lparr>STAGED_TEST_COMMAND := rtc_staged_zero\<rparr>)"

definition clear_test_result :: "unit storage_op" where
  "clear_test_result s = (Inr (), s\<lparr>LATEST_TEST_RESULT := rtc_test_result_zero\<rparr>)"

section \<open>What an operation leaves alone\<close>

abbreviation u32_at :: "string \<Rightarrow> node_storage \<Rightarrow> u32 option" where "u32_at k s \<equiv> nvs_u32 (st_nvs s) k"
abbreviation blob_at :: "string \<Rightarrow> node_storage \<Rightarrow> bytes option" where "blob_at k s \<equiv> nvs_blob (st_nvs s) k"

lemma set_u32_effect:
  assumes "nvs_driver_ok drv" and "set_u32 drv k v err s = (r, s')"
  shows "(\<forall>j. blob_at j s' = blob_at j s) \<and> (\<forall>j. j \<noteq> k \<longrightarrow> u32_at j s' = u32_at j s) \<and>
    (u32_at k s' = Some v \<or> r \<noteq> Inr () \<and> u32_at k s' = u32_at k s)"
  using assms unfolding nvs_driver_ok_def set_u32_def same_except_def
  by (auto split: prod.splits if_splits) (metis)+

lemma set_blob_effect:
  assumes "nvs_driver_ok drv" and "set_blob drv k b err s = (r, s')"
  shows "(\<forall>j. u32_at j s' = u32_at j s) \<and> (\<forall>j. j \<noteq> k \<longrightarrow> blob_at j s' = blob_at j s)"
  using assms unfolding nvs_driver_ok_def set_blob_def same_except_def
  by (auto split: prod.splits if_splits) (metis)+

lemma remove_key_effect:
  assumes "nvs_driver_ok drv" and "remove_key drv k err s = (r, s')"
  shows "(\<forall>j. j \<noteq> k \<longrightarrow> u32_at j s' = u32_at j s \<and> blob_at j s' = blob_at j s) \<and>
    (r = Inr () \<longrightarrow> u32_at k s' = None \<and> blob_at k s' = None)"
  using assms unfolding nvs_driver_ok_def remove_key_def same_except_def
  by (auto split: prod.splits if_splits)

lemma nvs_op_keeps_rtc:
  "st_keeps EARLY_WAKE_FLAG (set_u32 drv k v err)" "st_keeps EARLY_WAKE_FLAG (set_blob drv k b err)"
  "st_keeps EARLY_WAKE_FLAG (remove_key drv k err)"
  by (auto simp: st_keeps_def set_u32_def set_blob_def remove_key_def split: prod.splits)

lemma read_schedule_active:
  "snd (read_schedule s) = (if u32_at ''active_p'' s = None \<or> u32_at ''active_p'' s = Some 0 then 0 else 1)"
proof -
  have "min p (1 :: u32) = (if p = 0 then 0 else 1)" for p :: u32
    by (auto simp: min_def word_le_nat_alt word_unat_eq_iff)
  then show ?thesis by (auto simp: read_schedule_def split: option.splits)
qed

lemma read_key_cong:
  assumes "u32_at ''magic'' s' = u32_at ''magic'' s" and "u32_at ''key_hint'' s' = u32_at ''key_hint'' s"
    and "blob_at ''psk'' s' = blob_at ''psk'' s"
  shows "read_key s' = read_key s"
  unfolding read_key_def assms by (rule refl)

lemma read_schedule_cong:
  assumes "u32_at ''interval'' s' = u32_at ''interval'' s" and "u32_at ''active_p'' s' = u32_at ''active_p'' s"
  shows "read_schedule s' = read_schedule s"
  using assms by (simp add: read_schedule_def)

lemma read_program_cong: "blob_at (prog_key p) s' = blob_at (prog_key p) s \<Longrightarrow> read_program s' p = read_program s p"
  by (simp add: read_program_def get_blob_def)

lemma prog_key_other: "prog_key p \<noteq> ''psk''" "prog_key p \<noteq> ''peer_payload''"
  by (simp_all add: prog_key_def)

text \<open>\<open>touches K m\<close>: whatever its outcome, \<open>m\<close> leaves every NVS key outside \<open>K\<close> as it was.\<close>

definition touches :: "string set \<Rightarrow> 'a storage_op \<Rightarrow> bool" where
  "touches K m \<longleftrightarrow> (\<forall>s j. j \<notin> K \<longrightarrow> u32_at j (snd (m s)) = u32_at j s \<and> blob_at j (snd (m s)) = blob_at j s)"

lemma touchesD:
  "touches K m \<Longrightarrow> m s = (r, s') \<Longrightarrow> j \<notin> K \<Longrightarrow> u32_at j s' = u32_at j s \<and> blob_at j s' = blob_at j s"
  unfolding touches_def by (metis snd_conv)

lemma touches_mono: "touches K m \<Longrightarrow> K \<subseteq> L \<Longrightarrow> touches L m"
  by (auto simp: touches_def)

lemma touches_seq: "touches K m \<Longrightarrow> touches L k \<Longrightarrow> touches (K \<union> L) (st_seq m k)"
  by (auto simp: touches_def st_seq_def st_bind_def split: prod.splits sum.splits) (metis snd_conv)+

lemma touches_fail: "touches K (st_fail e)"
  by (simp add: touches_def st_fail_def)

lemma touches_primitive:
  assumes "nvs_driver_ok drv"
  shows "touches {k} (set_u32 drv k v err)" and "touches {k} (set_blob drv k b err)" and "touches {k} (remove_key drv k err)"
  using set_u32_effect [OF assms] set_blob_effect [OF assms] remove_key_effect [OF assms]
  by (auto simp: touches_def) (metis surjective_pairing)+

lemma touches_storage_ops:
  assumes "nvs_driver_ok drv"
  shows "touches {prog_key p} (erase_program drv p)" and "touches {''interval'', ''active_p''} (reset_schedule drv)"
    and "touches {''channel''} (write_channel drv ch)" and "touches {''peer_payload''} (erase_peer_payload drv)"
    and "touches {''reg_complete''} (write_reg_complete drv b)" and "touches {} clear_staged_test_command"
    and "touches {} clear_test_result" and "touches {''psk'', ''key_hint'', ''magic''} (erase_key drv)"
    and "touches {''interval''} (write_schedule_interval drv i)" and "touches {} (write_last_battery_mv mv)"
    and "touches {} set_early_wake_flag"
proof -
  note prim = touches_primitive [OF assms]
  show "touches {''peer_payload''} (erase_peer_payload drv)"
    using prim(3) [of "''peer_payload''" "''peer_payload erase failed''"]
    unfolding touches_def erase_peer_payload_def by (simp add: case_prod_beta split: sum.split)
  have "touches ({''interval''} \<union> {''active_p''}) (reset_schedule drv)"
    unfolding reset_schedule_def by (intro touches_seq prim)
  then show "touches {''interval'', ''active_p''} (reset_schedule drv)" by (simp add: insert_commute)
  have "touches ({''psk''} \<union> ({''key_hint''} \<union> {''magic''})) (erase_key drv)"
    unfolding erase_key_def by (intro touches_seq prim)
  then show "touches {''psk'', ''key_hint'', ''magic''} (erase_key drv)" by (simp add: insert_commute)
qed (simp_all add: erase_program_def write_channel_def write_reg_complete_def write_schedule_interval_def
    touches_primitive [OF assms] touches_fail,
   simp_all add: touches_def clear_staged_test_command_def clear_test_result_def write_last_battery_mv_def
    set_early_wake_flag_def)

end
