(* ===== verification/Program_Store.thy ===== *)
theory Program_Store
  imports Node_Storage Map_Storage Program_Image
begin

text \<open>
  The program store (\<open>sonde-node/src/program_store.rs\<close>), which installs program images in the A/B
  partitions, and the key store (\<open>sonde-node/src/key_store.rs\<close>) with the factory reset. The properties
  hold for every NVS driver, whichever of its writes fail.
\<close>

section \<open>Program store\<close>

record loaded_program =
  lp_bytecode :: bytes
  lp_map_defs :: "map_def list"
  lp_map_initial_data :: "bytes list"
  lp_hash :: bytes
  lp_is_ephemeral :: bool

definition load_active_raw :: "sha_fn \<Rightarrow> node_storage \<Rightarrow> bytes \<times> bytes option" where
  "load_active_raw sha s =
     (let active_partition = snd (read_schedule s) in
      if active_partition > 1 then ([], None)
      else case read_program s active_partition of
             Some image_bytes \<Rightarrow> (sha image_bytes, Some image_bytes)
           | None \<Rightarrow> ([], None))"

definition loaded :: "program_image \<Rightarrow> bytes \<Rightarrow> bool \<Rightarrow> loaded_program" where
  "loaded img h eph = \<lparr>lp_bytecode = bytecode img, lp_map_defs = image_maps img,
     lp_map_initial_data = map_initial_data img, lp_hash = h, lp_is_ephemeral = eph\<rparr>"

definition decode_image :: "cbor_de \<Rightarrow> bytes \<Rightarrow> bytes \<Rightarrow> loaded_program option" where
  "decode_image de image_bytes h =
     (case image_decode de image_bytes of Inl _ \<Rightarrow> None | Inr img \<Rightarrow> Some (loaded img h False))"

definition check_image :: "cbor_de \<Rightarrow> sha_fn \<Rightarrow> bytes \<Rightarrow> bytes \<Rightarrow> node_error + program_image" where
  "check_image de sha image_bytes expected_hash =
     (if sha image_bytes \<noteq> expected_hash then Inl ProgramHashMismatch
      else case image_decode de image_bytes of
             Inl _ \<Rightarrow> Inl (ProgramDecodeFailed ''program image decode failed'')
           | Inr img \<Rightarrow> Inr img)"

definition check_maps :: "nat \<Rightarrow> program_image \<Rightarrow> node_error + unit" where
  "check_maps map_budget img =
     res_bind (validate_map_defs (image_maps img)) (\<lambda>_.
       let required = required_bytes (image_maps img) in
       if required > map_budget then Inl (MapBudgetExceeded required map_budget) else Inr ())"

definition install_resident ::
    "nvs_driver \<Rightarrow> cbor_de \<Rightarrow> sha_fn \<Rightarrow> nat \<Rightarrow> bytes \<Rightarrow> bytes \<Rightarrow> loaded_program storage_op" where
  "install_resident drv de sha map_budget image_bytes expected_hash =
     st_bind (st_lift (check_image de sha image_bytes expected_hash)) (\<lambda>img.
     st_bind (st_lift (check_maps map_budget img)) (\<lambda>_ s.
       let active_partition = snd (read_schedule s) in
       if active_partition > 1 then (Inl (StorageError ''invalid active partition index''), s)
       else
         let inactive_partition = 1 - active_partition in
         st_bind (write_program drv inactive_partition image_bytes) (\<lambda>_ s.
           case read_program s inactive_partition of
             None \<Rightarrow> (Inl (StorageError ''failed to re-read written program''), s)
           | Some written_bytes \<Rightarrow>
               if sha written_bytes \<noteq> expected_hash then (Inl ProgramHashMismatch, s)
               else st_bind (write_active_partition drv inactive_partition) (\<lambda>_.
                      st_return (loaded img (sha image_bytes) False)) s) s))"

definition load_ephemeral :: "cbor_de \<Rightarrow> sha_fn \<Rightarrow> bytes \<Rightarrow> bytes \<Rightarrow> node_error + loaded_program" where
  "load_ephemeral de sha image_bytes expected_hash =
     res_bind (check_image de sha image_bytes expected_hash) (\<lambda>img.
       if image_maps img \<noteq> [] then Inl (ProgramDecodeFailed ''ephemeral programs must not declare maps'')
       else Inr (loaded img (sha image_bytes) True))"

section \<open>Key store\<close>

record node_identity =
  id_key_hint :: u16
  id_psk :: bytes

definition load_identity :: "node_storage \<Rightarrow> node_identity option" where
  "load_identity s = map_option (\<lambda>(kh, psk). \<lparr>id_key_hint = kh, id_psk = psk\<rparr>) (read_key s)"

text \<open>The state of a factory reset is the storage and the RTC memory of the maps.\<close>

definition on_storage :: "'a storage_op \<Rightarrow> (node_storage \<times> rtc_memory, node_error, 'a) op" where
  "on_storage m sr = (case sr of (s, r) \<Rightarrow> case m s of (x, s') \<Rightarrow> (x, (s', r)))"

definition clear_maps :: "map_storage \<Rightarrow> (node_storage \<times> rtc_memory, node_error, unit) op" where
  "clear_maps st sr = (case sr of (s, r) \<Rightarrow> (Inr (), (s, clear_all st r)))"

definition reset_artefacts :: "nvs_driver \<Rightarrow> map_storage \<Rightarrow> (node_storage \<times> rtc_memory, node_error, unit) op" where
  "reset_artefacts drv st =
     st_seq (on_storage (erase_program drv 0))
       (st_seq (on_storage (erase_program drv 1))
         (st_seq (clear_maps st)
           (st_seq (on_storage (reset_schedule drv))
             (st_seq (on_storage (write_channel drv 1))
               (st_seq (on_storage (erase_peer_payload drv))
                 (st_seq (on_storage (write_reg_complete drv False))
                   (st_seq (on_storage clear_staged_test_command)
                     (on_storage clear_test_result))))))))"

definition factory_reset :: "nvs_driver \<Rightarrow> map_storage \<Rightarrow> (node_storage \<times> rtc_memory, node_error, unit) op" where
  "factory_reset drv st = st_seq (reset_artefacts drv st) (on_storage (erase_key drv))"

section \<open>Installation is atomic\<close>

definition active_image :: "node_storage \<Rightarrow> bytes option" where
  "active_image s = read_program s (snd (read_schedule s))"

lemma partition_cases: "snd (read_schedule s) = 0 \<or> snd (read_schedule s) = 1"
  by (simp add: read_schedule_active)

lemma active_image_cong:
  assumes "u32_at ''active_p'' s' = u32_at ''active_p'' s"
    and "blob_at (prog_key (snd (read_schedule s))) s' = blob_at (prog_key (snd (read_schedule s))) s"
  shows "active_image s' = active_image s"
proof -
  have "snd (read_schedule s') = snd (read_schedule s)" using assms(1) by (simp add: read_schedule_active)
  with read_program_cong [OF assms(2)] show ?thesis by (simp add: active_image_def)
qed

text \<open>Writing the partition that is not active does not change the active image.\<close>

lemma write_inactive:
  assumes "nvs_driver_ok drv" and "write_program drv (1 - snd (read_schedule s)) img s = (r, s')"
  shows "active_image s' = active_image s \<and> read_key s' = read_key s \<and> read_schedule s' = read_schedule s"
proof -
  have keys: "prog_key (snd (read_schedule s)) \<noteq> prog_key (1 - snd (read_schedule s))"
    using partition_cases [of s] by (auto simp: prog_key_def)
  have "(\<forall>j. u32_at j s' = u32_at j s) \<and> (\<forall>j. j \<noteq> prog_key (1 - snd (read_schedule s)) \<longrightarrow> blob_at j s' = blob_at j s)"
    using assms set_blob_effect [OF assms(1)] by (auto simp: write_program_def st_fail_def split: if_splits)
  with keys show ?thesis
    using active_image_cong [of s' s] read_key_cong [of s' s] read_schedule_cong [of s' s] prog_key_other
    by metis
qed

lemma flip_partition:
  assumes "nvs_driver_ok drv" and "write_active_partition drv p s = (r, s')" and "p = 0 \<or> p = 1"
  shows "(snd (read_schedule s') = p \<or> r \<noteq> Inr () \<and> snd (read_schedule s') = snd (read_schedule s)) \<and>
    (\<forall>q. read_program s' q = read_program s q) \<and> read_key s' = read_key s"
proof -
  have "set_u32 drv ''active_p'' (ucast p) ''active_p write failed'' s = (r, s')"
    using assms(2,3) by (auto simp: write_active_partition_def)
  note eff = set_u32_effect [OF assms(1) this]
  have "\<forall>q. read_program s' q = read_program s q" using eff read_program_cong by blast
  moreover have "read_key s' = read_key s" by (rule read_key_cong) (use eff in auto)
  moreover have "u32_at ''active_p'' s' = Some (ucast p) \<or> r \<noteq> Inr () \<and> u32_at ''active_p'' s' = u32_at ''active_p'' s"
    using eff by blast
  moreover have "ucast p = (0 :: u32) \<longleftrightarrow> p = 0" using assms(3) by auto
  ultimately show ?thesis using assms(3) by (auto simp: read_schedule_active)
qed

lemma install_unfold:
  assumes "install_resident drv de sha budget img expected s = (r, s')"
  shows "(\<exists>e. r = Inl e \<and> s' = s) \<or>
    (\<exists>r1 s1. sha img = expected \<and> write_program drv (1 - snd (read_schedule s)) img s = (r1, s1) \<and>
      ((\<exists>e. r = Inl e \<and> s' = s1) \<or>
       (\<exists>b r2. read_program s1 (1 - snd (read_schedule s)) = Some b \<and> sha b = expected \<and>
          write_active_partition drv (1 - snd (read_schedule s)) s1 = (r2, s') \<and>
          (r2 = Inr () \<and> (\<exists>p. r = Inr p \<and> lp_hash p = expected \<and> \<not> lp_is_ephemeral p) \<or> (\<exists>e. r2 = Inl e \<and> r = Inl e)))))"
  using assms
  by (auto simp: install_resident_def st_bind_def st_lift_def st_return_def check_image_def loaded_def Let_def
      split: sum.splits prod.splits if_splits option.splits)

lemma install_outcome:
  assumes "nvs_driver_ok drv" and "install_resident drv de sha budget img expected s = (r, s')"
  shows "(active_image s' = active_image s \<or> (\<exists>b. active_image s' = Some b \<and> sha b = expected)) \<and>
    (\<forall>p. r = Inr p \<longrightarrow> lp_hash p = expected \<and> (\<exists>b. active_image s' = Some b \<and> sha b = expected)) \<and>
    read_key s' = read_key s"
proof -
  let ?p = "1 - snd (read_schedule s)"
  have p: "?p = 0 \<or> ?p = 1" using partition_cases [of s] by auto
  consider "\<exists>e. r = Inl e \<and> s' = s"
    | r1 s1 e where "write_program drv ?p img s = (r1, s1)" "r = Inl e" "s' = s1"
    | r1 s1 b r2 where "write_program drv ?p img s = (r1, s1)" "read_program s1 ?p = Some b" "sha b = expected"
        "write_active_partition drv ?p s1 = (r2, s')"
        "r2 = Inr () \<and> (\<exists>p. r = Inr p \<and> lp_hash p = expected) \<or> (\<exists>e. r2 = Inl e \<and> r = Inl e)"
    using install_unfold [OF assms(2)] by blast
  then show ?thesis
  proof cases
    case 3
    note w = write_inactive [OF assms(1) 3(1)] and f = flip_partition [OF assms(1) 3(4) p]
    have "active_image s' = Some b \<or> r2 \<noteq> Inr () \<and> active_image s' = active_image s"
      using w f 3(2) by (auto simp: active_image_def)
    then show ?thesis using w f 3(3,5) by auto
  qed (use write_inactive [OF assms(1)] in auto)
qed

lemma install_keeps_or_announced:
  "nvs_driver_ok drv \<Longrightarrow> install_resident drv de sha budget img expected s = (r, s') \<Longrightarrow>
   read_key s' = read_key s \<and> (active_image s' = active_image s \<or> (\<exists>b. active_image s' = Some b \<and> sha b = expected))"
  using install_outcome by blast

text \<open>C20. Program installation is atomic, whichever flash writes fail or store garbage: afterwards the
  active program is the one that was active before, or its bytes have the hash the gateway announced;
  when installation reports success it is the latter and the reported hash is the announced one; the
  node's key is untouched, and an image that fails its checks changes nothing at all.\<close>

theorem install_atomic:
  assumes "nvs_driver_ok drv" and "install_resident drv de sha budget img expected s = (r, s')"
  shows "(active_image s' = active_image s \<or> (\<exists>b. active_image s' = Some b \<and> sha b = expected)) \<and>
    (\<forall>p. r = Inr p \<longrightarrow> lp_hash p = expected \<and> (\<exists>b. active_image s' = Some b \<and> sha b = expected)) \<and>
    read_key s' = read_key s \<and>
    (sha img \<noteq> expected \<or> (\<exists>e. image_decode de img = Inl e) \<or>
       (\<exists>i e. image_decode de img = Inr i \<and> check_maps budget i = Inl e) \<longrightarrow> s' = s)"
proof -
  have "s' = s" if "sha img \<noteq> expected \<or> (\<exists>e. image_decode de img = Inl e) \<or>
       (\<exists>i e. image_decode de img = Inr i \<and> check_maps budget i = Inl e)"
    using that assms(2) by (auto simp: install_resident_def st_bind_def st_lift_def check_image_def split: if_splits)
  with install_outcome [OF assms] show ?thesis by blast
qed

definition blank_storage :: node_storage where
  "blank_storage = \<lparr>st_nvs = \<lparr>nvs_u32 = \<lambda>_. None, nvs_blob = \<lambda>_. None\<rparr>, EARLY_WAKE_FLAG = 0,
     LAST_BATTERY_MV = 0, LAST_BATTERY_VALID = 0, STAGED_TEST_COMMAND = rtc_staged_zero,
     LATEST_TEST_RESULT = rtc_test_result_zero\<rparr>"

definition exit_image :: cbor_value where
  "exit_image = CborMap [(CborInt 1, CborBytes [0x95, 0, 0, 0, 0, 0, 0, 0])]"

lemma exit_image_installs:
  "\<exists>p s. install_resident perfect_driver (\<lambda>_. Inr exit_image) id 4096 [7] [7] blank_storage = (Inr p, s)"
  by (simp add: install_resident_def exit_image_def image_decode_def image_field_def key_of_def image_consts
      check_image_def check_maps_def validate_map_defs_def required_bytes_def required_bytes_checked_def
      st_bind_def st_lift_def st_return_def blank_storage_def read_schedule_def write_program_def set_blob_def
      read_program_def get_blob_def write_active_partition_def set_u32_def perfect_driver_def prog_key_def
      MAX_MAPS_def MAX_PROGRAM_BLOB_def word_le_nat_alt)

theorem install_atomic_witness:
  "\<exists>p s. install_resident perfect_driver (\<lambda>_. Inr exit_image) id 4096 [7] [7] blank_storage = (Inr p, s) \<and>
     lp_hash p = [7] \<and> active_image s = Some [7]"
proof -
  obtain p s where i: "install_resident perfect_driver (\<lambda>_. Inr exit_image) id 4096 [7] [7] blank_storage = (Inr p, s)"
    using exit_image_installs by blast
  from install_atomic [OF perfect_driver_ok i] i show ?thesis by auto
qed

section \<open>Factory reset\<close>

text \<open>Nothing is left but the key: no program, no pairing artefact, no test record, default schedule and
  channel, no map layout, and every byte of the maps is zero.\<close>

definition wiped :: "map_storage \<Rightarrow> node_storage \<Rightarrow> rtc_memory \<Rightarrow> bool" where
  "wiped st s r \<longleftrightarrow> (\<forall>p. read_program s p = None) \<and> read_schedule s = (DEFAULT_INTERVAL_S, 0) \<and>
     read_channel s = Some 1 \<and> \<not> has_peer_payload s \<and> \<not> read_reg_complete s \<and>
     read_staged_test_command s = None \<and> LATEST_TEST_RESULT s = rtc_test_result_zero \<and> rtc_map_count r = 0 \<and>
     (\<forall>mi \<in> set (st_maps st). \<forall>j < mi_len mi. rtc_backing r ! (mi_off mi + j) = 0)"

text \<open>The maps lie in the backing buffer, as their slices do.\<close>

definition maps_within :: "map_storage \<Rightarrow> rtc_memory \<Rightarrow> bool" where
  "maps_within st r \<longleftrightarrow> (\<forall>mi \<in> set (st_maps st). mi_off mi + mi_len mi \<le> length (rtc_backing r))"

lemma zero_maps_zero:
  assumes "\<forall>mi \<in> set mis. mi_off mi + mi_len mi \<le> length buf"
  shows "length (foldl zero_map buf mis) = length buf \<and>
    (\<forall>k < length buf. (buf ! k = 0 \<longrightarrow> foldl zero_map buf mis ! k = 0) \<and>
       ((\<exists>mi \<in> set mis. mi_off mi \<le> k \<and> k < mi_off mi + mi_len mi) \<longrightarrow> foldl zero_map buf mis ! k = 0))"
  using assms
proof (induction mis arbitrary: buf)
  case (Cons mi mis)
  have len: "length (zero_map buf mi) = length buf" using Cons.prems by (simp add: zero_map_def length_copy_at)
  have nth: "zero_map buf mi ! k = (if mi_off mi \<le> k \<and> k < mi_off mi + mi_len mi then 0 else buf ! k)" if "k < length buf" for k
    using Cons.prems that by (auto simp: zero_map_def nth_copy_at)
  have "\<forall>mi' \<in> set mis. mi_off mi' + mi_len mi' \<le> length (zero_map buf mi)" using Cons.prems len by simp
  from Cons.IH [OF this] show ?case using len nth by auto
qed simp

lemma clear_all_zeroes:
  assumes "maps_within st r" and "mi \<in> set (st_maps st)" and "j < mi_len mi"
  shows "rtc_backing (clear_all st r) ! (mi_off mi + j) = 0"
proof -
  have "mi_off mi + mi_len mi \<le> length (rtc_backing r)" using assms(1,2) by (simp add: maps_within_def)
  then have "mi_off mi + j < length (rtc_backing r)" "mi_off mi \<le> mi_off mi + j" "mi_off mi + j < mi_off mi + mi_len mi"
    using assms(3) by simp_all
  moreover have "\<forall>mi \<in> set (st_maps st). mi_off mi + mi_len mi \<le> length (rtc_backing r)" using assms(1) by (simp add: maps_within_def)
  ultimately have "foldl zero_map (rtc_backing r) (st_maps st) ! (mi_off mi + j) = 0"
    using zero_maps_zero assms(2) by blast
  then show ?thesis by (simp add: clear_all_def)
qed

lemma on_storage_Pair: "on_storage m (s, r) = (x, (s', r')) \<longleftrightarrow> m s = (x, s') \<and> r' = r"
  by (auto simp: on_storage_def split: prod.splits)

lemma on_storage_keeps: "(\<And>s. f (snd (m s)) = f s) \<Longrightarrow> st_keeps (f \<circ> fst) (on_storage m)"
  by (auto simp: st_keeps_def on_storage_def split: prod.splits) (metis snd_conv)

lemma touches_keeps_key:
  assumes "touches K m" and "K \<inter> {''psk'', ''key_hint'', ''magic''} = {}"
  shows "st_keeps (read_key \<circ> fst) (on_storage m)"
proof (rule on_storage_keeps)
  fix s
  show "read_key (snd (m s)) = read_key s"
    by (rule read_key_cong) (use assms in \<open>auto simp: touches_def\<close>)
qed

lemma reset_artefacts_keeps_key:
  assumes "nvs_driver_ok drv"
  shows "st_keeps (read_key \<circ> fst) (reset_artefacts drv st)"
proof -
  have "st_keeps (read_key \<circ> fst) (clear_maps st)" by (auto simp: st_keeps_def clear_maps_def)
  then show ?thesis
    unfolding reset_artefacts_def
    by (intro st_keeps_seq touches_keeps_key [OF touches_storage_ops(1) [OF assms]]
        touches_keeps_key [OF touches_storage_ops(2) [OF assms]] touches_keeps_key [OF touches_storage_ops(3) [OF assms]]
        touches_keeps_key [OF touches_storage_ops(4) [OF assms]] touches_keeps_key [OF touches_storage_ops(5) [OF assms]]
        touches_keeps_key [OF touches_storage_ops(6) [OF assms]] touches_keeps_key [OF touches_storage_ops(7) [OF assms]])
      (auto simp: prog_key_def)
qed

lemma wiped_cong:
  assumes "touches K m" and "K \<inter> {''prog_a'', ''prog_b'', ''interval'', ''active_p'', ''channel'', ''peer_payload'', ''reg_complete''} = {}"
    and "STAGED_TEST_COMMAND (snd (m s)) = STAGED_TEST_COMMAND s" and "LATEST_TEST_RESULT (snd (m s)) = LATEST_TEST_RESULT s"
  shows "wiped st (snd (m s)) r = wiped st s r"
proof -
  have same: "u32_at j (snd (m s)) = u32_at j s" "blob_at j (snd (m s)) = blob_at j s"
    if "j \<in> {''prog_a'', ''prog_b'', ''interval'', ''active_p'', ''channel'', ''peer_payload'', ''reg_complete''}" for j
    using that assms(1,2) unfolding touches_def by blast+
  then have "read_program (snd (m s)) p = read_program s p" for p
    by (intro read_program_cong) (simp add: prog_key_def)
  with same assms(3,4) show ?thesis
    by (simp add: wiped_def read_schedule_def read_channel_def has_peer_payload_def read_reg_complete_def
        read_staged_test_command_def)
qed

lemma erase_program_None:
  assumes "nvs_driver_ok drv" and "p \<le> 1" and "erase_program drv p s = (Inr (), s')"
  shows "blob_at (prog_key p) s' = None"
proof -
  have "remove_key drv (prog_key p) ''program erase failed'' s = (Inr (), s')"
    using assms(2,3) by (simp add: erase_program_def not_less [symmetric])
  from remove_key_effect [OF assms(1) this] show ?thesis by simp
qed

lemma erase_peer_payload_None:
  assumes "nvs_driver_ok drv" and "erase_peer_payload drv s = (Inr (), s')"
  shows "\<not> has_peer_payload s'"
  using assms remove_key_effect [OF assms(1)]
  by (auto simp: erase_peer_payload_def has_peer_payload_def split: prod.splits sum.splits if_splits option.splits)

lemma set_u32_Inr: "nvs_driver_ok drv \<Longrightarrow> set_u32 drv k v err s = (Inr (), s') \<Longrightarrow> u32_at k s' = Some v"
  using set_u32_effect by blast

lemma reset_schedule_Inr:
  assumes "nvs_driver_ok drv" and "reset_schedule drv s = (Inr (), s')"
  shows "u32_at ''interval'' s' = Some DEFAULT_INTERVAL_S \<and> u32_at ''active_p'' s' = Some 0"
proof -
  obtain t where "set_u32 drv ''interval'' DEFAULT_INTERVAL_S ''interval reset failed'' s = (Inr (), t)"
      "set_u32 drv ''active_p'' 0 ''active_p reset failed'' t = (Inr (), s')"
    using assms(2) by (auto simp: reset_schedule_def st_seq_def st_bind_Inr)
  with set_u32_Inr [OF assms(1)] set_u32_effect [OF assms(1)] show ?thesis by fastforce
qed

lemma reset_artefacts_wipes:
  assumes ok: "nvs_driver_ok drv" and run: "reset_artefacts drv st (s, r) = (Inr (), (s', r'))" and within: "maps_within st r"
  shows "wiped st s' r'"
proof -
  obtain s1 s2 s3 s4 s5 s6 s7 where
    e: "erase_program drv 0 s = (Inr (), s1)" "erase_program drv 1 s1 = (Inr (), s2)"
      "reset_schedule drv s2 = (Inr (), s3)" "write_channel drv 1 s3 = (Inr (), s4)"
      "erase_peer_payload drv s4 = (Inr (), s5)" "write_reg_complete drv False s5 = (Inr (), s6)"
      "clear_staged_test_command s6 = (Inr (), s7)" "clear_test_result s7 = (Inr (), s')" and r': "r' = clear_all st r"
    using run unfolding reset_artefacts_def st_seq_def
    by (auto simp: st_bind_Inr on_storage_Pair clear_maps_def)
  note t = touches_storage_ops [OF ok]
  note k = touchesD [OF t(1) e(2)] touchesD [OF t(2) e(3)] touchesD [OF t(3) e(4)] touchesD [OF t(4) e(5)]
    touchesD [OF t(5) e(6)] touchesD [OF t(6) e(7)] touchesD [OF t(7) e(8)]
  have "blob_at ''prog_a'' s' = None" "blob_at ''prog_b'' s' = None"
    using erase_program_None [OF ok _ e(1)] erase_program_None [OF ok _ e(2)] by (simp_all add: k prog_key_def)
  then have "read_program s' p = None" for p
    by (simp add: read_program_def get_blob_def prog_key_def)
  moreover have "u32_at ''interval'' s' = Some DEFAULT_INTERVAL_S" "u32_at ''active_p'' s' = Some 0"
    using reset_schedule_Inr [OF ok e(3)] by (simp_all add: k)
  moreover have "u32_at ''channel'' s' = Some 1"
    using set_u32_Inr [OF ok] e(4) by (auto simp: k write_channel_def)
  moreover have "\<not> has_peer_payload s'"
    using erase_peer_payload_None [OF ok e(5)] by (simp add: k has_peer_payload_def)
  moreover have "u32_at ''reg_complete'' s' = Some 0"
    using set_u32_Inr [OF ok] e(6) by (auto simp: k write_reg_complete_def)
  moreover have "STAGED_TEST_COMMAND s' = rtc_staged_zero" "LATEST_TEST_RESULT s' = rtc_test_result_zero"
    using e(7,8) by (auto simp: clear_staged_test_command_def clear_test_result_def)
  moreover have "rtc_map_count r' = 0" "\<forall>mi \<in> set (st_maps st). \<forall>j < mi_len mi. rtc_backing r' ! (mi_off mi + j) = 0"
    using clear_all_zeroes [OF within] by (simp_all add: r' clear_all_def)
  ultimately show ?thesis
    by (simp add: wiped_def read_schedule_def read_channel_def read_reg_complete_def
        read_staged_test_command_def staged_test_command_is_valid_def rtc_staged_zero_def RTC_STAGED_TEST_MAGIC_def)
qed

lemma erase_key_None:
  assumes "nvs_driver_ok drv" and "erase_key drv s = (Inr (), s')"
  shows "read_key s' = None"
proof -
  obtain t where "remove_key drv ''magic'' ''erase magic failed'' t = (Inr (), s')"
    using assms(2) by (auto simp: erase_key_def st_seq_def st_bind_Inr)
  from remove_key_effect [OF assms(1) this] show ?thesis by (simp add: read_key_def)
qed

lemma nvs_ops_keep_rtc:
  "STAGED_TEST_COMMAND (snd (erase_key drv s)) = STAGED_TEST_COMMAND s \<and>
   LATEST_TEST_RESULT (snd (erase_key drv s)) = LATEST_TEST_RESULT s"
proof -
  have "st_keeps STAGED_TEST_COMMAND (remove_key drv k err)" "st_keeps LATEST_TEST_RESULT (remove_key drv k err)" for k err
    by (auto simp: st_keeps_def remove_key_def split: prod.splits)
  then have "st_keeps STAGED_TEST_COMMAND (erase_key drv)" "st_keeps LATEST_TEST_RESULT (erase_key drv)"
    unfolding erase_key_def by blast+
  then show ?thesis by (simp add: st_keeps_def)
qed

text \<open>C36. Factory reset, whichever flash operations fail: on success both program partitions, the schedule, the
  channel, the pairing artefacts, the test records and the key are gone, the layout of the maps is
  invalid and every byte of the maps is zero. An error before the key is erased leaves the key as it
  was, so that the node is still paired and the reset can be retried; an error of erasing the key
  itself comes when everything else has been wiped (the key may then be gone or not).\<close>

theorem factory_reset_key_last:
  assumes "nvs_driver_ok drv" and "maps_within st r" and "factory_reset drv st (s, r) = (res, (s', r'))"
  shows "if res = Inr () then wiped st s' r' \<and> read_key s' = None
    else (\<exists>e. fst (reset_artefacts drv st (s, r)) = Inl e) \<and> read_key s' = read_key s \<or>
      wiped st s' r' \<and> (\<exists>t e. erase_key drv t = (Inl e, s') \<and> read_key t = read_key s)"
proof -
  obtain res1 s1 r1 where art: "reset_artefacts drv st (s, r) = (res1, (s1, r1))" by (metis surj_pair)
  have key: "read_key s1 = read_key s"
    using st_keepsD [OF reset_artefacts_keeps_key [OF assms(1)] art] by simp
  show ?thesis
  proof (cases res1)
    case (Inl e)
    with art assms(3) key show ?thesis by (auto simp: factory_reset_def st_seq_def st_bind_def)
  next
    case (Inr u)
    with art assms(3) have e: "erase_key drv s1 = (res, s')" "r1 = r'"
      by (auto simp: factory_reset_def st_seq_def st_bind_def on_storage_Pair)
    have "wiped st s1 r1" using reset_artefacts_wipes [OF assms(1)] art Inr assms(2) by simp
    moreover have "wiped st s' r1 = wiped st s1 r1"
      using wiped_cong [OF touches_storage_ops(8) [OF assms(1)], of s1 st r1] nvs_ops_keep_rtc [of drv s1] by (simp add: e)
    ultimately show ?thesis using erase_key_None [OF assms(1)] e key by (cases res) auto
  qed
qed

theorem factory_reset_key_last_witness:
  "\<exists>st r s' r'. st_maps st \<noteq> [] \<and> (\<forall>mi \<in> set (st_maps st). mi_len mi = 2 \<and> rtc_backing r ! mi_off mi = 9) \<and>
     factory_reset perfect_driver st (blank_storage, r) = (Inr (), (s', r')) \<and> wiped st s' r'"
proof -
  let ?d = "\<lparr>md_map_type = 1, md_key_size = 1, md_value_size = 1, md_max_entries = 1\<rparr>"
  let ?st = "(storage_new 0)\<lparr>st_maps := [\<lparr>mi_def = ?d, mi_off = 1, mi_len = 2, mi_entry_size = 2\<rparr>]\<rparr>"
  let ?r = "\<lparr>rtc_backing = [5, 9, 9, 5], rtc_map_count = 1, rtc_defs = [?d]\<rparr>"
  have "fst (factory_reset perfect_driver ?st (blank_storage, ?r)) = Inr ()"
    by (simp add: factory_reset_def reset_artefacts_def st_seq_def st_bind_def on_storage_def clear_maps_def
        erase_program_def reset_schedule_def write_channel_def erase_peer_payload_def write_reg_complete_def
        clear_staged_test_command_def clear_test_result_def erase_key_def remove_key_def set_u32_def perfect_driver_def)
  then obtain s' r' where f: "factory_reset perfect_driver ?st (blank_storage, ?r) = (Inr (), (s', r'))" by (metis prod.collapse)
  have "maps_within ?st ?r" by (simp add: maps_within_def)
  from factory_reset_key_last [OF perfect_driver_ok this f] have "wiped ?st s' r'" by simp
  with f show ?thesis by (intro exI [of _ ?st] exI [of _ ?r] exI [of _ s'] exI [of _ r']) simp
qed

end
