(* ===== verification/Sleep_Manager.thy ===== *)
theory Sleep_Manager
  imports Sonde_Prelude
begin

text \<open>The wake intervals of the node (\<open>sonde-node/src/sleep.rs\<close>).\<close>

datatype wake_reason = Scheduled | Early | ProgramUpdate

fun wake_reason_code :: "wake_reason \<Rightarrow> u8" where
  "wake_reason_code Scheduled = 0x00"
| "wake_reason_code Early = 0x01"
| "wake_reason_code ProgramUpdate = 0x02"

definition MIN_SLEEP_INTERVAL_S :: u32 where "MIN_SLEEP_INTERVAL_S = 1"

record sleep_manager =
  base_interval_s :: u32
  next_wake_override_s :: "u32 option"
  sm_wake_reason :: wake_reason

definition sleep_new :: "u32 \<Rightarrow> wake_reason \<Rightarrow> sleep_manager" where
  "sleep_new base reason = \<lparr>base_interval_s = base, next_wake_override_s = None, sm_wake_reason = reason\<rparr>"

definition set_base_interval :: "u32 \<Rightarrow> sleep_manager \<Rightarrow> sleep_manager" where
  "set_base_interval i m = m\<lparr>base_interval_s := i\<rparr>"

definition set_next_wake :: "u32 \<Rightarrow> sleep_manager \<Rightarrow> sleep_manager" where
  "set_next_wake secs m = m\<lparr>next_wake_override_s := Some secs\<rparr>"

definition set_wake_reason :: "wake_reason \<Rightarrow> sleep_manager \<Rightarrow> sleep_manager" where
  "set_wake_reason r m = m\<lparr>sm_wake_reason := r\<rparr>"

definition effective_sleep_s :: "sleep_manager \<Rightarrow> u32" where
  "effective_sleep_s m =
     (let raw = (case next_wake_override_s m of
                   Some override_s \<Rightarrow> min override_s (base_interval_s m)
                 | None \<Rightarrow> base_interval_s m)
      in max raw MIN_SLEEP_INTERVAL_S)"

definition will_wake_early :: "sleep_manager \<Rightarrow> bool" where
  "will_wake_early m =
     (case next_wake_override_s m of Some override_s \<Rightarrow> override_s < base_interval_s m | None \<Rightarrow> False)"

lemma effective_sleep_bounds:
  "1 \<le> effective_sleep_s m" "effective_sleep_s m \<le> max (base_interval_s m) 1"
  unfolding effective_sleep_s_def MIN_SLEEP_INTERVAL_S_def Let_def
  by (rule max.cobounded2) (rule max.mono, auto split: option.splits)

lemma effective_sleep_early:
  "will_wake_early m \<Longrightarrow> effective_sleep_s m = max (the (next_wake_override_s m)) 1 \<and> effective_sleep_s m \<le> max (base_interval_s m) 1"
  using effective_sleep_bounds(2) [of m]
  by (auto simp: effective_sleep_s_def will_wake_early_def MIN_SLEEP_INTERVAL_S_def min_def split: option.splits)

end
