(* ===== verification/Node_Radio.thy ===== *)
theory Node_Radio
  imports Messages Program_Store Sleep_Manager
begin

text \<open>
  The radio exchanges of the node (\<open>sonde-node/src/wake_cycle.rs\<close>, \<open>peer_request.rs\<close>): WAKE and COMMAND,
  application data, chunked program transfer and registration. The transport and the clock are traits
  of the platform. What they will do is a script: the outcome of each receive, in order, with the time
  it takes, and of each send; when the script is used up, receives time out and sends succeed. A
  statement about every script is a statement about every finite behaviour of the radio. Time passes
  while the node waits. Log output is not modelled; \<open>current_seq += 1\<close> wraps, as in a release build.
\<close>

section \<open>Transport and clock\<close>

datatype rx_event = RxFrame nat bytes | RxTimeout | RxError node_error

record radio =
  rx_script :: "rx_event list"
  tx_script :: "node_error option list"
  sent :: "bytes list"
  now_ms :: nat

definition radio_send :: "bytes \<Rightarrow> (radio, node_error, unit) op" where
  "radio_send frame w =
     (case tx_script w of
        Some e # ts \<Rightarrow> (Inl e, w\<lparr>tx_script := ts\<rparr>)
      | _ \<Rightarrow> (Inr (), w\<lparr>tx_script := tl (tx_script w), sent := sent w @ [frame]\<rparr>))"

definition radio_recv :: "nat \<Rightarrow> (radio, node_error, bytes option) op" where
  "radio_recv timeout w =
     (case rx_script w of
        [] \<Rightarrow> (Inr None, w\<lparr>now_ms := now_ms w + timeout\<rparr>)
      | RxTimeout # es \<Rightarrow> (Inr None, w\<lparr>rx_script := es, now_ms := now_ms w + timeout\<rparr>)
      | RxError e # es \<Rightarrow> (Inl e, w\<lparr>rx_script := es\<rparr>)
      | RxFrame dt f # es \<Rightarrow> (Inr (Some f), w\<lparr>rx_script := es, now_ms := now_ms w + min dt timeout\<rparr>))"

definition delay_ms :: "nat \<Rightarrow> radio \<Rightarrow> radio" where
  "delay_ms ms w = w\<lparr>now_ms := now_ms w + ms\<rparr>"

definition sat_add64 :: "nat \<Rightarrow> nat \<Rightarrow> nat" where
  "sat_add64 a b = min (a + b) (2 ^ 64 - 1)"

text \<open>The cryptographic providers, the CBOR library and the package version, as one argument.\<close>

record node_env =
  en_seal :: seal_fn
  en_open :: open_fn
  en_sha :: sha_fn
  en_ser :: cbor_ser
  en_de :: cbor_de
  en_version :: string

definition MAX_RETRIES :: nat where "MAX_RETRIES = 3"
definition RETRY_DELAY_MS :: nat where "RETRY_DELAY_MS = 400"
definition RESPONSE_TIMEOUT_MS :: nat where "RESPONSE_TIMEOUT_MS = 200"
definition FIRMWARE_ABI_VERSION :: u32 where "FIRMWARE_ABI_VERSION = 2"

section \<open>Frames\<close>

definition decode_verify_frame :: "node_env \<Rightarrow> bytes \<Rightarrow> bytes \<Rightarrow> node_error + (frame_header \<times> bytes)" where
  "decode_verify_frame env psk raw =
     (case decode_frame raw of
        Inl _ \<Rightarrow> Inl (MalformedPayload ''frame decode failed'')
      | Inr d \<Rightarrow>
          (case open_frame d psk (en_open env) (en_sha env) of
             Inl _ \<Rightarrow> Inl AuthFailure
           | Inr payload \<Rightarrow> Inr (df_header d, payload)))"

definition make_frame :: "node_env \<Rightarrow> node_identity \<Rightarrow> u8 \<Rightarrow> u64 \<Rightarrow> bytes \<Rightarrow> node_error + bytes" where
  "make_frame env ident t n payload =
     (case encode_frame \<lparr>key_hint = id_key_hint ident, msg_type = t, nonce = n\<rparr> payload (id_psk ident)
             (en_seal env) (en_sha env) of
        Inl _ \<Rightarrow> Inl (MalformedPayload ''frame encode failed'')
      | Inr f \<Rightarrow> Inr f)"

definition make_payload :: "node_env \<Rightarrow> node_message \<Rightarrow> string \<Rightarrow> node_error + bytes" where
  "make_payload env m err =
     (case node_message_encode (en_ser env) m of Inl _ \<Rightarrow> Inl (MalformedPayload err) | Inr b \<Rightarrow> Inr b)"

section \<open>WAKE and COMMAND\<close>

type_synonym command = "u64 \<times> u64 \<times> command_payload \<times> bytes option"

definition nop_field :: "u64 option \<times> u64 option \<Rightarrow> cbor_value \<times> cbor_value \<Rightarrow> u64 option \<times> u64 option" where
  "nop_field st kv =
     (case kv of (k, v) \<Rightarrow>
        let key = Option.bind (as_integer k) to_unsigned;
            val = Option.bind (as_integer v) to_unsigned
        in if key = Some KEY_STARTING_SEQ then (val, snd st)
           else if key = Some KEY_TIMESTAMP_MS then (fst st, val)
           else st)"

definition decode_command_as_nop :: "node_env \<Rightarrow> bytes \<Rightarrow> node_error + command" where
  "decode_command_as_nop env payload =
     (case en_de env payload of
        Inl _ \<Rightarrow> Inl (MalformedPayload ''CBOR decode failed'')
      | Inr value \<Rightarrow>
          (case as_map value of
             None \<Rightarrow> Inl (MalformedPayload ''expected CBOR map'')
           | Some fs \<Rightarrow>
               (case foldl nop_field (None, None) fs of (seq, ts) \<Rightarrow>
                  res_bind (ok_or (MalformedPayload ''missing starting_seq in unknown command'') seq) (\<lambda>s.
                  res_bind (ok_or (MalformedPayload ''missing timestamp_ms in unknown command'') ts) (\<lambda>t.
                    Inr (s, t, Nop, None))))))"

definition verify_and_decode_command :: "node_env \<Rightarrow> node_identity \<Rightarrow> u64 \<Rightarrow> bytes \<Rightarrow> node_error + command" where
  "verify_and_decode_command env ident expected_nonce raw =
     res_bind (decode_verify_frame env (id_psk ident) raw) (\<lambda>(h, payload).
       if msg_type h \<noteq> MSG_COMMAND then Inl (UnexpectedMsgType (msg_type h))
       else if nonce h \<noteq> expected_nonce then Inl ResponseBindingMismatch
       else
         (case gateway_message_decode (en_de env) (msg_type h) payload of
            Inl (InvalidCommandType _) \<Rightarrow> decode_command_as_nop env payload
          | Inl _ \<Rightarrow> Inl (MalformedPayload ''COMMAND payload decode failed'')
          | Inr (Command seq ts cmd blob) \<Rightarrow> Inr (seq, ts, cmd, blob)
          | Inr _ \<Rightarrow> Inl (UnexpectedMsgType (msg_type h))))"

primrec wake_attempts ::
    "node_env \<Rightarrow> node_identity \<Rightarrow> u64 \<Rightarrow> bytes \<Rightarrow> nat \<Rightarrow> nat \<Rightarrow> (radio, node_error, command) op" where
  "wake_attempts env ident wn frame attempt 0 w = (Inl WakeRetriesExhausted, w)"
| "wake_attempts env ident wn frame attempt (Suc left) w =
     st_seq (radio_send frame) (st_bind (radio_recv RESPONSE_TIMEOUT_MS) (\<lambda>r.
       case r of
         None \<Rightarrow> wake_attempts env ident wn frame (attempt + 1) left
       | Some raw \<Rightarrow>
           (case verify_and_decode_command env ident wn raw of
              Inr cmd \<Rightarrow> st_return cmd
            | Inl _ \<Rightarrow> wake_attempts env ident wn frame (attempt + 1) left)))
       (if attempt > 0 then delay_ms RETRY_DELAY_MS w else w)"

definition wake_message :: "node_env \<Rightarrow> bytes \<Rightarrow> u32 \<Rightarrow> bytes option \<Rightarrow> node_message" where
  "wake_message env ph battery blob = Wake FIRMWARE_ABI_VERSION ph battery (en_version env) blob"

definition wake_command_exchange ::
    "node_env \<Rightarrow> node_identity \<Rightarrow> u64 \<Rightarrow> bytes \<Rightarrow> u32 \<Rightarrow> bytes option \<Rightarrow> (radio, node_error, command) op" where
  "wake_command_exchange env ident wn ph battery blob =
     st_bind (st_lift (make_payload env (wake_message env ph battery blob) ''WAKE message encode failed'')) (\<lambda>payload.
     st_bind (st_lift (make_frame env ident MSG_WAKE wn payload)) (\<lambda>frame.
       wake_attempts env ident wn frame 0 (MAX_RETRIES + 1)))"

section \<open>Messages of a session\<close>

text \<open>After the COMMAND, frames are numbered by \<open>current_seq\<close>.\<close>

record link =
  lk_radio :: radio
  lk_seq :: u64

definition on_radio :: "(radio, 'e, 'a) op \<Rightarrow> (link, 'e, 'a) op" where
  "on_radio m l = (case m (lk_radio l) of (r, w) \<Rightarrow> (r, l\<lparr>lk_radio := w\<rparr>))"

definition send_numbered :: "node_env \<Rightarrow> node_identity \<Rightarrow> u8 \<Rightarrow> bytes \<Rightarrow> (link, node_error, u64) op" where
  "send_numbered env ident t payload l =
     st_bind (st_lift (make_frame env ident t (lk_seq l) payload)) (\<lambda>frame.
     st_bind (on_radio (radio_send frame)) (\<lambda>_ l'. (Inr (lk_seq l'), l'\<lparr>lk_seq := lk_seq l' + 1\<rparr>))) l"

definition app_data_payload :: "node_env \<Rightarrow> bytes \<Rightarrow> node_error + bytes" where
  "app_data_payload env blob =
     (if length blob > MAX_PAYLOAD_SIZE then Inl (MalformedPayload ''APP_DATA blob exceeds frame payload budget'')
      else res_bind (make_payload env (AppData blob) ''APP_DATA message encode failed'') (\<lambda>payload.
        if length payload > MAX_PAYLOAD_SIZE then
          Inl (MalformedPayload ''APP_DATA payload exceeds frame payload budget'')
        else Inr payload))"

definition send_app_data :: "node_env \<Rightarrow> node_identity \<Rightarrow> bytes \<Rightarrow> (link, node_error, unit) op" where
  "send_app_data env ident blob =
     st_bind (st_lift (app_data_payload env blob)) (\<lambda>payload.
     st_bind (send_numbered env ident MSG_APP_DATA payload) (\<lambda>_. st_return ()))"

definition app_data_reply :: "node_env \<Rightarrow> node_identity \<Rightarrow> u64 \<Rightarrow> bytes \<Rightarrow> bytes option" where
  "app_data_reply env ident seq raw =
     (case decode_verify_frame env (id_psk ident) raw of
        Inl _ \<Rightarrow> None
      | Inr (h, payload) \<Rightarrow>
          if msg_type h \<noteq> MSG_APP_DATA_REPLY then None
          else if nonce h \<noteq> seq then None
          else (case gateway_message_decode (en_de env) (msg_type h) payload of
                  Inr (AppDataReply blob) \<Rightarrow> Some blob
                | _ \<Rightarrow> None))"

function reply_loop :: "node_env \<Rightarrow> node_identity \<Rightarrow> u64 \<Rightarrow> nat \<Rightarrow> (radio, node_error, bytes) op" where
  "reply_loop env ident seq deadline w =
     (if now_ms w \<ge> deadline then (Inl Timeout, w)
      else
        case radio_recv ((deadline - now_ms w) mod 2 ^ 32) w of
          (Inl e, w') \<Rightarrow> (Inl e, w')
        | (Inr None, w') \<Rightarrow> (Inl Timeout, w')
        | (Inr (Some raw), w') \<Rightarrow>
            (case app_data_reply env ident seq raw of
               Some blob \<Rightarrow> (Inr blob, w')
             | None \<Rightarrow> reply_loop env ident seq deadline w'))"
  by pat_completeness auto

lemma radio_recv_consumes: "radio_recv t w = (Inr (Some raw), w') \<Longrightarrow> length (rx_script w') < length (rx_script w)"
  by (auto simp: radio_recv_def split: list.splits rx_event.splits)

termination reply_loop
  by (relation "measure (\<lambda>(env, ident, seq, deadline, w). length (rx_script w))")
    (auto dest: sym [THEN radio_recv_consumes] radio_recv_consumes)

definition send_recv_app_data ::
    "node_env \<Rightarrow> node_identity \<Rightarrow> bytes \<Rightarrow> u32 \<Rightarrow> (link, node_error, bytes) op" where
  "send_recv_app_data env ident blob timeout_ms =
     st_bind (st_lift (app_data_payload env blob)) (\<lambda>payload.
     st_bind (send_numbered env ident MSG_APP_DATA payload) (\<lambda>seq.
       on_radio (\<lambda>w. reply_loop env ident seq (sat_add64 (now_ms w) (unat timeout_ms)) w)))"

definition send_program_ack :: "node_env \<Rightarrow> node_identity \<Rightarrow> bytes \<Rightarrow> (link, node_error, unit) op" where
  "send_program_ack env ident ph =
     st_bind (st_lift (make_payload env (ProgramAck ph) ''PROGRAM_ACK message encode failed'')) (\<lambda>payload.
     st_bind (send_numbered env ident MSG_PROGRAM_ACK payload) (\<lambda>_. st_return ()))"

section \<open>Chunked transfer\<close>

definition verify_and_decode_chunk ::
    "node_env \<Rightarrow> node_identity \<Rightarrow> u64 \<Rightarrow> u32 \<Rightarrow> bytes \<Rightarrow> node_error + bytes" where
  "verify_and_decode_chunk env ident expected_seq expected_index raw =
     res_bind (decode_verify_frame env (id_psk ident) raw) (\<lambda>(h, payload).
       if msg_type h \<noteq> MSG_CHUNK then Inl (UnexpectedMsgType (msg_type h))
       else if nonce h \<noteq> expected_seq then Inl ResponseBindingMismatch
       else
         (case gateway_message_decode (en_de env) (msg_type h) payload of
            Inl _ \<Rightarrow> Inl (MalformedPayload ''CHUNK payload decode failed'')
          | Inr (Chunk i d) \<Rightarrow>
              if i \<noteq> expected_index then Inl (ChunkIndexMismatch expected_index i) else Inr d
          | Inr _ \<Rightarrow> Inl (UnexpectedMsgType (msg_type h))))"

text \<open>The inner loop of a request: \<open>None\<close> is a \<open>break\<close>, which counts as a failed attempt.\<close>

function chunk_wait :: "node_env \<Rightarrow> node_identity \<Rightarrow> u64 \<Rightarrow> u32 \<Rightarrow> nat \<Rightarrow> (radio, node_error, bytes option) op" where
  "chunk_wait env ident seq ci deadline w =
     (if now_ms w \<ge> deadline then (Inr None, w)
      else
        case radio_recv ((deadline - now_ms w) mod 2 ^ 32) w of
          (Inl e, w') \<Rightarrow> (Inl e, w')
        | (Inr None, w') \<Rightarrow> (Inr None, w')
        | (Inr (Some raw), w') \<Rightarrow>
            (case verify_and_decode_chunk env ident seq ci raw of
               Inr d \<Rightarrow> (Inr (Some d), w')
             | Inl (UnexpectedMsgType _) \<Rightarrow> chunk_wait env ident seq ci deadline w'
             | Inl _ \<Rightarrow> (Inr None, w')))"
  by pat_completeness auto

termination chunk_wait
  by (relation "measure (\<lambda>(env, ident, seq, ci, deadline, w). length (rx_script w))")
    (auto dest: sym [THEN radio_recv_consumes] radio_recv_consumes)

declare reply_loop.simps [simp del] chunk_wait.simps [simp del]

primrec chunk_attempts ::
    "node_env \<Rightarrow> node_identity \<Rightarrow> u32 \<Rightarrow> bytes \<Rightarrow> nat \<Rightarrow> nat \<Rightarrow> (link, node_error, bytes) op" where
  "chunk_attempts env ident ci payload attempt 0 l = (Inl (ChunkTransferFailed ci), l)"
| "chunk_attempts env ident ci payload attempt (Suc left) l =
     st_bind (send_numbered env ident MSG_GET_CHUNK payload) (\<lambda>seq.
     st_bind (on_radio (\<lambda>w. chunk_wait env ident seq ci (sat_add64 (now_ms w) RESPONSE_TIMEOUT_MS) w)) (\<lambda>r.
       case r of
         Some d \<Rightarrow> st_return d
       | None \<Rightarrow> chunk_attempts env ident ci payload (attempt + 1) left))
       (if attempt > 0 then l\<lparr>lk_radio := delay_ms RETRY_DELAY_MS (lk_radio l)\<rparr> else l)"

definition get_chunk_with_retry :: "node_env \<Rightarrow> node_identity \<Rightarrow> u32 \<Rightarrow> (link, node_error, bytes) op" where
  "get_chunk_with_retry env ident ci =
     st_bind (st_lift (make_payload env (GetChunk ci) ''GET_CHUNK message encode failed'')) (\<lambda>payload.
       chunk_attempts env ident ci payload 0 (MAX_RETRIES + 1))"

primrec transfer_loop ::
    "node_env \<Rightarrow> node_identity \<Rightarrow> nat \<Rightarrow> nat \<Rightarrow> bytes \<Rightarrow> nat list \<Rightarrow> (link, node_error, bytes) op" where
  "transfer_loop env ident psize csize img [] = st_return img"
| "transfer_loop env ident psize csize img (ci # cis) =
     st_bind (get_chunk_with_retry env ident (of_nat ci)) (\<lambda>d.
       if length d > csize then st_fail (MalformedPayload ''received chunk larger than declared chunk_size'')
       else if length img + length d > psize then
         st_fail (MalformedPayload ''received data exceeds declared program_size'')
       else transfer_loop env ident psize csize (img @ d) cis)"

definition chunked_transfer ::
    "node_env \<Rightarrow> node_identity \<Rightarrow> u32 \<Rightarrow> u32 \<Rightarrow> u32 \<Rightarrow> nat \<Rightarrow> (link, node_error, bytes) op" where
  "chunked_transfer env ident program_size chunk_size ccount max_image_size =
     (if unat program_size > max_image_size then
        st_fail (MalformedPayload ''program_size exceeds maximum image size'')
      else if chunk_size = 0 then st_fail (MalformedPayload ''chunk_size is zero'')
      else if chunk_count (unat program_size) (unat chunk_size) \<noteq> Some ccount then
        st_fail (MalformedPayload ''chunk_count does not match program_size / chunk_size'')
      else
        st_bind (transfer_loop env ident (unat program_size) (unat chunk_size) [] [0..<unat ccount]) (\<lambda>img.
          if length img \<noteq> unat program_size then
            st_fail (MalformedPayload ''assembled program size does not match declared program_size'')
          else st_return img))"

end
