(* ===== verification/Wake_Cycle.thy ===== *)
theory Wake_Cycle
  imports Node_Radio Async_Queue
begin

text \<open>
  The wake cycle of the node (\<open>sonde-node/src/wake_cycle.rs\<close>, \<open>run_wake_cycle\<close>) and the registration
  exchange it starts with (\<open>sonde-node/src/peer_request.rs\<close>): boot, WAKE, COMMAND, dispatch, transfer,
  execution, sleep. The random number generator's answers, the ADC and the execution of a BPF program
  by the interpreter with the helpers of \<open>bpf_dispatch\<close> are fields of the platform: \<open>pf_exec\<close> gets a
  request and what the helpers can reach (\<open>bpf_view\<close>), and returns it changed; the theory \<open>Node_Bpf\<close>
  defines the execution of the firmware.
\<close>

section \<open>Registration\<close>

definition PEER_ACK_TIMEOUT_MS :: nat where "PEER_ACK_TIMEOUT_MS = 10000"
definition PEER_ACK_STATUS_OK :: u64 where "PEER_ACK_STATUS_OK = 0"

definition build_peer_request_frame :: "bytes \<Rightarrow> node_error + bytes" where
  "build_peer_request_frame complete_frame =
     (case decode_frame complete_frame of
        Inl _ \<Rightarrow> Inl (MalformedPayload ''PEER_REQUEST frame is not a valid AEAD frame'')
      | Inr d \<Rightarrow>
          if msg_type (df_header d) \<noteq> MSG_PEER_REQUEST then Inl (UnexpectedMsgType (msg_type (df_header d)))
          else Inr complete_frame)"

definition ack_field :: "u64 option \<Rightarrow> cbor_value \<times> cbor_value \<Rightarrow> node_error + u64 option" where
  "ack_field status kv =
     (case kv of (k, v) \<Rightarrow>
        res_bind (ok_or (MalformedPayload ''PEER_ACK non-integer key'') (Option.bind (as_integer k) to_unsigned)) (\<lambda>key.
          Inr (if key = PEER_ACK_KEY_STATUS then Option.bind (as_integer v) to_unsigned else status)))"

definition verify_peer_ack :: "node_env \<Rightarrow> node_identity \<Rightarrow> u64 \<Rightarrow> bytes \<Rightarrow> node_error + unit" where
  "verify_peer_ack env ident expected_nonce raw =
     (case decode_frame raw of
        Inl _ \<Rightarrow> Inl (MalformedPayload ''PEER_ACK decode failed'')
      | Inr d \<Rightarrow>
          (case open_frame d (id_psk ident) (en_open env) (en_sha env) of
             Inl _ \<Rightarrow> Inl AuthFailure
           | Inr payload \<Rightarrow>
               if msg_type (df_header d) \<noteq> MSG_PEER_ACK then Inl (UnexpectedMsgType (msg_type (df_header d)))
               else if nonce (df_header d) \<noteq> expected_nonce then Inl ResponseBindingMismatch
               else
                 (case en_de env payload of
                    Inl _ \<Rightarrow> Inl (MalformedPayload ''PEER_ACK CBOR decode failed'')
                  | Inr cbor \<Rightarrow>
                      res_bind (ok_or (MalformedPayload ''PEER_ACK payload is not a map'') (as_map cbor)) (\<lambda>m.
                      res_bind (res_fold ack_field None m) (\<lambda>status.
                      res_bind (ok_or (MalformedPayload ''PEER_ACK missing status field'') status) (\<lambda>st.
                        if st \<noteq> PEER_ACK_STATUS_OK then Inl (MalformedPayload ''PEER_ACK status is not registered'')
                        else Inr ()))))))"

function peer_ack_loop ::
    "nvs_driver \<Rightarrow> node_env \<Rightarrow> node_identity \<Rightarrow> u64 \<Rightarrow> nat \<Rightarrow> (radio \<times> node_storage, node_error, bool) op" where
  "peer_ack_loop drv env ident n start_ms ws =
     (case ws of (w, s) \<Rightarrow>
        let elapsed = now_ms w - start_ms in
        if elapsed \<ge> PEER_ACK_TIMEOUT_MS then (Inr False, (w, s))
        else
          case radio_recv (min (PEER_ACK_TIMEOUT_MS - elapsed) 500) w of
            (Inl e, w') \<Rightarrow> (Inl e, (w', s))
          | (Inr None, w') \<Rightarrow> peer_ack_loop drv env ident n start_ms (w', s)
          | (Inr (Some raw), w') \<Rightarrow>
              (case verify_peer_ack env ident n raw of
                 Inl _ \<Rightarrow> peer_ack_loop drv env ident n start_ms (w', s)
               | Inr _ \<Rightarrow>
                   (case write_reg_complete drv True s of
                      (Inl e, s') \<Rightarrow> (Inl e, (w', s'))
                    | (Inr _, s') \<Rightarrow> (Inr True, (w', s')))))"
  by pat_completeness auto

text \<open>Each round uses up an event of the script, or, when there is none left, part of the ten seconds.\<close>

lemma recv_advances:
  assumes "radio_recv t w = (Inr r, w')" and "0 < t"
  shows "length (rx_script w') + (b - now_ms w') < length (rx_script w) + (b - now_ms w) \<or> b \<le> now_ms w"
  using assms by (auto simp: radio_recv_def split: list.splits rx_event.splits)

lemma ack_loop_decreases:
  assumes "radio_recv (min (PEER_ACK_TIMEOUT_MS - (now_ms w - start_ms)) 500) w = (Inr r, w')"
    and "\<not> PEER_ACK_TIMEOUT_MS \<le> now_ms w - start_ms"
  shows "length (rx_script w') + (PEER_ACK_TIMEOUT_MS + start_ms - now_ms w') <
    length (rx_script w) + (PEER_ACK_TIMEOUT_MS + start_ms - now_ms w)"
  using recv_advances [OF assms(1), of "PEER_ACK_TIMEOUT_MS + start_ms"] assms(2) by auto

termination peer_ack_loop
  by (relation "measure (\<lambda>(drv, env, ident, n, start_ms, w, s).
    length (rx_script w) + (PEER_ACK_TIMEOUT_MS + start_ms - now_ms w))")
    (auto dest: ack_loop_decreases [OF sym])

declare peer_ack_loop.simps [simp del]

definition peer_request_exchange ::
    "nvs_driver \<Rightarrow> node_env \<Rightarrow> node_identity \<Rightarrow> bytes \<Rightarrow> (radio \<times> node_storage, node_error, bool) op" where
  "peer_request_exchange drv env ident complete_frame ws =
     (case build_peer_request_frame complete_frame of
        Inl e \<Rightarrow> (Inl e, ws)
      | Inr frame \<Rightarrow>
          (case decode_frame frame of
             Inl _ \<Rightarrow> (Inl (MalformedPayload ''cannot decode validated frame''), ws)
           | Inr d \<Rightarrow>
               (case radio_send frame (fst ws) of
                  (Inl e, w) \<Rightarrow> (Inl e, (w, snd ws))
                | (Inr _, w) \<Rightarrow> peer_ack_loop drv env ident (nonce (df_header d)) (now_ms w) (w, snd ws))))"

section \<open>State and environment of a cycle\<close>

datatype wake_cycle_outcome = Sleep u32 | RebootNode | UnpairedNode

record node =
  nd_radio :: radio
  nd_storage :: node_storage
  nd_maps :: map_storage
  nd_rtc :: rtc_memory
  nd_queue :: rtc_queue
  nd_gpio_active :: bool

datatype program_class = Resident | Ephemeral

record sonde_context =
  cx_timestamp :: u64
  cx_battery_mv :: u16
  cx_firmware_abi_version :: u16
  cx_wake_reason :: u8
  cx_data_start :: u64
  cx_data_end :: u64

record bpf_view =
  bv_link :: link
  bv_rtc :: rtc_memory
  bv_sleep :: sleep_manager
  bv_queue :: rtc_queue

text \<open>What an execution is given beside what it may change: the program, the context, the maps and the
  definitions they are loaded with, the downlink blob, and the constants of the dispatch context.\<close>

record exec_request =
  xr_program :: loaded_program
  xr_class :: program_class
  xr_context :: sonde_context
  xr_maps :: map_storage
  xr_load_defs :: "map_def list"
  xr_blob :: "bytes option"
  xr_identity :: node_identity
  xr_timestamp_ms :: u64
  xr_received_at_ms :: nat
  xr_battery_mv :: u32

type_synonym bpf_exec = "exec_request \<Rightarrow> bpf_view \<Rightarrow> bpf_view"

text \<open>The platform: NVS driver, address of the map buffer, board layout, ADC (raw code and millivolts),
  health check and next value of the random number generator, address of the downlink blob.\<close>

record platform =
  pf_drv :: nvs_driver
  pf_map_base :: u64
  pf_layout :: board_layout
  pf_adc :: "u32 \<Rightarrow> int \<times> int"
  pf_rng_ok :: bool
  pf_rng_u64 :: u64
  pf_blob_addr :: u64
  pf_exec :: bpf_exec

datatype 'a cycle = Done wake_cycle_outcome node | Continue 'a node

definition cycle_bind :: "'a cycle \<Rightarrow> ('a \<Rightarrow> node \<Rightarrow> 'b cycle) \<Rightarrow> 'b cycle" where
  "cycle_bind c k = (case c of Done out nd \<Rightarrow> Done out nd | Continue x nd \<Rightarrow> k x nd)"

section \<open>Battery and sleep\<close>

definition BATTERY_FALLBACK_MV :: u32 where "BATTERY_FALLBACK_MV = 0"
definition SENSOR_BUS_STABILIZE_MS :: nat where "SENSOR_BUS_STABILIZE_MS = 1"
definition BATTERY_DIVIDER_SETTLE_MS :: nat where "BATTERY_DIVIDER_SETTLE_MS = 50"
definition BATTERY_DIVIDER_RATIO :: nat where "BATTERY_DIVIDER_RATIO = 2"
definition MAX_RESIDENT_IMAGE_SIZE :: nat where "MAX_RESIDENT_IMAGE_SIZE = 4096"
definition MAX_EPHEMERAL_IMAGE_SIZE :: nat where "MAX_EPHEMERAL_IMAGE_SIZE = 2048"

definition is_supported_battery_adc_gpio :: "u8 \<Rightarrow> bool" where
  "is_supported_battery_adc_gpio pin \<longleftrightarrow> pin \<le> 4"

definition gpio_to_adc_channel :: "u8 \<Rightarrow> u32 option" where
  "gpio_to_adc_channel pin = (if is_supported_battery_adc_gpio pin then Some (ucast pin) else None)"

definition capture_current_cycle_battery :: "platform \<Rightarrow> u32" where
  "capture_current_cycle_battery pf =
     (case battery_adc (pf_layout pf) of
        None \<Rightarrow> BATTERY_FALLBACK_MV
      | Some battery_pin \<Rightarrow>
          (case gpio_to_adc_channel battery_pin of
             None \<Rightarrow> BATTERY_FALLBACK_MV
           | Some channel \<Rightarrow>
               (case pf_adc pf channel of (raw, sensed_mv) \<Rightarrow>
                  if sensed_mv < 0 then BATTERY_FALLBACK_MV
                  else of_nat (min (nat sensed_mv * BATTERY_DIVIDER_RATIO) (2 ^ 32 - 1)))))"

definition active_gpio_settle_ms :: "board_layout \<Rightarrow> nat" where
  "active_gpio_settle_ms layout =
     (if Option.bind (battery_adc layout) gpio_to_adc_channel \<noteq> None then BATTERY_DIVIDER_SETTLE_MS
      else SENSOR_BUS_STABILIZE_MS)"

definition persist_current_cycle_battery :: "platform \<Rightarrow> node \<Rightarrow> u32 \<times> node" where
  "persist_current_cycle_battery pf nd =
     (let mv = capture_current_cycle_battery pf in
      (mv, nd\<lparr>nd_storage := snd (write_last_battery_mv mv (nd_storage nd))\<rparr>))"

definition activate_gpio :: "platform \<Rightarrow> node \<Rightarrow> node" where
  "activate_gpio pf nd =
     nd\<lparr>nd_gpio_active := True, nd_radio := delay_ms (active_gpio_settle_ms (pf_layout pf)) (nd_radio nd)\<rparr>"

definition log_and_sleep :: "sleep_manager \<Rightarrow> wake_cycle_outcome" where
  "log_and_sleep sm = Sleep (effective_sleep_s sm)"

definition capture_battery_then_sleep :: "platform \<Rightarrow> sleep_manager \<Rightarrow> node \<Rightarrow> 'a cycle" where
  "capture_battery_then_sleep pf sm nd =
     (let nd1 = snd (persist_current_cycle_battery pf (activate_gpio pf nd)) in
      Done (log_and_sleep sm) (nd1\<lparr>nd_gpio_active := False\<rparr>))"

definition determine_wake_reason :: "node \<Rightarrow> wake_reason \<times> node" where
  "determine_wake_reason nd =
     (case take_early_wake_flag (nd_storage nd) of (flag, s) \<Rightarrow>
        (if flag then Early else Scheduled, nd\<lparr>nd_storage := s\<rparr>))"

section \<open>The steps of a cycle\<close>

text \<open>Step 3a: the registration exchange of a node that has a peer payload and is not registered.\<close>

definition register_step :: "platform \<Rightarrow> node_env \<Rightarrow> node_identity \<Rightarrow> sleep_manager \<Rightarrow> node \<Rightarrow> unit cycle" where
  "register_step pf env ident sm nd =
     (if read_reg_complete (nd_storage nd) then Continue () nd
      else case read_peer_payload (nd_storage nd) of
             None \<Rightarrow> Continue () nd
           | Some encrypted_payload \<Rightarrow>
               (case peer_request_exchange (pf_drv pf) env ident encrypted_payload (nd_radio nd, nd_storage nd) of
                  (Inr True, (w, s)) \<Rightarrow> Continue () (nd\<lparr>nd_radio := w, nd_storage := s\<rparr>)
                | (Inr False, (w, s)) \<Rightarrow> Done (log_and_sleep sm) (nd\<lparr>nd_radio := w, nd_storage := s\<rparr>)
                | (Inl e, (w, s)) \<Rightarrow>
                    let s' = (case e of MalformedPayload _ \<Rightarrow> snd (erase_peer_payload (pf_drv pf) s) | _ \<Rightarrow> s) in
                    Done (log_and_sleep sm) (nd\<lparr>nd_radio := w, nd_storage := s'\<rparr>)))"

text \<open>Step 5a: the queued blob that fits the WAKE message.\<close>

definition piggyback_blob :: "node_env \<Rightarrow> bytes \<Rightarrow> u32 \<Rightarrow> rtc_queue \<Rightarrow> bytes option" where
  "piggyback_blob env ph battery q =
     (case single_for_piggyback MAX_PAYLOAD_SIZE q of
        None \<Rightarrow> None
      | Some blob \<Rightarrow>
          (case node_message_encode (en_ser env) (wake_message env ph battery (Some blob)) of
             Inr encoded \<Rightarrow> if length encoded \<le> MAX_PAYLOAD_SIZE then Some blob else None
           | Inl _ \<Rightarrow> None))"

text \<open>Step 6: WAKE and COMMAND, and what follows from the outcome.\<close>

definition wake_step ::
    "platform \<Rightarrow> node_env \<Rightarrow> node_identity \<Rightarrow> sleep_manager \<Rightarrow> bytes \<Rightarrow> node \<Rightarrow> command cycle" where
  "wake_step pf env ident sm ph nd =
     (let battery = (case read_last_battery_mv (nd_storage nd) of Some mv \<Rightarrow> mv | None \<Rightarrow> 0);
          blob = piggyback_blob env ph battery (nd_queue nd)
      in case wake_command_exchange env ident (pf_rng_u64 pf) ph battery blob (nd_radio nd) of
           (Inr cmd, w) \<Rightarrow>
             let s = nd_storage nd;
                 s' = (if has_peer_payload s then snd (erase_peer_payload (pf_drv pf) s) else s);
                 q = (if blob \<noteq> None then queue_clear (nd_queue nd) else nd_queue nd)
             in Continue cmd (nd\<lparr>nd_radio := w, nd_storage := s', nd_queue := q\<rparr>)
         | (Inl e, w) \<Rightarrow>
             let s = nd_storage nd;
                 s' = (if read_reg_complete s \<and> has_peer_payload s
                       then snd (write_reg_complete (pf_drv pf) False s) else s)
             in Done (log_and_sleep sm) (nd\<lparr>nd_radio := w, nd_storage := s'\<rparr>))"

text \<open>Step 8: dispatch of the command. What the rest of the cycle needs from it:\<close>

record dispatched =
  dp_seq :: u64
  dp_sleep :: sleep_manager
  dp_program :: "loaded_program option"
  dp_resident :: "bytes option"

primrec send_all :: "node_env \<Rightarrow> node_identity \<Rightarrow> bytes list \<Rightarrow> link \<Rightarrow> link" where
  "send_all env ident [] l = l"
| "send_all env ident (b # bs) l =
     (case send_app_data env ident b l of
        (Inl _, l') \<Rightarrow> l'
      | (Inr _, l') \<Rightarrow> send_all env ident bs l')"

definition link_of :: "node \<Rightarrow> u64 \<Rightarrow> link" where
  "link_of nd seq = \<lparr>lk_radio = nd_radio nd, lk_seq = seq\<rparr>"

definition transfer_step ::
    "platform \<Rightarrow> node_env \<Rightarrow> node_identity \<Rightarrow> sleep_manager \<Rightarrow> u64 \<Rightarrow> bool \<Rightarrow> bytes \<Rightarrow> u32 \<Rightarrow> u32 \<Rightarrow> u32 \<Rightarrow> node
       \<Rightarrow> dispatched cycle" where
  "transfer_step pf env ident sm seq is_ephemeral expected_hash program_size chunk_size ccount nd =
     (let nd1 = nd\<lparr>nd_queue := queue_clear (nd_queue nd)\<rparr>;
          max_image_size = (if is_ephemeral then MAX_EPHEMERAL_IMAGE_SIZE else MAX_RESIDENT_IMAGE_SIZE)
      in case chunked_transfer env ident program_size chunk_size ccount max_image_size (link_of nd1 seq) of
           (Inl _, l) \<Rightarrow> capture_battery_then_sleep pf sm (nd1\<lparr>nd_radio := lk_radio l\<rparr>)
         | (Inr image_bytes, l) \<Rightarrow>
             (case (if is_ephemeral
                    then (load_ephemeral (en_de env) (en_sha env) image_bytes expected_hash, nd_storage nd1)
                    else install_resident (pf_drv pf) (en_de env) (en_sha env) (st_budget (nd_maps nd1))
                           image_bytes expected_hash (nd_storage nd1)) of
                (Inl _, s) \<Rightarrow> capture_battery_then_sleep pf sm (nd1\<lparr>nd_radio := lk_radio l, nd_storage := s\<rparr>)
              | (Inr program, s) \<Rightarrow>
                  (case send_program_ack env ident (lp_hash program) l of
                     (Inl _, l') \<Rightarrow> capture_battery_then_sleep pf sm (nd1\<lparr>nd_radio := lk_radio l', nd_storage := s\<rparr>)
                   | (Inr _, l') \<Rightarrow>
                       Continue \<lparr>dp_seq = lk_seq l',
                                 dp_sleep = (if is_ephemeral then sm else set_wake_reason ProgramUpdate sm),
                                 dp_program = Some program, dp_resident = None\<rparr>
                         (nd1\<lparr>nd_radio := lk_radio l', nd_storage := s\<rparr>))))"

definition dispatch_step ::
    "platform \<Rightarrow> node_env \<Rightarrow> node_identity \<Rightarrow> sleep_manager \<Rightarrow> bytes option \<Rightarrow> u64 \<Rightarrow> command_payload \<Rightarrow> node
       \<Rightarrow> dispatched cycle" where
  "dispatch_step pf env ident sm resident seq payload nd =
     (case payload of
        Nop \<Rightarrow>
          if queue_is_empty (nd_queue nd) then
            Continue \<lparr>dp_seq = seq, dp_sleep = sm, dp_program = None, dp_resident = resident\<rparr> nd
          else
            (case queue_drain (nd_queue nd) of (pending, q) \<Rightarrow>
               let l = send_all env ident pending (link_of nd seq) in
               Continue \<lparr>dp_seq = lk_seq l, dp_sleep = sm, dp_program = None, dp_resident = resident\<rparr>
                 (nd\<lparr>nd_radio := lk_radio l, nd_queue := q\<rparr>))
      | Reboot \<Rightarrow> Done RebootNode nd
      | UpdateSchedule interval_s \<Rightarrow>
          (case write_schedule_interval (pf_drv pf) interval_s (nd_storage nd) of (r, s) \<Rightarrow>
             Continue \<lparr>dp_seq = seq, dp_sleep = (case r of Inr _ \<Rightarrow> set_base_interval interval_s sm | Inl _ \<Rightarrow> sm),
                       dp_program = None, dp_resident = resident\<rparr> (nd\<lparr>nd_storage := s\<rparr>))
      | UpdateProgram h ps cs cc \<Rightarrow> transfer_step pf env ident sm seq False h ps cs cc nd
      | RunEphemeral h ps cs cc \<Rightarrow> transfer_step pf env ident sm seq True h ps cs cc nd)"

text \<open>Step 9: the program to run, and its maps.\<close>

definition prepare_step ::
    "platform \<Rightarrow> node_env \<Rightarrow> bytes \<Rightarrow> dispatched \<Rightarrow> node \<Rightarrow> loaded_program option cycle" where
  "prepare_step pf env ph d nd =
     (let installed = (case dp_program d of Some p \<Rightarrow> \<not> lp_is_ephemeral p | None \<Rightarrow> False);
          program = (case dp_program d of
                       Some p \<Rightarrow> Some p
                     | None \<Rightarrow> (case dp_resident d of Some raw \<Rightarrow> decode_image (en_de env) raw ph | None \<Rightarrow> None))
      in case program of
           None \<Rightarrow> Continue None nd
         | Some p \<Rightarrow>
             if lp_is_ephemeral p then
               if lp_map_defs p \<noteq> [] then capture_battery_then_sleep pf (dp_sleep d) nd else Continue (Some p) nd
             else if installed \<or> \<not> layout_matches (lp_map_defs p) (nd_maps nd) then
               (case allocate (pf_map_base pf) (lp_map_defs p) (nd_maps nd) (nd_rtc nd) of
                  (Inl _, st, r) \<Rightarrow> capture_battery_then_sleep pf (dp_sleep d) (nd\<lparr>nd_maps := st, nd_rtc := r\<rparr>)
                | (Inr _, st, r) \<Rightarrow>
                    Continue (Some p) (nd\<lparr>nd_maps := st, nd_rtc := apply_initial_data (lp_map_initial_data p) st r\<rparr>))
             else Continue (Some p) nd)"

definition make_context ::
    "platform \<Rightarrow> u64 \<Rightarrow> nat \<Rightarrow> u32 \<Rightarrow> sleep_manager \<Rightarrow> bytes option \<Rightarrow> sonde_context" where
  "make_context pf timestamp_ms elapsed battery_mv sm blob =
     \<lparr>cx_timestamp = of_nat (sat_add64 (unat timestamp_ms) elapsed),
      cx_battery_mv = (if unat battery_mv > 0xFFFF then 0xFFFF else ucast battery_mv),
      cx_firmware_abi_version = ucast FIRMWARE_ABI_VERSION,
      cx_wake_reason = wake_reason_code (sm_wake_reason sm),
      cx_data_start = (case blob of None \<Rightarrow> 0 | Some _ \<Rightarrow> pf_blob_addr pf),
      cx_data_end = (case blob of None \<Rightarrow> 0 | Some b \<Rightarrow> pf_blob_addr pf + of_nat (length b))\<rparr>"

definition load_defs_of :: "loaded_program \<Rightarrow> map_storage \<Rightarrow> map_def list" where
  "load_defs_of p st =
     (if lp_map_defs p = [] \<and> map_count st > 0 then map mi_def (st_maps st) else lp_map_defs p)"

definition run_program :: "platform \<Rightarrow> exec_request \<Rightarrow> dispatched \<Rightarrow> node \<Rightarrow> sleep_manager \<times> node" where
  "run_program pf req d nd =
     (let v = pf_exec pf req
                \<lparr>bv_link = link_of nd (dp_seq d), bv_rtc = nd_rtc nd, bv_sleep = dp_sleep d, bv_queue = nd_queue nd\<rparr>
      in (bv_sleep v, nd\<lparr>nd_radio := lk_radio (bv_link v), nd_rtc := bv_rtc v, nd_queue := bv_queue v\<rparr>))"

text \<open>Steps 9 and 10: battery, execution, early wake and sleep.\<close>

definition execute_step ::
    "platform \<Rightarrow> node_identity \<Rightarrow> u64 \<Rightarrow> nat \<Rightarrow> bytes option \<Rightarrow> dispatched \<Rightarrow> loaded_program option \<Rightarrow> node
       \<Rightarrow> wake_cycle_outcome \<times> node" where
  "execute_step pf ident timestamp_ms command_received_at blob d program nd =
     (case persist_current_cycle_battery pf (activate_gpio pf nd) of (battery, nd1) \<Rightarrow>
        case (case program of
                None \<Rightarrow> (dp_sleep d, nd1)
              | Some p \<Rightarrow>
                  run_program pf
                    \<lparr>xr_program = p, xr_class = (if lp_is_ephemeral p then Ephemeral else Resident),
                     xr_context = make_context pf timestamp_ms (now_ms (nd_radio nd1) - command_received_at) battery
                       (dp_sleep d) blob,
                     xr_maps = nd_maps nd1, xr_load_defs = load_defs_of p (nd_maps nd1), xr_blob = blob, xr_identity = ident,
                     xr_timestamp_ms = timestamp_ms, xr_received_at_ms = command_received_at, xr_battery_mv = battery\<rparr>
                    d nd1) of (sm, nd2) \<Rightarrow>
          let nd3 = nd2\<lparr>nd_gpio_active := False\<rparr>;
              nd4 = (if will_wake_early sm then nd3\<lparr>nd_storage := snd (set_early_wake_flag (nd_storage nd3))\<rparr> else nd3)
          in (log_and_sleep sm, nd4))"

definition run_wake_cycle :: "platform \<Rightarrow> node_env \<Rightarrow> node \<Rightarrow> wake_cycle_outcome \<times> node" where
  "run_wake_cycle pf env nd0 =
     (case load_identity (nd_storage nd0) of
        None \<Rightarrow> (UnpairedNode, nd0)
      | Some ident \<Rightarrow>
          if \<not> pf_rng_ok pf then
            (Sleep (effective_sleep_s (sleep_new (fst (read_schedule (nd_storage nd0))) Scheduled)), nd0)
          else
            case determine_wake_reason nd0 of (reason, nd1) \<Rightarrow>
            let sm = sleep_new (fst (read_schedule (nd_storage nd1))) reason in
            case cycle_bind (register_step pf env ident sm nd1) (\<lambda>_ nd2.
                   case load_active_raw (en_sha env) (nd_storage nd2) of (ph, resident) \<Rightarrow>
                   cycle_bind (wake_step pf env ident sm ph nd2) (\<lambda>(seq, ts, payload, blob) nd3.
                   cycle_bind (dispatch_step pf env ident sm resident seq payload nd3) (\<lambda>d nd4.
                   cycle_bind (prepare_step pf env ph d nd4) (\<lambda>program nd5.
                     Continue (execute_step pf ident ts (now_ms (nd_radio nd3)) blob d program nd5) nd5)))) of
              Done out nd \<Rightarrow> (out, nd)
            | Continue r nd \<Rightarrow> r)"

end
