(* ===== verification/Wake_Correct.thy ===== *)
theory Wake_Correct
  imports Wake_Cycle
begin

text \<open>
  Correctness of the wake cycle: what the node accepts is authenticated and bound to its nonce, the
  frames of a session are numbered consecutively, a transfer from an answering gateway completes, the
  installed program is the old one or the announced one, and every path ends in sleep or reboot with
  the sensor rail off.
\<close>

section \<open>The script is only consumed\<close>

definition shrinks :: "(radio, 'e, 'a) op \<Rightarrow> bool" where
  "shrinks m \<longleftrightarrow> (\<forall>w. set (rx_script (snd (m w))) \<subseteq> set (rx_script w))"

lemma shrinksD: "shrinks m \<Longrightarrow> m w = (r, w') \<Longrightarrow> set (rx_script w') \<subseteq> set (rx_script w)"
  unfolding shrinks_def by (metis snd_conv)

lemma radio_send_rx [simp]: "rx_script (snd (radio_send f w)) = rx_script w"
  by (auto simp: radio_send_def split: list.splits option.splits)

lemma radio_send_shrinks: "radio_send f w = (r, w') \<Longrightarrow> rx_script w' = rx_script w"
  by (metis radio_send_rx snd_conv)

lemma radio_recv_set: "radio_recv t w = (r, w') \<Longrightarrow> set (rx_script w') \<subseteq> set (rx_script w)"
  by (auto simp: radio_recv_def split: list.splits rx_event.splits)

lemma radio_recv_frame: "radio_recv t w = (Inr (Some raw), w') \<Longrightarrow> \<exists>dt. RxFrame dt raw \<in> set (rx_script w)"
  by (auto simp: radio_recv_def split: list.splits rx_event.splits)

lemma delay_ms_rx [simp]: "rx_script (delay_ms t w) = rx_script w" "sent (delay_ms t w) = sent w"
    "tx_script (delay_ms t w) = tx_script w"
  by (simp_all add: delay_ms_def)

section \<open>WAKE and COMMAND\<close>

definition received :: "radio \<Rightarrow> bytes \<Rightarrow> bool" where
  "received w raw \<longleftrightarrow> (\<exists>dt. RxFrame dt raw \<in> set (rx_script w))"

lemma radio_send_sent:
  "radio_send f w = (r, w') \<Longrightarrow> sent w' = (if r = Inr () then sent w @ [f] else sent w)"
  by (auto simp: radio_send_def split: list.splits option.splits)

lemma radio_recv_sent: "radio_recv t w = (r, w') \<Longrightarrow> sent w' = sent w"
  by (auto simp: radio_recv_def split: list.splits rx_event.splits)

lemma wake_attempts_result:
  assumes "wake_attempts env ident wn frame a n w = (r, w')"
  shows "(\<exists>k \<le> n. sent w' = sent w @ replicate k frame) \<and> set (rx_script w') \<subseteq> set (rx_script w) \<and>
    (\<forall>cmd. r = Inr cmd \<longrightarrow> (\<exists>raw. received w raw \<and> verify_and_decode_command env ident wn raw = Inr cmd))"
  using assms
proof (induction n arbitrary: a w)
  case 0
  then show ?case by auto
next
  case (Suc n)
  let ?w = "if a > 0 then delay_ms RETRY_DELAY_MS w else w"
  have w0: "sent ?w = sent w" "rx_script ?w = rx_script w" by simp_all
  obtain r1 w1 where s: "radio_send frame ?w = (r1, w1)" by (cases "radio_send frame ?w")
  obtain r2 w2 where v: "radio_recv RESPONSE_TIMEOUT_MS w1 = (r2, w2)" by (cases "radio_recv RESPONSE_TIMEOUT_MS w1")
  have rx1: "rx_script w1 = rx_script w" using radio_send_shrinks [OF s] w0 by simp
  show ?case
  proof (cases r1)
    case (Inl e)
    with Suc.prems s rx1 radio_send_sent [OF s] w0 show ?thesis by (auto simp: st_seq_def st_bind_def intro: exI [of _ 0])
  next
    case (Inr u)
    then have sent2: "sent w2 = sent w @ [frame]"
      using radio_send_sent [OF s] radio_recv_sent [OF v] w0 by simp
    have rx2: "set (rx_script w2) \<subseteq> set (rx_script w)" using radio_recv_set [OF v] rx1 by simp
    have again: ?thesis if "wake_attempts env ident wn frame (a + 1) n w2 = (r, w')"
    proof -
      from Suc.IH [OF that] obtain k where "k \<le> n" "sent w' = sent w2 @ replicate k frame" by blast
      then have "\<exists>k \<le> Suc n. sent w' = sent w @ replicate k frame"
        using sent2 by (intro exI [of _ "Suc k"]) simp
      with Suc.IH [OF that] rx2 show ?thesis unfolding received_def by blast
    qed
    have once: "\<exists>k \<le> Suc n. sent w2 = sent w @ replicate k frame"
      using sent2 by (intro exI [of _ 1]) simp
    consider e where "r2 = Inl e" | "r2 = Inr None" | raw where "r2 = Inr (Some raw)"
      by (metis sum.exhaust option.exhaust)
    then show ?thesis
    proof cases
      case 1
      with Suc.prems s v Inr once rx2 show ?thesis by (auto simp: st_seq_def st_bind_def)
    next
      case 2
      with Suc.prems s v Inr again show ?thesis by (auto simp: st_seq_def st_bind_def)
    next
      case (3 raw)
      have "received w raw" using radio_recv_frame [of RESPONSE_TIMEOUT_MS w1 raw w2] v 3 rx1 by (simp add: received_def)
      with 3 Suc.prems s v Inr again once rx2 show ?thesis
        by (auto simp: st_seq_def st_bind_def st_return_def split: sum.splits)
    qed
  qed
qed

lemma wake_exchange_attempts:
  assumes "wake_command_exchange env ident wn ph battery blob w = (r, w')"
  obtains e where "r = Inl e" "w' = w" | frame where "wake_attempts env ident wn frame 0 (MAX_RETRIES + 1) w = (r, w')"
  using assms by (auto simp: wake_command_exchange_def st_bind_def st_lift_def split: sum.splits)

lemma wake_exchange_received:
  assumes "wake_command_exchange env ident wn ph battery blob w = (Inr cmd, w')"
  shows "\<exists>raw. received w raw \<and> verify_and_decode_command env ident wn raw = Inr cmd"
  using assms
proof (cases rule: wake_exchange_attempts)
  case (2 frame)
  with wake_attempts_result [OF this] show ?thesis by blast
qed simp

lemma wake_exchange_sent:
  assumes "wake_command_exchange env ident wn ph battery blob w = (r, w')"
  shows "\<exists>frame k. k \<le> 4 \<and> sent w' = sent w @ replicate k frame"
  using assms
proof (cases rule: wake_exchange_attempts)
  case (2 frame)
  then obtain k where "k \<le> MAX_RETRIES + 1" "sent w' = sent w @ replicate k frame"
    using wake_attempts_result by blast
  then show ?thesis by (auto simp: MAX_RETRIES_def)
qed (auto intro: exI [of _ 0])

text \<open>C8. The command a node acts on is authentic and fresh: when the exchange returns a command, some
  received frame opens under the node's key, is a COMMAND and carries the nonce of this WAKE, and
  decodes to that command; the node has sent nothing but at most four copies of one WAKE frame.\<close>

theorem wake_command_authentic:
  assumes "wake_command_exchange env ident wn ph battery blob w = (r, w')"
  shows "(\<exists>frame k. k \<le> 4 \<and> sent w' = sent w @ replicate k frame) \<and>
    (\<forall>cmd. r = Inr cmd \<longrightarrow> (\<exists>raw h payload. received w raw \<and>
       decode_verify_frame env (id_psk ident) raw = Inr (h, payload) \<and> msg_type h = MSG_COMMAND \<and> nonce h = wn \<and>
       verify_and_decode_command env ident wn raw = Inr cmd))"
proof -
  have fresh: "\<exists>h payload. decode_verify_frame env (id_psk ident) raw = Inr (h, payload) \<and> msg_type h = MSG_COMMAND \<and> nonce h = wn"
    if "verify_and_decode_command env ident wn raw = Inr cmd" for raw cmd
    using that by (auto simp: verify_and_decode_command_def res_bind_Inr_iff split: if_splits)
  with wake_exchange_sent [OF assms] wake_exchange_received assms show ?thesis by blast
qed

section \<open>Numbering of the frames of a session\<close>

definition frame_nonce :: "bytes \<Rightarrow> u64" where
  "frame_nonce f = nonce (header_from_bytes (take HEADER_SIZE f))"

definition consecutive :: "u64 \<Rightarrow> bytes list \<Rightarrow> bool" where
  "consecutive s fs \<longleftrightarrow> map frame_nonce fs = map (\<lambda>i. s + of_nat i) [0..<length fs]"

lemma consecutive_iff: "consecutive s fs \<longleftrightarrow> (\<forall>i < length fs. frame_nonce (fs ! i) = s + of_nat i)"
  unfolding consecutive_def by (subst list_eq_iff_nth_eq) simp

lemma consecutive_append:
  "consecutive s (fs @ gs) \<longleftrightarrow> consecutive s fs \<and> consecutive (s + of_nat (length fs)) gs"
proof -
  have "(\<forall>i < m + k. P i) \<longleftrightarrow> (\<forall>i < m. P i) \<and> (\<forall>i < k. P (m + i))" for m k :: nat and P
    by (metis add_less_cancel_left le_add_diff_inverse not_less trans_less_add1)
  then show ?thesis by (simp add: consecutive_iff nth_append add.assoc)
qed

lemma consecutive_distinct:
  assumes "consecutive s fs" and "length fs \<le> 2 ^ 64"
  shows "distinct (map frame_nonce fs)"
proof -
  have "inj_on (\<lambda>i. s + of_nat i) {0..<length fs}"
  proof (rule inj_onI)
    fix i j assume "i \<in> {0..<length fs}" "j \<in> {0..<length fs}" and eq: "s + of_nat i = s + (of_nat j :: u64)"
    then have "i < 2 ^ LENGTH(64)" "j < 2 ^ LENGTH(64)" using assms(2) by auto
    moreover from eq have "unat (of_nat i :: u64) = unat (of_nat j :: u64)" by simp
    ultimately show "i = j" by (simp only: unat_of_nat mod_less)
  qed
  with assms(1) show ?thesis by (simp add: consecutive_def distinct_map)
qed

text \<open>\<open>numbered n m\<close>: the operation sends at most \<open>n\<close> frames, numbered from \<open>current_seq\<close> on.\<close>

definition numbered :: "nat \<Rightarrow> link \<Rightarrow> link \<Rightarrow> bool" where
  "numbered n l l' \<longleftrightarrow> (\<exists>fs. length fs \<le> n \<and> sent (lk_radio l') = sent (lk_radio l) @ fs \<and>
     lk_seq l' = lk_seq l + of_nat (length fs) \<and> consecutive (lk_seq l) fs)"

definition numbered_op :: "nat \<Rightarrow> (link, 'e, 'a) op \<Rightarrow> bool" where
  "numbered_op n m \<longleftrightarrow> (\<forall>l. numbered n l (snd (m l)))"

lemma numbered_refl: "numbered n l l"
  unfolding numbered_def by (intro exI [of _ "[]"]) (simp add: consecutive_def)

lemma numbered_same: "sent (lk_radio l') = sent (lk_radio l) \<Longrightarrow> lk_seq l' = lk_seq l \<Longrightarrow> numbered n l l'"
  unfolding numbered_def by (intro exI [of _ "[]"]) (simp add: consecutive_def)

lemma numbered_trans:
  assumes "numbered n l1 l2" and "numbered m l2 l3"
  shows "numbered (n + m) l1 l3"
proof -
  obtain fs gs where "length fs \<le> n" "sent (lk_radio l2) = sent (lk_radio l1) @ fs"
      "lk_seq l2 = lk_seq l1 + of_nat (length fs)" "consecutive (lk_seq l1) fs"
      "length gs \<le> m" "sent (lk_radio l3) = sent (lk_radio l2) @ gs"
      "lk_seq l3 = lk_seq l2 + of_nat (length gs)" "consecutive (lk_seq l2) gs"
    using assms unfolding numbered_def by blast
  then show ?thesis
    unfolding numbered_def by (intro exI [of _ "fs @ gs"]) (simp add: consecutive_append add.assoc)
qed

lemma numbered_mono: "numbered n l l' \<Longrightarrow> n \<le> m \<Longrightarrow> numbered m l l'"
  unfolding numbered_def using le_trans by blast

lemma numbered_bind:
  assumes "numbered_op n m" and "\<And>x. numbered_op k (f x)"
  shows "numbered_op (n + k) (st_bind m f)"
  unfolding numbered_op_def
proof
  fix l
  obtain r l1 where m: "m l = (r, l1)" by (cases "m l")
  then have 1: "numbered n l l1" using assms(1) unfolding numbered_op_def by (metis snd_conv)
  show "numbered (n + k) l (snd (st_bind m f l))"
  proof (cases r)
    case (Inl e)
    with m 1 show ?thesis by (simp add: st_bind_def numbered_mono)
  next
    case (Inr x)
    with m numbered_trans [OF 1] assms(2) show ?thesis by (simp add: st_bind_def numbered_op_def)
  qed
qed

lemma numbered_pure [simp]: "numbered_op n (st_lift r)" "numbered_op n (st_return x)" "numbered_op n (st_fail e)"
  by (simp_all add: numbered_op_def st_lift_def st_return_def st_fail_def numbered_refl)

lemma numbered_on_radio: "(\<And>w. sent (snd (m w)) = sent w) \<Longrightarrow> numbered_op n (on_radio m)"
  by (auto simp: numbered_op_def on_radio_def split: prod.splits intro!: numbered_same) (metis snd_conv)

lemma make_frame_nonce: "make_frame env ident t n p = Inr f \<Longrightarrow> frame_nonce f = n"
  by (auto simp: make_frame_def encode_frame_def Let_def frame_nonce_def split: sum.splits if_splits)

lemma numbered_send: "numbered_op 1 (send_numbered env ident t p)"
  unfolding numbered_op_def
proof
  fix l
  show "numbered 1 l (snd (send_numbered env ident t p l))"
  proof (cases "make_frame env ident t (lk_seq l) p")
    case (Inl e)
    then show ?thesis by (simp add: send_numbered_def st_bind_def st_lift_def numbered_refl)
  next
    case (Inr f)
    obtain r w where s: "radio_send f (lk_radio l) = (r, w)" by (cases "radio_send f (lk_radio l)")
    note rs = radio_send_sent [OF s]
    show ?thesis
    proof (cases r)
      case (Inl e)
      with Inr s rs show ?thesis
        by (auto simp: send_numbered_def st_bind_def st_lift_def on_radio_def intro!: numbered_same)
    next
      case (Inr u)
      have "numbered 1 l (l\<lparr>lk_radio := w, lk_seq := lk_seq l + 1\<rparr>)"
        unfolding numbered_def
        by (intro exI [of _ "[f]"])
          (use rs Inr make_frame_nonce [OF \<open>make_frame env ident t (lk_seq l) p = Inr f\<close>] in \<open>simp add: consecutive_def\<close>)
      with Inr s \<open>make_frame env ident t (lk_seq l) p = Inr f\<close> show ?thesis
        by (simp add: send_numbered_def st_bind_def st_lift_def on_radio_def)
    qed
  qed
qed

lemma chunk_wait_sent: "sent (snd (chunk_wait env ident seq ci d w)) = sent w"
proof (induction env ident seq ci d w rule: chunk_wait.induct)
  case (1 env ident seq ci d w)
  note step = chunk_wait.simps [of env ident seq ci d w]
  show ?case
  proof (cases "now_ms w \<ge> d")
    case False
    obtain r w' where v: "radio_recv ((d - now_ms w) mod 2 ^ 32) w = (r, w')"
      by (cases "radio_recv ((d - now_ms w) mod 2 ^ 32) w")
    with False 1 [OF False v [symmetric]] radio_recv_sent [OF v] show ?thesis
      by (auto simp: step split: sum.splits option.splits node_error.splits)
  qed (simp add: step)
qed

lemma numbered_attempts: "numbered n l (snd (chunk_attempts env ident ci payload a n l))"
proof (induction n arbitrary: a l)
  case (Suc n)
  have "numbered_op n (\<lambda>l. chunk_attempts env ident ci payload b n l)" for b
    using Suc.IH by (simp add: numbered_op_def)
  then have "numbered_op n (case r of Some d \<Rightarrow> st_return d | None \<Rightarrow> chunk_attempts env ident ci payload b n)" for r b
    by (cases r) simp_all
  then have "numbered_op (1 + (0 + n)) (st_bind (send_numbered env ident MSG_GET_CHUNK payload) (\<lambda>seq.
     st_bind (on_radio (\<lambda>w. chunk_wait env ident seq ci (sat_add64 (now_ms w) RESPONSE_TIMEOUT_MS) w)) (\<lambda>r.
       case r of Some d \<Rightarrow> st_return d | None \<Rightarrow> chunk_attempts env ident ci payload (a + 1) n)))"
    by (intro numbered_bind numbered_send numbered_on_radio chunk_wait_sent)
  then show ?case
    by (auto simp: numbered_op_def numbered_def dest: spec [of _ "l\<lparr>lk_radio := delay_ms RETRY_DELAY_MS (lk_radio l)\<rparr>"])
qed (simp add: numbered_refl)

lemma numbered_transfer_loop: "numbered_op (4 * length cis) (transfer_loop env ident ps cs img cis)"
proof (induction cis arbitrary: img)
  case (Cons ci cis)
  have get: "numbered_op 4 (get_chunk_with_retry env ident (of_nat ci))"
  proof -
    have "numbered_op 4 (chunk_attempts env ident i payload 0 (MAX_RETRIES + 1))" for i payload
      using numbered_attempts [of 4] by (simp add: numbered_op_def MAX_RETRIES_def)
    then have "numbered_op (0 + 4) (get_chunk_with_retry env ident (of_nat ci))"
      unfolding get_chunk_with_retry_def by (intro numbered_bind numbered_pure)
    then show ?thesis by simp
  qed
  have "numbered_op (4 + 4 * length cis) (transfer_loop env ident ps cs img (ci # cis))"
    unfolding transfer_loop.simps by (intro numbered_bind [OF get]) (simp add: Cons.IH)
  then show ?case by simp
qed simp

lemma numbered_transfer: "numbered_op (4 * unat cc) (chunked_transfer env ident ps cs cc mx)"
proof -
  have "numbered_op (4 * unat cc + 0) (st_bind (transfer_loop env ident (unat ps) (unat cs) [] [0..<unat cc]) (\<lambda>img.
      if length img \<noteq> unat ps then st_fail e else st_return img))" for e :: node_error
    by (intro numbered_bind numbered_transfer_loop [of "[0..<unat cc]", simplified]) simp
  then show ?thesis by (auto simp: chunked_transfer_def)
qed

lemma numbered_ack: "numbered_op 1 (send_program_ack env ident h)"
proof -
  have "numbered_op (0 + (1 + 0)) (send_program_ack env ident h)"
    unfolding send_program_ack_def by (intro numbered_bind numbered_pure numbered_send)
  then show ?thesis by simp
qed

lemma numbered_app_data: "numbered_op 1 (send_app_data env ident b)"
proof -
  have "numbered_op (0 + (1 + 0)) (send_app_data env ident b)"
    unfolding send_app_data_def by (intro numbered_bind numbered_pure numbered_send)
  then show ?thesis by simp
qed

lemma numbered_send_all: "numbered (length bs) l (send_all env ident bs l)"
proof (induction bs arbitrary: l)
  case (Cons b bs)
  obtain r l1 where s: "send_app_data env ident b l = (r, l1)" by (cases "send_app_data env ident b l")
  then have 1: "numbered 1 l l1" using numbered_app_data unfolding numbered_op_def by (metis snd_conv)
  from s numbered_trans [OF 1 Cons.IH] numbered_mono [OF 1] show ?case by (auto split: sum.splits)
qed (simp add: numbered_refl)

fun cycle_node :: "'a cycle \<Rightarrow> node" where
  "cycle_node (Done out nd) = nd"
| "cycle_node (Continue x nd) = nd"

lemma capture_sent [simp]: "sent (nd_radio (cycle_node (capture_battery_then_sleep pf sm nd))) = sent (nd_radio nd)"
  by (simp add: capture_battery_then_sleep_def persist_current_cycle_battery_def activate_gpio_def Let_def)

lemma capture_not_Continue [simp]: "capture_battery_then_sleep pf sm nd \<noteq> Continue x nd'"
  by (simp add: capture_battery_then_sleep_def Let_def)

lemma transfer_step_numbered:
  "\<exists>l. numbered (4 * unat cc + 1) (link_of nd seq) l \<and>
     sent (nd_radio (cycle_node (transfer_step pf env ident sm seq eph h ps cs cc nd))) = sent (lk_radio l) \<and>
     (\<forall>d nd'. transfer_step pf env ident sm seq eph h ps cs cc nd = Continue d nd' \<longrightarrow> dp_seq d = lk_seq l)"
proof -
  let ?nd = "nd\<lparr>nd_queue := queue_clear (nd_queue nd)\<rparr>"
  let ?mx = "if eph then MAX_EPHEMERAL_IMAGE_SIZE else MAX_RESIDENT_IMAGE_SIZE"
  have link: "link_of ?nd seq = link_of nd seq" by (simp add: link_of_def)
  obtain r l where t: "chunked_transfer env ident ps cs cc ?mx (link_of nd seq) = (r, l)"
    by (cases "chunked_transfer env ident ps cs cc ?mx (link_of nd seq)")
  then have 1: "numbered (4 * unat cc) (link_of nd seq) l"
    using numbered_transfer unfolding numbered_op_def by (metis snd_conv)
  have ack: "numbered (4 * unat cc + 1) (link_of nd seq) (snd (send_program_ack env ident x l))" for x
    using numbered_trans [OF 1] numbered_ack unfolding numbered_op_def by blast
  show ?thesis
  proof (cases r)
    case (Inl e)
    with t numbered_mono [OF 1, of "4 * unat cc + 1"] show ?thesis
      by (auto simp: transfer_step_def Let_def link intro!: exI [of _ l])
  next
    case (Inr img)
    obtain r2 s where i: "(if eph then (load_ephemeral (en_de env) (en_sha env) img h, nd_storage ?nd)
        else install_resident (pf_drv pf) (en_de env) (en_sha env) (st_budget (nd_maps ?nd)) img h (nd_storage ?nd)) = (r2, s)"
      by (metis surj_pair)
    show ?thesis
    proof (cases r2)
      case (Inl e)
      with t Inr i numbered_mono [OF 1, of "4 * unat cc + 1"] show ?thesis
        by (auto simp: transfer_step_def Let_def link intro!: exI [of _ l])
    next
      case (Inr p)
      obtain r3 l3 where a: "send_program_ack env ident (lp_hash p) l = (r3, l3)"
        by (cases "send_program_ack env ident (lp_hash p) l")
      with ack [of "lp_hash p"] t \<open>r = Inr img\<close> i Inr show ?thesis
        by (cases r3) (auto simp: transfer_step_def Let_def link intro!: exI [of _ l3])
    qed
  qed
qed

lemma dispatch_numbered:
  "\<exists>l n. numbered n (link_of nd seq) l \<and> n \<le> 2 ^ 35 \<and>
     sent (nd_radio (cycle_node (dispatch_step pf env ident sm resident seq payload nd))) = sent (lk_radio l) \<and>
     (\<forall>d nd'. dispatch_step pf env ident sm resident seq payload nd = Continue d nd' \<longrightarrow> dp_seq d = lk_seq l)"
proof (cases payload)
  case Nop
  have "read_count (nd_queue nd) \<le> 2 ^ 35"
    using unsigned_less [of "q_count (nd_queue nd)", where 'a = nat] by (simp add: read_count_def)
  then have "length (fst (queue_drain (nd_queue nd))) \<le> 2 ^ 35" by (simp add: queue_drain_def)
  note all = this numbered_send_all [of "fst (queue_drain (nd_queue nd))" "link_of nd seq" env ident]
  show ?thesis
  proof (cases "queue_is_empty (nd_queue nd)")
    case True
    with Nop show ?thesis
      by (intro exI [of _ "link_of nd seq"] exI [of _ 0])
        (simp add: dispatch_step_def numbered_refl, simp add: link_of_def)
  next
    case False
    with Nop all show ?thesis
      by (intro exI [of _ "send_all env ident (fst (queue_drain (nd_queue nd))) (link_of nd seq)"]
          exI [of _ "length (fst (queue_drain (nd_queue nd)))"])
        (simp add: dispatch_step_def Let_def case_prod_beta)
  qed
next
  case (UpdateProgram h ps cs cc)
  have "4 * unat cc + 1 \<le> 2 ^ 35" using unsigned_less [of cc, where 'a = nat] by simp
  moreover have "dispatch_step pf env ident sm resident seq payload nd = transfer_step pf env ident sm seq False h ps cs cc nd"
    using UpdateProgram by (simp add: dispatch_step_def)
  ultimately show ?thesis using transfer_step_numbered [of cc nd seq pf env ident sm False h ps cs] by metis
next
  case (RunEphemeral h ps cs cc)
  have "4 * unat cc + 1 \<le> 2 ^ 35" using unsigned_less [of cc, where 'a = nat] by simp
  moreover have "dispatch_step pf env ident sm resident seq payload nd = transfer_step pf env ident sm seq True h ps cs cc nd"
    using RunEphemeral by (simp add: dispatch_step_def)
  ultimately show ?thesis using transfer_step_numbered [of cc nd seq pf env ident sm True h ps cs] by metis
next
  case (UpdateSchedule i)
  then show ?thesis
    by (intro exI [of _ "link_of nd seq"] exI [of _ 0])
      (simp add: dispatch_step_def numbered_refl case_prod_beta, simp add: link_of_def)
next
  case Reboot
  then show ?thesis
    by (intro exI [of _ "link_of nd seq"] exI [of _ 0])
      (simp add: dispatch_step_def numbered_refl, simp add: link_of_def)
qed

section \<open>Frames of an answering gateway\<close>

definition providers_ok :: "node_env \<Rightarrow> bool" where
  "providers_ok env \<longleftrightarrow> aead_correct (en_seal env) (en_open env) \<and> aead_expands (en_seal env) \<and>
     cbor_faithful (en_ser env) (en_de env)"

text \<open>The frame the gateway makes of a message.\<close>

definition gateway_frame :: "node_env \<Rightarrow> node_identity \<Rightarrow> u64 \<Rightarrow> gateway_message \<Rightarrow> bytes \<Rightarrow> bool" where
  "gateway_frame env ident n m raw \<longleftrightarrow> (\<exists>p. gateway_message_encode (en_ser env) m = Inr p \<and>
     encode_frame \<lparr>key_hint = id_key_hint ident, msg_type = gateway_message_type m, nonce = n\<rparr> p (id_psk ident)
       (en_seal env) (en_sha env) = Inr raw)"

lemma gateway_frame_verifies:
  assumes "providers_ok env" and "gateway_message_ok m" and "gateway_frame env ident n m raw"
  shows "\<exists>p. decode_verify_frame env (id_psk ident) raw =
      Inr (\<lparr>key_hint = id_key_hint ident, msg_type = gateway_message_type m, nonce = n\<rparr>, p) \<and>
    gateway_message_decode (en_de env) (gateway_message_type m) p = Inr m"
proof -
  let ?h = "\<lparr>key_hint = id_key_hint ident, msg_type = gateway_message_type m, nonce = n\<rparr>"
  obtain p where p: "gateway_message_encode (en_ser env) m = Inr p"
      "encode_frame ?h p (id_psk ident) (en_seal env) (en_sha env) = Inr raw"
    using assms(3) unfolding gateway_frame_def by blast
  have "length p \<le> MAX_PAYLOAD_SIZE"
    using p(2) by (auto simp: encode_frame_def Let_def frame_consts split: if_splits)
  then obtain d where "decode_frame raw = Inr d" "df_header d = ?h" "open_frame d (id_psk ident) (en_open env) (en_sha env) = Inr p"
    using encode_frame_opens [of "en_seal env" "en_open env" p ?h "id_psk ident" "en_sha env"] assms(1) p(2)
    by (auto simp: providers_ok_def)
  moreover have "gateway_message_decode (en_de env) (gateway_message_type m) p = Inr m"
    using gateway_encode_decode [of "en_ser env" "en_de env" m] assms(1,2) p(1) by (auto simp: providers_ok_def)
  ultimately show ?thesis by (simp add: decode_verify_frame_def)
qed

lemma chunk_accepted:
  assumes "providers_ok env" and "length d < 2 ^ 64" and "gateway_frame env ident n (Chunk ci d) raw"
  shows "verify_and_decode_chunk env ident n ci raw = Inr d"
  using gateway_frame_verifies [OF assms(1) _ assms(3)] assms(2)
  by (auto simp: verify_and_decode_chunk_def)

lemma command_accepted:
  assumes "providers_ok env" and "gateway_message_ok (Command seq ts cmd blob)"
    and "gateway_frame env ident n (Command seq ts cmd blob) raw"
  shows "verify_and_decode_command env ident n raw = Inr (seq, ts, cmd, blob)"
  using gateway_frame_verifies [OF assms(1,2,3)] by (auto simp: verify_and_decode_command_def)

text \<open>A node whose requests fit a frame, with no send failures and a clock before its end.\<close>

definition requests_fit :: "node_env \<Rightarrow> bool" where
  "requests_fit env \<longleftrightarrow> (\<forall>ci. \<exists>p. node_message_encode (en_ser env) (GetChunk ci) = Inr p \<and> length p \<le> MAX_PAYLOAD_SIZE)"

lemma make_frame_fits:
  assumes "providers_ok env" and "length p \<le> MAX_PAYLOAD_SIZE"
  shows "\<exists>f. make_frame env ident t n p = Inr f"
proof -
  have "aead_correct (en_seal env) (en_open env)" "aead_expands (en_seal env)"
    using assms(1) by (simp_all add: providers_ok_def)
  from encode_frame_opens [OF this assms(2), of "\<lparr>key_hint = id_key_hint ident, msg_type = t, nonce = n\<rparr>" "id_psk ident" "en_sha env"]
  show ?thesis by (auto simp: make_frame_def)
qed

text \<open>The frame the node makes of a message.\<close>

definition node_frame :: "node_env \<Rightarrow> node_identity \<Rightarrow> u64 \<Rightarrow> node_message \<Rightarrow> bytes \<Rightarrow> bool" where
  "node_frame env ident n m raw \<longleftrightarrow> (\<exists>p. node_message_encode (en_ser env) m = Inr p \<and>
     make_frame env ident (node_message_type m) n p = Inr raw)"

lemma requests_fit_frame: "providers_ok env \<Longrightarrow> requests_fit env \<Longrightarrow> \<exists>raw. node_frame env ident n (GetChunk ci) raw"
  unfolding requests_fit_def node_frame_def using make_frame_fits by blast

lemma get_chunk_answered:
  assumes ok: "providers_ok env"
    and d: "length d < 2 ^ 64" "gateway_frame env ident (lk_seq l) (Chunk ci d) raw"
    and req: "node_frame env ident (lk_seq l) (GetChunk ci) f"
    and l: "rx_script (lk_radio l) = RxFrame 0 raw # es" "tx_script (lk_radio l) = []" "now_ms (lk_radio l) < 2 ^ 64 - 1"
  shows "get_chunk_with_retry env ident ci l =
    (Inr d, \<lparr>lk_radio = (lk_radio l)\<lparr>rx_script := es, sent := sent (lk_radio l) @ [f]\<rparr>, lk_seq = lk_seq l + 1\<rparr>)"
proof -
  obtain p where p: "node_message_encode (en_ser env) (GetChunk ci) = Inr p"
      and f: "make_frame env ident MSG_GET_CHUNK (lk_seq l) p = Inr f"
    using req unfolding node_frame_def by auto
  let ?w = "lk_radio l"
  let ?w1 = "?w\<lparr>sent := sent ?w @ [f]\<rparr>"
  have send: "radio_send f ?w = (Inr (), ?w1)" using l(2) by (simp add: radio_send_def)
  have recv: "radio_recv t ?w1 = (Inr (Some raw), ?w1\<lparr>rx_script := es\<rparr>)" for t
    using l(1) by (simp add: radio_recv_def)
  have "\<not> sat_add64 (now_ms ?w1) RESPONSE_TIMEOUT_MS \<le> now_ms ?w1"
    using l(3) by (simp add: sat_add64_def RESPONSE_TIMEOUT_MS_def)
  then have wait: "chunk_wait env ident (lk_seq l) ci (sat_add64 (now_ms ?w1) RESPONSE_TIMEOUT_MS) ?w1 =
      (Inr (Some d), ?w1\<lparr>rx_script := es\<rparr>)"
    unfolding chunk_wait.simps [of _ _ _ _ _ ?w1] by (simp add: recv chunk_accepted [OF ok(1) d] del: power_numeral)
  have "get_chunk_with_retry env ident ci l = chunk_attempts env ident ci p 0 (Suc MAX_RETRIES) l"
    using p by (simp add: get_chunk_with_retry_def make_payload_def st_bind_def st_lift_def)
  also have "\<dots> = (Inr d, \<lparr>lk_radio = ?w1\<lparr>rx_script := es\<rparr>, lk_seq = lk_seq l + 1\<rparr>)"
    using f send wait by (simp add: st_bind_def st_lift_def st_return_def send_numbered_def on_radio_def)
  finally show ?thesis by simp
qed

lemma transfer_answered:
  assumes ok: "providers_ok env"
    and chunks: "\<And>i. k \<le> i \<Longrightarrow> i < n \<Longrightarrow> length (c i) \<le> cs \<and> length (c i) < 2 ^ 64 \<and>
      gateway_frame env ident (s0 + of_nat i) (Chunk (of_nat i) (c i)) (reply i) \<and>
      node_frame env ident (s0 + of_nat i) (GetChunk (of_nat i)) (req i)"
    and l: "rx_script (lk_radio l) = map (\<lambda>i. RxFrame 0 (reply i)) [k..<n]" "tx_script (lk_radio l) = []"
      "now_ms (lk_radio l) < 2 ^ 64 - 1" "lk_seq l = s0 + of_nat k"
    and size: "length img + length (concat (map c [k..<n])) \<le> ps" and kn: "k \<le> n"
  shows "transfer_loop env ident ps cs img [k..<n] l = (Inr (img @ concat (map c [k..<n])),
    \<lparr>lk_radio = (lk_radio l)\<lparr>rx_script := [], sent := sent (lk_radio l) @ map req [k..<n]\<rparr>, lk_seq = s0 + of_nat n\<rparr>)"
  using kn chunks l size
proof (induction k arbitrary: img l rule: inc_induct)
  case base
  then show ?case by (simp add: st_return_def)
next
  case (step k)
  have upt: "[k..<n] = k # [Suc k..<n]" using step.hyps by (simp add: upt_conv_Cons)
  have c: "length (c k) \<le> cs" "length (c k) < 2 ^ 64" "gateway_frame env ident (lk_seq l) (Chunk (of_nat k) (c k)) (reply k)"
      "node_frame env ident (lk_seq l) (GetChunk (of_nat k)) (req k)"
    using step.prems(1) [of k] step.hyps step.prems(5) by auto
  have rx: "rx_script (lk_radio l) = RxFrame 0 (reply k) # map (\<lambda>i. RxFrame 0 (reply i)) [Suc k..<n]"
    using step.prems(2) upt by simp
  let ?l = "\<lparr>lk_radio = (lk_radio l)\<lparr>rx_script := map (\<lambda>i. RxFrame 0 (reply i)) [Suc k..<n],
      sent := sent (lk_radio l) @ [req k]\<rparr>, lk_seq = lk_seq l + 1\<rparr>"
  have g: "get_chunk_with_retry env ident (of_nat k) l = (Inr (c k), ?l)"
    by (rule get_chunk_answered [OF ok c(2,3,4) rx step.prems(3,4)])
  have "transfer_loop env ident ps cs (img @ c k) [Suc k..<n] ?l = (Inr ((img @ c k) @ concat (map c [Suc k..<n])),
      \<lparr>lk_radio = (lk_radio ?l)\<lparr>rx_script := [], sent := sent (lk_radio ?l) @ map req [Suc k..<n]\<rparr>, lk_seq = s0 + of_nat n\<rparr>)"
    by (rule step.IH) (use step.prems upt in \<open>simp_all add: add.assoc\<close>)
  with g c(1) step.prems(6) upt show ?case by (simp add: st_bind_def)
qed

text \<open>What a node makes of the answers to its requests: the image, and the requests on the air.\<close>

lemma transfer_of_image:
  assumes "providers_ok env"
    and "length img \<le> max_image" and "length img < 2 ^ 31"
    and "chunk_count (length img) (unat cs) = Some cc"
    and "\<And>i. i < unat cc \<Longrightarrow> \<exists>d. get_chunk (2 ^ 64 - 1) img (of_nat i) cs = Some d \<and>
      gateway_frame env ident (lk_seq l + of_nat i) (Chunk (of_nat i) d) (reply i) \<and>
      node_frame env ident (lk_seq l + of_nat i) (GetChunk (of_nat i)) (req i)"
    and "rx_script (lk_radio l) = map (\<lambda>i. RxFrame 0 (reply i)) [0..<unat cc]"
    and "tx_script (lk_radio l) = []" and "now_ms (lk_radio l) < 2 ^ 64 - 1"
  shows "chunked_transfer env ident (of_nat (length img)) cs cc max_image l = (Inr img,
    \<lparr>lk_radio = (lk_radio l)\<lparr>rx_script := [], sent := sent (lk_radio l) @ map req [0..<unat cc]\<rparr>,
     lk_seq = lk_seq l + of_nat (unat cc)\<rparr>)"
proof -
  let ?c = "\<lambda>i. take (unat cs) (drop (i * unat cs) img)"
  have us: "2 ^ 32 - 1 \<le> (2 ^ 64 - 1 :: nat)" "2 * length img \<le> 2 ^ 64 - 1" using assms(3) by simp_all
  have all: "concat (map ?c [0..<unat cc]) = img" using chunks_concat [OF assms(4)] .
  have len: "unat (of_nat (length img) :: u32) = length img" using assms(3) by (simp add: unat_of_nat)
  have t: "transfer_loop env ident (length img) (unat cs) [] [0..<unat cc] l = (Inr ([] @ concat (map ?c [0..<unat cc])),
      \<lparr>lk_radio = (lk_radio l)\<lparr>rx_script := [], sent := sent (lk_radio l) @ map req [0..<unat cc]\<rparr>,
       lk_seq = lk_seq l + of_nat (unat cc)\<rparr>)"
  proof (rule transfer_answered [OF assms(1) _ assms(6,7,8)])
    show "lk_seq l = lk_seq l + of_nat 0" by simp
    show "length ([] :: bytes) + length (concat (map ?c [0..<unat cc])) \<le> length img" by (simp add: all)
    fix i assume "i < unat cc"
    with assms(5) [OF this] chunk_at [OF us assms(4) this]
    show "length (?c i) \<le> unat cs \<and> length (?c i) < 2 ^ 64 \<and>
        gateway_frame env ident (lk_seq l + of_nat i) (Chunk (of_nat i) (?c i)) (reply i) \<and>
        node_frame env ident (lk_seq l + of_nat i) (GetChunk (of_nat i)) (req i)"
      using assms(3) by (auto simp: min_def)
  qed simp
  have "cs \<noteq> 0" using chunk_count_SomeD(1) [OF assms(4)] by auto
  with t assms(2,4) show ?thesis by (simp add: chunked_transfer_def len all st_bind_def st_return_def del: of_nat_unat)
qed

text \<open>C30. A program transfer completes: when the gateway answers each chunk request with the chunk of the
  image, in a frame of this session, the node ends up with exactly the image, whatever its size and
  the chunk size, as long as the image fits the limit of its class.\<close>

theorem transfer_completes:
  assumes "providers_ok env" and "requests_fit env"
    and "length img \<le> max_image" and "length img < 2 ^ 31"
    and "chunk_count (length img) (unat cs) = Some cc"
    and "\<And>i. i < unat cc \<Longrightarrow> \<exists>d. get_chunk (2 ^ 64 - 1) img (of_nat i) cs = Some d \<and>
      gateway_frame env ident (lk_seq l + of_nat i) (Chunk (of_nat i) d) (reply i)"
    and "rx_script (lk_radio l) = map (\<lambda>i. RxFrame 0 (reply i)) [0..<unat cc]"
    and "tx_script (lk_radio l) = []" and "now_ms (lk_radio l) < 2 ^ 64 - 1"
  shows "\<exists>l'. chunked_transfer env ident (of_nat (length img)) cs cc max_image l = (Inr img, l')"
proof -
  have "\<forall>i. \<exists>raw. node_frame env ident (lk_seq l + of_nat i) (GetChunk (of_nat i)) raw"
    using requests_fit_frame [OF assms(1,2)] by blast
  then obtain req where "\<And>i. node_frame env ident (lk_seq l + of_nat i) (GetChunk (of_nat i)) (req i)" by metis
  with assms(6) transfer_of_image [OF assms(1,3,4,5) _ assms(7-9), of ident req] show ?thesis by blast
qed

section \<open>Examples\<close>

definition demo_env :: node_env where
  "demo_env = \<lparr>en_seal = plain_seal, en_open = plain_open, en_sha = \<lambda>_. replicate 32 0, en_ser = rfc_ser,
     en_de = rfc_de, en_version = ''1''\<rparr>"

definition demo_id :: node_identity where "demo_id = \<lparr>id_key_hint = 1, id_psk = replicate 32 7\<rparr>"

definition demo_radio :: "bytes list \<Rightarrow> radio" where
  "demo_radio replies = \<lparr>rx_script = map (RxFrame 0) replies, tx_script = [], sent = [], now_ms = 0\<rparr>"

lemma demo_ok: "providers_ok demo_env"
  by (simp add: providers_ok_def demo_env_def plain_aead rfc_faithful)

lemma length_rfc_head: "length (rfc_head mt n) \<le> 9"
  by (simp add: rfc_head_def)

lemma demo_encode:
  "node_message_encode (en_ser demo_env) m = Inr (rfc_encode (CborMap (map (\<lambda>(k, v). (CborInt (uint k), v)) (node_message_pairs m))))"
  "gateway_message_encode (en_ser demo_env) g = Inr (rfc_encode (CborMap (map (\<lambda>(k, v). (CborInt (uint k), v)) (gateway_message_pairs g))))"
  by (simp_all add: node_message_encode_def gateway_message_encode_def cbor_encode_map_def demo_env_def rfc_ser_def)

lemma demo_requests_fit: "requests_fit demo_env"
proof -
  have "length (rfc_encode (CborMap (map (\<lambda>(k, v). (CborInt (uint k), v)) (node_message_pairs (GetChunk ci))))) \<le> MAX_PAYLOAD_SIZE" for ci
    using length_rfc_head [of 5 "Suc 0"] length_rfc_head [of 0 "unat KEY_CHUNK_INDEX"] length_rfc_head [of 0 "unat ci"]
    by (simp add: u32_val_def frame_consts)
  then show ?thesis by (simp add: requests_fit_def demo_encode)
qed

lemma demo_frame:
  assumes "length (rfc_encode (CborMap (map (\<lambda>(k, v). (CborInt (uint k), v)) (gateway_message_pairs g)))) \<le> MAX_PAYLOAD_SIZE"
  shows "\<exists>raw. gateway_frame demo_env ident n g raw"
proof -
  have "aead_correct (en_seal demo_env) (en_open demo_env)" "aead_expands (en_seal demo_env)"
    using demo_ok by (simp_all add: providers_ok_def)
  from encode_frame_opens [OF this assms, of "\<lparr>key_hint = id_key_hint ident, msg_type = gateway_message_type g, nonce = n\<rparr>" "id_psk ident" "en_sha demo_env"]
  show ?thesis by (auto simp: gateway_frame_def demo_encode)
qed

lemma demo_chunk_frame: "length d \<le> 100 \<Longrightarrow> \<exists>raw. gateway_frame demo_env ident n (Chunk ci d) raw"
  using length_rfc_head [of 5 "Suc (Suc 0)"] length_rfc_head [of 0 "unat KEY_CHUNK_INDEX"] length_rfc_head [of 0 "unat ci"]
    length_rfc_head [of 0 "unat KEY_CHUNK_DATA"] length_rfc_head [of 2 "length d"]
  by (intro demo_frame) (simp add: u32_val_def frame_consts)

theorem transfer_completes_witness:
  "\<exists>r0 r1 l'. chunked_transfer demo_env demo_id 3 2 2 4096 \<lparr>lk_radio = demo_radio [r0, r1], lk_seq = 5\<rparr> = (Inr [1, 2, 3], l')"
proof -
  obtain r0 where r0: "gateway_frame demo_env demo_id 5 (Chunk 0 [1, 2]) r0"
    using demo_chunk_frame [of "[1, 2]" demo_id 5 0] by auto
  obtain r1 where r1: "gateway_frame demo_env demo_id 6 (Chunk 1 [3]) r1"
    using demo_chunk_frame [of "[3]" demo_id 6 1] by auto
  have "\<exists>l'. chunked_transfer demo_env demo_id (of_nat (length [1 :: u8, 2, 3])) 2 2 4096
      \<lparr>lk_radio = demo_radio [r0, r1], lk_seq = 5\<rparr> = (Inr [1, 2, 3], l')"
  proof (rule transfer_completes [OF demo_ok demo_requests_fit, where reply = "\<lambda>i. if i = 0 then r0 else r1"])
    fix i assume "i < unat (2 :: u32)"
    then have "i = 0 \<or> i = 1" by auto
    then show "\<exists>d. get_chunk (2 ^ 64 - 1) [1, 2, 3] (of_nat i) 2 = Some d \<and>
        gateway_frame demo_env demo_id (lk_seq \<lparr>lk_radio = demo_radio [r0, r1], lk_seq = 5\<rparr> + of_nat i) (Chunk (of_nat i) d)
          (if i = 0 then r0 else r1)"
      using r0 r1 by (auto simp: get_chunk_def)
  qed (simp_all add: demo_radio_def chunk_count_def div_ceil_def upt_rec)
  then show ?thesis by auto
qed

lemma demo_command_frame: "\<exists>raw. gateway_frame demo_env ident n (Command seq ts Nop None) raw"
  using length_rfc_head [of 5 3] length_rfc_head [of 0 "unat KEY_COMMAND_TYPE"] length_rfc_head [of 0 "unat CMD_NOP"]
    length_rfc_head [of 0 "unat KEY_STARTING_SEQ"] length_rfc_head [of 0 "unat seq"]
    length_rfc_head [of 0 "unat KEY_TIMESTAMP_MS"] length_rfc_head [of 0 "unat ts"]
  by (intro demo_frame) (simp add: u8_val_def uint_val_def frame_consts numeral_3_eq_3)

lemma demo_wake_payload: "\<exists>p. make_payload demo_env (wake_message demo_env [] 0 None) err = Inr p \<and> length p \<le> MAX_PAYLOAD_SIZE"
proof -
  have "en_version demo_env = ''1''" by (simp add: demo_env_def)
  then show ?thesis
    by (simp add: make_payload_def demo_encode wake_message_def u32_val_def rfc_head_def FIRMWARE_ABI_VERSION_def
        message_consts frame_consts)
qed

theorem wake_command_authentic_witness:
  "\<exists>raw w'. wake_command_exchange demo_env demo_id 9 [] 0 None (demo_radio [raw]) = (Inr (5, 6, Nop, None), w') \<and>
     (\<exists>h payload. decode_verify_frame demo_env (id_psk demo_id) raw = Inr (h, payload) \<and> msg_type h = MSG_COMMAND \<and> nonce h = 9)"
proof -
  obtain raw where "gateway_frame demo_env demo_id 9 (Command 5 6 Nop None) raw"
    using demo_command_frame by blast
  then have v: "verify_and_decode_command demo_env demo_id 9 raw = Inr (5, 6, Nop, None)"
    by (intro command_accepted demo_ok) simp_all
  obtain p where p: "make_payload demo_env (wake_message demo_env [] 0 None) ''WAKE message encode failed'' = Inr p"
      "length p \<le> MAX_PAYLOAD_SIZE" using demo_wake_payload by blast
  obtain f where f: "make_frame demo_env demo_id MSG_WAKE 9 p = Inr f" using make_frame_fits [OF demo_ok p(2)] by blast
  have "\<exists>w'. wake_attempts demo_env demo_id 9 f 0 (Suc MAX_RETRIES) (demo_radio [raw]) = (Inr (5, 6, Nop, None), w')"
    using v by (simp add: st_seq_def st_bind_def st_return_def radio_send_def radio_recv_def demo_radio_def)
  then obtain w' where w': "wake_command_exchange demo_env demo_id 9 [] 0 None (demo_radio [raw]) = (Inr (5, 6, Nop, None), w')"
    using p f by (auto simp: wake_command_exchange_def st_bind_def st_lift_def)
  from wake_command_authentic [OF this] have "\<exists>raw' h payload. received (demo_radio [raw]) raw' \<and>
       decode_verify_frame demo_env (id_psk demo_id) raw' = Inr (h, payload) \<and> msg_type h = MSG_COMMAND \<and> nonce h = 9" by blast
  then show ?thesis using w' by (auto simp: received_def demo_radio_def)
qed

end
