(* ===== verification/Cycle_Correct.thy ===== *)
theory Cycle_Correct
  imports Wake_Correct
begin

text \<open>
  Properties of a whole wake cycle: the program that is active afterwards, the node's key, the way a
  cycle ends, and the state it leaves the hardware in.
\<close>

section \<open>An example node\<close>

definition demo_platform :: platform where
  "demo_platform = \<lparr>pf_drv = perfect_driver, pf_map_base = 0x50000000,
     pf_layout = \<lparr>i2c0_sda = Some 0, i2c0_scl = Some 1, one_wire_data = None, battery_adc = Some 2, sensor_enable = None\<rparr>,
     pf_adc = \<lambda>_. (1000, 1200), pf_rng_ok = True, pf_rng_u64 = 9, pf_blob_addr = 0x3F000000,
     pf_exec = \<lambda>req v. v\<rparr>"

definition demo_node :: node where
  "demo_node = \<lparr>nd_radio = demo_radio [],
     nd_storage = snd (write_key perfect_driver 1 (replicate 32 7) blank_storage),
     nd_maps = storage_new 4096, nd_rtc = \<lparr>rtc_backing = [], rtc_map_count = 0, rtc_defs = []\<rparr>,
     nd_queue = snd (queue_push [1, 2] (queue_new queue_zero)), nd_gpio_active = False\<rparr>"

lemma demo_driver: "nvs_driver_ok (pf_drv demo_platform)"
  by (simp add: demo_platform_def perfect_driver_ok)

lemma demo_paired: "read_key (nd_storage demo_node) = Some (1, replicate 32 7)" "\<not> nd_gpio_active demo_node"
  by (simp_all add: demo_node_def write_key_def st_seq_def st_bind_def set_blob_def
      set_u32_def perfect_driver_def blank_storage_def read_key_def MAGIC_VALUE_def)

section \<open>What the steps leave alone\<close>

definition identity_and_program :: "node_storage \<Rightarrow> (u16 \<times> bytes) option \<times> bytes option" where
  "identity_and_program s = (read_key s, active_image s)"

lemma touches_identity:
  assumes "touches K m" and "K \<inter> {''psk'', ''key_hint'', ''magic'', ''active_p'', ''prog_a'', ''prog_b''} = {}"
  shows "identity_and_program (snd (m s)) = identity_and_program s"
proof -
  have same: "u32_at j (snd (m s)) = u32_at j s" "blob_at j (snd (m s)) = blob_at j s"
    if "j \<in> {''psk'', ''key_hint'', ''magic'', ''active_p'', ''prog_a'', ''prog_b''}" for j
    using that assms unfolding touches_def by blast+
  have "prog_key p \<in> {''psk'', ''key_hint'', ''magic'', ''active_p'', ''prog_a'', ''prog_b''}" for p
    by (simp add: prog_key_def)
  with same have "active_image (snd (m s)) = active_image s" by (intro active_image_cong) auto
  moreover have "read_key (snd (m s)) = read_key s" by (rule read_key_cong) (use same in auto)
  ultimately show ?thesis by (simp add: identity_and_program_def)
qed

lemma small_ops_identity [simp]:
  assumes "nvs_driver_ok drv"
  shows "identity_and_program (snd (write_reg_complete drv b s)) = identity_and_program s"
    and "identity_and_program (snd (erase_peer_payload drv s)) = identity_and_program s"
    and "identity_and_program (snd (write_schedule_interval drv i s)) = identity_and_program s"
  by (rule touches_identity [OF touches_storage_ops(5) [OF assms]] touches_identity [OF touches_storage_ops(4) [OF assms]]
      touches_identity [OF touches_storage_ops(9) [OF assms]]; simp)+

lemma identity_cong: "st_nvs s' = st_nvs s \<Longrightarrow> identity_and_program s' = identity_and_program s"
  unfolding identity_and_program_def using read_key_cong [of s' s] active_image_cong [of s' s] by simp

lemma rtc_ops_identity [simp]:
  "identity_and_program (snd (write_last_battery_mv mv s)) = identity_and_program s"
  "identity_and_program (snd (set_early_wake_flag s)) = identity_and_program s"
  "identity_and_program (snd (take_early_wake_flag s)) = identity_and_program s"
  by (rule identity_cong, simp add: write_last_battery_mv_def set_early_wake_flag_def take_early_wake_flag_def)+

lemma capture_node:
  "identity_and_program (nd_storage (cycle_node (capture_battery_then_sleep pf sm nd))) = identity_and_program (nd_storage nd)"
  "\<not> nd_gpio_active (cycle_node (capture_battery_then_sleep pf sm nd))"
  "capture_battery_then_sleep pf sm nd = Done out nd' \<Longrightarrow> out = log_and_sleep sm"
  by (simp_all add: capture_battery_then_sleep_def persist_current_cycle_battery_def activate_gpio_def Let_def)

section \<open>Registration\<close>

lemma peer_ack_loop_result:
  assumes "nvs_driver_ok drv" and "peer_ack_loop drv env ident n start ws = (r, ws')"
  shows "identity_and_program (snd ws') = identity_and_program (snd ws) \<and>
    set (rx_script (fst ws')) \<subseteq> set (rx_script (fst ws))"
  using assms
proof (induction drv env ident n start ws rule: peer_ack_loop.induct)
  case (1 drv env ident n start ws)
  obtain w s where ws: "ws = (w, s)" by (cases ws)
  let ?e = "now_ms w - start"
  note step = peer_ack_loop.simps [of drv env ident n start "(w, s)"]
  show ?case
  proof (cases "PEER_ACK_TIMEOUT_MS \<le> ?e")
    case True
    with "1.prems"(2) show ?thesis by (auto simp: step ws)
  next
    case False
    obtain r1 w1 where v: "radio_recv (min (PEER_ACK_TIMEOUT_MS - ?e) 500) w = (r1, w1)"
      by (cases "radio_recv (min (PEER_ACK_TIMEOUT_MS - ?e) 500) w")
    have rx: "set (rx_script w1) \<subseteq> set (rx_script w)" by (rule radio_recv_set [OF v])
    have again: ?thesis if "peer_ack_loop drv env ident n start (w1, s) = (r, ws')"
      "peer_ack_loop drv env ident n start (w1, s) = (r, ws') \<Longrightarrow> identity_and_program (snd ws') = identity_and_program (snd (w1, s)) \<and>
         set (rx_script (fst ws')) \<subseteq> set (rx_script (fst (w1, s)))"
      using that rx by (auto simp: ws)
    consider e where "r1 = Inl e" | "r1 = Inr None" | raw where "r1 = Inr (Some raw)"
      by (metis sum.exhaust option.exhaust)
    then show ?thesis
    proof cases
      case 1
      with "1.prems"(2) False v rx show ?thesis by (auto simp: step ws Let_def)
    next
      case 2
      with "1.prems"(2) False v have "peer_ack_loop drv env ident n start (w1, s) = (r, ws')" by (simp add: step ws Let_def)
      then show ?thesis using again "1.IH"(1) [OF ws [symmetric] refl False v [symmetric] 2 refl "1.prems"(1)] by blast
    next
      case (3 raw)
      show ?thesis
      proof (cases "verify_peer_ack env ident n raw")
        case (Inl e)
        with "1.prems"(2) False v 3 have "peer_ack_loop drv env ident n start (w1, s) = (r, ws')" by (simp add: step ws Let_def)
        then show ?thesis using again "1.IH"(2) [OF ws [symmetric] refl False v [symmetric] 3 refl Inl "1.prems"(1)] by blast
      next
        case (Inr u)
        have "identity_and_program (snd (write_reg_complete drv True s)) = identity_and_program s"
          using "1.prems"(1) by simp
        with "1.prems"(2) False v 3 Inr rx show ?thesis by (auto simp: step ws Let_def split: prod.splits sum.splits)
      qed
    qed
  qed
qed

lemma peer_request_result:
  assumes "nvs_driver_ok drv" and "peer_request_exchange drv env ident f (w, s) = (r, (w', s'))"
  shows "identity_and_program s' = identity_and_program s \<and> set (rx_script w') \<subseteq> set (rx_script w)"
proof -
  have send: "set (rx_script w1) \<subseteq> set (rx_script w)" if "radio_send x w = (y, w1)" for x y w1
    using radio_send_shrinks [OF that] by simp
  show ?thesis
    using assms(2) peer_ack_loop_result [OF assms(1)] send
    unfolding peer_request_exchange_def
    by (auto split: sum.splits prod.splits) (metis fst_conv snd_conv subsetD)+
qed

section \<open>The steps\<close>

lemma register_step_result:
  assumes "nvs_driver_ok (pf_drv pf)"
  shows "identity_and_program (nd_storage (cycle_node (register_step pf env ident sm nd))) = identity_and_program (nd_storage nd) \<and>
    set (rx_script (nd_radio (cycle_node (register_step pf env ident sm nd)))) \<subseteq> set (rx_script (nd_radio nd)) \<and>
    nd_gpio_active (cycle_node (register_step pf env ident sm nd)) = nd_gpio_active nd \<and>
    (\<forall>out nd'. register_step pf env ident sm nd = Done out nd' \<longrightarrow> out = log_and_sleep sm)"
proof (cases "read_reg_complete (nd_storage nd)")
  case True
  then show ?thesis by (simp add: register_step_def)
next
  case False
  show ?thesis
  proof (cases "read_peer_payload (nd_storage nd)")
    case None
    with False show ?thesis by (simp add: register_step_def)
  next
    case (Some f)
    obtain r w s where x: "peer_request_exchange (pf_drv pf) env ident f (nd_radio nd, nd_storage nd) = (r, (w, s))"
      by (metis surj_pair)
    note res = peer_request_result [OF assms x]
    show ?thesis
    proof (cases r)
      case (Inl e)
      have "identity_and_program (case e of MalformedPayload _ \<Rightarrow> snd (erase_peer_payload (pf_drv pf) s) | _ \<Rightarrow> s) = identity_and_program s"
        using assms by (simp split: node_error.split)
      with False Some x Inl res show ?thesis by (simp add: register_step_def Let_def)
    next
      case (Inr b)
      with False Some x res show ?thesis by (cases b) (simp_all add: register_step_def)
    qed
  qed
qed

lemma wake_step_result:
  assumes "nvs_driver_ok (pf_drv pf)"
  shows "identity_and_program (nd_storage (cycle_node (wake_step pf env ident sm ph nd))) = identity_and_program (nd_storage nd) \<and>
    nd_gpio_active (cycle_node (wake_step pf env ident sm ph nd)) = nd_gpio_active nd \<and>
    (\<forall>out nd'. wake_step pf env ident sm ph nd = Done out nd' \<longrightarrow> out = log_and_sleep sm) \<and>
    (\<forall>cmd nd'. wake_step pf env ident sm ph nd = Continue cmd nd' \<longrightarrow>
       (\<exists>raw. received (nd_radio nd) raw \<and> verify_and_decode_command env ident (pf_rng_u64 pf) raw = Inr cmd))"
proof -
  let ?b = "case read_last_battery_mv (nd_storage nd) of Some mv \<Rightarrow> mv | None \<Rightarrow> 0"
  let ?blob = "piggyback_blob env ph ?b (nd_queue nd)"
  obtain r w where x: "wake_command_exchange env ident (pf_rng_u64 pf) ph ?b ?blob (nd_radio nd) = (r, w)"
    by (metis surj_pair)
  then have "\<exists>raw. received (nd_radio nd) raw \<and> verify_and_decode_command env ident (pf_rng_u64 pf) raw = Inr cmd" if "r = Inr cmd" for cmd
    using that wake_exchange_received by blast
  with x assms show ?thesis by (cases r) (simp_all add: wake_step_def Let_def)
qed

lemma transfer_step_result:
  assumes "nvs_driver_ok (pf_drv pf)"
    and c_def: "c = transfer_step pf env ident sm seq eph h ps cs cc nd"
  shows "read_key (nd_storage (cycle_node c)) = read_key (nd_storage nd) \<and>
    (active_image (nd_storage (cycle_node c)) = active_image (nd_storage nd) \<or>
     \<not> eph \<and> (\<exists>b. active_image (nd_storage (cycle_node c)) = Some b \<and> en_sha env b = h)) \<and>
    (\<not> nd_gpio_active nd \<longrightarrow> \<not> nd_gpio_active (cycle_node c)) \<and>
    (\<forall>out nd'. c = Done out nd' \<longrightarrow> out = log_and_sleep sm)"
proof -
  let ?nd = "nd\<lparr>nd_queue := queue_clear (nd_queue nd)\<rparr>"
  let ?mx = "if eph then MAX_EPHEMERAL_IMAGE_SIZE else MAX_RESIDENT_IMAGE_SIZE"
  have sleep: "?thesis" if "c = capture_battery_then_sleep pf sm nd1" and "read_key (nd_storage nd1) = read_key (nd_storage nd)"
      and "active_image (nd_storage nd1) = active_image (nd_storage nd) \<or>
        \<not> eph \<and> (\<exists>b. active_image (nd_storage nd1) = Some b \<and> en_sha env b = h)" for nd1
    using that capture_node(1,2) [of pf sm nd1] by (auto simp: identity_and_program_def dest: capture_node(3))
  obtain r l where t: "chunked_transfer env ident ps cs cc ?mx (link_of ?nd seq) = (r, l)" by (metis surj_pair)
  show ?thesis
  proof (cases r)
    case (Inl e)
    with t show ?thesis by (intro sleep [of "?nd\<lparr>nd_radio := lk_radio l\<rparr>"]) (simp_all add: c_def transfer_step_def Let_def)
  next
    case (Inr img)
    obtain r2 s where i: "(if eph then (load_ephemeral (en_de env) (en_sha env) img h, nd_storage ?nd)
        else install_resident (pf_drv pf) (en_de env) (en_sha env) (st_budget (nd_maps ?nd)) img h (nd_storage ?nd)) = (r2, s)"
      by (metis surj_pair)
    have s: "read_key s = read_key (nd_storage nd) \<and> (active_image s = active_image (nd_storage nd) \<or>
        \<not> eph \<and> (\<exists>b. active_image s = Some b \<and> en_sha env b = h))"
      using i install_keeps_or_announced [OF assms(1)] by (auto split: if_splits)
    show ?thesis
    proof (cases r2)
      case (Inl e)
      with t \<open>r = Inr img\<close> i s show ?thesis
        by (intro sleep [of "?nd\<lparr>nd_radio := lk_radio l, nd_storage := s\<rparr>"]) (simp_all add: c_def transfer_step_def Let_def)
    next
      case (Inr p)
      obtain r3 l3 where a: "send_program_ack env ident (lp_hash p) l = (r3, l3)" by (metis surj_pair)
      show ?thesis
      proof (cases r3)
        case (Inl e)
        with t \<open>r = Inr img\<close> i s \<open>r2 = Inr p\<close> a show ?thesis
          by (intro sleep [of "?nd\<lparr>nd_radio := lk_radio l3, nd_storage := s\<rparr>"]) (simp_all add: c_def transfer_step_def Let_def)
      next
        case (Inr u)
        with t \<open>r = Inr img\<close> i s \<open>r2 = Inr p\<close> a show ?thesis by (simp add: c_def transfer_step_def Let_def)
      qed
    qed
  qed
qed

lemma dispatch_step_result:
  assumes "nvs_driver_ok (pf_drv pf)" and c: "c = dispatch_step pf env ident sm resident seq payload nd"
  shows "read_key (nd_storage (cycle_node c)) = read_key (nd_storage nd) \<and>
    (active_image (nd_storage (cycle_node c)) = active_image (nd_storage nd) \<or>
     (\<exists>h ps cs cc b. payload = UpdateProgram h ps cs cc \<and>
        active_image (nd_storage (cycle_node c)) = Some b \<and> en_sha env b = h)) \<and>
    (\<not> nd_gpio_active nd \<longrightarrow> \<not> nd_gpio_active (cycle_node c)) \<and>
    (\<forall>out nd'. c = Done out nd' \<longrightarrow> out = log_and_sleep sm \<or> out = RebootNode \<and> payload = Reboot)"
proof (cases payload)
  case (UpdateProgram h ps cs cc)
  then have "c = transfer_step pf env ident sm seq False h ps cs cc nd" by (simp add: c dispatch_step_def)
  from transfer_step_result [OF assms(1) this] UpdateProgram show ?thesis by blast
next
  case (RunEphemeral h ps cs cc)
  then have "c = transfer_step pf env ident sm seq True h ps cs cc nd" by (simp add: c dispatch_step_def)
  from transfer_step_result [OF assms(1) this] show ?thesis by blast
next
  case (UpdateSchedule i)
  with small_ops_identity(3) [OF assms(1), of i "nd_storage nd"] show ?thesis
    by (simp add: c dispatch_step_def identity_and_program_def case_prod_beta)
qed (simp_all add: c dispatch_step_def Let_def case_prod_beta)

lemma prepare_step_result:
  assumes c: "c = prepare_step pf env ph d nd"
  shows "identity_and_program (nd_storage (cycle_node c)) = identity_and_program (nd_storage nd) \<and>
    (\<not> nd_gpio_active nd \<longrightarrow> \<not> nd_gpio_active (cycle_node c)) \<and>
    (\<forall>out nd'. c = Done out nd' \<longrightarrow> out = log_and_sleep (dp_sleep d))"
proof -
  have sleep: ?thesis if "c = capture_battery_then_sleep pf (dp_sleep d) nd1" "nd_storage nd1 = nd_storage nd" for nd1
    using that capture_node(1,2) [of pf "dp_sleep d" nd1] by (auto dest: capture_node(3))
  let ?prog = "case dp_program d of Some p \<Rightarrow> Some p
    | None \<Rightarrow> (case dp_resident d of Some raw \<Rightarrow> decode_image (en_de env) raw ph | None \<Rightarrow> None)"
  show ?thesis
  proof (cases ?prog)
    case None
    then show ?thesis by (simp add: c prepare_step_def Let_def)
  next
    case (Some p)
    obtain r st rt where a: "allocate (pf_map_base pf) (lp_map_defs p) (nd_maps nd) (nd_rtc nd) = (r, st, rt)"
      by (metis surj_pair)
    have "c = capture_battery_then_sleep pf (dp_sleep d) nd \<or>
        c = capture_battery_then_sleep pf (dp_sleep d) (nd\<lparr>nd_maps := st, nd_rtc := rt\<rparr>) \<or>
        (\<exists>nd1. c = Continue (Some p) nd1 \<and> nd_storage nd1 = nd_storage nd \<and> nd_gpio_active nd1 = nd_gpio_active nd)"
      using Some a by (cases r) (auto simp: c prepare_step_def Let_def)
    then show ?thesis
    proof (elim disjE exE conjE)
      fix nd1
      assume "c = Continue (Some p) nd1" "nd_storage nd1 = nd_storage nd" "nd_gpio_active nd1 = nd_gpio_active nd"
      then show ?thesis by simp
    qed (rule sleep, assumption, simp)+
  qed
qed

lemma execute_step_result:
  assumes "execute_step pf ident ts at blob d program nd = (out, nd')"
  shows "identity_and_program (nd_storage nd') = identity_and_program (nd_storage nd) \<and>
    \<not> nd_gpio_active nd' \<and> (\<exists>sm. out = log_and_sleep sm)"
  using assms
  by (auto simp: execute_step_def persist_current_cycle_battery_def activate_gpio_def run_program_def Let_def
      split: option.splits prod.splits if_splits)

section \<open>The cycle\<close>

lemma cycle_bind_Done:
  "cycle_bind c k = Done out nd \<longleftrightarrow> c = Done out nd \<or> (\<exists>x nd1. c = Continue x nd1 \<and> k x nd1 = Done out nd)"
  by (cases c) (auto simp: cycle_bind_def)

lemma cycle_bind_Continue:
  "cycle_bind c k = Continue y nd \<longleftrightarrow> (\<exists>x nd1. c = Continue x nd1 \<and> k x nd1 = Continue y nd)"
  by (cases c) (auto simp: cycle_bind_def)

text \<open>The ways through a cycle of a paired node: it ends in one of the steps, or runs through.\<close>

lemma run_wake_cycle_cases:
  assumes "run_wake_cycle pf env nd0 = (out, nd)"
  obtains (unpaired) "load_identity (nd_storage nd0) = None" "out = UnpairedNode" "nd = nd0"
  | (rng) sm where "\<not> pf_rng_ok pf" "out = log_and_sleep sm" "nd = nd0"
  | (register) ident sm nd1 where "load_identity (nd_storage nd0) = Some ident" "nd1 = snd (determine_wake_reason nd0)"
      "register_step pf env ident sm nd1 = Done out nd"
  | (wake) ident sm nd1 u nd2 ph where "load_identity (nd_storage nd0) = Some ident" "nd1 = snd (determine_wake_reason nd0)"
      "register_step pf env ident sm nd1 = Continue u nd2" "wake_step pf env ident sm ph nd2 = Done out nd"
  | (later) ident sm nd1 u nd2 ph resident seq ts payload blob nd3 where "load_identity (nd_storage nd0) = Some ident"
      "nd1 = snd (determine_wake_reason nd0)" "register_step pf env ident sm nd1 = Continue u nd2"
      "wake_step pf env ident sm ph nd2 = Continue (seq, ts, payload, blob) nd3"
      "dispatch_step pf env ident sm resident seq payload nd3 = Done out nd \<or>
       (\<exists>d nd4. dispatch_step pf env ident sm resident seq payload nd3 = Continue d nd4 \<and>
          (prepare_step pf env ph d nd4 = Done out nd \<or>
           (\<exists>program nd5 t. prepare_step pf env ph d nd4 = Continue program nd5 \<and>
              execute_step pf ident ts t blob d program nd5 = (out, nd))))"
proof (cases "load_identity (nd_storage nd0)")
  case None
  with assms have "out = UnpairedNode" "nd = nd0" by (auto simp: run_wake_cycle_def)
  with None show ?thesis by (rule unpaired)
next
  case (Some ident)
  show ?thesis
  proof (cases "pf_rng_ok pf")
    case False
    with assms Some have "out = log_and_sleep (sleep_new (fst (read_schedule (nd_storage nd0))) Scheduled)" "nd = nd0"
      by (auto simp: run_wake_cycle_def log_and_sleep_def)
    with False show ?thesis by (rule rng)
  next
    case True
    obtain reason nd1 where w: "determine_wake_reason nd0 = (reason, nd1)" by (metis surj_pair)
    let ?sm = "sleep_new (fst (read_schedule (nd_storage nd1))) reason"
    show ?thesis
    proof (cases "register_step pf env ident ?sm nd1")
      case (Done o1 n1)
      with assms Some True w have "register_step pf env ident ?sm nd1 = Done out nd"
        by (simp add: run_wake_cycle_def cycle_bind_def Let_def)
      with Some w show ?thesis by (intro register) auto
    next
      case (Continue u nd2)
      note reg = this
      obtain ph resident where l: "load_active_raw (en_sha env) (nd_storage nd2) = (ph, resident)" by (metis surj_pair)
      show ?thesis
      proof (cases "wake_step pf env ident ?sm ph nd2")
        case (Done o1 n1)
        with assms Some True w reg l have "wake_step pf env ident ?sm ph nd2 = Done out nd"
          by (simp add: run_wake_cycle_def cycle_bind_def Let_def)
        with Some w reg show ?thesis by (intro wake) auto
      next
        case (Continue cmd nd3)
        obtain seq ts payload blob where cmd: "cmd = (seq, ts, payload, blob)" by (metis surj_pair)
        have "dispatch_step pf env ident ?sm resident seq payload nd3 = Done out nd \<or>
         (\<exists>d nd4. dispatch_step pf env ident ?sm resident seq payload nd3 = Continue d nd4 \<and>
            (prepare_step pf env ph d nd4 = Done out nd \<or>
             (\<exists>program nd5 t. prepare_step pf env ph d nd4 = Continue program nd5 \<and>
                execute_step pf ident ts t blob d program nd5 = (out, nd))))"
          using assms Some True w reg l Continue cmd
          by (simp add: run_wake_cycle_def cycle_bind_def Let_def split: cycle.splits) blast
        with Some w reg Continue show ?thesis unfolding cmd by (intro later) auto
      qed
    qed
  qed
qed

lemma determine_wake_reason_keeps [simp]:
  "identity_and_program (nd_storage (snd (determine_wake_reason nd))) = identity_and_program (nd_storage nd)"
  "nd_radio (snd (determine_wake_reason nd)) = nd_radio nd"
  "nd_gpio_active (snd (determine_wake_reason nd)) = nd_gpio_active nd"
  by (simp_all add: determine_wake_reason_def case_prod_beta)

definition commanded :: "platform \<Rightarrow> node_env \<Rightarrow> node \<Rightarrow> command_payload \<Rightarrow> bool" where
  "commanded pf env nd payload \<longleftrightarrow> (\<exists>ident raw seq ts blob. load_identity (nd_storage nd) = Some ident \<and>
     received (nd_radio nd) raw \<and>
     verify_and_decode_command env ident (pf_rng_u64 pf) raw = Inr (seq, ts, payload, blob))"

lemma cycle_outcome:
  assumes ok: "nvs_driver_ok (pf_drv pf)" and run: "run_wake_cycle pf env nd0 = (out, nd)"
  shows "read_key (nd_storage nd) = read_key (nd_storage nd0) \<and>
    (active_image (nd_storage nd) = active_image (nd_storage nd0) \<or>
     (\<exists>h ps cs cc b. commanded pf env nd0 (UpdateProgram h ps cs cc) \<and>
        active_image (nd_storage nd) = Some b \<and> en_sha env b = h)) \<and>
    (\<not> nd_gpio_active nd0 \<longrightarrow> \<not> nd_gpio_active nd) \<and>
    ((\<exists>sm. out = log_and_sleep sm) \<or> out = RebootNode \<and> commanded pf env nd0 Reboot \<or>
     out = UnpairedNode \<and> load_identity (nd_storage nd0) = None)"
  using run
proof (cases rule: run_wake_cycle_cases)
  case (register ident sm nd1)
  note reg = register_step_result [OF ok, of env ident sm nd1]
  with register have "identity_and_program (nd_storage nd) = identity_and_program (nd_storage nd0)" by simp
  with register reg show ?thesis by (auto simp: identity_and_program_def)
next
  case (wake ident sm nd1 u nd2 ph)
  note res = register_step_result [OF ok, of env ident sm nd1] wake_step_result [OF ok, of env ident sm ph nd2]
  with wake have "identity_and_program (nd_storage nd) = identity_and_program (nd_storage nd0)" by simp
  with wake res show ?thesis by (auto simp: identity_and_program_def)
next
  case (later ident sm nd1 u nd2 ph resident seq ts payload blob nd3)
  note reg = register_step_result [OF ok, of env ident sm nd1]
    and wk = wake_step_result [OF ok, of env ident sm ph nd2]
  have com: "commanded pf env nd0 payload"
  proof -
    obtain raw where "received (nd_radio nd2) raw"
        "verify_and_decode_command env ident (pf_rng_u64 pf) raw = Inr (seq, ts, payload, blob)"
      using wk later(4) by blast
    moreover from this have "received (nd_radio nd0) raw"
      using reg later(2,3) unfolding received_def by auto
    ultimately show ?thesis using later(1) unfolding commanded_def by blast
  qed
  have before: "identity_and_program (nd_storage nd3) = identity_and_program (nd_storage nd0)"
      "nd_gpio_active nd3 = nd_gpio_active nd0"
    using reg wk later(2-4) by auto
  note ds = dispatch_step_result [OF ok refl, of env ident sm resident seq payload nd3]
  have "identity_and_program (nd_storage nd) = identity_and_program (nd_storage (cycle_node (dispatch_step pf env ident sm resident seq payload nd3))) \<and>
      (\<not> nd_gpio_active nd0 \<longrightarrow> \<not> nd_gpio_active nd) \<and> ((\<exists>sm. out = log_and_sleep sm) \<or> out = RebootNode \<and> payload = Reboot)"
    using later(5)
  proof (elim disjE exE conjE)
    assume "dispatch_step pf env ident sm resident seq payload nd3 = Done out nd"
    with ds before show ?thesis by auto
  next
    fix d nd4 assume d: "dispatch_step pf env ident sm resident seq payload nd3 = Continue d nd4"
      and "prepare_step pf env ph d nd4 = Done out nd"
    with ds before prepare_step_result [OF refl, of pf env ph d nd4] show ?thesis by auto
  next
    fix d nd4 program nd5 t assume d: "dispatch_step pf env ident sm resident seq payload nd3 = Continue d nd4"
      and "prepare_step pf env ph d nd4 = Continue program nd5" and e: "execute_step pf ident ts t blob d program nd5 = (out, nd)"
    with ds before prepare_step_result [OF refl, of pf env ph d nd4] execute_step_result [OF e] show ?thesis by auto
  qed
  with ds com before show ?thesis unfolding identity_and_program_def by auto
qed auto

text \<open>C6. A wake cycle never leaves a node with a program nobody announced: whatever arrives on the radio
  and whichever flash writes fail, afterwards the active program is the one that was active before, or
  its bytes have the hash of an UPDATE_PROGRAM command that was received in this cycle, opened under
  the node's key and carried this cycle's nonce; the node's key is unchanged.\<close>

theorem wake_cycle_program_integrity:
  assumes "nvs_driver_ok (pf_drv pf)" and "run_wake_cycle pf env nd = (out, nd')"
  shows "read_key (nd_storage nd') = read_key (nd_storage nd) \<and>
    (active_image (nd_storage nd') = active_image (nd_storage nd) \<or>
     (\<exists>h ps cs cc b. commanded pf env nd (UpdateProgram h ps cs cc) \<and>
        active_image (nd_storage nd') = Some b \<and> en_sha env b = h))"
  using cycle_outcome [OF assms] by blast

theorem wake_cycle_program_integrity_witness:
  "read_key (nd_storage (snd (run_wake_cycle demo_platform demo_env demo_node))) = Some (1, replicate 32 7)"
  using wake_cycle_program_integrity [OF demo_driver surjective_pairing, of demo_env demo_node] demo_paired(1) by simp

text \<open>C19. Every wake cycle ends well: the node sleeps for at least one second, or reboots because an
  authenticated command of this cycle says so, or is unpaired; and however the cycle ends, a sensor
  rail that was off at the start is off again.\<close>

theorem wake_cycle_ends_safely:
  assumes "nvs_driver_ok (pf_drv pf)" and "run_wake_cycle pf env nd = (out, nd')"
  shows "(case out of Sleep n \<Rightarrow> 1 \<le> n | RebootNode \<Rightarrow> commanded pf env nd Reboot
            | UnpairedNode \<Rightarrow> read_key (nd_storage nd) = None) \<and>
    (\<not> nd_gpio_active nd \<longrightarrow> \<not> nd_gpio_active nd')"
  using cycle_outcome [OF assms] effective_sleep_bounds(1)
  by (auto simp: log_and_sleep_def load_identity_def split: wake_cycle_outcome.splits)

theorem wake_cycle_ends_safely_witness:
  "\<not> nd_gpio_active (snd (run_wake_cycle demo_platform demo_env demo_node))"
  using wake_cycle_ends_safely [OF demo_driver surjective_pairing, of demo_env demo_node] demo_paired(2) by simp

end
