(* ===== verification/Peer_Table.thy ===== *)
theory Peer_Table
  imports Modem_Codec "HOL-Library.Multiset"
begin

text \<open>
  The peer table of the modem (\<open>sonde-modem/src/peer_table.rs\<close>): at most twenty ESP-NOW peers, each with the
  tick of its last use. The abstract specification is the list of peers in the order of their last use;
  \<open>peer_table_lru\<close> shows that the table behaves as this list, evictions included, until the 64-bit tick
  saturates.
\<close>

section \<open>The table\<close>

definition MAX_PEERS :: nat where "MAX_PEERS = 20"

record peer_entry =
  pe_mac :: bytes
  pe_last_used :: u64

record peer_table =
  pt_entries :: "peer_entry list"
  pt_tick :: u64

definition peers_new :: peer_table where
  "peers_new = \<lparr>pt_entries = [], pt_tick = 0\<rparr>"

definition saturating_inc :: "u64 \<Rightarrow> u64" where
  "saturating_inc n = (if n = - 1 then n else n + 1)"

text \<open>\<open>min_by_key\<close> over the enumerated entries returns the first of the smallest.\<close>

fun lru_scan :: "nat \<Rightarrow> nat \<times> u64 \<Rightarrow> peer_entry list \<Rightarrow> nat" where
  "lru_scan i (best, k) [] = best"
| "lru_scan i (best, k) (e # es) =
     (if pe_last_used e < k then lru_scan (Suc i) (i, pe_last_used e) es else lru_scan (Suc i) (best, k) es)"

fun lru_index :: "peer_entry list \<Rightarrow> nat option" where
  "lru_index [] = None"
| "lru_index (e # es) = Some (lru_scan 1 (0, pe_last_used e) es)"

text \<open>The search loop: the first entry of the address is touched.\<close>

primrec touch_peer :: "bytes \<Rightarrow> u64 \<Rightarrow> peer_entry list \<Rightarrow> peer_entry list option" where
  "touch_peer mac tick [] = None"
| "touch_peer mac tick (e # es) =
     (if pe_mac e = mac then Some (e\<lparr>pe_last_used := tick\<rparr> # es)
      else map_option (\<lambda>es'. e # es') (touch_peer mac tick es))"

definition ensure_peer :: "bytes \<Rightarrow> peer_table \<Rightarrow> bytes option \<times> peer_table" where
  "ensure_peer mac t =
     (let tick = saturating_inc (pt_tick t);
          fresh = \<lparr>pe_mac = mac, pe_last_used = tick\<rparr>
      in case touch_peer mac tick (pt_entries t) of
           Some es \<Rightarrow> (None, \<lparr>pt_entries = es, pt_tick = tick\<rparr>)
         | None \<Rightarrow>
             if length (pt_entries t) \<ge> MAX_PEERS then
               let lru_idx = the (lru_index (pt_entries t)) in
               (Some (pe_mac (pt_entries t ! lru_idx)),
                \<lparr>pt_entries = (pt_entries t)[lru_idx := fresh], pt_tick = tick\<rparr>)
             else (None, \<lparr>pt_entries = pt_entries t @ [fresh], pt_tick = tick\<rparr>))"

definition peers_clear :: "peer_table \<Rightarrow> peer_table" where
  "peers_clear t = t\<lparr>pt_entries := [], pt_tick := 0\<rparr>"

definition peers_len :: "peer_table \<Rightarrow> nat" where "peers_len t = length (pt_entries t)"
definition peers_is_empty :: "peer_table \<Rightarrow> bool" where "peers_is_empty t \<longleftrightarrow> pt_entries t = []"
definition peers_contains :: "bytes \<Rightarrow> peer_table \<Rightarrow> bool" where
  "peers_contains mac t = list_ex (\<lambda>e. pe_mac e = mac) (pt_entries t)"
definition all_macs :: "peer_table \<Rightarrow> bytes list" where "all_macs t = map pe_mac (pt_entries t)"

datatype peer_op = EnsurePeer bytes | ClearPeers

fun peer_step :: "peer_op \<Rightarrow> peer_table \<Rightarrow> bytes option \<times> peer_table" where
  "peer_step (EnsurePeer mac) t = ensure_peer mac t"
| "peer_step ClearPeers t = (None, peers_clear t)"

section \<open>The specification: peers in the order of their last use\<close>

fun lru_step :: "peer_op \<Rightarrow> bytes list \<Rightarrow> bytes option \<times> bytes list" where
  "lru_step (EnsurePeer mac) xs =
     (if mac \<in> set xs then (None, mac # remove1 mac xs)
      else if length xs < MAX_PEERS then (None, mac # xs)
      else (Some (last xs), mac # butlast xs))"
| "lru_step ClearPeers xs = (None, [])"

text \<open>\<open>es\<close> lists the entries of the table from the most to the least recently used.\<close>

definition by_recency :: "peer_entry list \<Rightarrow> peer_table \<Rightarrow> bool" where
  "by_recency es t \<longleftrightarrow> mset es = mset (pt_entries t) \<and> distinct (map pe_mac es) \<and>
     sorted_wrt (\<lambda>a b. pe_last_used b < pe_last_used a) es \<and>
     (\<forall>e\<in>set es. pe_last_used e \<le> pt_tick t) \<and> length es \<le> MAX_PEERS"

definition peers_refine :: "nat \<Rightarrow> peer_table \<Rightarrow> bytes list \<Rightarrow> bool" where
  "peers_refine n t xs \<longleftrightarrow> unat (pt_tick t) + n < 2 ^ 64 \<and> (\<exists>es. by_recency es t \<and> xs = map pe_mac es)"

section \<open>Lemmas on the loops\<close>

lemma saturating_inc:
  assumes "unat n + 1 < 2 ^ 64"
  shows "unat (saturating_inc n) = unat n + 1" and "k \<le> n \<Longrightarrow> k < saturating_inc n"
proof -
  have "n \<noteq> - 1"
  proof
    assume "n = - 1"
    then have "unat n = 2 ^ 64 - 1" by (simp add: unsigned_minus_1_eq_mask mask_eq_exp_minus_1)
    then show False using assms by simp
  qed
  then show u: "unat (saturating_inc n) = unat n + 1"
    using assms by (simp add: saturating_inc_def unat_word_ariths)
  show "k < saturating_inc n" if "k \<le> n"
    using that u by (simp add: word_less_nat_alt word_le_nat_alt)
qed

lemma lru_scan_least:
  assumes "i = length pre" and "b < i" and "pe_last_used (pre ! b) = k" and "\<forall>x\<in>set pre. k \<le> pe_last_used x"
  shows "lru_scan i (b, k) es < length (pre @ es) \<and>
    (\<forall>x\<in>set (pre @ es). pe_last_used ((pre @ es) ! lru_scan i (b, k) es) \<le> pe_last_used x)"
  using assms
proof (induction es arbitrary: pre i b k)
  case Nil
  then show ?case by simp
next
  case (Cons e es)
  show ?case
  proof (cases "pe_last_used e < k")
    case True
    have "\<forall>x\<in>set (pre @ [e]). pe_last_used e \<le> pe_last_used x" using True Cons.prems(4) by force
    then show ?thesis
      using Cons.IH [of "Suc i" "pre @ [e]" i "pe_last_used e"] True Cons.prems(1) by simp
  next
    case False
    then show ?thesis
      using Cons.IH [of "Suc i" "pre @ [e]" b k] Cons.prems by (simp add: nth_append)
  qed
qed

lemma lru_index_least:
  assumes "es \<noteq> []"
  shows "the (lru_index es) < length es \<and>
    (\<forall>x\<in>set es. pe_last_used (es ! the (lru_index es)) \<le> pe_last_used x)"
  using assms lru_scan_least [of 1 "[hd es]" 0 "pe_last_used (hd es)" "tl es"] by (cases es) simp_all

lemma touch_peer_None: "touch_peer mac tick es = None \<longleftrightarrow> mac \<notin> pe_mac ` set es"
  by (induction es) (auto split: if_splits)

lemma touch_peer_Some:
  assumes "touch_peer mac tick es = Some es'"
  shows "\<exists>e\<in>set es. pe_mac e = mac \<and> mset es' = add_mset (e\<lparr>pe_last_used := tick\<rparr>) (mset es - {#e#})"
  using assms
proof (induction es arbitrary: es')
  case (Cons e es)
  show ?case
  proof (cases "pe_mac e = mac")
    case False
    with Cons.prems obtain es'' where t: "touch_peer mac tick es = Some es''" and es': "es' = e # es''"
      by auto
    then obtain d where d: "d \<in> set es" "pe_mac d = mac" "mset es'' = add_mset (d\<lparr>pe_last_used := tick\<rparr>) (mset es - {#d#})"
      using Cons.IH by blast
    have "mset (e # es) - {#d#} = add_mset e (mset es - {#d#})"
      using d(1) by (simp add: diff_union_single_conv add_mset_commute)
    with d es' show ?thesis by (auto intro!: bexI [of _ d])
  qed (use Cons.prems in auto)
qed simp

section \<open>Every operation refines the specification\<close>

lemma map_remove1_inj: "inj_on f (insert x (set xs)) \<Longrightarrow> map f (remove1 x xs) = remove1 (f x) (map f xs)"
  by (induction xs) (auto simp: inj_on_def)

lemma sorted_wrt_remove1: "sorted_wrt P xs \<Longrightarrow> sorted_wrt P (remove1 x xs)"
  by (induction xs) (auto dest: notin_set_remove1)

lemma touched_refines:
  assumes "by_recency es t" and "unat (pt_tick t) + 1 < 2 ^ 64"
    and "touch_peer mac (saturating_inc (pt_tick t)) (pt_entries t) = Some es'"
  shows "\<exists>ds. by_recency ds \<lparr>pt_entries = es', pt_tick = saturating_inc (pt_tick t)\<rparr> \<and>
    map pe_mac ds = mac # remove1 mac (map pe_mac es)"
proof -
  let ?k = "saturating_inc (pt_tick t)"
  note r = assms(1) [unfolded by_recency_def]
  from touch_peer_Some [OF assms(3)] obtain e where e: "e \<in> set (pt_entries t)" "pe_mac e = mac"
    and m: "mset es' = add_mset (e\<lparr>pe_last_used := ?k\<rparr>) (mset (pt_entries t) - {#e#})" by blast
  have es: "e \<in> set es" "inj_on pe_mac (set es)"
    using e r by (metis set_mset_mset) (use r in \<open>simp add: distinct_map\<close>)
  have rm: "map pe_mac (remove1 e es) = remove1 mac (map pe_mac es)"
    using map_remove1_inj [of pe_mac e es] es e(2) by (simp add: insert_absorb)
  have lt: "pe_last_used x < ?k" if "x \<in> set es" for x
    using r that saturating_inc(2) [OF assms(2)] by blast
  have "by_recency (e\<lparr>pe_last_used := ?k\<rparr> # remove1 e es) \<lparr>pt_entries = es', pt_tick = ?k\<rparr>"
    unfolding by_recency_def
  proof (intro conjI)
    show "mset (e\<lparr>pe_last_used := ?k\<rparr> # remove1 e es) = mset (pt_entries \<lparr>pt_entries = es', pt_tick = ?k\<rparr>)"
      using r m by simp
    show "distinct (map pe_mac (e\<lparr>pe_last_used := ?k\<rparr> # remove1 e es))"
      using r rm e(2) by (simp add: distinct_remove1)
    show "sorted_wrt (\<lambda>a b. pe_last_used b < pe_last_used a) (e\<lparr>pe_last_used := ?k\<rparr> # remove1 e es)"
      using r lt by (auto dest: notin_set_remove1 simp: sorted_wrt_remove1)
    show "\<forall>d\<in>set (e\<lparr>pe_last_used := ?k\<rparr> # remove1 e es). pe_last_used d \<le> pt_tick \<lparr>pt_entries = es', pt_tick = ?k\<rparr>"
      using lt by (auto dest!: set_mp [OF set_remove1_subset] simp: less_imp_le)
    show "length (e\<lparr>pe_last_used := ?k\<rparr> # remove1 e es) \<le> MAX_PEERS"
      using r es(1) by (simp add: length_remove1 split: if_splits) (metis Suc_pred length_pos_if_in_set)
  qed
  with rm e(2) show ?thesis by (intro exI [of _ "e\<lparr>pe_last_used := ?k\<rparr> # remove1 e es"]) simp
qed

lemma inserted_refines:
  assumes "by_recency es t" and "unat (pt_tick t) + 1 < 2 ^ 64"
    and "mac \<notin> pe_mac ` set es" and "length es < MAX_PEERS"
  defines "fresh \<equiv> \<lparr>pe_mac = mac, pe_last_used = saturating_inc (pt_tick t)\<rparr>"
  shows "by_recency (fresh # es) \<lparr>pt_entries = pt_entries t @ [fresh], pt_tick = saturating_inc (pt_tick t)\<rparr>"
  using assms(1,3,4) saturating_inc(2) [OF assms(2)]
  by (auto simp: by_recency_def fresh_def intro: less_imp_le)

lemma evicted_refines:
  assumes "by_recency es t" and "unat (pt_tick t) + 1 < 2 ^ 64"
    and "mac \<notin> pe_mac ` set es" and "length es = MAX_PEERS"
  defines "fresh \<equiv> \<lparr>pe_mac = mac, pe_last_used = saturating_inc (pt_tick t)\<rparr>"
    and "i \<equiv> the (lru_index (pt_entries t))"
  shows "pt_entries t ! i = last es" and
    "by_recency (fresh # butlast es) \<lparr>pt_entries = (pt_entries t)[i := fresh], pt_tick = saturating_inc (pt_tick t)\<rparr>"
proof -
  note r = assms(1) [unfolded by_recency_def]
  have m: "mset es = mset (pt_entries t)" and len: "length (pt_entries t) = length es"
    and sets: "set (pt_entries t) = set es"
    using r by (auto dest: mset_eq_length mset_eq_setD)
  have ne: "es \<noteq> []" using assms(4) by (auto simp: MAX_PEERS_def)
  then have i: "i < length (pt_entries t)" "\<And>x. x \<in> set es \<Longrightarrow> pe_last_used (pt_entries t ! i) \<le> pe_last_used x"
    using lru_index_least [of "pt_entries t"] len sets ne unfolding i_def by fastforce+
  have es: "es = butlast es @ [last es]" using ne by simp
  have lt: "pe_last_used (last es) < pe_last_used x" if "x \<in> set (butlast es)" for x
    using r that es by (metis sorted_wrt_append list.set_intros(1))
  have "pt_entries t ! i \<in> set (butlast es @ [last es])" using i(1) sets es nth_mem by metis
  then have "pt_entries t ! i \<in> set (butlast es) \<or> pt_entries t ! i = last es" unfolding set_append by auto
  then show last: "pt_entries t ! i = last es"
    using lt i(2) [of "last es"] ne by (auto dest: leD)
  have "mset (butlast es) = mset (pt_entries t) - {#last es#}"
    by (subst m [symmetric], subst es) simp
  then have mset: "mset (fresh # butlast es) = mset ((pt_entries t)[i := fresh])"
    using i(1) last by (simp add: mset_update)
  have "distinct (map pe_mac (butlast es))" "sorted_wrt (\<lambda>a b. pe_last_used b < pe_last_used a) (butlast es)"
    using r es by (metis distinct_append map_append) (metis r es sorted_wrt_append)
  with mset r assms(3,4) ne saturating_inc(2) [OF assms(2)]
  show "by_recency (fresh # butlast es) \<lparr>pt_entries = (pt_entries t)[i := fresh], pt_tick = saturating_inc (pt_tick t)\<rparr>"
    by (auto simp: by_recency_def fresh_def MAX_PEERS_def dest!: in_set_butlastD intro: less_imp_le)
qed

lemma peers_refineE:
  assumes "peers_refine (Suc n) t xs"
  obtains es where "by_recency es t" "xs = map pe_mac es" "unat (pt_tick t) + 1 < 2 ^ 64"
    "unat (saturating_inc (pt_tick t)) + n < 2 ^ 64" "set (pt_entries t) = set es" "length (pt_entries t) = length es"
proof -
  from assms obtain es where es: "by_recency es t" "xs = map pe_mac es" and n: "unat (pt_tick t) + Suc n < 2 ^ 64"
    by (auto simp: peers_refine_def)
  then have m: "mset es = mset (pt_entries t)" by (simp add: by_recency_def)
  show thesis
  proof (rule that [OF es])
    show t: "unat (pt_tick t) + 1 < 2 ^ 64" using n by simp
    show "unat (saturating_inc (pt_tick t)) + n < 2 ^ 64" using n saturating_inc(1) [OF t] by simp
    show "set (pt_entries t) = set es" "length (pt_entries t) = length es"
      using mset_eq_setD [OF m] mset_eq_length [OF m] by simp_all
  qed
qed

lemma ensure_peer_refines:
  assumes "peers_refine (Suc n) t xs"
  shows "fst (ensure_peer mac t) = fst (lru_step (EnsurePeer mac) xs) \<and>
    peers_refine n (snd (ensure_peer mac t)) (snd (lru_step (EnsurePeer mac) xs))"
  using assms
proof (rule peers_refineE)
  fix es assume es: "by_recency es t" and xs: "xs = map pe_mac es" and tick: "unat (pt_tick t) + 1 < 2 ^ 64"
    and n: "unat (saturating_inc (pt_tick t)) + n < 2 ^ 64"
    and sets: "set (pt_entries t) = set es" "length (pt_entries t) = length es"
  let ?k = "saturating_inc (pt_tick t)"
  show ?thesis
  proof (cases "touch_peer mac ?k (pt_entries t)")
    case (Some es')
    then have "mac \<in> set xs" using touch_peer_None [of mac ?k "pt_entries t"] sets xs by auto
    then have "fst (lru_step (EnsurePeer mac) xs) = None" "snd (lru_step (EnsurePeer mac) xs) = mac # remove1 mac xs"
      by simp_all
    moreover have "ensure_peer mac t = (None, \<lparr>pt_entries = es', pt_tick = ?k\<rparr>)"
      using Some by (simp add: ensure_peer_def)
    moreover have "peers_refine n \<lparr>pt_entries = es', pt_tick = ?k\<rparr> (mac # remove1 mac xs)"
      using touched_refines [OF es tick Some] n xs unfolding peers_refine_def by (metis peer_table.select_convs(2))
    ultimately show ?thesis by simp
  next
    case None
    then have out: "mac \<notin> pe_mac ` set es" using touch_peer_None sets by metis
    show ?thesis
    proof (cases "length es < MAX_PEERS")
      case True
      let ?fresh = "\<lparr>pe_mac = mac, pe_last_used = ?k\<rparr>"
      have "ensure_peer mac t = (None, \<lparr>pt_entries = pt_entries t @ [?fresh], pt_tick = ?k\<rparr>)"
        using None True sets by (simp add: ensure_peer_def Let_def)
      moreover have "lru_step (EnsurePeer mac) xs = (None, mac # xs)" using out True xs by auto
      moreover have "peers_refine n \<lparr>pt_entries = pt_entries t @ [?fresh], pt_tick = ?k\<rparr> (mac # xs)"
        using inserted_refines [OF es tick out True] n xs unfolding peers_refine_def
        by (intro conjI exI [of _ "?fresh # es"]) simp_all
      ultimately show ?thesis by simp
    next
      case False
      then have full: "length es = MAX_PEERS" using es by (simp add: by_recency_def)
      then have ne: "es \<noteq> []" by (auto simp: MAX_PEERS_def)
      let ?fresh = "\<lparr>pe_mac = mac, pe_last_used = ?k\<rparr>" and ?i = "the (lru_index (pt_entries t))"
      note ev = evicted_refines [OF es tick out full]
      have "ensure_peer mac t = (Some (pe_mac (last es)), \<lparr>pt_entries = (pt_entries t)[?i := ?fresh], pt_tick = ?k\<rparr>)"
        using None full sets ev(1) by (simp add: ensure_peer_def Let_def)
      moreover have "lru_step (EnsurePeer mac) xs = (Some (pe_mac (last es)), mac # map pe_mac (butlast es))"
        using out full xs ne by (auto simp: last_map map_butlast)
      moreover have "peers_refine n \<lparr>pt_entries = (pt_entries t)[?i := ?fresh], pt_tick = ?k\<rparr> (mac # map pe_mac (butlast es))"
        using ev(2) n unfolding peers_refine_def by (intro conjI exI [of _ "?fresh # butlast es"]) simp_all
      ultimately show ?thesis by simp
    qed
  qed
qed

interpretation peers: op_refinement peers_refine peer_step lru_step
proof
  fix n t xs x assume r: "peers_refine (Suc n) t xs"
  show "fst (peer_step x t) = fst (lru_step x xs) \<and> peers_refine n (snd (peer_step x t)) (snd (lru_step x xs))"
  proof (cases x)
    case (EnsurePeer mac)
    then show ?thesis using ensure_peer_refines [OF r] by simp
  next
    case ClearPeers
    have "peers_refine n (peers_clear t) []"
      using r by (auto simp: peers_refine_def by_recency_def peers_clear_def)
    then show ?thesis using ClearPeers by simp
  qed
qed

lemma peers_new_refines: "n < 2 ^ 64 \<Longrightarrow> peers_refine n peers_new []"
  by (auto simp: peers_refine_def by_recency_def peers_new_def)

lemma peers_refine_contents:
  assumes "peers_refine n t xs"
  shows "peers_contains m t \<longleftrightarrow> m \<in> set xs" "mset (all_macs t) = mset xs" "distinct xs" "length xs \<le> MAX_PEERS"
proof -
  from assms obtain es where es: "by_recency es t" "xs = map pe_mac es" by (auto simp: peers_refine_def)
  then have m: "mset es = mset (pt_entries t)" by (simp add: by_recency_def)
  then show "mset (all_macs t) = mset xs" using es(2) by (simp add: all_macs_def)
  show "peers_contains m t \<longleftrightarrow> m \<in> set xs"
    using mset_eq_setD [OF m] es(2) by (auto simp: peers_contains_def list_ex_iff)
  show "distinct xs" "length xs \<le> MAX_PEERS" using es by (simp_all add: by_recency_def)
qed

text \<open>C31. The peer table is an LRU cache of twenty addresses: for fewer than \<open>2^64\<close> operations on a new
  table, the evictions reported are those of the list of peers ordered by last use, and the table holds
  the addresses of that list, each once.\<close>

theorem peer_table_lru:
  assumes "length ops < 2 ^ 64"
    and "run_ops peer_step ops peers_new = (evicted, t)"
    and "run_ops lru_step ops [] = (expected, xs)"
  shows "evicted = expected \<and> mset (all_macs t) = mset xs \<and> distinct (all_macs t) \<and> peers_len t \<le> MAX_PEERS"
proof -
  have "evicted = expected \<and> peers_refine 0 t xs"
    using peers.run_simulates [of ops 0 peers_new "[]"] peers_new_refines [of "length ops"] assms by simp
  then show ?thesis
    using peers_refine_contents [of 0 t xs] mset_eq_length [of "all_macs t" xs] mset_eq_imp_distinct_iff [of "all_macs t" xs]
    by (auto simp: peers_len_def all_macs_def)
qed

theorem peer_table_lru_witness:
  "mset (all_macs (snd (run_ops peer_step [EnsurePeer [1], EnsurePeer [2], EnsurePeer [1]] peers_new))) = {#[1], [2]#}"
  using peer_table_lru [of "[EnsurePeer [1], EnsurePeer [2], EnsurePeer [1]]", OF _ surjective_pairing surjective_pairing]
  by (simp add: MAX_PEERS_def)

end
