(* ===== verification/Gateway_Storage.thy ===== *)
theory Gateway_Storage
  imports Frame_Codec "HOL-Library.AList" "HOL-Library.Char_ord" "HOL-Library.List_Lexorder"
begin

text \<open>
  The records of the gateway (\<open>sonde-gateway/src/registry.rs\<close>, \<open>phone_trust.rs\<close>, \<open>program.rs\<close>), the storage
  trait (\<open>storage.rs\<close>) as a record of its operations, and the in-memory backend. A hash map is the list of
  its entries in the order of iteration, with distinct keys. The locale \<open>node_registry\<close> is what the
  protocol engine relies on; it is interpreted on the in-memory backend.
\<close>

section \<open>Records\<close>

datatype storage_error = NotFound string | Internal string

record sensor_descriptor =
  sd_sensor_type :: u8
  sd_sensor_id :: u8
  sd_label :: "string option"

record node_record =
  gn_node_id :: string
  gn_key_hint :: u16
  gn_psk :: bytes
  gn_assigned_program_hash :: "bytes option"
  gn_current_program_hash :: "bytes option"
  gn_desired_schedule_interval_s :: "u32 option"
  gn_schedule_interval_s :: u32
  gn_firmware_abi_version :: "u32 option"
  gn_firmware_version :: "string option"
  gn_rf_channel :: "u8 option"
  gn_sensors :: "sensor_descriptor list"
  gn_registered_by_phone_id :: "u32 option"
  gn_key_version :: u64

definition node_record_new :: "string \<Rightarrow> u16 \<Rightarrow> bytes \<Rightarrow> node_record" where
  "node_record_new node_id hint psk =
     \<lparr>gn_node_id = node_id, gn_key_hint = hint, gn_psk = psk, gn_assigned_program_hash = None,
      gn_current_program_hash = None, gn_desired_schedule_interval_s = Some 60, gn_schedule_interval_s = 60,
      gn_firmware_abi_version = None, gn_firmware_version = None, gn_rf_channel = None, gn_sensors = [],
      gn_registered_by_phone_id = None, gn_key_version = 0\<rparr>"

definition update_firmware_metadata :: "u32 \<Rightarrow> string \<Rightarrow> node_record \<Rightarrow> node_record" where
  "update_firmware_metadata abi version n =
     n\<lparr>gn_firmware_abi_version := Some abi, gn_firmware_version := Some version\<rparr>"

definition confirm_program :: "bytes \<Rightarrow> node_record \<Rightarrow> node_record" where
  "confirm_program program_hash n = n\<lparr>gn_current_program_hash := Some program_hash\<rparr>"

datatype verification_profile = ResidentProfile | EphemeralProfile

record program_record =
  gp_hash :: bytes
  gp_image :: bytes
  gp_size :: u32
  gp_verification_profile :: verification_profile
  gp_abi_version :: "u32 option"
  gp_source_filename :: "string option"
  gp_decoder_image :: "bytes option"

record program_summary_record =
  gs_hash :: bytes
  gs_size :: u32
  gs_verification_profile :: verification_profile
  gs_abi_version :: "u32 option"
  gs_source_filename :: "string option"
  gs_has_decoder :: bool

record program_display_record =
  gd_hash :: bytes
  gd_source_filename :: "string option"

datatype phone_psk_status = Active | Revoked

fun phone_status_text :: "phone_psk_status \<Rightarrow> string" where
  "phone_status_text Active = ''active''"
| "phone_status_text Revoked = ''revoked''"

definition phone_status_from_str_value :: "string \<Rightarrow> phone_psk_status option" where
  "phone_status_from_str_value s =
     (if s = ''active'' then Some Active else if s = ''revoked'' then Some Revoked else None)"

record phone_psk_record =
  ph_phone_id :: u32
  ph_key_hint :: u16
  ph_psk :: bytes
  ph_label :: string
  ph_issued_at :: nat
  ph_status :: phone_psk_status
  ph_key_version :: u64

definition PHONE_LABEL_MAX_BYTES :: nat where "PHONE_LABEL_MAX_BYTES = 64"

record handler_record =
  hr_program_hash :: string
  hr_command :: string
  hr_args :: "string list"
  hr_working_dir :: "string option"
  hr_reply_timeout_ms :: "u64 option"

section \<open>Display names\<close>

definition is_separator :: "char \<Rightarrow> bool" where
  "is_separator c \<longleftrightarrow> c = CHR ''/'' \<or> c = CHR 0x5C"

definition is_ascii_alphabetic :: "char \<Rightarrow> bool" where
  "is_ascii_alphabetic c \<longleftrightarrow>
     (CHR ''a'' \<le> c \<and> c \<le> CHR ''z'') \<or> (CHR ''A'' \<le> c \<and> c \<le> CHR ''Z'')"

text \<open>Trailing separators are trimmed, then the part after the last separator is taken, then a drive letter
  is cut off.\<close>

definition normalize_display_filename :: "string option \<Rightarrow> string option" where
  "normalize_display_filename source_filename =
     (case source_filename of
        None \<Rightarrow> None
      | Some s \<Rightarrow>
          let trimmed = rev (takeWhile (\<lambda>c. \<not> is_separator c) (dropWhile is_separator (rev s))) in
          if trimmed = [] then None
          else if length trimmed \<ge> 2 \<and> trimmed ! 1 = CHR '':'' \<and> is_ascii_alphabetic (trimmed ! 0) then
            (if drop 2 trimmed = [] then None else Some (drop 2 trimmed))
          else Some trimmed)"

section \<open>The in-memory backend\<close>

record gateway_identity =
  gi_seed :: bytes
  gi_gateway_id :: bytes
  gi_public_key :: bytes

record mem_storage =
  ms_nodes :: "(string \<times> node_record) list"
  ms_programs :: "(bytes \<times> program_record) list"
  ms_identity :: "gateway_identity option"
  ms_phone_psks :: "phone_psk_record list"
  ms_next_phone_id :: u32
  ms_config :: "(string \<times> string) list"
  ms_handlers :: "handler_record list"

type_synonym 'a mem_op = "(mem_storage, storage_error, 'a) op"

definition mem_new :: mem_storage where
  "mem_new = \<lparr>ms_nodes = [], ms_programs = [], ms_identity = None, ms_phone_psks = [], ms_next_phone_id = 1,
     ms_config = [], ms_handlers = []\<rparr>"

subsection \<open>Nodes\<close>

definition list_nodes :: "mem_storage \<Rightarrow> storage_error + node_record list" where
  "list_nodes s = Inr (map snd (ms_nodes s))"

definition get_node :: "string \<Rightarrow> mem_storage \<Rightarrow> storage_error + node_record option" where
  "get_node node_id s = Inr (map_of (ms_nodes s) node_id)"

definition get_nodes_by_key_hint :: "u16 \<Rightarrow> mem_storage \<Rightarrow> storage_error + node_record list" where
  "get_nodes_by_key_hint hint s = Inr (filter (\<lambda>n. gn_key_hint n = hint) (map snd (ms_nodes s)))"

definition upsert_node :: "node_record \<Rightarrow> unit mem_op" where
  "upsert_node r s = (Inr (), s\<lparr>ms_nodes := AList.update (gn_node_id r) r (ms_nodes s)\<rparr>)"

definition update_node_wake_metadata :: "string \<Rightarrow> u32 \<Rightarrow> string \<Rightarrow> unit mem_op" where
  "update_node_wake_metadata node_id abi version s =
     (case map_of (ms_nodes s) node_id of
        None \<Rightarrow> (Inl (NotFound (''node '' @ node_id)), s)
      | Some n \<Rightarrow>
          if gn_firmware_abi_version n = Some abi \<and> gn_firmware_version n = Some version then (Inr (), s)
          else (Inr (), s\<lparr>ms_nodes := AList.update node_id (update_firmware_metadata abi version n) (ms_nodes s)\<rparr>))"

definition insert_node_if_not_exists :: "node_record \<Rightarrow> bool mem_op" where
  "insert_node_if_not_exists r s =
     (case map_of (ms_nodes s) (gn_node_id r) of
        Some _ \<Rightarrow> (Inr False, s)
      | None \<Rightarrow> (Inr True, s\<lparr>ms_nodes := AList.update (gn_node_id r) r (ms_nodes s)\<rparr>))"

definition reconcile_current_program_hash :: "string \<Rightarrow> bytes \<Rightarrow> bool mem_op" where
  "reconcile_current_program_hash node_id program_hash s =
     (case map_of (ms_nodes s) node_id of
        None \<Rightarrow> (Inl (NotFound (''node '' @ node_id)), s)
      | Some n \<Rightarrow>
          if gn_assigned_program_hash n \<noteq> Some program_hash then (Inr False, s)
          else if gn_current_program_hash n = Some program_hash then (Inr False, s)
          else (Inr True, s\<lparr>ms_nodes := AList.update node_id (confirm_program program_hash n) (ms_nodes s)\<rparr>))"

definition delete_node :: "string \<Rightarrow> unit mem_op" where
  "delete_node node_id s = (Inr (), s\<lparr>ms_nodes := AList.delete node_id (ms_nodes s)\<rparr>)"

subsection \<open>Programs\<close>

definition get_program :: "bytes \<Rightarrow> mem_storage \<Rightarrow> storage_error + program_record option" where
  "get_program h s = Inr (map_of (ms_programs s) h)"

definition store_program :: "program_record \<Rightarrow> unit mem_op" where
  "store_program r s =
     (let stored = r\<lparr>gp_source_filename := normalize_display_filename (gp_source_filename r)\<rparr> in
      (Inr (), s\<lparr>ms_programs := AList.update (gp_hash stored) stored (ms_programs s)\<rparr>))"

definition delete_program :: "bytes \<Rightarrow> unit mem_op" where
  "delete_program h s = (Inr (), s\<lparr>ms_programs := AList.delete h (ms_programs s)\<rparr>)"

definition list_programs :: "mem_storage \<Rightarrow> storage_error + program_record list" where
  "list_programs s = Inr (map snd (ms_programs s))"

definition list_program_summary_records :: "mem_storage \<Rightarrow> storage_error + program_summary_record list" where
  "list_program_summary_records s =
     Inr (map (\<lambda>(_, p). \<lparr>gs_hash = gp_hash p, gs_size = gp_size p,
            gs_verification_profile = gp_verification_profile p, gs_abi_version = gp_abi_version p,
            gs_source_filename = gp_source_filename p, gs_has_decoder = gp_decoder_image p \<noteq> None\<rparr>) (ms_programs s))"

definition list_program_display_records :: "mem_storage \<Rightarrow> storage_error + program_display_record list" where
  "list_program_display_records s =
     Inr (map (\<lambda>(_, p). \<lparr>gd_hash = gp_hash p, gd_source_filename = gp_source_filename p\<rparr>) (ms_programs s))"

text \<open>\<open>replace_state\<close> of the trait, the delete-then-insert default: the first error ends it.\<close>

primrec st_each :: "('x \<Rightarrow> ('s, 'e, 'a) op) \<Rightarrow> 'x list \<Rightarrow> ('s, 'e, unit) op" where
  "st_each f [] = st_return ()"
| "st_each f (x # xs) = st_seq (f x) (st_each f xs)"

definition replace_state :: "node_record list \<Rightarrow> program_record list \<Rightarrow> unit mem_op" where
  "replace_state nodes programs =
     st_bind (\<lambda>s. (list_nodes s, s)) (\<lambda>existing_nodes.
     st_seq (st_each (\<lambda>n. delete_node (gn_node_id n)) existing_nodes)
     (st_bind (\<lambda>s. (list_programs s, s)) (\<lambda>existing_programs.
     st_seq (st_each (\<lambda>p. delete_program (gp_hash p)) existing_programs)
     (st_seq (st_each store_program programs) (st_each upsert_node nodes)))))"

subsection \<open>Identity, phones, configuration, handlers\<close>

definition load_gateway_identity :: "mem_storage \<Rightarrow> storage_error + gateway_identity option" where
  "load_gateway_identity s = Inr (ms_identity s)"

definition store_gateway_identity :: "gateway_identity \<Rightarrow> unit mem_op" where
  "store_gateway_identity i s = (Inr (), s\<lparr>ms_identity := Some i\<rparr>)"

definition list_phone_psks :: "mem_storage \<Rightarrow> storage_error + phone_psk_record list" where
  "list_phone_psks s = Inr (ms_phone_psks s)"

definition get_phone_psks_by_key_hint :: "u16 \<Rightarrow> mem_storage \<Rightarrow> storage_error + phone_psk_record list" where
  "get_phone_psks_by_key_hint hint s = Inr (filter (\<lambda>p. ph_key_hint p = hint) (ms_phone_psks s))"

definition label_too_long :: "phone_psk_record \<Rightarrow> bool" where
  "label_too_long r \<longleftrightarrow> length (ph_label r) > PHONE_LABEL_MAX_BYTES"

definition push_phone :: "phone_psk_record \<Rightarrow> u32 mem_op" where
  "push_phone r s =
     (case checked_add (ms_next_phone_id s) 1 of
        None \<Rightarrow> (Inl (Internal ''phone_id overflow''), s)
      | Some next \<Rightarrow>
          (Inr (ms_next_phone_id s),
           s\<lparr>ms_next_phone_id := next,
             ms_phone_psks := ms_phone_psks s @ [r\<lparr>ph_phone_id := ms_next_phone_id s\<rparr>]\<rparr>))"

definition store_phone_psk :: "phone_psk_record \<Rightarrow> u32 mem_op" where
  "store_phone_psk r s =
     (if label_too_long r then (Inl (Internal ''phone label exceeds the limit''), s) else push_phone r s)"

definition revoke_phone_psk :: "u32 \<Rightarrow> unit mem_op" where
  "revoke_phone_psk phone_id s =
     (case dropWhile (\<lambda>p. ph_phone_id p \<noteq> phone_id) (ms_phone_psks s) of
        [] \<Rightarrow> (Inl (NotFound ''phone_id''), s)
      | p # ps \<Rightarrow>
          (Inr (), s\<lparr>ms_phone_psks :=
             takeWhile (\<lambda>p. ph_phone_id p \<noteq> phone_id) (ms_phone_psks s) @ p\<lparr>ph_status := Revoked\<rparr> # ps\<rparr>))"

definition delete_phone_psk :: "u32 \<Rightarrow> unit mem_op" where
  "delete_phone_psk phone_id s =
     (Inr (), s\<lparr>ms_phone_psks := filter (\<lambda>p. ph_phone_id p \<noteq> phone_id) (ms_phone_psks s)\<rparr>)"

definition replace_phone_psks :: "phone_psk_record list \<Rightarrow> unit mem_op" where
  "replace_phone_psks rs s =
     (if list_ex label_too_long rs then (Inl (Internal ''phone label exceeds the limit''), s)
      else st_each push_phone rs (s\<lparr>ms_phone_psks := []\<rparr>))"

definition get_config :: "string \<Rightarrow> mem_storage \<Rightarrow> storage_error + string option" where
  "get_config key s = Inr (map_of (ms_config s) key)"

definition set_config :: "string \<Rightarrow> string \<Rightarrow> unit mem_op" where
  "set_config key val s = (Inr (), s\<lparr>ms_config := AList.update key val (ms_config s)\<rparr>)"

definition set_config_if_absent :: "string \<Rightarrow> string \<Rightarrow> bool mem_op" where
  "set_config_if_absent key val s =
     (case map_of (ms_config s) key of
        None \<Rightarrow> (Inr True, s\<lparr>ms_config := AList.update key val (ms_config s)\<rparr>)
      | Some _ \<Rightarrow> (Inr False, s))"

definition to_ascii_lowercase :: "string \<Rightarrow> string" where
  "to_ascii_lowercase = map (\<lambda>c. if CHR ''A'' \<le> c \<and> c \<le> CHR ''Z'' then char_of (of_char c + 32 :: nat) else c)"

definition list_handlers :: "mem_storage \<Rightarrow> storage_error + handler_record list" where
  "list_handlers s = Inr (sort_key hr_program_hash (ms_handlers s))"

definition add_handler :: "handler_record \<Rightarrow> bool mem_op" where
  "add_handler r s =
     (let key = to_ascii_lowercase (hr_program_hash r) in
      if list_ex (\<lambda>h. hr_program_hash h = key) (ms_handlers s) then (Inr False, s)
      else (Inr True, s\<lparr>ms_handlers := ms_handlers s @ [r\<lparr>hr_program_hash := key\<rparr>]\<rparr>))"

definition remove_handler :: "string \<Rightarrow> bool mem_op" where
  "remove_handler program_hash s =
     (let key = to_ascii_lowercase program_hash;
          kept = filter (\<lambda>h. hr_program_hash h \<noteq> key) (ms_handlers s)
      in (Inr (length kept < length (ms_handlers s)), s\<lparr>ms_handlers := kept\<rparr>))"

definition replace_handlers :: "handler_record list \<Rightarrow> unit mem_op" where
  "replace_handlers rs s =
     (Inr (), s\<lparr>ms_handlers := map (\<lambda>r. r\<lparr>hr_program_hash := to_ascii_lowercase (hr_program_hash r)\<rparr>) rs\<rparr>)"

section \<open>The storage trait\<close>

text \<open>The operations of the trait that the protocol engine calls, for a backend of state \<open>'s\<close>.\<close>

record 's storage_api =
  sa_list_nodes :: "'s \<Rightarrow> storage_error + node_record list"
  sa_get_node :: "string \<Rightarrow> 's \<Rightarrow> storage_error + node_record option"
  sa_get_nodes_by_key_hint :: "u16 \<Rightarrow> 's \<Rightarrow> storage_error + node_record list"
  sa_upsert_node :: "node_record \<Rightarrow> ('s, storage_error, unit) op"
  sa_update_node_wake_metadata :: "string \<Rightarrow> u32 \<Rightarrow> string \<Rightarrow> ('s, storage_error, unit) op"
  sa_reconcile_current_program_hash :: "string \<Rightarrow> bytes \<Rightarrow> ('s, storage_error, bool) op"
  sa_insert_node_if_not_exists :: "node_record \<Rightarrow> ('s, storage_error, bool) op"
  sa_get_program :: "bytes \<Rightarrow> 's \<Rightarrow> storage_error + program_record option"
  sa_get_phone_psks_by_key_hint :: "u16 \<Rightarrow> 's \<Rightarrow> storage_error + phone_psk_record list"
  sa_get_config :: "string \<Rightarrow> 's \<Rightarrow> storage_error + string option"
  sa_set_config :: "string \<Rightarrow> string \<Rightarrow> ('s, storage_error, unit) op"

definition mem_api :: "mem_storage storage_api" where
  "mem_api = \<lparr>sa_list_nodes = list_nodes, sa_get_node = get_node, sa_get_nodes_by_key_hint = get_nodes_by_key_hint,
     sa_upsert_node = upsert_node, sa_update_node_wake_metadata = update_node_wake_metadata,
     sa_reconcile_current_program_hash = reconcile_current_program_hash,
     sa_insert_node_if_not_exists = insert_node_if_not_exists, sa_get_program = get_program,
     sa_get_phone_psks_by_key_hint = get_phone_psks_by_key_hint, sa_get_config = get_config, sa_set_config = set_config\<rparr>"

text \<open>What the engine relies on: the view of a backend is a map from node names to records; an operation that
  fails leaves the view as it is; what the trait documents of each operation when it succeeds.\<close>

definition keeps_keys :: "node_record \<Rightarrow> node_record \<Rightarrow> bool" where
  "keeps_keys n n' \<longleftrightarrow> gn_node_id n' = gn_node_id n \<and> gn_key_hint n' = gn_key_hint n \<and> gn_psk n' = gn_psk n"

lemma keeps_keys_trivial [simp]: "keeps_keys n n" "keeps_keys n (update_firmware_metadata a v n)" "keeps_keys n (confirm_program h n)"
  by (simp_all add: keeps_keys_def update_firmware_metadata_def confirm_program_def)

locale node_registry =
  fixes api :: "'s storage_api"
    and ok :: "'s \<Rightarrow> bool"
    and view :: "'s \<Rightarrow> string \<Rightarrow> node_record option"
  assumes view_id: "ok s \<Longrightarrow> view s i = Some n \<Longrightarrow> gn_node_id n = i"
    and get_view: "ok s \<Longrightarrow> sa_get_node api i s = Inr found \<Longrightarrow> found = view s i"
    and hint_view: "ok s \<Longrightarrow> sa_get_nodes_by_key_hint api h s = Inr ns \<Longrightarrow> n \<in> set ns \<Longrightarrow>
        gn_key_hint n = h \<and> view s (gn_node_id n) = Some n"
    and upsert_view: "ok s \<Longrightarrow> sa_upsert_node api n s = (r, s') \<Longrightarrow>
        ok s' \<and> view s' = (case r of Inl _ \<Rightarrow> view s | Inr _ \<Rightarrow> (view s)(gn_node_id n \<mapsto> n))"
    and insert_view: "ok s \<Longrightarrow> sa_insert_node_if_not_exists api n s = (q, s') \<Longrightarrow>
        ok s' \<and> (case q of Inl _ \<Rightarrow> view s' = view s
                  | Inr b \<Rightarrow> b = (view s (gn_node_id n) = None) \<and>
                      view s' = (if b then (view s)(gn_node_id n \<mapsto> n) else view s))"
    and metadata_view: "ok s \<Longrightarrow> sa_update_node_wake_metadata api i abi v s = (r, s') \<Longrightarrow>
        ok s' \<and> (case r of Inl _ \<Rightarrow> view s' = view s
                  | Inr _ \<Rightarrow> (\<exists>n. view s i = Some n \<and> view s' = (view s)(i \<mapsto> update_firmware_metadata abi v n)))"
    and reconcile_view: "ok s \<Longrightarrow> sa_reconcile_current_program_hash api i ph s = (q, s') \<Longrightarrow>
        ok s' \<and> (case q of Inr True \<Rightarrow> (\<exists>n. view s i = Some n \<and> gn_assigned_program_hash n = Some ph \<and>
                              view s' = (view s)(i \<mapsto> confirm_program ph n))
                  | _ \<Rightarrow> view s' = view s)"
    and config_view: "ok s \<Longrightarrow> sa_set_config api i v s = (r, s') \<Longrightarrow> ok s' \<and> view s' = view s"
begin

text \<open>Every node keeps its name, key hint and key.\<close>

definition keeps_nodes :: "'s \<Rightarrow> 's \<Rightarrow> bool" where
  "keeps_nodes s s' \<longleftrightarrow> (\<forall>i n. view s i = Some n \<longrightarrow> (\<exists>n'. view s' i = Some n' \<and> keeps_keys n n'))"

lemma keeps_nodes_refl [simp]: "keeps_nodes s s"
  unfolding keeps_nodes_def using keeps_keys_trivial(1) by blast

lemma keeps_nodes_trans: "keeps_nodes s t \<Longrightarrow> keeps_nodes t u \<Longrightarrow> keeps_nodes s u"
  unfolding keeps_nodes_def keeps_keys_def by metis

lemma wake_writes_keep_nodes:
  assumes "ok s"
  shows "sa_update_node_wake_metadata api i abi v s = (r, s') \<Longrightarrow> keeps_nodes s s'"
    and "sa_reconcile_current_program_hash api i h s = (q, s') \<Longrightarrow> keeps_nodes s s'"
    and "sa_insert_node_if_not_exists api n s = (b, s') \<Longrightarrow> keeps_nodes s s'"
  using metadata_view [OF assms, of i abi v r s'] reconcile_view [OF assms, of i h q s'] insert_view [OF assms, of n b s']
  unfolding keeps_nodes_def by (auto split: sum.splits bool.splits if_splits intro: keeps_keys_trivial)

end

definition mem_ok :: "mem_storage \<Rightarrow> bool" where
  "mem_ok s \<longleftrightarrow> distinct (map fst (ms_nodes s)) \<and> (\<forall>(i, n)\<in>set (ms_nodes s). gn_node_id n = i)"

definition mem_view :: "mem_storage \<Rightarrow> string \<Rightarrow> node_record option" where
  "mem_view s = map_of (ms_nodes s)"

lemma set_alist_update: "set (AList.update k v xs) \<subseteq> insert (k, v) (set xs)"
  by (induction xs) auto

lemma mem_ok_update:
  assumes "mem_ok s" and "gn_node_id n = i"
  shows "mem_ok (s\<lparr>ms_nodes := AList.update i n (ms_nodes s)\<rparr>)"
  using assms set_alist_update [of i n "ms_nodes s"] by (fastforce simp: mem_ok_def distinct_update)

lemma mem_ok_id: "mem_ok s \<Longrightarrow> map_of (ms_nodes s) i = Some n \<Longrightarrow> gn_node_id n = i"
  by (auto simp: mem_ok_def dest: map_of_SomeD)

lemma metadata_unchanged:
  "gn_firmware_abi_version n = Some abi \<Longrightarrow> gn_firmware_version n = Some v \<Longrightarrow> update_firmware_metadata abi v n = n"
  by (cases n) (simp add: update_firmware_metadata_def)

lemma update_ids [simp]: "gn_node_id (update_firmware_metadata abi v n) = gn_node_id n" "gn_node_id (confirm_program h n) = gn_node_id n"
  by (simp_all add: update_firmware_metadata_def confirm_program_def)

interpretation mem: node_registry mem_api mem_ok mem_view
proof
  fix s i n assume "mem_ok s" "mem_view s i = Some n"
  then show "gn_node_id n = i" by (simp add: mem_view_def mem_ok_id)
next
  fix s h ns n assume "mem_ok s" "sa_get_nodes_by_key_hint mem_api h s = Inr ns" "n \<in> set ns"
  then show "gn_key_hint n = h \<and> mem_view s (gn_node_id n) = Some n"
    by (fastforce simp: mem_api_def get_nodes_by_key_hint_def mem_ok_def mem_view_def)
next
  fix s n r s' assume "mem_ok s" "sa_upsert_node mem_api n s = (r, s')"
  then show "mem_ok s' \<and> mem_view s' = (case r of Inl _ \<Rightarrow> mem_view s | Inr _ \<Rightarrow> (mem_view s)(gn_node_id n \<mapsto> n))"
    using mem_ok_update [of s n] by (auto simp: mem_api_def upsert_node_def mem_view_def update_conv')
next
  fix s n r s' assume "mem_ok s" "sa_insert_node_if_not_exists mem_api n s = (r, s')"
  then show "mem_ok s' \<and> (case r of Inl _ \<Rightarrow> mem_view s' = mem_view s
                  | Inr b \<Rightarrow> b = (mem_view s (gn_node_id n) = None) \<and>
                      mem_view s' = (if b then (mem_view s)(gn_node_id n \<mapsto> n) else mem_view s))"
    using mem_ok_update [of s n]
    by (auto simp: mem_api_def insert_node_if_not_exists_def mem_view_def update_conv' split: option.splits)
next
  fix s i abi v r s' assume a: "mem_ok s" "sa_update_node_wake_metadata mem_api i abi v s = (r, s')"
  show "mem_ok s' \<and> (case r of Inl _ \<Rightarrow> mem_view s' = mem_view s
      | Inr _ \<Rightarrow> (\<exists>n. mem_view s i = Some n \<and> mem_view s' = (mem_view s)(i \<mapsto> update_firmware_metadata abi v n)))"
  proof (cases "map_of (ms_nodes s) i")
    case None
    with a show ?thesis by (auto simp: mem_api_def update_node_wake_metadata_def)
  next
    case (Some n)
    have "(mem_view s)(i \<mapsto> n) = mem_view s" using Some by (simp add: mem_view_def fun_upd_idem)
    with Some a mem_ok_update [OF a(1), of "update_firmware_metadata abi v n" i] mem_ok_id [OF a(1) Some]
    show ?thesis
      by (auto simp: mem_api_def update_node_wake_metadata_def mem_view_def update_conv' metadata_unchanged split: if_splits)
  qed
next
  fix s i h r s' assume a: "mem_ok s" "sa_reconcile_current_program_hash mem_api i h s = (r, s')"
  show "mem_ok s' \<and> (case r of Inr True \<Rightarrow> (\<exists>n. mem_view s i = Some n \<and> gn_assigned_program_hash n = Some h \<and>
                              mem_view s' = (mem_view s)(i \<mapsto> confirm_program h n))
                  | _ \<Rightarrow> mem_view s' = mem_view s)"
    using a mem_ok_update [OF a(1), of "confirm_program h (the (map_of (ms_nodes s) i))" i] mem_ok_id [OF a(1), of i]
    by (auto simp: mem_api_def reconcile_current_program_hash_def mem_view_def update_conv'
        split: option.splits if_splits)
qed (auto simp: mem_api_def get_node_def set_config_def mem_view_def mem_ok_def)

text \<open>A backend that does not fail, with a program library beside the registry: lookups by hint and by program
  hash are complete, and writing node records leaves the programs alone.\<close>

locale program_library = node_registry +
  fixes prog :: "'a \<Rightarrow> bytes \<Rightarrow> program_record option"
  assumes hint_complete: "ok s \<Longrightarrow> view s i = Some n \<Longrightarrow> \<exists>ns. sa_get_nodes_by_key_hint api (gn_key_hint n) s = Inr ns \<and> n \<in> set ns"
    and get_prog: "sa_get_program api h s = Inr (prog s h)"
    and upsert_prog: "sa_upsert_node api n s = (r, s') \<Longrightarrow> r = Inr () \<and> prog s' = prog s"
    and metadata_prog: "sa_update_node_wake_metadata api i abi v s = (r, s') \<Longrightarrow> prog s' = prog s"
begin

text \<open>A node whose key hint no other node has.\<close>

definition sole_node :: "'a \<Rightarrow> node_record \<Rightarrow> bool" where
  "sole_node s n \<longleftrightarrow> view s (gn_node_id n) = Some n \<and>
     (\<forall>i m. view s i = Some m \<longrightarrow> gn_key_hint m = gn_key_hint n \<longrightarrow> i = gn_node_id n)"

lemma sole_lookup:
  assumes "ok s" and "sole_node s n"
  shows "\<exists>k. sa_get_nodes_by_key_hint api (gn_key_hint n) s = Inr (replicate (Suc k) n)"
proof -
  obtain ns where ns: "sa_get_nodes_by_key_hint api (gn_key_hint n) s = Inr ns" "n \<in> set ns"
    using hint_complete [OF assms(1)] assms(2) unfolding sole_node_def by blast
  have "m = n" if "m \<in> set ns" for m
  proof -
    have m: "gn_key_hint m = gn_key_hint n" "view s (gn_node_id m) = Some m" using hint_view [OF assms(1) ns(1) that] by simp_all
    then have "gn_node_id m = gn_node_id n" using assms(2) unfolding sole_node_def by blast
    moreover have "view s (gn_node_id n) = Some n" using assms(2) unfolding sole_node_def by blast
    ultimately show ?thesis using m(2) by simp
  qed
  then have "replicate (length ns) n = ns" by (simp add: replicate_length_same)
  moreover obtain k where "length ns = Suc k" using ns(2) by (cases ns) auto
  ultimately show ?thesis using ns(1) by metis
qed

lemma sole_node_update:
  assumes "sole_node s n" and "keeps_keys n n'" and "view s' = (view s)(gn_node_id n \<mapsto> n')"
  shows "sole_node s' n'"
  using assms unfolding sole_node_def keeps_keys_def by (metis fun_upd_apply)

end

definition mem_prog :: "mem_storage \<Rightarrow> bytes \<Rightarrow> program_record option" where
  "mem_prog s = map_of (ms_programs s)"

interpretation memp: program_library mem_api mem_ok mem_view mem_prog
proof
  fix s i n assume "mem_ok s" "mem_view s i = Some n"
  then show "\<exists>ns. sa_get_nodes_by_key_hint mem_api (gn_key_hint n) s = Inr ns \<and> n \<in> set ns"
    by (force simp: mem_api_def get_nodes_by_key_hint_def mem_view_def dest: map_of_SomeD)
next
  fix s i abi v r s' assume "sa_update_node_wake_metadata mem_api i abi v s = (r, s')"
  then show "mem_prog s' = mem_prog s"
    by (auto simp: mem_api_def update_node_wake_metadata_def mem_prog_def split: option.splits if_splits)
qed (auto simp: mem_api_def get_program_def upsert_node_def mem_prog_def)

end
