(* ===== verification/Gateway_Session.thy ===== *)
theory Gateway_Session
  imports Sonde_Prelude "HOL-Library.AList"
begin

text \<open>
  The session manager of the gateway (\<open>sonde-gateway/src/session.rs\<close>). An \<open>Instant\<close> is a number of
  nanoseconds. Sequence numbers wrap as in a build without overflow checks. \<open>session_trace\<close> relates a
  manager to every later state with the events in between; the properties follow by rule induction.
\<close>

section \<open>Sessions\<close>

datatype session_error =
    SessionNotFound string
  | SessionExpired string
  | SequenceMismatch u64 u64

datatype session_state =
    AwaitingPostWake
  | ChunkedTransfer (ct_program_hash: bytes) (ct_program_size: u32) (ct_chunk_size: u32) (ct_chunk_count: u32)
      (ct_is_ephemeral: bool)
  | BpfExecuting

record session =
  ss_node_id :: string
  ss_peer_address :: bytes
  ss_wake_nonce :: u64
  ss_next_expected_seq :: u64
  ss_created_at :: nat
  ss_state :: session_state

record session_manager =
  sm_sessions :: "(string \<times> session) list"
  sm_last_seen :: "string \<rightharpoonup> nat"
  sm_last_battery_mv :: "string \<rightharpoonup> u32"
  sm_last_wake_rssi_dbm :: "string \<rightharpoonup> u8"
  sm_timeout :: nat

definition session_manager_new :: "nat \<Rightarrow> session_manager" where
  "session_manager_new timeout =
     \<lparr>sm_sessions = [], sm_last_seen = Map.empty, sm_last_battery_mv = Map.empty,
      sm_last_wake_rssi_dbm = Map.empty, sm_timeout = timeout\<rparr>"

definition create_session :: "nat \<Rightarrow> string \<Rightarrow> bytes \<Rightarrow> u64 \<Rightarrow> u64 \<Rightarrow> session_manager \<Rightarrow> session \<times> session_manager" where
  "create_session now node_id peer wake_nonce starting_seq m =
     (let session = \<lparr>ss_node_id = node_id, ss_peer_address = peer, ss_wake_nonce = wake_nonce,
            ss_next_expected_seq = starting_seq, ss_created_at = now, ss_state = AwaitingPostWake\<rparr>
      in (session, m\<lparr>sm_sessions := AList.update node_id session (sm_sessions m)\<rparr>))"

definition get_session :: "string \<Rightarrow> session_manager \<Rightarrow> session option" where
  "get_session node_id m = map_of (sm_sessions m) node_id"

definition drop_session :: "string \<Rightarrow> session_manager \<Rightarrow> session_manager" where
  "drop_session node_id m = m\<lparr>sm_sessions := AList.delete node_id (sm_sessions m)\<rparr>"

definition expired :: "nat \<Rightarrow> session_manager \<Rightarrow> session \<Rightarrow> bool" where
  "expired now m s \<longleftrightarrow> now - ss_created_at s > sm_timeout m"

definition verify_and_advance_seq :: "nat \<Rightarrow> string \<Rightarrow> u64 \<Rightarrow> (session_manager, session_error, unit) op" where
  "verify_and_advance_seq now node_id received_seq m =
     (case map_of (sm_sessions m) node_id of
        None \<Rightarrow> (Inl (SessionNotFound node_id), m)
      | Some s \<Rightarrow>
          if expired now m s then (Inl (SessionExpired node_id), drop_session node_id m)
          else if received_seq \<noteq> ss_next_expected_seq s
            then (Inl (SequenceMismatch (ss_next_expected_seq s) received_seq), m)
          else (Inr (), m\<lparr>sm_sessions := AList.update node_id
                  (s\<lparr>ss_next_expected_seq := ss_next_expected_seq s + 1\<rparr>) (sm_sessions m)\<rparr>))"

definition set_state :: "string \<Rightarrow> session_state \<Rightarrow> (session_manager, session_error, unit) op" where
  "set_state node_id st m =
     (case map_of (sm_sessions m) node_id of
        None \<Rightarrow> (Inl (SessionNotFound node_id), m)
      | Some s \<Rightarrow> (Inr (), m\<lparr>sm_sessions := AList.update node_id (s\<lparr>ss_state := st\<rparr>) (sm_sessions m)\<rparr>))"

definition remove_session :: "string \<Rightarrow> session_manager \<Rightarrow> session option \<times> session_manager" where
  "remove_session node_id m = (map_of (sm_sessions m) node_id, drop_session node_id m)"

definition reap_expired :: "nat \<Rightarrow> session_manager \<Rightarrow> string list \<times> session_manager" where
  "reap_expired now m =
     (let gone = map fst (filter (\<lambda>(_, s). expired now m s) (sm_sessions m)) in
      (gone, foldl (\<lambda>m node_id. drop_session node_id m) m gone))"

definition active_count :: "session_manager \<Rightarrow> nat" where
  "active_count m = length (sm_sessions m)"

subsection \<open>Runtime observations\<close>

definition record_last_seen :: "string \<Rightarrow> nat \<Rightarrow> session_manager \<Rightarrow> session_manager" where
  "record_last_seen node_id t m = m\<lparr>sm_last_seen := (sm_last_seen m)(node_id \<mapsto> t)\<rparr>"

definition record_battery_mv :: "string \<Rightarrow> u32 \<Rightarrow> session_manager \<Rightarrow> session_manager" where
  "record_battery_mv node_id mv m = m\<lparr>sm_last_battery_mv := (sm_last_battery_mv m)(node_id \<mapsto> mv)\<rparr>"

definition record_wake_rssi_dbm :: "string \<Rightarrow> u8 \<Rightarrow> session_manager \<Rightarrow> session_manager" where
  "record_wake_rssi_dbm node_id rssi m = m\<lparr>sm_last_wake_rssi_dbm := (sm_last_wake_rssi_dbm m)(node_id \<mapsto> rssi)\<rparr>"

definition clear_last_seen :: "string \<Rightarrow> session_manager \<Rightarrow> session_manager" where
  "clear_last_seen node_id m = m\<lparr>sm_last_seen := (sm_last_seen m)(node_id := None)\<rparr>"

definition clear_battery_mv :: "string \<Rightarrow> session_manager \<Rightarrow> session_manager" where
  "clear_battery_mv node_id m = m\<lparr>sm_last_battery_mv := (sm_last_battery_mv m)(node_id := None)\<rparr>"

definition clear_wake_rssi_dbm :: "string \<Rightarrow> session_manager \<Rightarrow> session_manager" where
  "clear_wake_rssi_dbm node_id m = m\<lparr>sm_last_wake_rssi_dbm := (sm_last_wake_rssi_dbm m)(node_id := None)\<rparr>"

definition clear_all_last_seen :: "session_manager \<Rightarrow> session_manager" where
  "clear_all_last_seen m = m\<lparr>sm_last_seen := Map.empty\<rparr>"

definition clear_all_battery_mv :: "session_manager \<Rightarrow> session_manager" where
  "clear_all_battery_mv m = m\<lparr>sm_last_battery_mv := Map.empty\<rparr>"

definition clear_all_wake_rssi_dbm :: "session_manager \<Rightarrow> session_manager" where
  "clear_all_wake_rssi_dbm m = m\<lparr>sm_last_wake_rssi_dbm := Map.empty\<rparr>"

definition get_last_seen :: "string \<Rightarrow> session_manager \<Rightarrow> nat option" where
  "get_last_seen node_id m = sm_last_seen m node_id"

definition get_battery_mv :: "string \<Rightarrow> session_manager \<Rightarrow> u32 option" where
  "get_battery_mv node_id m = sm_last_battery_mv m node_id"

definition get_wake_rssi_dbm :: "string \<Rightarrow> session_manager \<Rightarrow> u8 option" where
  "get_wake_rssi_dbm node_id m = sm_last_wake_rssi_dbm m node_id"

section \<open>Traces\<close>

text \<open>An observation changes the runtime readings and nothing else.\<close>

definition same_sessions :: "session_manager \<Rightarrow> session_manager \<Rightarrow> bool" where
  "same_sessions m m' \<longleftrightarrow> sm_sessions m' = sm_sessions m \<and> sm_timeout m' = sm_timeout m"

lemma observations_same_sessions [simp]:
  "same_sessions m (record_last_seen n t m)" "same_sessions m (record_battery_mv n mv m)"
  "same_sessions m (record_wake_rssi_dbm n r m)" "same_sessions m (clear_last_seen n m)"
  "same_sessions m (clear_battery_mv n m)" "same_sessions m (clear_wake_rssi_dbm n m)"
  "same_sessions m (clear_all_last_seen m)" "same_sessions m (clear_all_battery_mv m)"
  "same_sessions m (clear_all_wake_rssi_dbm m)"
  by (simp_all add: same_sessions_def record_last_seen_def record_battery_mv_def record_wake_rssi_dbm_def
      clear_last_seen_def clear_battery_mv_def clear_wake_rssi_dbm_def clear_all_last_seen_def
      clear_all_battery_mv_def clear_all_wake_rssi_dbm_def)

datatype session_event =
    Opened string u64 nat
  | Accepted string u64 nat
  | Refused string session_error

inductive session_step :: "session_manager \<Rightarrow> session_event list \<Rightarrow> session_manager \<Rightarrow> bool" where
  step_create: "create_session now n peer nonce0 seq m = (s, m') \<Longrightarrow> session_step m [Opened n seq now] m'"
| step_accept: "verify_and_advance_seq now n seq m = (Inr (), m') \<Longrightarrow> session_step m [Accepted n seq now] m'"
| step_refuse: "verify_and_advance_seq now n seq m = (Inl e, m') \<Longrightarrow> session_step m [Refused n e] m'"
| step_set_state: "set_state n st m = (r, m') \<Longrightarrow> session_step m [] m'"
| step_remove: "remove_session n m = (r, m') \<Longrightarrow> session_step m [] m'"
| step_reap: "reap_expired now m = (gone, m') \<Longrightarrow> session_step m [] m'"
| step_observe: "same_sessions m m' \<Longrightarrow> session_step m [] m'"

inductive session_trace :: "session_manager \<Rightarrow> session_event list \<Rightarrow> session_manager \<Rightarrow> bool" for m0 where
  trace_start: "session_trace m0 [] m0"
| trace_step: "session_trace m0 es m \<Longrightarrow> session_step m es' m' \<Longrightarrow> session_trace m0 (es @ es') m'"

inductive_cases session_stepE: "session_step m es m'"

text \<open>What happened to a node since its session was last opened: when, with which sequence number, and the
  sequence numbers accepted with their times.\<close>

primrec session_history :: "string \<Rightarrow> session_event list \<Rightarrow> (nat \<times> u64 \<times> (u64 \<times> nat) list) option \<Rightarrow>
    (nat \<times> u64 \<times> (u64 \<times> nat) list) option" where
  "session_history n [] h = h"
| "session_history n (e # es) h = session_history n es
     (case e of
        Opened n' seq t \<Rightarrow> if n' = n then Some (t, seq, []) else h
      | Accepted n' seq t \<Rightarrow> if n' = n then map_option (\<lambda>(t0, s0, as). (t0, s0, as @ [(seq, t)])) h else h
      | Refused _ _ \<Rightarrow> h)"

lemma session_history_append:
  "session_history n (es @ es') h = session_history n es' (session_history n es h)"
  by (induction es arbitrary: h) auto

section \<open>Replay protection\<close>

definition history_ok :: "string \<Rightarrow> session_manager \<Rightarrow> (nat \<times> u64 \<times> (u64 \<times> nat) list) option \<Rightarrow> bool" where
  "history_ok n m h \<longleftrightarrow>
     (case h of
        None \<Rightarrow> map_of (sm_sessions m) n = None
      | Some (t0, s0, as) \<Rightarrow>
          map fst as = map (\<lambda>i. s0 + of_nat i) [0..<length as] \<and>
          (\<forall>(_, t)\<in>set as. t - t0 \<le> sm_timeout m) \<and>
          (\<forall>s. map_of (sm_sessions m) n = Some s \<longrightarrow>
             ss_created_at s = t0 \<and> ss_next_expected_seq s = s0 + of_nat (length as)))"

lemma drop_session_simps [simp]:
  "sm_timeout (drop_session n' m) = sm_timeout m"
  "map_of (sm_sessions (drop_session n' m)) n = (if n = n' then None else map_of (sm_sessions m) n)"
  by (simp_all add: drop_session_def delete_conv')

lemma foldl_drop_session:
  "map_of (sm_sessions (foldl (\<lambda>m id. drop_session id m) m ids)) n =
     (if n \<in> set ids then None else map_of (sm_sessions m) n) \<and>
   sm_timeout (foldl (\<lambda>m id. drop_session id m) m ids) = sm_timeout m"
  by (induction ids arbitrary: m) auto

text \<open>A step that opens no session of the node and accepts nothing from it keeps its session or drops it,
  and may change its state.\<close>

definition session_shrinks :: "string \<Rightarrow> session_manager \<Rightarrow> session_manager \<Rightarrow> bool" where
  "session_shrinks n m m' \<longleftrightarrow> sm_timeout m' = sm_timeout m \<and>
     (\<forall>s'. map_of (sm_sessions m') n = Some s' \<longrightarrow>
        (\<exists>s. map_of (sm_sessions m) n = Some s \<and> ss_created_at s' = ss_created_at s \<and>
           ss_next_expected_seq s' = ss_next_expected_seq s))"

lemma shrinks_history: "history_ok n m h \<Longrightarrow> session_shrinks n m m' \<Longrightarrow> history_ok n m' h"
  unfolding history_ok_def session_shrinks_def by (auto split: option.splits)

lemma quiet_steps_shrink:
  "verify_and_advance_seq now n' seq m = (Inl e, m') \<Longrightarrow> session_shrinks n m m'"
  "set_state n' st m = (r, m') \<Longrightarrow> session_shrinks n m m'"
  "remove_session n' m = (r', m') \<Longrightarrow> session_shrinks n m m'"
  "reap_expired now m = (gone, m') \<Longrightarrow> session_shrinks n m m'"
  "same_sessions m m' \<Longrightarrow> session_shrinks n m m'"
  "verify_and_advance_seq now n' seq m = (Inr (), m') \<Longrightarrow> n' \<noteq> n \<Longrightarrow> session_shrinks n m m'"
  "create_session now n' peer nonce0 seq m = (s, m') \<Longrightarrow> n' \<noteq> n \<Longrightarrow> session_shrinks n m m'"
  by (auto simp: session_shrinks_def verify_and_advance_seq_def set_state_def remove_session_def reap_expired_def
      same_sessions_def create_session_def Let_def foldl_drop_session update_conv'
      split: option.splits if_splits)

lemma create_opens:
  "create_session now n peer nonce0 seq m = (s, m') \<Longrightarrow> history_ok n m' (Some (now, seq, []))"
  by (auto simp: create_session_def history_ok_def Let_def update_conv')

lemma accept_extends:
  assumes "verify_and_advance_seq now n seq m = (Inr (), m')" and "history_ok n m h"
  shows "\<exists>t0 s0 as. h = Some (t0, s0, as) \<and> seq = s0 + of_nat (length as) \<and>
    history_ok n m' (Some (t0, s0, as @ [(seq, now)]))"
proof -
  from assms(1) obtain s where s: "map_of (sm_sessions m) n = Some s" "\<not> expired now m s" "seq = ss_next_expected_seq s"
    and m': "m' = m\<lparr>sm_sessions := AList.update n (s\<lparr>ss_next_expected_seq := ss_next_expected_seq s + 1\<rparr>) (sm_sessions m)\<rparr>"
    by (auto simp: verify_and_advance_seq_def split: option.splits if_splits)
  with assms(2) obtain t0 s0 as where h: "h = Some (t0, s0, as)"
    by (auto simp: history_ok_def split: option.splits)
  with assms(2) s(1) have o: "map fst as = map (\<lambda>i. s0 + of_nat i) [0..<length as]"
      "\<forall>(_, t)\<in>set as. t - t0 \<le> sm_timeout m" "ss_created_at s = t0" "ss_next_expected_seq s = s0 + of_nat (length as)"
    by (simp_all add: history_ok_def)
  have "history_ok n m' (Some (t0, s0, as @ [(seq, now)]))"
    using o s(2,3) unfolding history_ok_def m' expired_def by (auto simp: update_conv' ac_simps)
  with h o(4) s(3) show ?thesis by blast
qed

lemma step_history:
  assumes "session_step m es m'" and "history_ok n m h"
  shows "history_ok n m' (session_history n es h)"
  using assms(1)
proof (cases rule: session_step.cases)
  case (step_create now n' peer nonce0 seq s)
  with assms(2) show ?thesis
    using create_opens quiet_steps_shrink(7) shrinks_history by (cases "n' = n") fastforce+
next
  case (step_accept now n' seq)
  with assms(2) show ?thesis
    using accept_extends quiet_steps_shrink(6) shrinks_history by (cases "n' = n") fastforce+
qed (use assms(2) shrinks_history quiet_steps_shrink in fastforce)+

lemma trace_history:
  assumes "session_trace (session_manager_new timeout) es m"
  shows "history_ok n m (session_history n es None) \<and> sm_timeout m = timeout"
  using assms
proof (induction rule: session_trace.induct)
  case trace_start
  show ?case by (simp add: history_ok_def session_manager_new_def)
next
  case (trace_step es m es' m')
  then have "sm_timeout m' = sm_timeout m"
    by (cases rule: session_stepE)
      (auto simp: verify_and_advance_seq_def set_state_def remove_session_def reap_expired_def
        same_sessions_def create_session_def Let_def foldl_drop_session split: option.splits if_splits)
  with trace_step step_history show ?case by (auto simp: session_history_append)
qed

lemma of_nat_word_distinct:
  assumes "k \<le> 2 ^ LENGTH('a)"
  shows "distinct (map (\<lambda>i. (s0 :: 'a::len word) + of_nat i) [0..<k])"
proof -
  have "inj_on (\<lambda>i. s0 + of_nat i) {0..<k}"
    using assms by (auto intro!: inj_onI simp: word_of_nat_eq_iff take_bit_nat_eq_self_iff take_bit_nat_eq_self)
  then show ?thesis by (simp add: distinct_map)
qed

text \<open>C22. Replay protection: whatever the gateway does with its sessions, the sequence numbers accepted from
  a node since its session was opened are the starting number and its successors, in order, each within
  the session timeout; so none is accepted twice.\<close>

theorem session_replay_safe:
  assumes "session_trace (session_manager_new timeout) es m"
    and "session_history n es None = Some (t0, s0, as)"
  shows "map fst as = map (\<lambda>i. s0 + of_nat i) [0..<length as] \<and>
    (\<forall>(seq, t)\<in>set as. t - t0 \<le> timeout) \<and>
    (length as \<le> 2 ^ 64 \<longrightarrow> distinct (map fst as))"
  using trace_history [OF assms(1), of n] assms(2) of_nat_word_distinct [where 'a = 64]
  by (auto simp: history_ok_def)

lemma demo_session_trace:
  "session_trace (session_manager_new 30) [Opened ''n1'' 7 100, Accepted ''n1'' 7 110, Refused ''n1'' (SequenceMismatch 8 7)]
     (snd (verify_and_advance_seq 120 ''n1'' 7 (snd (verify_and_advance_seq 110 ''n1'' 7
       (snd (create_session 100 ''n1'' [1] 5 7 (session_manager_new 30)))))))"
proof -
  let ?m1 = "snd (create_session 100 ''n1'' [1] 5 7 (session_manager_new 30))"
  let ?m2 = "snd (verify_and_advance_seq 110 ''n1'' 7 ?m1)"
  have "session_trace (session_manager_new 30) ([] @ [Opened ''n1'' 7 100]) ?m1"
    by (rule trace_step [OF trace_start step_create]) (simp add: create_session_def Let_def)
  then have "session_trace (session_manager_new 30) (([] @ [Opened ''n1'' 7 100]) @ [Accepted ''n1'' 7 110]) ?m2"
    by (rule trace_step [OF _ step_accept])
      (simp add: create_session_def Let_def session_manager_new_def verify_and_advance_seq_def expired_def)
  then have "session_trace (session_manager_new 30)
      ((([] @ [Opened ''n1'' 7 100]) @ [Accepted ''n1'' 7 110]) @ [Refused ''n1'' (SequenceMismatch 8 7)])
      (snd (verify_and_advance_seq 120 ''n1'' 7 ?m2))"
    by (rule trace_step [OF _ step_refuse [of 120 _ 7]])
      (simp add: create_session_def Let_def session_manager_new_def verify_and_advance_seq_def expired_def)
  then show ?thesis by simp
qed

theorem session_replay_safe_witness:
  "\<exists>es m as. session_trace (session_manager_new 30) es m \<and> Refused ''n1'' (SequenceMismatch 8 7) \<in> set es \<and>
     session_history ''n1'' es None = Some (100, 7, as) \<and> as \<noteq> [] \<and>
     map fst as = map (\<lambda>i. 7 + of_nat i) [0..<length as] \<and> (\<forall>(seq, t)\<in>set as. t - 100 \<le> 30)"
proof -
  let ?es = "[Opened ''n1'' 7 100, Accepted ''n1'' 7 110, Refused ''n1'' (SequenceMismatch 8 7)]"
  have h: "session_history ''n1'' ?es None = Some (100, 7, [(7, 110)])" by simp
  from session_replay_safe [OF demo_session_trace h] demo_session_trace h show ?thesis by fastforce
qed

end
