(* ===== verification/Missing_Hints.thy ===== *)
theory Missing_Hints
  imports Sonde_Prelude "HOL-Library.AList"
begin

text \<open>
  The tracker of unknown key hints (\<open>MissingKeyHintTracker\<close> of \<open>sonde-gateway/src/engine.rs\<close>): at most 256
  hints, each reported at most once a minute. Instants are nanoseconds.
\<close>

definition MISSING_HINT_MAX_ENTRIES :: nat where "MISSING_HINT_MAX_ENTRIES = 256"
definition MISSING_HINT_RATE_LIMIT_SECS :: nat where "MISSING_HINT_RATE_LIMIT_SECS = 60"

definition as_secs :: "nat \<Rightarrow> nat" where "as_secs ns = ns div 10 ^ 9"

record hint_tracker =
  ht_entries :: "(u16 \<times> nat) list"
  ht_order :: "u16 list"
  ht_pending :: "u16 list"

definition tracker_new :: hint_tracker where
  "tracker_new = \<lparr>ht_entries = [], ht_order = [], ht_pending = []\<rparr>"

definition refresh :: "u16 \<Rightarrow> u16 list \<Rightarrow> u16 list" where
  "refresh h order = filter (\<lambda>x. x \<noteq> h) order @ [h]"

definition evict_oldest :: "hint_tracker \<Rightarrow> hint_tracker" where
  "evict_oldest t =
     (if length (ht_entries t) \<ge> MISSING_HINT_MAX_ENTRIES then
        (case ht_order t of
           [] \<Rightarrow> t
         | oldest # rest \<Rightarrow>
             t\<lparr>ht_entries := AList.delete oldest (ht_entries t), ht_order := rest,
               ht_pending := filter (\<lambda>h. h \<noteq> oldest) (ht_pending t)\<rparr>)
      else t)"

definition report :: "nat \<Rightarrow> u16 \<Rightarrow> hint_tracker \<Rightarrow> bool \<times> hint_tracker" where
  "report now h t =
     (case map_of (ht_entries t) h of
        Some prev \<Rightarrow>
          if as_secs (now - prev) < MISSING_HINT_RATE_LIMIT_SECS then (False, t\<lparr>ht_order := refresh h (ht_order t)\<rparr>)
          else (True, t\<lparr>ht_entries := AList.update h now (ht_entries t), ht_order := refresh h (ht_order t),
                        ht_pending := (if h \<in> set (ht_pending t) then ht_pending t else ht_pending t @ [h])\<rparr>)
      | None \<Rightarrow>
          let t1 = evict_oldest t in
          (True, t1\<lparr>ht_entries := AList.update h now (ht_entries t1), ht_order := ht_order t1 @ [h],
                    ht_pending := ht_pending t1 @ [h]\<rparr>))"

definition tracker_drain :: "hint_tracker \<Rightarrow> u16 list \<times> hint_tracker" where
  "tracker_drain t = (ht_pending t, t\<lparr>ht_pending := []\<rparr>)"

definition tracker_len :: "hint_tracker \<Rightarrow> nat" where "tracker_len t = length (ht_entries t)"

datatype hint_op = is_report: ReportHint (hint_time: nat) (hint_value: u16) | DrainHints

fun hint_step :: "hint_op \<Rightarrow> hint_tracker \<Rightarrow> (bool \<times> u16 list) \<times> hint_tracker" where
  "hint_step (ReportHint now h) t = (case report now h t of (b, t') \<Rightarrow> ((b, []), t'))"
| "hint_step DrainHints t = (case tracker_drain t of (hs, t') \<Rightarrow> ((False, hs), t'))"

section \<open>Invariant\<close>

definition tracker_inv :: "hint_tracker \<Rightarrow> bool" where
  "tracker_inv t \<longleftrightarrow> distinct (map fst (ht_entries t)) \<and> distinct (ht_order t) \<and>
     set (ht_order t) = fst ` set (ht_entries t) \<and> distinct (ht_pending t) \<and>
     set (ht_pending t) \<subseteq> set (ht_order t) \<and> length (ht_entries t) \<le> MISSING_HINT_MAX_ENTRIES"

lemma length_delete_key:
  "distinct (map fst xs) \<Longrightarrow> k \<in> fst ` set xs \<Longrightarrow> length (AList.delete k xs) = length xs - 1"
proof (induction xs)
  case (Cons x xs)
  obtain a b where x: "x = (a, b)" by (cases x)
  show ?case
  proof (cases "k = a")
    case True
    with Cons.prems x have "k \<notin> fst ` set xs" by auto
    with True x show ?thesis by (simp add: delete_idem)
  next
    case False
    with Cons x have "k \<in> fst ` set xs" by auto
    with Cons x False show ?thesis by (auto simp: Suc_diff_1 length_pos_if_in_set dest: length_pos_if_in_set)
  qed
qed simp

lemma length_update_new: "k \<notin> fst ` set xs \<Longrightarrow> length (AList.update k v xs) = length xs + 1"
  by (induction xs) auto

lemma length_update_old: "k \<in> fst ` set xs \<Longrightarrow> length (AList.update k v xs) = length xs"
  by (induction xs) auto

lemma delete_keys: "fst ` set (AList.delete k xs) = fst ` set xs - {k}"
  by (induction xs) auto

lemma evict_oldest_inv:
  assumes "tracker_inv t"
  shows "tracker_inv (evict_oldest t) \<and> length (ht_entries (evict_oldest t)) < MISSING_HINT_MAX_ENTRIES \<and>
    fst ` set (ht_entries (evict_oldest t)) \<subseteq> fst ` set (ht_entries t)"
proof (cases "length (ht_entries t) \<ge> MISSING_HINT_MAX_ENTRIES")
  case True
  then have "ht_entries t \<noteq> []" by (auto simp: MISSING_HINT_MAX_ENTRIES_def)
  then obtain k rest where o: "ht_order t = k # rest"
    using assms by (cases "ht_order t") (auto simp: tracker_inv_def)
  then have "k \<in> fst ` set (ht_entries t)" using assms unfolding tracker_inv_def by (metis list.set_intros(1))
  with assms length_delete_key [of "ht_entries t" k]
  have "length (AList.delete k (ht_entries t)) = length (ht_entries t) - 1" by (simp add: tracker_inv_def)
  with True assms o show ?thesis
    by (auto simp: evict_oldest_def tracker_inv_def delete_keys distinct_delete MISSING_HINT_MAX_ENTRIES_def)
qed (use assms in \<open>simp add: evict_oldest_def\<close>)

lemma refresh_set: "h \<in> set order \<Longrightarrow> set (refresh h order) = set order"
  "distinct order \<Longrightarrow> distinct (refresh h order)"
  by (auto simp: refresh_def)

lemma update_keys: "fst ` set (AList.update k v xs) = insert k (fst ` set xs)"
  by (induction xs) auto

lemma report_inv:
  assumes "tracker_inv t"
  shows "tracker_inv (snd (report now h t))"
proof (cases "map_of (ht_entries t) h")
  case None
  then have "h \<notin> fst ` set (ht_entries t)" by (simp add: map_of_eq_None_iff)
  moreover note evict_oldest_inv [OF assms]
  ultimately have "h \<notin> fst ` set (ht_entries (evict_oldest t))" by blast
  with None evict_oldest_inv [OF assms] show ?thesis
    by (auto simp: report_def Let_def tracker_inv_def distinct_update update_keys length_update_new)
next
  case (Some prev)
  then have "h \<in> fst ` set (ht_entries t)" by (metis map_of_eq_None_iff option.distinct(1))
  with Some assms show ?thesis
    by (auto simp: report_def tracker_inv_def distinct_update update_keys length_update_old refresh_set insert_absorb)
qed

lemma hint_step_inv:
  assumes "tracker_inv t"
  shows "tracker_inv (snd (hint_step x t))"
proof (cases x)
  case (ReportHint now h)
  with report_inv [OF assms, of now h] show ?thesis by (simp add: split_beta)
next
  case DrainHints
  with assms show ?thesis by (simp add: tracker_drain_def tracker_inv_def)
qed

lemma hint_run_inv: "tracker_inv (snd (run_ops hint_step xs tracker_new))"
proof (induction xs rule: rev_induct)
  case (snoc x xs)
  then show ?case using hint_step_inv by (auto simp: run_ops_snoc split: prod.splits) (metis snd_conv)
qed (simp add: tracker_inv_def tracker_new_def)

section \<open>Rate limit\<close>

text \<open>Without eviction the entry of a hint is the time of its last accepted report.\<close>

lemma report_entries:
  assumes "tracker_inv t" and "card (insert h (fst ` set (ht_entries t))) \<le> MISSING_HINT_MAX_ENTRIES"
    and "report now h t = (b, t')"
  shows "b \<longleftrightarrow> (case map_of (ht_entries t) h of None \<Rightarrow> True
                 | Some prev \<Rightarrow> as_secs (now - prev) \<ge> MISSING_HINT_RATE_LIMIT_SECS)"
    and "map_of (ht_entries t') = (if b then (map_of (ht_entries t))(h \<mapsto> now) else map_of (ht_entries t))"
    and "fst ` set (ht_entries t') \<subseteq> insert h (fst ` set (ht_entries t))"
proof -
  have "evict_oldest t = t" if "map_of (ht_entries t) h = None"
  proof -
    have "h \<notin> fst ` set (ht_entries t)" using that by (simp add: map_of_eq_None_iff)
    then have "card (fst ` set (ht_entries t)) < MISSING_HINT_MAX_ENTRIES" using assms(2) by simp
    then have "length (ht_entries t) < MISSING_HINT_MAX_ENTRIES"
      using assms(1) by (metis distinct_card length_map list.set_map tracker_inv_def)
    then show ?thesis by (simp add: evict_oldest_def)
  qed
  then show "b \<longleftrightarrow> (case map_of (ht_entries t) h of None \<Rightarrow> True
                 | Some prev \<Rightarrow> as_secs (now - prev) \<ge> MISSING_HINT_RATE_LIMIT_SECS)"
    and m: "map_of (ht_entries t') = (if b then (map_of (ht_entries t))(h \<mapsto> now) else map_of (ht_entries t))"
    using assms(3) by (auto simp: report_def Let_def update_conv' split: option.splits if_splits)
  have "dom (map_of (ht_entries t')) \<subseteq> insert h (dom (map_of (ht_entries t)))" unfolding m by auto
  then show "fst ` set (ht_entries t') \<subseteq> insert h (fst ` set (ht_entries t))" by (simp add: dom_map_of_conv_image_fst)
qed

definition report_times :: "hint_op list \<Rightarrow> nat list" where
  "report_times xs = map hint_time (filter is_report xs)"

definition hints_of :: "hint_op list \<Rightarrow> u16 set" where
  "hints_of xs = hint_value ` set (filter is_report xs)"

text \<open>Two accepted reports of a hint are a minute apart.\<close>

definition spaced :: "hint_op list \<Rightarrow> (bool \<times> u16 list) list \<Rightarrow> bool" where
  "spaced xs outs \<longleftrightarrow>
     (\<forall>i j t t' h. i < j \<and> j < length xs \<and> xs ! i = ReportHint t h \<and> xs ! j = ReportHint t' h \<and>
        fst (outs ! i) \<and> fst (outs ! j) \<longrightarrow> as_secs (t' - t) \<ge> MISSING_HINT_RATE_LIMIT_SECS)"

definition remembers :: "hint_op list \<Rightarrow> (bool \<times> u16 list) list \<Rightarrow> hint_tracker \<Rightarrow> bool" where
  "remembers xs outs tr \<longleftrightarrow> length outs = length xs \<and> fst ` set (ht_entries tr) \<subseteq> hints_of xs \<and>
     (\<forall>i t h. i < length xs \<and> xs ! i = ReportHint t h \<and> fst (outs ! i) \<longrightarrow>
        (\<exists>l. map_of (ht_entries tr) h = Some l \<and> t \<le> l))"

lemma spaced_snoc:
  assumes "spaced xs outs" and "length outs = length xs"
    and "\<And>i t t' h. i < length xs \<Longrightarrow> xs ! i = ReportHint t h \<Longrightarrow> fst (outs ! i) \<Longrightarrow> x = ReportHint t' h \<Longrightarrow>
      fst out \<Longrightarrow> as_secs (t' - t) \<ge> MISSING_HINT_RATE_LIMIT_SECS"
  shows "spaced (xs @ [x]) (outs @ [out])"
  unfolding spaced_def
proof (intro allI impI)
  fix i j t t' h
  assume a: "i < j \<and> j < length (xs @ [x]) \<and> (xs @ [x]) ! i = ReportHint t h \<and> (xs @ [x]) ! j = ReportHint t' h \<and>
      fst ((outs @ [out]) ! i) \<and> fst ((outs @ [out]) ! j)"
  show "as_secs (t' - t) \<ge> MISSING_HINT_RATE_LIMIT_SECS"
  proof (cases "j < length xs")
    case True
    with a have "xs ! i = ReportHint t h" "xs ! j = ReportHint t' h" "fst (outs ! i)" "fst (outs ! j)" "i < j"
      using assms(2) by (auto simp: nth_append)
    with True assms(1) show ?thesis unfolding spaced_def by blast
  next
    case False
    with a assms(2) show ?thesis using assms(3) [of i t h t'] by (auto simp: nth_append less_Suc_eq)
  qed
qed

lemma remembers_snoc:
  assumes "remembers xs outs tr" and "fst ` set (ht_entries tr') \<subseteq> hints_of (xs @ [x])"
    and "\<And>t h. x = ReportHint t h \<Longrightarrow> fst out \<Longrightarrow> map_of (ht_entries tr') h = Some t"
    and "\<And>i t h l. i < length xs \<Longrightarrow> xs ! i = ReportHint t h \<Longrightarrow> map_of (ht_entries tr) h = Some l \<Longrightarrow> t \<le> l \<Longrightarrow>
      \<exists>l'. map_of (ht_entries tr') h = Some l' \<and> t \<le> l'"
  shows "remembers (xs @ [x]) (outs @ [out]) tr'"
  unfolding remembers_def
proof (intro conjI allI impI)
  show "length (outs @ [out]) = length (xs @ [x])" using assms(1) by (simp add: remembers_def)
  show "fst ` set (ht_entries tr') \<subseteq> hints_of (xs @ [x])" by fact
  fix i t h assume a: "i < length (xs @ [x]) \<and> (xs @ [x]) ! i = ReportHint t h \<and> fst ((outs @ [out]) ! i)"
  show "\<exists>l. map_of (ht_entries tr') h = Some l \<and> t \<le> l"
  proof (cases "i < length xs")
    case True
    with a assms(1) have "xs ! i = ReportHint t h" "fst (outs ! i)" by (auto simp: nth_append remembers_def)
    with True assms(1) obtain l where "map_of (ht_entries tr) h = Some l" "t \<le> l" unfolding remembers_def by blast
    with assms(4) [OF True \<open>xs ! i = ReportHint t h\<close>] show ?thesis .
  next
    case False
    with a assms(1,3) show ?thesis by (auto simp: remembers_def nth_append less_Suc_eq)
  qed
qed

lemma hint_step_spaced:
  assumes "tracker_inv tr" and "remembers xs outs tr" and "spaced xs outs"
    and "sorted (report_times (xs @ [x]))" and "card (hints_of (xs @ [x])) \<le> MISSING_HINT_MAX_ENTRIES"
    and "hint_step x tr = (out, tr')"
  shows "remembers (xs @ [x]) (outs @ [out]) tr' \<and> spaced (xs @ [x]) (outs @ [out])"
proof (cases x)
  case DrainHints
  with assms(6) have d: "out = (False, ht_pending tr)" "tr' = tr\<lparr>ht_pending := []\<rparr>" by (simp_all add: tracker_drain_def)
  have "fst ` set (ht_entries tr) \<subseteq> hints_of (xs @ [x])"
    using assms(2) DrainHints by (simp add: remembers_def hints_of_def)
  then show ?thesis
    using remembers_snoc [OF assms(2), of tr' x out] spaced_snoc [OF assms(3), of x out] assms(2) d DrainHints
    by (simp add: remembers_def)
next
  case (ReportHint now h)
  from assms(6) ReportHint obtain b where r: "report now h tr = (b, tr')" and out: "out = (b, [])"
    by (auto split: prod.splits)
  have hs: "hints_of (xs @ [x]) = insert h (hints_of xs)" using ReportHint by (auto simp: hints_of_def)
  have keys: "fst ` set (ht_entries tr) \<subseteq> hints_of xs" using assms(2) by (simp add: remembers_def)
  then have "card (insert h (fst ` set (ht_entries tr))) \<le> card (hints_of (xs @ [x]))"
    unfolding hs by (intro card_mono) (auto simp: hints_of_def)
  note e = report_entries [OF assms(1) order_trans [OF this assms(5)] r]
  have le: "t \<le> now" if "i < length xs" "xs ! i = ReportHint t h'" for i t h'
    using assms(4) that nth_mem [of i xs] ReportHint by (force simp: report_times_def sorted_append)
  have "remembers (xs @ [x]) (outs @ [out]) tr'"
    by (rule remembers_snoc [OF assms(2)]) (use e keys hs le out ReportHint in \<open>auto split: if_splits\<close>)
  moreover have "spaced (xs @ [x]) (outs @ [out])"
  proof (rule spaced_snoc [OF assms(3)])
    show "length outs = length xs" using assms(2) by (simp add: remembers_def)
    fix i t t' h' assume i: "i < length xs" "xs ! i = ReportHint t h'" "fst (outs ! i)" "x = ReportHint t' h'" "fst out"
    then obtain l where l: "map_of (ht_entries tr) h = Some l" "t \<le> l"
      using assms(2) ReportHint unfolding remembers_def by fastforce
    with e(1) i out have "as_secs (now - l) \<ge> MISSING_HINT_RATE_LIMIT_SECS" by simp
    moreover have "as_secs (now - l) \<le> as_secs (now - t)" using l(2) by (simp add: as_secs_def div_le_mono)
    ultimately show "as_secs (t' - t) \<ge> MISSING_HINT_RATE_LIMIT_SECS" using i(4) ReportHint by simp
  qed
  ultimately show ?thesis by simp
qed

lemma hint_run_spaced:
  assumes "sorted (report_times xs)" and "card (hints_of xs) \<le> MISSING_HINT_MAX_ENTRIES"
    and "run_ops hint_step xs tracker_new = (outs, tr)"
  shows "remembers xs outs tr \<and> spaced xs outs"
  using assms
proof (induction xs arbitrary: outs tr rule: rev_induct)
  case Nil
  then show ?case by (auto simp: remembers_def spaced_def tracker_new_def)
next
  case (snoc x xs)
  obtain outs' tr' where r: "run_ops hint_step xs tracker_new = (outs', tr')" by fastforce
  with snoc.prems(3) obtain out where x: "hint_step x tr' = (out, tr)" and outs: "outs = outs' @ [out]"
    by (auto simp: run_ops_snoc split: prod.splits)
  have "card (hints_of xs) \<le> card (hints_of (xs @ [x]))"
    by (intro card_mono) (auto simp: hints_of_def)
  with snoc.IH [OF _ _ r] snoc.prems(1,2) have "remembers xs outs' tr'" "spaced xs outs'"
    by (auto simp: report_times_def sorted_append)
  with hint_step_spaced [OF _ this snoc.prems(1,2) x] hint_run_inv [of xs] r outs show ?case by simp
qed

text \<open>Rate limit of the reports of unknown nodes: the tracker never holds more than 256 hints, and as long
  as no more than 256 different hints come in, two accepted reports of the same hint are at least sixty
  seconds apart, whatever is reported and drained in between.\<close>

theorem hint_reports_limited:
  assumes "sorted (report_times xs)" and "card (hints_of xs) \<le> MISSING_HINT_MAX_ENTRIES"
    and "run_ops hint_step xs tracker_new = (outs, tr)"
  shows "spaced xs outs \<and> tracker_len tr \<le> MISSING_HINT_MAX_ENTRIES"
  using hint_run_spaced [OF assms] hint_run_inv [of xs] assms(3) by (simp add: tracker_inv_def tracker_len_def)

theorem hint_reports_limited_witness:
  "spaced [ReportHint 0 7, ReportHint 1 7, DrainHints]
     (fst (run_ops hint_step [ReportHint 0 7, ReportHint 1 7, DrainHints] tracker_new))"
  using hint_reports_limited [of "[ReportHint 0 7, ReportHint 1 7, DrainHints]", OF _ _ surjective_pairing]
  by (simp add: report_times_def hints_of_def MISSING_HINT_MAX_ENTRIES_def)

end
