(* ===== verification/Handler_Router.thy ===== *)
theory Handler_Router
  imports Cbor "HOL-Library.Char_ord" "HOL-Library.List_Lexorder" "HOL-Library.Multiset"
begin

text \<open>
  The application handlers of the gateway (\<open>sonde-gateway/src/handler.rs\<close>): the CBOR messages exchanged with
  a handler process and their framing on its pipes, the reading of a reply, and the routing of a program
  hash to a handler. A handler process is known by its number; its life cycle (spawn, kill, exit) is the
  operating system's, and so are the reply timeout and what follows the wait (\<open>send_data\<close> is modelled up
  to its outcome, over what the pipe holds). A \<open>BTreeMap\<close> is the list of its entries in key order.
\<close>

section \<open>Messages\<close>

definition MAX_MESSAGE_SIZE :: nat where "MAX_MESSAGE_SIZE = 1048576"
definition MSG_TYPE_DATA :: u64 where "MSG_TYPE_DATA = 0x01"
definition MSG_TYPE_EVENT :: u64 where "MSG_TYPE_EVENT = 0x02"
definition MSG_TYPE_DATA_REPLY :: u64 where "MSG_TYPE_DATA_REPLY = 0x81"
definition MSG_TYPE_LOG :: u64 where "MSG_TYPE_LOG = 0x82"

lemmas msg_type_defs = MSG_TYPE_DATA_def MSG_TYPE_EVENT_def MSG_TYPE_DATA_REPLY_def MSG_TYPE_LOG_def

type_synonym 'v btree_map = "(string \<times> 'v) list"

primrec btree_insert :: "string \<Rightarrow> 'v \<Rightarrow> 'v btree_map \<Rightarrow> 'v btree_map" where
  "btree_insert k v [] = [(k, v)]"
| "btree_insert k v (e # es) =
     (if k < fst e then (k, v) # e # es
      else if k = fst e then (k, v) # es
      else e # btree_insert k v es)"

datatype handler_message =
    HandlerData u64 string bytes bytes u64 "int btree_map option"
  | HandlerEvent string string "cbor_value btree_map" u64
  | DataReply u64 bytes u8
  | HandlerLog string string

datatype handler_decode_error = HandlerDecodeError string

fun handler_message_value :: "handler_message \<Rightarrow> cbor_value" where
  "handler_message_value (HandlerData request_id node_id program_hash data timestamp readings) =
     CborMap ([(CborInt 1, CborInt (uint MSG_TYPE_DATA)), (CborInt 2, CborInt (uint request_id)),
        (CborInt 3, CborText node_id), (CborInt 4, CborBytes program_hash), (CborInt 5, CborBytes data),
        (CborInt 6, CborInt (uint timestamp))] @
        (case readings of
           Some m \<Rightarrow> [(CborInt 16, CborMap (map (\<lambda>(k, v). (CborText k, CborInt v)) m))]
         | None \<Rightarrow> []))"
| "handler_message_value (HandlerEvent node_id event_type details timestamp) =
     CborMap [(CborInt 1, CborInt (uint MSG_TYPE_EVENT)), (CborInt 3, CborText node_id),
        (CborInt 4, CborText event_type), (CborInt 5, CborMap (map (\<lambda>(k, v). (CborText k, v)) details)),
        (CborInt 6, CborInt (uint timestamp))]"
| "handler_message_value (DataReply request_id data delivery) =
     CborMap ([(CborInt 1, CborInt (uint MSG_TYPE_DATA_REPLY)), (CborInt 2, CborInt (uint request_id)),
        (CborInt 3, CborBytes data)] @
        (if delivery \<noteq> 0 then [(CborInt 4, CborInt (uint delivery))] else []))"
| "handler_message_value (HandlerLog level message) =
     CborMap [(CborInt 1, CborInt (uint MSG_TYPE_LOG)), (CborInt 2, CborText level), (CborInt 3, CborText message)]"

definition handler_message_encode :: "cbor_ser \<Rightarrow> handler_message \<Rightarrow> unit + bytes" where
  "handler_message_encode ser m = (case ser (handler_message_value m) of Inl _ \<Rightarrow> Inl () | Inr b \<Rightarrow> Inr b)"

fun get_value :: "(cbor_value \<times> cbor_value) list \<Rightarrow> int \<Rightarrow> cbor_value option" where
  "get_value [] key = None"
| "get_value ((k, v) # ps) key =
     (case k of
        CborInt i \<Rightarrow> if i = key then Some v else get_value ps key
      | _ \<Rightarrow> get_value ps key)"

definition hm_get_uint :: "(cbor_value \<times> cbor_value) list \<Rightarrow> int \<Rightarrow> u64 option" where
  "hm_get_uint m key = Option.bind (get_value m key) (\<lambda>v. Option.bind (as_integer v) to_unsigned)"

definition hm_get_text :: "(cbor_value \<times> cbor_value) list \<Rightarrow> int \<Rightarrow> string option" where
  "hm_get_text m key = Option.bind (get_value m key) as_text"

definition hm_get_bytes :: "(cbor_value \<times> cbor_value) list \<Rightarrow> int \<Rightarrow> bytes option" where
  "hm_get_bytes m key = Option.bind (get_value m key) as_bytes"

text \<open>\<open>i64\<close> readings; entries of another shape are skipped.\<close>

primrec readings_entries :: "(cbor_value \<times> cbor_value) list \<Rightarrow> int btree_map \<Rightarrow> int btree_map" where
  "readings_entries [] acc = acc"
| "readings_entries (p # ps) acc =
     (case p of
        (CborText name, CborInt val) \<Rightarrow>
          readings_entries ps (if - (2 ^ 63) \<le> val \<and> val < 2 ^ 63 then btree_insert name val acc else acc)
      | _ \<Rightarrow> readings_entries ps acc)"

definition get_readings_map :: "(cbor_value \<times> cbor_value) list \<Rightarrow> int \<Rightarrow> int btree_map option" where
  "get_readings_map m key =
     Option.bind (get_value m key) (\<lambda>v. map_option (\<lambda>es. readings_entries es []) (as_map v))"

primrec details_entries :: "(cbor_value \<times> cbor_value) list \<Rightarrow> cbor_value btree_map \<Rightarrow>
    handler_decode_error + cbor_value btree_map" where
  "details_entries [] acc = Inr acc"
| "details_entries (p # ps) acc =
     (case as_text (fst p) of
        Some key \<Rightarrow> details_entries ps (btree_insert key (snd p) acc)
      | None \<Rightarrow> Inl (HandlerDecodeError ''details key must be text''))"

definition decode_details :: "cbor_value \<Rightarrow> handler_decode_error + cbor_value btree_map" where
  "decode_details v =
     (case as_map v of
        Some entries \<Rightarrow> details_entries entries []
      | None \<Rightarrow> Inl (HandlerDecodeError ''details must be a map''))"

definition or_missing :: "string \<Rightarrow> 'a option \<Rightarrow> handler_decode_error + 'a" where
  "or_missing what x = (case x of Some v \<Rightarrow> Inr v | None \<Rightarrow> Inl (HandlerDecodeError what))"

definition decode_delivery :: "(cbor_value \<times> cbor_value) list \<Rightarrow> handler_decode_error + u8" where
  "decode_delivery m =
     (case get_value m 4 of
        None \<Rightarrow> Inr 0
      | Some _ \<Rightarrow>
          res_bind (or_missing ''delivery must be uint'' (hm_get_uint m 4)) (\<lambda>v.
            if v = 0 then Inr 0 else if v = 1 then Inr 1
            else Inl (HandlerDecodeError ''invalid delivery value'')))"

definition handler_message_fields :: "u64 \<Rightarrow> (cbor_value \<times> cbor_value) list \<Rightarrow> handler_decode_error + handler_message" where
  "handler_message_fields msg_type m =
     (if msg_type = MSG_TYPE_DATA then
        res_bind (or_missing ''missing request_id'' (hm_get_uint m 2)) (\<lambda>request_id.
        res_bind (or_missing ''missing node_id'' (hm_get_text m 3)) (\<lambda>node_id.
        res_bind (or_missing ''missing program_hash'' (hm_get_bytes m 4)) (\<lambda>program_hash.
        res_bind (or_missing ''missing data'' (hm_get_bytes m 5)) (\<lambda>data.
        res_bind (or_missing ''missing timestamp'' (hm_get_uint m 6)) (\<lambda>timestamp.
          Inr (HandlerData request_id node_id program_hash data timestamp (get_readings_map m 16)))))))
      else if msg_type = MSG_TYPE_EVENT then
        res_bind (or_missing ''missing node_id'' (hm_get_text m 3)) (\<lambda>node_id.
        res_bind (or_missing ''missing event_type'' (hm_get_text m 4)) (\<lambda>event_type.
        res_bind (or_missing ''missing details'' (get_value m 5)) (\<lambda>details_val.
        res_bind (decode_details details_val) (\<lambda>details.
        res_bind (or_missing ''missing timestamp'' (hm_get_uint m 6)) (\<lambda>timestamp.
          Inr (HandlerEvent node_id event_type details timestamp))))))
      else if msg_type = MSG_TYPE_DATA_REPLY then
        res_bind (or_missing ''missing request_id'' (hm_get_uint m 2)) (\<lambda>request_id.
        res_bind (or_missing ''missing data'' (hm_get_bytes m 3)) (\<lambda>data.
        res_bind (decode_delivery m) (\<lambda>delivery. Inr (DataReply request_id data delivery))))
      else if msg_type = MSG_TYPE_LOG then
        res_bind (or_missing ''missing level'' (hm_get_text m 2)) (\<lambda>level.
        res_bind (or_missing ''missing message'' (hm_get_text m 3)) (\<lambda>message. Inr (HandlerLog level message)))
      else Inl (HandlerDecodeError ''unknown msg_type''))"

definition handler_message_decode :: "cbor_de \<Rightarrow> bytes \<Rightarrow> handler_decode_error + handler_message" where
  "handler_message_decode de bs =
     (case de bs of
        Inl _ \<Rightarrow> Inl (HandlerDecodeError ''invalid CBOR'')
      | Inr v \<Rightarrow>
          (case as_map v of
             None \<Rightarrow> Inl (HandlerDecodeError ''expected CBOR map'')
           | Some m \<Rightarrow>
               res_bind (or_missing ''missing msg_type'' (hm_get_uint m 1)) (\<lambda>msg_type.
                 handler_message_fields msg_type m)))"

section \<open>Framing\<close>

datatype io_error = InvalidData | UnexpectedEof

definition write_message :: "cbor_ser \<Rightarrow> handler_message \<Rightarrow> io_error + bytes" where
  "write_message ser m =
     (case handler_message_encode ser m of
        Inl _ \<Rightarrow> Inl InvalidData
      | Inr payload \<Rightarrow>
          if length payload > MAX_MESSAGE_SIZE then Inl InvalidData
          else Inr (be32 (of_nat (length payload)) @ payload))"

text \<open>Reading from a pipe that holds these bytes and then ends: the outcome and what is left of the pipe.\<close>

definition read_message :: "cbor_de \<Rightarrow> bytes \<Rightarrow> (io_error + handler_message) \<times> bytes" where
  "read_message de pipe =
     (if length pipe < 4 then (Inl UnexpectedEof, [])
      else
        let len = unat (from_be_bytes (take 4 pipe) :: u32); rest = drop 4 pipe in
        if len > MAX_MESSAGE_SIZE then (Inl InvalidData, rest)
        else if length rest < len then (Inl UnexpectedEof, [])
        else (case handler_message_decode de (take len rest) of
                Inl _ \<Rightarrow> (Inl InvalidData, drop len rest)
              | Inr m \<Rightarrow> (Inr m, drop len rest)))"

lemma read_message_shorter: "read_message de pipe = (Inr m, rest) \<Longrightarrow> length rest < length pipe"
  by (auto simp: read_message_def Let_def split: if_splits sum.splits)

text \<open>The reply loop of \<open>send_data\<close>: log messages and replies to other requests are skipped.\<close>

datatype read_outcome = Reply handler_message | Eof | ReadError

function reply_wait :: "cbor_de \<Rightarrow> u64 \<Rightarrow> bytes \<Rightarrow> read_outcome \<times> bytes" where
  "reply_wait de expected pipe =
     (case read_message de pipe of
        (Inl UnexpectedEof, rest) \<Rightarrow> (Eof, rest)
      | (Inl InvalidData, rest) \<Rightarrow> (ReadError, rest)
      | (Inr m, rest) \<Rightarrow>
          (case m of
             DataReply request_id data delivery \<Rightarrow>
               if request_id \<noteq> expected then reply_wait de expected rest else (Reply m, rest)
           | _ \<Rightarrow> reply_wait de expected rest))"
  by pat_completeness auto
termination by (relation "measure (\<lambda>(de, expected, pipe). length pipe)") (auto dest: read_message_shorter [OF sym])

declare reply_wait.simps [simp del]

section \<open>Routing\<close>

datatype program_matcher = MatchAny | MatchHash bytes

record handler_config =
  hc_matchers :: "program_matcher list"
  hc_command :: string
  hc_args :: "string list"
  hc_reply_timeout :: "nat option"
  hc_working_dir :: "string option"

type_synonym handler_router = "(handler_config \<times> nat) list"

definition hex_digit :: "char \<Rightarrow> nat option" where
  "hex_digit c =
     (if CHR ''0'' \<le> c \<and> c \<le> CHR ''9'' then Some (of_char c - 48)
      else if CHR ''a'' \<le> c \<and> c \<le> CHR ''f'' then Some (of_char c - 87)
      else if CHR ''A'' \<le> c \<and> c \<le> CHR ''F'' then Some (of_char c - 55)
      else None)"

text \<open>\<open>from_str_radix\<close> reads one digit after a plus sign as well.\<close>

definition hex_byte :: "char \<Rightarrow> char \<Rightarrow> u8 option" where
  "hex_byte a b =
     (case (hex_digit a, hex_digit b) of
        (Some x, Some y) \<Rightarrow> Some (of_nat (16 * x + y))
      | (None, Some y) \<Rightarrow> if a = CHR ''+'' then Some (of_nat y) else None
      | _ \<Rightarrow> None)"

fun hex_bytes :: "string \<Rightarrow> bytes option" where
  "hex_bytes [] = Some []"
| "hex_bytes [_] = None"
| "hex_bytes (a # b # cs) =
     (case hex_byte a b of None \<Rightarrow> None | Some x \<Rightarrow> map_option (\<lambda>xs. x # xs) (hex_bytes cs))"

definition parse_hex :: "string \<Rightarrow> string + bytes" where
  "parse_hex s =
     (if \<not> is_ascii s then Inl ''hex string contains non-ASCII characters''
      else if odd (length s) then Inl ''hex string has odd length''
      else case hex_bytes s of Some b \<Rightarrow> Inr b | None \<Rightarrow> Inl ''invalid hex character'')"

definition parse_program_matcher :: "string \<Rightarrow> string + program_matcher" where
  "parse_program_matcher s =
     (if s = ''*'' then Inr MatchAny
      else res_bind (parse_hex s) (\<lambda>bs.
        if length bs \<noteq> 32 then Inl ''program_hash must be 64 hex characters'' else Inr (MatchHash bs)))"

primrec find_from :: "(handler_config \<Rightarrow> bool) \<Rightarrow> nat \<Rightarrow> handler_router \<Rightarrow> nat option" where
  "find_from p i [] = None"
| "find_from p i (h # hs) = (if p (fst h) then Some i else find_from p (Suc i) hs)"

definition find_handler :: "bytes \<Rightarrow> handler_router \<Rightarrow> nat option" where
  "find_handler program_hash r =
     (case find_from (\<lambda>c. list_ex (\<lambda>m. m = MatchHash program_hash) (hc_matchers c)) 0 r of
        Some i \<Rightarrow> Some i
      | None \<Rightarrow> find_from (\<lambda>c. list_ex (\<lambda>m. m = MatchAny) (hc_matchers c)) 0 r)"

definition find_handler_cloned :: "bytes \<Rightarrow> handler_router \<Rightarrow> (handler_config \<times> nat) option" where
  "find_handler_cloned program_hash r = map_option (\<lambda>i. r ! i) (find_handler program_hash r)"

definition handler_count :: "handler_router \<Rightarrow> nat" where "handler_count r = length r"

definition clone_all_process_refs :: "handler_router \<Rightarrow> nat list" where "clone_all_process_refs r = map snd r"

text \<open>New processes take the numbers from \<open>next\<close> on.\<close>

definition router_new :: "nat \<Rightarrow> handler_config list \<Rightarrow> handler_router" where
  "router_new next configs = zip configs [next..<next + length configs]"




section \<open>Round trip\<close>

definition btree_wf :: "'v btree_map \<Rightarrow> bool" where
  "btree_wf m \<longleftrightarrow> sorted_wrt (<) (map fst m) \<and> length m < 2 ^ 64 \<and>
     (\<forall>(k, v)\<in>set m. is_ascii k \<and> length k < 2 ^ 64)"

fun handler_message_ok :: "handler_message \<Rightarrow> bool" where
  "handler_message_ok (HandlerData request_id node_id program_hash data timestamp readings) \<longleftrightarrow>
     cbor_wf (CborText node_id) \<and> cbor_wf (CborBytes program_hash) \<and> cbor_wf (CborBytes data) \<and>
     (\<forall>m. readings = Some m \<longrightarrow> btree_wf m \<and> (\<forall>(k, v)\<in>set m. - (2 ^ 63) \<le> v \<and> v < 2 ^ 63))"
| "handler_message_ok (HandlerEvent node_id event_type details timestamp) \<longleftrightarrow>
     cbor_wf (CborText node_id) \<and> cbor_wf (CborText event_type) \<and>
     btree_wf details \<and> (\<forall>(k, v)\<in>set details. cbor_wf v)"
| "handler_message_ok (DataReply request_id data delivery) \<longleftrightarrow> cbor_wf (CborBytes data) \<and> delivery \<le> 1"
| "handler_message_ok (HandlerLog level message) \<longleftrightarrow> cbor_wf (CborText level) \<and> cbor_wf (CborText message)"

lemma btree_insert_last: "(\<And>e. e \<in> set acc \<Longrightarrow> fst e < k) \<Longrightarrow> btree_insert k v acc = acc @ [(k, v)]"
  by (induction acc) (auto dest: less_not_sym)

lemma readings_entries_all:
  assumes "sorted_wrt (<) (map fst (acc @ m))" and "\<And>k v. (k, v) \<in> set m \<Longrightarrow> - (2 ^ 63) \<le> v \<and> v < 2 ^ 63"
  shows "readings_entries (map (\<lambda>(k, v). (CborText k, CborInt v)) m) acc = acc @ m"
  using assms
proof (induction m arbitrary: acc)
  case (Cons e m)
  obtain k v where e: "e = (k, v)" by (cases e)
  have "btree_insert k v acc = acc @ [(k, v)]"
    using Cons.prems(1) e by (intro btree_insert_last) (auto simp: sorted_wrt_append)
  moreover have "- (2 ^ 63) \<le> v \<and> v < 2 ^ 63" "\<And>k v. (k, v) \<in> set m \<Longrightarrow> - (2 ^ 63) \<le> v \<and> v < 2 ^ 63"
    using Cons.prems(2) e by auto
  ultimately show ?case using Cons.IH [of "acc @ [e]"] Cons.prems(1) e by simp
qed simp

lemma details_entries_all:
  assumes "sorted_wrt (<) (map fst (acc @ m))"
  shows "details_entries (map (\<lambda>(k, v). (CborText k, v)) m) acc = Inr (acc @ m)"
  using assms
proof (induction m arbitrary: acc)
  case (Cons e m)
  obtain k v where e: "e = (k, v)" by (cases e)
  have "btree_insert k v acc = acc @ [(k, v)]"
    using Cons.prems(1) e by (intro btree_insert_last) (auto simp: sorted_wrt_append)
  with Cons.IH [of "acc @ [e]"] Cons.prems e show ?case by simp
qed simp

lemma handler_keys_wf:
  "cbor_wf (CborInt 1)" "cbor_wf (CborInt 2)" "cbor_wf (CborInt 3)" "cbor_wf (CborInt 4)" "cbor_wf (CborInt 5)"
  "cbor_wf (CborInt 6)" "cbor_wf (CborInt 16)"
  by simp_all

lemma handler_value_wf:
  assumes "handler_message_ok m"
  shows "cbor_wf (handler_message_value m)"
proof (cases m)
  case (HandlerData a b c d e readings)
  have "cbor_wf (CborMap (map (\<lambda>(k, v). (CborText k, CborInt v)) rs))" if "readings = Some rs" for rs
    using assms that unfolding HandlerData by (fastforce simp: btree_wf_def list_all_iff)
  with assms show ?thesis unfolding HandlerData
    by (cases readings) (simp_all add: handler_keys_wf del: cbor_wf.simps(1))
next
  case (HandlerEvent a b details d)
  then show ?thesis using assms
    by (auto simp: btree_wf_def list_all_iff handler_keys_wf simp del: cbor_wf.simps(1))
qed (use assms in \<open>auto simp: handler_keys_wf simp del: cbor_wf.simps(1)\<close>)

lemma get_value_CborInt [simp]: "get_value ((CborInt i, v) # ps) key = (if i = key then Some v else get_value ps key)"
  by simp

lemma decode_delivery_ok:
  assumes "delivery \<le> 1"
  shows "decode_delivery ([(CborInt 1, x), (CborInt 2, y), (CborInt 3, z)] @
      (if delivery \<noteq> 0 then [(CborInt 4, CborInt (uint delivery))] else [])) = Inr delivery"
proof -
  have "delivery = 0 \<or> delivery = 1"
    using assms by (metis le_less less_one unat_0 unat_eq_zero unat_1 word_le_nat_alt word_less_nat_alt word_unat_eq_iff)
  then show ?thesis by (auto simp: decode_delivery_def hm_get_uint_def or_missing_def)
qed

lemma handler_decode_value:
  assumes "handler_message_ok m" and "de b = Inr (handler_message_value m)"
  shows "handler_message_decode de b = Inr m"
proof (cases m)
  case (HandlerData request_id node_id program_hash data timestamp readings)
  have "readings_entries (map (\<lambda>(k, v). (CborText k, CborInt v)) rs) [] = rs" if "readings = Some rs" for rs
    using readings_entries_all [of "[]" rs] assms(1) that unfolding HandlerData by (fastforce simp: btree_wf_def)
  with assms(2) show ?thesis unfolding HandlerData
    by (cases readings) (simp_all add: handler_message_decode_def handler_message_fields_def hm_get_uint_def
        hm_get_text_def hm_get_bytes_def get_readings_map_def or_missing_def)
next
  case (HandlerEvent node_id event_type details timestamp)
  have "details_entries (map (\<lambda>(k, v). (CborText k, v)) details) [] = Inr details"
    using details_entries_all [of "[]" details] assms(1) unfolding HandlerEvent by (simp add: btree_wf_def)
  with assms(2) show ?thesis unfolding HandlerEvent
    by (simp add: handler_message_decode_def handler_message_fields_def hm_get_uint_def
        hm_get_text_def or_missing_def decode_details_def msg_type_defs)
next
  case (DataReply request_id data delivery)
  with assms decode_delivery_ok [of delivery] show ?thesis
    by (simp add: handler_message_decode_def handler_message_fields_def hm_get_uint_def
        hm_get_bytes_def or_missing_def msg_type_defs)
next
  case (HandlerLog level message)
  with assms(2) show ?thesis
    by (simp add: handler_message_decode_def handler_message_fields_def hm_get_uint_def
        hm_get_text_def or_missing_def msg_type_defs)
qed

lemma handler_encode_decode:
  assumes "cbor_faithful ser de" and "handler_message_ok m"
  shows "\<exists>b. handler_message_encode ser m = Inr b \<and> handler_message_decode de b = Inr m"
  using cbor_faithfulE [OF assms(1) handler_value_wf [OF assms(2)]] handler_decode_value [OF assms(2)]
  by (metis handler_message_encode_def sum.simps(6))

lemma read_written:
  assumes "cbor_faithful ser de" and "handler_message_ok m" and "write_message ser m = Inr b"
  shows "read_message de (b @ rest) = (Inr m, rest)"
proof -
  from handler_encode_decode [OF assms(1,2)] assms(3) obtain payload where
      p: "handler_message_decode de payload = Inr m" "length payload \<le> MAX_MESSAGE_SIZE"
        "b = be32 (of_nat (length payload)) @ payload"
    by (auto simp: write_message_def split: if_splits)
  have len: "unat (of_nat (length payload) :: u32) = length payload"
    using p(2) by (simp add: MAX_MESSAGE_SIZE_def unat_of_nat)
  have h: "length (be32 (of_nat (length payload))) = 4" by simp
  have "take 4 (b @ rest) = be32 (of_nat (length payload))" "drop 4 (b @ rest) = payload @ rest"
    unfolding p(3) using h by simp_all
  moreover have "\<not> length (b @ rest) < 4" using p(3) by simp
  ultimately show ?thesis using p len by (simp add: read_message_def Let_def from_to_be_bytes)
qed

text \<open>C37. Replies of handlers: on a pipe that carries framed messages, the gateway skips log lines, events and
  replies to other requests and returns the first reply to its request, with the rest of the pipe
  untouched; messages of up to a mebibyte are recovered exactly.\<close>

theorem handler_reply_found:
  assumes "cbor_faithful ser de" and "\<And>m. m \<in> set ms \<Longrightarrow> handler_message_ok m"
    and "\<And>id data d. DataReply id data d \<in> set ms \<Longrightarrow> id \<noteq> expected"
    and "list_all2 (\<lambda>m b. write_message ser m = Inr b) (ms @ [DataReply expected data delivery]) bs"
    and "handler_message_ok (DataReply expected data delivery)"
  shows "reply_wait de expected (concat bs @ rest) = (Reply (DataReply expected data delivery), rest)"
  using assms(2-4)
proof (induction ms arbitrary: bs)
  case Nil
  then obtain b where b: "bs = [b]" "write_message ser (DataReply expected data delivery) = Inr b"
    by (auto simp: list_all2_Cons1)
  from read_written [OF assms(1,5) b(2), of rest] b(1) show ?case by (simp add: reply_wait.simps)
next
  case (Cons m ms)
  then obtain b bs' where b: "bs = b # bs'" "write_message ser m = Inr b"
      "list_all2 (\<lambda>m b. write_message ser m = Inr b) (ms @ [DataReply expected data delivery]) bs'"
    by (auto simp: list_all2_Cons1)
  have "read_message de (concat bs @ rest) = (Inr m, concat bs' @ rest)"
    using read_written [OF assms(1) _ b(2)] Cons.prems(1) b(1) by simp
  moreover have "reply_wait de expected (concat bs' @ rest) = (Reply (DataReply expected data delivery), rest)"
    by (rule Cons.IH [OF _ _ b(3)]) (use Cons.prems(1,2) in auto)
  ultimately show ?case
    using Cons.prems(2) by (cases m) (auto simp: reply_wait.simps [of de expected "concat bs @ rest"])
qed

definition rfc_frame :: "handler_message \<Rightarrow> bytes" where
  "rfc_frame m = (let b = rfc_encode (handler_message_value m) in be32 (of_nat (length b)) @ b)"

theorem handler_reply_found_witness:
  "reply_wait rfc_de 7 (concat [rfc_frame (HandlerLog [] []), rfc_frame (DataReply 7 [5] 0)] @ [1]) =
     (Reply (DataReply 7 [5] 0), [1])"
proof (rule handler_reply_found [OF rfc_faithful, of "[HandlerLog [] []]"])
  show "list_all2 (\<lambda>m b. write_message rfc_ser m = Inr b) ([HandlerLog [] []] @ [DataReply 7 [5] 0])
      [rfc_frame (HandlerLog [] []), rfc_frame (DataReply 7 [5] 0)]"
    by (simp add: write_message_def handler_message_encode_def rfc_ser_def rfc_frame_def Let_def rfc_head_def
        MAX_MESSAGE_SIZE_def msg_type_defs is_ascii_def)
qed (simp_all add: is_ascii_def)

section \<open>Routing and reloading\<close>









end
