(* ===== verification/Gateway_Engine.thy ===== *)
theory Gateway_Engine
  imports Gateway_Storage Gateway_Session Missing_Hints Handler_Router Messages
begin

text \<open>
  The protocol engine of the gateway (\<open>sonde-gateway/src/engine.rs\<close>). Frames are processed one after the
  other, as the frame loop of the gateway does; the clocks are read once per frame. A background task that
  waits for the handler's answer to a WAKE blob is a job in \<open>gw_jobs\<close>, finished by \<open>finish_job\<close>. The
  storage backend is a record of operations; the tables of keys under recovery, kept in the database, are
  an optional record of their own. Handler processes and decoder programs are arguments.
\<close>

section \<open>State and environment\<close>

definition DEFAULT_CHUNK_SIZE :: u32 where "DEFAULT_CHUNK_SIZE = 128"
definition MAX_EPHEMERAL_SIZE :: u32 where "MAX_EPHEMERAL_SIZE = 2048"
definition MAX_COMMAND_BLOB_SIZE :: nat where "MAX_COMMAND_BLOB_SIZE = MAX_PAYLOAD_SIZE - 30"
definition MAX_TRIAL_CANDIDATES :: nat where "MAX_TRIAL_CANDIDATES = 8"
definition MAX_TIMESTAMP_DRIFT_S :: nat where "MAX_TIMESTAMP_DRIFT_S = 86400"
definition PAIRING_AAD :: bytes where "PAIRING_AAD = map of_char ''sonde-pairing-v2''"
definition PEER_REQ_KEY_PAYLOAD :: u64 where "PEER_REQ_KEY_PAYLOAD = 1"
definition DIAG_TYPE_RSSI :: u8 where "DIAG_TYPE_RSSI = 0x01"
definition GATEWAY_USIZE_MAX :: nat where "GATEWAY_USIZE_MAX = 2 ^ 64 - 1"

datatype pending_command = PendingEphemeral bytes | PendingSchedule u32 | PendingReboot

datatype payload_origin = FromAppData | FromWakeBlob

datatype connector_event =
    ActualState string bytes "bytes option" u32 u32 u32 string u64 "(bytes \<times> u16 \<times> bytes) option" "u8 option"
  | ConnectorAppData string bytes bytes u64 payload_origin "int btree_map option"

text \<open>A handler call under way: the handler, its process, and the message it was given.\<close>

record handler_job =
  hj_config :: handler_config
  hj_process :: nat
  hj_node_id :: string
  hj_message :: handler_message

record 's gateway =
  gw_storage :: 's
  gw_sessions :: session_manager
  gw_pending :: "string \<rightharpoonup> pending_command list"
  gw_router :: handler_router
  gw_deferred :: "string \<rightharpoonup> bytes"
  gw_hints :: hint_tracker
  gw_hint_notifications :: nat
  gw_master_key_id :: "bytes option"
  gw_connector :: "connector_event list"
  gw_handler_events :: "(nat \<times> handler_message) list"
  gw_jobs :: "handler_job list"

text \<open>The tables of escrowed keys: lookup of recovery candidates (node name and encrypted key) by key hint and
  master key, deletion, decryption with the master key, and the escrow of a node.\<close>

record 's recovery_api =
  ra_lookup :: "u16 \<Rightarrow> bytes \<Rightarrow> nat \<Rightarrow> 's \<Rightarrow> storage_error + (string \<times> bytes) list"
  ra_delete :: "u16 \<Rightarrow> string \<Rightarrow> ('s, storage_error, unit) op"
  ra_decrypt :: "'s \<Rightarrow> string \<Rightarrow> bytes \<Rightarrow> bytes option"
  ra_escrow :: "string \<Rightarrow> 's \<Rightarrow> storage_error + (bytes \<times> u16 \<times> bytes) option"

record 's gateway_env =
  ge_seal :: seal_fn
  ge_open :: open_fn
  ge_sha :: sha_fn
  ge_ser :: cbor_ser
  ge_de :: cbor_de
  ge_storage :: "'s storage_api"
  ge_recovery :: "'s recovery_api option"
  ge_decoder :: "bytes \<Rightarrow> bytes \<Rightarrow> int btree_map option"
  ge_reply :: "handler_config \<Rightarrow> handler_message \<Rightarrow> handler_message option"

text \<open>A frame with its peer and signal strength, the monotonic clock in nanoseconds, the wall clock in
  milliseconds, and the 8 random bytes, if the generator works.\<close>

record frame_in =
  fi_raw :: bytes
  fi_peer :: bytes
  fi_rssi :: "u8 option"
  fi_now :: nat
  fi_wall_ms :: nat
  fi_random :: "u64 option"

definition wall_secs :: "frame_in \<Rightarrow> u64" where "wall_secs f = of_nat (fi_wall_ms f div 1000)"
definition wall_ms :: "frame_in \<Rightarrow> u64" where "wall_ms f = of_nat (fi_wall_ms f)"

text \<open>The effect of an operation of the storage on the gateway.\<close>

definition on_store :: "('s, storage_error, 'a) op \<Rightarrow> 's gateway \<Rightarrow> (storage_error + 'a) \<times> 's gateway" where
  "on_store m g = (case m (gw_storage g) of (r, s) \<Rightarrow> (r, g\<lparr>gw_storage := s\<rparr>))"

definition on_sessions :: "(session_manager \<Rightarrow> session_manager) \<Rightarrow> 's gateway \<Rightarrow> 's gateway" where
  "on_sessions f g = g\<lparr>gw_sessions := f (gw_sessions g)\<rparr>"

definition queue_command :: "string \<Rightarrow> pending_command \<Rightarrow> 's gateway \<Rightarrow> 's gateway" where
  "queue_command node_id cmd g =
     g\<lparr>gw_pending := (gw_pending g)(node_id \<mapsto>
         (case gw_pending g node_id of None \<Rightarrow> [] | Some cmds \<Rightarrow> cmds) @ [cmd])\<rparr>"

definition report_missing_hint :: "frame_in \<Rightarrow> u16 \<Rightarrow> 's gateway \<Rightarrow> 's gateway" where
  "report_missing_hint f hint g =
     (case report (fi_now f) hint (gw_hints g) of (accepted, t) \<Rightarrow>
        g\<lparr>gw_hints := t, gw_hint_notifications := gw_hint_notifications g + (if accepted then 1 else 0)\<rparr>)"

definition drain_missing_hints :: "'s gateway \<Rightarrow> u16 list \<times> 's gateway" where
  "drain_missing_hints g = (case tracker_drain (gw_hints g) of (hs, t) \<Rightarrow> (hs, g\<lparr>gw_hints := t\<rparr>))"

definition encode_response :: "'s gateway_env \<Rightarrow> frame_header \<Rightarrow> bytes \<Rightarrow> bytes \<Rightarrow> bytes option" where
  "encode_response env h cbor psk =
     (case encode_frame h cbor psk (ge_seal env) (ge_sha env) of Inl _ \<Rightarrow> None | Inr frame \<Rightarrow> Some frame)"

definition broadcast_event :: "handler_message \<Rightarrow> 's gateway \<Rightarrow> 's gateway" where
  "broadcast_event msg g =
     g\<lparr>gw_handler_events := gw_handler_events g @ map (\<lambda>p. (p, msg)) (clone_all_process_refs (gw_router g))\<rparr>"

definition emit_connector :: "connector_event \<Rightarrow> 's gateway \<Rightarrow> 's gateway" where
  "emit_connector e g = g\<lparr>gw_connector := gw_connector g @ [e]\<rparr>"

section \<open>Command selection\<close>

primrec first_ephemeral :: "pending_command list \<Rightarrow> bytes option" where
  "first_ephemeral [] = None"
| "first_ephemeral (c # cs) = (case c of PendingEphemeral h \<Rightarrow> Some h | _ \<Rightarrow> first_ephemeral cs)"

primrec remove_first :: "('a \<Rightarrow> bool) \<Rightarrow> 'a list \<Rightarrow> 'a list" where
  "remove_first p [] = []"
| "remove_first p (x # xs) = (if p x then xs else x # remove_first p xs)"

definition drop_pending :: "string \<Rightarrow> (pending_command \<Rightarrow> bool) \<Rightarrow> 's gateway \<Rightarrow> 's gateway" where
  "drop_pending node_id p g =
     (case gw_pending g node_id of
        None \<Rightarrow> g
      | Some cmds \<Rightarrow> g\<lparr>gw_pending := (gw_pending g)(node_id \<mapsto> remove_first p cmds)\<rparr>)"

text \<open>An ephemeral program over the size budget is dropped, every copy of it, and an empty queue with it.\<close>

definition purge_pending :: "string \<Rightarrow> bytes \<Rightarrow> 's gateway \<Rightarrow> 's gateway" where
  "purge_pending node_id h g =
     (case gw_pending g node_id of
        None \<Rightarrow> g
      | Some cmds \<Rightarrow>
          let kept = filter (\<lambda>c. c \<noteq> PendingEphemeral h) cmds in
          g\<lparr>gw_pending := (gw_pending g)(node_id := (if kept = [] then None else Some kept))\<rparr>)"

definition abi_mismatch :: "program_record \<Rightarrow> u32 \<Rightarrow> bool" where
  "abi_mismatch p abi \<longleftrightarrow> (case gp_abi_version p of Some prog_abi \<Rightarrow> prog_abi \<noteq> abi | None \<Rightarrow> False)"

definition select_ephemeral :: "'s gateway_env \<Rightarrow> node_record \<Rightarrow> u32 \<Rightarrow> 's gateway \<Rightarrow> command_payload option \<times> 's gateway" where
  "select_ephemeral env node abi g =
     (case Option.bind (gw_pending g (gn_node_id node)) first_ephemeral of
        None \<Rightarrow> (None, g)
      | Some h \<Rightarrow>
          (case sa_get_program (ge_storage env) h (gw_storage g) of
             Inr (Some program) \<Rightarrow>
               if abi_mismatch program abi then
                 (None, drop_pending (gn_node_id node) (\<lambda>c. c = PendingEphemeral (gp_hash program)) g)
               else if gp_size program > MAX_EPHEMERAL_SIZE then
                 (None, purge_pending (gn_node_id node) (gp_hash program) g)
               else
                 (case chunk_count (length (gp_image program)) (unat DEFAULT_CHUNK_SIZE) of
                    None \<Rightarrow> (None, g)
                  | Some cc \<Rightarrow>
                      (Some (RunEphemeral (gp_hash program) (gp_size program) DEFAULT_CHUNK_SIZE cc),
                       drop_pending (gn_node_id node) (\<lambda>c. c = PendingEphemeral (gp_hash program)) g))
           | _ \<Rightarrow> (None, g)))"

definition select_update :: "'s gateway_env \<Rightarrow> node_record \<Rightarrow> bytes \<Rightarrow> u32 \<Rightarrow> 's gateway \<Rightarrow> command_payload option" where
  "select_update env node node_program_hash abi g =
     (case gn_assigned_program_hash node of
        None \<Rightarrow> None
      | Some assigned \<Rightarrow>
          if assigned = node_program_hash then None
          else (case sa_get_program (ge_storage env) assigned (gw_storage g) of
                  Inr (Some program) \<Rightarrow>
                    if abi_mismatch program abi then None
                    else map_option (\<lambda>cc. UpdateProgram (gp_hash program) (gp_size program) DEFAULT_CHUNK_SIZE cc)
                           (chunk_count (length (gp_image program)) (unat DEFAULT_CHUNK_SIZE))
                | _ \<Rightarrow> None))"

primrec first_schedule :: "pending_command list \<Rightarrow> u32 option" where
  "first_schedule [] = None"
| "first_schedule (c # cs) = (case c of PendingSchedule i \<Rightarrow> Some i | _ \<Rightarrow> first_schedule cs)"

fun is_schedule :: "pending_command \<Rightarrow> bool" where
  "is_schedule (PendingSchedule _) = True" | "is_schedule _ = False"

definition select_command ::
    "'s gateway_env \<Rightarrow> node_record \<Rightarrow> bytes \<Rightarrow> u32 \<Rightarrow> 's gateway \<Rightarrow> command_payload option \<times> 's gateway" where
  "select_command env node node_program_hash abi g =
     (case select_ephemeral env node abi g of
        (Some cmd, g1) \<Rightarrow> (Some cmd, g1)
      | (None, g1) \<Rightarrow>
          (case select_update env node node_program_hash abi g1 of
             Some cmd \<Rightarrow> (Some cmd, g1)
           | None \<Rightarrow>
               (case Option.bind (gw_pending g1 (gn_node_id node)) first_schedule of
                  Some interval_s \<Rightarrow> (Some (UpdateSchedule interval_s), drop_pending (gn_node_id node) is_schedule g1)
                | None \<Rightarrow>
                    if (case gw_pending g1 (gn_node_id node) of Some cmds \<Rightarrow> PendingReboot \<in> set cmds | None \<Rightarrow> False)
                    then (Some Reboot, drop_pending (gn_node_id node) (\<lambda>c. c = PendingReboot) g1)
                    else (Some Nop, g1))))"

section \<open>Pairing requests\<close>

record pairing_request =
  pq_node_id :: string
  pq_node_key_hint :: u16
  pq_node_psk :: bytes
  pq_rf_channel :: u8
  pq_timestamp :: u64
  pq_sensors :: "sensor_descriptor list"

record pairing_acc =
  pa_node_id :: "string option"
  pa_node_key_hint :: "u16 option"
  pa_node_psk :: "bytes option"
  pa_rf_channel :: "u8 option"
  pa_timestamp :: "u64 option"
  pa_sensors :: "sensor_descriptor list"

primrec opt_fold :: "('s \<Rightarrow> 'a \<Rightarrow> 's option) \<Rightarrow> 's \<Rightarrow> 'a list \<Rightarrow> 's option" where
  "opt_fold f s [] = Some s"
| "opt_fold f s (x # xs) = Option.bind (f s x) (\<lambda>s'. opt_fold f s' xs)"

definition cbor_u64 :: "cbor_value \<Rightarrow> u64 option" where
  "cbor_u64 v = Option.bind (as_integer v) to_unsigned"

definition cbor_narrow :: "cbor_value \<Rightarrow> 'a::len word option" where
  "cbor_narrow v = Option.bind (cbor_u64 v) (\<lambda>n. to_unsigned (uint n))"

record sensor_acc =
  sc_type :: "u8 option"
  sc_id :: "u8 option"
  sc_label :: "string option"

definition sensor_field :: "sensor_acc \<Rightarrow> cbor_value \<times> cbor_value \<Rightarrow> sensor_acc option" where
  "sensor_field acc kv =
     (case kv of (k, v) \<Rightarrow>
        if cbor_u64 k = Some 1 then Some (acc\<lparr>sc_type := cbor_narrow v\<rparr>)
        else if cbor_u64 k = Some 2 then Some (acc\<lparr>sc_id := cbor_narrow v\<rparr>)
        else if cbor_u64 k = Some 3 then
          (case as_text v of
             None \<Rightarrow> Some acc
           | Some s \<Rightarrow> if length s > 64 then None else Some (acc\<lparr>sc_label := Some s\<rparr>))
        else Some acc)"

definition sensor_item :: "sensor_descriptor list \<Rightarrow> cbor_value \<Rightarrow> sensor_descriptor list option" where
  "sensor_item sensors item =
     (case as_map item of
        None \<Rightarrow> Some sensors
      | Some m \<Rightarrow>
          Option.bind (opt_fold sensor_field \<lparr>sc_type = None, sc_id = None, sc_label = None\<rparr> m) (\<lambda>acc.
            case (sc_type acc, sc_id acc) of
              (Some st, Some si) \<Rightarrow>
                if 1 \<le> st \<and> st \<le> 4
                then Some (sensors @ [\<lparr>sd_sensor_type = st, sd_sensor_id = si, sd_label = sc_label acc\<rparr>])
                else None
            | _ \<Rightarrow> Some sensors))"

definition pairing_field :: "pairing_acc \<Rightarrow> cbor_value \<times> cbor_value \<Rightarrow> pairing_acc option" where
  "pairing_field acc kv =
     (case kv of (k, v) \<Rightarrow>
        Option.bind (cbor_u64 k) (\<lambda>key.
          if key = 1 then Some (acc\<lparr>pa_node_id := as_text v\<rparr>)
          else if key = 2 then Some (acc\<lparr>pa_node_key_hint := cbor_narrow v\<rparr>)
          else if key = 3 then
            (case as_bytes v of
               Some b \<Rightarrow> if length b = 32 then Some (acc\<lparr>pa_node_psk := Some b\<rparr>) else Some acc
             | None \<Rightarrow> Some acc)
          else if key = 4 then Some (acc\<lparr>pa_rf_channel := cbor_narrow v\<rparr>)
          else if key = 5 then
            (case as_array v of
               Some items \<Rightarrow> map_option (\<lambda>ss. acc\<lparr>pa_sensors := ss\<rparr>) (opt_fold sensor_item (pa_sensors acc) items)
             | None \<Rightarrow> Some acc)
          else if key = 6 then Some (acc\<lparr>pa_timestamp := cbor_u64 v\<rparr>)
          else Some acc))"

definition parse_pairing_request :: "cbor_de \<Rightarrow> bytes \<Rightarrow> pairing_request option" where
  "parse_pairing_request de bs =
     (case de bs of
        Inl _ \<Rightarrow> None
      | Inr v \<Rightarrow>
          Option.bind (as_map v) (\<lambda>m.
          Option.bind (opt_fold pairing_field \<lparr>pa_node_id = None, pa_node_key_hint = None, pa_node_psk = None,
              pa_rf_channel = None, pa_timestamp = None, pa_sensors = []\<rparr> m) (\<lambda>acc.
          Option.bind (pa_node_id acc) (\<lambda>node_id.
          Option.bind (pa_node_key_hint acc) (\<lambda>hint.
          Option.bind (pa_node_psk acc) (\<lambda>psk.
          Option.bind (pa_rf_channel acc) (\<lambda>rf.
          Option.bind (pa_timestamp acc) (\<lambda>ts.
            if node_id = [] \<or> length node_id > 64 then None
            else if \<not> (1 \<le> rf \<and> rf \<le> 13) then None
            else Some \<lparr>pq_node_id = node_id, pq_node_key_hint = hint, pq_node_psk = psk, pq_rf_channel = rf,
                       pq_timestamp = ts, pq_sensors = pa_sensors acc\<rparr>))))))))"

section \<open>Phones\<close>

definition key_hint_from_psk :: "bytes \<Rightarrow> sha_fn \<Rightarrow> u16" where
  "key_hint_from_psk psk sha = (let h = sha psk in from_be_bytes [h ! 30, h ! 31])"

text \<open>The first key of the candidates that opens the frame, with the payload.\<close>

primrec try_keys :: "'s gateway_env \<Rightarrow> decoded_frame \<Rightarrow> ('k \<Rightarrow> bytes option) \<Rightarrow> 'k list \<Rightarrow> ('k \<times> bytes) option" where
  "try_keys env d psk_of [] = None"
| "try_keys env d psk_of (c # cs) =
     (case psk_of c of
        None \<Rightarrow> try_keys env d psk_of cs
      | Some psk \<Rightarrow>
          (case open_frame d psk (ge_open env) (ge_sha env) of
             Inl _ \<Rightarrow> try_keys env d psk_of cs
           | Inr pt \<Rightarrow> Some (c, pt)))"

definition phone_key :: "phone_psk_record \<Rightarrow> bytes option" where
  "phone_key p = (case ph_status p of Revoked \<Rightarrow> None | Active \<Rightarrow> Some (ph_psk p))"

definition find_phone :: "'s gateway_env \<Rightarrow> decoded_frame \<Rightarrow> 's gateway \<Rightarrow> (phone_psk_record \<times> bytes) option" where
  "find_phone env d g =
     (case sa_get_phone_psks_by_key_hint (ge_storage env) (key_hint (df_header d)) (gw_storage g) of
        Inl _ \<Rightarrow> None
      | Inr phones \<Rightarrow> try_keys env d phone_key phones)"

text \<open>The last value under the key that carries the encrypted request.\<close>

definition payload_field :: "bytes option \<Rightarrow> cbor_value \<times> cbor_value \<Rightarrow> bytes option" where
  "payload_field acc kv =
     (if cbor_u64 (fst kv) = Some PEER_REQ_KEY_PAYLOAD then as_bytes (snd kv) else acc)"

definition open_pairing_request :: "'s gateway_env \<Rightarrow> bytes \<Rightarrow> bytes \<Rightarrow> pairing_request option" where
  "open_pairing_request env psk cbor_payload =
     (case ge_de env cbor_payload of
        Inl _ \<Rightarrow> None
      | Inr v \<Rightarrow>
          Option.bind (as_map v) (\<lambda>m.
          Option.bind (foldl payload_field None m) (\<lambda>encrypted.
            if length encrypted < 12 + 16 then None
            else Option.bind (ge_open env psk (take 12 encrypted) PAIRING_AAD (drop 12 encrypted))
                   (parse_pairing_request (ge_de env)))))"

definition peer_ack_value :: cbor_value where
  "peer_ack_value = CborMap [(CborInt (uint PEER_ACK_KEY_STATUS), CborInt 0)]"

definition pairing_record :: "pairing_request \<Rightarrow> u32 \<Rightarrow> node_record" where
  "pairing_record pr phone_id =
     (node_record_new (pq_node_id pr) (pq_node_key_hint pr) (pq_node_psk pr))
       \<lparr>gn_rf_channel := Some (pq_rf_channel pr), gn_sensors := pq_sensors pr,
        gn_registered_by_phone_id := Some phone_id\<rparr>"

text \<open>Registration: a new node is inserted; a known one must come with the key it is registered with.\<close>

definition register_node :: "'s gateway_env \<Rightarrow> node_record \<Rightarrow> 's gateway \<Rightarrow> bool \<times> 's gateway" where
  "register_node env r g =
     (case on_store (sa_insert_node_if_not_exists (ge_storage env) r) g of
        (Inl _, g1) \<Rightarrow> (False, g1)
      | (Inr True, g1) \<Rightarrow> (True, g1)
      | (Inr False, g1) \<Rightarrow>
          (case sa_get_node (ge_storage env) (gn_node_id r) (gw_storage g1) of
             Inr (Some existing) \<Rightarrow> (gn_psk existing = gn_psk r, g1)
           | _ \<Rightarrow> (False, g1)))"

definition abs_diff :: "nat \<Rightarrow> nat \<Rightarrow> nat" where "abs_diff a b = (if a < b then b - a else a - b)"

definition handle_peer_request :: "'s gateway_env \<Rightarrow> frame_in \<Rightarrow> decoded_frame \<Rightarrow> 's gateway \<Rightarrow> bytes option \<times> 's gateway" where
  "handle_peer_request env f d g =
     (case find_phone env d g of
        None \<Rightarrow> (None, g)
      | Some (phone, cbor_payload) \<Rightarrow>
          (case open_pairing_request env (ph_psk phone) cbor_payload of
             None \<Rightarrow> (None, g)
           | Some pr \<Rightarrow>
               if abs_diff (unat (wall_secs f)) (unat (pq_timestamp pr)) > MAX_TIMESTAMP_DRIFT_S then (None, g)
               else if pq_node_key_hint pr \<noteq> key_hint_from_psk (pq_node_psk pr) (ge_sha env) then (None, g)
               else
                 (case register_node env (pairing_record pr (ph_phone_id phone)) g of
                    (False, g1) \<Rightarrow> (None, g1)
                  | (True, g1) \<Rightarrow>
                      (case ge_ser env peer_ack_value of
                         Inl _ \<Rightarrow> (None, g1)
                       | Inr ack \<Rightarrow>
                           (encode_response env
                              \<lparr>key_hint = pq_node_key_hint pr, msg_type = MSG_PEER_ACK, nonce = nonce (df_header d)\<rparr>
                              ack (pq_node_psk pr), g1)))))"

definition handle_diag_request :: "'s gateway_env \<Rightarrow> frame_in \<Rightarrow> decoded_frame \<Rightarrow> 's gateway \<Rightarrow> bytes option" where
  "handle_diag_request env f d g =
     Option.bind (find_phone env d g) (\<lambda>(phone, cbor_payload).
       case node_message_decode (ge_de env) MSG_DIAG_REQUEST cbor_payload of
         Inr (DiagRequest diagnostic_type) \<Rightarrow>
           if diagnostic_type \<noteq> DIAG_TYPE_RSSI then None
           else
             (case gateway_message_encode (ge_ser env)
                     (DiagReply diagnostic_type (case fi_rssi f of Some r \<Rightarrow> r | None \<Rightarrow> 0)) of
                Inl _ \<Rightarrow> None
              | Inr reply \<Rightarrow>
                  encode_response env
                    \<lparr>key_hint = key_hint (df_header d), msg_type = MSG_DIAG_REPLY, nonce = nonce (df_header d)\<rparr>
                    reply (ph_psk phone))
       | _ \<Rightarrow> None)"

section \<open>WAKE\<close>

fun transfer_command :: "session_state \<Rightarrow> command_payload option" where
  "transfer_command (ChunkedTransfer h ps cs cc eph) =
     Some (if eph then RunEphemeral h ps cs cc else UpdateProgram h ps cs cc)"
| "transfer_command _ = None"

text \<open>A retry of the WAKE whose transfer is under way finds its session and gets the same command; otherwise a
  session with a random sequence number is opened. \<open>None\<close> when the generator fails.\<close>

definition wake_session ::
    "frame_in \<Rightarrow> node_record \<Rightarrow> frame_header \<Rightarrow> 's gateway \<Rightarrow> (u64 \<times> command_payload option) option \<times> 's gateway" where
  "wake_session f node h g =
     (let reuse = (case get_session (gn_node_id node) (gw_sessions g) of
                     None \<Rightarrow> None
                   | Some s \<Rightarrow> if ss_wake_nonce s = nonce h
                               then map_option (\<lambda>cmd. (ss_next_expected_seq s, cmd)) (transfer_command (ss_state s)) else None)
      in case reuse of
           Some (seq, cmd) \<Rightarrow> (Some (seq, Some cmd), g)
         | None \<Rightarrow>
             (case fi_random f of
                None \<Rightarrow> (None, g)
              | Some seq \<Rightarrow>
                  (Some (seq, None),
                   on_sessions (\<lambda>m. snd (create_session (fi_now f) (gn_node_id node) (fi_peer f) (nonce h) seq m)) g)))"

fun transfer_state :: "command_payload \<Rightarrow> session_state option" where
  "transfer_state (UpdateProgram h ps cs cc) = Some (ChunkedTransfer h ps cs cc False)"
| "transfer_state (RunEphemeral h ps cs cc) = Some (ChunkedTransfer h ps cs cc True)"
| "transfer_state _ = None"

definition enter_transfer :: "string \<Rightarrow> command_payload \<Rightarrow> 's gateway \<Rightarrow> 's gateway" where
  "enter_transfer node_id cmd g =
     (case transfer_state cmd of
        None \<Rightarrow> g
      | Some st \<Rightarrow> on_sessions (\<lambda>m. snd (set_state node_id st m)) g)"

definition record_wake ::
    "'s gateway_env \<Rightarrow> frame_in \<Rightarrow> node_record \<Rightarrow> u32 \<Rightarrow> u32 \<Rightarrow> string \<Rightarrow> 's gateway \<Rightarrow> 's gateway" where
  "record_wake env f node abi battery_mv version g =
     (let i = gn_node_id node in
      case on_store (sa_update_node_wake_metadata (ge_storage env) i abi version) g of
        (Inr _, g1) \<Rightarrow>
          on_sessions (\<lambda>m.
            let m1 = record_battery_mv i battery_mv (record_last_seen i (fi_wall_ms f) m) in
            case fi_rssi f of None \<Rightarrow> m1 | Some r \<Rightarrow> record_wake_rssi_dbm i r m1) g1
      | (Inl (NotFound _), g1) \<Rightarrow>
          on_sessions (\<lambda>m. clear_wake_rssi_dbm i (clear_battery_mv i (clear_last_seen i m))) g1
      | (Inl (Internal _), g1) \<Rightarrow> g1)"

definition escrow_fields :: "'s gateway_env \<Rightarrow> node_record \<Rightarrow> 's gateway \<Rightarrow> (bytes \<times> u16 \<times> bytes) option" where
  "escrow_fields env node g =
     (case ge_recovery env of
        None \<Rightarrow> None
      | Some ra \<Rightarrow>
          (case ra_escrow ra (gn_node_id node) (gw_storage g) of
             Inr (Some (blob, hint, key_id)) \<Rightarrow>
               if key_id = [] then None
               else if length blob \<noteq> 60 then None
               else if length key_id \<noteq> 32 then None
               else Some (blob, hint, key_id)
           | _ \<Rightarrow> None))"

definition reconcile_program :: "'s gateway_env \<Rightarrow> node_record \<Rightarrow> bytes \<Rightarrow> 's gateway \<Rightarrow> 's gateway" where
  "reconcile_program env node ph g =
     (if gn_assigned_program_hash node = Some ph \<and> gn_current_program_hash node \<noteq> Some ph
      then snd (on_store (sa_reconcile_current_program_hash (ge_storage env) (gn_node_id node) ph) g)
      else g)"

definition decode_readings :: "'s gateway_env \<Rightarrow> bytes \<Rightarrow> bytes \<Rightarrow> 's gateway \<Rightarrow> int btree_map option" where
  "decode_readings env ph blob g =
     (case sa_get_program (ge_storage env) ph (gw_storage g) of
        Inr (Some p) \<Rightarrow> Option.bind (gp_decoder_image p) (\<lambda>image.
          case ge_decoder env image blob of Some [] \<Rightarrow> None | r \<Rightarrow> r)
      | _ \<Rightarrow> None)"

definition route_wake_blob ::
    "'s gateway_env \<Rightarrow> frame_in \<Rightarrow> node_record \<Rightarrow> frame_header \<Rightarrow> bytes \<Rightarrow> bytes option \<Rightarrow> 's gateway \<Rightarrow> 's gateway" where
  "route_wake_blob env f node h ph blob g =
     (case blob of
        None \<Rightarrow> g
      | Some wake_data \<Rightarrow>
          if wake_data = [] \<or> ph = [] then g
          else
            let readings = decode_readings env ph wake_data g;
                g1 = emit_connector (ConnectorAppData (gn_node_id node) ph wake_data (wall_ms f) FromWakeBlob readings) g
            in case find_handler_cloned ph (gw_router g) of
                 None \<Rightarrow> g1
               | Some (config, process) \<Rightarrow>
                   g1\<lparr>gw_jobs := gw_jobs g1 @
                      [\<lparr>hj_config = config, hj_process = process, hj_node_id = gn_node_id node,
                        hj_message = HandlerData (nonce h) (gn_node_id node) ph wake_data (wall_secs f) readings\<rparr>]\<rparr>)"

definition node_online_event :: "frame_in \<Rightarrow> node_record \<Rightarrow> u32 \<Rightarrow> u32 \<Rightarrow> string \<Rightarrow> handler_message" where
  "node_online_event f node abi battery_mv version =
     HandlerEvent (gn_node_id node) ''node_online''
       [(''battery_mv'', CborInt (uint battery_mv)), (''firmware_abi_version'', CborInt (uint abi)),
        (''firmware_version'', CborText version)]
       (of_nat (unat (wall_ms f) div 1000))"

definition handle_wake_core ::
    "'s gateway_env \<Rightarrow> frame_in \<Rightarrow> node_record \<Rightarrow> frame_header \<Rightarrow> bytes \<Rightarrow> 's gateway
       \<Rightarrow> (frame_header \<times> bytes \<times> bool) option \<times> 's gateway" where
  "handle_wake_core env f node h payload g =
     (case node_message_decode (ge_de env) MSG_WAKE payload of
        Inr (Wake abi ph battery_mv version wake_blob) \<Rightarrow>
          (case wake_session f node h g of
             (None, g1) \<Rightarrow> (None, g1)
           | (Some (starting_seq, reused), g1) \<Rightarrow>
               (case (case reused of Some cmd \<Rightarrow> (Some cmd, g1) | None \<Rightarrow> select_command env node ph abi g1) of
                  (None, g2) \<Rightarrow> (None, g2)
                | (Some cmd, g2) \<Rightarrow>
                    let g3 = record_wake env f node abi battery_mv version (enter_transfer (gn_node_id node) cmd g2);
                        g4 = emit_connector (ActualState (gn_node_id node) ph (gn_assigned_program_hash node)
                               (gn_schedule_interval_s node) battery_mv abi version (wall_ms f)
                               (escrow_fields env node g3) (fi_rssi f)) g3;
                        g5 = reconcile_program env node ph
                               (broadcast_event (node_online_event f node abi battery_mv version) g4);
                        blob = (if cmd = Nop then gw_deferred g5 (gn_node_id node) else None)
                    in case gateway_message_encode (ge_ser env) (Command starting_seq (wall_ms f) cmd blob) of
                         Inl _ \<Rightarrow> (None, g5)
                       | Inr cbor \<Rightarrow>
                           (Some (\<lparr>key_hint = gn_key_hint node, msg_type = MSG_COMMAND, nonce = nonce h\<rparr>, cbor, blob \<noteq> None),
                            route_wake_blob env f node h ph wake_blob g5)))
      | _ \<Rightarrow> (None, g))"

definition handle_wake ::
    "'s gateway_env \<Rightarrow> frame_in \<Rightarrow> node_record \<Rightarrow> frame_header \<Rightarrow> bytes \<Rightarrow> 's gateway \<Rightarrow> bytes option \<times> 's gateway" where
  "handle_wake env f node h payload g =
     (case handle_wake_core env f node h payload g of
        (None, g1) \<Rightarrow> (None, g1)
      | (Some (rh, cbor, deferred_delivered), g1) \<Rightarrow>
          (case encode_response env rh cbor (gn_psk node) of
             None \<Rightarrow> (None, g1)
           | Some frame \<Rightarrow>
               (Some frame, if deferred_delivered
                            then g1\<lparr>gw_deferred := (gw_deferred g1)(gn_node_id node := None)\<rparr> else g1)))"

text \<open>The end of a background task: the handler's reply is kept for the next COMMAND, if it fits.\<close>

definition finish_job :: "'s gateway_env \<Rightarrow> 's gateway \<Rightarrow> 's gateway" where
  "finish_job env g =
     (case gw_jobs g of
        [] \<Rightarrow> g
      | job # jobs \<Rightarrow>
          let g1 = g\<lparr>gw_jobs := jobs\<rparr> in
          (case ge_reply env (hj_config job) (hj_message job) of
             Some (DataReply _ data _) \<Rightarrow>
               if data \<noteq> [] \<and> length data \<le> MAX_COMMAND_BLOB_SIZE
               then g1\<lparr>gw_deferred := (gw_deferred g1)(hj_node_id job \<mapsto> data)\<rparr> else g1
           | _ \<Rightarrow> g1))"

section \<open>Messages after the WAKE\<close>

definition handle_get_chunk ::
    "'s gateway_env \<Rightarrow> node_record \<Rightarrow> frame_header \<Rightarrow> u32 \<Rightarrow> 's gateway \<Rightarrow> bytes option" where
  "handle_get_chunk env node h chunk_index g =
     (case get_session (gn_node_id node) (gw_sessions g) of
        None \<Rightarrow> None
      | Some s \<Rightarrow>
          (case ss_state s of
             ChunkedTransfer ph ps chunk_size cc eph \<Rightarrow>
               (case sa_get_program (ge_storage env) ph (gw_storage g) of
                  Inr (Some program) \<Rightarrow>
                    (case get_chunk GATEWAY_USIZE_MAX (gp_image program) chunk_index chunk_size of
                       None \<Rightarrow> None
                     | Some chunk_data \<Rightarrow>
                         (case gateway_message_encode (ge_ser env) (Chunk chunk_index chunk_data) of
                            Inl _ \<Rightarrow> None
                          | Inr cbor \<Rightarrow>
                              encode_response env
                                \<lparr>key_hint = gn_key_hint node, msg_type = MSG_CHUNK, nonce = nonce h\<rparr>
                                cbor (gn_psk node)))
                | _ \<Rightarrow> None)
           | _ \<Rightarrow> None))"

definition program_updated_event :: "frame_in \<Rightarrow> node_record \<Rightarrow> bytes \<Rightarrow> handler_message" where
  "program_updated_event f node ph =
     HandlerEvent (gn_node_id node) ''program_updated'' [(''program_hash'', CborBytes ph)] (wall_secs f)"

definition handle_program_ack :: "'s gateway_env \<Rightarrow> frame_in \<Rightarrow> node_record \<Rightarrow> bytes \<Rightarrow> 's gateway \<Rightarrow> 's gateway" where
  "handle_program_ack env f node ph g =
     (case get_session (gn_node_id node) (gw_sessions g) of
        None \<Rightarrow> g
      | Some s \<Rightarrow>
          (case ss_state s of
             ChunkedTransfer expected ps cs cc eph \<Rightarrow>
               if expected \<noteq> ph then g
               else
                 let g1 = snd (on_store (sa_upsert_node (ge_storage env) (confirm_program ph node)) g);
                     g2 = broadcast_event (program_updated_event f node ph) g1
                 in on_sessions (\<lambda>m. snd (set_state (gn_node_id node) BpfExecuting m)) g2
           | _ \<Rightarrow> g))"

definition handle_app_data ::
    "'s gateway_env \<Rightarrow> frame_in \<Rightarrow> node_record \<Rightarrow> frame_header \<Rightarrow> bytes \<Rightarrow> 's gateway \<Rightarrow> bytes option \<times> 's gateway" where
  "handle_app_data env f node h blob g =
     (case gn_current_program_hash node of
        None \<Rightarrow> (None, g)
      | Some ph \<Rightarrow>
          let readings = decode_readings env ph blob g;
              g1 = emit_connector (ConnectorAppData (gn_node_id node) ph blob (wall_ms f) FromAppData readings) g
          in case find_handler_cloned ph (gw_router g) of
               None \<Rightarrow> (None, g1)
             | Some (config, process) \<Rightarrow>
                 (case ge_reply env config (HandlerData (nonce h) (gn_node_id node) ph blob (wall_secs f) readings) of
                    Some (DataReply _ data delivery) \<Rightarrow>
                      if data = [] then (None, g1)
                      else if delivery = 1 then
                        (None, if length data > MAX_COMMAND_BLOB_SIZE then g1
                               else g1\<lparr>gw_deferred := (gw_deferred g1)(gn_node_id node \<mapsto> data)\<rparr>)
                      else
                        (case gateway_message_encode (ge_ser env) (AppDataReply data) of
                           Inl _ \<Rightarrow> (None, g1)
                         | Inr cbor \<Rightarrow>
                             (encode_response env
                                \<lparr>key_hint = gn_key_hint node, msg_type = MSG_APP_DATA_REPLY, nonce = nonce h\<rparr>
                                cbor (gn_psk node), g1))
                  | _ \<Rightarrow> (None, g1)))"

definition handle_post_wake ::
    "'s gateway_env \<Rightarrow> frame_in \<Rightarrow> node_record \<Rightarrow> frame_header \<Rightarrow> bytes \<Rightarrow> 's gateway \<Rightarrow> bytes option \<times> 's gateway" where
  "handle_post_wake env f node h payload g =
     (case node_message_decode (ge_de env) (msg_type h) payload of
        Inl _ \<Rightarrow> (None, g)
      | Inr msg \<Rightarrow>
          (case verify_and_advance_seq (fi_now f) (gn_node_id node) (nonce h) (gw_sessions g) of
             (Inl _, m) \<Rightarrow> (None, g\<lparr>gw_sessions := m\<rparr>)
           | (Inr _, m) \<Rightarrow>
               let g1 = g\<lparr>gw_sessions := m\<rparr> in
               (case msg of
                  GetChunk i \<Rightarrow> (handle_get_chunk env node h i g1, g1)
                | ProgramAck ph \<Rightarrow> (None, handle_program_ack env f node ph g1)
                | AppData blob \<Rightarrow> handle_app_data env f node h blob g1
                | _ \<Rightarrow> (None, g1))))"

section \<open>Frames\<close>

definition dispatch_frame ::
    "'s gateway_env \<Rightarrow> frame_in \<Rightarrow> node_record \<Rightarrow> frame_header \<Rightarrow> bytes \<Rightarrow> 's gateway \<Rightarrow> bytes option \<times> 's gateway" where
  "dispatch_frame env f node h payload g =
     (if msg_type h = MSG_WAKE then handle_wake env f node h payload g
      else if msg_type h = MSG_GET_CHUNK \<or> msg_type h = MSG_PROGRAM_ACK \<or> msg_type h = MSG_APP_DATA
        then handle_post_wake env f node h payload g
      else (None, g))"

definition try_recovery_auth :: "'s gateway_env \<Rightarrow> frame_in \<Rightarrow> decoded_frame \<Rightarrow> 's gateway \<Rightarrow> bytes option \<times> 's gateway" where
  "try_recovery_auth env f d g =
     (let hint = key_hint (df_header d); missed = (None, report_missing_hint f hint g) in
      case ge_recovery env of
        None \<Rightarrow> missed
      | Some ra \<Rightarrow>
          (case gw_master_key_id g of
             None \<Rightarrow> missed
           | Some kid \<Rightarrow>
               (case ra_lookup ra hint kid MAX_TRIAL_CANDIDATES (gw_storage g) of
                  Inl _ \<Rightarrow> missed
                | Inr candidates \<Rightarrow>
                    (case try_keys env d (\<lambda>(i, enc). ra_decrypt ra (gw_storage g) i enc) candidates of
                       None \<Rightarrow> missed
                     | Some ((i, enc), payload) \<Rightarrow>
                         (case ra_decrypt ra (gw_storage g) i enc of
                            None \<Rightarrow> missed
                          | Some psk \<Rightarrow>
                              let node = node_record_new i hint psk in
                              (case on_store (sa_upsert_node (ge_storage env) node) g of
                                 (Inl _, g1) \<Rightarrow> (None, g1)
                               | (Inr _, g1) \<Rightarrow>
                                   dispatch_frame env f node (df_header d) payload
                                     (snd (on_store (ra_delete ra hint i) g1))))))))"

definition process_frame :: "'s gateway_env \<Rightarrow> frame_in \<Rightarrow> 's gateway \<Rightarrow> bytes option \<times> 's gateway" where
  "process_frame env f g =
     (case decode_frame (fi_raw f) of
        Inl _ \<Rightarrow> (None, g)
      | Inr d \<Rightarrow>
          if msg_type (df_header d) = MSG_PEER_REQUEST then handle_peer_request env f d g
          else if msg_type (df_header d) = MSG_DIAG_REQUEST then (handle_diag_request env f d g, g)
          else
            (case sa_get_nodes_by_key_hint (ge_storage env) (key_hint (df_header d)) (gw_storage g) of
               Inl _ \<Rightarrow> (None, g)
             | Inr [] \<Rightarrow> try_recovery_auth env f d g
             | Inr candidates \<Rightarrow>
                 (case try_keys env d (\<lambda>n. Some (gn_psk n)) candidates of
                    None \<Rightarrow> (None, g)
                  | Some (node, payload) \<Rightarrow> dispatch_frame env f node (df_header d) payload g)))"

section \<open>Housekeeping\<close>

definition gateway_new :: "'s \<Rightarrow> nat \<Rightarrow> 's gateway" where
  "gateway_new storage timeout = \<lparr>gw_storage = storage, gw_sessions = session_manager_new timeout, gw_pending = Map.empty,
     gw_router = router_new 0 [], gw_deferred = Map.empty, gw_hints = tracker_new, gw_hint_notifications = 0,
     gw_master_key_id = None, gw_connector = [], gw_handler_events = [], gw_jobs = []\<rparr>"

definition U64_MAX :: nat where "U64_MAX = 2 ^ 64 - 1"

text \<open>Wall-clock times are milliseconds since the epoch, so \<open>duration_since\<close> does not fail.\<close>

definition node_timeout_event :: "nat \<Rightarrow> node_record \<Rightarrow> nat \<Rightarrow> handler_message" where
  "node_timeout_event now_s node last_seen =
     HandlerEvent (gn_node_id node) ''node_timeout''
       [(''expected_interval_s'', CborInt (int (unat (gn_schedule_interval_s node)))), (''last_seen'', CborInt (int last_seen))]
       (of_nat now_s)"

definition node_timed_out :: "nat \<Rightarrow> nat \<Rightarrow> session_manager \<Rightarrow> node_record \<Rightarrow> nat option" where
  "node_timed_out now_s multiplier m node =
     (let interval = unat (gn_schedule_interval_s node) in
      if interval = 0 then None
      else case sm_last_seen m (gn_node_id node) of
             None \<Rightarrow> None
           | Some ts \<Rightarrow>
               let last_seen = ts div 1000;
                   deadline = min U64_MAX (last_seen + min U64_MAX (interval * multiplier))
               in if now_s > deadline then Some last_seen else None)"

definition check_node_timeouts :: "'s gateway_env \<Rightarrow> nat \<Rightarrow> nat \<Rightarrow> 's gateway \<Rightarrow> 's gateway" where
  "check_node_timeouts env now_ms multiplier g =
     (let mult = (if multiplier = 0 then 3 else multiplier);
          nodes = (case sa_list_nodes (ge_storage env) (gw_storage g) of Inl _ \<Rightarrow> [] | Inr ns \<Rightarrow> ns)
      in foldl (\<lambda>g node.
           case node_timed_out (now_ms div 1000) mult (gw_sessions g) node of
             None \<Rightarrow> g
           | Some last_seen \<Rightarrow> broadcast_event (node_timeout_event (now_ms div 1000) node last_seen) g) g nodes)"

text \<open>\<open>str::parse::<u8>\<close> and \<open>u8::to_string\<close>.\<close>

definition dec_digit :: "char \<Rightarrow> nat option" where
  "dec_digit c = (if CHR ''0'' \<le> c \<and> c \<le> CHR ''9'' then Some (of_char c - 48) else None)"

primrec parse_digits :: "nat \<Rightarrow> string \<Rightarrow> nat option" where
  "parse_digits acc [] = Some acc"
| "parse_digits acc (c # cs) =
     (case dec_digit c of
        None \<Rightarrow> None
      | Some d \<Rightarrow> if acc * 10 + d \<le> 255 then parse_digits (acc * 10 + d) cs else None)"

definition parse_u8 :: "string \<Rightarrow> u8 option" where
  "parse_u8 s =
     (case s of
        [] \<Rightarrow> None
      | c # cs \<Rightarrow> if c = CHR ''+'' \<and> cs \<noteq> [] then map_option of_nat (parse_digits 0 cs)
                  else map_option of_nat (parse_digits 0 s))"

fun dec_string :: "nat \<Rightarrow> string" where
  "dec_string n = (if n < 10 then [] else dec_string (n div 10)) @ [char_of (48 + n mod 10)]"

declare dec_string.simps [simp del]

datatype channel_error = InvalidCliChannel u8 | ConfigRead storage_error | NotANumber string | ChannelOutOfRange u8 | ConfigWrite storage_error

definition resolve_espnow_channel :: "'s storage_api \<Rightarrow> u8 \<Rightarrow> ('s, channel_error, u8) op" where
  "resolve_espnow_channel api cli s =
     (if \<not> (1 \<le> cli \<and> cli \<le> 14) then (Inl (InvalidCliChannel cli), s)
      else case sa_get_config api ''espnow_channel'' s of
             Inl e \<Rightarrow> (Inl (ConfigRead e), s)
           | Inr (Some v) \<Rightarrow>
               (case parse_u8 v of
                  None \<Rightarrow> (Inl (NotANumber v), s)
                | Some channel \<Rightarrow>
                    if \<not> (1 \<le> channel \<and> channel \<le> 14) then (Inl (ChannelOutOfRange channel), s) else (Inr channel, s))
           | Inr None \<Rightarrow>
               (case sa_set_config api ''espnow_channel'' (dec_string (unat cli)) s of
                  (Inl e, s') \<Rightarrow> (Inl (ConfigWrite e), s')
                | (Inr _, s') \<Rightarrow> (Inr cli, s')))"

end
