(* ===== verification/Gateway_Correct.thy ===== *)
theory Gateway_Correct
  imports Gateway_Engine
begin

text \<open>
  Properties of the protocol engine: unauthenticated frames have no effect, the sessions evolve as the session
  manager allows and every effect of a node's frame is paid for with a sequence number, commands are
  selected by priority and delivered once, and a registration never replaces a node's key.
\<close>

section \<open>Authentication\<close>

text \<open>The keys a frame may be opened with: those of the nodes with its hint, of the phones with its hint that are
  not revoked, and of the recovery candidates.\<close>

definition known_keys :: "'s gateway_env \<Rightarrow> u16 \<Rightarrow> 's gateway \<Rightarrow> bytes set" where
  "known_keys env hint g =
     (case sa_get_nodes_by_key_hint (ge_storage env) hint (gw_storage g) of Inl _ \<Rightarrow> {} | Inr ns \<Rightarrow> gn_psk ` set ns) \<union>
     (case sa_get_phone_psks_by_key_hint (ge_storage env) hint (gw_storage g) of
        Inl _ \<Rightarrow> {} | Inr ps \<Rightarrow> ph_psk ` {p \<in> set ps. ph_status p = Active}) \<union>
     (case (ge_recovery env, gw_master_key_id g) of
        (Some ra, Some kid) \<Rightarrow>
          (case ra_lookup ra hint kid MAX_TRIAL_CANDIDATES (gw_storage g) of
             Inl _ \<Rightarrow> {} | Inr cs \<Rightarrow> {psk. \<exists>(i, enc)\<in>set cs. ra_decrypt ra (gw_storage g) i enc = Some psk})
      | _ \<Rightarrow> {})"

lemma try_keys_Some:
  "try_keys env d psk_of cs = Some (c, pt) \<Longrightarrow>
     c \<in> set cs \<and> (\<exists>psk. psk_of c = Some psk \<and> open_frame d psk (ge_open env) (ge_sha env) = Inr pt)"
  by (induction cs) (auto split: option.splits sum.splits)

lemma try_keys_None:
  assumes "\<And>c psk. c \<in> set cs \<Longrightarrow> psk_of c = Some psk \<Longrightarrow> \<exists>e. open_frame d psk (ge_open env) (ge_sha env) = Inl e"
  shows "try_keys env d psk_of cs = None"
  using assms by (induction cs) (force split: option.splits sum.splits)+

definition opens_with :: "'s gateway_env \<Rightarrow> decoded_frame \<Rightarrow> bytes set \<Rightarrow> bool" where
  "opens_with env d keys \<longleftrightarrow> (\<exists>psk\<in>keys. \<exists>pt. open_frame d psk (ge_open env) (ge_sha env) = Inr pt)"

lemma not_opens: "\<not> opens_with env d keys \<Longrightarrow> psk \<in> keys \<Longrightarrow> \<exists>e. open_frame d psk (ge_open env) (ge_sha env) = Inl e"
  by (cases "open_frame d psk (ge_open env) (ge_sha env)") (auto simp: opens_with_def)

lemma unopened_phone:
  assumes "\<not> opens_with env d (known_keys env (key_hint (df_header d)) g)"
  shows "find_phone env d g = None"
proof (cases "sa_get_phone_psks_by_key_hint (ge_storage env) (key_hint (df_header d)) (gw_storage g)")
  case (Inr ps)
  have "try_keys env d phone_key ps = None"
  proof (rule try_keys_None)
    fix p psk assume "p \<in> set ps" "phone_key p = Some psk"
    then have "psk \<in> known_keys env (key_hint (df_header d)) g"
      using Inr by (auto simp: known_keys_def phone_key_def split: phone_psk_status.splits)
    with assms show "\<exists>e. open_frame d psk (ge_open env) (ge_sha env) = Inl e" by (rule not_opens)
  qed
  with Inr show ?thesis by (simp add: find_phone_def)
qed (simp add: find_phone_def)

lemma unopened_recovery:
  assumes "\<not> opens_with env d (known_keys env (key_hint (df_header d)) g)"
  shows "try_recovery_auth env f d g = (None, report_missing_hint f (key_hint (df_header d)) g)"
proof -
  have "try_keys env d (\<lambda>(i, enc). ra_decrypt ra (gw_storage g) i enc) cs = None"
    if "ge_recovery env = Some ra" "gw_master_key_id g = Some kid"
      "ra_lookup ra (key_hint (df_header d)) kid MAX_TRIAL_CANDIDATES (gw_storage g) = Inr cs" for ra kid cs
  proof (rule try_keys_None)
    fix c psk assume "c \<in> set cs" "(case c of (i, enc) \<Rightarrow> ra_decrypt ra (gw_storage g) i enc) = Some psk"
    then have "psk \<in> known_keys env (key_hint (df_header d)) g" using that by (auto simp: known_keys_def)
    with assms show "\<exists>e. open_frame d psk (ge_open env) (ge_sha env) = Inl e" by (rule not_opens)
  qed
  then show ?thesis by (auto simp: try_recovery_auth_def Let_def split: option.splits sum.splits)
qed

text \<open>C9. The gateway ignores strangers: a frame that no key of a registered node, of a phone that is not revoked
  or of a recovery candidate with this hint opens is not answered and changes nothing but the record of
  unknown key hints.\<close>

theorem unauthenticated_frame_ignored:
  assumes "decode_frame (fi_raw f) = Inr d"
    and "\<not> opens_with env d (known_keys env (key_hint (df_header d)) g)"
    and "process_frame env f g = (reply, g')"
  shows "reply = None \<and> (g' = g \<or> g' = report_missing_hint f (key_hint (df_header d)) g)"
proof -
  have "try_keys env d (\<lambda>n. Some (gn_psk n)) ns = None"
    if "sa_get_nodes_by_key_hint (ge_storage env) (key_hint (df_header d)) (gw_storage g) = Inr ns" for ns
  proof (rule try_keys_None)
    fix n psk assume "n \<in> set ns" "Some (gn_psk n) = Some psk"
    then have "psk \<in> known_keys env (key_hint (df_header d)) g" using that by (auto simp: known_keys_def)
    with assms(2) show "\<exists>e. open_frame d psk (ge_open env) (ge_sha env) = Inl e" by (rule not_opens)
  qed
  then show ?thesis
    using assms(1,3) unopened_phone [OF assms(2)] unopened_recovery [OF assms(2)]
    by (auto simp: process_frame_def handle_peer_request_def handle_diag_request_def
        split: if_splits sum.splits list.splits)
qed

section \<open>Sessions\<close>

lemma session_trace_trans:
  assumes "session_trace m0 es m"
  shows "session_trace m es' m' \<Longrightarrow> session_trace m0 (es @ es') m'"
  by (induction rule: session_trace.induct) (use assms session_trace.intros(2) in \<open>fastforce simp flip: append_assoc\<close>)+

lemma session_trace_single: "session_step m es m' \<Longrightarrow> session_trace m es m'"
  using session_trace.trace_step [OF session_trace.trace_start] by fastforce

lemma session_trace_same: "same_sessions m m' \<Longrightarrow> session_trace m [] m'"
  by (rule session_trace_single [OF step_observe])

named_theorems gateway_simps \<open>what the steps of the engine leave alone\<close>

lemma on_store_fields [gateway_simps]:
  "gw_sessions (snd (on_store m g)) = gw_sessions g"
  by (simp add: on_store_def split: prod.splits)

lemma on_store_sessions: "on_store m g = (r, g') \<Longrightarrow> gw_sessions g' = gw_sessions g"
  by (auto simp: on_store_def split: prod.splits)

lemma pending_sessions [gateway_simps]:
  "gw_sessions (drop_pending i p g) = gw_sessions g" "gw_sessions (purge_pending i h g) = gw_sessions g"
  by (simp_all add: drop_pending_def purge_pending_def Let_def split: option.splits)

lemma select_command_sessions: "select_command env node ph abi g = (r, g') \<Longrightarrow> gw_sessions g' = gw_sessions g"
  by (auto simp: select_command_def select_ephemeral_def gateway_simps split: option.splits sum.splits prod.splits if_splits)

lemma quiet_sessions [gateway_simps]:
  "gw_sessions (report_missing_hint f hint g) = gw_sessions g"
  "gw_sessions (broadcast_event msg g) = gw_sessions g"
  "gw_sessions (emit_connector e g) = gw_sessions g"
  "gw_sessions (reconcile_program env node ph g) = gw_sessions g"
  "gw_sessions (queue_command i c g) = gw_sessions g"
  "gw_sessions (finish_job env g) = gw_sessions g"
  "gw_sessions (snd (drain_missing_hints g)) = gw_sessions g"
  by (simp_all add: report_missing_hint_def broadcast_event_def emit_connector_def reconcile_program_def queue_command_def
      finish_job_def drain_missing_hints_def on_store_fields Let_def
      split: prod.splits list.splits option.splits handler_message.splits)

lemma route_wake_blob_sessions [gateway_simps]: "gw_sessions (route_wake_blob env f node h ph blob g) = gw_sessions g"
  by (simp add: route_wake_blob_def Let_def quiet_sessions split: option.splits)

lemma handle_app_data_sessions: "handle_app_data env f node h blob g = (r, g') \<Longrightarrow> gw_sessions g' = gw_sessions g"
  by (auto simp: handle_app_data_def Let_def quiet_sessions split: option.splits handler_message.splits if_splits sum.splits)

lemma handle_peer_request_sessions: "handle_peer_request env f d g = (r, g') \<Longrightarrow> gw_sessions g' = gw_sessions g"
  by (auto simp: handle_peer_request_def register_node_def dest!: on_store_sessions
      split: option.splits prod.splits if_splits bool.splits sum.splits)

lemma record_wake_sessions: "session_trace (gw_sessions g) [] (gw_sessions (record_wake env f node abi mv v g))"
proof -
  have "same_sessions (gw_sessions g) (gw_sessions (record_wake env f node abi mv v g))"
    by (auto simp: record_wake_def on_sessions_def Let_def same_sessions_def record_last_seen_def record_battery_mv_def
        record_wake_rssi_dbm_def clear_last_seen_def clear_battery_mv_def clear_wake_rssi_dbm_def
        dest!: on_store_sessions split: prod.splits sum.splits storage_error.splits option.splits)
  then show ?thesis by (rule session_trace_same)
qed

lemma set_state_trace: "session_trace m [] (snd (set_state i st m))"
  by (rule session_trace_single [OF step_set_state]) (rule surjective_pairing)

lemma enter_transfer_sessions: "session_trace (gw_sessions g) [] (gw_sessions (enter_transfer i cmd g))"
  by (auto simp: enter_transfer_def on_sessions_def intro: session_trace.trace_start set_state_trace split: option.splits)

lemma program_ack_sessions: "session_trace (gw_sessions g) [] (gw_sessions (handle_program_ack env f node ph g))"
  by (auto simp: handle_program_ack_def on_sessions_def Let_def gateway_simps
      intro: session_trace.trace_start set_state_trace split: option.splits session_state.splits)

text \<open>The node that an authenticated frame comes from, and the state in which the frame is dispatched.\<close>

definition sender :: "'s gateway_env \<Rightarrow> frame_in \<Rightarrow> 's gateway \<Rightarrow> (node_record \<times> frame_header \<times> bytes) option" where
  "sender env f g =
     (case decode_frame (fi_raw f) of
        Inl _ \<Rightarrow> None
      | Inr d \<Rightarrow>
          if msg_type (df_header d) = MSG_PEER_REQUEST \<or> msg_type (df_header d) = MSG_DIAG_REQUEST then None
          else
            (case sa_get_nodes_by_key_hint (ge_storage env) (key_hint (df_header d)) (gw_storage g) of
               Inl _ \<Rightarrow> None
             | Inr ns \<Rightarrow> map_option (\<lambda>(node, payload). (node, df_header d, payload))
                          (try_keys env d (\<lambda>n. Some (gn_psk n)) ns)))"

definition wake_events :: "'s gateway_env \<Rightarrow> frame_in \<Rightarrow> node_record \<Rightarrow> frame_header \<Rightarrow> bytes \<Rightarrow> 's gateway \<Rightarrow> session_event list" where
  "wake_events env f node h payload g =
     (case node_message_decode (ge_de env) MSG_WAKE payload of
        Inr (Wake _ _ _ _ _) \<Rightarrow>
          (case wake_session f node h g of
             (Some (seq, None), _) \<Rightarrow> [Opened (gn_node_id node) seq (fi_now f)]
           | _ \<Rightarrow> [])
      | _ \<Rightarrow> [])"

definition post_wake_events :: "'s gateway_env \<Rightarrow> frame_in \<Rightarrow> node_record \<Rightarrow> frame_header \<Rightarrow> bytes \<Rightarrow> 's gateway \<Rightarrow> session_event list" where
  "post_wake_events env f node h payload g =
     (case node_message_decode (ge_de env) (msg_type h) payload of
        Inl _ \<Rightarrow> []
      | Inr _ \<Rightarrow>
          (case fst (verify_and_advance_seq (fi_now f) (gn_node_id node) (nonce h) (gw_sessions g)) of
             Inl e \<Rightarrow> [Refused (gn_node_id node) e]
           | Inr _ \<Rightarrow> [Accepted (gn_node_id node) (nonce h) (fi_now f)]))"

definition dispatch_events :: "'s gateway_env \<Rightarrow> frame_in \<Rightarrow> node_record \<Rightarrow> frame_header \<Rightarrow> bytes \<Rightarrow> 's gateway \<Rightarrow> session_event list" where
  "dispatch_events env f node h payload g =
     (if msg_type h = MSG_WAKE then wake_events env f node h payload g
      else if msg_type h = MSG_GET_CHUNK \<or> msg_type h = MSG_PROGRAM_ACK \<or> msg_type h = MSG_APP_DATA
        then post_wake_events env f node h payload g
      else [])"

lemma wake_session_trace:
  assumes "wake_session f node h g = (r, g')"
  shows "session_trace (gw_sessions g)
    (case r of Some (seq, None) \<Rightarrow> [Opened (gn_node_id node) seq (fi_now f)] | _ \<Rightarrow> []) (gw_sessions g')"
proof -
  have "session_trace m [Opened i seq t] (snd (create_session t i peer n seq m))" for t i peer n seq m
    by (rule session_trace_single [OF step_create]) (rule surjective_pairing)
  with assms show ?thesis
    by (auto simp: wake_session_def on_sessions_def Let_def intro: session_trace.trace_start split: option.splits if_splits)
qed

lemma handle_wake_core_sessions:
  assumes "handle_wake_core env f node h payload g = (r, g')"
  shows "session_trace (gw_sessions g) (wake_events env f node h payload g) (gw_sessions g')"
proof (cases "\<exists>abi ph mv v blob. node_message_decode (ge_de env) MSG_WAKE payload = Inr (Wake abi ph mv v blob)")
  case False
  with assms show ?thesis
    by (auto simp: handle_wake_core_def wake_events_def intro: session_trace.trace_start split: sum.splits node_message.splits)
next
  case True
  then obtain abi ph mv v blob where w: "node_message_decode (ge_de env) MSG_WAKE payload = Inr (Wake abi ph mv v blob)"
    by blast
  obtain o1 g1 where s: "wake_session f node h g = (o1, g1)" by fastforce
  note t1 = wake_session_trace [OF s]
  show ?thesis
  proof (cases o1)
    case None
    with assms w s t1 show ?thesis by (simp add: handle_wake_core_def wake_events_def)
  next
    case (Some sr)
    obtain seq reused where sr: "sr = (seq, reused)" by (cases sr)
    obtain c g2 where c: "(case reused of Some cmd \<Rightarrow> (Some cmd, g1) | None \<Rightarrow> select_command env node ph abi g1) = (c, g2)"
      by fastforce
    have g2: "gw_sessions g2 = gw_sessions g1"
      using c select_command_sessions by (cases reused) fastforce+
    have ev: "wake_events env f node h payload g = (case o1 of Some (seq, None) \<Rightarrow> [Opened (gn_node_id node) seq (fi_now f)] | _ \<Rightarrow> [])"
      using w s Some sr by (simp add: wake_events_def split: option.splits)
    have t2: "session_trace (gw_sessions g) (wake_events env f node h payload g) (gw_sessions g2)"
      using t1 g2 ev by simp
    show ?thesis
    proof (cases c)
      case None
      with assms w s Some sr c t2 show ?thesis by (simp add: handle_wake_core_def)
    next
      case (Some cmd)
      define g3 where "g3 = record_wake env f node abi mv v (enter_transfer (gn_node_id node) cmd g2)"
      have "session_trace (gw_sessions g2) ([] @ []) (gw_sessions g3)"
        unfolding g3_def by (rule session_trace_trans [OF enter_transfer_sessions record_wake_sessions])
      with session_trace_trans [OF t2] have "session_trace (gw_sessions g) (wake_events env f node h payload g) (gw_sessions g3)"
        by fastforce
      moreover have "gw_sessions g' = gw_sessions g3"
        using assms w s \<open>o1 = Some sr\<close> sr c Some
        by (auto simp: handle_wake_core_def Let_def gateway_simps g3_def split: sum.splits)
      ultimately show ?thesis by simp
    qed
  qed
qed

lemma dispatch_sessions:
  assumes "dispatch_frame env f node h payload g = (r, g')"
  shows "session_trace (gw_sessions g) (dispatch_events env f node h payload g) (gw_sessions g')"
proof -
  have wake: "session_trace (gw_sessions g) (wake_events env f node h payload g) (gw_sessions g')"
    if "handle_wake env f node h payload g = (r, g')"
  proof -
    obtain x g1 where x: "handle_wake_core env f node h payload g = (x, g1)" by fastforce
    with that have "gw_sessions g' = gw_sessions g1" by (auto simp: handle_wake_def split: option.splits prod.splits)
    with handle_wake_core_sessions [OF x] show ?thesis by simp
  qed
  have post: "session_trace (gw_sessions g) (post_wake_events env f node h payload g) (gw_sessions g')"
    if p: "handle_post_wake env f node h payload g = (r, g')"
  proof (cases "node_message_decode (ge_de env) (msg_type h) payload")
    case (Inl e)
    with p show ?thesis by (simp add: handle_post_wake_def post_wake_events_def session_trace.trace_start)
  next
    case (Inr msg)
    obtain v m where v: "verify_and_advance_seq (fi_now f) (gn_node_id node) (nonce h) (gw_sessions g) = (v, m)" by fastforce
    show ?thesis
    proof (cases v)
      case (Inl e)
      with p Inr v show ?thesis
        by (auto simp: handle_post_wake_def post_wake_events_def intro: session_trace_single [OF step_refuse])
    next
      case (Inr u)
      then have "session_trace (gw_sessions g) [Accepted (gn_node_id node) (nonce h) (fi_now f)] m"
        using v by (auto intro: session_trace_single [OF step_accept])
      moreover have "session_trace m [] (gw_sessions g')"
        using p v Inr \<open>node_message_decode _ _ _ = Inr msg\<close> program_ack_sessions [of "g\<lparr>gw_sessions := m\<rparr>" env f node]
        by (auto simp: handle_post_wake_def Let_def dest!: handle_app_data_sessions intro: session_trace.trace_start
            split: node_message.splits)
      ultimately show ?thesis
        using session_trace_trans v Inr \<open>node_message_decode _ _ _ = Inr msg\<close> by (fastforce simp: post_wake_events_def)
    qed
  qed
  show ?thesis
    using assms wake post by (auto simp: dispatch_frame_def dispatch_events_def intro: session_trace.trace_start split: if_splits)
qed

text \<open>The node that a recovered key belongs to.\<close>

definition recovered :: "'s gateway_env \<Rightarrow> decoded_frame \<Rightarrow> 's gateway \<Rightarrow> (node_record \<times> bytes) option" where
  "recovered env d g =
     Option.bind (ge_recovery env) (\<lambda>ra.
     Option.bind (gw_master_key_id g) (\<lambda>kid.
       case ra_lookup ra (key_hint (df_header d)) kid MAX_TRIAL_CANDIDATES (gw_storage g) of
         Inl _ \<Rightarrow> None
       | Inr cs \<Rightarrow>
           Option.bind (try_keys env d (\<lambda>(i, enc). ra_decrypt ra (gw_storage g) i enc) cs) (\<lambda>((i, enc), payload).
             map_option (\<lambda>psk. (node_record_new i (key_hint (df_header d)) psk, payload)) (ra_decrypt ra (gw_storage g) i enc))))"

definition frame_events :: "'s gateway_env \<Rightarrow> frame_in \<Rightarrow> 's gateway \<Rightarrow> session_event list" where
  "frame_events env f g =
     (case sender env f g of
        Some (node, h, payload) \<Rightarrow> dispatch_events env f node h payload g
      | None \<Rightarrow>
          (case decode_frame (fi_raw f) of
             Inl _ \<Rightarrow> []
           | Inr d \<Rightarrow>
               if msg_type (df_header d) = MSG_PEER_REQUEST \<or> msg_type (df_header d) = MSG_DIAG_REQUEST then []
               else if sa_get_nodes_by_key_hint (ge_storage env) (key_hint (df_header d)) (gw_storage g) \<noteq> Inr [] then []
               else
                 (case recovered env d g of
                    None \<Rightarrow> []
                  | Some (node, payload) \<Rightarrow>
                      (case fst (on_store (sa_upsert_node (ge_storage env) node) g) of
                         Inl _ \<Rightarrow> []
                       | Inr _ \<Rightarrow> dispatch_events env f node (df_header d) payload g))))"

lemma dispatch_events_cong: "gw_sessions g1 = gw_sessions g \<Longrightarrow> dispatch_events env f node h p g1 = dispatch_events env f node h p g"
  by (auto simp: dispatch_events_def wake_events_def post_wake_events_def wake_session_def Let_def
      split: option.splits sum.splits node_message.splits if_splits)

lemma recovery_sessions:
  assumes "try_recovery_auth env f d g = (r, g')"
  shows "session_trace (gw_sessions g)
    (case recovered env d g of
       None \<Rightarrow> []
     | Some (node, payload) \<Rightarrow>
         (case fst (on_store (sa_upsert_node (ge_storage env) node) g) of
            Inl _ \<Rightarrow> []
          | Inr _ \<Rightarrow> dispatch_events env f node (df_header d) payload g)) (gw_sessions g')"
proof (cases "recovered env d g")
  case None
  with assms have "g' = report_missing_hint f (key_hint (df_header d)) g"
    by (auto simp: try_recovery_auth_def recovered_def Let_def split: option.splits sum.splits)
  with None show ?thesis by (simp add: gateway_simps session_trace.trace_start)
next
  case (Some np)
  obtain node payload where np: "np = (node, payload)" by (cases np)
  obtain u g1 where u: "on_store (sa_upsert_node (ge_storage env) node) g = (u, g1)" by fastforce
  note s1 = on_store_sessions [OF u]
  show ?thesis
  proof (cases u)
    case (Inl e)
    with assms Some np u have "g' = g1"
      by (auto simp: try_recovery_auth_def recovered_def Let_def split: option.splits sum.splits prod.splits)
    with Some np u Inl s1 show ?thesis by (simp add: session_trace.trace_start)
  next
    case (Inr x)
    obtain g2 where g2: "gw_sessions g2 = gw_sessions g1" "dispatch_frame env f node (df_header d) payload g2 = (r, g')"
      using assms Some np u Inr on_store_fields
      by (auto simp: try_recovery_auth_def recovered_def Let_def split: option.splits sum.splits prod.splits)
    from dispatch_sessions [OF g2(2)] g2(1) s1 dispatch_events_cong [of g2 g]
    show ?thesis using Some np u Inr by simp
  qed
qed

lemma frame_sessions:
  assumes "process_frame env f g = (r, g')"
  shows "session_trace (gw_sessions g) (frame_events env f g) (gw_sessions g')"
proof (cases "decode_frame (fi_raw f)")
  case (Inl e)
  with assms show ?thesis by (simp add: process_frame_def frame_events_def sender_def session_trace.trace_start)
next
  case (Inr d)
  let ?h = "df_header d"
  let ?ns = "sa_get_nodes_by_key_hint (ge_storage env) (key_hint ?h) (gw_storage g)"
  consider (phone) "msg_type ?h = MSG_PEER_REQUEST \<or> msg_type ?h = MSG_DIAG_REQUEST"
    | (recovery) "msg_type ?h \<noteq> MSG_PEER_REQUEST" "msg_type ?h \<noteq> MSG_DIAG_REQUEST" "?ns = Inr []"
    | (node) "msg_type ?h \<noteq> MSG_PEER_REQUEST" "msg_type ?h \<noteq> MSG_DIAG_REQUEST" "?ns \<noteq> Inr []" by blast
  then show ?thesis
  proof cases
    case phone
    with assms Inr have "gw_sessions g' = gw_sessions g"
      by (auto simp: process_frame_def dest: handle_peer_request_sessions split: if_splits)
    with phone Inr show ?thesis by (auto simp: frame_events_def sender_def intro: session_trace.trace_start)
  next
    case recovery
    with assms Inr recovery_sessions [of env f d g r g'] show ?thesis
      by (simp add: process_frame_def frame_events_def sender_def)
  next
    case node
    with assms Inr dispatch_sessions show ?thesis
      by (auto simp: process_frame_def frame_events_def sender_def intro: session_trace.trace_start
          split: sum.splits list.splits option.splits prod.splits)
  qed
qed

text \<open>Runs of the gateway: frames and everything else that happens between them.\<close>

inductive gateway_run :: "'s gateway_env \<Rightarrow> 's gateway \<Rightarrow> session_event list \<Rightarrow> 's gateway \<Rightarrow> bool" for env g0 where
  run_start: "gateway_run env g0 [] g0"
| run_frame: "gateway_run env g0 log g \<Longrightarrow> process_frame env f g = (r, g') \<Longrightarrow> gateway_run env g0 (log @ frame_events env f g) g'"
| run_queue: "gateway_run env g0 log g \<Longrightarrow> gateway_run env g0 log (queue_command i c g)"
| run_job: "gateway_run env g0 log g \<Longrightarrow> gateway_run env g0 log (finish_job env g)"
| run_drain: "gateway_run env g0 log g \<Longrightarrow> gateway_run env g0 log (snd (drain_missing_hints g))"
| run_reap: "gateway_run env g0 log g \<Longrightarrow> gateway_run env g0 log (on_sessions (\<lambda>m. snd (reap_expired now m)) g)"
| run_reload: "gateway_run env g0 log g \<Longrightarrow> gateway_run env g0 log (g\<lparr>gw_router := r\<rparr>)"
| run_admin: "gateway_run env g0 log g \<Longrightarrow> gateway_run env g0 log (g\<lparr>gw_storage := s\<rparr>)"

lemma gateway_run_sessions: "gateway_run env g0 log g \<Longrightarrow> session_trace (gw_sessions g0) log (gw_sessions g)"
proof (induction rule: gateway_run.induct)
  case run_start
  show ?case by (rule session_trace.trace_start)
next
  case (run_frame log g f r g')
  show ?case by (rule session_trace_trans [OF run_frame.IH frame_sessions [OF run_frame.hyps(2)]])
next
  case (run_reap log g now)
  have "session_trace (gw_sessions g) [] (snd (reap_expired now (gw_sessions g)))"
    by (rule session_trace_single [OF step_reap]) (rule surjective_pairing)
  with session_trace_trans [OF run_reap.IH] show ?case by (fastforce simp: on_sessions_def)
qed (simp_all add: gateway_simps)

lemma dispatch_effect:
  assumes "dispatch_frame env f node h payload g = (r, g')" and "msg_type h \<noteq> MSG_WAKE"
    and "r \<noteq> None \<or> g'\<lparr>gw_sessions := gw_sessions g\<rparr> \<noteq> g"
  shows "\<exists>m. verify_and_advance_seq (fi_now f) (gn_node_id node) (nonce h) (gw_sessions g) = (Inr (), m)"
proof (cases "fst (verify_and_advance_seq (fi_now f) (gn_node_id node) (nonce h) (gw_sessions g))")
  case (Inl e)
  then have "r = None \<and> (\<exists>m. g' = g\<lparr>gw_sessions := m\<rparr>)"
    using assms(1,2)
    by (auto simp: dispatch_frame_def handle_post_wake_def split: if_splits sum.splits prod.splits)
      (metis gateway.surjective gateway.update_convs(2))+
  with assms(3) show ?thesis by auto
next
  case (Inr u)
  then show ?thesis by (metis prod.collapse old.unit.exhaust)
qed

text \<open>C7. No replay at the gateway: in any run of the gateway, a frame of a registered node other than a WAKE has
  an effect (a reply, or a change of anything but the session table) only if it carries the number that
  follows the numbers already accepted in the node's current session, within the session timeout; a
  number accepted before is never acted on again.\<close>

theorem gateway_replay_safe:
  assumes "gateway_run env g0 log g" and "gw_sessions g0 = session_manager_new timeout"
    and "process_frame env f g = (reply, g')" and "sender env f g = Some (node, h, payload)"
    and "msg_type h \<noteq> MSG_WAKE" and "reply \<noteq> None \<or> g'\<lparr>gw_sessions := gw_sessions g\<rparr> \<noteq> g"
  shows "\<exists>t0 s0 as. session_history (gn_node_id node) log None = Some (t0, s0, as) \<and>
    nonce h = s0 + of_nat (length as) \<and> fi_now f - t0 \<le> timeout \<and>
    (length as < 2 ^ 64 \<longrightarrow> nonce h \<notin> fst ` set as)"
proof -
  have "dispatch_frame env f node h payload g = (reply, g')"
    using assms(3,4) by (auto simp: sender_def process_frame_def split: sum.splits if_splits list.splits option.splits)
  from dispatch_effect [OF this assms(5,6)] obtain m where
    v: "verify_and_advance_seq (fi_now f) (gn_node_id node) (nonce h) (gw_sessions g) = (Inr (), m)" by blast
  have t: "history_ok (gn_node_id node) (gw_sessions g) (session_history (gn_node_id node) log None)" "sm_timeout (gw_sessions g) = timeout"
    using trace_history [OF gateway_run_sessions [OF assms(1), unfolded assms(2)]] by auto
  from accept_extends [OF v t(1)] obtain t0 s0 as where
    as: "session_history (gn_node_id node) log None = Some (t0, s0, as)" "nonce h = s0 + of_nat (length as)"
      "history_ok (gn_node_id node) m (Some (t0, s0, as @ [(nonce h, fi_now f)]))" by blast
  have "sm_timeout m = timeout"
    using v t(2) by (auto simp: verify_and_advance_seq_def split: option.splits if_splits)
  with as(3) have o: "fi_now f - t0 \<le> timeout"
      "map fst (as @ [(nonce h, fi_now f)]) = map (\<lambda>i. s0 + of_nat i) [0..<Suc (length as)]"
    by (simp_all add: history_ok_def)
  have "nonce h \<notin> fst ` set as" if "length as < 2 ^ 64"
  proof -
    have "distinct (map fst (as @ [(nonce h, fi_now f)]))"
      unfolding o(2) by (rule of_nat_word_distinct) (use that in simp)
    then show ?thesis by auto
  qed
  with as o(1) show ?thesis by blast
qed

section \<open>Commands\<close>






lemma first_schedule_in: "first_schedule cs = Some i \<Longrightarrow> PendingSchedule i \<in> set cs"
  by (induction cs) (auto split: pending_command.splits)






lemma drop_pending_storage [simp]:
  "gw_storage (drop_pending i p g) = gw_storage g" "gw_storage (purge_pending i h g) = gw_storage g"
  by (simp_all add: drop_pending_def purge_pending_def Let_def split: option.splits)

text \<open>What is waiting, by priority: the queued one-off program, if the node can run it; the assigned program, if it is
  another than the node's and the node can run it. \<open>unrunnable\<close>: a queued program that the node never can run.\<close>

fun is_ephemeral :: "pending_command \<Rightarrow> bool" where
  "is_ephemeral (PendingEphemeral _) = True" | "is_ephemeral _ = False"

definition others :: "pending_command list \<Rightarrow> pending_command list" where
  "others q = filter (\<lambda>c. \<not> is_ephemeral c) q"














lemma count_others: "\<not> is_ephemeral c \<Longrightarrow> others q' = others q \<Longrightarrow> count (mset q') c = count (mset q) c"
  unfolding others_def by (metis (mono_tags, lifting) count_filter_mset mset_filter)




section \<open>Registration\<close>

text \<open>The request of a phone that the gateway has stored under the frame's key hint and not revoked, fresh, for a
  key with the right hint.\<close>

definition valid_pairing :: "'s gateway_env \<Rightarrow> frame_in \<Rightarrow> decoded_frame \<Rightarrow> 's gateway \<Rightarrow> phone_psk_record \<Rightarrow> pairing_request \<Rightarrow> bool" where
  "valid_pairing env f d g phone pr \<longleftrightarrow>
     (\<exists>phones. sa_get_phone_psks_by_key_hint (ge_storage env) (key_hint (df_header d)) (gw_storage g) = Inr phones \<and>
        phone \<in> set phones) \<and>
     ph_status phone = Active \<and>
     (\<exists>payload. open_frame d (ph_psk phone) (ge_open env) (ge_sha env) = Inr payload \<and>
        open_pairing_request env (ph_psk phone) payload = Some pr) \<and>
     abs_diff (unat (wall_secs f)) (unat (pq_timestamp pr)) \<le> MAX_TIMESTAMP_DRIFT_S \<and>
     pq_node_key_hint pr = key_hint_from_psk (pq_node_psk pr) (ge_sha env)"

lemma find_phone_active:
  assumes "find_phone env d g = Some (phone, payload)"
  shows "ph_status phone = Active \<and> open_frame d (ph_psk phone) (ge_open env) (ge_sha env) = Inr payload \<and>
    (\<exists>phones. sa_get_phone_psks_by_key_hint (ge_storage env) (key_hint (df_header d)) (gw_storage g) = Inr phones \<and>
       phone \<in> set phones)"
  using assms by (auto simp: find_phone_def phone_key_def dest!: try_keys_Some split: sum.splits phone_psk_status.splits)

lemma pairing_record_fields [simp]:
  "gn_node_id (pairing_record pr p) = pq_node_id pr" "gn_psk (pairing_record pr p) = pq_node_psk pr"
  "gn_key_hint (pairing_record pr p) = pq_node_key_hint pr"
  by (simp_all add: pairing_record_def node_record_new_def)

context node_registry
begin

lemma register_view:
  assumes "ge_storage env = api" and "ok (gw_storage g)" and "register_node env r g = (b, g')"
  shows "ok (gw_storage g')"
    and "view (gw_storage g') = view (gw_storage g) \<or>
      view (gw_storage g) (gn_node_id r) = None \<and> view (gw_storage g') = (view (gw_storage g))(gn_node_id r \<mapsto> r)"
    and "b \<Longrightarrow> \<exists>n. view (gw_storage g') (gn_node_id r) = Some n \<and> gn_psk n = gn_psk r"
proof -
  obtain q s' where q: "sa_insert_node_if_not_exists api r (gw_storage g) = (q, s')" by fastforce
  note v = insert_view [OF assms(2) q]
  have g': "gw_storage g' = s'"
    using assms(1,3) q by (auto simp: register_node_def on_store_def split: sum.splits bool.splits option.splits)
  then show "ok (gw_storage g')" using v by simp
  show "view (gw_storage g') = view (gw_storage g) \<or>
      view (gw_storage g) (gn_node_id r) = None \<and> view (gw_storage g') = (view (gw_storage g))(gn_node_id r \<mapsto> r)"
    using v g' by (auto split: sum.splits if_splits)
  show "\<exists>n. view (gw_storage g') (gn_node_id r) = Some n \<and> gn_psk n = gn_psk r" if b
    using assms(1,3) q v g' that
    by (auto simp: register_node_def on_store_def split: sum.splits bool.splits option.splits if_splits dest!: get_view)
qed

lemma peer_request_view:
  assumes "ge_storage env = api" and "ok (gw_storage g)" and "handle_peer_request env f d g = (reply, g')"
  shows "(view (gw_storage g') = view (gw_storage g) \<or>
     (\<exists>phone pr. valid_pairing env f d g phone pr \<and> view (gw_storage g) (pq_node_id pr) = None \<and>
        view (gw_storage g') = (view (gw_storage g))(pq_node_id pr \<mapsto> pairing_record pr (ph_phone_id phone)))) \<and>
    (reply \<noteq> None \<longrightarrow> (\<exists>phone pr n. valid_pairing env f d g phone pr \<and>
        view (gw_storage g') (pq_node_id pr) = Some n \<and> gn_psk n = pq_node_psk pr))"
proof (cases "view (gw_storage g') = view (gw_storage g) \<and> reply = None")
  case False
  then obtain phone payload pr b g1 where p: "find_phone env d g = Some (phone, payload)"
      "open_pairing_request env (ph_psk phone) payload = Some pr"
      "\<not> abs_diff (unat (wall_secs f)) (unat (pq_timestamp pr)) > MAX_TIMESTAMP_DRIFT_S"
      "pq_node_key_hint pr = key_hint_from_psk (pq_node_psk pr) (ge_sha env)"
      "register_node env (pairing_record pr (ph_phone_id phone)) g = (b, g1)" "g' = g1" "reply \<noteq> None \<Longrightarrow> b"
    using assms(3) by (auto simp: handle_peer_request_def split: option.splits prod.splits if_splits bool.splits sum.splits)
  then have "valid_pairing env f d g phone pr"
    using find_phone_active [OF p(1)] by (auto simp: valid_pairing_def)
  with register_view [OF assms(1,2) p(5)] p(6,7) show ?thesis by auto
qed auto

end

text \<open>C11. Registration by phone: a PEER_REQUEST never changes a registered node. At most the one node it names is
  added, with the key in the request, and only for a phone that the gateway has stored under the
  key hint of the frame and not revoked, within a day of the gateway's clock, with a key hint that is that of the key. It is acknowledged only if the node is
  registered with the requested key afterwards.\<close>

theorem registration_safe:
  assumes "node_registry (ge_storage env) ok view" and "ok (gw_storage g)"
    and "decode_frame (fi_raw f) = Inr d" and "msg_type (df_header d) = MSG_PEER_REQUEST"
    and "process_frame env f g = (reply, g')"
  shows "(view (gw_storage g') = view (gw_storage g) \<or>
     (\<exists>phone pr. valid_pairing env f d g phone pr \<and> view (gw_storage g) (pq_node_id pr) = None \<and>
        view (gw_storage g') = (view (gw_storage g))(pq_node_id pr \<mapsto> pairing_record pr (ph_phone_id phone)))) \<and>
    (reply \<noteq> None \<longrightarrow> (\<exists>phone pr n. valid_pairing env f d g phone pr \<and>
        view (gw_storage g') (pq_node_id pr) = Some n \<and> gn_psk n = pq_node_psk pr))"
  using node_registry.peer_request_view [OF assms(1) refl assms(2), of f d reply g'] assms(3-5)
  by (simp add: process_frame_def)

section \<open>Housekeeping\<close>

lemma parse_digits_append:
  "parse_digits a (cs @ ds) = Option.bind (parse_digits a cs) (\<lambda>b. parse_digits b ds)"
  by (induction cs arbitrary: a) (auto split: option.splits)

lemma parse_dec_string:
  assumes "n \<le> 255"
  shows "parse_digits 0 (dec_string n) = Some n"
  using assms
proof (induction n rule: less_induct)
  case (less n)
  have digit: "dec_digit (char_of (48 + n mod 10)) = Some (n mod 10)"
    by (simp add: dec_digit_def less_eq_char_def)
  have "parse_digits 0 (if n < 10 then [] else dec_string (n div 10)) = Some (n div 10)"
    using less by simp
  then show ?case
    using less.prems by (subst dec_string.simps) (simp add: parse_digits_append digit)
qed

lemma parse_u8_dec_string: "parse_u8 (dec_string (unat w)) = Some (w :: u8)"
proof -
  have "unat w \<le> 255" using unsigned_less [of w, where 'a = nat] by simp
  moreover obtain c cs where c: "dec_string (unat w) = c # cs" by (metis append_is_Nil_conv dec_string.simps list.discI list.exhaust)
  moreover have "c \<noteq> CHR ''+''"
  proof
    assume "c = CHR ''+''"
    then have "parse_digits 0 (c # cs) = None" by (simp add: dec_digit_def less_eq_char_def)
    with parse_dec_string [OF \<open>unat w \<le> 255\<close>] c show False by simp
  qed
  ultimately show ?thesis using parse_dec_string [of "unat w"] by (simp add: parse_u8_def)
qed

text \<open>What the channel resolution relies on: a value that was stored is read back.\<close>

locale config_store =
  fixes api :: "'s storage_api"
  assumes set_get: "sa_set_config api k v s = (Inr u, s') \<Longrightarrow> sa_get_config api k s' = Inr (Some v)"
begin

lemma channel_persists:
  assumes "resolve_espnow_channel api cli s = (Inr channel, s')"
  shows "1 \<le> channel \<and> channel \<le> 14 \<and> (1 \<le> cli' \<and> cli' \<le> 14 \<longrightarrow> resolve_espnow_channel api cli' s' = (Inr channel, s'))"
  using assms set_get
  by (auto simp: resolve_espnow_channel_def parse_u8_dec_string split: if_splits sum.splits option.splits prod.splits)

end

interpretation mem_config: config_store mem_api
  by unfold_locales (auto simp: mem_api_def get_config_def set_config_def update_conv')

text \<open>The radio channel is chosen once: a resolved channel is between 1 and 14, and every later resolution,
  whatever valid channel the command line gives, returns it again and writes nothing.\<close>

theorem espnow_channel_stable:
  assumes "config_store api" and "resolve_espnow_channel api cli s = (Inr channel, s')" and "1 \<le> cli'" and "cli' \<le> 14"
  shows "1 \<le> channel \<and> channel \<le> 14 \<and> resolve_espnow_channel api cli' s' = (Inr channel, s')"
  using config_store.channel_persists [OF assms(1,2)] assms(3,4) by blast

theorem espnow_channel_stable_witness:
  "\<exists>s. resolve_espnow_channel mem_api 6 mem_new = (Inr 6, s) \<and> resolve_espnow_channel mem_api 11 s = (Inr 6, s)"
proof -
  have "\<exists>s. resolve_espnow_channel mem_api 6 mem_new = (Inr 6, s)"
    by (simp add: resolve_espnow_channel_def mem_api_def get_config_def set_config_def mem_new_def)
  with espnow_channel_stable [OF mem_config.config_store_axioms, of 6 mem_new 6 _ 11] show ?thesis by fastforce
qed

section \<open>Examples\<close>

definition demo_genv :: "mem_storage gateway_env" where
  "demo_genv = \<lparr>ge_seal = plain_seal, ge_open = plain_open, ge_sha = \<lambda>_. replicate 32 0, ge_ser = rfc_ser, ge_de = rfc_de,
     ge_storage = mem_api, ge_recovery = None, ge_decoder = \<lambda>_ _. None, ge_reply = \<lambda>_ _. None\<rparr>"

definition demo_gateway :: "mem_storage \<Rightarrow> mem_storage gateway" where
  "demo_gateway s = \<lparr>gw_storage = s, gw_sessions = session_manager_new 10, gw_pending = Map.empty, gw_router = [],
     gw_deferred = Map.empty, gw_hints = tracker_new, gw_hint_notifications = 0, gw_master_key_id = None, gw_connector = [],
     gw_handler_events = [], gw_jobs = []\<rparr>"

definition demo_frame_in :: "bytes \<Rightarrow> frame_in" where
  "demo_frame_in raw = \<lparr>fi_raw = raw, fi_peer = replicate 6 1, fi_rssi = Some 200, fi_now = 0, fi_wall_ms = 5000, fi_random = Some 40\<rparr>"

theorem unauthenticated_frame_ignored_witness:
  "process_frame demo_genv (demo_frame_in (replicate 27 0)) (demo_gateway mem_new) =
     (None, report_missing_hint (demo_frame_in (replicate 27 0)) 0 (demo_gateway mem_new))"
proof -
  let ?f = "demo_frame_in (replicate 27 0)" let ?g = "demo_gateway mem_new"
  obtain d where d: "decode_frame (fi_raw ?f) = Inr d" "key_hint (df_header d) = 0" "msg_type (df_header d) = 0"
    by (simp add: demo_frame_in_def decode_frame_def frame_consts header_from_bytes_def from_be_bytes_def numeral_eq_Suc)
  have "known_keys demo_genv 0 ?g = {}"
    by (simp add: known_keys_def demo_genv_def demo_gateway_def mem_api_def mem_new_def get_nodes_by_key_hint_def
        get_phone_psks_by_key_hint_def)
  then have "\<not> opens_with demo_genv d (known_keys demo_genv (key_hint (df_header d)) ?g)" by (simp add: opens_with_def d(2))
  note u = unauthenticated_frame_ignored [OF d(1) this surjective_pairing]
  have "snd (process_frame demo_genv ?f ?g) = report_missing_hint ?f 0 ?g"
    using d by (simp add: process_frame_def try_recovery_auth_def demo_genv_def demo_gateway_def mem_api_def mem_new_def
        get_nodes_by_key_hint_def message_consts Let_def)
  with u show ?thesis by (metis prod.collapse)
qed




definition demo_phone :: phone_psk_record where
  "demo_phone = \<lparr>ph_phone_id = 1, ph_key_hint = 3, ph_psk = replicate 32 9, ph_label = ''phone'', ph_issued_at = 0,
     ph_status = Active, ph_key_version = 1\<rparr>"

text \<open>A request to register the node \<open>n1\<close> on channel 6, at the gateway's time.\<close>

definition demo_request :: cbor_value where
  "demo_request = CborMap [(CborInt 1, CborText ''n1''), (CborInt 2, CborInt 0), (CborInt 3, CborBytes (replicate 32 7)),
     (CborInt 4, CborInt 6), (CborInt 6, CborInt 5)]"

definition demo_peer_payload :: bytes where
  "demo_peer_payload = rfc_encode (CborMap [(CborInt 1, CborBytes (replicate 12 0 @ rfc_encode demo_request @ replicate 16 0))])"

lemma rfc_de_encode: "cbor_wf v \<Longrightarrow> rfc_de (rfc_encode v) = Inr v"
  using rfc_faithful by (auto simp: cbor_faithful_def rfc_ser_def)

lemma demo_request_parsed:
  "open_pairing_request demo_genv psk demo_peer_payload =
     Some \<lparr>pq_node_id = ''n1'', pq_node_key_hint = 0, pq_node_psk = replicate 32 7, pq_rf_channel = 6, pq_timestamp = 5,
       pq_sensors = []\<rparr>"
proof -
  have "rfc_de (rfc_encode demo_request) = Inr demo_request"
    by (rule rfc_de_encode) (simp add: demo_request_def is_ascii_def)
  then have parse: "parse_pairing_request rfc_de (rfc_encode demo_request) =
      Some \<lparr>pq_node_id = ''n1'', pq_node_key_hint = 0, pq_node_psk = replicate 32 7, pq_rf_channel = 6, pq_timestamp = 5,
        pq_sensors = []\<rparr>"
    by (simp add: parse_pairing_request_def) (simp add: demo_request_def cbor_u64_def pairing_field_def cbor_narrow_def to_unsigned_def)
  have "plain_seal k n a (rfc_encode demo_request) = rfc_encode demo_request @ replicate 16 0" for k n a
    by (simp add: plain_seal_def frame_consts)
  then have unseal: "plain_open k n a (rfc_encode demo_request @ replicate 16 0) = Some (rfc_encode demo_request)" for k n a
    using plain_aead(1) by (metis aead_correct_def)
  have "length (rfc_encode demo_request) < 200" by (simp add: demo_request_def rfc_head_def)
  then have "rfc_de demo_peer_payload = Inr (CborMap [(CborInt 1, CborBytes (replicate 12 0 @ rfc_encode demo_request @ replicate 16 0))])"
    unfolding demo_peer_payload_def by (intro rfc_de_encode) simp
  then show ?thesis
    by (simp add: open_pairing_request_def demo_genv_def payload_field_def cbor_u64_def to_unsigned_def PEER_REQ_KEY_PAYLOAD_def
        unseal parse)
qed

theorem registration_safe_witness:
  "\<exists>f reply g' phone pr. process_frame demo_genv f (demo_gateway (mem_new\<lparr>ms_phone_psks := [demo_phone]\<rparr>)) = (Some reply, g') \<and>
     valid_pairing demo_genv f (projr (decode_frame (fi_raw f))) (demo_gateway (mem_new\<lparr>ms_phone_psks := [demo_phone]\<rparr>)) phone pr \<and>
     map_option gn_psk (mem_view (gw_storage g') (pq_node_id pr)) = Some (pq_node_psk pr)"
proof -
  let ?g = "demo_gateway (mem_new\<lparr>ms_phone_psks := [demo_phone]\<rparr>)"
  let ?h = "\<lparr>key_hint = 3, msg_type = MSG_PEER_REQUEST, nonce = 4\<rparr>"
  have "length demo_peer_payload \<le> MAX_PAYLOAD_SIZE"
    by (simp add: demo_peer_payload_def demo_request_def rfc_head_def frame_consts)
  then obtain raw d where d: "decode_frame raw = Inr d" "df_header d = ?h"
      "open_frame d (replicate 32 9) plain_open (\<lambda>_. replicate 32 0) = Inr demo_peer_payload"
    using encode_frame_opens [OF plain_aead(1,2), of demo_peer_payload ?h "replicate 32 9" "\<lambda>_. replicate 32 0"] by blast
  let ?f = "demo_frame_in raw"
  have phone: "find_phone demo_genv d ?g = Some (demo_phone, demo_peer_payload)"
    using d by (simp add: find_phone_def demo_genv_def demo_gateway_def mem_api_def mem_new_def get_phone_psks_by_key_hint_def
        demo_phone_def phone_key_def)
  have "length (rfc_encode peer_ack_value) \<le> MAX_PAYLOAD_SIZE"
    by (simp add: peer_ack_value_def rfc_head_def PEER_ACK_KEY_STATUS_def frame_consts)
  from encode_frame_opens [OF plain_aead(1,2) this, of "\<lparr>key_hint = 0, msg_type = MSG_PEER_ACK, nonce = 4\<rparr>" "replicate 32 7" "\<lambda>_. replicate 32 0"]
  obtain ack where ack: "encode_response demo_genv \<lparr>key_hint = 0, msg_type = MSG_PEER_ACK, nonce = 4\<rparr> (rfc_encode peer_ack_value) (replicate 32 7) = Some ack"
    by (auto simp: encode_response_def demo_genv_def)
  have reg: "\<exists>g1. register_node demo_genv (pairing_record pr i) ?g = (True, g1)" for pr i
    by (simp add: register_node_def on_store_def demo_genv_def demo_gateway_def mem_api_def mem_new_def insert_node_if_not_exists_def)
  have "key_hint_from_psk (replicate 32 7) (ge_sha demo_genv) = 0" "unat (wall_secs ?f) = 5" "ge_ser demo_genv peer_ack_value = Inr (rfc_encode peer_ack_value)"
    by (simp_all add: key_hint_from_psk_def demo_genv_def from_be_bytes_def wall_secs_def demo_frame_in_def rfc_ser_def)
  moreover obtain g1 where "register_node demo_genv (pairing_record \<lparr>pq_node_id = ''n1'', pq_node_key_hint = 0,
      pq_node_psk = replicate 32 7, pq_rf_channel = 6, pq_timestamp = 5, pq_sensors = []\<rparr> (ph_phone_id demo_phone)) ?g = (True, g1)"
    using reg by blast
  ultimately have "\<exists>g'. handle_peer_request demo_genv ?f d ?g = (Some ack, g')"
    using d(2) ack by (simp add: handle_peer_request_def phone demo_request_parsed abs_diff_def)
  then have "\<exists>g'. process_frame demo_genv ?f ?g = (Some ack, g')"
    using d by (simp add: process_frame_def demo_frame_in_def)
  then obtain g' where g': "process_frame demo_genv ?f ?g = (Some ack, g')" by blast
  have "node_registry (ge_storage demo_genv) mem_ok mem_view" using mem.node_registry_axioms by (simp add: demo_genv_def)
  moreover have "mem_ok (gw_storage ?g)" by (simp add: demo_gateway_def mem_new_def mem_ok_def)
  moreover have "decode_frame (fi_raw ?f) = Inr d" "msg_type (df_header d) = MSG_PEER_REQUEST" using d by (simp_all add: demo_frame_in_def)
  ultimately have "\<exists>phone pr n. valid_pairing demo_genv ?f d ?g phone pr \<and> mem_view (gw_storage g') (pq_node_id pr) = Some n \<and> gn_psk n = pq_node_psk pr"
    using registration_safe [of demo_genv mem_ok mem_view ?g ?f d "Some ack" g'] g' by blast
  with g' d(1) show ?thesis by (fastforce simp: demo_frame_in_def)
qed

end
