(* ===== verification/End_To_End.thy ===== *)
theory End_To_End
  imports Cycle_Correct Gateway_Correct
begin

text \<open>
  Node and gateway together: the frames the node makes are dispatched by the gateway to the node's record,
  what the gateway answers is what the node expects, and a program update runs from the WAKE to the
  acknowledgement. The registry and the library of the gateway are an interface
  (\<open>program_library\<close>), implemented by the storage in memory.
\<close>

section \<open>Common ground\<close>

definition same_providers :: "node_env \<Rightarrow> 's gateway_env \<Rightarrow> bool" where
  "same_providers env genv \<longleftrightarrow> ge_seal genv = en_seal env \<and> ge_open genv = en_open env \<and> ge_sha genv = en_sha env \<and>
     ge_ser genv = en_ser env \<and> ge_de genv = en_de env"

definition holds_key :: "node_record \<Rightarrow> node_identity \<Rightarrow> bool" where
  "holds_key node ident \<longleftrightarrow> gn_psk node = id_psk ident \<and> gn_key_hint node = id_key_hint ident"

text \<open>The CBOR of the messages of a transfer fits a frame.\<close>

definition messages_fit :: "node_env \<Rightarrow> bool" where
  "messages_fit env \<longleftrightarrow>
     (\<forall>ci d. length d \<le> unat DEFAULT_CHUNK_SIZE \<longrightarrow>
        (\<exists>p. gateway_message_encode (en_ser env) (Chunk ci d) = Inr p \<and> length p \<le> MAX_PAYLOAD_SIZE)) \<and>
     (\<forall>seq ts h ps cs cc. length h \<le> 32 \<longrightarrow>
        (\<exists>p. gateway_message_encode (en_ser env) (Command seq ts (UpdateProgram h ps cs cc) None) = Inr p \<and>
             length p \<le> MAX_PAYLOAD_SIZE)) \<and>
     (\<forall>h. length h \<le> 32 \<longrightarrow>
        (\<exists>p. node_message_encode (en_ser env) (ProgramAck h) = Inr p \<and> length p \<le> MAX_PAYLOAD_SIZE)) \<and>
     requests_fit env"

text \<open>The gateway works through a sequence of frames.\<close>

primrec serve :: "'s gateway_env \<Rightarrow> frame_in list \<Rightarrow> 's gateway \<Rightarrow> bytes option list \<times> 's gateway" where
  "serve env [] g = ([], g)"
| "serve env (f # fs) g =
     (case process_frame env f g of (r, g1) \<Rightarrow> (case serve env fs g1 of (rs, g2) \<Rightarrow> (r # rs, g2)))"

lemma serve_append:
  "serve env (fs @ fs') g = (case serve env fs g of (rs, g1) \<Rightarrow> (case serve env fs' g1 of (rs', g2) \<Rightarrow> (rs @ rs', g2)))"
  by (induction fs arbitrary: g) (auto split: prod.splits)

lemma gateway_reply:
  assumes "same_providers env genv" and "holds_key node ident" and "gateway_frame env ident n m raw"
  shows "\<exists>p. gateway_message_encode (ge_ser genv) m = Inr p \<and>
    encode_response genv \<lparr>key_hint = gn_key_hint node, msg_type = gateway_message_type m, nonce = n\<rparr> p (gn_psk node) = Some raw"
  using assms by (auto simp: gateway_frame_def same_providers_def holds_key_def encode_response_def)

lemma encoded_frame:
  assumes "providers_ok env" and "gateway_message_encode (en_ser env) m = Inr p" and "length p \<le> MAX_PAYLOAD_SIZE"
  shows "\<exists>raw. gateway_frame env ident n m raw"
proof -
  have "aead_correct (en_seal env) (en_open env)" "aead_expands (en_seal env)"
    using assms(1) by (simp_all add: providers_ok_def)
  from encode_frame_opens [OF this assms(3)] assms(2) show ?thesis unfolding gateway_frame_def by blast
qed

lemma make_frame_Inr:
  "make_frame env ident t n p = Inr f \<longleftrightarrow>
     encode_frame \<lparr>key_hint = id_key_hint ident, msg_type = t, nonce = n\<rparr> p (id_psk ident) (en_seal env) (en_sha env) = Inr f"
  by (simp add: make_frame_def split: sum.splits)

lemma node_frame_opens:
  assumes "providers_ok env" and "node_message_ok m" and "node_frame env ident n m raw"
  shows "\<exists>d p. decode_frame raw = Inr d \<and> df_header d = \<lparr>key_hint = id_key_hint ident, msg_type = node_message_type m, nonce = n\<rparr> \<and>
    open_frame d (id_psk ident) (en_open env) (en_sha env) = Inr p \<and> node_message_decode (en_de env) (node_message_type m) p = Inr m"
proof -
  let ?h = "\<lparr>key_hint = id_key_hint ident, msg_type = node_message_type m, nonce = n\<rparr>"
  obtain p where p: "node_message_encode (en_ser env) m = Inr p"
      "encode_frame ?h p (id_psk ident) (en_seal env) (en_sha env) = Inr raw"
    using assms(3) by (auto simp: node_frame_def make_frame_Inr)
  have "length p \<le> MAX_PAYLOAD_SIZE"
    using p(2) by (auto simp: encode_frame_def Let_def frame_consts split: if_splits)
  with encode_frame_opens [of "en_seal env" "en_open env" p ?h "id_psk ident" "en_sha env"] assms(1) p(2)
  obtain d where "decode_frame raw = Inr d" "df_header d = ?h" "open_frame d (id_psk ident) (en_open env) (en_sha env) = Inr p"
    by (auto simp: providers_ok_def)
  moreover have "node_message_decode (en_de env) (node_message_type m) p = Inr m"
    using node_encode_decode [of "en_ser env" "en_de env" m] assms(1,2) p(1) by (auto simp: providers_ok_def)
  ultimately show ?thesis by blast
qed

section \<open>Sessions under way\<close>

text \<open>A transfer under way, with the number of the next request, opened at a time.\<close>

definition transferring :: "session_manager \<Rightarrow> string \<Rightarrow> bytes \<Rightarrow> u64 \<Rightarrow> nat \<Rightarrow> bool" where
  "transferring m i ph n t0 \<longleftrightarrow> (\<exists>s ps cc eph. get_session i m = Some s \<and>
     ss_state s = ChunkedTransfer ph ps DEFAULT_CHUNK_SIZE cc eph \<and> ss_next_expected_seq s = n \<and> ss_created_at s = t0)"

lemma transferring_advance:
  assumes "transferring m i ph n t0" and "now - t0 \<le> sm_timeout m"
  shows "\<exists>m'. verify_and_advance_seq now i n m = (Inr (), m') \<and> transferring m' i ph (n + 1) t0 \<and> sm_timeout m' = sm_timeout m"
  using assms by (auto simp: transferring_def verify_and_advance_seq_def get_session_def expired_def update_conv')

text \<open>An update of the node is due: no one-off program is waiting, and the assigned program, which fits the
  node's ABI, is not the one it reports.\<close>

definition offers_update :: "'s gateway \<Rightarrow> node_record \<Rightarrow> bytes \<Rightarrow> u32 \<Rightarrow> program_record \<Rightarrow> u32 \<Rightarrow> bool" where
  "offers_update g node ph abi p cc \<longleftrightarrow>
     Option.bind (gw_pending g (gn_node_id node)) first_ephemeral = None \<and>
     gn_assigned_program_hash node = Some (gp_hash p) \<and> gp_hash p \<noteq> ph \<and> \<not> abi_mismatch p abi \<and>
     gp_size p = of_nat (length (gp_image p)) \<and> chunk_count (length (gp_image p)) (unat DEFAULT_CHUNK_SIZE) = Some cc"

lemma quiet_storage:
  "gw_storage (broadcast_event msg g) = gw_storage g" "gw_storage (emit_connector e g) = gw_storage g"
  "gw_storage (route_wake_blob env f node h ph blob g) = gw_storage g"
  by (simp_all add: broadcast_event_def emit_connector_def route_wake_blob_def Let_def split: option.splits)

context program_library
begin

lemma frame_dispatched:
  assumes ok: "providers_ok env" "same_providers env genv" "ge_storage genv = api"
    and n: "ok (gw_storage g)" "sole_node (gw_storage g) node" "holds_key node ident"
    and m: "node_message_ok m" "node_frame env ident seq m (fi_raw f)" "\<And>t. m \<noteq> DiagRequest t"
  shows "\<exists>p. node_message_decode (ge_de genv) (node_message_type m) p = Inr m \<and>
    process_frame genv f g = dispatch_frame genv f node \<lparr>key_hint = id_key_hint ident, msg_type = node_message_type m, nonce = seq\<rparr> p g \<and>
    sender genv f g = Some (node, \<lparr>key_hint = id_key_hint ident, msg_type = node_message_type m, nonce = seq\<rparr>, p)"
proof -
  let ?h = "\<lparr>key_hint = id_key_hint ident, msg_type = node_message_type m, nonce = seq\<rparr>"
  obtain d p where d: "decode_frame (fi_raw f) = Inr d" "df_header d = ?h"
      "open_frame d (id_psk ident) (en_open env) (en_sha env) = Inr p" "node_message_decode (en_de env) (node_message_type m) p = Inr m"
    using node_frame_opens [OF ok(1) m(1,2)] by blast
  have t: "node_message_type m \<noteq> MSG_PEER_REQUEST" "node_message_type m \<noteq> MSG_DIAG_REQUEST"
    using m(3) by (cases m; simp add: message_consts)+
  obtain k where k: "sa_get_nodes_by_key_hint api (id_key_hint ident) (gw_storage g) = Inr (replicate (Suc k) node)"
    using sole_lookup [OF n(1,2)] n(3) by (auto simp: holds_key_def)
  have "process_frame genv f g = dispatch_frame genv f node ?h p g \<and> sender genv f g = Some (node, ?h, p)"
    using d t k ok(2,3) n(3) by (simp add: process_frame_def sender_def same_providers_def holds_key_def)
  with d(4) ok(2) show ?thesis by (auto simp: same_providers_def)
qed

lemma chunk_served:
  assumes ok: "providers_ok env" "same_providers env genv" "ge_storage genv = api"
    and n: "ok (gw_storage g)" "sole_node (gw_storage g) node" "holds_key node ident"
    and t: "transferring (gw_sessions g) (gn_node_id node) h seq t0" "fi_now f - t0 \<le> sm_timeout (gw_sessions g)"
    and p: "prog (gw_storage g) h = Some p" "get_chunk GATEWAY_USIZE_MAX (gp_image p) ci DEFAULT_CHUNK_SIZE = Some d"
    and f: "node_frame env ident seq (GetChunk ci) (fi_raw f)" "gateway_frame env ident seq (Chunk ci d) raw"
  shows "\<exists>m. process_frame genv f g = (Some raw, g\<lparr>gw_sessions := m\<rparr>) \<and> transferring m (gn_node_id node) h (seq + 1) t0 \<and>
    sm_timeout m = sm_timeout (gw_sessions g)"
proof -
  obtain m where m: "verify_and_advance_seq (fi_now f) (gn_node_id node) seq (gw_sessions g) = (Inr (), m)"
      "transferring m (gn_node_id node) h (seq + 1) t0" "sm_timeout m = sm_timeout (gw_sessions g)"
    using transferring_advance [OF t] by blast
  obtain pl where pl: "node_message_decode (ge_de genv) MSG_GET_CHUNK pl = Inr (GetChunk ci)"
      "process_frame genv f g = dispatch_frame genv f node \<lparr>key_hint = id_key_hint ident, msg_type = MSG_GET_CHUNK, nonce = seq\<rparr> pl g"
    using frame_dispatched [OF ok n _ f(1)] by auto
  obtain c where c: "gateway_message_encode (ge_ser genv) (Chunk ci d) = Inr c"
      "encode_response genv \<lparr>key_hint = gn_key_hint node, msg_type = MSG_CHUNK, nonce = seq\<rparr> c (gn_psk node) = Some raw"
    using gateway_reply [OF ok(2) n(3) f(2)] by auto
  have "handle_get_chunk genv node \<lparr>key_hint = id_key_hint ident, msg_type = MSG_GET_CHUNK, nonce = seq\<rparr> ci (g\<lparr>gw_sessions := m\<rparr>) = Some raw"
    using m(2) p c ok(3) get_prog by (auto simp: handle_get_chunk_def transferring_def)
  with pl m(1) have "process_frame genv f g = (Some raw, g\<lparr>gw_sessions := m\<rparr>)"
    by (simp add: dispatch_frame_def handle_post_wake_def message_consts)
  with m(2,3) show ?thesis by blast
qed

lemma chunks_served:
  assumes ok: "providers_ok env" "same_providers env genv" "ge_storage genv = api"
    and n: "ok (gw_storage g)" "sole_node (gw_storage g) node" "holds_key node ident"
    and t: "transferring (gw_sessions g) (gn_node_id node) h (s0 + of_nat k) t0"
      "\<And>i. i < n \<Longrightarrow> fi_now (fr i) - t0 \<le> sm_timeout (gw_sessions g)"
    and p: "prog (gw_storage g) h = Some p"
    and f: "\<And>i. i < n \<Longrightarrow> \<exists>d. get_chunk GATEWAY_USIZE_MAX (gp_image p) (of_nat i) DEFAULT_CHUNK_SIZE = Some d \<and>
      gateway_frame env ident (s0 + of_nat i) (Chunk (of_nat i) d) (reply i) \<and>
      node_frame env ident (s0 + of_nat i) (GetChunk (of_nat i)) (fi_raw (fr i))"
    and kn: "k \<le> n"
  shows "\<exists>m. serve genv (map fr [k..<n]) g = (map (\<lambda>i. Some (reply i)) [k..<n], g\<lparr>gw_sessions := m\<rparr>) \<and>
    transferring m (gn_node_id node) h (s0 + of_nat n) t0 \<and> sm_timeout m = sm_timeout (gw_sessions g)"
  using kn n t p
proof (induction k arbitrary: g rule: inc_induct)
  case base
  then show ?case by (intro exI [of _ "gw_sessions g"]) simp
next
  case (step k)
  have upt: "[k..<n] = k # [Suc k..<n]" using step.hyps by (simp add: upt_conv_Cons)
  obtain d where d: "get_chunk GATEWAY_USIZE_MAX (gp_image p) (of_nat k) DEFAULT_CHUNK_SIZE = Some d"
      "node_frame env ident (s0 + of_nat k) (GetChunk (of_nat k)) (fi_raw (fr k))"
      "gateway_frame env ident (s0 + of_nat k) (Chunk (of_nat k) d) (reply k)"
    using f [OF step.hyps(2)] by blast
  obtain m where m: "process_frame genv (fr k) g = (Some (reply k), g\<lparr>gw_sessions := m\<rparr>)"
      "transferring m (gn_node_id node) h (s0 + of_nat k + 1) t0" "sm_timeout m = sm_timeout (gw_sessions g)"
    using chunk_served [OF ok step.prems(1-4) step.prems(5) [OF step.hyps(2)] step.prems(6) d] by blast
  have "\<exists>m'. serve genv (map fr [Suc k..<n]) (g\<lparr>gw_sessions := m\<rparr>) =
      (map (\<lambda>i. Some (reply i)) [Suc k..<n], g\<lparr>gw_sessions := m\<rparr>\<lparr>gw_sessions := m'\<rparr>) \<and>
    transferring m' (gn_node_id node) h (s0 + of_nat n) t0 \<and> sm_timeout m' = sm_timeout (gw_sessions (g\<lparr>gw_sessions := m\<rparr>))"
    by (rule step.IH) (use step.prems m in \<open>simp_all add: ac_simps\<close>)
  with m upt show ?case by auto
qed

text \<open>The WAKE of a node whose assigned program is another than the one it runs.\<close>

lemma wake_served:
  assumes ok: "providers_ok env" "same_providers env genv" "ge_storage genv = api"
    and n: "ok (gw_storage g)" "sole_node (gw_storage g) node" "holds_key node ident"
    and u: "offers_update g node ph abi p cc" "prog (gw_storage g) (gp_hash p) = Some p"
    and new: "\<And>s. get_session (gn_node_id node) (gw_sessions g) = Some s \<Longrightarrow> ss_wake_nonce s \<noteq> wn" "fi_random f = Some seq"
    and w: "node_message_ok (Wake abi ph mv v blob)" "node_frame env ident wn (Wake abi ph mv v blob) (fi_raw f)"
    and r: "gateway_frame env ident wn (Command seq (wall_ms f) (UpdateProgram (gp_hash p) (gp_size p) DEFAULT_CHUNK_SIZE cc) None) raw"
  shows "\<exists>g' node'. process_frame genv f g = (Some raw, g') \<and> ok (gw_storage g') \<and> sole_node (gw_storage g') node' \<and>
    keeps_keys node node' \<and> prog (gw_storage g') = prog (gw_storage g) \<and>
    transferring (gw_sessions g') (gn_node_id node) (gp_hash p) seq (fi_now f) \<and> sm_timeout (gw_sessions g') = sm_timeout (gw_sessions g)"
proof -
  let ?i = "gn_node_id node"
  let ?h = "\<lparr>key_hint = id_key_hint ident, msg_type = MSG_WAKE, nonce = wn\<rparr>"
  let ?cmd = "UpdateProgram (gp_hash p) (gp_size p) DEFAULT_CHUNK_SIZE cc"
  obtain pl where pl: "node_message_decode (ge_de genv) MSG_WAKE pl = Inr (Wake abi ph mv v blob)"
      "process_frame genv f g = dispatch_frame genv f node ?h pl g"
    using frame_dispatched [OF ok n w] by auto
  define g1 where "g1 = on_sessions (\<lambda>m. snd (create_session (fi_now f) ?i (fi_peer f) wn seq m)) g"
  have s1: "wake_session f node ?h g = (Some (seq, None), g1)"
    using new by (auto simp: wake_session_def g1_def split: option.splits)
  have sel: "select_command genv node ph abi g1 = (Some ?cmd, g1)"
    using u ok(3) get_prog
    by (auto simp: select_command_def select_ephemeral_def select_update_def offers_update_def g1_def on_sessions_def
        map_option_case)
  define g2 where "g2 = enter_transfer ?i ?cmd g1"
  have g2: "transferring (gw_sessions g2) ?i (gp_hash p) seq (fi_now f)" "gw_storage g2 = gw_storage g"
      "sm_timeout (gw_sessions g2) = sm_timeout (gw_sessions g)"
    by (auto simp: g2_def g1_def enter_transfer_def on_sessions_def create_session_def set_state_def transferring_def
        get_session_def update_conv' Let_def)
  define g3 where "g3 = record_wake genv f node abi mv v g2"
  have g3: "same_sessions (gw_sessions g2) (gw_sessions g3)"
      "\<exists>r. sa_update_node_wake_metadata api ?i abi v (gw_storage g2) = (r, gw_storage g3)"
    using ok(3) unfolding g3_def record_wake_def by (auto simp: on_store_def on_sessions_def Let_def same_sessions_def record_last_seen_def record_battery_mv_def
        record_wake_rssi_dbm_def clear_last_seen_def clear_battery_mv_def clear_wake_rssi_dbm_def
        split: prod.splits sum.splits storage_error.splits option.splits)
  obtain c where c: "gateway_message_encode (ge_ser genv) (Command seq (wall_ms f) ?cmd None) = Inr c"
      "encode_response genv \<lparr>key_hint = gn_key_hint node, msg_type = MSG_COMMAND, nonce = wn\<rparr> c (gn_psk node) = Some raw"
    using gateway_reply [OF ok(2) n(3) r] by auto
  have "\<exists>g'. handle_wake genv f node ?h pl g = (Some raw, g') \<and> gw_storage g' = gw_storage g3 \<and> gw_sessions g' = gw_sessions g3"
    using pl(1) s1 sel c u(1)
    by (auto simp: handle_wake_def handle_wake_core_def Let_def gateway_simps reconcile_program_def offers_update_def
        quiet_storage g3_def g2_def)
  then obtain g' where g': "process_frame genv f g = (Some raw, g')" "gw_storage g' = gw_storage g3" "gw_sessions g' = gw_sessions g3"
    using pl(2) by (auto simp: dispatch_frame_def)
  obtain q where q: "sa_update_node_wake_metadata api ?i abi v (gw_storage g) = (q, gw_storage g')" using g3(2) g2(2) g'(2) by auto
  have vi: "view (gw_storage g) ?i = Some node" using n(2) unfolding sole_node_def by blast
  have "\<exists>node'. sole_node (gw_storage g') node' \<and> keeps_keys node node'"
  proof (cases q)
    case (Inl e)
    then have "view (gw_storage g') = view (gw_storage g)" using metadata_view [OF n(1) q] by simp
    with n(2) have "sole_node (gw_storage g') node" unfolding sole_node_def by simp
    then show ?thesis using keeps_keys_trivial(1) by blast
  next
    case (Inr x)
    then have "view (gw_storage g') = (view (gw_storage g))(?i \<mapsto> update_firmware_metadata abi v node)"
      using metadata_view [OF n(1) q] vi by auto
    from sole_node_update [OF n(2) keeps_keys_trivial(2) this] show ?thesis using keeps_keys_trivial(2) by blast
  qed
  moreover have "ok (gw_storage g')" using metadata_view [OF n(1) q] by simp
  moreover have "prog (gw_storage g') = prog (gw_storage g)" using metadata_prog [OF q] .
  ultimately show ?thesis
    using g'(1,3) g2(1,3) g3(1) by (auto simp: same_sessions_def transferring_def get_session_def)
qed

lemma ack_recorded:
  assumes ok: "providers_ok env" "same_providers env genv" "ge_storage genv = api"
    and n: "ok (gw_storage g)" "sole_node (gw_storage g) node" "holds_key node ident"
    and t: "transferring (gw_sessions g) (gn_node_id node) h seq t0" "fi_now f - t0 \<le> sm_timeout (gw_sessions g)"
    and f: "node_frame env ident seq (ProgramAck h) (fi_raw f)" "length h < 2 ^ 64"
  shows "\<exists>g'. process_frame genv f g = (None, g') \<and> view (gw_storage g') (gn_node_id node) = Some (confirm_program h node)"
proof -
  let ?i = "gn_node_id node"
  obtain m where m: "verify_and_advance_seq (fi_now f) ?i seq (gw_sessions g) = (Inr (), m)" "transferring m ?i h (seq + 1) t0"
    using transferring_advance [OF t] by blast
  obtain pl where pl: "node_message_decode (ge_de genv) MSG_PROGRAM_ACK pl = Inr (ProgramAck h)"
      "process_frame genv f g = dispatch_frame genv f node \<lparr>key_hint = id_key_hint ident, msg_type = MSG_PROGRAM_ACK, nonce = seq\<rparr> pl g"
    using frame_dispatched [OF ok n _ f(1)] f(2) by auto
  obtain r s' where u: "sa_upsert_node api (confirm_program h node) (gw_storage g) = (r, s')" by fastforce
  have v: "view s' ?i = Some (confirm_program h node)"
    using upsert_view [OF n(1) u] upsert_prog [OF u] by simp
  have "gw_storage (handle_program_ack genv f node h (g\<lparr>gw_sessions := m\<rparr>)) = s'"
    using m(2) u ok(3) by (auto simp: handle_program_ack_def transferring_def on_store_def on_sessions_def broadcast_event_def Let_def)
  moreover have "process_frame genv f g = (None, handle_program_ack genv f node h (g\<lparr>gw_sessions := m\<rparr>))"
    using pl m(1) by (simp add: dispatch_frame_def handle_post_wake_def message_consts)
  ultimately show ?thesis using v by simp
qed

end

section \<open>A program update\<close>

lemma wake_answered:
  assumes "providers_ok env" and "gateway_message_ok (Command seq ts cmd blob)"
    and "gateway_frame env ident wn (Command seq ts cmd blob) raw"
    and "node_frame env ident wn (wake_message env ph battery wblob) wake"
    and "rx_script w = RxFrame 0 raw # es" and "tx_script w = []"
  shows "wake_command_exchange env ident wn ph battery wblob w =
    (Inr (seq, ts, cmd, blob), w\<lparr>rx_script := es, sent := sent w @ [wake]\<rparr>)"
proof -
  obtain p where p: "node_message_encode (en_ser env) (wake_message env ph battery wblob) = Inr p"
      "make_frame env ident MSG_WAKE wn p = Inr wake"
    using assms(4) by (auto simp: node_frame_def wake_message_def)
  have "wake_attempts env ident wn wake 0 (Suc MAX_RETRIES) w =
      (Inr (seq, ts, cmd, blob), w\<lparr>rx_script := es, sent := sent w @ [wake]\<rparr>)"
    using assms(5,6) command_accepted [OF assms(1,2,3)]
    by (simp add: st_seq_def st_bind_def st_return_def radio_send_def radio_recv_def)
  with p show ?thesis by (simp add: wake_command_exchange_def make_payload_def st_bind_def st_lift_def)
qed

lemma upt_first_last: "[0..<Suc (Suc n)] = 0 # map Suc [0..<n] @ [Suc n]"
  by (simp add: upt_conv_Cons map_Suc_upt)

lemma message_frames:
  assumes "providers_ok env" and "messages_fit env"
  shows "length d \<le> unat DEFAULT_CHUNK_SIZE \<Longrightarrow> \<exists>raw. gateway_frame env ident n (Chunk ci d) raw"
    and "length h \<le> 32 \<Longrightarrow> \<exists>raw. gateway_frame env ident n (Command seq ts (UpdateProgram h ps cs cc) None) raw"
    and "length h \<le> 32 \<Longrightarrow> \<exists>raw. node_frame env ident n (ProgramAck h) raw"
    and "\<exists>raw. node_frame env ident n (GetChunk ci) raw"
proof -
  show "\<exists>raw. node_frame env ident n (GetChunk ci) raw"
    using assms requests_fit_frame unfolding messages_fit_def by blast
  show "\<exists>raw. node_frame env ident n (ProgramAck h) raw" if h: "length h \<le> 32"
  proof -
    obtain p where "node_message_encode (en_ser env) (ProgramAck h) = Inr p" "length p \<le> MAX_PAYLOAD_SIZE"
      using assms(2) h unfolding messages_fit_def by blast
    with make_frame_fits [OF assms(1)] show ?thesis unfolding node_frame_def by blast
  qed
  show "\<exists>raw. gateway_frame env ident n (Chunk ci d) raw" if "length d \<le> unat DEFAULT_CHUNK_SIZE"
    using assms(2) that encoded_frame [OF assms(1)] unfolding messages_fit_def by meson
  show "\<exists>raw. gateway_frame env ident n (Command seq ts (UpdateProgram h ps cs cc) None) raw" if "length h \<le> 32"
    using assms(2) that encoded_frame [OF assms(1)] unfolding messages_fit_def by meson
qed

text \<open>C1. A program update, end to end. The gateway's registry holds the node's key and no other node has its
  hint; another program than the reported one is assigned and in the library. Then the frames the node
  sends, a WAKE, the requests for the chunks and the acknowledgement, are answered by the gateway such
  that, with these answers on the radio, the node gets the command, assembles exactly the program's
  image, and acknowledges it; and then the gateway has recorded that the node runs the program.\<close>

theorem program_update_end_to_end:
  assumes lib: "program_library (ge_storage genv) ok view prog"
    and env: "providers_ok env" "same_providers env genv" "messages_fit env"
    and store: "ok (gw_storage g)" "view (gw_storage g) (gn_node_id node) = Some node"
      "\<forall>i n. view (gw_storage g) i = Some n \<longrightarrow> gn_key_hint n = gn_key_hint node \<longrightarrow> i = gn_node_id node"
      "holds_key node ident" "prog (gw_storage g) (gp_hash p) = Some p"
    and offer: "offers_update g node ph FIRMWARE_ABI_VERSION p cc" "length (gp_hash p) \<le> 32"
      "length (gp_image p) \<le> max_image" "length (gp_image p) < 2 ^ 31"
    and wake: "node_message_ok (wake_message env ph battery blob)" "node_frame env ident wn (wake_message env ph battery blob) wake_raw"
      "\<forall>s. get_session (gn_node_id node) (gw_sessions g) = Some s \<longrightarrow> ss_wake_nonce s \<noteq> wn" "fi_random (fr 0) = Some seq"
    and time: "\<forall>i. fi_now (fr i) - fi_now (fr 0) \<le> sm_timeout (gw_sessions g)"
    and radio: "tx_script w = []" "now_ms w < 2 ^ 64 - 1"
  shows "\<exists>frames replies w1 l1 l2 g' node'.
    wake_command_exchange env ident wn ph battery blob (w\<lparr>rx_script := map (RxFrame 0) replies\<rparr>) =
      (Inr (seq, wall_ms (fr 0), UpdateProgram (gp_hash p) (gp_size p) DEFAULT_CHUNK_SIZE cc, None), w1) \<and>
    chunked_transfer env ident (gp_size p) DEFAULT_CHUNK_SIZE cc max_image \<lparr>lk_radio = w1, lk_seq = seq\<rparr> = (Inr (gp_image p), l1) \<and>
    send_program_ack env ident (gp_hash p) l1 = (Inr (), l2) \<and>
    sent (lk_radio l2) = sent w @ frames \<and> length frames = unat cc + 2 \<and>
    serve genv (map (\<lambda>i. (fr i)\<lparr>fi_raw := frames ! i\<rparr>) [0..<length frames]) g = (map Some replies @ [None], g') \<and>
    view (gw_storage g') (gn_node_id node) = Some node' \<and> gn_current_program_hash node' = Some (gp_hash p)"
proof -
  let ?img = "gp_image p" let ?n = "unat cc" let ?i = "gn_node_id node"
  let ?cmd = "UpdateProgram (gp_hash p) (gp_size p) DEFAULT_CHUNK_SIZE cc"
  have cc: "chunk_count (length ?img) (unat DEFAULT_CHUNK_SIZE) = Some cc" and size: "gp_size p = of_nat (length ?img)"
    using offer(1) by (simp_all add: offers_update_def)
  have sole: "program_library.sole_node view (gw_storage g) node"
    unfolding program_library.sole_node_def [OF lib] using store(2,3) by blast
  obtain raw where raw: "gateway_frame env ident wn (Command seq (wall_ms (fr 0)) ?cmd None) raw"
    using message_frames(2) [OF env(1,3) offer(2)] by blast
  have us: "2 ^ 32 - 1 \<le> GATEWAY_USIZE_MAX" "2 * length ?img \<le> GATEWAY_USIZE_MAX"
    using offer(4) by (simp_all add: GATEWAY_USIZE_MAX_def)
  let ?c = "\<lambda>i. take (unat DEFAULT_CHUNK_SIZE) (drop (i * unat DEFAULT_CHUNK_SIZE) ?img)"
  have "\<forall>i. \<exists>reply req. gateway_frame env ident (seq + of_nat i) (Chunk (of_nat i) (?c i)) reply \<and>
      node_frame env ident (seq + of_nat i) (GetChunk (of_nat i)) req"
    using message_frames(1,4) [OF env(1,3)] by (metis length_take min.cobounded2)
  then obtain reply req where rr: "\<And>i. gateway_frame env ident (seq + of_nat i) (Chunk (of_nat i) (?c i)) (reply i)"
      "\<And>i. node_frame env ident (seq + of_nat i) (GetChunk (of_nat i)) (req i)" by metis
  have chunk: "\<exists>d. get_chunk GATEWAY_USIZE_MAX ?img (of_nat i) DEFAULT_CHUNK_SIZE = Some d \<and>
      gateway_frame env ident (seq + of_nat i) (Chunk (of_nat i) d) (reply i) \<and>
      node_frame env ident (seq + of_nat i) (GetChunk (of_nat i)) (req i)" if "i < ?n" for i
    using chunk_at [OF us cc that] rr by blast
  obtain ack where ack: "node_frame env ident (seq + of_nat ?n) (ProgramAck (gp_hash p)) ack"
    using message_frames(3) [OF env(1,3) offer(2)] by blast
  define frames where "frames = wake_raw # map req [0..<?n] @ [ack]"
  define replies where "replies = raw # map reply [0..<?n]"
  \<comment> \<open>the node\<close>
  let ?w = "w\<lparr>rx_script := map (RxFrame 0) replies\<rparr>"
  let ?w1 = "w\<lparr>rx_script := map (\<lambda>i. RxFrame 0 (reply i)) [0..<?n], sent := sent w @ [wake_raw]\<rparr>"
  have n1: "wake_command_exchange env ident wn ph battery blob ?w = (Inr (seq, wall_ms (fr 0), ?cmd, None), ?w1)"
    using wake_answered [OF env(1) _ raw wake(2), of ?w] offer(2) radio(1) by (simp add: replies_def comp_def)
  let ?l1 = "\<lparr>lk_radio = w\<lparr>rx_script := [], sent := sent w @ wake_raw # map req [0..<?n]\<rparr>, lk_seq = seq + of_nat ?n\<rparr>"
  have n2: "chunked_transfer env ident (gp_size p) DEFAULT_CHUNK_SIZE cc max_image \<lparr>lk_radio = ?w1, lk_seq = seq\<rparr> = (Inr ?img, ?l1)"
    using transfer_of_image [OF env(1) offer(3,4) cc, of ident "\<lparr>lk_radio = ?w1, lk_seq = seq\<rparr>" reply req] chunk radio
    by (simp add: size GATEWAY_USIZE_MAX_def del: of_nat_unat)
  have n3: "\<exists>l2. send_program_ack env ident (gp_hash p) ?l1 = (Inr (), l2) \<and> sent (lk_radio l2) = sent w @ frames"
    using ack radio(1)
    by (auto simp: node_frame_def send_program_ack_def make_payload_def st_bind_def st_lift_def st_return_def
        send_numbered_def on_radio_def radio_send_def frames_def simp del: of_nat_unat)
  \<comment> \<open>the gateway\<close>
  obtain g1 node1 where g1: "process_frame genv ((fr 0)\<lparr>fi_raw := wake_raw\<rparr>) g = (Some raw, g1)" "ok (gw_storage g1)"
      "program_library.sole_node view (gw_storage g1) node1" "keeps_keys node node1" "prog (gw_storage g1) = prog (gw_storage g)"
      "transferring (gw_sessions g1) ?i (gp_hash p) seq (fi_now (fr 0))" "sm_timeout (gw_sessions g1) = sm_timeout (gw_sessions g)"
    using program_library.wake_served [OF lib env(1,2) refl store(1) sole store(4) offer(1) store(5),
        where f = "(fr 0)\<lparr>fi_raw := wake_raw\<rparr>" and seq = seq and wn = wn and mv = battery and v = "en_version env" and
          blob = blob and raw = raw] wake raw
    by (auto simp: wake_message_def wall_ms_def)
  have k1: "holds_key node1 ident" "gn_node_id node1 = ?i" using g1(4) store(4) by (simp_all add: keeps_keys_def holds_key_def)
  obtain m where m: "serve genv (map (\<lambda>i. (fr (Suc i))\<lparr>fi_raw := req i\<rparr>) [0..<?n]) g1 =
        (map (\<lambda>i. Some (reply i)) [0..<?n], g1\<lparr>gw_sessions := m\<rparr>)"
      "transferring m ?i (gp_hash p) (seq + of_nat ?n) (fi_now (fr 0))" "sm_timeout m = sm_timeout (gw_sessions g)"
    using program_library.chunks_served [OF lib env(1,2) refl g1(2,3) k1(1), where ?s0.0 = seq and k = 0 and n = ?n and
        fr = "\<lambda>i. (fr (Suc i))\<lparr>fi_raw := req i\<rparr>" and p = p and h = "gp_hash p" and ?t0.0 = "fi_now (fr 0)" and reply = reply]
      g1(5-7) k1(2) store(5) time chunk by (simp del: of_nat_unat) blast
  obtain g' where g': "process_frame genv ((fr (Suc ?n))\<lparr>fi_raw := ack\<rparr>) (g1\<lparr>gw_sessions := m\<rparr>) = (None, g')"
      "view (gw_storage g') ?i = Some (confirm_program (gp_hash p) node1)"
    using program_library.ack_recorded [OF lib env(1,2) refl, of "g1\<lparr>gw_sessions := m\<rparr>" node1 ident "gp_hash p" "seq + of_nat ?n"
        "fi_now (fr 0)" "(fr (Suc ?n))\<lparr>fi_raw := ack\<rparr>"] g1(2,3) k1 m(2,3) time ack offer(2) by (auto simp del: of_nat_unat)
  have "map (\<lambda>i. (fr i)\<lparr>fi_raw := frames ! i\<rparr>) [0..<length frames] =
      (fr 0)\<lparr>fi_raw := wake_raw\<rparr> # map (\<lambda>i. (fr (Suc i))\<lparr>fi_raw := req i\<rparr>) [0..<?n] @ [(fr (Suc ?n))\<lparr>fi_raw := ack\<rparr>]"
    by (simp add: frames_def upt_first_last nth_append del: upt_Suc)
  then have "serve genv (map (\<lambda>i. (fr i)\<lparr>fi_raw := frames ! i\<rparr>) [0..<length frames]) g = (map Some replies @ [None], g')"
    using g1(1) m(1) g'(1) by (simp add: serve_append replies_def del: upt_Suc)
  with n1 n2 n3 g'(2) show ?thesis
    by (intro exI [of _ frames] exI [of _ replies]) (auto simp: frames_def confirm_program_def simp del: of_nat_unat)
qed

section \<open>Examples\<close>

lemma demo_message_lengths:
  "length d \<le> 128 \<Longrightarrow> length (rfc_encode (CborMap (map (\<lambda>(k, v). (CborInt (uint k), v)) (gateway_message_pairs (Chunk ci d))))) \<le> 223"
  "length h \<le> 32 \<Longrightarrow> length (rfc_encode (CborMap (map (\<lambda>(k, v). (CborInt (uint k), v))
     (gateway_message_pairs (Command seq ts (UpdateProgram h ps cs cc) None))))) \<le> 223"
  "length h \<le> 32 \<Longrightarrow> length (rfc_encode (CborMap (map (\<lambda>(k, v). (CborInt (uint k), v)) (node_message_pairs (ProgramAck h))))) \<le> 223"
proof -
  show "length (rfc_encode (CborMap (map (\<lambda>(k, v). (CborInt (uint k), v)) (gateway_message_pairs (Chunk ci d))))) \<le> 223"
    if "length d \<le> 128"
    using that length_rfc_head [of 5 "Suc (Suc 0)"] length_rfc_head [of 0 "unat KEY_CHUNK_INDEX"] length_rfc_head [of 0 "unat ci"]
    length_rfc_head [of 0 "unat KEY_CHUNK_DATA"] length_rfc_head [of 2 "length d"]
    by (simp add: u32_val_def)
  show "length (rfc_encode (CborMap (map (\<lambda>(k, v). (CborInt (uint k), v)) (node_message_pairs (ProgramAck h))))) \<le> 223"
    if "length h \<le> 32"
    using that length_rfc_head [of 5 "Suc 0"] length_rfc_head [of 2 "length h"] length_rfc_head [of 0 "unat KEY_PROGRAM_HASH"]
    by simp
  show "length (rfc_encode (CborMap (map (\<lambda>(k, v). (CborInt (uint k), v))
     (gateway_message_pairs (Command seq ts (UpdateProgram h ps cs cc) None))))) \<le> 223" if "length h \<le> 32"
    using that length_rfc_head [of 5 4] length_rfc_head [of 0 "unat KEY_COMMAND_TYPE"] length_rfc_head [of 0 "unat CMD_UPDATE_PROGRAM"]
      length_rfc_head [of 0 "unat KEY_PAYLOAD"] length_rfc_head [of 0 "unat KEY_STARTING_SEQ"] length_rfc_head [of 0 "unat seq"]
      length_rfc_head [of 0 "unat KEY_TIMESTAMP_MS"] length_rfc_head [of 0 "unat ts"] length_rfc_head [of 0 "unat KEY_PROGRAM_HASH"]
      length_rfc_head [of 2 "length h"] length_rfc_head [of 0 "unat KEY_PROGRAM_SIZE"] length_rfc_head [of 0 "unat ps"]
      length_rfc_head [of 0 "unat KEY_CHUNK_SIZE"] length_rfc_head [of 0 "unat cs"] length_rfc_head [of 0 "unat KEY_CHUNK_COUNT"]
      length_rfc_head [of 0 "unat cc"]
    by (simp add: u32_val_def u8_val_def uint_val_def program_payload_def numeral_eq_Suc)
qed

lemma demo_messages_fit: "messages_fit demo_env"
  using demo_message_lengths demo_requests_fit
  by (simp add: messages_fit_def demo_encode DEFAULT_CHUNK_SIZE_def frame_consts)

definition demo_program :: program_record where
  "demo_program = \<lparr>gp_hash = [5], gp_image = [1, 2, 3], gp_size = 3, gp_verification_profile = ResidentProfile,
     gp_abi_version = None, gp_source_filename = None, gp_decoder_image = None\<rparr>"

definition demo_record :: node_record where
  "demo_record = (node_record_new ''n1'' 1 (replicate 32 7))\<lparr>gn_assigned_program_hash := Some [5]\<rparr>"

definition demo_store :: mem_storage where
  "demo_store = mem_new\<lparr>ms_nodes := [(''n1'', demo_record)], ms_programs := [([5], demo_program)]\<rparr>"

lemma demo_store_facts:
  "mem_ok demo_store" "mem_view demo_store ''n1'' = Some demo_record" "mem_prog demo_store [5] = Some demo_program"
  "mem_view demo_store i = Some n \<Longrightarrow> i = ''n1''" "gn_node_id demo_record = ''n1''" "gn_key_hint demo_record = 1"
  "holds_key demo_record demo_id" "offers_update (demo_gateway demo_store) demo_record [] FIRMWARE_ABI_VERSION demo_program 1"
  by (simp_all add: demo_store_def mem_ok_def mem_view_def mem_prog_def mem_new_def demo_record_def node_record_new_def
      holds_key_def demo_id_def offers_update_def demo_program_def demo_gateway_def abi_mismatch_def chunk_count_def
      div_ceil_def DEFAULT_CHUNK_SIZE_def split: if_splits)

lemma demo_providers: "same_providers demo_env demo_genv" "ge_storage demo_genv = mem_api"
  by (simp_all add: same_providers_def demo_env_def demo_genv_def)

lemma demo_wake: "node_message_ok (wake_message demo_env [] 0 None)" "\<exists>raw. node_frame demo_env demo_id n (wake_message demo_env [] 0 None) raw"
proof -
  show "node_message_ok (wake_message demo_env [] 0 None)"
    by (simp add: wake_message_def demo_env_def MAX_STRING_FIELD_LEN_def is_ascii_def)
  obtain p where "make_payload demo_env (wake_message demo_env [] 0 None) [] = Inr p" "length p \<le> MAX_PAYLOAD_SIZE"
    using demo_wake_payload by blast
  with make_frame_fits [OF demo_ok] show "\<exists>raw. node_frame demo_env demo_id n (wake_message demo_env [] 0 None) raw"
    unfolding node_frame_def make_payload_def by (auto split: sum.splits)
qed

theorem program_update_end_to_end_witness:
  "\<exists>frames replies w1 l1 l2 g' node'.
    wake_command_exchange demo_env demo_id 9 [] 0 None (demo_radio replies) = (Inr (40, 5000, UpdateProgram [5] 3 128 1, None), w1) \<and>
    chunked_transfer demo_env demo_id 3 128 1 4096 \<lparr>lk_radio = w1, lk_seq = 40\<rparr> = (Inr [1, 2, 3], l1) \<and>
    send_program_ack demo_env demo_id [5] l1 = (Inr (), l2) \<and> sent (lk_radio l2) = frames \<and> length frames = 3 \<and>
    serve demo_genv (map (\<lambda>i. (demo_frame_in [])\<lparr>fi_raw := frames ! i\<rparr>) [0..<length frames]) (demo_gateway demo_store) =
      (map Some replies @ [None], g') \<and>
    mem_view (gw_storage g') ''n1'' = Some node' \<and> gn_current_program_hash node' = Some [5]"
proof -
  obtain wake_raw where wake_raw: "node_frame demo_env demo_id 9 (wake_message demo_env [] 0 None) wake_raw" using demo_wake by blast
  have g: "gw_storage (demo_gateway demo_store) = demo_store" "gw_sessions (demo_gateway demo_store) = session_manager_new 10"
    by (simp_all add: demo_gateway_def)
  have f: "fi_random (demo_frame_in []) = Some 40" "fi_now (demo_frame_in []) = 0" "wall_ms (demo_frame_in []) = 5000"
    by (simp_all add: demo_frame_in_def wall_ms_def)
  have lib: "program_library (ge_storage demo_genv) mem_ok mem_view mem_prog"
    using memp.program_library_axioms by (simp add: demo_providers)
  have p: "gp_hash demo_program = [5]" "gp_image demo_program = [1, 2, 3]" "gp_size demo_program = 3" by (simp_all add: demo_program_def)
  let ?w = "\<lparr>rx_script = [], tx_script = [], sent = [], now_ms = 0\<rparr>"
  have w: "?w\<lparr>rx_script := map (RxFrame 0) rs\<rparr> = demo_radio rs" for rs by (simp add: demo_radio_def)
  let ?g = "demo_gateway demo_store"
  have store: "mem_ok (gw_storage ?g)" "mem_view (gw_storage ?g) (gn_node_id demo_record) = Some demo_record"
      "\<forall>i n. mem_view (gw_storage ?g) i = Some n \<longrightarrow> gn_key_hint n = gn_key_hint demo_record \<longrightarrow> i = gn_node_id demo_record"
      "mem_prog (gw_storage ?g) (gp_hash demo_program) = Some demo_program"
    unfolding g p demo_store_facts(5) using demo_store_facts(1,2,3) by (auto dest: demo_store_facts(4))
  have offer: "length (gp_hash demo_program) \<le> 32" "length (gp_image demo_program) \<le> 4096" "length (gp_image demo_program) < 2 ^ 31"
    by (simp_all add: p)
  have rest: "\<forall>s. get_session (gn_node_id demo_record) (gw_sessions ?g) = Some s \<longrightarrow> ss_wake_nonce s \<noteq> 9"
      "\<forall>i :: nat. fi_now (demo_frame_in []) - fi_now (demo_frame_in []) \<le> sm_timeout (gw_sessions ?g)"
      "tx_script ?w = []" "now_ms ?w < 2 ^ 64 - 1"
    by (simp_all add: g session_manager_new_def get_session_def)
  note e = program_update_end_to_end [OF lib demo_ok demo_providers(1) demo_messages_fit store(1,2,3) demo_store_facts(7) store(4)
      demo_store_facts(8) offer demo_wake(1) wake_raw rest(1), where fr = "\<lambda>_. demo_frame_in []" and w = ?w,
      OF f(1) rest(2-4)]
  from e show ?thesis
    unfolding f(3) p w DEFAULT_CHUNK_SIZE_def demo_store_facts(5) by (simp add: demo_radio_def numeral_3_eq_3)
qed

theorem gateway_replay_safe_witness:
  "\<exists>f log g node h payload reply g'. gateway_run demo_genv (demo_gateway demo_store) log g \<and> process_frame demo_genv f g = (Some reply, g') \<and>
     sender demo_genv f g = Some (node, h, payload) \<and>
     (\<exists>t0 s0 as. session_history (gn_node_id node) log None = Some (t0, s0, as) \<and> nonce h = s0 + of_nat (length as))"
proof -
  have g: "gw_storage (demo_gateway demo_store) = demo_store" "gw_sessions (demo_gateway demo_store) = session_manager_new 10"
    by (simp_all add: demo_gateway_def)
  have sole: "memp.sole_node demo_store demo_record"
    unfolding memp.sole_node_def using demo_store_facts by metis
  obtain wake_raw where "node_frame demo_env demo_id 9 (wake_message demo_env [] 0 None) wake_raw" using demo_wake by blast
  then have wake: "node_frame demo_env demo_id 9 (Wake FIRMWARE_ABI_VERSION [] 0 (en_version demo_env) None) (fi_raw (demo_frame_in wake_raw))"
    by (simp add: wake_message_def demo_frame_in_def)
  obtain raw where raw: "gateway_frame demo_env demo_id 9 (Command 40 (wall_ms (demo_frame_in wake_raw))
      (UpdateProgram (gp_hash demo_program) (gp_size demo_program) DEFAULT_CHUNK_SIZE 1) None) raw"
    using message_frames(2) [OF demo_ok demo_messages_fit, of "gp_hash demo_program"] unfolding demo_program_def program_record.simps
    by fastforce
  obtain g1 node1 where g1: "process_frame demo_genv (demo_frame_in wake_raw) (demo_gateway demo_store) = (Some raw, g1)"
      "mem_ok (gw_storage g1)" "memp.sole_node (gw_storage g1) node1" "keeps_keys demo_record node1"
      "mem_prog (gw_storage g1) = mem_prog demo_store"
      "transferring (gw_sessions g1) ''n1'' [5] 40 0" "sm_timeout (gw_sessions g1) = 10"
  proof -
    let ?g = "demo_gateway demo_store"
    have pre: "mem_ok (gw_storage ?g)" "memp.sole_node (gw_storage ?g) demo_record"
        "mem_prog (gw_storage ?g) (gp_hash demo_program) = Some demo_program" "fi_random (demo_frame_in wake_raw) = Some 40"
        "node_message_ok (Wake FIRMWARE_ABI_VERSION [] 0 (en_version demo_env) None)"
        "\<And>s. get_session (gn_node_id demo_record) (gw_sessions ?g) = Some s \<Longrightarrow> ss_wake_nonce s \<noteq> 9"
      using demo_store_facts(1,3) sole demo_wake(1)
      by (simp_all add: g demo_program_def demo_frame_in_def wake_message_def session_manager_new_def get_session_def)
    have "gp_hash demo_program = [5]" "fi_now (demo_frame_in wake_raw) = 0" "sm_timeout (session_manager_new 10) = 10"
      by (simp_all add: demo_program_def demo_frame_in_def session_manager_new_def)
    with memp.wake_served [OF demo_ok demo_providers pre(1,2) demo_store_facts(7,8) pre(3) pre(6) pre(4,5) wake raw]
    show thesis unfolding g demo_store_facts(5) by (metis that)
  qed
  obtain req where "node_frame demo_env demo_id 40 (GetChunk 0) req" using message_frames(4) [OF demo_ok demo_messages_fit] by blast
  then have req: "node_frame demo_env demo_id 40 (GetChunk 0) (fi_raw (demo_frame_in req))" by (simp add: demo_frame_in_def)
  obtain reply where reply: "gateway_frame demo_env demo_id 40 (Chunk 0 [1, 2, 3]) reply"
    using message_frames(1) [OF demo_ok demo_messages_fit, of "[1, 2, 3]" demo_id 40 0] by (auto simp: DEFAULT_CHUNK_SIZE_def)
  have k1: "holds_key node1 demo_id" "gn_node_id node1 = ''n1''"
    using g1(4) demo_store_facts(5,7) by (simp_all add: keeps_keys_def holds_key_def)
  have "get_chunk GATEWAY_USIZE_MAX [1, 2, 3] 0 DEFAULT_CHUNK_SIZE = Some [1 :: u8, 2, 3]"
    by (simp add: get_chunk_def DEFAULT_CHUNK_SIZE_def GATEWAY_USIZE_MAX_def)
  then obtain g2 where g2: "process_frame demo_genv (demo_frame_in req) g1 = (Some reply, g2)"
    using memp.chunk_served [OF demo_ok demo_providers g1(2,3) k1(1) _ _ _ _ req reply, of "[5]" 0 demo_program] g1(5-7) k1(2)
      demo_store_facts(3) by (auto simp: demo_program_def demo_frame_in_def)
  obtain payload where s: "sender demo_genv (demo_frame_in req) g1 =
      Some (node1, \<lparr>key_hint = id_key_hint demo_id, msg_type = MSG_GET_CHUNK, nonce = 40\<rparr>, payload)"
    using memp.frame_dispatched [OF demo_ok demo_providers g1(2,3) k1(1) _ req] by auto
  note run = run_frame [OF run_start g1(1)]
  from gateway_replay_safe [OF run g(2) g2 s] show ?thesis using run g2 s by (fastforce simp: message_consts)
qed

end
