(* ===== verification/Node_Bpf.thy ===== *)
theory Node_Bpf
  imports Wake_Cycle Bpf_Machine
begin

text \<open>
  Execution of a BPF program on the node: the helper functions (\<open>sonde-node/src/bpf_dispatch.rs\<close>), the
  adapter of the interpreter (\<open>sonde_bpf_adapter.rs\<close>) and, composed of both, the execution a wake cycle
  uses. The thread-local dispatch context is the host state of the interpreter; it is installed for
  the whole execution, so a helper always finds it. Pointers and \<open>usize\<close> have 32 bits, as on the chip: a
  register used as one is truncated. A slice of memory is its bytes. The RTC buffer of the maps, the
  downlink blob and the execution context are in memory; the buffer is read back when the program has
  ended. Bus devices are a function of the calls made so far and the call: its return code and the
  bytes it leaves at the start of the buffer. The clock counts milliseconds.
\<close>

section \<open>Memory and devices\<close>

definition as_usize :: "u64 \<Rightarrow> nat" where "as_usize r = unat r mod (USIZE_MAX + 1)"

definition as_ptr :: "u64 \<Rightarrow> u64" where "as_ptr r = of_nat (as_usize r)"

definition read_bytes :: "memory \<Rightarrow> u64 \<Rightarrow> nat \<Rightarrow> bytes" where
  "read_bytes m p n = map (\<lambda>i. m (p + of_nat i)) [0..<n]"

definition write_bytes :: "memory \<Rightarrow> u64 \<Rightarrow> bytes \<Rightarrow> memory" where
  "write_bytes m p bs = (\<lambda>a. if unat (a - p) < length bs then bs ! unat (a - p) else m a)"

datatype bus_call =
    I2cRead u32 nat
  | I2cWrite u32 bytes
  | I2cWriteRead u32 bytes nat
  | SpiTransfer u32 bytes
  | GpioRead u32
  | GpioWrite u32 u32
  | AdcRead u32

type_synonym hal = "bus_call list \<Rightarrow> bus_call \<Rightarrow> u32 \<times> bytes"

section \<open>Dispatch context\<close>

definition SEND_RECV_TIMEOUT_MS :: u32 where "SEND_RECV_TIMEOUT_MS = 200"
definition MAX_BUS_TRANSFER_LEN :: nat where "MAX_BUS_TRANSFER_LEN = 4096"
definition MAX_SEND_RECV_TIMEOUT_MS :: u32 where "MAX_SEND_RECV_TIMEOUT_MS = 5000"
definition MAX_DELAY_US :: u32 where "MAX_DELAY_US = 1000000"
definition MAX_TRACE_ENTRIES :: nat where "MAX_TRACE_ENTRIES = 64"
definition DEFAULT_INSTRUCTION_BUDGET :: u64 where "DEFAULT_INSTRUCTION_BUDGET = 100000"
definition FAIL :: u64 where "FAIL = - 1"

datatype map_ptr_insert_error = MapPtrOverflow | MapPtrDuplicate

type_synonym map_ptr_index = "(u64 \<times> nat) list"

definition index_insert :: "u64 \<Rightarrow> nat \<Rightarrow> map_ptr_index \<Rightarrow> map_ptr_insert_error + map_ptr_index" where
  "index_insert p idx ix =
     (if length ix \<ge> MAX_MAPS then Inl MapPtrOverflow
      else if list_ex (\<lambda>(q, _). q = p) ix then Inl MapPtrDuplicate
      else Inr (ix @ [(p, idx)]))"

definition index_get :: "map_ptr_index \<Rightarrow> u64 \<Rightarrow> nat option" where
  "index_get ix p = map_option snd (find (\<lambda>(q, _). q = p) ix)"

primrec index_pointers :: "nat \<Rightarrow> u64 list \<Rightarrow> map_ptr_index \<Rightarrow> map_ptr_insert_error + map_ptr_index" where
  "index_pointers i [] ix = Inr ix"
| "index_pointers i (p # ps) ix = res_bind (index_insert p i ix) (index_pointers (Suc i) ps)"

text \<open>If any pointer is refused, the index stays empty.\<close>

definition build_index :: "map_storage \<Rightarrow> map_ptr_index" where
  "build_index st = (case index_pointers 0 (st_ptrs st) [] of Inl _ \<Rightarrow> [] | Inr ix \<Rightarrow> ix)"

record dispatch_context =
  dc_env :: node_env
  dc_hal :: hal
  dc_bus :: "bus_call list"
  dc_link :: link
  dc_maps :: map_storage
  dc_map_base :: u64
  dc_map_len :: nat
  dc_sleep :: sleep_manager
  dc_identity :: node_identity
  dc_class :: program_class
  dc_trace :: "bytes list"
  dc_queue :: rtc_queue
  dc_timestamp_ms :: u64
  dc_received_at_ms :: nat
  dc_battery_mv :: u32
  dc_index :: map_ptr_index

type_synonym helper = "u64 \<Rightarrow> u64 \<Rightarrow> u64 \<Rightarrow> u64 \<Rightarrow> u64 \<Rightarrow> memory \<times> dispatch_context \<Rightarrow> u64 \<times> (memory \<times> dispatch_context)"

section \<open>Bus helpers\<close>

definition bus :: "bus_call \<Rightarrow> dispatch_context \<Rightarrow> u64 \<times> bytes \<times> dispatch_context" where
  "bus call c =
     (case dc_hal c (dc_bus c) call of (rc, bs) \<Rightarrow> (scast rc, bs, c\<lparr>dc_bus := dc_bus c @ [call]\<rparr>))"

definition helper_i2c_read :: helper where
  "helper_i2c_read r1 r2 r3 r4 r5 = (\<lambda>(m, c).
     let p = as_ptr r2; n = as_usize r3 in
     if p = 0 \<or> n = 0 \<or> n > MAX_BUS_TRANSFER_LEN then (FAIL, (m, c))
     else case bus (I2cRead (ucast r1) n) c of (rc, bs, c') \<Rightarrow> (rc, (write_bytes m p (take n bs), c')))"

definition helper_i2c_write :: helper where
  "helper_i2c_write r1 r2 r3 r4 r5 = (\<lambda>(m, c).
     let p = as_ptr r2; n = as_usize r3 in
     if p = 0 \<or> n = 0 \<or> n > MAX_BUS_TRANSFER_LEN then (FAIL, (m, c))
     else case bus (I2cWrite (ucast r1) (read_bytes m p n)) c of (rc, _, c') \<Rightarrow> (rc, (m, c')))"

definition helper_i2c_write_read :: helper where
  "helper_i2c_write_read r1 r2 r3 r4 r5 = (\<lambda>(m, c).
     let wp = as_ptr r2; wn = as_usize r3; rp = as_ptr r4; rn = as_usize r5 in
     if wp = 0 \<or> rp = 0 \<or> wn = 0 \<or> rn = 0 \<or> wn > MAX_BUS_TRANSFER_LEN \<or> rn > MAX_BUS_TRANSFER_LEN then (FAIL, (m, c))
     else case bus (I2cWriteRead (ucast r1) (read_bytes m wp wn) rn) c of
            (rc, bs, c') \<Rightarrow> (rc, (write_bytes m rp (take rn bs), c')))"

definition helper_spi_transfer :: helper where
  "helper_spi_transfer r1 r2 r3 r4 r5 = (\<lambda>(m, c).
     let p = as_ptr r2; n = as_usize r3 in
     if n = 0 \<or> n > MAX_BUS_TRANSFER_LEN then (FAIL, (m, c))
     else if p = 0 then (FAIL, (m, c))
     else case bus (SpiTransfer (ucast r1) (read_bytes m p n)) c of
            (rc, bs, c') \<Rightarrow> (rc, (write_bytes m p (take n bs), c')))"

definition helper_gpio_read :: helper where
  "helper_gpio_read r1 r2 r3 r4 r5 = (\<lambda>(m, c). case bus (GpioRead (ucast r1)) c of (rc, _, c') \<Rightarrow> (rc, (m, c')))"

definition helper_gpio_write :: helper where
  "helper_gpio_write r1 r2 r3 r4 r5 = (\<lambda>(m, c).
     case bus (GpioWrite (ucast r1) (ucast r2)) c of (rc, _, c') \<Rightarrow> (rc, (m, c')))"

definition helper_adc_read :: helper where
  "helper_adc_read r1 r2 r3 r4 r5 = (\<lambda>(m, c). case bus (AdcRead (ucast r1)) c of (rc, _, c') \<Rightarrow> (rc, (m, c')))"

section \<open>Communication helpers\<close>

definition on_link :: "(link, node_error, 'a) op \<Rightarrow> dispatch_context \<Rightarrow> (node_error + 'a) \<times> dispatch_context" where
  "on_link f c = (case f (dc_link c) of (r, l) \<Rightarrow> (r, c\<lparr>dc_link := l\<rparr>))"

definition helper_send :: helper where
  "helper_send r1 r2 r3 r4 r5 = (\<lambda>(m, c).
     let p = as_ptr r1; n = as_usize r2 in
     if p = 0 \<or> n > MAX_APP_DATA_BLOB_SIZE then (FAIL, (m, c))
     else case on_link (send_app_data (dc_env c) (dc_identity c) (read_bytes m p n)) c of
            (Inr _, c') \<Rightarrow> (0, (m, c'))
          | (Inl _, c') \<Rightarrow> (FAIL, (m, c')))"

definition helper_send_recv :: helper where
  "helper_send_recv r1 r2 r3 r4 r5 = (\<lambda>(m, c).
     let p = as_ptr r1; n = as_usize r2; rp = as_ptr r3; cap = as_usize r4 in
     if p = 0 \<or> n > MAX_APP_DATA_BLOB_SIZE \<or> rp = 0 \<or> cap = 0 then (FAIL, (m, c))
     else
       let timeout_ms = (if r5 = 0 then SEND_RECV_TIMEOUT_MS else min (ucast r5) MAX_SEND_RECV_TIMEOUT_MS) in
       case on_link (send_recv_app_data (dc_env c) (dc_identity c) (read_bytes m p n) timeout_ms) c of
         (Inl _, c') \<Rightarrow> (FAIL, (m, c'))
       | (Inr reply, c') \<Rightarrow>
           if length reply > cap then (FAIL, (m, c'))
           else (of_nat (length reply), (write_bytes m rp reply, c')))"

definition helper_send_async :: helper where
  "helper_send_async r1 r2 r3 r4 r5 = (\<lambda>(m, c).
     if unat r2 > USIZE_MAX then (- 2, (m, c))
     else
       let p = as_ptr r1; n = as_usize r2 in
       if p = 0 \<or> n > MAX_APP_DATA_BLOB_SIZE then (- 2, (m, c))
       else case queue_push (read_bytes m p n) (dc_queue c) of (r, q) \<Rightarrow> (of_int r, (m, c\<lparr>dc_queue := q\<rparr>)))"

section \<open>Map helpers\<close>

definition map_buffer :: "memory \<Rightarrow> dispatch_context \<Rightarrow> bytes" where
  "map_buffer m c = read_bytes m (dc_map_base c) (dc_map_len c)"

text \<open>\<open>read_unaligned\<close> of a \<open>u32\<close>.\<close>

definition read_key32 :: "memory \<Rightarrow> u64 \<Rightarrow> u32" where
  "read_key32 m p = ucast (load_le 4 m p)"

text \<open>The address of the slice that \<open>lookup\<close> returns.\<close>

definition value_ptr :: "u64 \<Rightarrow> map_instance \<Rightarrow> u32 \<Rightarrow> u64" where
  "value_ptr base mi key =
     data_ptr base mi + of_nat (unat key * mi_entry_size mi + unat (md_key_size (mi_def mi)))"

definition helper_map_lookup_elem :: helper where
  "helper_map_lookup_elem r1 r2 r3 r4 r5 = (\<lambda>(m, c).
     if as_ptr r2 = 0 then (0, (m, c))
     else
       let key = read_key32 m (as_ptr r2) in
       (case index_get (dc_index c) r1 of
         None \<Rightarrow> (0, (m, c))
       | Some i \<Rightarrow>
           if i \<ge> length (st_maps (dc_maps c)) then (0, (m, c))
           else
             let mi = st_maps (dc_maps c) ! i in
             (case map_lookup (map_buffer m c) mi key of
                None \<Rightarrow> (0, (m, c))
              | Some _ \<Rightarrow> (value_ptr (dc_map_base c) mi key, (m, c)))))"

definition helper_map_update_elem :: helper where
  "helper_map_update_elem r1 r2 r3 r4 r5 = (\<lambda>(m, c).
     if dc_class c = Ephemeral then (FAIL, (m, c))
     else if as_ptr r2 = 0 \<or> as_ptr r3 = 0 then (FAIL, (m, c))
     else
       let key = read_key32 m (as_ptr r2) in
       (case index_get (dc_index c) r1 of
         None \<Rightarrow> (FAIL, (m, c))
       | Some i \<Rightarrow>
           if i \<ge> length (st_maps (dc_maps c)) then (FAIL, (m, c))
           else
             let mi = st_maps (dc_maps c) ! i;
                 val = read_bytes m (as_ptr r3) (unat (md_value_size (mi_def mi))) in
             (case map_update (map_buffer m c) mi key val of
                Inl _ \<Rightarrow> (FAIL, (m, c))
              | Inr buf \<Rightarrow> (0, (write_bytes m (dc_map_base c) buf, c)))))"

section \<open>System helpers\<close>

definition helper_get_time :: helper where
  "helper_get_time r1 r2 r3 r4 r5 = (\<lambda>(m, c).
     (of_nat (sat_add64 (unat (dc_timestamp_ms c)) (now_ms (lk_radio (dc_link c)) - dc_received_at_ms c)), (m, c)))"

definition helper_get_battery_mv :: helper where
  "helper_get_battery_mv r1 r2 r3 r4 r5 = (\<lambda>(m, c).
     ((if unat (dc_battery_mv c) > 0xFFFF then 0xFFFF else ucast (dc_battery_mv c)), (m, c)))"

text \<open>The clock of the firmware has the default \<open>delay_us\<close>, which rounds up to milliseconds.\<close>

definition delay_us :: "u32 \<Rightarrow> radio \<Rightarrow> radio" where
  "delay_us us w = (if us > 0 then delay_ms (min (unat us + 999) (2 ^ 32 - 1) div 1000) w else w)"

definition helper_delay_us :: helper where
  "helper_delay_us r1 r2 r3 r4 r5 = (\<lambda>(m, c).
     if r1 > ucast MAX_DELAY_US then (FAIL, (m, c))
     else
       let us = ucast r1 in
       (0, (m, if us > 0 then c\<lparr>dc_link := (dc_link c)\<lparr>lk_radio := delay_us us (lk_radio (dc_link c))\<rparr>\<rparr> else c)))"

definition helper_set_next_wake :: helper where
  "helper_set_next_wake r1 r2 r3 r4 r5 = (\<lambda>(m, c).
     if dc_class c = Ephemeral then (FAIL, (m, c))
     else if unat r1 \<ge> 2 ^ 32 then (FAIL, (m, c))
     else (0, (m, c\<lparr>dc_sleep := set_next_wake (ucast r1) (dc_sleep c)\<rparr>)))"

definition helper_bpf_trace_printk :: helper where
  "helper_bpf_trace_printk r1 r2 r3 r4 r5 = (\<lambda>(m, c).
     let p = as_ptr r1; n = as_usize r2 in
     if p = 0 \<or> n = 0 \<or> n > 256 then (FAIL, (m, c))
     else
       let bs = read_bytes m p n in
       if utf8_valid bs
       then (0, (m, if length (dc_trace c) < MAX_TRACE_ENTRIES then c\<lparr>dc_trace := dc_trace c @ [bs]\<rparr> else c))
       else (FAIL, (m, c)))"

section \<open>The interpreter adapter\<close>

datatype bpf_run_error =
    BudgetExceeded
  | DepthExceeded
  | InvalidBytecode string
  | HelperNotRegistered u32
  | LoadError string
  | MapLoadError nat string
  | RuntimeError string

record bpf_interpreter =
  bi_helpers :: "dispatch_context helper_descriptor list"
  bi_bytecode :: "bytes option"
  bi_map_regions :: "map_region list"

definition interpreter_new :: bpf_interpreter where
  "interpreter_new = \<lparr>bi_helpers = [], bi_bytecode = None, bi_map_regions = []\<rparr>"

primrec replace_helper :: "'w helper_descriptor \<Rightarrow> 'w helper_descriptor list \<Rightarrow> 'w helper_descriptor list option" where
  "replace_helper d [] = None"
| "replace_helper d (h # hs) =
     (if h_id h = h_id d then Some (d # hs) else map_option (\<lambda>hs'. h # hs') (replace_helper d hs))"

definition MAP_LOOKUP_ELEM :: u32 where "MAP_LOOKUP_ELEM = 10"

definition register_helper :: "u32 \<Rightarrow> helper \<Rightarrow> bpf_interpreter \<Rightarrow> bpf_interpreter" where
  "register_helper i f bi =
     (let d = \<lparr>h_id = i, h_func = f, h_ret = (if i = MAP_LOOKUP_ELEM then MapValueOrNull 1 else RetScalar)\<rparr> in
      case replace_helper d (bi_helpers bi) of
        Some hs \<Rightarrow> bi\<lparr>bi_helpers := hs\<rparr>
      | None \<Rightarrow> bi\<lparr>bi_helpers := bi_helpers bi @ [d]\<rparr>)"

definition helper_table :: "(u32 \<times> helper) list" where
  "helper_table =
     [(1, helper_i2c_read), (2, helper_i2c_write), (3, helper_i2c_write_read), (4, helper_spi_transfer),
      (5, helper_gpio_read), (6, helper_gpio_write), (7, helper_adc_read), (8, helper_send), (9, helper_send_recv),
      (MAP_LOOKUP_ELEM, helper_map_lookup_elem), (11, helper_map_update_elem), (12, helper_get_time),
      (13, helper_get_battery_mv), (14, helper_delay_us), (15, helper_set_next_wake), (16, helper_bpf_trace_printk),
      (17, helper_send_async)]"

definition register_all :: "bpf_interpreter \<Rightarrow> bpf_interpreter" where
  "register_all bi = foldl (\<lambda>bi (i, f). register_helper i f bi) bi helper_table"

definition checked_mul64 :: "nat \<Rightarrow> nat \<Rightarrow> nat option" where
  "checked_mul64 a b = (if a * b < 2 ^ 64 then Some (a * b) else None)"

text \<open>The sum of a key and a value size fits 64 bits, so its overflow branch is never taken.\<close>

primrec map_regions :: "nat \<Rightarrow> (u64 \<times> map_def) list \<Rightarrow> bpf_run_error + map_region list" where
  "map_regions i [] = Inr []"
| "map_regions i (pd # pds) =
     (case pd of (p, d) \<Rightarrow>
        if p = 0 then Inl (MapLoadError i ''null pointer'')
        else (case checked_mul64 (unat (md_key_size d) + unat (md_value_size d)) (unat (md_max_entries d)) of
               None \<Rightarrow> Inl (MapLoadError i ''total size overflow (entry_size * max_entries)'')
             | Some nbytes \<Rightarrow>
                 (case checked_add p (of_nat nbytes) of
                    None \<Rightarrow> Inl (MapLoadError i ''pointer + size overflow'')
                  | Some e \<Rightarrow>
                      res_bind (map_regions (Suc i) pds) (\<lambda>rs.
                        Inr (\<lparr>relocated_ptr = p, mr_key_size = md_key_size d, mr_value_size = md_value_size d,
                              data_start = p, data_end = e\<rparr> # rs)))))"

definition bpf_load :: "bytes \<Rightarrow> u64 list \<Rightarrow> map_def list \<Rightarrow> (bpf_interpreter, bpf_run_error, unit) op" where
  "bpf_load code ptrs defs bi =
     (if code = [] then (Inl (InvalidBytecode ''empty bytecode''), bi)
      else if length code mod 8 \<noteq> 0 then (Inl (InvalidBytecode ''bytecode length must be a multiple of 8''), bi)
      else if length ptrs \<noteq> length defs then (Inl (LoadError ''map_ptrs and map_defs length mismatch''), bi)
      else case map_regions 0 (zip ptrs defs) of
             Inl e \<Rightarrow> (Inl e, bi)
           | Inr rs \<Rightarrow> (Inr (), bi\<lparr>bi_bytecode := Some code, bi_map_regions := rs\<rparr>))"

fun run_error :: "bpf_error \<Rightarrow> bpf_run_error" where
  "run_error (InstructionBudgetExceeded _) = BudgetExceeded"
| "run_error (CallDepthExceeded _) = DepthExceeded"
| "run_error (UnknownHelper _ i) = HelperNotRegistered i"
| "run_error (OutOfBounds _) = InvalidBytecode ''invalid or out-of-bounds bytecode''"
| "run_error (UnknownOpcode _ _) = InvalidBytecode ''invalid or out-of-bounds bytecode''"
| "run_error (InvalidMapIndex _ _) = LoadError ''invalid map index or helper argument''"
| "run_error (InvalidHelperArgument _ _) = LoadError ''invalid map index or helper argument''"
| "run_error _ = RuntimeError ''BPF runtime error''"

text \<open>Where the stack and the copy of the context are, and the rest of the memory.\<close>

record exec_layout =
  xl_stack :: u64
  xl_ctx :: u64
  xl_map_base :: u64
  xl_blob :: u64
  xl_memory :: memory

definition context_bytes :: "sonde_context \<Rightarrow> bytes" where
  "context_bytes cx =
     rev (be64 (cx_timestamp cx)) @ rev (be16 (cx_battery_mv cx)) @ rev (be16 (cx_firmware_abi_version cx)) @
     [cx_wake_reason cx] @ replicate 3 0 @ rev (be64 (cx_data_start cx)) @ rev (be64 (cx_data_end cx))"

definition interpreter_env :: "exec_layout \<Rightarrow> sonde_context \<Rightarrow> u64 \<Rightarrow> bpf_interpreter \<Rightarrow> bytes \<Rightarrow> dispatch_context bpf_env" where
  "interpreter_env xl cx budget bi code =
     \<lparr>e_prog = code, e_ctx_len = length (context_bytes cx), e_helpers = bi_helpers bi, e_maps = bi_map_regions bi,
      e_read_only_ctx = True, e_budget = budget, e_ctx_ptrs = [], e_stack_base = xl_stack xl, e_ctx_base = xl_ctx xl,
      e_overflow_checks = False\<rparr>"

text \<open>The fuel covers the budget; \<open>None\<close> is a panic of the interpreter.\<close>

definition bpf_execute ::
    "exec_layout \<Rightarrow> sonde_context \<Rightarrow> u64 \<Rightarrow> bpf_interpreter \<Rightarrow> memory \<times> dispatch_context
       \<Rightarrow> (bpf_run_error + u64) option \<times> (memory \<times> dispatch_context)" where
  "bpf_execute xl cx budget bi mc =
     (case bi_bytecode bi of
        None \<Rightarrow> (Some (Inl (LoadError ''no program loaded'')), mc)
      | Some code \<Rightarrow>
          (case mc of (m, c) \<Rightarrow>
             (case execute_program (unat budget + 2) (interpreter_env xl cx budget bi code)
                    (write_bytes m (xl_ctx xl) (context_bytes cx)) c of
               None \<Rightarrow> (None, mc)
             | Some (r, s) \<Rightarrow>
                 ((case r of Returned v \<Rightarrow> Some (Inr v) | Failed e \<Rightarrow> Some (Inl (run_error e)) | Panicked \<Rightarrow> None),
                  (v_mem s, v_world s)))))"

section \<open>An execution of the wake cycle\<close>

definition install :: "node_env \<Rightarrow> hal \<Rightarrow> exec_layout \<Rightarrow> exec_request \<Rightarrow> bpf_view \<Rightarrow> dispatch_context" where
  "install env hal xl req v =
     \<lparr>dc_env = env, dc_hal = hal, dc_bus = [], dc_link = bv_link v, dc_maps = xr_maps req, dc_map_base = xl_map_base xl,
      dc_map_len = length (rtc_backing (bv_rtc v)), dc_sleep = bv_sleep v, dc_identity = xr_identity req,
      dc_class = xr_class req, dc_trace = [], dc_queue = bv_queue v, dc_timestamp_ms = xr_timestamp_ms req,
      dc_received_at_ms = xr_received_at_ms req, dc_battery_mv = xr_battery_mv req, dc_index = build_index (xr_maps req)\<rparr>"

definition exec_memory :: "exec_layout \<Rightarrow> exec_request \<Rightarrow> bpf_view \<Rightarrow> memory" where
  "exec_memory xl req v =
     write_bytes (write_bytes (xl_memory xl) (xl_map_base xl) (rtc_backing (bv_rtc v)))
       (xl_blob xl) (case xr_blob req of None \<Rightarrow> [] | Some b \<Rightarrow> b)"

definition bpf_session ::
    "node_env \<Rightarrow> hal \<Rightarrow> exec_layout \<Rightarrow> exec_request \<Rightarrow> bpf_view
       \<Rightarrow> (bpf_run_error + u64) option \<times> (memory \<times> dispatch_context)" where
  "bpf_session env hal xl req v =
     (let bi = register_all interpreter_new; mc = (exec_memory xl req v, install env hal xl req v) in
      case bpf_load (lp_bytecode (xr_program req)) (st_ptrs (xr_maps req)) (xr_load_defs req) bi of
        (Inl e, _) \<Rightarrow> (Some (Inl e), mc)
      | (Inr _, bi') \<Rightarrow> bpf_execute xl (xr_context req) DEFAULT_INSTRUCTION_BUDGET bi' mc)"

definition node_exec :: "node_env \<Rightarrow> hal \<Rightarrow> exec_layout \<Rightarrow> bpf_exec" where
  "node_exec env hal xl req v =
     (case bpf_session env hal xl req v of (_, (m, c)) \<Rightarrow>
        \<lparr>bv_link = dc_link c,
         bv_rtc = (bv_rtc v)\<lparr>rtc_backing := read_bytes m (xl_map_base xl) (length (rtc_backing (bv_rtc v)))\<rparr>,
         bv_sleep = dc_sleep c, bv_queue = dc_queue c\<rparr>)"

end
