(* ===== verification/Node_Bpf_Memory.thy ===== *)
theory Node_Bpf_Memory
  imports Node_Bpf Bpf_Correct Map_Correct
begin

text \<open>
  The memory an execution on the node touches. The interpreter checks its own accesses; the helpers
  dereference the pointers they are given, and the safety contract of \<open>bpf_dispatch.rs\<close> rests on the
  static verifier of the gateway for them: every buffer a helper is called with lies in the program's
  memory. \<open>verified_run\<close> states that of one execution, step by step. Under it, the bytes outside
  the program's memory stay as they are, helper calls included.
\<close>

section \<open>Slices of memory\<close>

lemma length_read_bytes [simp]: "length (read_bytes m p n) = n"
  by (simp add: read_bytes_def)

lemma write_bytes_outside: "\<not> unat (a - p) < length bs \<Longrightarrow> write_bytes m p bs a = m a"
  by (simp add: write_bytes_def)

section \<open>What the verifier promises\<close>

text \<open>The slices a helper forms from its arguments, by its number.\<close>

definition update_value_size :: "dispatch_context \<Rightarrow> u64 \<Rightarrow> nat" where
  "update_value_size c r1 =
     (case index_get (dc_index c) r1 of
        None \<Rightarrow> 0
      | Some i \<Rightarrow> if i < length (st_maps (dc_maps c)) then unat (md_value_size (mi_def (st_maps (dc_maps c) ! i))) else 0)"

definition helper_buffers :: "u32 \<Rightarrow> u64 \<Rightarrow> u64 \<Rightarrow> u64 \<Rightarrow> u64 \<Rightarrow> u64 \<Rightarrow> dispatch_context \<Rightarrow> (u64 \<times> nat) list" where
  "helper_buffers hid r1 r2 r3 r4 r5 c =
     (if hid = 1 \<or> hid = 2 \<or> hid = 4 then [(as_ptr r2, as_usize r3)]
      else if hid = 3 then [(as_ptr r2, as_usize r3), (as_ptr r4, as_usize r5)]
      else if hid = 8 \<or> hid = 16 \<or> hid = 17 then [(as_ptr r1, as_usize r2)]
      else if hid = 9 then [(as_ptr r1, as_usize r2), (as_ptr r3, as_usize r4)]
      else if hid = 10 then [(as_ptr r2, 4)]
      else if hid = 11 then [(as_ptr r2, 4), (as_ptr r3, update_value_size c r1)]
      else [])"

text \<open>The program's memory: its stack, the context, the maps it was loaded with, and the RTC buffer in
  which the update helper stores.\<close>

definition program_memory :: "'w bpf_env \<Rightarrow> dispatch_context \<Rightarrow> u64 \<Rightarrow> bool" where
  "program_memory e c a \<longleftrightarrow> readable e a \<or> unat (a - dc_map_base c) < dc_map_len c"

definition buffer_inside :: "'w bpf_env \<Rightarrow> dispatch_context \<Rightarrow> u64 \<times> nat \<Rightarrow> bool" where
  "buffer_inside e c b \<longleftrightarrow> fst b = 0 \<or> (\<forall>k < snd b. program_memory e c (fst b + of_nat k))"

text \<open>The next instruction, if it calls a helper, passes it buffers in the program's memory (or null).\<close>

definition is_helper_call :: "insn \<Rightarrow> bool" where
  "is_helper_call i \<longleftrightarrow> i_opc i = CALL \<and> (i_src i = 0 \<or> i_src i = 2)"

definition call_ok :: "dispatch_context bpf_env \<Rightarrow> dispatch_context vm \<Rightarrow> bool" where
  "call_ok e s \<longleftrightarrow>
     (case get_insn (e_prog e) (v_pc s) of
        None \<Rightarrow> True
      | Some i \<Rightarrow> \<not> is_helper_call i \<or>
          list_all (buffer_inside e (v_world s))
            (helper_buffers (i_imm i) (tvalue (v_reg s ! 1)) (tvalue (v_reg s ! 2)) (tvalue (v_reg s ! 3))
               (tvalue (v_reg s ! 4)) (tvalue (v_reg s ! 5)) (v_world s)))"

primrec verified_run :: "nat \<Rightarrow> dispatch_context bpf_env \<Rightarrow> dispatch_context vm \<Rightarrow> bool" where
  "verified_run 0 e s = True"
| "verified_run (Suc n) e s =
     (call_ok e s \<and> (case bpf_step e s of Next s' \<Rightarrow> verified_run n e s' | Stop x s' \<Rightarrow> True))"

text \<open>A run that ends needs no more than the steps it takes.\<close>

lemma verified_run_ends:
  "run_loop (bpf_step e) n s = Some r \<Longrightarrow> verified_run n e s \<Longrightarrow> verified_run k e s"
proof (induction n arbitrary: s k)
  case (Suc n)
  then show ?case by (cases k) (auto split: step_result.splits)
qed simp

section \<open>Helpers\<close>

definition keeps_outside :: "'w bpf_env \<Rightarrow> dispatch_context \<Rightarrow> memory \<Rightarrow> memory \<Rightarrow> bool" where
  "keeps_outside e c m m' \<longleftrightarrow> (\<forall>a. \<not> program_memory e c a \<longrightarrow> m' a = m a)"

lemma keeps_outside_refl [simp]: "keeps_outside e c m m"
  by (simp add: keeps_outside_def)

lemma keeps_outside_trans: "keeps_outside e c m m' \<Longrightarrow> keeps_outside e c m' m'' \<Longrightarrow> keeps_outside e c m m''"
  by (simp add: keeps_outside_def)

lemma write_inside:
  assumes "buffer_inside e c (p, n)" and "p \<noteq> 0" and "length bs \<le> n"
  shows "keeps_outside e c m (write_bytes m p bs)"
proof -
  have "unat (a - p) < length bs \<Longrightarrow> program_memory e c a" for a
  proof -
    assume "unat (a - p) < length bs"
    then have "unat (a - p) < n" using assms(3) by simp
    moreover have "\<forall>k < n. program_memory e c (p + of_nat k)" using assms(1,2) by (simp add: buffer_inside_def)
    ultimately have "program_memory e c (p + of_nat (unat (a - p)))" by blast
    then show ?thesis by simp
  qed
  then show ?thesis unfolding keeps_outside_def by (metis write_bytes_outside)
qed

text \<open>Where the maps are does not change during an execution.\<close>

definition same_maps :: "dispatch_context \<Rightarrow> dispatch_context \<Rightarrow> bool" where
  "same_maps c c' \<longleftrightarrow> dc_maps c' = dc_maps c \<and> dc_map_base c' = dc_map_base c \<and> dc_map_len c' = dc_map_len c"

definition maps_in_buffer :: "dispatch_context \<Rightarrow> bool" where
  "maps_in_buffer c \<longleftrightarrow> (\<forall>mi \<in> set (st_maps (dc_maps c)). mi_off mi + mi_len mi \<le> dc_map_len c)"

lemma same_maps_refl [simp]: "same_maps c c"
  by (simp add: same_maps_def)

lemma same_maps_program: "same_maps c c' \<Longrightarrow> program_memory e c' = program_memory e c \<and> maps_in_buffer c' = maps_in_buffer c"
  by (auto simp: same_maps_def program_memory_def maps_in_buffer_def fun_eq_iff)

lemma bus_same_maps: "bus call c = (rc, bs, c') \<Longrightarrow> same_maps c c'"
  by (auto simp: bus_def same_maps_def split: prod.splits)

lemma on_link_same_maps: "on_link f c = (r, c') \<Longrightarrow> same_maps c c'"
  by (auto simp: on_link_def same_maps_def split: prod.splits)

lemma helpers_same_maps:
  assumes "f \<in> snd ` set helper_table" and "f r1 r2 r3 r4 r5 (m, c) = (r, (m', c'))"
  shows "same_maps c c'"
proof -
  have "same_maps c (c\<lparr>dc_queue := q\<rparr>)" "same_maps c (c\<lparr>dc_link := l\<rparr>)" "same_maps c (c\<lparr>dc_sleep := sl\<rparr>)" "same_maps c (c\<lparr>dc_trace := t\<rparr>)" for q l sl t
    by (simp_all add: same_maps_def)
  note fields = this
  have "f \<in> {helper_i2c_read, helper_i2c_write, helper_i2c_write_read, helper_spi_transfer, helper_gpio_read, helper_gpio_write,
      helper_adc_read} \<union> {helper_send, helper_send_recv, helper_send_async} \<union>
     {helper_map_lookup_elem, helper_map_update_elem, helper_get_time, helper_get_battery_mv, helper_delay_us,
      helper_set_next_wake, helper_bpf_trace_printk}"
    using assms(1) unfolding helper_table_def by (simp only: set_simps image_insert image_empty snd_conv) blast
  then show ?thesis
  proof (elim UnE)
    assume "f \<in> {helper_i2c_read, helper_i2c_write, helper_i2c_write_read, helper_spi_transfer, helper_gpio_read, helper_gpio_write, helper_adc_read}"
    with assms(2) show ?thesis
      by (auto simp: helper_i2c_read_def helper_i2c_write_def helper_i2c_write_read_def helper_spi_transfer_def helper_gpio_read_def
          helper_gpio_write_def helper_adc_read_def Let_def split: if_splits prod.splits dest: bus_same_maps)
  next
    assume "f \<in> {helper_send, helper_send_recv, helper_send_async}"
    with assms(2) show ?thesis
      by (auto simp: helper_send_def helper_send_recv_def helper_send_async_def Let_def fields
          split: if_splits prod.splits sum.splits dest: on_link_same_maps)
  next
    assume "f \<in> {helper_map_lookup_elem, helper_map_update_elem, helper_get_time, helper_get_battery_mv, helper_delay_us,
      helper_set_next_wake, helper_bpf_trace_printk}"
    with assms(2) show ?thesis
      by (auto simp: helper_map_lookup_elem_def helper_map_update_elem_def helper_get_time_def helper_get_battery_mv_def
          helper_delay_us_def helper_set_next_wake_def helper_bpf_trace_printk_def Let_def fields
          split: if_splits option.splits sum.splits)
  qed
qed

lemma update_keeps_outside:
  assumes "maps_in_buffer c" and "helper_map_update_elem r1 r2 r3 r4 r5 (m, c) = (r, (m', c'))"
  shows "keeps_outside e c m m'"
proof -
  have "keeps_outside e c m (write_bytes m (dc_map_base c) buf)"
    if "map_update (map_buffer m c) (st_maps (dc_maps c) ! i) key val = Inr buf" "i < length (st_maps (dc_maps c))" for i key val buf
  proof -
    have "mi_off (st_maps (dc_maps c) ! i) + mi_len (st_maps (dc_maps c) ! i) \<le> dc_map_len c"
      using assms(1) that(2) by (simp add: maps_in_buffer_def)
    then have "length buf = dc_map_len c" using map_update_length [OF that(1)] by (simp add: map_buffer_def)
    then show ?thesis by (auto simp: keeps_outside_def program_memory_def intro: write_bytes_outside)
  qed
  with assms(2) show ?thesis
    by (auto simp: helper_map_update_elem_def Let_def split: if_splits option.splits sum.splits)
qed

lemma helper_keeps_outside:
  assumes "(hid, f) \<in> set helper_table" and "f r1 r2 r3 r4 r5 (m, c) = (r, (m', c'))"
    and "list_all (buffer_inside e c) (helper_buffers hid r1 r2 r3 r4 r5 c)" and "maps_in_buffer c"
  shows "keeps_outside e c m m'"
proof (cases "hid = 1 \<or> hid = 3 \<or> hid = 4 \<or> hid = 9 \<or> hid = 11")
  case True
  then show ?thesis
  proof (elim disjE)
    assume h: "hid = 1"
    then have "f = helper_i2c_read" using assms(1) by (auto simp: helper_table_def MAP_LOOKUP_ELEM_def)
    with assms(2,3) h show ?thesis
      by (auto simp: helper_buffers_def helper_i2c_read_def Let_def split: if_splits prod.splits intro!: write_inside)
  next
    assume h: "hid = 3"
    then have "f = helper_i2c_write_read" using assms(1) by (auto simp: helper_table_def MAP_LOOKUP_ELEM_def)
    with assms(2,3) h show ?thesis
      by (auto simp: helper_buffers_def helper_i2c_write_read_def Let_def split: if_splits prod.splits intro!: write_inside)
  next
    assume h: "hid = 4"
    then have "f = helper_spi_transfer" using assms(1) by (auto simp: helper_table_def MAP_LOOKUP_ELEM_def)
    with assms(2,3) h show ?thesis
      by (auto simp: helper_buffers_def helper_spi_transfer_def Let_def split: if_splits prod.splits intro!: write_inside)
  next
    assume h: "hid = 9"
    then have "f = helper_send_recv" using assms(1) by (auto simp: helper_table_def MAP_LOOKUP_ELEM_def)
    with assms(2,3) h show ?thesis
      by (auto simp: helper_buffers_def helper_send_recv_def Let_def split: if_splits prod.splits sum.splits intro!: write_inside)
  next
    assume h: "hid = 11"
    then have "f = helper_map_update_elem" using assms(1) by (auto simp: helper_table_def MAP_LOOKUP_ELEM_def)
    with assms(2) show ?thesis using update_keeps_outside [OF assms(4)] by blast
  qed
next
  case False
  then have "f \<in> {helper_i2c_write, helper_gpio_read, helper_gpio_write, helper_adc_read, helper_send, helper_send_async,
      helper_map_lookup_elem, helper_get_time, helper_get_battery_mv, helper_delay_us, helper_set_next_wake, helper_bpf_trace_printk}"
    using assms(1) by (auto simp: helper_table_def)
  with assms(2) have "m' = m"
    by (auto simp: helper_i2c_write_def helper_gpio_read_def helper_gpio_write_def helper_adc_read_def helper_send_def helper_send_async_def
        helper_map_lookup_elem_def helper_get_time_def helper_get_battery_mv_def helper_delay_us_def helper_set_next_wake_def
        helper_bpf_trace_printk_def Let_def split: if_splits option.splits sum.splits prod.splits)
  then show ?thesis by simp
qed

section \<open>Instructions\<close>

text \<open>An instruction that does not call a helper does the same when there are none: what is proved of the
  interpreter with confined helpers applies to it.\<close>

definition no_helpers :: "'w bpf_env \<Rightarrow> 'w bpf_env" where
  "no_helpers e = e\<lparr>e_helpers := []\<rparr>"

lemma no_helpers_fields [simp]:
  "e_prog (no_helpers e) = e_prog e" "e_ctx_len (no_helpers e) = e_ctx_len e" "e_helpers (no_helpers e) = []" "e_maps (no_helpers e) = e_maps e"
  "e_read_only_ctx (no_helpers e) = e_read_only_ctx e" "e_budget (no_helpers e) = e_budget e" "e_ctx_ptrs (no_helpers e) = e_ctx_ptrs e"
  "e_stack_base (no_helpers e) = e_stack_base e" "e_ctx_base (no_helpers e) = e_ctx_base e" "e_overflow_checks (no_helpers e) = e_overflow_checks e"
  by (simp_all add: no_helpers_def)

lemma no_helpers_regions [simp]:
  "stack_end (no_helpers e) = stack_end e" "ctx_end (no_helpers e) = ctx_end e" "num_insns (no_helpers e) = num_insns e"
  "plain_add (no_helpers e) = plain_add e" "writable (no_helpers e) = writable e" "env_ok (no_helpers e) = env_ok e"
  by (simp_all add: stack_end_def ctx_end_def num_insns_def plain_add_def writable_def env_ok_def fun_eq_iff)

lemma no_helpers_granted [simp]:
  "stack_region (no_helpers e) = stack_region e" "ctx_region (no_helpers e) = ctx_region e"
  by (simp_all add: stack_region_def ctx_region_def)

lemma no_helpers_inv [simp]: "granted (no_helpers e) = granted e" "vm_inv (no_helpers e) = vm_inv e" "helpers_confined (no_helpers e)"
  by (simp_all add: granted_def vm_inv_def reg_ok_def spill_ok_def frame_ok_def helpers_confined_def fun_eq_iff)

lemma no_helpers_after [simp]:
  "plain_sub (no_helpers e) = plain_sub e" "invalidate_after (no_helpers e) = invalidate_after e" "spill_after (no_helpers e) = spill_after e"
  "loaded_region (no_helpers e) = loaded_region e"
  by (simp_all only: plain_sub_def invalidate_after_def spill_after_def loaded_region_def no_helpers_fields fun_eq_iff simp_thms)

lemmas no_helpers_simps = no_helpers_fields no_helpers_regions no_helpers_granted no_helpers_after

lemma no_helpers_arms:
  "exec_load (no_helpers e) i s = exec_load e i s" "exec_store_imm (no_helpers e) i s = exec_store_imm e i s"
  "exec_store_reg (no_helpers e) i s = exec_store_reg e i s" "exec_atomic (no_helpers e) i s = exec_atomic e i s"
  "exec_jump (no_helpers e) i s = exec_jump e i s" "exec_local_call (no_helpers e) i s = exec_local_call e i s"
  "exec_exit (no_helpers e) s = exec_exit e s" "exec_ld_dw_imm (no_helpers e) i s = exec_ld_dw_imm e i s"
  by (simp_all only: exec_load_def exec_store_imm_def exec_store_reg_def exec_atomic_def exec_jump_def exec_local_call_def
      exec_exit_def exec_ld_dw_imm_def no_helpers_simps)

lemma no_helpers_insn: "\<not> is_helper_call i \<Longrightarrow> exec_insn (no_helpers e) i s = exec_insn e i s"
  by (auto simp: is_helper_call_def exec_insn_def exec_call_def no_helpers_arms)

fun result_world :: "'w vm_result \<Rightarrow> 'w" where
  "result_world (Next s) = v_world s"
| "result_world (Stop x s) = v_world s"

lemma world_lift: "(\<And>x. r = Inr x \<Longrightarrow> result_world (k x) = v_world s) \<Longrightarrow> result_world (lift_res s r k) = v_world s"
  by (cases r) (simp_all add: lift_res_def)

lemma world_after [simp]:
  "v_world (invalidate_after e base off n s) = v_world s"
  "v_world (spill_after e base off stored s) = v_world s"
  "v_world (set_reg s d r) = v_world s"
  by (simp_all add: invalidate_after_def spill_after_def set_reg_def Let_def split: option.splits)

lemma world_arms:
  "exec_load e i s = Some r \<Longrightarrow> result_world r = v_world s"
  "exec_store_imm e i s = Some r \<Longrightarrow> result_world r = v_world s"
  "exec_store_reg e i s = Some r \<Longrightarrow> result_world r = v_world s"
  "exec_atomic e i s = Some r \<Longrightarrow> result_world r = v_world s"
  "exec_alu i s = Some r \<Longrightarrow> result_world r = v_world s"
  "exec_jump e i s = Some r \<Longrightarrow> result_world r = v_world s"
  by (auto simp: exec_load_def exec_store_imm_def exec_store_reg_def exec_atomic_def exec_alu_def
      exec_jump_def Let_def split: if_splits option.splits intro!: world_lift)

lemma world_control:
  "result_world (exec_local_call e i s) = v_world s"
  "result_world (exec_exit e s) = v_world s"
  "result_world (exec_ld_dw_imm e i s) = v_world s"
  by (auto simp: exec_local_call_def exec_exit_def exec_ld_dw_imm_def Let_def lift_res_def
      split: option.splits sum.splits)

lemma world_kept: "\<not> is_helper_call i \<Longrightarrow> result_world (exec_insn e i s) = v_world s"
  by (auto simp: is_helper_call_def exec_insn_def exec_call_def world_control split: option.splits dest!: or_else_SomeD dest: world_arms)

section \<open>The registered helpers\<close>

lemma replace_helper_set: "replace_helper d hs = Some hs' \<Longrightarrow> set hs' \<subseteq> insert d (set hs)"
  by (induction hs arbitrary: hs') (auto split: if_splits)

lemma register_helper_funcs:
  "h \<in> set (bi_helpers (register_helper i f bi)) \<Longrightarrow> h_id h = i \<and> h_func h = f \<or> h \<in> set (bi_helpers bi)"
  by (auto simp: register_helper_def Let_def split: option.splits dest!: replace_helper_set)

lemma registered_funcs:
  "h \<in> set (bi_helpers (foldl (\<lambda>bi (i, f). register_helper i f bi) bi tab)) \<Longrightarrow>
     (h_id h, h_func h) \<in> set tab \<or> h \<in> set (bi_helpers bi)"
proof (induction tab arbitrary: bi)
  case (Cons p tab)
  obtain i f where p: "p = (i, f)" by (cases p)
  with Cons.prems Cons.IH [of "register_helper i f bi"] show ?case by (auto dest: register_helper_funcs)
qed simp

lemma registered_in_table: "h \<in> set (bi_helpers (register_all interpreter_new)) \<Longrightarrow> (h_id h, h_func h) \<in> set helper_table"
  using registered_funcs [of h interpreter_new helper_table] by (simp add: register_all_def interpreter_new_def)

section \<open>Whole executions\<close>

text \<open>One iteration: the next state keeps the bytes outside the program's memory.\<close>

definition memory_step :: "dispatch_context bpf_env \<Rightarrow> dispatch_context vm \<Rightarrow> dispatch_context vm \<Rightarrow> bool" where
  "memory_step e s s' \<longleftrightarrow> keeps_outside e (v_world s) (v_mem s) (v_mem s') \<and> same_maps (v_world s) (v_world s')"

fun result_state :: "'w vm_result \<Rightarrow> 'w vm" where
  "result_state (Next s) = s"
| "result_state (Stop x s) = s"

lemma writable_program: "writable e a \<Longrightarrow> program_memory e c a"
  by (auto simp: writable_def readable_def program_memory_def)

lemma memory_insn:
  assumes "env_ok e" and "vm_inv e s" and "i_dst i \<le> 10" and "i_src i \<le> 10" and "\<not> is_helper_call i"
    and "get_insn (e_prog e) (v_pc s) \<noteq> None \<or> v_pc s \<ge> num_insns e"
  shows "memory_step e s (result_state (exec_insn e i s))"
proof -
  have "step_safe (no_helpers e) s (exec_insn e i s)"
    using safe_insn [of "no_helpers e" s i] assms by (simp add: no_helpers_insn)
  then have "\<not> writable e a \<Longrightarrow> v_mem (result_state (exec_insn e i s)) a = v_mem s a" for a
    by (cases "exec_insn e i s") (simp_all add: confined_def)
  moreover have "v_world (result_state (exec_insn e i s)) = v_world s"
    using world_kept [OF assms(5), of e s] by (cases "exec_insn e i s") simp_all
  ultimately show ?thesis using writable_program by (auto simp: memory_step_def keeps_outside_def)
qed

lemma memory_helper:
  assumes "e_helpers e = bi_helpers (register_all interpreter_new)" and "maps_in_buffer (v_world s)"
    and "list_all (buffer_inside e (v_world s))
           (helper_buffers (i_imm i) (tvalue (v_reg s ! 1)) (tvalue (v_reg s ! 2)) (tvalue (v_reg s ! 3))
              (tvalue (v_reg s ! 4)) (tvalue (v_reg s ! 5)) (v_world s))"
  shows "memory_step e s (result_state (exec_helper e i s))"
proof (cases "find (\<lambda>h. h_id h = i_imm i) (e_helpers e)")
  case None
  then show ?thesis by (simp add: exec_helper_def memory_step_def)
next
  case (Some h)
  obtain r m w where call: "h_func h (tvalue (v_reg s ! 1)) (tvalue (v_reg s ! 2)) (tvalue (v_reg s ! 3))
      (tvalue (v_reg s ! 4)) (tvalue (v_reg s ! 5)) (v_mem s, v_world s) = (r, (m, w))"
    by (metis surj_pair)
  have res: "v_mem (result_state (exec_helper e i s)) = m \<and> v_world (result_state (exec_helper e i s)) = w"
    using Some call by (auto simp: exec_helper_def Let_def split: helper_return.splits sum.splits option.splits)
  from Some have "h \<in> set (bi_helpers (register_all interpreter_new))" "h_id h = i_imm i"
    using assms(1) by (auto simp: find_Some_iff)
  then have h: "(i_imm i, h_func h) \<in> set helper_table" using registered_in_table by metis
  then have "h_func h \<in> snd ` set helper_table" by force
  from helpers_same_maps [OF this call] helper_keeps_outside [OF h call assms(3,2)] res show ?thesis
    by (simp add: memory_step_def)
qed

lemma memory_iteration:
  assumes wf: "env_wf e" and inv: "vm_inv e s" and helpers: "e_helpers e = bi_helpers (register_all interpreter_new)"
    and maps: "maps_in_buffer (v_world s)" and ok: "call_ok e s"
  shows "memory_step e s (result_state (bpf_step e s))"
proof -
  have fetch: "get_insn (e_prog e) k \<noteq> None \<or> k \<ge> num_insns e" for k
    using get_insn_in_range [of "e_prog e"] wf by (auto simp: env_wf_def num_insns_def not_le)
  have step: "memory_step e s (result_state (exec_insn e i (s\<lparr>v_count := k, v_pc := p\<rparr>)))"
    if "get_insn (e_prog e) (v_pc s) = Some i" "i_dst i \<le> 10" "i_src i \<le> 10" for i k p
  proof (cases "is_helper_call i")
    case True
    let ?s = "s\<lparr>v_count := k, v_pc := p\<rparr>"
    have "exec_insn e i ?s = exec_helper e i ?s" using True by (auto simp: is_helper_call_def exec_insn_def exec_call_def ebpf_consts)
    moreover have "memory_step e ?s (result_state (exec_helper e i ?s))"
      using memory_helper [OF helpers, of ?s i] maps ok that(1) True by (simp add: call_ok_def)
    ultimately show ?thesis by (simp add: memory_step_def)
  next
    case False
    then show ?thesis
      using memory_insn [of e "s\<lparr>v_count := k, v_pc := p\<rparr>" i] wf inv that fetch [of p] by (simp add: env_wf_def memory_step_def)
  qed
  have same: "memory_step e s s" "memory_step e s (s\<lparr>v_count := k\<rparr>)" "memory_step e s (s\<lparr>v_count := k, v_pc := p\<rparr>)" for k p
    by (simp_all add: memory_step_def)
  show ?thesis
    using step same by (auto simp: bpf_step_def Let_def plain_add_def not_less split: option.splits)
qed

text \<open>The loop, from memory \<open>m0\<close> and dispatch context \<open>c0\<close> on.\<close>

definition memory_inv :: "dispatch_context bpf_env \<Rightarrow> memory \<Rightarrow> dispatch_context \<Rightarrow> dispatch_context vm \<Rightarrow> bool" where
  "memory_inv e m0 c0 s \<longleftrightarrow> keeps_outside e c0 m0 (v_mem s) \<and> same_maps c0 (v_world s)"

lemma memory_inv_step:
  assumes "memory_inv e m0 c0 s" and "memory_step e s s'" shows "memory_inv e m0 c0 s'"
  using assms same_maps_program [of c0 "v_world s" e]
  by (auto simp: memory_inv_def memory_step_def keeps_outside_def same_maps_def)

interpretation bpf_memory: loop_invariant "bpf_step e"
    "\<lambda>s. env_wf e \<and> e_helpers e = bi_helpers (register_all interpreter_new) \<and> maps_in_buffer c0 \<and> vm_inv e s \<and>
       memory_inv e m0 c0 s \<and> (\<forall>n. verified_run n e s)"
    "\<lambda>x s. memory_inv e m0 c0 s"
  for e :: "dispatch_context bpf_env" and m0 :: memory and c0 :: dispatch_context
proof unfold_locales
  fix s s' x
  assume inv: "env_wf e \<and> e_helpers e = bi_helpers (register_all interpreter_new) \<and> maps_in_buffer c0 \<and> vm_inv e s \<and>
       memory_inv e m0 c0 s \<and> (\<forall>n. verified_run n e s)"
  have "verified_run (Suc 0) e s" using inv by blast
  then have "call_ok e s" by simp
  moreover have "maps_in_buffer (v_world s)" using inv same_maps_program [of c0 "v_world s" e] by (auto simp: memory_inv_def)
  ultimately have step: "memory_step e s (result_state (bpf_step e s))" using inv by (intro memory_iteration) auto
  have safe: "step_safe e s (bpf_step e s)" using inv by (intro safe_step) (auto simp: env_wf_def)
  show "env_wf e \<and> e_helpers e = bi_helpers (register_all interpreter_new) \<and> maps_in_buffer c0 \<and> vm_inv e s' \<and>
       memory_inv e m0 c0 s' \<and> (\<forall>n. verified_run n e s')" if nx: "bpf_step e s = Next s'"
  proof -
    have "verified_run n e s'" for n
    proof -
      have "verified_run (Suc n) e s" using inv by blast
      with nx show ?thesis by simp
    qed
    with inv step safe nx memory_inv_step [of e m0 c0 s s'] show ?thesis by simp
  qed
  show "memory_inv e m0 c0 s'" if "bpf_step e s = Stop x s'"
    using inv step that memory_inv_step [of e m0 c0 s s'] by simp
qed

lemma execution_keeps_outside:
  assumes "env_ok e" and "e_helpers e = bi_helpers (register_all interpreter_new)" and "maps_in_buffer c"
    and "\<forall>n. verified_run n e (initial_vm e m c)" and "execute_program fuel e m c = Some (x, s)"
  shows "keeps_outside e c m (v_mem s)"
proof -
  have init: "memory_inv e m c (initial_vm e m c)"
    by (auto simp: memory_inv_def keeps_outside_def initial_vm_def program_memory_def readable_def)
  consider "s = initial_vm e m c" | "length (e_prog e) mod INSN_SIZE = 0" "run_loop (bpf_step e) fuel (initial_vm e m c) = Some (x, s)"
    using assms(5) by (auto simp: execute_program_def Let_def bpf_run_def split: if_splits)
  then have "memory_inv e m c s"
  proof cases
    case 2
    from 2(2) show ?thesis
      by (rule bpf_memory.run_post [rotated]) (use assms init 2(1) initial_vm_inv in \<open>auto simp: env_wf_def\<close>)
  qed (use init in simp)
  then show ?thesis by (simp add: memory_inv_def)
qed

end
