(* ===== verification/Node_Bpf_Correct.thy ===== *)
theory Node_Bpf_Correct
  imports Node_Bpf_Memory Cycle_Correct
begin

text \<open>
  What an execution of a program on the node can do: it ends, it does not panic, it keeps to its own
  memory when its helper calls do, the frames it sends are numbered on from the session's counter, its
  class limits what it can change. An execution
  reaches the node only through the helpers, so its effect on the dispatch context is a sequence of
  helper calls (\<open>helper_calls\<close>), at most one per instruction of the budget.
\<close>

section \<open>An execution is a sequence of helper calls\<close>

inductive helper_calls :: "'w bpf_env \<Rightarrow> nat \<Rightarrow> 'w \<Rightarrow> 'w \<Rightarrow> bool" for e where
  none: "helper_calls e 0 w w"
| call: "helper_calls e n w w' \<Longrightarrow> h \<in> set (e_helpers e) \<Longrightarrow> h_func h a1 a2 a3 a4 a5 (m, w') = (r, (m', w''))
    \<Longrightarrow> helper_calls e (Suc n) w w''"

lemma world_helper:
  "result_world (exec_helper e i s) = v_world s \<or>
   (\<exists>h \<in> set (e_helpers e). \<exists>a1 a2 a3 a4 a5 m r m'.
      h_func h a1 a2 a3 a4 a5 (m, v_world s) = (r, (m', result_world (exec_helper e i s))))"
proof (cases "find (\<lambda>h. h_id h = i_imm i) (e_helpers e)")
  case None
  then show ?thesis by (simp add: exec_helper_def)
next
  case (Some h)
  obtain r m' w' where "h_func h (tvalue (v_reg s ! 1)) (tvalue (v_reg s ! 2)) (tvalue (v_reg s ! 3))
      (tvalue (v_reg s ! 4)) (tvalue (v_reg s ! 5)) (v_mem s, v_world s) = (r, (m', w'))"
    by (metis surj_pair)
  moreover from this Some have "result_world (exec_helper e i s) = w'"
    by (auto simp: exec_helper_def Let_def split: helper_return.splits sum.splits option.splits)
  moreover from Some have "h \<in> set (e_helpers e)" by (auto simp: find_Some_iff)
  ultimately show ?thesis by blast
qed

lemma world_insn:
  "result_world (exec_insn e i s) = v_world s \<or>
   (\<exists>h \<in> set (e_helpers e). \<exists>a1 a2 a3 a4 a5 m r m'.
      h_func h a1 a2 a3 a4 a5 (m, v_world s) = (r, (m', result_world (exec_insn e i s))))"
proof (cases "i_opc i = CALL \<and> (i_src i = 0 \<or> i_src i = 2)")
  case True
  then have "exec_insn e i s = exec_helper e i s" by (simp add: exec_insn_def exec_call_def ebpf_consts)
  with world_helper [of e i s] show ?thesis by simp
next
  case False
  then have "result_world (exec_insn e i s) = v_world s"
    by (auto simp: exec_insn_def exec_call_def world_control split: option.splits dest!: or_else_SomeD dest: world_arms)
  then show ?thesis by simp
qed

lemma world_step:
  "result_world (bpf_step e s) = v_world s \<or> v_count s + 1 \<le> e_budget e \<and>
   (\<exists>h \<in> set (e_helpers e). \<exists>a1 a2 a3 a4 a5 m r m'.
      h_func h a1 a2 a3 a4 a5 (m, v_world s) = (r, (m', result_world (bpf_step e s))))"
proof -
  let ?s = "s\<lparr>v_count := v_count s + 1, v_pc := Suc (v_pc s)\<rparr>"
  have "result_world (bpf_step e s) = v_world s \<or>
    (\<exists>i. bpf_step e s = exec_insn e i ?s \<and> v_count s + 1 \<le> e_budget e)"
    by (auto simp: bpf_step_def Let_def plain_add_def not_less split: option.splits if_splits)
  then show ?thesis
  proof (elim disjE exE conjE)
    fix i assume "bpf_step e s = exec_insn e i ?s" "v_count s + 1 \<le> e_budget e"
    with world_insn [of e i ?s] show ?thesis by simp
  qed simp
qed

lemma count_below_budget:
  fixes c b :: u64
  assumes "b \<noteq> UNLIMITED_BUDGET" and "c \<le> b"
  shows "unat (c + 1) = unat c + 1"
proof -
  have "unat b \<noteq> 2 ^ 64 - 1" using assms(1) by (auto simp: UNLIMITED_BUDGET_def word_unat_eq_iff)
  moreover have "unat b < 2 ^ 64" using unsigned_less [of b] by simp
  moreover have "unat c \<le> unat b" using assms(2) by (simp add: word_le_nat_alt)
  ultimately have "unat c + 1 < 2 ^ 64" by linarith
  then show ?thesis by (simp add: unat_word_ariths)
qed

interpretation bpf_host: loop_invariant "bpf_step e"
    "\<lambda>s. e_budget e \<noteq> UNLIMITED_BUDGET \<and> v_count s \<le> e_budget e \<and> (\<exists>n \<le> unat (v_count s). helper_calls e n w (v_world s))"
    "\<lambda>x s. \<exists>n \<le> unat (e_budget e). helper_calls e n w (v_world s)"
  for e :: "'w bpf_env" and w :: 'w
proof unfold_locales
  fix s s'
  assume inv: "e_budget e \<noteq> UNLIMITED_BUDGET \<and> v_count s \<le> e_budget e \<and> (\<exists>n \<le> unat (v_count s). helper_calls e n w (v_world s))"
    and step: "bpf_step e s = Next s'"
  then obtain n where n: "n \<le> unat (v_count s)" "helper_calls e n w (v_world s)" by blast
  have count: "v_count s' \<le> e_budget e" "unat (v_count s) < unat (v_count s')"
    using bpf_budget.variant_Next [of e s s'] inv step by auto
  have "helper_calls e n w (v_world s') \<or> helper_calls e (Suc n) w (v_world s')"
    using world_step [of e s] step call [OF n(2)] n(2) by fastforce
  with inv count n(1) show "e_budget e \<noteq> UNLIMITED_BUDGET \<and> v_count s' \<le> e_budget e \<and>
      (\<exists>n \<le> unat (v_count s'). helper_calls e n w (v_world s'))"
    by (metis Suc_le_eq le_less_trans less_imp_le)
next
  fix s x s'
  assume inv: "e_budget e \<noteq> UNLIMITED_BUDGET \<and> v_count s \<le> e_budget e \<and> (\<exists>n \<le> unat (v_count s). helper_calls e n w (v_world s))"
    and step: "bpf_step e s = Stop x s'"
  then obtain n where n: "n \<le> unat (v_count s)" "helper_calls e n w (v_world s)" by blast
  have "unat (v_count s) < unat (e_budget e)" if "v_count s + 1 \<le> e_budget e"
    using that inv count_below_budget [of "e_budget e" "v_count s"] by (simp add: word_le_nat_alt)
  then have "helper_calls e n w (v_world s') \<or> helper_calls e (Suc n) w (v_world s') \<and> n < unat (e_budget e)"
    using world_step [of e s] step call [OF n(2)] n by fastforce
  then show "\<exists>n \<le> unat (e_budget e). helper_calls e n w (v_world s')"
    using inv n(1) by (meson Suc_leI le_trans word_le_nat_alt)
qed

lemma execution_helper_calls:
  assumes "e_budget e \<noteq> UNLIMITED_BUDGET" and "execute_program fuel e m w = Some (x, s)"
  shows "\<exists>n \<le> unat (e_budget e). helper_calls e n w (v_world s)"
proof -
  have init: "helper_calls e 0 w (v_world (initial_vm e m w))" by (simp add: initial_vm_def none)
  consider "s = initial_vm e m w" | "run_loop (bpf_step e) fuel (initial_vm e m w) = Some (x, s)"
    using assms(2) by (auto simp: execute_program_def Let_def bpf_run_def split: if_splits)
  then show ?thesis
  proof cases
    case 2
    then show ?thesis
      by (rule bpf_host.run_post [rotated]) (use assms(1) init in \<open>auto simp: initial_vm_def\<close>)
  qed (use init in auto)
qed

section \<open>What the helpers may change\<close>

definition extends_queue :: "rtc_queue \<Rightarrow> rtc_queue \<Rightarrow> bool" where
  "extends_queue q q' \<longleftrightarrow> (queue_inv q \<longrightarrow> queue_inv q' \<and> (\<exists>bs. queue_view q' = queue_view q @ bs))"

definition host_rel :: "nat \<Rightarrow> dispatch_context \<Rightarrow> dispatch_context \<Rightarrow> bool" where
  "host_rel n c c' \<longleftrightarrow> numbered n (dc_link c) (dc_link c') \<and> dc_class c' = dc_class c \<and>
     base_interval_s (dc_sleep c') = base_interval_s (dc_sleep c) \<and>
     sm_wake_reason (dc_sleep c') = sm_wake_reason (dc_sleep c) \<and>
     (dc_class c = Ephemeral \<longrightarrow> dc_sleep c' = dc_sleep c) \<and>
     extends_queue (dc_queue c) (dc_queue c')"

lemma extends_queue_refl [simp]: "extends_queue q q"
  by (simp add: extends_queue_def)

lemma extends_queue_trans: "extends_queue q q' \<Longrightarrow> extends_queue q' q'' \<Longrightarrow> extends_queue q q''"
  unfolding extends_queue_def by fastforce

lemma extends_queue_push: "queue_push b q = (r, q') \<Longrightarrow> extends_queue q q'"
  using rtc_queue.push_inv [of q b] rtc_queue.push_view [of q b] by (auto simp: extends_queue_def)

lemma host_rel_refl [simp]: "host_rel n c c"
  by (simp add: host_rel_def numbered_refl)

lemma host_rel_trans: "host_rel n c c' \<Longrightarrow> host_rel k c' c'' \<Longrightarrow> host_rel (n + k) c c''"
  using numbered_trans [of n "dc_link c" "dc_link c'" k "dc_link c''"]
  by (auto simp: host_rel_def dest: extends_queue_trans)

lemma host_rel_fields [simp]:
  "host_rel n c (c\<lparr>dc_bus := b\<rparr>)" "host_rel n c (c\<lparr>dc_trace := t\<rparr>)"
  "host_rel n c (c\<lparr>dc_link := l\<rparr>) = numbered n (dc_link c) l"
  "host_rel n c (c\<lparr>dc_queue := q\<rparr>) = extends_queue (dc_queue c) q"
  "host_rel n c (c\<lparr>dc_sleep := set_next_wake k (dc_sleep c)\<rparr>) \<longleftrightarrow>
     (dc_class c = Ephemeral \<longrightarrow> set_next_wake k (dc_sleep c) = dc_sleep c)"
  by (simp_all add: host_rel_def numbered_refl) (simp add: set_next_wake_def)

lemma reply_loop_sent: "sent (snd (reply_loop env ident seq d w)) = sent w"
proof (induction env ident seq d w rule: reply_loop.induct)
  case (1 env ident seq d w)
  note step = reply_loop.simps [of env ident seq d w]
  show ?case
  proof (cases "now_ms w \<ge> d")
    case False
    obtain r w' where v: "radio_recv ((d - now_ms w) mod 2 ^ 32) w = (r, w')"
      by (cases "radio_recv ((d - now_ms w) mod 2 ^ 32) w")
    with False 1 [OF False v [symmetric]] radio_recv_sent [OF v] show ?thesis
      by (auto simp: step split: sum.splits option.splits)
  qed (simp add: step)
qed

lemma numbered_send_recv: "numbered_op 1 (send_recv_app_data env ident b t)"
proof -
  have "numbered_op (0 + (1 + 0)) (send_recv_app_data env ident b t)"
    unfolding send_recv_app_data_def by (intro numbered_bind numbered_pure numbered_send numbered_on_radio reply_loop_sent)
  then show ?thesis by simp
qed

lemma on_link_rel: "numbered_op 1 f \<Longrightarrow> on_link f c = (r, c') \<Longrightarrow> host_rel 1 c c'"
  by (auto simp: on_link_def numbered_op_def split: prod.splits) (metis snd_conv)

lemma bus_rel: "bus call c = (rc, bs, c') \<Longrightarrow> host_rel n c c'"
  by (auto simp: bus_def split: prod.splits)

lemmas send_rels = on_link_rel [OF numbered_app_data, unfolded One_nat_def] on_link_rel [OF numbered_send_recv, unfolded One_nat_def]

lemma bus_helpers_rel:
  assumes "h \<in> {helper_i2c_read, helper_i2c_write, helper_i2c_write_read, helper_spi_transfer, helper_gpio_read,
     helper_gpio_write, helper_adc_read}" and "h a1 a2 a3 a4 a5 (m, c) = (r, (m', c'))"
  shows "host_rel 1 c c'"
  using assms
  by (auto simp: helper_i2c_read_def helper_i2c_write_def helper_i2c_write_read_def helper_spi_transfer_def
      helper_gpio_read_def helper_gpio_write_def helper_adc_read_def Let_def split: if_splits prod.splits dest: bus_rel)

lemma comm_helpers_rel:
  assumes "h \<in> {helper_send, helper_send_recv, helper_send_async}" and "h a1 a2 a3 a4 a5 (m, c) = (r, (m', c'))"
  shows "host_rel 1 c c'"
  using assms
  by (auto simp: helper_send_def helper_send_recv_def helper_send_async_def Let_def
      split: if_splits prod.splits sum.splits dest: send_rels) (erule extends_queue_push)

lemma system_helpers_rel:
  assumes "h \<in> {helper_map_lookup_elem, helper_map_update_elem, helper_get_time, helper_get_battery_mv, helper_delay_us,
     helper_set_next_wake, helper_bpf_trace_printk}" and "h a1 a2 a3 a4 a5 (m, c) = (r, (m', c'))"
  shows "host_rel 1 c c'"
  using assms
  by (auto simp: helper_map_lookup_elem_def helper_map_update_elem_def helper_get_time_def helper_get_battery_mv_def
      helper_delay_us_def delay_us_def helper_set_next_wake_def helper_bpf_trace_printk_def Let_def numbered_same
      split: if_splits option.splits sum.splits)

lemma registered_rel:
  assumes "h \<in> set (bi_helpers (register_all interpreter_new))" and "h_func h a1 a2 a3 a4 a5 (m, c) = (r, (m', c'))"
  shows "host_rel 1 c c'"
proof -
  have "h_func h \<in> snd ` set helper_table" using registered_in_table [OF assms(1)] by force
  then have "h_func h \<in> {helper_i2c_read, helper_i2c_write, helper_i2c_write_read, helper_spi_transfer, helper_gpio_read,
      helper_gpio_write, helper_adc_read} \<union> {helper_send, helper_send_recv, helper_send_async} \<union>
     {helper_map_lookup_elem, helper_map_update_elem, helper_get_time, helper_get_battery_mv, helper_delay_us,
      helper_set_next_wake, helper_bpf_trace_printk}"
    unfolding helper_table_def by (simp only: set_simps image_insert image_empty snd_conv) blast
  then show ?thesis
    by (elim UnE) (rule bus_helpers_rel comm_helpers_rel system_helpers_rel, assumption, rule assms(2))+
qed

lemma helper_calls_rel:
  assumes "helper_calls e n c c'" and "e_helpers e = bi_helpers (register_all interpreter_new)"
  shows "host_rel n c c'"
  using assms(1)
proof (induction rule: helper_calls.induct)
  case (call n c c' h a1 a2 a3 a4 a5 m r m' c'')
  with assms(2) have "host_rel 1 c' c''" by (auto dest: registered_rel)
  with call.IH host_rel_trans show ?case by fastforce
qed simp

section \<open>A whole execution\<close>

text \<open>The stack and the copy of the context do not wrap around the address space.\<close>

definition layout_fits :: "exec_layout \<Rightarrow> bool" where
  "layout_fits xl \<longleftrightarrow> checked_add (xl_stack xl) (of_nat STACK_SIZE) \<noteq> None \<and> checked_add (xl_ctx xl) 32 \<noteq> None"

lemma length_context_bytes [simp]: "length (context_bytes cx) = 32"
  by (simp add: context_bytes_def)

lemma bpf_load_helpers: "bpf_load code ptrs defs bi = (Inr u, bi') \<Longrightarrow> bi_helpers bi' = bi_helpers bi \<and> bi_bytecode bi' = Some code"
  by (auto simp: bpf_load_def split: if_splits sum.splits)

lemma session_result:
  assumes "layout_fits xl" and "bpf_session env hal xl req v = (r, (m, c))"
  shows "r \<noteq> None \<and> host_rel 100000 (install env hal xl req v) c"
proof (cases "bpf_load (lp_bytecode (xr_program req)) (st_ptrs (xr_maps req)) (xr_load_defs req) (register_all interpreter_new)")
  case (Pair res bi)
  show ?thesis
  proof (cases res)
    case (Inl e)
    with Pair assms(2) show ?thesis by (auto simp: bpf_session_def Let_def)
  next
    case (Inr u)
    let ?e = "interpreter_env xl (xr_context req) DEFAULT_INSTRUCTION_BUDGET bi (lp_bytecode (xr_program req))"
    have bi: "bi_helpers bi = bi_helpers (register_all interpreter_new)" "bi_bytecode bi = Some (lp_bytecode (xr_program req))"
      using bpf_load_helpers Pair Inr by blast+
    have e: "env_ok ?e" "e_budget ?e = 100000" "\<not> e_overflow_checks ?e" "e_helpers ?e = bi_helpers bi"
        "e_stack_base ?e = xl_stack xl" "e_ctx_base ?e = xl_ctx xl" "e_ctx_len ?e = 32"
      by (simp_all add: interpreter_env_def env_ok_def DEFAULT_INSTRUCTION_BUDGET_def)
    have budget: "e_budget ?e \<noteq> UNLIMITED_BUDGET" by (simp add: e UNLIMITED_BUDGET_def)
    obtain x s where run: "execute_program (unat DEFAULT_INSTRUCTION_BUDGET + 2) ?e
        (write_bytes (exec_memory xl req v) (xl_ctx xl) (context_bytes (xr_context req))) (install env hal xl req v) = Some (x, s)"
      using execute_program_ends [OF budget] by (metis DEFAULT_INSTRUCTION_BUDGET_def e(2) less_add_same_cancel1 zero_less_numeral)
    have "x \<noteq> Panicked" using execute_program_post(2) [OF e(1) run] e assms(1) by (auto simp: layout_fits_def)
    moreover have "host_rel 100000 (install env hal xl req v) (v_world s)"
    proof -
      obtain n where n: "n \<le> 100000" "helper_calls ?e n (install env hal xl req v) (v_world s)"
        using execution_helper_calls [OF budget run] by (auto simp: e)
      then have "host_rel n (install env hal xl req v) (v_world s)" using helper_calls_rel e(4) bi(1) by metis
      with n(1) show ?thesis by (auto simp: host_rel_def elim: numbered_mono)
    qed
    moreover have "v_world s = c" "r = (case x of Returned v \<Rightarrow> Some (Inr v) | Failed e \<Rightarrow> Some (Inl (run_error e)) | Panicked \<Rightarrow> None)"
      using assms(2) Pair Inr bi(2) run by (auto simp: bpf_session_def bpf_execute_def Let_def)
    ultimately show ?thesis by (auto split: bpf_exit.splits)
  qed
qed

lemma node_exec_rel:
  assumes "layout_fits xl"
  shows "numbered 100000 (bv_link v) (bv_link (node_exec env hal xl req v)) \<and>
    base_interval_s (bv_sleep (node_exec env hal xl req v)) = base_interval_s (bv_sleep v) \<and>
    (xr_class req = Ephemeral \<longrightarrow> bv_sleep (node_exec env hal xl req v) = bv_sleep v) \<and>
    extends_queue (bv_queue v) (bv_queue (node_exec env hal xl req v))"
proof -
  obtain r m c where s: "bpf_session env hal xl req v = (r, (m, c))" by (metis surj_pair)
  from session_result [OF assms this] s show ?thesis
    by (simp add: node_exec_def host_rel_def) (simp add: install_def)
qed

text \<open>The guarantee of the static verifier for one execution: when the program is loaded, every buffer it
  passes to a helper lies in its memory. The gateway verifies a program before it stores it.\<close>

definition session_env :: "exec_layout \<Rightarrow> exec_request \<Rightarrow> bpf_interpreter \<Rightarrow> dispatch_context bpf_env" where
  "session_env xl req bi = interpreter_env xl (xr_context req) DEFAULT_INSTRUCTION_BUDGET bi (lp_bytecode (xr_program req))"

definition verified_program :: "node_env \<Rightarrow> hal \<Rightarrow> exec_layout \<Rightarrow> exec_request \<Rightarrow> bpf_view \<Rightarrow> bool" where
  "verified_program env hal xl req v \<longleftrightarrow>
     (\<forall>bi n. bpf_load (lp_bytecode (xr_program req)) (st_ptrs (xr_maps req)) (xr_load_defs req) (register_all interpreter_new) = (Inr (), bi) \<longrightarrow>
        verified_run n (session_env xl req bi)
          (initial_vm (session_env xl req bi) (write_bytes (exec_memory xl req v) (xl_ctx xl) (context_bytes (xr_context req)))
             (install env hal xl req v)))"

text \<open>The memory of a session: stack, context, the RTC buffer and the maps the program is loaded with.\<close>

definition session_memory :: "exec_layout \<Rightarrow> exec_request \<Rightarrow> bpf_view \<Rightarrow> u64 \<Rightarrow> bool" where
  "session_memory xl req v a \<longleftrightarrow>
     unat (a - xl_stack xl) < STACK_SIZE \<or> unat (a - xl_ctx xl) < 32 \<or>
     unat (a - xl_map_base xl) < length (rtc_backing (bv_rtc v)) \<or>
     (\<exists>(p, d) \<in> set (zip (st_ptrs (xr_maps req)) (xr_load_defs req)).
        unat (a - p) < (unat (md_key_size d) + unat (md_value_size d)) * unat (md_max_entries d))"

lemma between_offset:
  fixes p a :: u64
  assumes "p \<le> a" and "a < p + of_nat n" shows "unat (a - p) < n"
proof -
  have "unat (p + of_nat n) \<le> unat p + unat (of_nat n :: u64)" by (simp only: unat_word_ariths mod_less_eq_dividend)
  moreover have "unat (of_nat n :: u64) \<le> n" by (simp add: unat_of_nat)
  moreover have "unat (a - p) = unat a - unat p" "unat p \<le> unat a" using assms(1) by (simp_all add: unat_sub word_le_nat_alt)
  ultimately show ?thesis using assms(2) by (simp add: word_less_nat_alt)
qed

lemma map_regions_bounds:
  assumes "map_regions i pds = Inr rs" and "mp \<in> set rs"
  shows "\<exists>(p, d) \<in> set pds. data_start mp = p \<and> data_end mp = p + of_nat ((unat (md_key_size d) + unat (md_value_size d)) * unat (md_max_entries d))"
  using assms
proof (induction pds arbitrary: i rs)
  case (Cons pd pds)
  then show ?case
    by (cases pd) (fastforce simp: checked_mul64_def checked_add_def res_bind_Inr_iff split: if_splits)
qed simp

lemma readable_session:
  assumes "bpf_load (lp_bytecode (xr_program req)) (st_ptrs (xr_maps req)) (xr_load_defs req) (register_all interpreter_new) = (Inr u, bi)"
    and "program_memory (session_env xl req bi) (install env hal xl req v) a"
  shows "session_memory xl req v a"
proof -
  have e: "e_ctx_ptrs (session_env xl req bi) = []" "e_maps (session_env xl req bi) = bi_map_regions bi" "e_stack_base (session_env xl req bi) = xl_stack xl"
      "e_ctx_base (session_env xl req bi) = xl_ctx xl" "e_ctx_len (session_env xl req bi) = 32"
    by (simp_all add: session_env_def interpreter_env_def)
  obtain i where rs: "map_regions i (zip (st_ptrs (xr_maps req)) (xr_load_defs req)) = Inr (bi_map_regions bi)"
    using assms(1) by (auto simp: bpf_load_def split: if_splits sum.splits)
  from assms(2) consider "xl_stack xl \<le> a" "a < xl_stack xl + of_nat STACK_SIZE" | "xl_ctx xl \<le> a" "a < xl_ctx xl + of_nat 32"
    | mp where "mp \<in> set (bi_map_regions bi)" "data_start mp \<le> a" "a < data_end mp"
    | "unat (a - xl_map_base xl) < length (rtc_backing (bv_rtc v))"
    unfolding program_memory_def readable_def e stack_end_def ctx_end_def by (auto simp: install_def)
  then show ?thesis
  proof cases
    case (3 mp)
    from map_regions_bounds [OF rs 3(1)] 3(2,3) between_offset [of _ a] show ?thesis unfolding session_memory_def by fastforce
  next
    case 2
    from between_offset [OF this] show ?thesis by (simp add: session_memory_def)
  qed (auto simp: session_memory_def dest: between_offset)
qed

lemma session_keeps_outside:
  assumes "verified_program env hal xl req v" and "maps_within (xr_maps req) (bv_rtc v)" and "\<not> session_memory xl req v a"
    and "bpf_session env hal xl req v = (r, (m, c))"
  shows "m a = exec_memory xl req v a"
proof (cases "bpf_load (lp_bytecode (xr_program req)) (st_ptrs (xr_maps req)) (xr_load_defs req) (register_all interpreter_new)")
  case (Pair res bi)
  show ?thesis
  proof (cases res)
    case (Inl e)
    with Pair assms(4) show ?thesis by (auto simp: bpf_session_def Let_def)
  next
    case (Inr u)
    let ?e = "session_env xl req bi" and ?c = "install env hal xl req v"
    let ?m = "write_bytes (exec_memory xl req v) (xl_ctx xl) (context_bytes (xr_context req))"
    have bi: "bi_helpers bi = bi_helpers (register_all interpreter_new)" "bi_bytecode bi = Some (lp_bytecode (xr_program req))"
      using bpf_load_helpers Pair Inr by blast+
    have e: "env_ok ?e" "e_helpers ?e = bi_helpers (register_all interpreter_new)"
      using bi(1) by (simp_all add: session_env_def interpreter_env_def env_ok_def)
    have maps: "maps_in_buffer ?c" using assms(2) by (simp add: maps_in_buffer_def maps_within_def install_def)
    have "\<forall>n. verified_run n ?e (initial_vm ?e ?m ?c)" using assms(1) Pair Inr by (simp add: verified_program_def)
    note keeps = execution_keeps_outside [OF e maps this]
    have "\<not> program_memory ?e ?c a" using readable_session Pair Inr assms(3) by blast
    moreover have "?m a = exec_memory xl req v a" using assms(3) by (intro write_bytes_outside) (simp add: session_memory_def)
    ultimately have "v_mem s a = exec_memory xl req v a" if "execute_program k ?e ?m ?c = Some (x, s)" for k x s
      using keeps [OF that] by (simp add: keeps_outside_def)
    with assms(3,4) Pair Inr bi(2) show ?thesis
      by (auto simp: bpf_session_def bpf_execute_def session_env_def Let_def split: option.splits)
  qed
qed

text \<open>C15. What executing a verified program does to the node. The interpreter ends within its budget and does
  not panic. It and the helpers change no byte of memory outside the program's stack, the context, the
  maps it is loaded with and the RTC buffer of the maps, provided that the buffers the program passes to
  helpers lie in that memory, which is what the static verifier guarantees. The application data it
  sends, at most one frame for each of the 100,000 instructions of the budget, is numbered on from the
  session's counter, so no nonce repeats, and the counter ends where the next frame continues. The base
  interval stays as it is; an ephemeral program does not change the next wake-up either. Blobs queued
  earlier stay queued, in order.\<close>

theorem node_execution_contract:
  assumes "layout_fits xl" and "maps_within (xr_maps req) (bv_rtc v)" and "verified_program env hal xl req v"
    and "v' = node_exec env hal xl req v"
  shows "(\<exists>r m c. bpf_session env hal xl req v = (Some r, (m, c)) \<and> (\<forall>a. \<not> session_memory xl req v a \<longrightarrow> m a = exec_memory xl req v a)) \<and>
    (\<exists>fs. length fs \<le> 100000 \<and> sent (lk_radio (bv_link v')) = sent (lk_radio (bv_link v)) @ fs \<and>
       map frame_nonce fs = map (\<lambda>i. lk_seq (bv_link v) + of_nat i) [0..<length fs] \<and> distinct (map frame_nonce fs) \<and>
       lk_seq (bv_link v') = lk_seq (bv_link v) + of_nat (length fs)) \<and>
    base_interval_s (bv_sleep v') = base_interval_s (bv_sleep v) \<and>
    (xr_class req = Ephemeral \<longrightarrow> bv_sleep v' = bv_sleep v) \<and>
    (queue_inv (bv_queue v) \<longrightarrow> queue_inv (bv_queue v') \<and> (\<exists>bs. queue_view (bv_queue v') = queue_view (bv_queue v) @ bs))"
proof -
  have "\<exists>r m c. bpf_session env hal xl req v = (Some r, (m, c)) \<and> (\<forall>a. \<not> session_memory xl req v a \<longrightarrow> m a = exec_memory xl req v a)"
  proof -
    obtain r m c where s: "bpf_session env hal xl req v = (r, (m, c))" by (metis surj_pair)
    then obtain r' where "r = Some r'" using session_result [OF assms(1)] by blast
    with s session_keeps_outside [OF assms(3,2) _ s] show ?thesis by blast
  qed
  moreover have "\<exists>fs. length fs \<le> 100000 \<and> sent (lk_radio (bv_link v')) = sent (lk_radio (bv_link v)) @ fs \<and>
       map frame_nonce fs = map (\<lambda>i. lk_seq (bv_link v) + of_nat i) [0..<length fs] \<and> distinct (map frame_nonce fs) \<and>
       lk_seq (bv_link v') = lk_seq (bv_link v) + of_nat (length fs)"
  proof -
    obtain fs where fs: "length fs \<le> 100000" "sent (lk_radio (bv_link v')) = sent (lk_radio (bv_link v)) @ fs"
        "lk_seq (bv_link v') = lk_seq (bv_link v) + of_nat (length fs)" "consecutive (lk_seq (bv_link v)) fs"
      using node_exec_rel [OF assms(1)] assms(4) unfolding numbered_def by blast
    moreover have "length fs \<le> 2 ^ 64" using fs(1) by (rule order_trans) simp
    ultimately show ?thesis using consecutive_distinct [of "lk_seq (bv_link v)" fs] unfolding consecutive_def by blast
  qed
  ultimately show ?thesis using node_exec_rel [OF assms(1), of v env hal req] assms(4) by (simp add: extends_queue_def)
qed

section \<open>All frames of a wake cycle\<close>

lemma peer_ack_loop_sent: "sent (fst (snd (peer_ack_loop drv env ident n t ws))) = sent (fst ws)"
proof (induction drv env ident n t ws rule: peer_ack_loop.induct)
  case (1 drv env ident n t ws)
  obtain w s where ws: "ws = (w, s)" by (cases ws)
  note step = peer_ack_loop.simps [of drv env ident n t "(w, s)"]
  show ?case
  proof (cases "now_ms w - t \<ge> PEER_ACK_TIMEOUT_MS")
    case False
    obtain r w' where v: "radio_recv (min (PEER_ACK_TIMEOUT_MS - (now_ms w - t)) 500) w = (r, w')"
      by (metis surj_pair)
    with False 1 [OF ws [symmetric] HOL.refl] radio_recv_sent [OF v] show ?thesis
      by (auto simp: step ws Let_def split: sum.splits option.splits prod.splits)
  qed (simp add: step ws Let_def)
qed

lemma peer_request_sent:
  "\<exists>reg. length reg \<le> 1 \<and> sent (fst (snd (peer_request_exchange drv env ident f ws))) = sent (fst ws) @ reg"
proof -
  have one: "\<exists>reg. length reg \<le> Suc 0 \<and> sent w = sent (fst ws) @ reg" if "radio_send g (fst ws) = (r, w)" for g r w
    using radio_send_sent [OF that] by (auto intro: exI [of _ "[g]"] exI [of _ "[]"])
  show ?thesis
    by (auto simp: peer_request_exchange_def peer_ack_loop_sent split: sum.splits prod.splits intro: one)
qed

lemma register_step_sent:
  "\<exists>reg. length reg \<le> 1 \<and> sent (nd_radio (cycle_node (register_step pf env ident sm nd))) = sent (nd_radio nd) @ reg"
proof (cases "read_reg_complete (nd_storage nd) \<or> read_peer_payload (nd_storage nd) = None")
  case True
  then show ?thesis by (auto simp: register_step_def)
next
  case False
  then obtain f where f: "read_peer_payload (nd_storage nd) = Some f" by blast
  obtain r w s where x: "peer_request_exchange (pf_drv pf) env ident f (nd_radio nd, nd_storage nd) = (r, (w, s))"
    by (metis surj_pair)
  then have "sent (nd_radio (cycle_node (register_step pf env ident sm nd))) = sent w"
    using False f by (auto simp: register_step_def Let_def split: sum.splits bool.splits)
  with x peer_request_sent [of "pf_drv pf" env ident f "(nd_radio nd, nd_storage nd)"] show ?thesis by simp
qed

lemma wake_step_sent:
  "\<exists>frame k. k \<le> 4 \<and> sent (nd_radio (cycle_node (wake_step pf env ident sm ph nd))) = sent (nd_radio nd) @ replicate k frame"
proof -
  let ?b = "case read_last_battery_mv (nd_storage nd) of Some mv \<Rightarrow> mv | None \<Rightarrow> 0"
  let ?blob = "piggyback_blob env ph ?b (nd_queue nd)"
  obtain r w where x: "wake_command_exchange env ident (pf_rng_u64 pf) ph ?b ?blob (nd_radio nd) = (r, w)"
    by (metis surj_pair)
  then have "sent (nd_radio (cycle_node (wake_step pf env ident sm ph nd))) = sent w"
    by (cases r) (simp_all add: wake_step_def Let_def case_prod_beta)
  with wake_exchange_sent [OF x] show ?thesis by simp
qed

lemma prepare_step_sent: "sent (nd_radio (cycle_node (prepare_step pf env ph d nd))) = sent (nd_radio nd)"
  by (auto simp: prepare_step_def Let_def split: option.splits sum.splits prod.splits)

lemma execute_step_numbered:
  assumes "layout_fits xl" and "pf_exec pf = node_exec env hal xl"
    and "execute_step pf ident ts t blob d program nd = (out, nd')"
  shows "\<exists>l. numbered 100000 (link_of nd (dp_seq d)) l \<and> sent (nd_radio nd') = sent (lk_radio l)"
proof (cases program)
  case None
  with assms(3) have "sent (nd_radio nd') = sent (nd_radio nd)"
    by (auto simp: execute_step_def persist_current_cycle_battery_def activate_gpio_def Let_def)
  then show ?thesis by (intro exI [of _ "link_of nd (dp_seq d)"]) (simp add: numbered_refl link_of_def)
next
  case (Some p)
  obtain battery nd1 where nd1: "persist_current_cycle_battery pf (activate_gpio pf nd) = (battery, nd1)"
    by (metis surj_pair)
  then have "sent (nd_radio nd1) = sent (nd_radio nd)"
    by (auto simp: persist_current_cycle_battery_def activate_gpio_def Let_def)
  then have same: "numbered 0 (link_of nd (dp_seq d)) (link_of nd1 (dp_seq d))"
    by (intro numbered_same) (simp_all add: link_of_def)
  from assms(3) nd1 Some assms(2) obtain req v where v: "bv_link v = link_of nd1 (dp_seq d)"
      "sent (nd_radio nd') = sent (lk_radio (bv_link (node_exec env hal xl req v)))"
    by (auto simp: execute_step_def run_program_def Let_def split: if_splits) (metis bpf_view.select_convs(1))+
  then have "numbered 100000 (link_of nd1 (dp_seq d)) (bv_link (node_exec env hal xl req v))"
    using node_exec_rel [OF assms(1), of v env hal req] by metis
  with numbered_trans [OF same this] v(2) show ?thesis by (intro exI) auto
qed

lemma later_steps_numbered:
  assumes "layout_fits xl" and "pf_exec pf = node_exec env hal xl"
    and "dispatch_step pf env ident sm resident seq payload nd3 = Done out nd \<or>
       (\<exists>d nd4. dispatch_step pf env ident sm resident seq payload nd3 = Continue d nd4 \<and>
          (prepare_step pf env ph d nd4 = Done out nd \<or>
           (\<exists>program nd5 t. prepare_step pf env ph d nd4 = Continue program nd5 \<and>
              execute_step pf ident ts t blob d program nd5 = (out, nd))))"
  shows "\<exists>l n. numbered n (link_of nd3 seq) l \<and> n \<le> 2 ^ 64 \<and> sent (nd_radio nd) = sent (lk_radio l)"
proof -
  obtain l n where l: "numbered n (link_of nd3 seq) l" "n \<le> 2 ^ 35"
      "sent (nd_radio (cycle_node (dispatch_step pf env ident sm resident seq payload nd3))) = sent (lk_radio l)"
      "\<And>d nd'. dispatch_step pf env ident sm resident seq payload nd3 = Continue d nd' \<Longrightarrow> dp_seq d = lk_seq l"
    using dispatch_numbered [of nd3 seq pf env ident sm resident payload] by blast
  have n: "n \<le> 2 ^ 64" using l(2) by simp
  from assms(3) consider (no_exec) "sent (nd_radio nd) = sent (lk_radio l)"
    | (exec) d nd4 program nd5 t where "sent (nd_radio nd4) = sent (lk_radio l)" "dp_seq d = lk_seq l"
        "prepare_step pf env ph d nd4 = Continue program nd5" "execute_step pf ident ts t blob d program nd5 = (out, nd)"
  proof (elim disjE exE conjE)
    fix d nd4 assume "dispatch_step pf env ident sm resident seq payload nd3 = Continue d nd4" "prepare_step pf env ph d nd4 = Done out nd"
    with l(3) prepare_step_sent [of pf env ph d nd4] no_exec show ?thesis by simp
  qed (use l(3,4) no_exec exec in auto)
  then show ?thesis
  proof cases
    case no_exec
    with l(1) n show ?thesis by blast
  next
    case (exec d nd4 program nd5 t)
    obtain k where k: "numbered 100000 (link_of nd5 (dp_seq d)) k" "sent (nd_radio nd) = sent (lk_radio k)"
      using execute_step_numbered [OF assms(1,2) exec(4)] by blast
    have "numbered 0 l (link_of nd5 (dp_seq d))"
      using exec(1-3) prepare_step_sent [of pf env ph d nd4] by (intro numbered_same) (simp_all add: link_of_def)
    from numbered_trans [OF numbered_trans [OF l(1) this] k(1)] k(2) l(2) show ?thesis
      by (intro exI [of _ k] exI [of _ "n + 0 + 100000"]) simp
  qed
qed

text \<open>C18. The frames of a whole wake cycle of the firmware. At most one registration request, then at most
  four copies of one WAKE, then a session: queued data, chunk requests with their retries, the
  acknowledgement and everything the executed program sends. The session's frames carry the numbers from
  some \<open>starting_seq\<close> on, one after the other and all different, and when there are any, a received frame
  that opens under the node's key and answers this WAKE announced that \<open>starting_seq\<close>.\<close>

theorem session_frames_numbered:
  assumes "layout_fits xl" and "pf_exec pf = node_exec env hal xl" and "nvs_driver_ok (pf_drv pf)"
    and "run_wake_cycle pf env nd0 = (out, nd)"
  shows "\<exists>reg wake k seq fs. sent (nd_radio nd) = sent (nd_radio nd0) @ reg @ replicate k wake @ fs \<and>
    length reg \<le> 1 \<and> k \<le> 4 \<and> map frame_nonce fs = map (\<lambda>i. seq + of_nat i) [0..<length fs] \<and>
    distinct (map frame_nonce fs) \<and>
    (fs \<noteq> [] \<longrightarrow> (\<exists>ident raw ts payload blob. load_identity (nd_storage nd0) = Some ident \<and> received (nd_radio nd0) raw \<and>
       verify_and_decode_command env ident (pf_rng_u64 pf) raw = Inr (seq, ts, payload, blob)))"
  using assms(4)
proof (cases rule: run_wake_cycle_cases)
  case (register ident sm nd1)
  then obtain reg where "length reg \<le> 1" "sent (nd_radio nd) = sent (nd_radio nd0) @ reg"
    using register_step_sent [of pf env ident sm nd1] by auto
  then show ?thesis by (intro exI [of _ reg] exI [of _ "[]"] exI [of _ 0]) simp
next
  case (wake ident sm nd1 u nd2 ph)
  obtain reg where reg: "length reg \<le> 1" "sent (nd_radio nd2) = sent (nd_radio nd0) @ reg"
    using register_step_sent [of pf env ident sm nd1] wake(2,3) by auto
  obtain w k where "k \<le> 4" "sent (nd_radio nd) = sent (nd_radio nd2) @ replicate k w"
    using wake_step_sent [of pf env ident sm ph nd2] wake(4) by auto
  with reg show ?thesis by (intro exI [of _ reg] exI [of _ w] exI [of _ k] exI [of _ 0] exI [of _ "[]"]) simp
next
  case (later ident sm nd1 u nd2 ph resident seq ts payload blob nd3)
  obtain reg where reg: "length reg \<le> 1" "sent (nd_radio nd2) = sent (nd_radio nd0) @ reg"
    using register_step_sent [of pf env ident sm nd1] later(2,3) by auto
  obtain w k where w: "k \<le> 4" "sent (nd_radio nd3) = sent (nd_radio nd2) @ replicate k w"
    using wake_step_sent [of pf env ident sm ph nd2] later(4) by auto
  obtain l n where "numbered n (link_of nd3 seq) l" "n \<le> 2 ^ 64" "sent (nd_radio nd) = sent (lk_radio l)"
    using later_steps_numbered [OF assms(1,2) later(5)] by blast
  then obtain fs where fs: "sent (nd_radio nd) = sent (nd_radio nd3) @ fs" "consecutive seq fs" "length fs \<le> 2 ^ 64"
    unfolding numbered_def by (auto simp: link_of_def)
  obtain raw where "received (nd_radio nd2) raw"
      "verify_and_decode_command env ident (pf_rng_u64 pf) raw = Inr (seq, ts, payload, blob)"
    using wake_step_result [OF assms(3), of env ident sm ph nd2] later(4) by blast
  moreover from this have "received (nd_radio nd0) raw"
    using register_step_result [OF assms(3), of env ident sm nd1] later(2,3) unfolding received_def by auto
  ultimately show ?thesis
    using reg w fs later(1) consecutive_distinct [OF fs(2,3)] unfolding consecutive_def
    by (intro exI [of _ reg] exI [of _ w] exI [of _ k] exI [of _ seq] exI [of _ fs]) auto
qed (auto intro!: exI [of _ "[]"] exI [of _ 0])

end
