(* ===== verification/Node_Bpf_Examples.thy ===== *)
theory Node_Bpf_Examples
  imports Node_Bpf_Correct Map_Correct
begin

text \<open>
  A program on the node, executed: the witnesses for the statements about executions, and a program of
  the ephemeral class that writes into the maps of the resident program.
\<close>

section \<open>A node with one map and an ephemeral program\<close>

definition probe_insns :: "insn list" where
  "probe_insns =
     [\<lparr>i_opc = LD_DW_IMM, i_dst = 1, i_src = 1, i_off = 0, i_imm = 0\<rparr>,
      \<lparr>i_opc = 0, i_dst = 0, i_src = 0, i_off = 0, i_imm = 0\<rparr>,
      \<lparr>i_opc = ST_W_IMM, i_dst = 10, i_src = 0, i_off = - 4, i_imm = 0\<rparr>,
      \<lparr>i_opc = MOV64_REG, i_dst = 2, i_src = 10, i_off = 0, i_imm = 0\<rparr>,
      \<lparr>i_opc = ADD64_IMM, i_dst = 2, i_src = 0, i_off = 0, i_imm = - 4\<rparr>,
      \<lparr>i_opc = CALL, i_dst = 0, i_src = 0, i_off = 0, i_imm = 10\<rparr>,
      \<lparr>i_opc = JEQ_IMM, i_dst = 0, i_src = 0, i_off = 1, i_imm = 0\<rparr>,
      \<lparr>i_opc = ST_B_IMM, i_dst = 0, i_src = 0, i_off = 0, i_imm = 1\<rparr>,
      \<lparr>i_opc = EXIT, i_dst = 0, i_src = 0, i_off = 0, i_imm = 0\<rparr>]"

definition probe_program :: loaded_program where
  "probe_program = \<lparr>lp_bytecode = encode_prog probe_insns, lp_map_defs = [], lp_map_initial_data = [], lp_hash = [],
     lp_is_ephemeral = True\<rparr>"

definition probe_def :: map_def where
  "probe_def = \<lparr>md_map_type = 1, md_key_size = 4, md_value_size = 4, md_max_entries = 1\<rparr>"

definition probe_maps :: map_storage where
  "probe_maps = \<lparr>st_maps = place_maps 0 [probe_def], st_ptrs = [0x50000000], st_budget = 4096\<rparr>"

definition probe_layout :: exec_layout where
  "probe_layout = \<lparr>xl_stack = 0x3F010000, xl_ctx = 0x3F020000, xl_map_base = 0x50000000, xl_blob = 0x3F030000, xl_memory = \<lambda>_. 0\<rparr>"

definition no_hal :: hal where "no_hal = (\<lambda>_ _. (0, []))"

definition probe_platform :: platform where
  "probe_platform = demo_platform\<lparr>pf_exec := node_exec demo_env no_hal probe_layout\<rparr>"

definition probe_node :: node where
  "probe_node = demo_node\<lparr>nd_maps := probe_maps,
     nd_rtc := \<lparr>rtc_backing = replicate MAP_BUDGET 0, rtc_map_count = 1, rtc_defs = [probe_def]\<rparr>\<rparr>"

definition probe_dispatched :: dispatched where
  "probe_dispatched = \<lparr>dp_seq = 7, dp_sleep = sleep_new 60 Scheduled, dp_program = Some probe_program, dp_resident = None\<rparr>"

text \<open>The program is loaded with the resident's map, since it declares none of its own.\<close>

lemma find_lookup:
  "find (\<lambda>h. h_id h = 10) (bi_helpers (register_all interpreter_new)) =
     Some \<lparr>h_id = 10, h_func = helper_map_lookup_elem, h_ret = MapValueOrNull 1\<rparr>"
  by (simp add: register_all_def helper_table_def register_helper_def interpreter_new_def MAP_LOOKUP_ELEM_def)

definition probe_interpreter :: bpf_interpreter where
  "probe_interpreter = (register_all interpreter_new)\<lparr>bi_bytecode := Some (encode_prog probe_insns),
     bi_map_regions := [\<lparr>relocated_ptr = 0x50000000, mr_key_size = 4, mr_value_size = 4, data_start = 0x50000000,
       data_end = 0x50000008\<rparr>]\<rparr>"

lemma probe_length [simp]: "length (encode_prog probe_insns) = 72"
  by (simp add: length_encode_prog probe_insns_def)

lemma probe_nonempty [simp]: "encode_prog probe_insns \<noteq> []"
  using probe_length by (metis length_0_conv zero_neq_numeral)

lemma probe_load:
  "bpf_load (encode_prog probe_insns) (st_ptrs probe_maps) (load_defs_of probe_program probe_maps)
     (register_all interpreter_new) = (Inr (), probe_interpreter)"
  by (simp add: probe_program_def probe_maps_def probe_def_def bpf_load_def load_defs_of_def
      map_count_def checked_mul64_def checked_add_def probe_interpreter_def res_bind_def)

section \<open>Its run\<close>

definition probe_env :: "sonde_context \<Rightarrow> dispatch_context bpf_env" where
  "probe_env cx = interpreter_env probe_layout cx DEFAULT_INSTRUCTION_BUDGET probe_interpreter (encode_prog probe_insns)"

lemma probe_env_fields [simp]:
  "e_prog (probe_env cx) = encode_prog probe_insns" "e_ctx_len (probe_env cx) = 32"
  "e_helpers (probe_env cx) = bi_helpers (register_all interpreter_new)"
  "e_maps (probe_env cx) = [\<lparr>relocated_ptr = 0x50000000, mr_key_size = 4, mr_value_size = 4, data_start = 0x50000000,
       data_end = 0x50000008\<rparr>]"
  "e_read_only_ctx (probe_env cx) = True" "e_budget (probe_env cx) = 100000" "e_ctx_ptrs (probe_env cx) = []"
  "e_stack_base (probe_env cx) = 0x3F010000" "e_ctx_base (probe_env cx) = 0x3F020000" "e_overflow_checks (probe_env cx) = False"
  by (simp_all add: probe_env_def interpreter_env_def probe_interpreter_def probe_layout_def DEFAULT_INSTRUCTION_BUDGET_def)

lemma probe_num [simp]: "num_insns (probe_env cx) = 9"
  by (simp add: num_insns_def INSN_SIZE_def probe_insns_def length_encode_prog)

lemma probe_fetch:
  "k < 9 \<Longrightarrow> insn_ok (probe_insns ! k) \<Longrightarrow> get_insn (encode_prog probe_insns) k = Some (probe_insns ! k)"
  by (simp add: get_insn_encode_prog probe_insns_def)

lemma probe_fetches:
  "get_insn (encode_prog probe_insns) 0 = Some \<lparr>i_opc = LD_DW_IMM, i_dst = 1, i_src = 1, i_off = 0, i_imm = 0\<rparr>"
  "get_insn (encode_prog probe_insns) 1 = Some \<lparr>i_opc = 0, i_dst = 0, i_src = 0, i_off = 0, i_imm = 0\<rparr>"
  "get_insn (encode_prog probe_insns) (Suc 0) = Some \<lparr>i_opc = 0, i_dst = 0, i_src = 0, i_off = 0, i_imm = 0\<rparr>"
  "get_insn (encode_prog probe_insns) 2 = Some \<lparr>i_opc = ST_W_IMM, i_dst = 10, i_src = 0, i_off = - 4, i_imm = 0\<rparr>"
  "get_insn (encode_prog probe_insns) 3 = Some \<lparr>i_opc = MOV64_REG, i_dst = 2, i_src = 10, i_off = 0, i_imm = 0\<rparr>"
  "get_insn (encode_prog probe_insns) 4 = Some \<lparr>i_opc = ADD64_IMM, i_dst = 2, i_src = 0, i_off = 0, i_imm = - 4\<rparr>"
  "get_insn (encode_prog probe_insns) 5 = Some \<lparr>i_opc = CALL, i_dst = 0, i_src = 0, i_off = 0, i_imm = 10\<rparr>"
  "get_insn (encode_prog probe_insns) 6 = Some \<lparr>i_opc = JEQ_IMM, i_dst = 0, i_src = 0, i_off = 1, i_imm = 0\<rparr>"
  "get_insn (encode_prog probe_insns) 7 = Some \<lparr>i_opc = ST_B_IMM, i_dst = 0, i_src = 0, i_off = 0, i_imm = 1\<rparr>"
  "get_insn (encode_prog probe_insns) 8 = Some \<lparr>i_opc = EXIT, i_dst = 0, i_src = 0, i_off = 0, i_imm = 0\<rparr>"
  by (subst probe_fetch; simp add: probe_insns_def insn_ok_def)+

definition sees_probe_maps :: "dispatch_context \<Rightarrow> bool" where
  "sees_probe_maps c \<longleftrightarrow> dc_maps c = probe_maps \<and> dc_index c = build_index probe_maps \<and> dc_map_base c = 0x50000000"

lemma probe_lookup:
  assumes "sees_probe_maps c"
  shows "helper_map_lookup_elem 0x50000000 0x3F010FFC a3 a4 a5 (store_le 4 m 0x3F010FFC 0, c) =
     (0x50000004, (store_le 4 m 0x3F010FFC 0, c))"
proof -
  have "read_key32 (store_le 4 m 0x3F010FFC 0) 0x3F010FFC = 0"
    by (simp add: read_key32_def load_le_store_le)
  moreover have "as_ptr 0x3F010FFC = 0x3F010FFC" by (simp add: as_ptr_def as_usize_def USIZE_MAX_def)
  ultimately show ?thesis
    using assms
    by (simp add: helper_map_lookup_elem_def sees_probe_maps_def probe_maps_def build_index_def
        index_insert_def index_get_def MAX_MAPS_def res_bind_def map_lookup_def probe_def_def map_size_def entry_size_def
        value_ptr_def data_ptr_def)
qed

lemma probe_run:
  assumes "sees_probe_maps c"
  shows "\<exists>s. run_loop (bpf_step (probe_env cx)) 9 (initial_vm (probe_env cx) m c) = Some (Returned 0x50000004, s) \<and>
    v_mem s 0x50000004 = 1"
  using assms
  by (simp add: bpf_eval probe_fetches exec_ld_dw_imm_def numeral_2_eq_2 [symmetric]
      exec_helper_def find_lookup map_descriptor_region_def exec_jump_def jump_cond64_def probe_lookup clobber_tags_def
      helper_map_value_def descriptor_tagged_def)

lemma probe_execute:
  assumes "sees_probe_maps c"
  shows "\<exists>m' c'. bpf_execute probe_layout cx DEFAULT_INSTRUCTION_BUDGET probe_interpreter (m, c) = (Some (Inr 0x50000004), (m', c')) \<and>
    m' 0x50000004 = 1"
proof -
  let ?m = "write_bytes m (xl_ctx probe_layout) (context_bytes cx)"
  obtain s where s: "run_loop (bpf_step (probe_env cx)) 9 (initial_vm (probe_env cx) ?m c) = Some (Returned 0x50000004, s)"
      "v_mem s 0x50000004 = 1"
    using probe_run [OF assms, of cx ?m] by blast
  have "run_loop (bpf_step (probe_env cx)) 100002 (initial_vm (probe_env cx) ?m c) = Some (Returned 0x50000004, s)"
    by (rule run_loop_mono [OF s(1)]) simp
  then have "execute_program 100002 (probe_env cx) ?m c = Some (Returned 0x50000004, s)"
    by (simp add: execute_program_def bpf_run_def Let_def INSN_SIZE_def checked_add_def STACK_SIZE_def ebpf_consts)
  moreover have "bi_bytecode probe_interpreter = Some (encode_prog probe_insns)" by (simp add: probe_interpreter_def)
  moreover have "unat DEFAULT_INSTRUCTION_BUDGET + 2 = 100002" by (simp add: DEFAULT_INSTRUCTION_BUDGET_def)
  ultimately show ?thesis using s(2) by (simp add: bpf_execute_def probe_env_def)
qed

lemma probe_exec:
  assumes "xr_program req = probe_program" and "xr_maps req = probe_maps" and "xr_load_defs req = load_defs_of probe_program probe_maps"
    and "length (rtc_backing (bv_rtc v)) = MAP_BUDGET"
  shows "rtc_backing (bv_rtc (node_exec demo_env no_hal probe_layout req v)) ! 4 = 1"
proof -
  have "sees_probe_maps (install demo_env no_hal probe_layout req v)"
    using assms(2) by (simp add: sees_probe_maps_def install_def probe_layout_def)
  from probe_execute [OF this, of "xr_context req" "exec_memory probe_layout req v"] obtain m' c' where
    "bpf_session demo_env no_hal probe_layout req v = (Some (Inr 0x50000004), (m', c'))" "m' 0x50000004 = 1"
    using assms(1-3) probe_load by (auto simp: bpf_session_def probe_program_def)
  then show ?thesis
    using assms(4) by (simp add: node_exec_def read_bytes_def MAP_BUDGET_def probe_layout_def)
qed

section \<open>Witnesses\<close>

lemma probe_layout_fits: "layout_fits probe_layout"
  by (simp add: layout_fits_def probe_layout_def checked_add_def STACK_SIZE_def ebpf_consts)

text \<open>The probe satisfies what the verifier promises: the key it passes to the lookup is on its stack.\<close>

lemma verified_run_numeral:
  "verified_run (numeral n) e s \<longleftrightarrow>
     call_ok e s \<and> (case bpf_step e s of Next s' \<Rightarrow> verified_run (pred_numeral n) e s' | Stop x s' \<Rightarrow> True)"
  by (simp add: numeral_eq_Suc)

lemma all_less_4: "(\<forall>k < (4 :: nat). P k) \<longleftrightarrow> P 0 \<and> P 1 \<and> P 2 \<and> P 3"
proof -
  have "k < 4 \<longleftrightarrow> k = 0 \<or> k = 1 \<or> k = 2 \<or> k = 3" for k :: nat by auto
  then show ?thesis by auto
qed

lemma probe_key_inside: "buffer_inside (probe_env cx) c (0x3F010FFC, 4)"
  by (simp add: buffer_inside_def all_less_4 program_memory_def readable_def stack_end_def STACK_SIZE_def ebpf_consts)

lemma probe_calls:
  "v_pc s = 0 \<or> v_pc s = 2 \<or> v_pc s = 3 \<or> v_pc s = 4 \<or> v_pc s = 6 \<or> v_pc s = 7 \<or> v_pc s = 8 \<Longrightarrow> call_ok (probe_env cx) s"
  "v_pc s = 5 \<Longrightarrow> tvalue (v_reg s ! 2) = 0x3F010FFC \<Longrightarrow> call_ok (probe_env cx) s"
proof -
  show "v_pc s = 0 \<or> v_pc s = 2 \<or> v_pc s = 3 \<or> v_pc s = 4 \<or> v_pc s = 6 \<or> v_pc s = 7 \<or> v_pc s = 8 \<Longrightarrow> call_ok (probe_env cx) s"
    by (auto simp: call_ok_def is_helper_call_def probe_fetches ebpf_consts)
  have "as_ptr 0x3F010FFC = 0x3F010FFC" by (simp add: as_ptr_def as_usize_def USIZE_MAX_def)
  then show "v_pc s = 5 \<Longrightarrow> tvalue (v_reg s ! 2) = 0x3F010FFC \<Longrightarrow> call_ok (probe_env cx) s"
    by (simp add: call_ok_def probe_fetches helper_buffers_def probe_key_inside)
qed

lemma probe_verified:
  assumes "sees_probe_maps c" shows "verified_run n (probe_env cx) (initial_vm (probe_env cx) m c)"
proof -
  have "verified_run 9 (probe_env cx) (initial_vm (probe_env cx) m c)"
    using assms
    by (simp add: verified_run_numeral probe_calls bpf_eval probe_fetches exec_ld_dw_imm_def numeral_2_eq_2 [symmetric]
        exec_helper_def find_lookup map_descriptor_region_def exec_jump_def jump_cond64_def probe_lookup clobber_tags_def
        helper_map_value_def descriptor_tagged_def)
  with probe_run [OF assms, of cx m] verified_run_ends show ?thesis by blast
qed

definition probe_request :: exec_request where
  "probe_request = \<lparr>xr_program = probe_program, xr_class = Ephemeral,
     xr_context = \<lparr>cx_timestamp = 0, cx_battery_mv = 0, cx_firmware_abi_version = 2, cx_wake_reason = 0, cx_data_start = 0, cx_data_end = 0\<rparr>,
     xr_maps = probe_maps, xr_load_defs = load_defs_of probe_program probe_maps, xr_blob = None, xr_identity = demo_id, xr_timestamp_ms = 0,
     xr_received_at_ms = 0, xr_battery_mv = 0\<rparr>"

definition probe_view :: bpf_view where
  "probe_view = \<lparr>bv_link = \<lparr>lk_radio = demo_radio [], lk_seq = 7\<rparr>, bv_rtc = nd_rtc probe_node, bv_sleep = sleep_new 60 Scheduled,
     bv_queue = queue_new queue_zero\<rparr>"

lemma probe_session_env: "session_env probe_layout probe_request probe_interpreter = probe_env (xr_context probe_request)"
  by (simp add: session_env_def probe_env_def probe_request_def probe_program_def)

lemma probe_sees: "sees_probe_maps (install demo_env no_hal probe_layout probe_request probe_view)"
  by (simp add: sees_probe_maps_def install_def probe_layout_def probe_request_def)

lemma probe_loads:
  "bpf_load (lp_bytecode (xr_program probe_request)) (st_ptrs (xr_maps probe_request)) (xr_load_defs probe_request)
     (register_all interpreter_new) = (Inr (), probe_interpreter)"
  using probe_load by (simp add: probe_request_def) (simp add: probe_program_def)

lemma probe_session: "\<exists>m c. bpf_session demo_env no_hal probe_layout probe_request probe_view = (Some (Inr 0x50000004), (m, c))"
  using probe_execute [OF probe_sees, of "xr_context probe_request" "exec_memory probe_layout probe_request probe_view"] probe_loads
  by (auto simp: bpf_session_def)

theorem node_execution_contract_witness:
  "\<exists>m c. bpf_session demo_env no_hal probe_layout probe_request probe_view = (Some (Inr 0x50000004), (m, c)) \<and>
     m 0x3F040000 = exec_memory probe_layout probe_request probe_view 0x3F040000 \<and>
     bv_sleep (node_exec demo_env no_hal probe_layout probe_request probe_view) = bv_sleep probe_view"
proof -
  have maps: "maps_within (xr_maps probe_request) (bv_rtc probe_view)"
    by (simp add: maps_within_def probe_request_def probe_maps_def probe_view_def probe_node_def probe_def_def map_size_def entry_size_def MAP_BUDGET_def)
  have verified: "verified_program demo_env no_hal probe_layout probe_request probe_view"
    using probe_verified [OF probe_sees] probe_loads by (simp add: verified_program_def probe_session_env)
  have outside: "\<not> session_memory probe_layout probe_request probe_view 0x3F040000"
    by (simp add: session_memory_def probe_layout_def probe_request_def probe_program_def probe_maps_def probe_view_def probe_node_def probe_def_def
        load_defs_of_def map_count_def STACK_SIZE_def ebpf_consts MAP_BUDGET_def)
  have "xr_class probe_request = Ephemeral" by (simp add: probe_request_def)
  with node_execution_contract [OF probe_layout_fits maps verified HOL.refl] outside probe_session show ?thesis by auto
qed

theorem session_frames_numbered_witness:
  "\<exists>reg wake k seq fs. sent (nd_radio (snd (run_wake_cycle probe_platform demo_env probe_node))) = reg @ replicate k wake @ fs \<and>
     length reg \<le> 1 \<and> k \<le> 4 \<and> map frame_nonce fs = map (\<lambda>i. seq + of_nat i) [0..<length fs]"
proof -
  have "pf_exec probe_platform = node_exec demo_env no_hal probe_layout" "nvs_driver_ok (pf_drv probe_platform)"
      "sent (nd_radio probe_node) = []"
    using demo_driver by (simp_all add: probe_platform_def probe_node_def demo_node_def demo_radio_def)
  with session_frames_numbered [OF probe_layout_fits this(1,2) surjective_pairing, of probe_node] show ?thesis
    by (metis append_Nil)
qed

section \<open>Ephemeral programs and the resident's maps\<close>

text \<open>An ephemeral program can change the resident program's maps. A cycle that runs an ephemeral program
  without maps of its own loads it with the resident's maps, the lookup helper does not ask for the class,
  and the pointer it returns is writable: this nine-instruction program changes the first byte of the
  resident's map value from 0 to 1, although \<open>map_update_elem\<close> refuses ephemeral programs.\<close>

theorem ephemeral_writes_resident_maps:
  "prepare_step probe_platform demo_env [] probe_dispatched probe_node = Continue (Some probe_program) probe_node \<and>
   lp_is_ephemeral probe_program \<and> rtc_backing (nd_rtc probe_node) ! 4 = 0 \<and>
   rtc_backing (nd_rtc (snd (execute_step probe_platform demo_id 0 0 None probe_dispatched (Some probe_program) probe_node))) ! 4 = 1"
proof -
  have "rtc_backing (nd_rtc probe_node) ! 4 = 0" by (simp add: probe_node_def MAP_BUDGET_def)
  moreover have "prepare_step probe_platform demo_env [] probe_dispatched probe_node = Continue (Some probe_program) probe_node"
    by (simp add: prepare_step_def probe_dispatched_def probe_program_def Let_def)
  moreover have "rtc_backing (nd_rtc (snd (execute_step probe_platform demo_id 0 0 None probe_dispatched (Some probe_program) probe_node))) ! 4 = 1"
  proof -
    obtain battery nd1 where nd1: "persist_current_cycle_battery probe_platform (activate_gpio probe_platform probe_node) = (battery, nd1)"
      by (metis surj_pair)
    then have same: "nd_maps nd1 = probe_maps" "length (rtc_backing (nd_rtc nd1)) = MAP_BUDGET"
      by (auto simp: persist_current_cycle_battery_def activate_gpio_def probe_node_def Let_def)
    show ?thesis
      using nd1 same by (auto simp: execute_step_def run_program_def Let_def probe_platform_def intro!: probe_exec)
  qed
  ultimately show ?thesis by (simp add: probe_program_def)
qed

end
