(* ===== verification/Node_Maps.thy ===== *)
theory Node_Maps
  imports Node_Bpf_Examples
begin

text \<open>
  The map helpers over the memory of the node: what \<open>map_update_elem\<close> stores is what \<open>map_lookup_elem\<close>
  points at, and the update changes nothing else. The helpers work on the RTC buffer where it lies in
  memory; the statements relate that to \<open>map_update\<close> and \<open>map_lookup\<close> of the map storage.
\<close>

section \<open>Slices of memory\<close>

lemma nth_read_bytes [simp]: "i < n \<Longrightarrow> read_bytes m p n ! i = m (p + of_nat i)"
  by (simp add: read_bytes_def)

lemma read_bytes_slice: "k + n \<le> len \<Longrightarrow> take n (drop k (read_bytes m p len)) = read_bytes m (p + of_nat k) n"
  by (rule nth_equalityI) (simp_all add: add.assoc)

lemma unat_of_nat_u64: "i < 2 ^ 64 \<Longrightarrow> unat (of_nat i :: u64) = i"
  by (simp add: unat_of_nat)

lemma read_write_bytes: "length bs \<le> 2 ^ 64 \<Longrightarrow> read_bytes (write_bytes m p bs) p (length bs) = bs"
  by (rule nth_equalityI) (simp_all add: write_bytes_def unat_of_nat_u64)

text \<open>Writing back a buffer with one part replaced is writing that part.\<close>

lemma write_copy_at:
  assumes "off + length bs \<le> len" and "unat p + len < 2 ^ 64"
  shows "write_bytes m p (copy_at off bs (read_bytes m p len)) = write_bytes m (p + of_nat off) bs"
proof
  fix a
  let ?d = "unat (a - p)"
  have a: "a = p + of_nat ?d" by simp
  have off: "unat (of_nat off :: u64) = off" using assms by (intro unat_of_nat_u64) simp
  have diff: "unat (a - (p + of_nat off)) = (if off \<le> ?d then ?d - off else ?d + 2 ^ 64 - off)"
  proof -
    have "unat (x - y) = (if unat y \<le> unat x then unat x - unat y else unat x + 2 ^ 64 - unat y)" for x y :: u64
      using unat_sub_if_size [of x y] by (simp add: word_size)
    from this [of "a - p" "of_nat off", unfolded off] show ?thesis by (simp only: diff_diff_eq)
  qed
  have len: "length (copy_at off bs (read_bytes m p len)) = len" using assms(1) by (simp add: length_copy_at)
  show "write_bytes m p (copy_at off bs (read_bytes m p len)) a = write_bytes m (p + of_nat off) bs a"
  proof (cases "off \<le> ?d")
    case True
    then have "?d < len \<Longrightarrow> copy_at off bs (read_bytes m p len) ! ?d = (if ?d < off + length bs then bs ! (?d - off) else m a)"
      using assms(1) by (simp add: nth_copy_at)
    with True diff len assms(1) show ?thesis by (auto simp: write_bytes_def)
  next
    case False
    then have "?d < len" "copy_at off bs (read_bytes m p len) ! ?d = m a" using assms(1) by (simp_all add: nth_copy_at)
    moreover have "\<not> unat (a - (p + of_nat off)) < length bs" using False diff assms by simp
    ultimately show ?thesis using len by (simp add: write_bytes_def)
  qed
qed

lemma load_le_agree: "(\<And>j. j < n \<Longrightarrow> m' (p + of_nat j) = m (p + of_nat j)) \<Longrightarrow> load_le n m' p = load_le n m p"
proof (induction n arbitrary: p)
  case (Suc n)
  have "m' (p + 1 + of_nat j) = m (p + 1 + of_nat j)" if "j < n" for j
    using Suc.prems [of "Suc j"] that by (simp add: add.assoc)
  with Suc show ?case using Suc.prems [of 0] by simp
qed simp

section \<open>The helpers\<close>

text \<open>The buffer does not wrap around the address space and holds all the maps.\<close>

definition maps_placed :: "dispatch_context \<Rightarrow> bool" where
  "maps_placed c \<longleftrightarrow> dc_map_base c \<noteq> 0 \<and> unat (dc_map_base c) + dc_map_len c < 2 ^ 64 \<and>
     (\<forall>mi \<in> set (st_maps (dc_maps c)). mi_off mi + mi_len mi \<le> dc_map_len c)"

lemma value_ptr_entry: "value_ptr base mi key = base + of_nat (entry_pos mi key)"
  by (simp add: value_ptr_def data_ptr_def entry_pos_def add.assoc)

lemma helper_map_updateD:
  assumes "helper_map_update_elem r1 kp vp a4 a5 (m, c) = (0, (m', c'))"
  shows "c' = c \<and> as_ptr kp \<noteq> 0 \<and> (\<exists>i buf. index_get (dc_index c) r1 = Some i \<and> i < length (st_maps (dc_maps c)) \<and>
    map_update (map_buffer m c) (st_maps (dc_maps c) ! i) (read_key32 m (as_ptr kp))
      (read_bytes m (as_ptr vp) (unat (md_value_size (mi_def (st_maps (dc_maps c) ! i))))) = Inr buf \<and>
    m' = write_bytes m (dc_map_base c) buf)"
proof (cases "dc_class c = Ephemeral \<or> as_ptr kp = 0 \<or> as_ptr vp = 0 \<or> index_get (dc_index c) r1 = None")
  case True
  then have "helper_map_update_elem r1 kp vp a4 a5 (m, c) = (FAIL, (m, c))"
    by (auto simp: helper_map_update_elem_def Let_def)
  with assms show ?thesis by (simp add: FAIL_def)
next
  case False
  then obtain i where "index_get (dc_index c) r1 = Some i" by blast
  with False assms show ?thesis
    by (cases "i < length (st_maps (dc_maps c))") (auto simp: helper_map_update_elem_def Let_def FAIL_def split: sum.splits)
qed

text \<open>C32. What a resident program stores with \<open>map_update_elem\<close> is what \<open>map_lookup_elem\<close> then points at: after
  a successful update the lookup with the same key returns a pointer, not null, the bytes there are the
  bytes that were given, and no other byte of memory has changed.\<close>

theorem map_helpers_roundtrip:
  assumes "helper_map_update_elem r1 kp vp a4 a5 (m, c) = (0, (m', c'))" and "maps_placed c"
    and "\<And>j. j < 4 \<Longrightarrow> \<not> unat (as_ptr kp + of_nat j - dc_map_base c) < dc_map_len c"
  shows "\<exists>i p vs. index_get (dc_index c) r1 = Some i \<and> vs = unat (md_value_size (mi_def (st_maps (dc_maps c) ! i))) \<and>
    helper_map_lookup_elem r1 kp b3 b4 b5 (m', c') = (p, (m', c')) \<and> p \<noteq> 0 \<and>
    read_bytes m' p vs = read_bytes m (as_ptr vp) vs \<and> (\<forall>a. \<not> unat (a - p) < vs \<longrightarrow> m' a = m a)"
proof -
  obtain i buf where c: "as_ptr kp \<noteq> 0" "c' = c"
    and i: "index_get (dc_index c) r1 = Some i" "i < length (st_maps (dc_maps c))"
    and upd: "map_update (map_buffer m c) (st_maps (dc_maps c) ! i) (read_key32 m (as_ptr kp))
      (read_bytes m (as_ptr vp) (unat (md_value_size (mi_def (st_maps (dc_maps c) ! i))))) = Inr buf"
    and m': "m' = write_bytes m (dc_map_base c) buf"
    using helper_map_updateD [OF assms(1)] by blast
  define mi where mi: "mi = st_maps (dc_maps c) ! i"
  let ?key = "read_key32 m (as_ptr kp)" and ?vs = "unat (md_value_size (mi_def mi))"
  let ?val = "read_bytes m (as_ptr vp) ?vs" and ?p = "value_ptr (dc_map_base c) mi ?key"
  have u: "map_update (map_buffer m c) mi ?key ?val = Inr buf" using upd by (simp add: mi)
  note D = map_update_InrD [OF u]
  have fits: "mi_off mi + mi_len mi \<le> dc_map_len c" "unat (dc_map_base c) + dc_map_len c < 2 ^ 64" "dc_map_base c \<noteq> 0"
    using assms(2) i by (auto simp: maps_placed_def mi)
  have "entry_pos mi ?key + length ?val \<le> dc_map_len c" using D(4) fits(1) by simp
  then have eff: "m' = write_bytes m ?p ?val"
    using write_copy_at [OF _ fits(2), of "entry_pos mi ?key" ?val m] D(3) m'
    by (simp add: map_buffer_def value_ptr_entry)
  have "m' (as_ptr kp + of_nat j) = m (as_ptr kp + of_nat j)" if "j < 4" for j
  proof -
    have "length buf = dc_map_len c" using map_update_length [OF u] fits(1) by (simp add: map_buffer_def)
    with assms(3) [OF that] show ?thesis unfolding m' by (intro write_bytes_outside) simp
  qed
  then have key: "read_key32 m' (as_ptr kp) = ?key"
    unfolding read_key32_def by (intro arg_cong [where f = ucast] load_le_agree)
  have "map_lookup (map_buffer m' c) mi ?key \<noteq> None"
    using D(1,2,4) by (simp add: map_lookup_eq)
  then have look: "helper_map_lookup_elem r1 kp b3 b4 b5 (m', c') = (?p, (m', c'))"
    using i c key by (auto simp: helper_map_lookup_elem_def Let_def mi)
  have "?p \<noteq> 0"
  proof -
    have "unat ?p = unat (dc_map_base c) + entry_pos mi ?key"
      using D(4) fits(1,2) by (simp add: value_ptr_entry unat_word_ariths unat_of_nat)
    then show ?thesis using fits(3) by (auto simp: word_unat_eq_iff)
  qed
  moreover have "read_bytes m' ?p ?vs = ?val"
  proof -
    have "?vs \<le> 2 ^ 64" using unsigned_less [of "md_value_size (mi_def mi)", where 'a = nat] by simp
    then show ?thesis using read_write_bytes [of ?val m ?p] eff by simp
  qed
  moreover have "m' a = m a" if "\<not> unat (a - ?p) < ?vs" for a
    using that by (simp add: eff write_bytes_outside)
  ultimately show ?thesis using i look by (intro exI [of _ i] exI [of _ ?p] exI [of _ ?vs]) (auto simp: mi)
qed

text \<open>An update at the address 16 of a key, with a value at the address 32.\<close>

definition keyed_context :: dispatch_context where
  "keyed_context = \<lparr>dc_env = demo_env, dc_hal = no_hal, dc_bus = [], dc_link = link_of demo_node 0, dc_maps = probe_maps,
     dc_map_base = 0x50000000, dc_map_len = 8, dc_sleep = sleep_new 60 Scheduled, dc_identity = demo_id, dc_class = Resident,
     dc_trace = [], dc_queue = queue_new queue_zero, dc_timestamp_ms = 0, dc_received_at_ms = 0, dc_battery_mv = 0,
     dc_index = [(0x50000000, 0)]\<rparr>"

definition keyed_memory :: memory where "keyed_memory = (\<lambda>a. if a = 33 then 9 else 0)"

lemma below_four: "j < 4 \<Longrightarrow> j \<in> {0, 1, 2, 3}" for j :: nat
  by auto

lemma load_le_zero: "load_le n (\<lambda>_. 0) p = 0"
  by (induction n arbitrary: p) simp_all

lemma keyed_update:
  "\<exists>m'. helper_map_update_elem 0x50000000 16 32 0 0 (keyed_memory, keyed_context) = (0, (m', keyed_context))"
proof -
  have "keyed_memory (16 + of_nat j) = 0" if "j < 4" for j
    using below_four [OF that] by (auto simp: keyed_memory_def)
  then have "load_le 4 keyed_memory 16 = load_le 4 (\<lambda>_. 0) 16" by (intro load_le_agree)
  then have "read_key32 keyed_memory 16 = 0" by (simp add: read_key32_def load_le_zero)
  moreover have "as_ptr 16 = 16" "as_ptr 32 = 32" by (simp_all add: as_ptr_def as_usize_def USIZE_MAX_def)
  ultimately show ?thesis
    by (simp add: helper_map_update_elem_def keyed_context_def index_get_def probe_maps_def probe_def_def map_update_def
        map_size_def entry_size_def Let_def)
qed

theorem map_helpers_roundtrip_witness:
  "\<exists>m' p. helper_map_update_elem 0x50000000 16 32 0 0 (keyed_memory, keyed_context) = (0, (m', keyed_context)) \<and>
     helper_map_lookup_elem 0x50000000 16 0 0 0 (m', keyed_context) = (p, (m', keyed_context)) \<and> read_bytes m' p 4 = [0, 9, 0, 0]"
proof -
  obtain m' where u: "helper_map_update_elem 0x50000000 16 32 0 0 (keyed_memory, keyed_context) = (0, (m', keyed_context))"
    using keyed_update by blast
  have placed: "maps_placed keyed_context"
    by (simp add: maps_placed_def keyed_context_def probe_maps_def probe_def_def map_size_def entry_size_def)
  have as: "as_ptr 16 = 16" "as_ptr 32 = 32" by (simp_all add: as_ptr_def as_usize_def USIZE_MAX_def)
  have "\<not> unat (as_ptr 16 + of_nat j - dc_map_base keyed_context) < dc_map_len keyed_context" if "j < 4" for j
    using below_four [OF that] by (auto simp: as keyed_context_def)
  then obtain i p vs where p: "index_get (dc_index keyed_context) 0x50000000 = Some i"
      "vs = unat (md_value_size (mi_def (st_maps (dc_maps keyed_context) ! i)))"
      "helper_map_lookup_elem 0x50000000 16 0 0 0 (m', keyed_context) = (p, (m', keyed_context))"
      "read_bytes m' p vs = read_bytes keyed_memory (as_ptr 32) vs"
    using map_helpers_roundtrip [OF u placed, of 0 0 0] by blast
  have "i = 0" using p(1) by (simp add: keyed_context_def index_get_def)
  then have vs: "vs = 4" using p(2) by (simp add: keyed_context_def probe_maps_def probe_def_def)
  have "read_bytes keyed_memory 32 4 = [0, 9, 0, 0]"
    by (simp add: read_bytes_def keyed_memory_def upt_rec)
  with u p(3,4) show ?thesis unfolding vs as by metis
qed

end
