(* ===== verification/Ble_Envelope.thy ===== *)
theory Ble_Envelope
  imports Messages
begin

text \<open>
  The BLE messages of the pairing (\<open>sonde-protocol/src/ble_envelope.rs\<close>): the envelope of type, length and
  body, and the bodies of the pre-provisioning test. \<open>der\<close> stands for \<open>ciborium::from_reader\<close> on a slice
  that keeps what was not read; \<open>cbor_rest_faithful\<close> is what the sources rely on. The field accessors
  of this file are those of \<open>messages.rs\<close>. Numbers in the text of an error are left out.
\<close>

type_synonym cbor_de_rest = "bytes \<Rightarrow> string + (cbor_value \<times> bytes)"

definition cbor_rest_faithful :: "cbor_ser \<Rightarrow> cbor_de_rest \<Rightarrow> bool" where
  "cbor_rest_faithful ser der \<longleftrightarrow> (\<forall>v. cbor_wf v \<longrightarrow> (\<exists>b. ser v = Inr b \<and> der b = Inr (v, [])))"

definition BLE_NODE_PROVISION :: u8 where "BLE_NODE_PROVISION = 0x01"
definition BLE_RUN_TEST_COMMAND :: u8 where "BLE_RUN_TEST_COMMAND = 0x02"
definition BLE_READ_TEST_RESULT :: u8 where "BLE_READ_TEST_RESULT = 0x03"
definition BLE_NODE_ACK :: u8 where "BLE_NODE_ACK = 0x81"
definition BLE_RUN_TEST_ACK :: u8 where "BLE_RUN_TEST_ACK = 0x82"
definition BLE_TEST_RESULT :: u8 where "BLE_TEST_RESULT = 0x83"
definition TEST_CMD_KEY_TEST_TYPE :: u64 where "TEST_CMD_KEY_TEST_TYPE = 1"
definition TEST_CMD_KEY_RF_CHANNEL :: u64 where "TEST_CMD_KEY_RF_CHANNEL = 2"
definition TEST_CMD_KEY_PAYLOAD :: u64 where "TEST_CMD_KEY_PAYLOAD = 3"
definition TEST_RESULT_KEY_STATUS :: u64 where "TEST_RESULT_KEY_STATUS = 1"
definition TEST_RESULT_KEY_TEST_TYPE :: u64 where "TEST_RESULT_KEY_TEST_TYPE = 2"
definition TEST_RESULT_KEY_REPLY_FRAME :: u64 where "TEST_RESULT_KEY_REPLY_FRAME = 3"
definition TEST_RESULT_KEY_REPLY_RSSI_DBM :: u64 where "TEST_RESULT_KEY_REPLY_RSSI_DBM = 4"
definition TEST_RESULT_KEY_ATTEMPT_COUNT :: u64 where "TEST_RESULT_KEY_ATTEMPT_COUNT = 5"
definition TEST_RESULT_KEY_ELAPSED_MS :: u64 where "TEST_RESULT_KEY_ELAPSED_MS = 6"
definition TEST_TYPE_DIAG_FRAME :: u64 where "TEST_TYPE_DIAG_FRAME = 1"
definition RUN_TEST_ACK_OK :: u8 where "RUN_TEST_ACK_OK = 0"
definition RUN_TEST_ACK_INVALID :: u8 where "RUN_TEST_ACK_INVALID = 1"
definition RUN_TEST_ACK_UNSUPPORTED :: u8 where "RUN_TEST_ACK_UNSUPPORTED = 2"
definition TEST_RESULT_OK :: u8 where "TEST_RESULT_OK = 0"
definition TEST_RESULT_TIMEOUT :: u8 where "TEST_RESULT_TIMEOUT = 1"
definition TEST_RESULT_NO_RESULT :: u8 where "TEST_RESULT_NO_RESULT = 2"
definition TEST_RESULT_EXECUTION_ERROR :: u8 where "TEST_RESULT_EXECUTION_ERROR = 3"

record run_test_command =
  rt_test_type :: u64
  rt_rf_channel :: "u8 option"
  rt_payload :: bytes

record test_result =
  tr_status :: u8
  tr_test_type :: "u64 option"
  tr_reply_frame :: "bytes option"
  tr_reply_rssi_dbm :: "u8 option"
  tr_attempt_count :: u64
  tr_elapsed_ms :: u64

section \<open>The envelope\<close>

definition parse_ble_envelope :: "bytes \<Rightarrow> (u8 \<times> bytes) option" where
  "parse_ble_envelope data =
     (if length data < 3 then None
      else
        let body_len = unat (from_be_bytes [data ! 1, data ! 2] :: u16) in
        if length data \<noteq> 3 + body_len then None else Some (data ! 0, take body_len (drop 3 data)))"

definition encode_ble_envelope :: "u8 \<Rightarrow> bytes \<Rightarrow> bytes option" where
  "encode_ble_envelope t body =
     (if length body > 0xFFFF then None else Some (t # be16 (of_nat (length body)) @ body))"

section \<open>Maps\<close>

definition ble_encode_map :: "cbor_ser \<Rightarrow> (u64 \<times> cbor_value) list \<Rightarrow> encode_error + bytes" where
  "ble_encode_map ser pairs =
     (case ser (CborMap (map (\<lambda>(k, v). (CborInt (uint k), v)) (sort_key fst pairs))) of
        Inl e \<Rightarrow> Inl (EncCborError e)
      | Inr b \<Rightarrow> Inr b)"

definition ble_decode_pair ::
    "(u64 \<times> cbor_value) list \<Rightarrow> cbor_value \<times> cbor_value \<Rightarrow> decode_error + (u64 \<times> cbor_value) list" where
  "ble_decode_pair decoded kv =
     (case Option.bind (as_integer (fst kv)) to_unsigned of
        None \<Rightarrow> Inl (DecInvalidParameter ''BLE test message key must be unsigned integer'')
      | Some key \<Rightarrow>
          if list_ex (\<lambda>p. fst p = key) decoded then Inl (DecInvalidParameter ''duplicate BLE test message key'')
          else Inr (decoded @ [(key, snd kv)]))"

definition ble_decode_map :: "cbor_de_rest \<Rightarrow> bytes \<Rightarrow> decode_error + (u64 \<times> cbor_value) list" where
  "ble_decode_map der data =
     (case der data of
        Inl e \<Rightarrow> Inl (DecCborError e)
      | Inr (value, remaining) \<Rightarrow>
          if remaining \<noteq> [] then Inl TooLong
          else
            (case as_map value of
               None \<Rightarrow> Inl (DecCborError ''expected CBOR map'')
             | Some m \<Rightarrow> res_fold ble_decode_pair [] m))"

definition get_optional_uint :: "(u64 \<times> cbor_value) list \<Rightarrow> u64 \<Rightarrow> decode_error + u64 option" where
  "get_optional_uint fs key =
     (case find (\<lambda>p. fst p = key) fs of
        None \<Rightarrow> Inr None
      | Some p \<Rightarrow> ok_or (InvalidFieldType key) (map_option Some (Option.bind (as_integer (snd p)) to_unsigned)))"

definition get_optional_i8 :: "(u64 \<times> cbor_value) list \<Rightarrow> u64 \<Rightarrow> decode_error + u8 option" where
  "get_optional_i8 fs key =
     (case find (\<lambda>p. fst p = key) fs of
        None \<Rightarrow> Inr None
      | Some p \<Rightarrow>
          res_bind (ok_or (InvalidFieldType key) (as_integer (snd p))) (\<lambda>i.
            ok_or (InvalidFieldType key) (map_option Some (to_i8 i))))"

section \<open>RUN_TEST_COMMAND\<close>

definition valid_channel :: "u8 \<Rightarrow> bool" where "valid_channel c \<longleftrightarrow> 1 \<le> c \<and> c \<le> 13"

definition run_test_pairs :: "run_test_command \<Rightarrow> (u64 \<times> cbor_value) list" where
  "run_test_pairs c =
     [(TEST_CMD_KEY_TEST_TYPE, uint_val (rt_test_type c))] @
     (case rt_rf_channel c of Some ch \<Rightarrow> [(TEST_CMD_KEY_RF_CHANNEL, u8_val ch)] | None \<Rightarrow> []) @
     [(TEST_CMD_KEY_PAYLOAD, CborBytes (rt_payload c))]"

definition encode_run_test_command :: "cbor_ser \<Rightarrow> u64 \<Rightarrow> u8 option \<Rightarrow> bytes \<Rightarrow> encode_error + bytes" where
  "encode_run_test_command ser test_type rf_channel payload =
     (if length payload > MAX_FRAME_SIZE then Inl FrameTooLarge
      else
        res_bind
          (if test_type = TEST_TYPE_DIAG_FRAME then
             (case rf_channel of
                None \<Rightarrow> Inl (EncInvalidParameter ''DIAG_FRAME requires rf_channel'')
              | Some c \<Rightarrow>
                  if \<not> valid_channel c then Inl (EncInvalidParameter ''DIAG_FRAME rf_channel out of range 1-13'')
                  else if payload = [] then Inl (EncInvalidParameter ''DIAG_FRAME payload must not be empty'')
                  else Inr ())
           else Inr ())
          (\<lambda>_. ble_encode_map ser
             (run_test_pairs \<lparr>rt_test_type = test_type, rt_rf_channel = rf_channel, rt_payload = payload\<rparr>)))"

definition decode_run_test_command :: "cbor_de_rest \<Rightarrow> bytes \<Rightarrow> decode_error + run_test_command" where
  "decode_run_test_command der body =
     res_bind (ble_decode_map der body) (\<lambda>fields.
     res_bind (get_uint fields TEST_CMD_KEY_TEST_TYPE) (\<lambda>test_type.
     res_bind (get_bytes fields TEST_CMD_KEY_PAYLOAD) (\<lambda>payload.
       if length payload > MAX_FRAME_SIZE then Inl (DecInvalidParameter ''test payload too large'')
       else
         res_bind (get_optional_uint fields TEST_CMD_KEY_RF_CHANNEL) (\<lambda>channel.
         res_bind
           (case channel of
              None \<Rightarrow> Inr None
            | Some c \<Rightarrow> ok_or (InvalidFieldType TEST_CMD_KEY_RF_CHANNEL) (map_option Some (to_unsigned (uint c))))
           (\<lambda>rf_channel.
         res_bind
           (if test_type = TEST_TYPE_DIAG_FRAME then
              (case rf_channel of
                 None \<Rightarrow> Inl (MissingField TEST_CMD_KEY_RF_CHANNEL)
               | Some c \<Rightarrow>
                   if \<not> valid_channel c then Inl (DecInvalidParameter ''DIAG_FRAME rf_channel out of range 1-13'')
                   else if payload = [] then Inl (DecInvalidParameter ''DIAG_FRAME payload must not be empty'')
                   else if length payload > MAX_FRAME_SIZE then Inl (DecInvalidParameter ''DIAG_FRAME payload too large'')
                   else Inr ())
            else Inr ())
           (\<lambda>_. Inr \<lparr>rt_test_type = test_type, rt_rf_channel = rf_channel, rt_payload = payload\<rparr>))))))"

definition encode_run_test_ack :: "u8 \<Rightarrow> encode_error + bytes" where "encode_run_test_ack status = Inr [status]"

definition decode_run_test_ack :: "bytes \<Rightarrow> decode_error + u8" where
  "decode_run_test_ack body =
     (if length body \<noteq> 1 then (if body = [] then Inl TooShort else Inl TooLong) else Inr (body ! 0))"

definition encode_read_test_result :: bytes where "encode_read_test_result = []"

definition decode_read_test_result :: "bytes \<Rightarrow> decode_error + unit" where
  "decode_read_test_result body = (if body = [] then Inr () else Inl TooLong)"

section \<open>TEST_RESULT\<close>

definition validate_test_result :: "test_result \<Rightarrow> encode_error + unit" where
  "validate_test_result r =
     (if tr_status r = TEST_RESULT_OK \<and> tr_reply_frame r = None then
        Inl (EncInvalidParameter ''successful TEST_RESULT requires reply_frame'')
      else if tr_status r \<noteq> TEST_RESULT_OK \<and> (tr_reply_frame r \<noteq> None \<or> tr_reply_rssi_dbm r \<noteq> None) then
        Inl (EncInvalidParameter ''non-success TEST_RESULT must not include reply fields'')
      else if tr_status r \<noteq> TEST_RESULT_NO_RESULT \<and> tr_test_type r = None then
        Inl (EncInvalidParameter ''TEST_RESULT missing test_type'')
      else
        case tr_reply_frame r of
          None \<Rightarrow> Inr ()
        | Some f \<Rightarrow>
            if f = [] then Inl (EncInvalidParameter ''reply_frame must not be empty when present'')
            else if length f > MAX_FRAME_SIZE then Inl FrameTooLarge
            else Inr ())"

definition test_result_pairs :: "test_result \<Rightarrow> (u64 \<times> cbor_value) list" where
  "test_result_pairs r =
     [(TEST_RESULT_KEY_STATUS, u8_val (tr_status r))] @
     (case tr_test_type r of Some t \<Rightarrow> [(TEST_RESULT_KEY_TEST_TYPE, uint_val t)] | None \<Rightarrow> []) @
     (case tr_reply_frame r of Some f \<Rightarrow> [(TEST_RESULT_KEY_REPLY_FRAME, CborBytes f)] | None \<Rightarrow> []) @
     (case tr_reply_rssi_dbm r of Some i \<Rightarrow> [(TEST_RESULT_KEY_REPLY_RSSI_DBM, i8_val i)] | None \<Rightarrow> []) @
     [(TEST_RESULT_KEY_ATTEMPT_COUNT, uint_val (tr_attempt_count r)), (TEST_RESULT_KEY_ELAPSED_MS, uint_val (tr_elapsed_ms r))]"

definition encode_test_result :: "cbor_ser \<Rightarrow> test_result \<Rightarrow> encode_error + bytes" where
  "encode_test_result ser r = res_bind (validate_test_result r) (\<lambda>_. ble_encode_map ser (test_result_pairs r))"

definition decode_test_result :: "cbor_de_rest \<Rightarrow> bytes \<Rightarrow> decode_error + test_result" where
  "decode_test_result der body =
     res_bind (ble_decode_map der body) (\<lambda>fields.
     res_bind (get_u8 fields TEST_RESULT_KEY_STATUS) (\<lambda>status.
     res_bind (get_optional_uint fields TEST_RESULT_KEY_TEST_TYPE) (\<lambda>test_type.
     res_bind (get_bytes_optional fields TEST_RESULT_KEY_REPLY_FRAME) (\<lambda>reply_frame.
     res_bind (get_optional_i8 fields TEST_RESULT_KEY_REPLY_RSSI_DBM) (\<lambda>rssi.
     res_bind (get_uint fields TEST_RESULT_KEY_ATTEMPT_COUNT) (\<lambda>attempts.
     res_bind (get_uint fields TEST_RESULT_KEY_ELAPSED_MS) (\<lambda>elapsed.
       if status = TEST_RESULT_OK \<and> reply_frame = None then
         Inl (DecInvalidParameter ''successful TEST_RESULT missing reply_frame'')
       else if status \<noteq> TEST_RESULT_OK \<and> (reply_frame \<noteq> None \<or> rssi \<noteq> None) then
         Inl (DecInvalidParameter ''non-success TEST_RESULT must not include reply fields'')
       else if status \<noteq> TEST_RESULT_NO_RESULT \<and> test_type = None then Inl (MissingField TEST_RESULT_KEY_TEST_TYPE)
       else
         res_bind
           (case reply_frame of
              None \<Rightarrow> Inr ()
            | Some f \<Rightarrow>
                if f = [] then Inl (DecInvalidParameter ''reply_frame must not be empty when present'')
                else if length f > MAX_FRAME_SIZE then Inl (DecInvalidParameter ''reply_frame too large'')
                else Inr ())
           (\<lambda>_. Inr \<lparr>tr_status = status, tr_test_type = test_type, tr_reply_frame = reply_frame, tr_reply_rssi_dbm = rssi,
                      tr_attempt_count = attempts, tr_elapsed_ms = elapsed\<rparr>))))))))"

section \<open>Round trips\<close>

text \<open>The encoding of RFC 8949 meets the requirement.\<close>

definition rfc_der :: cbor_de_rest where
  "rfc_der bs = (case rfc_parse (length bs) bs of None \<Rightarrow> Inl ''invalid'' | Some p \<Rightarrow> Inr p)"

lemma rfc_rest_faithful: "cbor_rest_faithful rfc_ser rfc_der"
proof -
  have "rfc_der (rfc_encode v) = Inr (v, [])" if "cbor_wf v" for v
    using rfc_parse_encode [OF that le_refl, of "[]"] by (simp add: rfc_der_def)
  then show ?thesis by (simp add: cbor_rest_faithful_def rfc_ser_def)
qed

lemmas ble_keys = TEST_CMD_KEY_TEST_TYPE_def TEST_CMD_KEY_RF_CHANNEL_def TEST_CMD_KEY_PAYLOAD_def TEST_RESULT_KEY_STATUS_def
  TEST_RESULT_KEY_TEST_TYPE_def TEST_RESULT_KEY_REPLY_FRAME_def TEST_RESULT_KEY_REPLY_RSSI_DBM_def
  TEST_RESULT_KEY_ATTEMPT_COUNT_def TEST_RESULT_KEY_ELAPSED_MS_def

lemma list_of_two: "length xs = 2 \<Longrightarrow> [xs ! 0, xs ! Suc 0] = xs"
  by (auto simp: numeral_2_eq_2 length_Suc_conv)

lemma be16_nth [simp]: "from_be_bytes [be16 w ! 0, be16 w ! Suc 0] = (w :: u16)"
  by (simp add: list_of_two from_to_be_bytes)

lemma envelope_roundtrip:
  assumes "length body \<le> 0xFFFF"
  shows "\<exists>m. encode_ble_envelope t body = Some m \<and> parse_ble_envelope m = Some (t, body)"
proof -
  have "unat (of_nat (length body) :: u16) = length body" using assms by (simp add: unat_of_nat)
  then show ?thesis
    using assms by (simp add: encode_ble_envelope_def parse_ble_envelope_def nth_append Let_def drop_Cons')
qed

lemma envelope_canonical:
  assumes "parse_ble_envelope m = Some (t, body)"
  shows "encode_ble_envelope t body = Some m"
proof -
  obtain a b c r where m: "m = a # b # c # r"
    using assms by (auto simp: parse_ble_envelope_def numeral_3_eq_3 Suc_le_length_iff not_less split: if_splits)
  have "length r = unat (from_be_bytes [b, c] :: u16)" "t = a" "body = r"
    using assms by (auto simp: m parse_ble_envelope_def Let_def split: if_splits)
  moreover from this have "be16 (of_nat (length r)) = [b, c]" by (simp add: to_from_be_bytes)
  moreover have "unat (from_be_bytes [b, c] :: u16) \<le> 0xFFFF"
    using unsigned_less [of "from_be_bytes [b, c] :: u16", where 'a = nat] by simp
  ultimately show ?thesis by (simp add: m encode_ble_envelope_def)
qed

text \<open>Reading back a map with distinct keys, whatever its order was.\<close>

lemma ble_decode_pairs:
  assumes "distinct (map fst (acc @ ps))"
  shows "res_fold ble_decode_pair acc (map (\<lambda>(k, v). (CborInt (uint k), v)) ps) = Inr (acc @ ps)"
  using assms
proof (induction ps arbitrary: acc)
  case (Cons p ps)
  obtain k v where p: "p = (k, v)" by (cases p)
  have "\<not> list_ex (\<lambda>q. fst q = k) acc" using Cons.prems by (auto simp: p list_ex_iff)
  with Cons show ?case by (simp add: p ble_decode_pair_def)
qed simp

lemma ble_map_roundtrip:
  assumes "cbor_rest_faithful ser der" and "distinct (map fst ps)" and "length ps < 2 ^ 64" and "list_all (cbor_wf \<circ> snd) ps"
  shows "\<exists>b. ble_encode_map ser ps = Inr b \<and> ble_decode_map der b = Inr (sort_key fst ps)"
proof -
  let ?ps = "sort_key fst ps"
  let ?v = "CborMap (map (\<lambda>(k, v). (CborInt (uint k), v)) ?ps)"
  have "cbor_wf ?v" using assms(3,4) by (auto simp: list_all_iff simp del: cbor_wf.simps(1))
  then obtain b where b: "ser ?v = Inr b" "der b = Inr (?v, [])" using assms(1) unfolding cbor_rest_faithful_def by blast
  have "distinct (map fst ([] @ ?ps))"
    using assms(2) by (simp add: distinct_map)
  from ble_decode_pairs [OF this] b show ?thesis by (simp add: ble_encode_map_def ble_decode_map_def)
qed

lemma ble_message_roundtrip:
  assumes "cbor_rest_faithful ser der" and "distinct (map fst ps)" and "length ps < 2 ^ 64" and "list_all (cbor_wf \<circ> snd) ps"
    and "sort_key fst ps = ps" and "ble_encode_map ser ps = Inr b"
  shows "ble_decode_map der b = Inr ps"
  using ble_map_roundtrip [OF assms(1-4)] assms(5,6) by auto

text \<open>A test command that the phone can encode is the command the node decodes.\<close>

lemma run_test_roundtrip:
  assumes "cbor_rest_faithful ser der" and "encode_run_test_command ser t ch p = Inr b"
  shows "decode_run_test_command der b = Inr \<lparr>rt_test_type = t, rt_rf_channel = ch, rt_payload = p\<rparr>"
proof -
  let ?c = "\<lparr>rt_test_type = t, rt_rf_channel = ch, rt_payload = p\<rparr>"
  have p: "length p \<le> MAX_FRAME_SIZE" and b: "ble_encode_map ser (run_test_pairs ?c) = Inr b"
    and d: "t = TEST_TYPE_DIAG_FRAME \<longrightarrow> (\<exists>c. ch = Some c \<and> valid_channel c \<and> p \<noteq> [])"
    using assms(2) by (auto simp: encode_run_test_command_def split: if_splits option.splits)
  have "ble_decode_map der b = Inr (run_test_pairs ?c)"
    using p by (intro ble_message_roundtrip [OF assms(1) _ _ _ _ b])
      (auto simp: run_test_pairs_def ble_keys field_defs MAX_FRAME_SIZE_def simp del: cbor_wf.simps(1) split: option.split)
  with p d show ?thesis
    by (cases ch) (auto simp: decode_run_test_command_def run_test_pairs_def ble_keys field_defs get_optional_uint_def)
qed

lemma test_result_roundtrip:
  assumes "cbor_rest_faithful ser der" and "validate_test_result r = Inr ()"
  shows "\<exists>b. encode_test_result ser r = Inr b \<and> decode_test_result der b = Inr r"
proof -
  have wf: "list_all (cbor_wf \<circ> snd) (test_result_pairs r)" "distinct (map fst (test_result_pairs r))"
    "sort_key fst (test_result_pairs r) = test_result_pairs r" "length (test_result_pairs r) < 2 ^ 64"
    using assms(2)
    by (auto simp: test_result_pairs_def ble_keys field_defs validate_test_result_def MAX_FRAME_SIZE_def simp del: cbor_wf.simps(1)
        split: option.splits if_splits)
  from ble_map_roundtrip [OF assms(1) wf(2,4,1)] wf(3) obtain b
    where b: "ble_encode_map ser (test_result_pairs r) = Inr b" "ble_decode_map der b = Inr (test_result_pairs r)" by auto
  with assms(2) show ?thesis
    by (cases r) (auto simp: encode_test_result_def decode_test_result_def test_result_pairs_def validate_test_result_def ble_keys
        field_defs get_optional_uint_def get_optional_i8_def split: option.splits if_splits)
qed

end
