(* ===== verification/Board_Layout.thy ===== *)
theory Board_Layout
  imports Ble_Envelope Node_Types
begin

text \<open>
  The board layout (\<open>sonde-protocol/src/board_layout.rs\<close>): which pins the sensors of a node are on, as the
  pairing tool sends it and the node stores it. The validation, the CBOR encoding, and that the two fit.
\<close>

definition BOARD_LAYOUT_KEY_I2C0_SDA :: u64 where "BOARD_LAYOUT_KEY_I2C0_SDA = 1"
definition BOARD_LAYOUT_KEY_I2C0_SCL :: u64 where "BOARD_LAYOUT_KEY_I2C0_SCL = 2"
definition BOARD_LAYOUT_KEY_ONE_WIRE_DATA :: u64 where "BOARD_LAYOUT_KEY_ONE_WIRE_DATA = 3"
definition BOARD_LAYOUT_KEY_BATTERY_ADC :: u64 where "BOARD_LAYOUT_KEY_BATTERY_ADC = 4"
definition BOARD_LAYOUT_KEY_SENSOR_ENABLE :: u64 where "BOARD_LAYOUT_KEY_SENSOR_ENABLE = 5"

definition LEGACY_COMPAT :: board_layout where
  "LEGACY_COMPAT = \<lparr>i2c0_sda = Some 0, i2c0_scl = Some 1, one_wire_data = None, battery_adc = None, sensor_enable = None\<rparr>"

definition SONDE_SENSOR_NODE_REV_A :: board_layout where
  "SONDE_SENSOR_NODE_REV_A =
     \<lparr>i2c0_sda = Some 6, i2c0_scl = Some 7, one_wire_data = Some 3, battery_adc = Some 2, sensor_enable = Some 4\<rparr>"

definition ESPRESSIF_ESP32_C3_DEVKIT_M1 :: board_layout where
  "ESPRESSIF_ESP32_C3_DEVKIT_M1 =
     \<lparr>i2c0_sda = Some 0, i2c0_scl = Some 1, one_wire_data = None, battery_adc = None, sensor_enable = None\<rparr>"

definition SPARKFUN_ESP32_C3_PRO_MICRO :: board_layout where
  "SPARKFUN_ESP32_C3_PRO_MICRO =
     \<lparr>i2c0_sda = Some 5, i2c0_scl = Some 6, one_wire_data = None, battery_adc = None, sensor_enable = None\<rparr>"

definition is_legacy_compat :: "board_layout \<Rightarrow> bool" where
  "is_legacy_compat l \<longleftrightarrow>
     i2c0_sda l = i2c0_sda LEGACY_COMPAT \<and> i2c0_scl l = i2c0_scl LEGACY_COMPAT \<and>
     one_wire_data l = one_wire_data LEGACY_COMPAT \<and> battery_adc l = battery_adc LEGACY_COMPAT \<and>
     sensor_enable l = sensor_enable LEGACY_COMPAT"

definition assigned_pins :: "board_layout \<Rightarrow> u8 option list" where
  "assigned_pins l = [i2c0_sda l, i2c0_scl l, one_wire_data l, battery_adc l, sensor_enable l]"

definition MAX_GPIO :: u8 where "MAX_GPIO = 21"

definition validate_gpio :: "u8 option \<Rightarrow> string \<Rightarrow> string + unit" where
  "validate_gpio pin field =
     (case pin of
        Some v \<Rightarrow>
          if v > MAX_GPIO then
            Inl (if field \<in> {''i2c0_sda'', ''i2c0_scl'', ''one_wire_data'', ''battery_adc'', ''sensor_enable''}
                 then field @ '' must be in GPIO range 0-21'' else ''GPIO value must be in range 0-21'')
          else Inr ()
      | None \<Rightarrow> Inr ())"

definition layout_validate :: "board_layout \<Rightarrow> string + unit" where
  "layout_validate l =
     res_bind (validate_gpio (i2c0_sda l) ''i2c0_sda'') (\<lambda>_.
     res_bind (validate_gpio (i2c0_scl l) ''i2c0_scl'') (\<lambda>_.
     res_bind (validate_gpio (one_wire_data l) ''one_wire_data'') (\<lambda>_.
     res_bind (validate_gpio (battery_adc l) ''battery_adc'') (\<lambda>_.
     res_bind (validate_gpio (sensor_enable l) ''sensor_enable'') (\<lambda>_.
       case (i2c0_sda l, i2c0_scl l) of
         (Some sda, Some scl) \<Rightarrow>
           if sda = scl then Inl ''i2c0_sda and i2c0_scl must be different pins'' else Inr ()
       | (Some _, None) \<Rightarrow> Inl ''i2c0_sda and i2c0_scl must both be assigned or both be unassigned''
       | (None, Some _) \<Rightarrow> Inl ''i2c0_sda and i2c0_scl must both be assigned or both be unassigned''
       | (None, None) \<Rightarrow> Inr ())))))"

definition value_for_pin :: "u8 option \<Rightarrow> cbor_value" where
  "value_for_pin pin = (case pin of Some p \<Rightarrow> CborInt (uint p) | None \<Rightarrow> CborNull)"

definition decode_pin :: "cbor_value \<Rightarrow> string \<Rightarrow> decode_error + u8 option" where
  "decode_pin v field =
     (case v of
        CborNull \<Rightarrow> Inr None
      | _ \<Rightarrow> ok_or (DecInvalidParameter (field @ '' must be uint or null''))
               (map_option Some (Option.bind (as_integer v) to_unsigned)))"

definition layout_value :: "board_layout \<Rightarrow> cbor_value" where
  "layout_value l = CborMap
     [(CborInt (uint BOARD_LAYOUT_KEY_I2C0_SDA), value_for_pin (i2c0_sda l)),
      (CborInt (uint BOARD_LAYOUT_KEY_I2C0_SCL), value_for_pin (i2c0_scl l)),
      (CborInt (uint BOARD_LAYOUT_KEY_ONE_WIRE_DATA), value_for_pin (one_wire_data l)),
      (CborInt (uint BOARD_LAYOUT_KEY_BATTERY_ADC), value_for_pin (battery_adc l)),
      (CborInt (uint BOARD_LAYOUT_KEY_SENSOR_ENABLE), value_for_pin (sensor_enable l))]"

definition encode_board_layout_cbor :: "cbor_ser \<Rightarrow> board_layout \<Rightarrow> encode_error + bytes" where
  "encode_board_layout_cbor ser l =
     (case layout_validate l of
        Inl reason \<Rightarrow> Inl (EncInvalidParameter reason)
      | Inr _ \<Rightarrow> (case ser (layout_value l) of Inl e \<Rightarrow> Inl (EncCborError e) | Inr b \<Rightarrow> Inr b))"

text \<open>The five variables of the decoder, each unset until its key is seen.\<close>

record layout_fields =
  lf_i2c0_sda :: "u8 option option"
  lf_i2c0_scl :: "u8 option option"
  lf_one_wire_data :: "u8 option option"
  lf_battery_adc :: "u8 option option"
  lf_sensor_enable :: "u8 option option"

definition no_layout_fields :: layout_fields where
  "no_layout_fields = \<lparr>lf_i2c0_sda = None, lf_i2c0_scl = None, lf_one_wire_data = None, lf_battery_adc = None,
     lf_sensor_enable = None\<rparr>"

definition layout_field :: "layout_fields \<Rightarrow> cbor_value \<times> cbor_value \<Rightarrow> decode_error + layout_fields" where
  "layout_field f kv =
     (case Option.bind (as_integer (fst kv)) to_unsigned of
        None \<Rightarrow> Inl (DecInvalidParameter ''board_layout key must be an unsigned integer'')
      | Some key \<Rightarrow>
          let v = snd kv in
          if key = BOARD_LAYOUT_KEY_I2C0_SDA then
            res_bind (decode_pin v ''i2c0_sda'') (\<lambda>p. Inr (f\<lparr>lf_i2c0_sda := Some p\<rparr>))
          else if key = BOARD_LAYOUT_KEY_I2C0_SCL then
            res_bind (decode_pin v ''i2c0_scl'') (\<lambda>p. Inr (f\<lparr>lf_i2c0_scl := Some p\<rparr>))
          else if key = BOARD_LAYOUT_KEY_ONE_WIRE_DATA then
            res_bind (decode_pin v ''one_wire_data'') (\<lambda>p. Inr (f\<lparr>lf_one_wire_data := Some p\<rparr>))
          else if key = BOARD_LAYOUT_KEY_BATTERY_ADC then
            res_bind (decode_pin v ''battery_adc'') (\<lambda>p. Inr (f\<lparr>lf_battery_adc := Some p\<rparr>))
          else if key = BOARD_LAYOUT_KEY_SENSOR_ENABLE then
            res_bind (decode_pin v ''sensor_enable'') (\<lambda>p. Inr (f\<lparr>lf_sensor_enable := Some p\<rparr>))
          else Inr f)"

definition layout_of_fields :: "layout_fields \<Rightarrow> decode_error + board_layout" where
  "layout_of_fields f =
     res_bind (ok_or (DecInvalidParameter ''board_layout missing i2c0_sda'') (lf_i2c0_sda f)) (\<lambda>sda.
     res_bind (ok_or (DecInvalidParameter ''board_layout missing i2c0_scl'') (lf_i2c0_scl f)) (\<lambda>scl.
     res_bind (ok_or (DecInvalidParameter ''board_layout missing one_wire_data'') (lf_one_wire_data f)) (\<lambda>ow.
     res_bind (ok_or (DecInvalidParameter ''board_layout missing battery_adc'') (lf_battery_adc f)) (\<lambda>ba.
     res_bind (ok_or (DecInvalidParameter ''board_layout missing sensor_enable'') (lf_sensor_enable f)) (\<lambda>se.
       Inr \<lparr>i2c0_sda = sda, i2c0_scl = scl, one_wire_data = ow, battery_adc = ba, sensor_enable = se\<rparr>)))))"

definition decode_board_layout_cbor :: "cbor_de_rest \<Rightarrow> bytes \<Rightarrow> decode_error + board_layout" where
  "decode_board_layout_cbor der data =
     (case der data of
        Inl e \<Rightarrow> Inl (DecCborError e)
      | Inr (value, remaining) \<Rightarrow>
          if remaining \<noteq> [] then Inl (DecInvalidParameter ''board_layout has trailing bytes'')
          else
            res_bind (ok_or (DecInvalidParameter ''board_layout must be a CBOR map'') (as_map value)) (\<lambda>m.
            res_bind (res_fold layout_field no_layout_fields m) (\<lambda>f.
            res_bind (layout_of_fields f) (\<lambda>l.
              case layout_validate l of Inl reason \<Rightarrow> Inl (DecInvalidParameter reason) | Inr _ \<Rightarrow> Inr l))))"

section \<open>The codec\<close>

lemmas layout_keys = BOARD_LAYOUT_KEY_I2C0_SDA_def BOARD_LAYOUT_KEY_I2C0_SCL_def BOARD_LAYOUT_KEY_ONE_WIRE_DATA_def
  BOARD_LAYOUT_KEY_BATTERY_ADC_def BOARD_LAYOUT_KEY_SENSOR_ENABLE_def

lemma decode_value_for_pin [simp]: "decode_pin (value_for_pin p) f = Inr p"
  by (cases p) (simp_all add: decode_pin_def value_for_pin_def)

lemma value_for_pin_wf [simp]: "cbor_wf (value_for_pin p)"
  by (cases p) (simp_all add: value_for_pin_def del: cbor_wf.simps(1))

lemma layout_roundtrip:
  assumes "cbor_rest_faithful ser der" and "layout_validate l = Inr ()"
  shows "\<exists>b. encode_board_layout_cbor ser l = Inr b \<and> decode_board_layout_cbor der b = Inr l"
proof -
  have "cbor_wf (layout_value l)" by (simp add: layout_value_def del: cbor_wf.simps(1))
  then obtain b where b: "ser (layout_value l) = Inr b" "der b = Inr (layout_value l, [])"
    using assms(1) unfolding cbor_rest_faithful_def by blast
  have "res_fold layout_field no_layout_fields
      (case layout_value l of CborMap m \<Rightarrow> m | _ \<Rightarrow> []) = Inr \<lparr>lf_i2c0_sda = Some (i2c0_sda l), lf_i2c0_scl = Some (i2c0_scl l),
        lf_one_wire_data = Some (one_wire_data l), lf_battery_adc = Some (battery_adc l), lf_sensor_enable = Some (sensor_enable l)\<rparr>"
    by (simp add: layout_value_def layout_field_def no_layout_fields_def layout_keys)
  moreover have "as_map (layout_value l) = Some (case layout_value l of CborMap m \<Rightarrow> m | _ \<Rightarrow> [])" by (simp add: layout_value_def)
  ultimately show ?thesis
    using b assms(2) by (cases l) (simp add: encode_board_layout_cbor_def decode_board_layout_cbor_def layout_of_fields_def)
qed

text \<open>What the decoder returns passes the validation, whatever the bytes.\<close>

lemma decoded_layout_valid: "decode_board_layout_cbor der b = Inr l \<Longrightarrow> layout_validate l = Inr ()"
  by (auto simp: decode_board_layout_cbor_def res_bind_Inr_iff split: sum.splits if_splits)
    (metis old.sum.exhaust old.unit.exhaust)+

lemma presets_valid:
  "layout_validate LEGACY_COMPAT = Inr ()" "layout_validate SONDE_SENSOR_NODE_REV_A = Inr ()"
  "layout_validate ESPRESSIF_ESP32_C3_DEVKIT_M1 = Inr ()" "layout_validate SPARKFUN_ESP32_C3_PRO_MICRO = Inr ()"
  by (simp_all add: layout_validate_def validate_gpio_def MAX_GPIO_def LEGACY_COMPAT_def SONDE_SENSOR_NODE_REV_A_def
      ESPRESSIF_ESP32_C3_DEVKIT_M1_def SPARKFUN_ESP32_C3_PRO_MICRO_def)

end
