(* ===== verification/Phone_Pairing.thy ===== *)
theory Phone_Pairing
  imports Board_Layout Gateway_Engine
begin

text \<open>
  The pairing tool (\<open>sonde-pair/src\<close>: \<open>types.rs\<close>, \<open>error.rs\<close>, \<open>validation.rs\<close>, \<open>envelope.rs\<close>, \<open>cbor.rs\<close>, \<open>crypto.rs\<close>,
  \<open>transport.rs\<close>, \<open>phase1.rs\<close>, \<open>phase2.rs\<close>): the phone registers with a gateway, tests the radio link and
  provisions a node. The Bluetooth transport is a trait: its operations are an argument, over a state
  of any type, so that a model of the peer can be plugged in. AES-256-GCM and SHA-256 are the
  arguments \<open>seal\<close>, \<open>unseal\<close> and \<open>sha\<close> (sealing fails only for inputs of gigabytes), random bytes and the
  wall clock are arguments as well. A text is the list of its UTF-8 bytes. Numbers in the text of an
  error, the progress callback, log output and the erasure of secrets from memory are left out.
\<close>

section \<open>Types\<close>

definition GATEWAY_SERVICE_UUID :: nat where "GATEWAY_SERVICE_UUID = 0x0000FE6000001000800000805F9B34FB"
definition GATEWAY_COMMAND_UUID :: nat where "GATEWAY_COMMAND_UUID = 0x0000FE6100001000800000805F9B34FB"
definition NODE_SERVICE_UUID :: nat where "NODE_SERVICE_UUID = 0x0000FE5000001000800000805F9B34FB"
definition NODE_COMMAND_UUID :: nat where "NODE_COMMAND_UUID = 0x0000FE5100001000800000805F9B34FB"
definition PHONE_BLE_MTU_MIN :: u16 where "PHONE_BLE_MTU_MIN = 247"
definition PHONE_PEER_PAYLOAD_MAX_LEN :: nat where "PHONE_PEER_PAYLOAD_MAX_LEN = 202"
definition REGISTER_PHONE :: u8 where "REGISTER_PHONE = 0x02"
definition PHONE_REGISTERED :: u8 where "PHONE_REGISTERED = 0x82"
definition NODE_PROVISION :: u8 where "NODE_PROVISION = 0x01"
definition NODE_ACK :: u8 where "NODE_ACK = 0x81"
definition MSG_ERROR :: u8 where "MSG_ERROR = 0xFF"
definition RSSI_GOOD_THRESHOLD :: u8 where "RSSI_GOOD_THRESHOLD = - 60"
definition RSSI_BAD_THRESHOLD :: u8 where "RSSI_BAD_THRESHOLD = - 75"
definition SIGNAL_QUALITY_GOOD :: u8 where "SIGNAL_QUALITY_GOOD = 0"
definition SIGNAL_QUALITY_MARGINAL :: u8 where "SIGNAL_QUALITY_MARGINAL = 1"
definition SIGNAL_QUALITY_BAD :: u8 where "SIGNAL_QUALITY_BAD = 2"

definition assess_signal_quality :: "u8 \<Rightarrow> u8 option" where
  "assess_signal_quality rssi =
     (if rssi = 0 then None
      else if sint rssi \<ge> sint RSSI_GOOD_THRESHOLD then Some SIGNAL_QUALITY_GOOD
      else if sint rssi \<ge> sint RSSI_BAD_THRESHOLD then Some SIGNAL_QUALITY_MARGINAL
      else Some SIGNAL_QUALITY_BAD)"

datatype node_ack_status = AckSuccess | AckAlreadyPaired | AckStorageError | AckUnknown u8

definition ack_from_byte :: "u8 \<Rightarrow> node_ack_status" where
  "ack_from_byte b =
     (if b = 0x00 then AckSuccess else if b = 0x01 then AckAlreadyPaired
      else if b = 0x02 then AckStorageError else AckUnknown b)"

fun ack_to_byte :: "node_ack_status \<Rightarrow> u8" where
  "ack_to_byte AckSuccess = 0x00" | "ack_to_byte AckAlreadyPaired = 0x01" | "ack_to_byte AckStorageError = 0x02"
| "ack_to_byte (AckUnknown b) = b"

datatype pairing_method = NumericComparison | JustWorks | UnknownMethod

datatype pairing_error =
    DeviceError string
  | MtuTooLow string u16 u16
  | IndicationTimeout "string option"
  | RegistrationFailed string
  | RegistrationWindowClosed
  | DecryptionFailed
  | InvalidResponse u8 string
  | CborDecodeFailed string
  | CborEncodeFailed string
  | NodeProvisionFailed node_ack_status
  | NodeErrorResponse u8 bytes
  | GatewayAlreadyPaired
  | PayloadTooLarge nat nat
  | InvalidPhoneLabel string
  | InvalidNodeId string
  | InvalidBoardLayout string
  | InvalidRfChannel u8
  | InvalidKeyHint
  | RngFailed string
  | EncryptionFailed string
  | DiagnosticFailed string
  | InsecurePairingMethod pairing_method
  | TimestampUnavailable
  | StoreLoadFailed string

record pairing_artifacts =
  pt_phone_psk :: bytes
  pt_phone_key_hint :: u16
  pt_rf_channel :: u8
  pt_phone_label :: string

record diagnostic_result =
  dg_gateway_rssi_dbm :: u8
  dg_signal_quality :: "u8 option"
  dg_node_reply_rssi_dbm :: "u8 option"
  dg_attempt_count :: u64
  dg_elapsed_ms :: u64

definition hex_upper :: "nat \<Rightarrow> char" where
  "hex_upper d = char_of (if d < 10 then 48 + d else 55 + d)"

definition format_byte :: "u8 \<Rightarrow> string" where
  "format_byte b = [hex_upper (unat b div 16), hex_upper (unat b mod 16)]"

definition format_device_address :: "bytes \<Rightarrow> string" where
  "format_device_address addr =
     format_byte (addr ! 0) @ '':'' @ format_byte (addr ! 1) @ '':'' @ format_byte (addr ! 2) @ '':'' @
     format_byte (addr ! 3) @ '':'' @ format_byte (addr ! 4) @ '':'' @ format_byte (addr ! 5)"

section \<open>Validation\<close>

text \<open>\<open>str::trim\<close>: the characters with the property White_Space, as UTF-8.\<close>

definition white_space :: "string list" where
  "white_space = map (map (char_of :: nat \<Rightarrow> char))
     ([[9], [10], [11], [12], [13], [32], [0xC2, 0x85], [0xC2, 0xA0], [0xE1, 0x9A, 0x80]] @
      map (\<lambda>i. [0xE2, 0x80, 0x80 + i]) [0..<11] @
      [[0xE2, 0x80, 0xA8], [0xE2, 0x80, 0xA9], [0xE2, 0x80, 0xAF], [0xE2, 0x81, 0x9F], [0xE3, 0x80, 0x80]])"

function strip :: "string list \<Rightarrow> string \<Rightarrow> string" where
  "strip ws s =
     (case find (\<lambda>w. w \<noteq> [] \<and> take (length w) s = w) ws of
        None \<Rightarrow> s
      | Some w \<Rightarrow> strip ws (drop (length w) s))"
  by pat_completeness auto
termination by (relation "measure (length \<circ> snd)") (auto simp: find_Some_iff, metis diff_less length_greater_0_conv take_Nil)

declare strip.simps [simp del]

definition trim :: "string \<Rightarrow> string" where
  "trim s = rev (strip (map rev white_space) (rev (strip white_space s)))"

definition validate_node_id :: "string \<Rightarrow> pairing_error + unit" where
  "validate_node_id i =
     (let trimmed = trim i in
      if trimmed = [] then Inl (InvalidNodeId ''node ID must not be empty'')
      else if length trimmed > 64 then Inl (InvalidNodeId ''node ID must be at most 64 bytes'')
      else Inr ())"

definition validate_rf_channel :: "u8 \<Rightarrow> pairing_error + unit" where
  "validate_rf_channel ch = (if \<not> valid_channel ch then Inl (InvalidRfChannel ch) else Inr ())"

definition compute_key_hint :: "sha_fn \<Rightarrow> bytes \<Rightarrow> u16" where
  "compute_key_hint sha psk = (let h = sha psk in from_be_bytes [h ! 30, h ! 31])"

section \<open>The envelope\<close>

definition parse_envelope :: "bytes \<Rightarrow> pairing_error + (u8 \<times> bytes)" where
  "parse_envelope data =
     (if length data < 3 then
        Inl (InvalidResponse (if data = [] then 0 else data ! 0) ''envelope too short (need at least 3 bytes)'')
      else
        let t = data ! 0; len = unat (from_be_bytes [data ! 1, data ! 2] :: u16) in
        if length data \<noteq> 3 + len then Inl (InvalidResponse t ''envelope length field does not match the body'')
        else Inr (t, take len (drop 3 data)))"

definition build_envelope :: "u8 \<Rightarrow> bytes \<Rightarrow> bytes option" where
  "build_envelope t payload =
     (if length payload > 0xFFFF then None else Some ([t] @ be16 (of_nat (length payload)) @ payload))"

record gw_info_response =
  gr_public_key :: bytes
  gr_gateway_id :: bytes
  gr_signature :: bytes

definition parse_gw_info_response :: "bytes \<Rightarrow> pairing_error + gw_info_response" where
  "parse_gw_info_response p =
     (if length p \<noteq> 32 + 16 + 64 then Inl (InvalidResponse 0x81 ''expected 112 bytes'')
      else Inr \<lparr>gr_public_key = take 32 p, gr_gateway_id = take 16 (drop 32 p), gr_signature = take 64 (drop 48 p)\<rparr>)"

definition parse_phone_registered :: "bytes \<Rightarrow> pairing_error + (bytes \<times> bytes)" where
  "parse_phone_registered p =
     (if length p < 12 + 1 then Inl (InvalidResponse 0x82 ''expected at least 13 bytes'') else Inr (take 12 p, drop 12 p))"

definition parse_node_ack :: "bytes \<Rightarrow> pairing_error + u8" where
  "parse_node_ack p = (if length p \<noteq> 1 then Inl (InvalidResponse 0x81 ''expected 1 byte'') else Inr (p ! 0))"

text \<open>The characters of \<open>String::from_utf8_lossy\<close>: a maximal invalid prefix becomes U+FFFD.\<close>

definition utf8_head :: "bytes \<Rightarrow> bool \<times> nat" where
  "utf8_head bs =
     (let b = bs ! 0;
          ok = (\<lambda>i lo hi. i < length bs \<and> cont_byte lo hi (bs ! i))
      in if b < 0x80 then (True, 1)
         else if cont_byte 0xC2 0xDF b then (if ok 1 0x80 0xBF then (True, 2) else (False, 1))
         else if cont_byte 0xE0 0xEF b then
           (if \<not> ok 1 (if b = 0xE0 then 0xA0 else 0x80) (if b = 0xED then 0x9F else 0xBF) then (False, 1)
            else if ok 2 0x80 0xBF then (True, 3) else (False, 2))
         else if cont_byte 0xF0 0xF4 b then
           (if \<not> ok 1 (if b = 0xF0 then 0x90 else 0x80) (if b = 0xF4 then 0x8F else 0xBF) then (False, 1)
            else if \<not> ok 2 0x80 0xBF then (False, 2)
            else if ok 3 0x80 0xBF then (True, 4) else (False, 3))
         else (False, 1))"

lemma utf8_head_pos: "0 < snd (utf8_head bs)"
  by (simp add: utf8_head_def Let_def)

function utf8_lossy_chars :: "bytes \<Rightarrow> bytes list" where
  "utf8_lossy_chars bs =
     (if bs = [] then []
      else case utf8_head bs of (valid, n) \<Rightarrow> (if valid then take n bs else [0xEF, 0xBF, 0xBD]) # utf8_lossy_chars (drop n bs))"
  by pat_completeness auto
termination by (relation "measure length") (auto, metis diff_less length_greater_0_conv snd_conv utf8_head_pos)

declare utf8_lossy_chars.simps [simp del]

definition parse_error_body :: "bytes \<Rightarrow> u8 \<times> bytes list" where
  "parse_error_body p =
     (if p = [] then (0, []) else (p ! 0, if length p > 1 then utf8_lossy_chars (drop 1 p) else []))"

text \<open>\<open>char::is_control\<close>: U+0000 to U+001F and U+007F to U+009F.\<close>

definition is_control :: "bytes \<Rightarrow> bool" where
  "is_control c \<longleftrightarrow>
     (case c of
        [b] \<Rightarrow> b < 0x20 \<or> b = 0x7F
      | [b0, b1] \<Rightarrow> b0 = 0xC2 \<and> b1 < 0xA0
      | _ \<Rightarrow> False)"

definition MAX_DIAGNOSTIC_LEN :: nat where "MAX_DIAGNOSTIC_LEN = 256"

definition sanitize_diagnostic :: "bytes list \<Rightarrow> bytes" where
  "sanitize_diagnostic cs =
     concat (take MAX_DIAGNOSTIC_LEN (filter (\<lambda>c. \<not> is_control c \<or> c = [10] \<or> c = [13] \<or> c = [9]) cs))"

section \<open>The pairing request\<close>

record pairing_request_fields =
  pf_node_id :: string
  pf_node_key_hint :: u16
  pf_node_psk :: bytes
  pf_rf_channel :: u8
  pf_sensors :: "sensor_descriptor list"
  pf_timestamp :: int

definition sensor_value :: "sensor_descriptor \<Rightarrow> cbor_value" where
  "sensor_value s = CborMap
     ([(CborInt 1, CborInt (uint (sd_sensor_type s))), (CborInt 2, CborInt (uint (sd_sensor_id s)))] @
      (case sd_label s of Some l \<Rightarrow> [(CborInt 3, CborText l)] | None \<Rightarrow> []))"

definition pairing_request_value :: "sha_fn \<Rightarrow> string \<Rightarrow> bytes \<Rightarrow> u8 \<Rightarrow> sensor_descriptor list \<Rightarrow> int \<Rightarrow> cbor_value" where
  "pairing_request_value sha node_id psk ch sensors ts = CborMap
     [(CborInt 1, CborText node_id), (CborInt 2, CborInt (uint (compute_key_hint sha psk))), (CborInt 3, CborBytes psk),
      (CborInt 4, CborInt (uint ch)), (CborInt 5, CborArray (map sensor_value sensors)), (CborInt 6, CborInt ts)]"

definition encode_pairing_request ::
    "cbor_ser \<Rightarrow> sha_fn \<Rightarrow> string \<Rightarrow> bytes \<Rightarrow> u8 \<Rightarrow> sensor_descriptor list \<Rightarrow> int \<Rightarrow> pairing_error + bytes" where
  "encode_pairing_request ser sha node_id psk ch sensors ts =
     (case ser (pairing_request_value sha node_id psk ch sensors ts) of
        Inl e \<Rightarrow> Inl (CborEncodeFailed e)
      | Inr b \<Rightarrow> Inr b)"

text \<open>A key that is no unsigned integer is skipped.\<close>

definition unsigned_key :: "cbor_value \<Rightarrow> int option" where
  "unsigned_key k = (case k of CborInt i \<Rightarrow> if i < 0 then None else Some i | _ \<Rightarrow> None)"

record sensor_fields =
  sf_type :: "u8 option"
  sf_id :: "u8 option"
  sf_label :: "string option"

definition byte_field :: "string \<Rightarrow> cbor_value \<Rightarrow> pairing_error + u8" where
  "byte_field name v =
     (case v of
        CborInt i \<Rightarrow> if \<not> (0 \<le> i \<and> i \<le> 255) then Inl (CborDecodeFailed (name @ '' out of range'')) else Inr (of_int i)
      | _ \<Rightarrow> Inl (CborDecodeFailed (name @ '' must be integer'')))"

definition decode_sensor_field :: "sensor_fields \<Rightarrow> cbor_value \<times> cbor_value \<Rightarrow> pairing_error + sensor_fields" where
  "decode_sensor_field f kv =
     (case unsigned_key (fst kv) of
        None \<Rightarrow> Inr f
      | Some k \<Rightarrow>
          if k = 1 then res_bind (byte_field ''sensor_type'' (snd kv)) (\<lambda>b. Inr (f\<lparr>sf_type := Some b\<rparr>))
          else if k = 2 then res_bind (byte_field ''sensor_id'' (snd kv)) (\<lambda>b. Inr (f\<lparr>sf_id := Some b\<rparr>))
          else if k = 3 then
            (case snd kv of
               CborText s \<Rightarrow> Inr (f\<lparr>sf_label := Some s\<rparr>)
             | _ \<Rightarrow> Inl (CborDecodeFailed ''sensor label must be text''))
          else Inr f)"

definition decode_sensor :: "sensor_descriptor list \<Rightarrow> cbor_value \<Rightarrow> pairing_error + sensor_descriptor list" where
  "decode_sensor result item =
     (case item of
        CborMap m \<Rightarrow>
          res_bind (res_fold decode_sensor_field \<lparr>sf_type = None, sf_id = None, sf_label = None\<rparr> m) (\<lambda>f.
          res_bind (ok_or (CborDecodeFailed ''sensor missing sensor_type (key 1)'') (sf_type f)) (\<lambda>st.
          res_bind (ok_or (CborDecodeFailed ''sensor missing sensor_id (key 2)'') (sf_id f)) (\<lambda>si.
            Inr (result @ [\<lparr>sd_sensor_type = st, sd_sensor_id = si, sd_label = sf_label f\<rparr>]))))
      | _ \<Rightarrow> Inl (CborDecodeFailed ''key 5 (sensors) elements must be CBOR maps''))"

record request_fields =
  rq_node_id :: "string option"
  rq_node_key_hint :: "u16 option"
  rq_node_psk :: "bytes option"
  rq_rf_channel :: "u8 option"
  rq_sensors :: "sensor_descriptor list option"
  rq_timestamp :: "int option"

definition decode_request_field :: "request_fields \<Rightarrow> cbor_value \<times> cbor_value \<Rightarrow> pairing_error + request_fields" where
  "decode_request_field f kv =
     (case unsigned_key (fst kv) of
        None \<Rightarrow> Inr f
      | Some k \<Rightarrow>
          let v = snd kv in
          if k = 1 then
            (case v of CborText s \<Rightarrow> Inr (f\<lparr>rq_node_id := Some s\<rparr>) | _ \<Rightarrow> Inl (CborDecodeFailed ''key 1 (node_id) must be text''))
          else if k = 2 then
            (case v of
               CborInt i \<Rightarrow>
                 if i < 0 \<or> i > 0xFFFF then Inl (CborDecodeFailed ''key 2 (node_key_hint) out of range'')
                 else Inr (f\<lparr>rq_node_key_hint := Some (of_int i)\<rparr>)
             | _ \<Rightarrow> Inl (CborDecodeFailed ''key 2 (node_key_hint) must be integer''))
          else if k = 3 then
            (case v of
               CborBytes b \<Rightarrow>
                 if length b \<noteq> 32 then Inl (CborDecodeFailed ''key 3 (node_psk) must be 32 bytes'')
                 else Inr (f\<lparr>rq_node_psk := Some b\<rparr>)
             | _ \<Rightarrow> Inl (CborDecodeFailed ''key 3 (node_psk) must be bytes''))
          else if k = 4 then
            (case v of
               CborInt i \<Rightarrow>
                 if \<not> (1 \<le> i \<and> i \<le> 13) then Inl (CborDecodeFailed ''key 4 (rf_channel) out of range'')
                 else Inr (f\<lparr>rq_rf_channel := Some (of_int i)\<rparr>)
             | _ \<Rightarrow> Inl (CborDecodeFailed ''key 4 (rf_channel) must be integer''))
          else if k = 5 then
            (case v of
               CborArray items \<Rightarrow> res_bind (res_fold decode_sensor [] items) (\<lambda>ss. Inr (f\<lparr>rq_sensors := Some ss\<rparr>))
             | _ \<Rightarrow> Inl (CborDecodeFailed ''key 5 (sensors) must be array''))
          else if k = 6 then
            (case v of
               CborInt i \<Rightarrow>
                 if i < - (2 ^ 63) \<or> i > 2 ^ 63 - 1 then Inl (CborDecodeFailed ''key 6 (timestamp) out of i64 range'')
                 else Inr (f\<lparr>rq_timestamp := Some i\<rparr>)
             | _ \<Rightarrow> Inl (CborDecodeFailed ''key 6 (timestamp) must be integer''))
          else Inr f)"

definition decode_from_map :: "(cbor_value \<times> cbor_value) list \<Rightarrow> pairing_error + pairing_request_fields" where
  "decode_from_map m =
     res_bind (res_fold decode_request_field \<lparr>rq_node_id = None, rq_node_key_hint = None, rq_node_psk = None,
         rq_rf_channel = None, rq_sensors = None, rq_timestamp = None\<rparr> m) (\<lambda>f.
     res_bind (ok_or (CborDecodeFailed ''missing key 1 (node_id)'') (rq_node_id f)) (\<lambda>node_id.
     res_bind (ok_or (CborDecodeFailed ''missing key 2 (node_key_hint)'') (rq_node_key_hint f)) (\<lambda>hint.
     res_bind (ok_or (CborDecodeFailed ''missing key 3 (node_psk)'') (rq_node_psk f)) (\<lambda>psk.
     res_bind (ok_or (CborDecodeFailed ''missing key 4 (rf_channel)'') (rq_rf_channel f)) (\<lambda>ch.
     res_bind (ok_or (CborDecodeFailed ''missing key 6 (timestamp)'') (rq_timestamp f)) (\<lambda>ts.
       Inr \<lparr>pf_node_id = node_id, pf_node_key_hint = hint, pf_node_psk = psk, pf_rf_channel = ch,
            pf_sensors = (case rq_sensors f of Some ss \<Rightarrow> ss | None \<Rightarrow> []), pf_timestamp = ts\<rparr>))))))"

definition decode_pairing_request :: "cbor_de \<Rightarrow> bytes \<Rightarrow> pairing_error + pairing_request_fields" where
  "decode_pairing_request de data =
     (case de data of
        Inl e \<Rightarrow> Inl (CborDecodeFailed e)
      | Inr (CborMap m) \<Rightarrow> decode_from_map m
      | Inr _ \<Rightarrow> Inl (CborDecodeFailed ''expected CBOR map''))"

section \<open>Cryptography\<close>

record phone_env =
  pe_seal :: seal_fn
  pe_open :: open_fn
  pe_sha :: sha_fn
  pe_ser :: cbor_ser
  pe_de :: cbor_de
  pe_der :: cbor_de_rest

text \<open>What the generator of random bytes and the wall clock (seconds since 1970, if it is not before) return.\<close>

record phone_world =
  pw_psk :: "pairing_error + bytes"
  pw_inner_nonce :: "pairing_error + bytes"
  pw_frame_nonce :: "pairing_error + bytes"
  pw_unix_secs :: "nat option"

definition PAIRING_REQUEST_AAD :: bytes where "PAIRING_REQUEST_AAD = map of_char ''sonde-pairing-v2''"
definition GCM_NONCE_LEN :: nat where "GCM_NONCE_LEN = 12"
definition GCM_TAG_LEN :: nat where "GCM_TAG_LEN = 16"

definition encrypt_pairing_request :: "phone_env \<Rightarrow> phone_world \<Rightarrow> bytes \<Rightarrow> bytes \<Rightarrow> pairing_error + bytes" where
  "encrypt_pairing_request env wld phone_psk cbor =
     res_bind (pw_inner_nonce wld) (\<lambda>inner_nonce.
       let encrypted_payload = inner_nonce @ pe_seal env phone_psk inner_nonce PAIRING_REQUEST_AAD cbor in
       case pe_ser env (CborMap [(CborInt (uint PEER_REQ_KEY_PAYLOAD), CborBytes encrypted_payload)]) of
         Inl _ \<Rightarrow> Inl (EncryptionFailed ''CBOR encode failed'')
       | Inr cbor_buf \<Rightarrow>
           res_bind (pw_frame_nonce wld) (\<lambda>frame_nonce_bytes.
             case encode_frame \<lparr>key_hint = key_hint_from_psk phone_psk (pe_sha env), msg_type = MSG_PEER_REQUEST,
                                nonce = from_be_bytes frame_nonce_bytes\<rparr> cbor_buf phone_psk (pe_seal env) (pe_sha env) of
               Inl _ \<Rightarrow> Inl (EncryptionFailed ''frame encode failed'')
             | Inr frame \<Rightarrow> Inr frame))"

definition decrypt_pairing_request :: "phone_env \<Rightarrow> bytes \<Rightarrow> bytes \<Rightarrow> bytes option" where
  "decrypt_pairing_request env phone_psk encrypted_payload =
     (if length encrypted_payload < GCM_NONCE_LEN + GCM_TAG_LEN then None
      else pe_open env phone_psk (take GCM_NONCE_LEN encrypted_payload) PAIRING_REQUEST_AAD (drop GCM_NONCE_LEN encrypted_payload))"

definition build_diag_request_frame :: "phone_env \<Rightarrow> phone_world \<Rightarrow> bytes \<Rightarrow> pairing_error + (bytes \<times> u64)" where
  "build_diag_request_frame env wld phone_psk =
     (case node_message_encode (pe_ser env) (DiagRequest DIAG_TYPE_RSSI) of
        Inl _ \<Rightarrow> Inl (EncryptionFailed ''CBOR encode failed'')
      | Inr cbor \<Rightarrow>
          res_bind (pw_frame_nonce wld) (\<lambda>frame_nonce_bytes.
            let frame_nonce = from_be_bytes frame_nonce_bytes in
            case encode_frame \<lparr>key_hint = key_hint_from_psk phone_psk (pe_sha env), msg_type = MSG_DIAG_REQUEST,
                               nonce = frame_nonce\<rparr> cbor phone_psk (pe_seal env) (pe_sha env) of
              Inl _ \<Rightarrow> Inl (EncryptionFailed ''frame encode failed'')
            | Inr frame \<Rightarrow> Inr (frame, frame_nonce)))"

definition decrypt_diag_reply :: "phone_env \<Rightarrow> bytes \<Rightarrow> bytes \<Rightarrow> u64 \<Rightarrow> pairing_error + u8" where
  "decrypt_diag_reply env raw_frame phone_psk expected_nonce =
     (case decode_frame raw_frame of
        Inl _ \<Rightarrow> Inl (DiagnosticFailed ''malformed DIAG_REPLY frame'')
      | Inr d \<Rightarrow>
          if msg_type (df_header d) \<noteq> MSG_DIAG_REPLY then Inl (DiagnosticFailed ''expected MSG_DIAG_REPLY msg_type'')
          else if nonce (df_header d) \<noteq> expected_nonce then Inl (DiagnosticFailed ''DIAG_REPLY nonce mismatch'')
          else
            (case open_frame d phone_psk (pe_open env) (pe_sha env) of
               Inl _ \<Rightarrow> Inl (EncryptionFailed ''DIAG_REPLY decryption failed'')
             | Inr payload \<Rightarrow>
                 (case gateway_message_decode (pe_de env) MSG_DIAG_REPLY payload of
                    Inl _ \<Rightarrow> Inl (DiagnosticFailed ''DIAG_REPLY CBOR decode'')
                  | Inr (DiagReply t rssi_dbm) \<Rightarrow> Inr rssi_dbm
                  | Inr _ \<Rightarrow> Inl (DiagnosticFailed ''unexpected message variant''))))"

section \<open>The transport\<close>

record 't ble_transport =
  bt_connect :: "bytes \<Rightarrow> ('t, pairing_error, u16) op"
  bt_disconnect :: "('t, pairing_error, unit) op"
  bt_write :: "nat \<Rightarrow> nat \<Rightarrow> bytes \<Rightarrow> ('t, pairing_error, unit) op"
  bt_read_indication :: "nat \<Rightarrow> nat \<Rightarrow> nat \<Rightarrow> ('t, pairing_error, bytes) op"
  bt_pairing_method :: "'t \<Rightarrow> pairing_method option"
  bt_set_defer_bonding :: "bool \<Rightarrow> 't \<Rightarrow> 't"
  bt_now_ms :: "'t \<Rightarrow> nat"
  bt_sleep_ms :: "nat \<Rightarrow> 't \<Rightarrow> 't"

definition hang_up :: "'t ble_transport \<Rightarrow> 't \<Rightarrow> 't" where
  "hang_up bt t = snd (bt_disconnect bt t)"

definition enforce_lesc :: "'t ble_transport \<Rightarrow> ('t, pairing_error, unit) op" where
  "enforce_lesc bt t =
     (case bt_pairing_method bt t of
        Some m \<Rightarrow> if m \<noteq> NumericComparison then (Inl (InsecurePairingMethod m), hang_up bt t) else (Inr (), t)
      | None \<Rightarrow> (Inr (), t))"

definition check_mtu :: "'t ble_transport \<Rightarrow> bytes \<Rightarrow> u16 \<Rightarrow> ('t, pairing_error, unit) op" where
  "check_mtu bt addr mtu t =
     (if mtu < PHONE_BLE_MTU_MIN then (Inl (MtuTooLow (format_device_address addr) mtu PHONE_BLE_MTU_MIN), hang_up bt t) else (Inr (), t))"

text \<open>The outcome of the exchange is returned after the connection is closed.\<close>

definition then_hang_up :: "'t ble_transport \<Rightarrow> ('t, pairing_error, 'a) op \<Rightarrow> ('t, pairing_error, 'a) op" where
  "then_hang_up bt m t = (case m t of (r, t') \<Rightarrow> (r, hang_up bt t'))"

section \<open>Phase 1: registration with the gateway\<close>

definition PHONE_REGISTERED_TIMEOUT_MS :: nat where "PHONE_REGISTERED_TIMEOUT_MS = 30000"

definition register_body :: "bytes \<Rightarrow> string \<Rightarrow> bytes" where
  "register_body psk label = psk @ [of_nat (length label)] @ map of_char label"

definition registration_error :: "bytes \<Rightarrow> pairing_error" where
  "registration_error payload =
     (case parse_error_body payload of (status, diagnostic) \<Rightarrow>
        if status = 0x02 then RegistrationWindowClosed
        else if status = 0x03 then GatewayAlreadyPaired
        else RegistrationFailed ''AEAD registration failed: gateway error code'')"

definition accept_registration :: "phone_env \<Rightarrow> bytes \<Rightarrow> string \<Rightarrow> bytes \<Rightarrow> pairing_error + pairing_artifacts" where
  "accept_registration env psk label response =
     res_bind (parse_envelope response) (\<lambda>(t, payload).
       if t = MSG_ERROR then Inl (registration_error payload)
       else if t \<noteq> PHONE_REGISTERED then Inl (InvalidResponse t ''expected PHONE_REGISTERED (0x82)'')
       else if length payload \<noteq> 4 then Inl (InvalidResponse PHONE_REGISTERED ''expected 4 bytes in PHONE_REGISTERED (AEAD)'')
       else if payload ! 0 \<noteq> 0x00 then Inl (RegistrationFailed ''PHONE_REGISTERED status'')
       else
         res_bind (validate_rf_channel (payload ! 1)) (\<lambda>_.
           let hint = from_be_bytes [payload ! 2, payload ! 3] in
           if hint \<noteq> compute_key_hint (pe_sha env) psk then Inl InvalidKeyHint
           else Inr \<lparr>pt_phone_psk = psk, pt_phone_key_hint = hint, pt_rf_channel = payload ! 1, pt_phone_label = label\<rparr>))"

definition do_pair_with_gateway ::
    "'t ble_transport \<Rightarrow> phone_env \<Rightarrow> phone_world \<Rightarrow> string \<Rightarrow> ('t, pairing_error, pairing_artifacts) op" where
  "do_pair_with_gateway bt env wld label =
     st_bind (st_lift (pw_psk wld)) (\<lambda>psk.
     st_bind (st_lift (ok_or (PayloadTooLarge (length (register_body psk label)) 0xFFFF)
                        (build_envelope REGISTER_PHONE (register_body psk label)))) (\<lambda>register.
     st_bind (bt_write bt GATEWAY_SERVICE_UUID GATEWAY_COMMAND_UUID register) (\<lambda>_.
     st_bind (bt_read_indication bt GATEWAY_SERVICE_UUID GATEWAY_COMMAND_UUID PHONE_REGISTERED_TIMEOUT_MS) (\<lambda>response.
       st_lift (accept_registration env psk label response)))))"

definition pair_with_gateway ::
    "'t ble_transport \<Rightarrow> phone_env \<Rightarrow> phone_world \<Rightarrow> bytes \<Rightarrow> string \<Rightarrow> ('t, pairing_error, pairing_artifacts) op" where
  "pair_with_gateway bt env wld addr label =
     (if length label > 64 then st_fail (InvalidPhoneLabel ''phone label must be at most 64 bytes'')
      else
        st_bind (bt_connect bt addr) (\<lambda>mtu.
        st_bind (check_mtu bt addr mtu) (\<lambda>_.
        st_bind (enforce_lesc bt) (\<lambda>_.
          then_hang_up bt (do_pair_with_gateway bt env wld label)))))"

section \<open>Phase 2: provisioning a node\<close>

definition NODE_ACK_TIMEOUT_MS :: nat where "NODE_ACK_TIMEOUT_MS = 5000"
definition RUN_TEST_ACK_TIMEOUT_MS :: nat where "RUN_TEST_ACK_TIMEOUT_MS = 5000"
definition TEST_RESULT_TIMEOUT_MS :: nat where "TEST_RESULT_TIMEOUT_MS = 5000"
definition POST_REBOOT_RECONNECT_TIMEOUT_MS :: nat where "POST_REBOOT_RECONNECT_TIMEOUT_MS = 15000"
definition POST_REBOOT_RECONNECT_BACKOFF_MS :: nat where "POST_REBOOT_RECONNECT_BACKOFF_MS = 500"

definition validate_supported_battery_adc :: "board_layout \<Rightarrow> pairing_error + unit" where
  "validate_supported_battery_adc l =
     (case battery_adc l of
        None \<Rightarrow> Inr ()
      | Some pin \<Rightarrow> if pin \<le> 4 then Inr () else Inl (InvalidBoardLayout ''battery_adc GPIO is not ADC-capable on ESP32-C3''))"

definition provision_payload :: "u16 \<Rightarrow> bytes \<Rightarrow> u8 \<Rightarrow> bytes \<Rightarrow> bytes option \<Rightarrow> bytes" where
  "provision_payload hint psk ch frame layout_cbor =
     be16 hint @ psk @ [ch] @ be16 (of_nat (length frame)) @ frame @ (case layout_cbor of Some b \<Rightarrow> b | None \<Rightarrow> [])"

definition accept_node_ack :: "bytes \<Rightarrow> pairing_error + node_ack_status" where
  "accept_node_ack response =
     res_bind (parse_envelope response) (\<lambda>(t, payload).
       if t = MSG_ERROR then
         (case parse_error_body payload of (status, message) \<Rightarrow> Inl (NodeErrorResponse status (sanitize_diagnostic message)))
       else if t \<noteq> NODE_ACK then Inl (InvalidResponse t ''expected NODE_ACK'')
       else
         res_bind (parse_node_ack payload) (\<lambda>b.
           if ack_from_byte b = AckSuccess then Inr AckSuccess else Inl (NodeProvisionFailed (ack_from_byte b))))"

definition do_provision_node ::
    "'t ble_transport \<Rightarrow> phone_env \<Rightarrow> u16 \<Rightarrow> bytes \<Rightarrow> u8 \<Rightarrow> bytes \<Rightarrow> board_layout option \<Rightarrow> ('t, pairing_error, node_ack_status) op" where
  "do_provision_node bt env hint psk ch frame layout =
     (if length frame > PHONE_PEER_PAYLOAD_MAX_LEN then st_fail (PayloadTooLarge (length frame) PHONE_PEER_PAYLOAD_MAX_LEN)
      else
        st_bind (st_lift (case layout of
            None \<Rightarrow> Inr None
          | Some l \<Rightarrow> (case encode_board_layout_cbor (pe_ser env) l of
                         Inl _ \<Rightarrow> Inl (InvalidBoardLayout ''board layout encode failed'') | Inr b \<Rightarrow> Inr (Some b)))) (\<lambda>layout_cbor.
        st_bind (st_lift (ok_or (PayloadTooLarge (length (provision_payload hint psk ch frame layout_cbor)) 0xFFFF)
            (build_envelope NODE_PROVISION (provision_payload hint psk ch frame layout_cbor)))) (\<lambda>message.
        st_bind (bt_write bt NODE_SERVICE_UUID NODE_COMMAND_UUID message) (\<lambda>_.
        st_bind (bt_read_indication bt NODE_SERVICE_UUID NODE_COMMAND_UUID NODE_ACK_TIMEOUT_MS) (\<lambda>response.
          st_lift (accept_node_ack response))))))"

text \<open>\<open>i64::try_from\<close> of the seconds since 1970.\<close>

definition phone_timestamp :: "phone_world \<Rightarrow> pairing_error + int" where
  "phone_timestamp wld =
     (case pw_unix_secs wld of
        None \<Rightarrow> Inl TimestampUnavailable
      | Some n \<Rightarrow> if int n \<le> 2 ^ 63 - 1 then Inr (int n) else Inl TimestampUnavailable)"

definition connect_to_node :: "'t ble_transport \<Rightarrow> bytes \<Rightarrow> ('t, pairing_error, unit) op" where
  "connect_to_node bt addr t =
     (case bt_connect bt addr (bt_set_defer_bonding bt True t) of (r, t1) \<Rightarrow>
        let t2 = bt_set_defer_bonding bt False t1 in
        case r of
          Inl e \<Rightarrow> (Inl e, t2)
        | Inr mtu \<Rightarrow> check_mtu bt addr mtu t2)"

definition provision_node ::
    "'t ble_transport \<Rightarrow> phone_env \<Rightarrow> phone_world \<Rightarrow> pairing_artifacts \<Rightarrow> bytes \<Rightarrow> string \<Rightarrow> sensor_descriptor list
       \<Rightarrow> board_layout option \<Rightarrow> ('t, pairing_error, node_ack_status) op" where
  "provision_node bt env wld art addr node_id sensors layout =
     st_bind (st_lift (validate_node_id node_id)) (\<lambda>_.
     st_bind (st_lift (case layout of
         None \<Rightarrow> Inr ()
       | Some l \<Rightarrow> (case layout_validate l of
                      Inl reason \<Rightarrow> Inl (InvalidBoardLayout reason) | Inr _ \<Rightarrow> validate_supported_battery_adc l))) (\<lambda>_.
     st_bind (st_lift (pw_psk wld)) (\<lambda>node_psk.
     st_bind (st_lift (phone_timestamp wld)) (\<lambda>timestamp.
     st_bind (st_lift (encode_pairing_request (pe_ser env) (pe_sha env) node_id node_psk (pt_rf_channel art) sensors timestamp)) (\<lambda>cbor.
     st_bind (st_lift (encrypt_pairing_request env wld (pt_phone_psk art) cbor)) (\<lambda>frame.
     st_bind (connect_to_node bt addr) (\<lambda>_.
       then_hang_up bt
         (do_provision_node bt env (compute_key_hint (pe_sha env) node_psk) node_psk (pt_rf_channel art) frame layout))))))))"

section \<open>The test before provisioning\<close>

text \<open>The loop ends with a connection or at the deadline; \<open>None\<close> would be a loop that does not end.\<close>

partial_function (option) reconnect_loop ::
    "'t ble_transport \<Rightarrow> bytes \<Rightarrow> nat \<Rightarrow> 't \<Rightarrow> ((pairing_error + unit) \<times> 't) option" where
  "reconnect_loop bt addr deadline t =
     (case connect_to_node bt addr t of
        (Inr _, t1) \<Rightarrow> Some (Inr (), t1)
      | (Inl _, t1) \<Rightarrow>
          (let t2 = hang_up bt t1 in
           if bt_now_ms bt t2 \<ge> deadline
           then Some (Inl (DiagnosticFailed ''node did not reconnect after test reboot''), t2)
           else reconnect_loop bt addr deadline (bt_sleep_ms bt POST_REBOOT_RECONNECT_BACKOFF_MS t2)))"

definition reconnect_to_node_after_test_reboot :: "'t ble_transport \<Rightarrow> bytes \<Rightarrow> 't \<Rightarrow> ((pairing_error + unit) \<times> 't) option" where
  "reconnect_to_node_after_test_reboot bt addr t =
     reconnect_loop bt addr (bt_now_ms bt t + POST_REBOOT_RECONNECT_TIMEOUT_MS) t"

definition parse_ble_response :: "bytes \<Rightarrow> u8 \<Rightarrow> pairing_error + bytes" where
  "parse_ble_response response expected =
     (case parse_ble_envelope response of
        None \<Rightarrow> Inl (InvalidResponse 0 ''malformed BLE envelope'')
      | Some (t, body) \<Rightarrow> if t \<noteq> expected then Inl (InvalidResponse t ''unexpected message type'') else Inr body)"

definition check_run_test_ack :: "bytes \<Rightarrow> pairing_error + unit" where
  "check_run_test_ack response =
     res_bind (parse_ble_response response BLE_RUN_TEST_ACK) (\<lambda>body.
       case decode_run_test_ack body of
         Inl _ \<Rightarrow> Inl (InvalidResponse BLE_RUN_TEST_ACK ''decode RUN_TEST_ACK'')
       | Inr st \<Rightarrow>
           if st = RUN_TEST_ACK_OK then Inr ()
           else if st = RUN_TEST_ACK_INVALID then Inl (DiagnosticFailed ''node rejected test command as invalid'')
           else if st = RUN_TEST_ACK_UNSUPPORTED then Inl (DiagnosticFailed ''node does not support the requested test type'')
           else Inl (DiagnosticFailed ''unknown RUN_TEST_ACK status''))"

definition accept_test_result :: "phone_env \<Rightarrow> u64 \<Rightarrow> bytes \<Rightarrow> pairing_error + test_result" where
  "accept_test_result env test_type response =
     res_bind (parse_ble_response response BLE_TEST_RESULT) (\<lambda>body.
       case decode_test_result (pe_der env) body of
         Inl _ \<Rightarrow> Inl (InvalidResponse BLE_TEST_RESULT ''decode TEST_RESULT'')
       | Inr r \<Rightarrow>
           if tr_status r \<noteq> TEST_RESULT_NO_RESULT \<and> tr_test_type r \<noteq> Some test_type
           then Inl (DiagnosticFailed ''unexpected test result type'') else Inr r)"

definition start_test :: "'t ble_transport \<Rightarrow> phone_env \<Rightarrow> run_test_command \<Rightarrow> ('t, pairing_error, unit) op" where
  "start_test bt env c =
     st_bind (st_lift (case encode_run_test_command (pe_ser env) (rt_test_type c) (rt_rf_channel c) (rt_payload c) of
         Inl _ \<Rightarrow> Inl (DiagnosticFailed ''RUN_TEST_COMMAND encode failed'') | Inr b \<Rightarrow> Inr b)) (\<lambda>body.
     st_bind (st_lift (ok_or (DiagnosticFailed ''RUN_TEST_COMMAND envelope too large'')
         (encode_ble_envelope BLE_RUN_TEST_COMMAND body))) (\<lambda>message.
     st_bind (bt_write bt NODE_SERVICE_UUID NODE_COMMAND_UUID message) (\<lambda>_.
     st_bind (bt_read_indication bt NODE_SERVICE_UUID NODE_COMMAND_UUID RUN_TEST_ACK_TIMEOUT_MS) (\<lambda>response.
       st_lift (check_run_test_ack response)))))"

definition fetch_result :: "'t ble_transport \<Rightarrow> phone_env \<Rightarrow> u64 \<Rightarrow> ('t, pairing_error, test_result) op" where
  "fetch_result bt env test_type =
     st_bind (st_lift (ok_or (DiagnosticFailed ''READ_TEST_RESULT envelope too large'')
         (encode_ble_envelope BLE_READ_TEST_RESULT encode_read_test_result))) (\<lambda>message.
     st_bind (bt_write bt NODE_SERVICE_UUID NODE_COMMAND_UUID message) (\<lambda>_.
     st_bind (bt_read_indication bt NODE_SERVICE_UUID NODE_COMMAND_UUID TEST_RESULT_TIMEOUT_MS) (\<lambda>response.
       st_lift (accept_test_result env test_type response))))"

definition run_pre_provisioning_test_with_artifacts ::
    "'t ble_transport \<Rightarrow> phone_env \<Rightarrow> pairing_artifacts \<Rightarrow> bytes \<Rightarrow> run_test_command \<Rightarrow> 't
       \<Rightarrow> ((pairing_error + test_result) \<times> 't) option" where
  "run_pre_provisioning_test_with_artifacts bt env art addr c t =
     (if rt_test_type c = TEST_TYPE_DIAG_FRAME \<and> rt_rf_channel c \<noteq> Some (pt_rf_channel art)
      then Some (Inl (DiagnosticFailed ''DIAG_FRAME test must use Phase 1 RF channel''), t)
      else
        case connect_to_node bt addr t of
          (Inl e, t1) \<Rightarrow> Some (Inl e, t1)
        | (Inr _, t1) \<Rightarrow>
            (case start_test bt env c t1 of
               (Inl e, t2) \<Rightarrow> Some (Inl e, hang_up bt t2)
             | (Inr _, t2) \<Rightarrow>
                 map_option (\<lambda>(r, t3).
                     case r of
                       Inl e \<Rightarrow> (Inl e, hang_up bt t3)
                     | Inr _ \<Rightarrow> then_hang_up bt (fetch_result bt env (rt_test_type c)) t3)
                   (reconnect_to_node_after_test_reboot bt addr (hang_up bt t2))))"

definition diagnose :: "phone_env \<Rightarrow> pairing_artifacts \<Rightarrow> u64 \<Rightarrow> test_result \<Rightarrow> pairing_error + diagnostic_result" where
  "diagnose env art request_nonce r =
     (if tr_status r = TEST_RESULT_OK then
        (if tr_test_type r \<noteq> Some TEST_TYPE_DIAG_FRAME then Inl (DiagnosticFailed ''unexpected test result type'')
         else
           res_bind (ok_or (DiagnosticFailed ''missing raw DIAG_REPLY frame'') (tr_reply_frame r)) (\<lambda>reply.
           res_bind (decrypt_diag_reply env reply (pt_phone_psk art) request_nonce) (\<lambda>rssi.
             Inr \<lparr>dg_gateway_rssi_dbm = rssi, dg_signal_quality = assess_signal_quality rssi,
                  dg_node_reply_rssi_dbm = tr_reply_rssi_dbm r, dg_attempt_count = tr_attempt_count r,
                  dg_elapsed_ms = tr_elapsed_ms r\<rparr>)))
      else if tr_status r = TEST_RESULT_TIMEOUT then Inl (DiagnosticFailed ''diagnostic timed out'')
      else if tr_status r = TEST_RESULT_NO_RESULT then Inl (DiagnosticFailed ''node reported no retained test result'')
      else if tr_status r = TEST_RESULT_EXECUTION_ERROR then Inl (DiagnosticFailed ''node failed to execute the staged diagnostic command'')
      else Inl (DiagnosticFailed ''unknown TEST_RESULT status''))"

definition check_rssi_with_artifacts ::
    "'t ble_transport \<Rightarrow> phone_env \<Rightarrow> phone_world \<Rightarrow> pairing_artifacts \<Rightarrow> bytes \<Rightarrow> 't
       \<Rightarrow> ((pairing_error + diagnostic_result) \<times> 't) option" where
  "check_rssi_with_artifacts bt env wld art addr t =
     (case build_diag_request_frame env wld (pt_phone_psk art) of
        Inl e \<Rightarrow> Some (Inl e, t)
      | Inr (frame, request_nonce) \<Rightarrow>
          map_option (\<lambda>(r, t'). (res_bind r (diagnose env art request_nonce), t'))
            (run_pre_provisioning_test_with_artifacts bt env art addr
               \<lparr>rt_test_type = TEST_TYPE_DIAG_FRAME, rt_rf_channel = Some (pt_rf_channel art), rt_payload = frame\<rparr> t))"

text \<open>With the artifacts of phase 1 from the store.\<close>

definition with_stored_artifacts ::
    "pairing_error + pairing_artifacts option \<Rightarrow> (pairing_artifacts \<Rightarrow> 't \<Rightarrow> ((pairing_error + 'a) \<times> 't) option) \<Rightarrow> 't
       \<Rightarrow> ((pairing_error + 'a) \<times> 't) option" where
  "with_stored_artifacts loaded k t =
     (case res_bind loaded (ok_or (DiagnosticFailed ''complete Phase 1 gateway pairing first to obtain a phone PSK'')) of
        Inl e \<Rightarrow> Some (Inl e, t)
      | Inr art \<Rightarrow> k art t)"

definition run_pre_provisioning_test ::
    "'t ble_transport \<Rightarrow> phone_env \<Rightarrow> pairing_error + pairing_artifacts option \<Rightarrow> bytes \<Rightarrow> run_test_command \<Rightarrow> 't
       \<Rightarrow> ((pairing_error + test_result) \<times> 't) option" where
  "run_pre_provisioning_test bt env loaded addr c =
     with_stored_artifacts loaded (\<lambda>art. run_pre_provisioning_test_with_artifacts bt env art addr c)"

definition check_rssi ::
    "'t ble_transport \<Rightarrow> phone_env \<Rightarrow> phone_world \<Rightarrow> pairing_error + pairing_artifacts option \<Rightarrow> bytes \<Rightarrow> 't
       \<Rightarrow> ((pairing_error + diagnostic_result) \<times> 't) option" where
  "check_rssi bt env wld loaded addr =
     with_stored_artifacts loaded (\<lambda>art. check_rssi_with_artifacts bt env wld art addr)"

end
