(* ===== verification/Gateway_Pairing.thy ===== *)
theory Gateway_Pairing
  imports Ble_Envelope Gateway_Engine
begin

text \<open>
  The gateway's side of the phone pairing (\<open>sonde-gateway/src/ble_pairing.rs\<close>): the registration window, the
  pairing controller and the handlers of the Bluetooth messages the modem relays. The clock is an
  argument, in nanoseconds; \<open>store\<close> is the operation of the storage backend that adds a phone, \<open>sign\<close> the
  Ed25519 signature of the gateway's identity. Tasks of the runtime (timeout token, event forwarding)
  are not modelled; a pending passkey request is the fact that there is one.
\<close>

definition BLE_MSG_REQUEST_GW_INFO :: u8 where "BLE_MSG_REQUEST_GW_INFO = 0x01"
definition BLE_MSG_REGISTER_PHONE :: u8 where "BLE_MSG_REGISTER_PHONE = 0x02"
definition BLE_MSG_GW_INFO_RESPONSE :: u8 where "BLE_MSG_GW_INFO_RESPONSE = 0x81"
definition BLE_MSG_PHONE_REGISTERED :: u8 where "BLE_MSG_PHONE_REGISTERED = 0x82"
definition BLE_MSG_ERROR :: u8 where "BLE_MSG_ERROR = 0xFF"
definition ERROR_WINDOW_CLOSED :: u8 where "ERROR_WINDOW_CLOSED = 0x02"
definition ERROR_GENERIC :: u8 where "ERROR_GENERIC = 0x01"

section \<open>The registration window\<close>

record registration_window =
  rw_open :: bool
  rw_deadline :: "nat option"

definition window_new :: registration_window where
  "window_new = \<lparr>rw_open = False, rw_deadline = None\<rparr>"

text \<open>An \<open>Instant\<close> holds 63 bits of seconds.\<close>

definition instant_add_secs :: "nat \<Rightarrow> u32 \<Rightarrow> nat option" where
  "instant_add_secs now secs =
     (let t = now + unat secs * 10 ^ 9 in if t < 2 ^ 63 * 10 ^ 9 then Some t else None)"

definition window_open :: "nat \<Rightarrow> u32 \<Rightarrow> registration_window \<Rightarrow> registration_window" where
  "window_open now duration_s w = w\<lparr>rw_open := True, rw_deadline := instant_add_secs now duration_s\<rparr>"

definition window_close :: "registration_window \<Rightarrow> registration_window" where
  "window_close w = w\<lparr>rw_open := False, rw_deadline := None\<rparr>"

definition window_is_open :: "nat \<Rightarrow> registration_window \<Rightarrow> bool \<times> registration_window" where
  "window_is_open now w =
     (if rw_open w then
        (case rw_deadline w of
           Some deadline \<Rightarrow> if now \<ge> deadline then (False, w\<lparr>rw_open := False, rw_deadline := None\<rparr>) else (True, w)
         | None \<Rightarrow> (True, w))
      else (False, w))"

section \<open>The controller\<close>

datatype pairing_origin = AdminOrigin | ButtonOrigin

datatype ble_pairing_event =
    PhoneConnected bytes u16
  | PhoneDisconnected bytes
  | PasskeyRequest u32
  | PhoneRegistered string u16

record pairing_session_state =
  ps_window :: registration_window
  ps_origin :: "pairing_origin option"
  ps_successful_registration :: bool

record ble_pairing_controller =
  bc_session :: pairing_session_state
  bc_passkey_pending :: bool
  bc_events :: "ble_pairing_event list"

definition controller_new :: ble_pairing_controller where
  "controller_new =
     \<lparr>bc_session = \<lparr>ps_window = window_new, ps_origin = None, ps_successful_registration = False\<rparr>,
      bc_passkey_pending = False, bc_events = []\<rparr>"

definition is_window_open :: "nat \<Rightarrow> ble_pairing_controller \<Rightarrow> bool \<times> ble_pairing_controller" where
  "is_window_open now c =
     (case window_is_open now (ps_window (bc_session c)) of
        (b, w) \<Rightarrow> (b, c\<lparr>bc_session := (bc_session c)\<lparr>ps_window := w\<rparr>\<rparr>))"

definition open_window :: "nat \<Rightarrow> u32 \<Rightarrow> pairing_origin \<Rightarrow> ble_pairing_controller \<Rightarrow> bool \<times> ble_pairing_controller" where
  "open_window now duration_s origin c =
     (case is_window_open now c of
        (True, c1) \<Rightarrow> (False, c1)
      | (False, c1) \<Rightarrow>
          (True, c1\<lparr>bc_session := \<lparr>ps_window = window_open now duration_s (ps_window (bc_session c1)),
                                   ps_origin = Some origin, ps_successful_registration = False\<rparr>\<rparr>))"

definition close_window :: "ble_pairing_controller \<Rightarrow> ble_pairing_controller" where
  "close_window c =
     c\<lparr>bc_session := \<lparr>ps_window = window_close (ps_window (bc_session c)), ps_origin = None, ps_successful_registration = False\<rparr>,
       bc_passkey_pending := False\<rparr>"

definition session_origin :: "nat \<Rightarrow> ble_pairing_controller \<Rightarrow> pairing_origin option \<times> ble_pairing_controller" where
  "session_origin now c =
     (case is_window_open now c of (b, c1) \<Rightarrow> (if b then ps_origin (bc_session c1) else None, c1))"

definition session_origin_raw :: "ble_pairing_controller \<Rightarrow> pairing_origin option" where
  "session_origin_raw c = ps_origin (bc_session c)"

definition mark_phone_registered :: "nat \<Rightarrow> ble_pairing_controller \<Rightarrow> ble_pairing_controller" where
  "mark_phone_registered now c =
     (case is_window_open now c of (b, c1) \<Rightarrow>
        if b then c1\<lparr>bc_session := (bc_session c1)\<lparr>ps_successful_registration := True\<rparr>\<rparr> else c1)"

definition take_successful_registration :: "ble_pairing_controller \<Rightarrow> bool \<times> ble_pairing_controller" where
  "take_successful_registration c =
     (ps_successful_registration (bc_session c), c\<lparr>bc_session := (bc_session c)\<lparr>ps_successful_registration := False\<rparr>\<rparr>)"

definition set_passkey_responder :: "ble_pairing_controller \<Rightarrow> ble_pairing_controller" where
  "set_passkey_responder c = c\<lparr>bc_passkey_pending := True\<rparr>"

text \<open>\<open>delivered\<close>: whether the receiver of the answer still waits.\<close>

definition confirm_passkey :: "bool \<Rightarrow> ble_pairing_controller \<Rightarrow> bool \<times> ble_pairing_controller" where
  "confirm_passkey delivered c =
     (if bc_passkey_pending c then (delivered, c\<lparr>bc_passkey_pending := False\<rparr>) else (False, c))"

definition broadcast_pairing_event :: "ble_pairing_event \<Rightarrow> ble_pairing_controller \<Rightarrow> ble_pairing_controller" where
  "broadcast_pairing_event e c = c\<lparr>bc_events := bc_events c @ [e]\<rparr>"

section \<open>The handlers\<close>

definition handle_request_gw_info :: "(bytes \<Rightarrow> bytes) \<Rightarrow> gateway_identity \<Rightarrow> bytes \<Rightarrow> bytes option" where
  "handle_request_gw_info sign identity body =
     (if length body \<noteq> 32 then None
      else encode_ble_envelope BLE_MSG_GW_INFO_RESPONSE
             (gi_public_key identity @ gi_gateway_id identity @ sign (body @ gi_gateway_id identity)))"

text \<open>The state the handlers work on: the storage, the loop's own window, the controller.\<close>

record 's ble_gateway =
  bg_storage :: 's
  bg_window :: registration_window
  bg_controller :: "ble_pairing_controller option"

definition check_window :: "nat \<Rightarrow> 's ble_gateway \<Rightarrow> bool \<times> 's ble_gateway" where
  "check_window now g =
     (case bg_controller g of
        Some c \<Rightarrow> (case is_window_open now c of (b, c1) \<Rightarrow> (b, g\<lparr>bg_controller := Some c1\<rparr>))
      | None \<Rightarrow> (case window_is_open now (bg_window g) of (b, w) \<Rightarrow> (b, g\<lparr>bg_window := w\<rparr>)))"

definition text_of :: "bytes \<Rightarrow> string" where "text_of b = map (\<lambda>x. char_of (unat x)) b"

definition phone_record :: "sha_fn \<Rightarrow> bytes \<Rightarrow> string \<Rightarrow> nat \<Rightarrow> phone_psk_record" where
  "phone_record sha psk label wall =
     \<lparr>ph_phone_id = 0, ph_key_hint = from_be_bytes [sha psk ! 30, sha psk ! 31], ph_psk = psk, ph_label = label,
      ph_issued_at = wall, ph_status = Active, ph_key_version = 0\<rparr>"

definition handle_register_phone ::
    "sha_fn \<Rightarrow> (phone_psk_record \<Rightarrow> ('s, storage_error, u32) op) \<Rightarrow> u8 \<Rightarrow> nat \<Rightarrow> nat \<Rightarrow> bytes \<Rightarrow> 's ble_gateway
       \<Rightarrow> bytes option \<times> 's ble_gateway" where
  "handle_register_phone sha store rf_channel now wall body g0 =
     (case check_window now g0 of (opened, g) \<Rightarrow>
        if \<not> opened then (encode_ble_envelope BLE_MSG_ERROR [ERROR_WINDOW_CLOSED], g)
        else if length body < 33 then (encode_ble_envelope BLE_MSG_ERROR [ERROR_GENERIC], g)
        else
          let phone_psk = take 32 body; label_len = unat (body ! 32) in
          if label_len > PHONE_LABEL_MAX_BYTES then (encode_ble_envelope BLE_MSG_ERROR [ERROR_GENERIC], g)
          else if length body \<noteq> 33 + label_len then (encode_ble_envelope BLE_MSG_ERROR [ERROR_GENERIC], g)
          else
            let label_bytes = take label_len (drop 33 body) in
            if \<not> utf8_valid label_bytes then (encode_ble_envelope BLE_MSG_ERROR [ERROR_GENERIC], g)
            else
              let label = text_of label_bytes;
                  psk_hash = sha phone_psk;
                  hint = from_be_bytes [psk_hash ! 30, psk_hash ! 31]
              in
              (case store (phone_record sha phone_psk label wall) (bg_storage g) of
                 (Inl _, s) \<Rightarrow> (None, g\<lparr>bg_storage := s\<rparr>)
               | (Inr _, s) \<Rightarrow>
                   (encode_ble_envelope BLE_MSG_PHONE_REGISTERED [0x00, rf_channel, psk_hash ! 30, psk_hash ! 31],
                    g\<lparr>bg_storage := s,
                      bg_controller := map_option (\<lambda>c. broadcast_pairing_event (PhoneRegistered label hint)
                        (mark_phone_registered now c)) (bg_controller g)\<rparr>)))"

definition handle_ble_recv ::
    "sha_fn \<Rightarrow> (bytes \<Rightarrow> bytes) \<Rightarrow> gateway_identity \<Rightarrow> (phone_psk_record \<Rightarrow> ('s, storage_error, u32) op) \<Rightarrow> u8 \<Rightarrow> nat \<Rightarrow> nat
       \<Rightarrow> bytes \<Rightarrow> 's ble_gateway \<Rightarrow> bytes option \<times> 's ble_gateway" where
  "handle_ble_recv sha sign identity store rf_channel now wall data g =
     (case parse_ble_envelope data of
        None \<Rightarrow> (None, g)
      | Some (t, body) \<Rightarrow>
          if t = BLE_MSG_REQUEST_GW_INFO then (handle_request_gw_info sign identity body, g)
          else if t = BLE_MSG_REGISTER_PHONE then handle_register_phone sha store rf_channel now wall body g
          else (None, g))"

end
