(* ===== verification/Phone_Correct.thy ===== *)
theory Phone_Correct
  imports Phone_Pairing Gateway_Pairing
begin

text \<open>
  The pairing tool against the other programs: its own copies of the envelope, the key hint and the
  pairing request codec agree with those of node and gateway, and what it encrypts the gateway opens.
\<close>

section \<open>Copies of a codec\<close>

lemma envelope_copies:
  "parse_envelope data = Inr r \<longleftrightarrow> parse_ble_envelope data = Some r" "build_envelope t p = encode_ble_envelope t p"
  by (auto simp: parse_envelope_def parse_ble_envelope_def build_envelope_def encode_ble_envelope_def Let_def)

lemma key_hint_copies: "compute_key_hint sha psk = key_hint_from_psk psk sha" "ph_key_hint (phone_record sha psk l w) = key_hint_from_psk psk sha"
  by (simp_all add: compute_key_hint_def key_hint_from_psk_def phone_record_def Let_def)

text \<open>Requests whose texts and numbers CBOR can carry.\<close>

definition sensor_ok :: "sensor_descriptor \<Rightarrow> bool" where
  "sensor_ok s \<longleftrightarrow> (case sd_label s of None \<Rightarrow> True | Some l \<Rightarrow> is_ascii l \<and> length l < 2 ^ 64)"

definition request_ok :: "string \<Rightarrow> bytes \<Rightarrow> u8 \<Rightarrow> sensor_descriptor list \<Rightarrow> int \<Rightarrow> bool" where
  "request_ok node_id psk ch sensors ts \<longleftrightarrow> is_ascii node_id \<and> length node_id < 2 ^ 64 \<and> length psk = 32 \<and> valid_channel ch \<and>
     list_all sensor_ok sensors \<and> length sensors < 2 ^ 64 \<and> 0 \<le> ts \<and> ts < 2 ^ 63"

text \<open>What the gateway demands beyond that.\<close>

definition gateway_accepts :: "string \<Rightarrow> sensor_descriptor list \<Rightarrow> bool" where
  "gateway_accepts node_id sensors \<longleftrightarrow> 0 < length node_id \<and> length node_id \<le> 64 \<and>
     list_all (\<lambda>s. 1 \<le> sd_sensor_type s \<and> sd_sensor_type s \<le> 4 \<and> (\<forall>l. sd_label s = Some l \<longrightarrow> length l \<le> 64)) sensors"

lemma sensor_value_wf: "sensor_ok s \<Longrightarrow> cbor_wf (sensor_value s)"
  by (auto simp: sensor_ok_def sensor_value_def simp del: cbor_wf.simps(1) split: option.splits)
    (simp_all add: cbor_wf.simps(1))

lemma neg_le_uint [simp]: "- numeral n \<le> uint w"
  by (rule order_trans [of _ 0]) simp_all

lemma cbor_wf_u16 [simp]: "cbor_wf (CborInt (uint (w :: u16)))"
  using uint_bounded [of w] by simp

lemma request_value_wf:
  assumes "request_ok node_id psk ch sensors ts"
  shows "cbor_wf (pairing_request_value sha node_id psk ch sensors ts)"
  using assms sensor_value_wf uint_bounded [of "compute_key_hint sha psk"] uint_bounded [of ch]
  by (auto simp: pairing_request_value_def request_ok_def list_all_iff)

lemma u8_of_int [simp]: "uint (w :: u8) \<le> 255" "(word_of_int (uint w) :: u8) = w"
  using uint_bounded [of w] by simp_all

lemma decode_sensor_value: "decode_sensor acc (sensor_value s) = Inr (acc @ [s])"
  by (cases s) (auto simp: decode_sensor_def sensor_value_def decode_sensor_field_def unsigned_key_def byte_field_def split: option.split)

lemma decode_sensor_values: "res_fold decode_sensor acc (map sensor_value ss) = Inr (acc @ ss)"
  by (induction ss arbitrary: acc) (simp_all add: decode_sensor_value)

lemma phone_reads_request:
  assumes "request_ok node_id psk ch sensors ts"
  shows "decode_from_map (case pairing_request_value sha node_id psk ch sensors ts of CborMap m \<Rightarrow> m | _ \<Rightarrow> []) =
    Inr \<lparr>pf_node_id = node_id, pf_node_key_hint = compute_key_hint sha psk, pf_node_psk = psk, pf_rf_channel = ch,
         pf_sensors = sensors, pf_timestamp = ts\<rparr>"
proof -
  have ch: "1 \<le> uint ch" "uint ch \<le> 13"
    using assms by (auto simp: request_ok_def valid_channel_def word_le_def)
  have "uint (compute_key_hint sha psk) \<le> 0xFFFF" using uint_bounded [of "compute_key_hint sha psk"] by simp
  with assms ch show ?thesis
    by (simp add: decode_from_map_def pairing_request_value_def decode_request_field_def unsigned_key_def decode_sensor_values request_ok_def)
qed

lemma gateway_reads_sensor:
  "sensor_item acc (sensor_value s) =
     (if 1 \<le> sd_sensor_type s \<and> sd_sensor_type s \<le> 4 \<and> (\<forall>l. sd_label s = Some l \<longrightarrow> length l \<le> 64) then Some (acc @ [s]) else None)"
  by (cases s) (auto simp: sensor_item_def sensor_value_def sensor_field_def cbor_u64_def cbor_narrow_def split: option.split)

lemma gateway_reads_sensors:
  "opt_fold sensor_item acc (map sensor_value ss) =
     (if list_all (\<lambda>s. 1 \<le> sd_sensor_type s \<and> sd_sensor_type s \<le> 4 \<and> (\<forall>l. sd_label s = Some l \<longrightarrow> length l \<le> 64)) ss
      then Some (acc @ ss) else None)"
  by (induction ss arbitrary: acc) (simp_all add: gateway_reads_sensor)

lemma gateway_reads_request:
  assumes "request_ok node_id psk ch sensors ts" and "de b = Inr (pairing_request_value sha node_id psk ch sensors ts)"
  shows "parse_pairing_request de b =
    (if gateway_accepts node_id sensors
     then Some \<lparr>pq_node_id = node_id, pq_node_key_hint = key_hint_from_psk psk sha, pq_node_psk = psk, pq_rf_channel = ch,
                pq_timestamp = of_int ts, pq_sensors = sensors\<rparr> else None)"
proof -
  have "(to_unsigned (uint (w :: u16)) :: u64 option) = Some (ucast w)" for w by (simp add: to_unsigned_ucast)
  moreover have "(to_unsigned (uint (ucast (w :: u16) :: u64)) :: u16 option) = Some w" for w
    by (simp flip: to_unsigned_uint add: uint_up_ucast is_up)
  moreover have "(to_unsigned ts :: u64 option) = Some (of_int ts)" using assms(1) by (simp add: to_unsigned_def request_ok_def)
  ultimately show ?thesis
    using assms
    by (auto simp: parse_pairing_request_def pairing_request_value_def pairing_field_def cbor_u64_def cbor_narrow_def
        gateway_reads_sensors key_hint_copies gateway_accepts_def request_ok_def valid_channel_def)
qed

text \<open>C26. The two decoders of a pairing request, that of the pairing tool and that of the gateway, agree
  on everything the tool encodes: the tool reads back what it wrote, and the gateway reads the same node
  name, key, key hint, channel, sensors and time, exactly if the name has 1 to 64 bytes, the sensor types
  are 1 to 4 and the labels have at most 64 bytes; other requests it drops.\<close>

theorem pairing_request_agreement:
  assumes "cbor_faithful ser de" and "request_ok node_id psk ch sensors ts"
  shows "\<exists>b. encode_pairing_request ser sha node_id psk ch sensors ts = Inr b \<and>
    decode_pairing_request de b = Inr \<lparr>pf_node_id = node_id, pf_node_key_hint = key_hint_from_psk psk sha, pf_node_psk = psk,
      pf_rf_channel = ch, pf_sensors = sensors, pf_timestamp = ts\<rparr> \<and>
    parse_pairing_request de b =
      (if gateway_accepts node_id sensors
       then Some \<lparr>pq_node_id = node_id, pq_node_key_hint = key_hint_from_psk psk sha, pq_node_psk = psk, pq_rf_channel = ch,
                  pq_timestamp = of_int ts, pq_sensors = sensors\<rparr> else None)"
proof -
  let ?v = "pairing_request_value sha node_id psk ch sensors ts"
  obtain b where b: "ser ?v = Inr b" "de b = Inr ?v" using cbor_faithfulE [OF assms(1) request_value_wf [OF assms(2)]] by blast
  have "decode_pairing_request de b = decode_from_map (case ?v of CborMap m \<Rightarrow> m | _ \<Rightarrow> [])"
    using b(2) by (simp add: decode_pairing_request_def pairing_request_value_def)
  with b phone_reads_request [OF assms(2)] gateway_reads_request [OF assms(2), of de b sha, OF b(2)] show ?thesis
    by (simp add: encode_pairing_request_def key_hint_copies)
qed

theorem pairing_request_agreement_witness:
  "\<exists>b. encode_pairing_request rfc_ser (\<lambda>_. replicate 32 1) ''n1'' (replicate 32 7) 6
      [\<lparr>sd_sensor_type = 5, sd_sensor_id = 72, sd_label = None\<rparr>] 5 = Inr b \<and> parse_pairing_request rfc_de b = None"
proof -
  have "request_ok ''n1'' (replicate 32 7) 6 [\<lparr>sd_sensor_type = 5, sd_sensor_id = 72, sd_label = None\<rparr>] 5"
    by (simp add: request_ok_def is_ascii_def valid_channel_def sensor_ok_def)
  from pairing_request_agreement [OF rfc_faithful this, of "\<lambda>_. replicate 32 1"] show ?thesis by (auto simp: gateway_accepts_def)
qed

section \<open>A name the phone accepts and the gateway does not\<close>

definition visible :: "char \<Rightarrow> bool" where
  "visible c \<longleftrightarrow> 33 \<le> (of_char c :: nat) \<and> (of_char c :: nat) < 128"

lemma white_space_invisible: "w \<in> set white_space \<Longrightarrow> w \<noteq> [] \<and> \<not> visible (hd w) \<and> \<not> visible (last w)"
  by (auto simp: white_space_def visible_def)

lemma strip_none:
  assumes "\<And>w. w \<in> set ws \<Longrightarrow> w = [] \<or> take (length w) s \<noteq> w" shows "strip ws s = s"
proof -
  have "find (\<lambda>w. w \<noteq> [] \<and> take (length w) s = w) ws = None" using assms by (auto simp: find_None_iff)
  then show ?thesis by (simp add: strip.simps)
qed

lemma strip_visible:
  assumes "\<And>w. w \<in> set ws \<Longrightarrow> w \<noteq> [] \<and> \<not> visible (hd w)" and "visible (hd s)" and "s \<noteq> []" shows "strip ws s = s"
proof (rule strip_none)
  fix w assume "w \<in> set ws"
  then obtain c v where w: "w = c # v" "\<not> visible c" using assms(1) by (metis list.exhaust_sel)
  then show "w = [] \<or> take (length w) s \<noteq> w" using assms(2,3) by (cases s) auto
qed

lemma strip_front: "s \<noteq> [] \<Longrightarrow> visible (hd s) \<Longrightarrow> strip white_space s = s"
  using white_space_invisible by (intro strip_visible) blast+

lemma strip_back: "s \<noteq> [] \<Longrightarrow> visible (last s) \<Longrightarrow> strip (map rev white_space) (rev s) = rev s"
  using white_space_invisible by (intro strip_visible) (auto simp: hd_rev)

lemma trim_visible: "s \<noteq> [] \<Longrightarrow> visible (hd s) \<Longrightarrow> visible (last s) \<Longrightarrow> trim s = s"
  by (simp add: trim_def strip_front strip_back)

definition padded_id :: string where "padded_id = replicate 64 CHR ''a'' @ '' ''"

lemma padded_id_valid: "validate_node_id padded_id = Inr ()"
proof -
  have front: "strip white_space padded_id = padded_id" by (rule strip_front) (simp_all add: padded_id_def visible_def)
  have "find (\<lambda>w. w \<noteq> [] \<and> take (length w) (rev padded_id) = w) (map rev white_space) = Some '' ''" by code_simp
  then have "strip (map rev white_space) (rev padded_id) = strip (map rev white_space) (rev (replicate 64 CHR ''a''))"
    by (subst strip.simps) (simp add: padded_id_def)
  also have "\<dots> = rev (replicate 64 CHR ''a'')" by (rule strip_back) (simp_all add: visible_def)
  finally show ?thesis by (simp add: validate_node_id_def trim_def front)
qed

text \<open>C40. The pairing tool checks a node name without the white space around it but sends the name as it was
  entered: 64 characters and a blank pass the check, the tool encodes the request and the gateway drops it.\<close>

theorem padded_name_lost:
  assumes "cbor_faithful ser de" and "length psk = 32" and "valid_channel ch" and "0 \<le> ts" and "ts < 2 ^ 63"
  shows "validate_node_id padded_id = Inr () \<and>
    (\<exists>b. encode_pairing_request ser sha padded_id psk ch [] ts = Inr b \<and> parse_pairing_request de b = None)"
proof -
  have ok: "request_ok padded_id psk ch [] ts" using assms by (simp add: request_ok_def padded_id_def is_ascii_def list_all_iff)
  obtain b where b: "ser (pairing_request_value sha padded_id psk ch [] ts) = Inr b" "de b = Inr (pairing_request_value sha padded_id psk ch [] ts)"
    using cbor_faithfulE [OF assms(1) request_value_wf [OF ok]] by blast
  moreover have "\<not> gateway_accepts padded_id []" by (simp add: gateway_accepts_def padded_id_def)
  ultimately show ?thesis
    using gateway_reads_request [OF ok, of de b sha, OF b(2)] padded_id_valid by (simp add: encode_pairing_request_def)
qed

theorem padded_name_lost_witness:
  "\<exists>b. encode_pairing_request rfc_ser (\<lambda>_. replicate 32 1) padded_id (replicate 32 7) 6 [] 5 = Inr b \<and> parse_pairing_request rfc_de b = None"
  using padded_name_lost [OF rfc_faithful, of "replicate 32 7" 6 5 "\<lambda>_. replicate 32 1"] by (simp add: valid_channel_def)

end
