(* ===== verification/Node_Pairing.thy ===== *)
theory Node_Pairing
  imports Board_Layout Wake_Cycle
begin

text \<open>
  The pairing mode of the node (\<open>sonde-node/src/ble_pairing.rs\<close>, the message loop of \<open>esp_ble_pairing.rs\<close>,
  the boot decision of \<open>bin/node.rs\<close>) and the operations of \<open>esp_storage.rs\<close> it uses: the board layout with
  the legacy pin keys, and the retained test result. The Bluetooth stack is left out: a write arrives on an authenticated link as a byte
  string, the answer is the indication. Log output is not modelled.
\<close>

section \<open>The board layout in NVS\<close>

definition read_pin :: "string \<Rightarrow> node_storage \<Rightarrow> u8 option" where
  "read_pin key s =
     Option.bind (nvs_u32 (st_nvs s) key) (\<lambda>v. Option.bind (to_unsigned (uint v)) (\<lambda>p. if p \<le> MAX_GPIO then Some p else None))"

definition legacy_i2c0_pins :: "node_storage \<Rightarrow> u8 \<times> u8" where
  "legacy_i2c0_pins s =
     (let sda = (case read_pin ''i2c0_sda'' s of Some p \<Rightarrow> p | None \<Rightarrow> 0);
          scl = (case read_pin ''i2c0_scl'' s of Some p \<Rightarrow> p | None \<Rightarrow> 1)
      in if sda = scl then (0, 1) else (sda, scl))"

definition has_legacy_i2c0_pins :: "node_storage \<Rightarrow> bool" where
  "has_legacy_i2c0_pins s \<longleftrightarrow> nvs_u32 (st_nvs s) ''i2c0_sda'' \<noteq> None \<or> nvs_u32 (st_nvs s) ''i2c0_scl'' \<noteq> None"

definition legacy_i2c0_pin_state :: "node_storage \<Rightarrow> u8 option \<times> u8 option" where
  "legacy_i2c0_pin_state s = (read_pin ''i2c0_sda'' s, read_pin ''i2c0_scl'' s)"

definition restore_legacy_i2c0_pins :: "nvs_driver \<Rightarrow> u8 option \<Rightarrow> u8 option \<Rightarrow> unit storage_op" where
  "restore_legacy_i2c0_pins drv sda scl =
     st_seq
       (case sda of
          Some pin \<Rightarrow> set_u32 drv ''i2c0_sda'' (ucast pin) ''legacy i2c0_sda write failed''
        | None \<Rightarrow> remove_key drv ''i2c0_sda'' ''legacy i2c0_sda erase failed'')
       (case scl of
          Some pin \<Rightarrow> set_u32 drv ''i2c0_scl'' (ucast pin) ''legacy i2c0_scl write failed''
        | None \<Rightarrow> remove_key drv ''i2c0_scl'' ''legacy i2c0_scl erase failed'')"

definition read_blob_exact :: "nvs_driver \<Rightarrow> string \<Rightarrow> node_storage \<Rightarrow> node_error + bytes option" where
  "read_blob_exact drv key s =
     (case drv_blob_fault drv key (st_nvs s) of
        Some err \<Rightarrow> Inl (StorageError err)
      | None \<Rightarrow> Inr (nvs_blob (st_nvs s) key))"

definition restore_board_layout_blob :: "nvs_driver \<Rightarrow> bytes option \<Rightarrow> unit storage_op" where
  "restore_board_layout_blob drv blob =
     (case blob of
        Some b \<Rightarrow> set_blob drv ''board_layout'' b ''board_layout rollback failed''
      | None \<Rightarrow> remove_key drv ''board_layout'' ''board_layout erase failed'')"

definition rollback_board_layout_update :: "nvs_driver \<Rightarrow> bytes option \<Rightarrow> u8 option \<Rightarrow> u8 option \<Rightarrow> unit storage_op" where
  "rollback_board_layout_update drv blob sda scl =
     st_seq (restore_board_layout_blob drv blob) (restore_legacy_i2c0_pins drv sda scl)"

definition read_board_layout :: "nvs_driver \<Rightarrow> cbor_de_rest \<Rightarrow> node_storage \<Rightarrow> board_layout option" where
  "read_board_layout drv der s =
     (case (case read_blob_exact drv ''board_layout'' s of
              Inr (Some blob) \<Rightarrow> (case decode_board_layout_cbor der blob of Inr layout \<Rightarrow> Some layout | Inl _ \<Rightarrow> None)
            | Inr None \<Rightarrow> None
            | Inl _ \<Rightarrow> None) of
        Some l \<Rightarrow> Some l
      | None \<Rightarrow>
          if has_legacy_i2c0_pins s then
            (case legacy_i2c0_pins s of (sda, scl) \<Rightarrow>
               Some \<lparr>i2c0_sda = Some sda, i2c0_scl = Some scl, one_wire_data = None, battery_adc = None, sensor_enable = None\<rparr>)
          else None)"

definition write_board_layout :: "nvs_driver \<Rightarrow> cbor_ser \<Rightarrow> board_layout \<Rightarrow> unit storage_op" where
  "write_board_layout drv ser layout s =
     (case encode_board_layout_cbor ser layout of
        Inl _ \<Rightarrow> (Inl (StorageError ''board_layout encode failed''), s)
      | Inr encoded \<Rightarrow>
          (case read_blob_exact drv ''board_layout'' s of
             Inl err \<Rightarrow> (Inl err, s)
           | Inr previous \<Rightarrow>
          case legacy_i2c0_pin_state s of (sda, scl) \<Rightarrow>
          (case set_blob drv ''board_layout'' encoded ''board_layout write failed'' s of
             (Inl err, s1) \<Rightarrow> (Inl err, snd (rollback_board_layout_update drv previous sda scl s1))
           | (Inr _, s1) \<Rightarrow>
               (case restore_legacy_i2c0_pins drv (i2c0_sda layout) (i2c0_scl layout) s1 of
                  (Inr _, s2) \<Rightarrow> (Inr (), s2)
                | (Inl err, s2) \<Rightarrow>
                    (case rollback_board_layout_update drv previous sda scl s2 of
                       (Inl _, s3) \<Rightarrow> (Inl (StorageError ''board_layout rollback failed''), s3)
                     | (Inr _, s3) \<Rightarrow> (Inl err, s3))))))"

section \<open>The retained test result\<close>

definition RTC_TEST_RESULT_MAGIC :: u32 where "RTC_TEST_RESULT_MAGIC = 0x54524553"

definition retained_test_result_is_valid :: "rtc_test_result \<Rightarrow> bool" where
  "retained_test_result_is_valid r \<longleftrightarrow> rtr_magic r = RTC_TEST_RESULT_MAGIC \<and> rtr_valid r = 1"

definition read_test_result :: "node_storage \<Rightarrow> test_result option" where
  "read_test_result s =
     (let r = LATEST_TEST_RESULT s; len = unat (rtr_reply_frame_len r) in
      if \<not> retained_test_result_is_valid r then None
      else if len > MAX_FRAME_SIZE then None
      else
        let decoded =
          \<lparr>tr_status = rtr_status r,
           tr_test_type = (if rtr_test_type_present r \<noteq> 0 then Some (rtr_test_type r) else None),
           tr_reply_frame = (if len = 0 then None else Some (take len (rtr_reply_frame r))),
           tr_reply_rssi_dbm = (if rtr_reply_rssi_present r \<noteq> 0 then Some (rtr_reply_rssi_dbm r) else None),
           tr_attempt_count = rtr_attempt_count r, tr_elapsed_ms = rtr_elapsed_ms r\<rparr>
        in case validate_test_result decoded of Inl _ \<Rightarrow> None | Inr _ \<Rightarrow> Some decoded)"

definition write_test_result :: "test_result \<Rightarrow> unit storage_op" where
  "write_test_result r s =
     (case validate_test_result r of
        Inl _ \<Rightarrow> (Inl (StorageError ''invalid retained test result''), s)
      | Inr _ \<Rightarrow>
          let frame = (case tr_reply_frame r of Some f \<Rightarrow> f | None \<Rightarrow> []) in
          if length frame > MAX_FRAME_SIZE then (Inl (StorageError ''retained test reply frame too large''), s)
          else (Inr (), s\<lparr>LATEST_TEST_RESULT :=
            \<lparr>rtr_magic = RTC_TEST_RESULT_MAGIC, rtr_valid = 1, rtr_status = tr_status r,
             rtr_test_type_present = (if tr_test_type r = None then 0 else 1),
             rtr_test_type = (case tr_test_type r of Some t \<Rightarrow> t | None \<Rightarrow> 0),
             rtr_reply_frame_len = of_nat (length frame),
             rtr_reply_frame = frame @ replicate (MAX_FRAME_SIZE - length frame) 0,
             rtr_reply_rssi_present = (if tr_reply_rssi_dbm r = None then 0 else 1),
             rtr_reply_rssi_dbm = (case tr_reply_rssi_dbm r of Some i \<Rightarrow> i | None \<Rightarrow> 0),
             rtr_attempt_count = tr_attempt_count r, rtr_elapsed_ms = tr_elapsed_ms r\<rparr>\<rparr>))"

section \<open>NODE_PROVISION\<close>

definition NODE_ACK_SUCCESS :: u8 where "NODE_ACK_SUCCESS = 0x00"
definition NODE_ACK_ALREADY_PAIRED :: u8 where "NODE_ACK_ALREADY_PAIRED = 0x01"
definition NODE_ACK_STORAGE_ERROR :: u8 where "NODE_ACK_STORAGE_ERROR = 0x02"
definition BLE_MIN_ATT_MTU :: u16 where "BLE_MIN_ATT_MTU = 247"
definition NODE_PROVISION_MIN_LEN :: nat where "NODE_PROVISION_MIN_LEN = 37"

definition is_mtu_acceptable :: "u16 \<Rightarrow> bool" where
  "is_mtu_acceptable mtu \<longleftrightarrow> mtu \<ge> BLE_MIN_ATT_MTU"

datatype provisioned_board_layout = Absent | Provided board_layout

record node_provision =
  np_key_hint :: u16
  np_psk :: bytes
  np_rf_channel :: u8
  np_encrypted_payload :: bytes
  np_board_layout :: provisioned_board_layout

definition parse_node_provision :: "cbor_de_rest \<Rightarrow> bytes \<Rightarrow> string + node_provision" where
  "parse_node_provision der body =
     (if length body < NODE_PROVISION_MIN_LEN then Inl ''body too short''
      else
        let key_hint = from_be_bytes [body ! 0, body ! 1];
            psk = take 32 (drop 2 body);
            rf_channel = body ! 34
        in
        if \<not> valid_channel rf_channel then Inl ''rf_channel out of range (must be 1-13)''
        else
          let payload_len = unat (from_be_bytes [body ! 35, body ! 36] :: u16);
              expected_len = NODE_PROVISION_MIN_LEN + payload_len
          in
          if payload_len > PEER_PAYLOAD_MAX_LEN then Inl ''encrypted_payload too large''
          else if length body < expected_len then Inl ''encrypted_payload truncated''
          else
            res_bind
              (if length body > expected_len then
                 (case decode_board_layout_cbor der (drop expected_len body) of
                    Inl _ \<Rightarrow> Inl ''board_layout CBOR decode failed''
                  | Inr l \<Rightarrow> Inr (Provided l))
               else Inr Absent)
              (\<lambda>layout. Inr \<lparr>np_key_hint = key_hint, np_psk = psk, np_rf_channel = rf_channel,
                 np_encrypted_payload = take payload_len (drop 37 body), np_board_layout = layout\<rparr>))"

text \<open>\<open>expect\<close>: a body of one byte always fits.\<close>

definition encode_node_ack :: "u8 \<Rightarrow> bytes" where
  "encode_node_ack status = the (encode_ble_envelope BLE_NODE_ACK [status])"

text \<open>\<open>let _ = ..\<close>: the outcome is ignored, the effect is kept.\<close>

definition ignoring :: "'a storage_op \<Rightarrow> node_storage \<Rightarrow> node_storage" where
  "ignoring m s = snd (m s)"

definition undo_credentials :: "nvs_driver \<Rightarrow> node_storage \<Rightarrow> node_storage" where
  "undo_credentials drv s = ignoring (erase_peer_payload drv) (ignoring (erase_key drv) s)"

definition undo_channel :: "nvs_driver \<Rightarrow> u8 option \<Rightarrow> node_storage \<Rightarrow> node_storage" where
  "undo_channel drv previous s =
     (case previous of Some ch \<Rightarrow> ignoring (write_channel drv ch) s | None \<Rightarrow> ignoring (erase_channel drv) s)"

definition store_layout ::
    "nvs_driver \<Rightarrow> cbor_ser \<Rightarrow> cbor_de_rest \<Rightarrow> u8 option \<Rightarrow> provisioned_board_layout \<Rightarrow> node_storage \<Rightarrow> u8 \<times> node_storage" where
  "store_layout drv ser der previous_channel layout s =
     (case layout of
        Provided l \<Rightarrow>
          let previous_layout = read_board_layout drv der s in
          (case write_board_layout drv ser l s of
             (Inr _, s1) \<Rightarrow> (NODE_ACK_SUCCESS, s1)
           | (Inl _, s1) \<Rightarrow>
               let s2 = (case previous_layout of Some pl \<Rightarrow> ignoring (write_board_layout drv ser pl) s1 | None \<Rightarrow> s1) in
               (NODE_ACK_STORAGE_ERROR, undo_credentials drv (undo_channel drv previous_channel s2)))
      | Absent \<Rightarrow>
          if read_board_layout drv der s \<noteq> None then (NODE_ACK_SUCCESS, s)
          else
            (case write_board_layout drv ser LEGACY_COMPAT s of
               (Inr _, s1) \<Rightarrow> (NODE_ACK_SUCCESS, s1)
             | (Inl _, s1) \<Rightarrow> (NODE_ACK_STORAGE_ERROR, undo_credentials drv (undo_channel drv previous_channel s1))))"

definition handle_node_provision ::
    "nvs_driver \<Rightarrow> cbor_ser \<Rightarrow> cbor_de_rest \<Rightarrow> node_provision \<Rightarrow> node_storage \<Rightarrow> u8 \<times> node_storage" where
  "handle_node_provision drv ser der p s0 =
     (case write_key drv (np_key_hint p) (np_psk p) (ignoring (erase_key drv) s0) of
        (Inl _, s1) \<Rightarrow> (NODE_ACK_STORAGE_ERROR, s1)
      | (Inr _, s1) \<Rightarrow>
          (case write_peer_payload drv (np_encrypted_payload p) s1 of
             (Inl _, s2) \<Rightarrow> (NODE_ACK_STORAGE_ERROR, ignoring (erase_key drv) s2)
           | (Inr _, s2) \<Rightarrow>
               (case write_reg_complete drv False s2 of
                  (Inl _, s3) \<Rightarrow> (NODE_ACK_STORAGE_ERROR, undo_credentials drv s3)
                | (Inr _, s3) \<Rightarrow>
                    (case write_channel drv (np_rf_channel p) s3 of
                       (Inl _, s4) \<Rightarrow> (NODE_ACK_STORAGE_ERROR, undo_credentials drv s4)
                     | (Inr _, s4) \<Rightarrow> store_layout drv ser der (read_channel s3) (np_board_layout p) s4))))"

section \<open>The pre-provisioning test\<close>

definition TEST_MAX_RETRIES :: nat where "TEST_MAX_RETRIES = 3"
definition TEST_RETRY_DELAY_MS :: nat where "TEST_RETRY_DELAY_MS = 200"
definition TEST_LISTEN_TIMEOUT_MS :: nat where "TEST_LISTEN_TIMEOUT_MS = 2000"

definition no_result_result :: test_result where
  "no_result_result = \<lparr>tr_status = TEST_RESULT_NO_RESULT, tr_test_type = None, tr_reply_frame = None,
     tr_reply_rssi_dbm = None, tr_attempt_count = 0, tr_elapsed_ms = 0\<rparr>"

definition execution_error_result :: "u64 \<Rightarrow> u64 \<Rightarrow> u64 \<Rightarrow> test_result" where
  "execution_error_result t attempts elapsed =
     \<lparr>tr_status = TEST_RESULT_EXECUTION_ERROR, tr_test_type = Some t, tr_reply_frame = None,
      tr_reply_rssi_dbm = None, tr_attempt_count = attempts, tr_elapsed_ms = elapsed\<rparr>"

definition success_result :: "u64 \<Rightarrow> bytes \<Rightarrow> u8 option \<Rightarrow> u64 \<Rightarrow> u64 \<Rightarrow> test_result" where
  "success_result t frame rssi attempts elapsed =
     \<lparr>tr_status = TEST_RESULT_OK, tr_test_type = Some t, tr_reply_frame = Some frame,
      tr_reply_rssi_dbm = rssi, tr_attempt_count = attempts, tr_elapsed_ms = elapsed\<rparr>"

definition sanitize_test_result :: "test_result \<Rightarrow> test_result" where
  "sanitize_test_result r =
     (case validate_test_result r of
        Inr _ \<Rightarrow> r
      | Inl _ \<Rightarrow>
          (case tr_test_type r of
             Some t \<Rightarrow> execution_error_result t (tr_attempt_count r) (tr_elapsed_ms r)
           | None \<Rightarrow> no_result_result))"

text \<open>\<open>unwrap_or_default\<close> and \<open>expect\<close>: \<open>None\<close> is the panic of the latter.\<close>

definition node_run_test_ack :: "u8 \<Rightarrow> bytes" where
  "node_run_test_ack status =
     (let body = (case encode_run_test_ack status of Inr b \<Rightarrow> b | Inl _ \<Rightarrow> []) in
      case encode_ble_envelope BLE_RUN_TEST_ACK body of Some m \<Rightarrow> m | None \<Rightarrow> [])"

definition encode_test_result_response :: "cbor_ser \<Rightarrow> test_result \<Rightarrow> bytes option" where
  "encode_test_result_response ser r =
     (case encode_test_result ser (sanitize_test_result r) of
        Inl _ \<Rightarrow> None
      | Inr body \<Rightarrow> encode_ble_envelope BLE_TEST_RESULT body)"

definition handle_run_test_command :: "cbor_de_rest \<Rightarrow> bytes \<Rightarrow> node_storage \<Rightarrow> (u8 \<times> staged_test_command option) \<times> node_storage" where
  "handle_run_test_command der body s =
     (case decode_run_test_command der body of
        Inl _ \<Rightarrow> ((RUN_TEST_ACK_INVALID, None), s)
      | Inr command \<Rightarrow>
          if rt_test_type command \<noteq> TEST_TYPE_DIAG_FRAME then ((RUN_TEST_ACK_UNSUPPORTED, None), s)
          else
            let staged = \<lparr>stc_test_type = rt_test_type command, stc_rf_channel = rt_rf_channel command,
                          stc_payload = rt_payload command\<rparr> in
            (case write_staged_test_command staged s of
               (Inl _, s1) \<Rightarrow> ((RUN_TEST_ACK_INVALID, None), s1)
             | (Inr _, s1) \<Rightarrow> ((RUN_TEST_ACK_OK, Some staged), s1)))"

definition handle_read_test_result :: "bytes \<Rightarrow> node_storage \<Rightarrow> string + test_result" where
  "handle_read_test_result body s =
     (case decode_read_test_result body of
        Inl _ \<Rightarrow> Inl ''READ_TEST_RESULT body must be empty''
      | Inr _ \<Rightarrow> Inr (case read_test_result s of Some r \<Rightarrow> sanitize_test_result r | None \<Rightarrow> no_result_result))"

text \<open>The radio of the test: a reception carries the signal strength the driver reports.\<close>

datatype diag_rx = DiagFrame nat bytes "u8 option" | DiagTimeout | DiagError

record diag_radio =
  dr_rx :: "diag_rx list"
  dr_tx_fails :: "bool list"
  dr_sent :: "bytes list"
  dr_now :: nat

definition diag_send :: "bytes \<Rightarrow> diag_radio \<Rightarrow> bool \<times> diag_radio" where
  "diag_send frame w =
     (case dr_tx_fails w of
        True # fs \<Rightarrow> (False, w\<lparr>dr_tx_fails := fs\<rparr>)
      | _ \<Rightarrow> (True, w\<lparr>dr_tx_fails := tl (dr_tx_fails w), dr_sent := dr_sent w @ [frame]\<rparr>))"

definition diag_recv :: "nat \<Rightarrow> diag_radio \<Rightarrow> (bytes \<times> u8 option) option \<times> diag_radio" where
  "diag_recv timeout w =
     (case dr_rx w of
        DiagFrame dt f rssi # es \<Rightarrow> (Some (f, rssi), w\<lparr>dr_rx := es, dr_now := dr_now w + min dt timeout\<rparr>)
      | DiagError # es \<Rightarrow> (None, w\<lparr>dr_rx := es\<rparr>)
      | _ \<Rightarrow> (None, w\<lparr>dr_rx := tl (dr_rx w), dr_now := dr_now w + timeout\<rparr>))"

definition is_diag_reply :: "bytes \<Rightarrow> bool" where
  "is_diag_reply f \<longleftrightarrow> length f \<ge> MIN_FRAME_SIZE \<and> f ! OFFSET_MSG_TYPE = MSG_DIAG_REPLY"

function diag_listen :: "nat \<Rightarrow> diag_radio \<Rightarrow> (bytes \<times> u8 option) option \<times> diag_radio" where
  "diag_listen remaining_ms w =
     (if remaining_ms = 0 then (None, w)
      else
        case diag_recv remaining_ms w of
          (Some (f, rssi), w') \<Rightarrow>
            if is_diag_reply f then (Some (f, rssi), w')
            else diag_listen (remaining_ms - max ((dr_now w' - dr_now w) mod 2 ^ 32) 1) w'
        | (None, w') \<Rightarrow> (None, w'))"
  by pat_completeness auto
termination by (relation "measure fst") (auto simp: max_def)

declare diag_listen.simps [simp del]

text \<open>The attempts that are left; the result is the reply with the number of attempts made, or whether
  any frame was sent.\<close>

primrec diag_attempts :: "bytes \<Rightarrow> nat \<Rightarrow> nat \<Rightarrow> bool \<Rightarrow> diag_radio \<Rightarrow> (bool + bytes \<times> u8 option \<times> nat) \<times> diag_radio" where
  "diag_attempts payload attempt 0 send_succeeded w = (Inl send_succeeded, w)"
| "diag_attempts payload attempt (Suc left) send_succeeded w =
     (case diag_send payload (if attempt > 0 then w\<lparr>dr_now := dr_now w + TEST_RETRY_DELAY_MS\<rparr> else w) of
        (False, w1) \<Rightarrow> diag_attempts payload (attempt + 1) left send_succeeded w1
      | (True, w1) \<Rightarrow>
          (case diag_listen TEST_LISTEN_TIMEOUT_MS w1 of
             (Some (f, rssi), w2) \<Rightarrow> (Inr (f, rssi, attempt + 1), w2)
           | (None, w2) \<Rightarrow> diag_attempts payload (attempt + 1) left True w2))"

definition execute_diag_frame_test :: "staged_test_command \<Rightarrow> diag_radio \<Rightarrow> test_result \<times> diag_radio" where
  "execute_diag_frame_test c w =
     (case stc_rf_channel c of
        None \<Rightarrow> (execution_error_result (stc_test_type c) 0 0, w)
      | Some rf_channel \<Rightarrow>
          if \<not> valid_channel rf_channel \<or> stc_payload c = [] \<or> length (stc_payload c) > MAX_FRAME_SIZE
          then (execution_error_result (stc_test_type c) 0 0, w)
          else
            case diag_attempts (stc_payload c) 0 (TEST_MAX_RETRIES + 1) False w of
              (outcome, w') \<Rightarrow>
                let elapsed = of_nat (dr_now w' - dr_now w); attempts = of_nat (TEST_MAX_RETRIES + 1) in
                (case outcome of
                   Inr (f, rssi, n) \<Rightarrow> success_result (stc_test_type c) f rssi (of_nat n) elapsed
                 | Inl False \<Rightarrow> execution_error_result (stc_test_type c) attempts elapsed
                 | Inl True \<Rightarrow>
                     \<lparr>tr_status = TEST_RESULT_TIMEOUT, tr_test_type = Some (stc_test_type c), tr_reply_frame = None,
                      tr_reply_rssi_dbm = None, tr_attempt_count = attempts, tr_elapsed_ms = elapsed\<rparr>, w'))"

definition execute_staged_test_command ::
    "diag_radio \<Rightarrow> node_storage \<Rightarrow> (node_error + test_result option) \<times> diag_radio \<times> node_storage" where
  "execute_staged_test_command w s =
     (case read_staged_test_command s of
        None \<Rightarrow> (Inr None, w, s)
      | Some command \<Rightarrow>
          (case (if stc_test_type command = TEST_TYPE_DIAG_FRAME then execute_diag_frame_test command w
                 else (execution_error_result (stc_test_type command) 0 0, w)) of
             (result, w') \<Rightarrow>
               (case write_test_result result s of
                  (Inl err, s1) \<Rightarrow> (Inl err, w', ignoring clear_staged_test_command s1)
                | (Inr _, s1) \<Rightarrow>
                    (case clear_staged_test_command s1 of
                       (Inl err, s2) \<Rightarrow> (Inl err, w', s2)
                     | (Inr _, s2) \<Rightarrow> (Inr (Some result), w', s2)))))"

section \<open>The message loop\<close>

text \<open>One write on the authenticated link: the indication to send, whether to disconnect after it, the
  storage. \<open>AckPanic\<close> is the panic of \<open>expect\<close>.\<close>

datatype gatt_answer = NoAnswer | Indicate bytes bool | AckPanic

definition gatt_write :: "nvs_driver \<Rightarrow> cbor_ser \<Rightarrow> cbor_de_rest \<Rightarrow> bytes \<Rightarrow> node_storage \<Rightarrow> gatt_answer \<times> node_storage" where
  "gatt_write drv ser der data s =
     (case parse_ble_envelope data of
        None \<Rightarrow> (NoAnswer, s)
      | Some (t, body) \<Rightarrow>
          if t = BLE_NODE_PROVISION then
            (case parse_node_provision der body of
               Inl _ \<Rightarrow> (NoAnswer, s)
             | Inr p \<Rightarrow> (case handle_node_provision drv ser der p s of (status, s') \<Rightarrow> (Indicate (encode_node_ack status) False, s')))
          else if t = BLE_RUN_TEST_COMMAND then
            (if read_key s \<noteq> None then (Indicate (node_run_test_ack RUN_TEST_ACK_INVALID) False, s)
             else
               (case handle_run_test_command der body s of ((status, staged), s') \<Rightarrow>
                  (Indicate (node_run_test_ack status) (staged \<noteq> None \<and> status = RUN_TEST_ACK_OK), s')))
          else if t = BLE_READ_TEST_RESULT then
            (case handle_read_test_result body s of
               Inl _ \<Rightarrow> (NoAnswer, s)
             | Inr r \<Rightarrow>
                 (case encode_test_result_response ser r of
                    None \<Rightarrow> (AckPanic, s)
                  | Some m \<Rightarrow> (Indicate m False, s)))
          else (NoAnswer, s))"

section \<open>What the node does at boot\<close>

datatype boot_mode = BootPreProvisioningTest | BootBlePairing | BootWakeCycle

datatype boot_reset_reason = DeepSleepWake | SoftwareReset | PowerOn | Brownout | OtherReset

datatype boot_action = ActPreProvisioningTest | ActBlePairing | ActWakeCycle | BrownoutRecoverySleep u32

definition select_boot_mode :: "bool \<Rightarrow> bool \<Rightarrow> boot_mode" where
  "select_boot_mode has_staged_test has_psk =
     (if has_staged_test \<and> \<not> has_psk then BootPreProvisioningTest
      else if \<not> has_psk then BootBlePairing
      else BootWakeCycle)"

definition should_enter_brownout_recovery :: "boot_reset_reason \<Rightarrow> boot_mode \<Rightarrow> bool" where
  "should_enter_brownout_recovery reason mode \<longleftrightarrow> reason = Brownout \<and> mode = BootWakeCycle"

definition brownout_recovery_sleep_s :: "u32 \<Rightarrow> u32" where
  "brownout_recovery_sleep_s base = effective_sleep_s (sleep_new base Scheduled)"

definition brownout_recovery_sleep_s_from_storage :: "node_storage \<Rightarrow> u32 \<times> node_storage" where
  "brownout_recovery_sleep_s_from_storage s =
     (let s' = snd (take_early_wake_flag s) in (brownout_recovery_sleep_s (fst (read_schedule s')), s'))"

definition select_boot_action :: "boot_reset_reason \<Rightarrow> bool \<Rightarrow> bool \<Rightarrow> node_storage \<Rightarrow> boot_action \<times> node_storage" where
  "select_boot_action reason has_staged_test has_psk s =
     (let mode = select_boot_mode has_staged_test has_psk in
      if should_enter_brownout_recovery reason mode
      then (case brownout_recovery_sleep_s_from_storage s of (n, s') \<Rightarrow> (BrownoutRecoverySleep n, s'))
      else (case mode of
              BootPreProvisioningTest \<Rightarrow> ActPreProvisioningTest
            | BootBlePairing \<Rightarrow> ActBlePairing
            | BootWakeCycle \<Rightarrow> ActWakeCycle, s))"

text \<open>From the sampled button to the action. \<open>Inl\<close>: the factory reset failed, the node sleeps sixty seconds.\<close>

definition boot :: "nvs_driver \<Rightarrow> map_storage \<Rightarrow> bool \<Rightarrow> boot_reset_reason \<Rightarrow> node_storage \<times> rtc_memory
    \<Rightarrow> (u32 + boot_action) \<times> node_storage \<times> rtc_memory" where
  "boot drv st button_held reason sr =
     (let had_psk = read_key (fst sr) \<noteq> None in
      case (if button_held \<and> had_psk then factory_reset drv st sr else (Inr (), sr)) of
        (Inl _, s, r) \<Rightarrow> (Inl 60, s, r)
      | (Inr _, s, r) \<Rightarrow>
          let has_psk = (had_psk \<and> \<not> button_held);
              has_staged = read_staged_test_command s \<noteq> None;
              (s1, staged) = (if has_staged \<and> has_psk
                then (case clear_staged_test_command s of (Inr _, s') \<Rightarrow> (s', False) | (Inl _, s') \<Rightarrow> (s', True))
                else (s, has_staged))
          in case select_boot_action reason staged has_psk s1 of (act, s2) \<Rightarrow> (Inr act, s2, r))"

end
