(* ===== verification/Node_Pairing_Correct.thy ===== *)
theory Node_Pairing_Correct
  imports Node_Pairing
begin

text \<open>
  What provisioning, the pre-provisioning test and the boot decision of the node guarantee.
\<close>

section \<open>Effects on NVS\<close>

text \<open>A driver that stores the blob whose write it reports as successful. Nothing is said of a write or a
  removal that it reports as failed beyond what \<open>nvs_driver_ok\<close> says: a removal may fail, and a value
  may have been written although the write was reported as failed.\<close>

definition nvs_stores :: "nvs_driver \<Rightarrow> bool" where
  "nvs_stores drv \<longleftrightarrow> nvs_driver_ok drv \<and>
     (\<forall>k b n n'. drv_set_blob drv k b n = (True, n') \<longrightarrow> nvs_blob n' k = Some b)"

lemma perfect_driver_stores: "nvs_stores perfect_driver"
  using perfect_driver_ok by (auto simp: nvs_stores_def perfect_driver_def)

lemma nvs_stores_ok: "nvs_stores drv \<Longrightarrow> nvs_driver_ok drv"
  by (simp add: nvs_stores_def)

lemma set_blob_stored: "nvs_stores drv \<Longrightarrow> set_blob drv k b err s = (Inr u, s') \<Longrightarrow> blob_at k s' = Some b"
  unfolding nvs_stores_def set_blob_def by (auto split: prod.splits if_splits)

lemma set_u32_stored: "nvs_stores drv \<Longrightarrow> set_u32 drv k v err s = (Inr u, s') \<Longrightarrow> u32_at k s' = Some v"
  by (rule set_u32_Inr [OF nvs_stores_ok]) auto

lemma erase_key_unpairs:
  assumes "nvs_driver_ok drv" and "erase_key drv s = (Inr (), s')" shows "u32_at ''magic'' s' = None"
proof -
  obtain t where "remove_key drv ''magic'' ''erase magic failed'' t = (Inr (), s')"
    using assms(2) by (auto simp: erase_key_def st_seq_def st_bind_Inr)
  from remove_key_effect [OF assms(1) this] show ?thesis by simp
qed

lemma no_magic_no_key: "u32_at ''magic'' s = None \<Longrightarrow> read_key s = None"
  by (simp add: read_key_def)

lemma touches_ignoring:
  "touches K m \<Longrightarrow> j \<notin> K \<Longrightarrow> u32_at j (ignoring m s) = u32_at j s \<and> blob_at j (ignoring m s) = blob_at j s"
  by (simp add: touches_def ignoring_def)

text \<open>The two ways a key can be left on the node: its removal failed, or the write of the magic value was
  reported as failed and stored nevertheless.\<close>

definition key_not_removed :: "nvs_driver \<Rightarrow> node_storage \<Rightarrow> bool" where
  "key_not_removed drv s' \<longleftrightarrow> (\<exists>t e u. erase_key drv t = (Inl e, u) \<and> read_key s' = read_key u)"

definition magic_stored_late :: "nvs_driver \<Rightarrow> node_storage \<Rightarrow> bool" where
  "magic_stored_late drv s' \<longleftrightarrow> (\<exists>n. drv_set_u32 drv ''magic'' MAGIC_VALUE n = (False, st_nvs s') \<and> nvs_u32 n ''magic'' = None \<and>
     u32_at ''magic'' s' = Some MAGIC_VALUE)"

lemma erase_key_cases:
  assumes "nvs_driver_ok drv"
  shows "read_key (ignoring (erase_key drv) s) = None \<or> key_not_removed drv (ignoring (erase_key drv) s)"
proof -
  obtain r u where u: "erase_key drv s = (r, u)" by (meson surj_pair)
  show ?thesis
  proof (cases r)
    case (Inl e)
    with u show ?thesis unfolding key_not_removed_def ignoring_def by (metis snd_conv)
  next
    case (Inr z)
    with u no_magic_no_key [OF erase_key_unpairs [OF assms, of s u]] show ?thesis by (simp add: ignoring_def)
  qed
qed

lemma undo_credentials_cases:
  assumes "nvs_driver_ok drv"
  shows "read_key (undo_credentials drv s) = None \<or> key_not_removed drv (undo_credentials drv s)"
proof -
  have "touches {''peer_payload''} (erase_peer_payload drv)" by (rule touches_storage_ops(4) [OF assms])
  note keep = touches_ignoring [OF this, where s = "ignoring (erase_key drv) s"]
  have "read_key (undo_credentials drv s) = read_key (ignoring (erase_key drv) s)"
    unfolding undo_credentials_def by (rule read_key_cong) (simp_all add: keep)
  with erase_key_cases [OF assms, of s] show ?thesis by (simp add: key_not_removed_def)
qed

lemma write_key_stores:
  assumes "nvs_stores drv" and "length psk = 32" and "write_key drv kh psk s = (Inr u, s')"
  shows "read_key s' = Some (kh, psk)"
proof -
  note ok = nvs_stores_ok [OF assms(1)]
  obtain s1 s2 where 1: "set_blob drv ''psk'' psk ''psk write failed'' s = (Inr (), s1)"
      and 2: "set_u32 drv ''key_hint'' (ucast kh) ''key_hint write failed'' s1 = (Inr (), s2)"
      and 3: "set_u32 drv ''magic'' MAGIC_VALUE ''magic write failed'' s2 = (Inr (), s')"
    using assms(3) by (auto simp: write_key_def st_seq_def st_bind_Inr split: if_splits)
  have "unat (ucast kh :: u32) \<le> 0xFFFF" using unsigned_less [of kh, where 'a = nat] by (simp add: unsigned_ucast_eq take_bit_nat_def)
  moreover have "(ucast (ucast kh :: u32) :: u16) = kh" by (simp add: ucast_up_ucast_id is_up)
  ultimately show ?thesis
    using set_blob_stored [OF assms(1) 1] set_u32_stored [OF assms(1) 2] set_u32_stored [OF assms(1) 3]
      set_u32_effect [OF ok 2] set_u32_effect [OF ok 3] assms(2)
    by (simp add: read_key_def)
qed

lemma set_u32_late:
  assumes "nvs_driver_ok drv" and "u32_at k s = None" and "set_u32 drv k v err s = (Inl e, s')" and "u32_at k s' \<noteq> None"
  shows "drv_set_u32 drv k v (st_nvs s) = (False, st_nvs s') \<and> u32_at k s' = Some v"
proof -
  obtain b n where n: "drv_set_u32 drv k v (st_nvs s) = (b, n)" by (meson surj_pair)
  with assms(3) have "\<not> b" "st_nvs s' = n" by (auto simp: set_u32_def split: if_splits)
  with n set_u32_effect [OF assms(1,3)] assms(2,4) show ?thesis by auto
qed

lemma write_key_failed:
  assumes "nvs_driver_ok drv" and "u32_at ''magic'' s = None" and "write_key drv kh psk s = (Inl e, s')"
  shows "read_key s' = None \<or> magic_stored_late drv s'"
proof (rule disjCI)
  assume "\<not> magic_stored_late drv s'"
  then have late: "u32_at ''magic'' s' = None" if "u32_at ''magic'' t = None"
      "set_u32 drv ''magic'' MAGIC_VALUE ''magic write failed'' t = (Inl e, s')" for t
    using set_u32_late [OF assms(1) that] that(1) unfolding magic_stored_late_def by blast
  have keep: "u32_at ''magic'' t = u32_at ''magic'' u" if "set_u32 drv ''key_hint'' x err u = (r, t)" for x err u r t
    using set_u32_effect [OF assms(1) that] by simp
  have blob: "u32_at ''magic'' t = u32_at ''magic'' u" if "set_blob drv k x err u = (r, t)" for k x err u r t
    using set_blob_effect [OF assms(1) that] by simp
  have "read_key s = None" by (rule no_magic_no_key [OF assms(2)])
  with assms(3) consider "set_blob drv ''psk'' psk ''psk write failed'' s = (Inl e, s')"
    | s1 where "set_blob drv ''psk'' psk ''psk write failed'' s = (Inr (), s1)"
        "set_u32 drv ''key_hint'' (ucast kh) ''key_hint write failed'' s1 = (Inl e, s')"
    | s1 s2 where "set_blob drv ''psk'' psk ''psk write failed'' s = (Inr (), s1)"
        "set_u32 drv ''key_hint'' (ucast kh) ''key_hint write failed'' s1 = (Inr (), s2)"
        "set_u32 drv ''magic'' MAGIC_VALUE ''magic write failed'' s2 = (Inl e, s')"
    by (auto simp: write_key_def st_seq_def st_bind_Inl)
  then have "u32_at ''magic'' s' = None"
  proof cases
    case 1
    with blob assms(2) show ?thesis by simp
  next
    case 2
    with blob keep assms(2) show ?thesis by simp
  next
    case 3
    show ?thesis by (rule late [OF _ 3(3)]) (simp add: keep [OF 3(2)] blob [OF 3(1)] assms(2))
  qed
  then show "read_key s' = None" by (rule no_magic_no_key)
qed

lemma touches_bind: "touches K m \<Longrightarrow> touches K k \<Longrightarrow> touches K (st_seq m k)"
  using touches_seq [of K m K k] by simp

lemma touches_provisioning:
  assumes "nvs_driver_ok drv"
  shows "touches {''psk'', ''key_hint'', ''magic''} (write_key drv kh psk)" and "touches {''peer_payload''} (write_peer_payload drv b)"
    and "touches {''channel''} (erase_channel drv)"
    and "touches {''board_layout'', ''i2c0_sda'', ''i2c0_scl''} (rollback_board_layout_update drv bl sda scl)"
    and "touches {''i2c0_sda'', ''i2c0_scl''} (restore_legacy_i2c0_pins drv sda scl)"
proof -
  note prim = touches_primitive [OF assms]
  have t: "touches {''psk'', ''key_hint'', ''magic''} (set_blob drv ''psk'' psk err)"
    "touches {''psk'', ''key_hint'', ''magic''} (set_u32 drv ''key_hint'' v err)"
    "touches {''psk'', ''key_hint'', ''magic''} (set_u32 drv ''magic'' v err)" for v err
    by (rule touches_mono [OF prim(2)], simp) (rule touches_mono [OF prim(1)], simp)+
  then have "touches {''psk'', ''key_hint'', ''magic''} (st_seq (set_blob drv ''psk'' psk ''psk write failed'')
      (st_seq (set_u32 drv ''key_hint'' (ucast kh) ''key_hint write failed'') (set_u32 drv ''magic'' MAGIC_VALUE ''magic write failed'')))"
    by (intro touches_bind)
  then show "touches {''psk'', ''key_hint'', ''magic''} (write_key drv kh psk)"
    unfolding touches_def write_key_def by simp
  show pins: "touches {''i2c0_sda'', ''i2c0_scl''} (restore_legacy_i2c0_pins drv sda scl)" for sda scl
    unfolding restore_legacy_i2c0_pins_def
    by (intro touches_bind) (auto split: option.split intro: touches_mono [OF prim(1)] touches_mono [OF prim(3)])
  have "touches {''board_layout''} (restore_board_layout_blob drv bl)"
    by (simp add: restore_board_layout_blob_def prim split: option.split)
  with pins show "touches {''board_layout'', ''i2c0_sda'', ''i2c0_scl''} (rollback_board_layout_update drv bl sda scl)"
    unfolding rollback_board_layout_update_def by (intro touches_bind) (auto intro: touches_mono)
qed (simp_all add: write_peer_payload_def erase_channel_def touches_fail touches_primitive [OF assms])

lemma touches_write_board_layout:
  assumes "nvs_driver_ok drv"
  shows "touches {''board_layout'', ''i2c0_sda'', ''i2c0_scl''} (write_board_layout drv ser l)"
proof -
  note prim = touches_primitive [OF assms] and prov = touches_provisioning(4,5) [OF assms]
  let ?K = "{''board_layout'', ''i2c0_sda'', ''i2c0_scl''}"
  have "u32_at j (snd (write_board_layout drv ser l s)) = u32_at j s \<and> blob_at j (snd (write_board_layout drv ser l s)) = blob_at j s"
    if "j \<notin> ?K" for j s
  proof (cases "\<exists>b previous. encode_board_layout_cbor ser l = Inr b \<and> read_blob_exact drv ''board_layout'' s = Inr previous")
    case True
    then obtain b previous where Inr: "encode_board_layout_cbor ser l = Inr b" "read_blob_exact drv ''board_layout'' s = Inr previous" by blast
    obtain sda scl where p: "legacy_i2c0_pin_state s = (sda, scl)" by (cases "legacy_i2c0_pin_state s")
    obtain r1 s1 where 1: "set_blob drv ''board_layout'' b ''board_layout write failed'' s = (r1, s1)" by (meson surj_pair)
    obtain r2 s2 where 2: "restore_legacy_i2c0_pins drv (i2c0_sda l) (i2c0_scl l) s1 = (r2, s2)" by (meson surj_pair)
    note e1 = touchesD [OF prim(2) 1, of j] and e2 = touchesD [OF prov(2) 2, of j]
    show ?thesis
    proof (cases r1)
      case Inl
      obtain r3 s3 where 3: "rollback_board_layout_update drv previous sda scl s1 = (r3, s3)" by (meson surj_pair)
      from touchesD [OF prov(1) this, of j] that Inl Inr p 1 3 e1 show ?thesis by (simp add: write_board_layout_def Let_def)
    next
      case r1: Inr
      obtain r3 s3 where 3: "rollback_board_layout_update drv previous sda scl s2 = (r3, s3)" by (meson surj_pair)
      from touchesD [OF prov(1) this, of j] that r1 Inr p 1 2 3 e1 e2 show ?thesis
        by (simp add: write_board_layout_def Let_def split: sum.split)
    qed
  qed (auto simp: write_board_layout_def split: sum.split)
  then show ?thesis by (simp add: touches_def)
qed

text \<open>The layout that NVS holds: what a read that does not fail returns.\<close>

definition stored_layout :: "cbor_de_rest \<Rightarrow> node_storage \<Rightarrow> board_layout option" where
  "stored_layout der s = read_board_layout perfect_driver der s"

lemma read_blob_exact_perfect: "read_blob_exact perfect_driver key s = Inr (nvs_blob (st_nvs s) key)"
  by (simp add: read_blob_exact_def perfect_driver_def)

lemma read_blob_exact_Inr: "read_blob_exact drv key s = Inr b \<Longrightarrow> b = nvs_blob (st_nvs s) key"
  by (simp add: read_blob_exact_def split: option.splits)

lemma read_layout_stored:
  "read_blob_exact drv ''board_layout'' s = Inr b \<Longrightarrow> read_board_layout drv der s = stored_layout der s"
  using read_blob_exact_Inr [of drv "''board_layout''" s b] unfolding stored_layout_def read_board_layout_def
  by (simp add: read_blob_exact_perfect)

lemma read_layout_present: "read_board_layout drv der s \<noteq> None \<Longrightarrow> stored_layout der s \<noteq> None"
  using read_layout_stored [of drv s _ der]
  by (cases "read_blob_exact drv ''board_layout'' s")
     (auto simp: stored_layout_def read_board_layout_def split: option.splits if_splits prod.splits)

lemma write_board_layout_reads:
  "write_board_layout drv ser l s = (Inr u, s') \<Longrightarrow> read_board_layout drv der s = stored_layout der s"
  by (auto simp: write_board_layout_def intro: read_layout_stored split: sum.splits)

lemma write_board_layout_stores:
  assumes "nvs_stores drv" and "cbor_rest_faithful ser der" and "layout_validate l = Inr ()"
    and "write_board_layout drv ser l s = (Inr u, s')"
  shows "stored_layout der s' = Some l"
proof -
  obtain b where b: "encode_board_layout_cbor ser l = Inr b" "decode_board_layout_cbor der b = Inr l"
    using layout_roundtrip [OF assms(2,3)] by blast
  then obtain s1 where 1: "set_blob drv ''board_layout'' b ''board_layout write failed'' s = (Inr (), s1)"
      and 2: "restore_legacy_i2c0_pins drv (i2c0_sda l) (i2c0_scl l) s1 = (Inr (), s')"
    using assms(4) by (auto simp: write_board_layout_def Let_def split: sum.splits prod.splits)
  have "blob_at ''board_layout'' s' = Some b"
    using set_blob_stored [OF assms(1) 1] touchesD [OF touches_provisioning(5) [OF nvs_stores_ok [OF assms(1)]] 2] by simp
  with b show ?thesis by (simp add: stored_layout_def read_board_layout_def read_blob_exact_perfect)
qed

text \<open>The layout is read from its own keys.\<close>

lemma stored_layout_cong:
  assumes "touches K m" and "K \<inter> {''board_layout'', ''i2c0_sda'', ''i2c0_scl''} = {}" and "m s = (r, s')"
  shows "stored_layout der s' = stored_layout der s"
proof -
  have "u32_at k s' = u32_at k s \<and> blob_at k s' = blob_at k s" if "k \<in> {''board_layout'', ''i2c0_sda'', ''i2c0_scl''}" for k
    using touchesD [OF assms(1,3)] that assms(2) by blast
  then have "blob_at ''board_layout'' s' = blob_at ''board_layout'' s"
      "has_legacy_i2c0_pins s' = has_legacy_i2c0_pins s" "legacy_i2c0_pins s' = legacy_i2c0_pins s"
    by (simp_all add: has_legacy_i2c0_pins_def legacy_i2c0_pins_def read_pin_def)
  then show ?thesis by (simp only: stored_layout_def read_board_layout_def read_blob_exact_perfect)
qed

section \<open>Provisioning\<close>

definition provisioned :: "cbor_de_rest \<Rightarrow> node_provision \<Rightarrow> board_layout option \<Rightarrow> node_storage \<Rightarrow> bool" where
  "provisioned der p previous_layout s \<longleftrightarrow>
     read_key s = Some (np_key_hint p, np_psk p) \<and> read_peer_payload s = Some (np_encrypted_payload p) \<and>
     \<not> read_reg_complete s \<and> read_channel s = Some (np_rf_channel p) \<and>
     stored_layout der s =
       Some (case np_board_layout p of
               Provided l \<Rightarrow> l
             | Absent \<Rightarrow> (case previous_layout of Some l \<Rightarrow> l | None \<Rightarrow> LEGACY_COMPAT))"

lemma parsed_provision:
  assumes "parse_node_provision der body = Inr p"
  shows "length (np_psk p) = 32 \<and> valid_channel (np_rf_channel p) \<and> length (np_encrypted_payload p) \<le> PEER_PAYLOAD_MAX_LEN \<and>
    (\<forall>l. np_board_layout p = Provided l \<longrightarrow> layout_validate l = Inr ())"
  using assms decoded_layout_valid
  by (auto simp: parse_node_provision_def Let_def NODE_PROVISION_MIN_LEN_def res_bind_Inr_iff split: if_splits sum.splits)

lemma store_layout_cases:
  assumes "nvs_stores drv" and "cbor_rest_faithful ser der" and "\<forall>l. pl = Provided l \<longrightarrow> layout_validate l = Inr ()"
    and "store_layout drv ser der prev pl s = (status, s')"
  shows "status = NODE_ACK_SUCCESS \<and>
      (\<forall>j. j \<notin> {''board_layout'', ''i2c0_sda'', ''i2c0_scl''} \<longrightarrow> u32_at j s' = u32_at j s \<and> blob_at j s' = blob_at j s) \<and>
      stored_layout der s' = Some (case pl of Provided l \<Rightarrow> l | Absent \<Rightarrow> (case stored_layout der s of Some l \<Rightarrow> l | None \<Rightarrow> LEGACY_COMPAT)) \<or>
    status = NODE_ACK_STORAGE_ERROR \<and> (read_key s' = None \<or> key_not_removed drv s')"
proof -
  note w = touchesD [OF touches_write_board_layout [OF nvs_stores_ok [OF assms(1)]]]
    and st = write_board_layout_stores [OF assms(1,2)] and undo = undo_credentials_cases [OF nvs_stores_ok [OF assms(1)]]
  show ?thesis
  proof (cases pl)
    case Absent
    show ?thesis
    proof (cases "read_board_layout drv der s")
      case None
      obtain r t where t: "write_board_layout drv ser LEGACY_COMPAT s = (r, t)" by (meson surj_pair)
      show ?thesis
      proof (cases r)
        case (Inl e)
        with None Absent assms(4) t undo [of "undo_channel drv prev t"] show ?thesis by (auto simp: store_layout_def)
      next
        case (Inr u)
        from write_board_layout_reads [of drv ser LEGACY_COMPAT s u t der] t Inr None have "stored_layout der s = None" by simp
        with None Absent assms(4) t Inr w [OF t] st [OF presets_valid(1), of s u t] show ?thesis by (auto simp: store_layout_def)
      qed
    next
      case (Some l)
      then show ?thesis
        using Absent assms(4) read_layout_present [of drv der s] by (auto simp: store_layout_def)
    qed
  next
    case (Provided l)
    obtain r t where t: "write_board_layout drv ser l s = (r, t)" by (meson surj_pair)
    show ?thesis
    proof (cases r)
      case (Inl e)
      then obtain v where "status = NODE_ACK_STORAGE_ERROR" "s' = undo_credentials drv v"
        using Provided assms(4) t by (auto simp: store_layout_def Let_def)
      with undo [of v] show ?thesis by simp
    next
      case (Inr u)
      then show ?thesis using Provided assms(3,4) t w [OF t] st [of l s u t] by (auto simp: store_layout_def Let_def)
    qed
  qed
qed

text \<open>The keys provisioning may write; every other key is as before, whatever fails.\<close>

definition provision_keys :: "string set" where
  "provision_keys = {''psk'', ''key_hint'', ''magic'', ''peer_payload'', ''reg_complete'', ''channel'', ''board_layout'',
     ''i2c0_sda'', ''i2c0_scl''}"

definition same_outside :: "string set \<Rightarrow> node_storage \<Rightarrow> node_storage \<Rightarrow> bool" where
  "same_outside K s s' \<longleftrightarrow> (\<forall>j. j \<notin> K \<longrightarrow> u32_at j s' = u32_at j s \<and> blob_at j s' = blob_at j s)"

lemma same_outside_refl: "same_outside K s s"
  by (simp add: same_outside_def)

lemma same_outside_op: "touches L m \<Longrightarrow> L \<subseteq> K \<Longrightarrow> m t = (r, t') \<Longrightarrow> same_outside K s t \<Longrightarrow> same_outside K s t'"
  unfolding same_outside_def using touchesD [of L m t r t'] by (metis subsetD)

lemma same_outside_ignoring: "touches L m \<Longrightarrow> L \<subseteq> K \<Longrightarrow> same_outside K s t \<Longrightarrow> same_outside K s (ignoring m t)"
  unfolding ignoring_def by (rule same_outside_op [OF _ _ surjective_pairing])

lemma handle_node_provision_frame:
  assumes "nvs_driver_ok drv" and "handle_node_provision drv ser der p s = (status, s')"
  shows "same_outside provision_keys s s'"
proof -
  note t = touches_storage_ops [OF assms(1)] touches_provisioning [OF assms(1)] touches_write_board_layout [OF assms(1)]
  have keys: "{''psk'', ''key_hint'', ''magic''} \<subseteq> provision_keys" "{''peer_payload''} \<subseteq> provision_keys"
      "{''reg_complete''} \<subseteq> provision_keys" "{''channel''} \<subseteq> provision_keys"
      "{''board_layout'', ''i2c0_sda'', ''i2c0_scl''} \<subseteq> provision_keys"
    by (auto simp: provision_keys_def)
  note op = same_outside_op [OF t(12) keys(1)] same_outside_op [OF t(13) keys(2)] same_outside_op [OF t(5) keys(3)]
    same_outside_op [OF t(3) keys(4)] same_outside_op [OF t(17) keys(5)]
  note ig = same_outside_ignoring [OF t(8) keys(1)] same_outside_ignoring [OF t(4) keys(2)]
    same_outside_ignoring [OF t(3) keys(4)] same_outside_ignoring [OF t(14) keys(4)] same_outside_ignoring [OF t(17) keys(5)]
  have undo: "same_outside provision_keys s (undo_credentials drv u)" if "same_outside provision_keys s u" for u
    unfolding undo_credentials_def by (intro ig that)
  have chan: "same_outside provision_keys s (undo_channel drv prev u)" if "same_outside provision_keys s u" for prev u
    using that ig(3,4) by (auto simp: undo_channel_def split: option.split)
  have layout: "same_outside provision_keys s v"
    if "store_layout drv ser der prev pl u = (status, v)" and u: "same_outside provision_keys s u" for prev pl u v status
    using that(1) op(5) [OF _ u] undo [OF chan] ig(5) u
    by (auto simp: store_layout_def Let_def split: provisioned_board_layout.splits if_splits sum.splits prod.splits option.splits)
  have e: "same_outside provision_keys s (ignoring (erase_key drv) s)" by (intro ig same_outside_refl)
  show ?thesis
    using assms(2) op(1) [OF _ e] op(2,3,4) ig(1) undo layout
    by (fastforce simp: handle_node_provision_def split: sum.splits prod.splits)
qed

lemma channel_stored: "valid_channel ch \<Longrightarrow> (1 :: u32) \<le> ucast ch \<and> ucast ch \<le> (13 :: u32)" "(ucast (ucast (ch :: u8) :: u32) :: u8) = ch"
  by (simp add: valid_channel_def word_le_nat_alt unsigned_ucast_eq take_bit_nat_def) (simp add: ucast_up_ucast_id is_up)

text \<open>A key is left on the node after a storage error only when flash misbehaved where the code ignores
  it: the old key could not be removed and then the new one not be written, the new key could not be
  removed again, or the write that completes it was reported as failed and stored nevertheless.\<close>

definition key_left_behind :: "nvs_driver \<Rightarrow> node_provision \<Rightarrow> node_storage \<Rightarrow> node_storage \<Rightarrow> bool" where
  "key_left_behind drv p s s' \<longleftrightarrow>
     (\<exists>e u e'. erase_key drv s = (Inl e, u) \<and> write_key drv (np_key_hint p) (np_psk p) u = (Inl e', s')) \<or>
     key_not_removed drv s' \<or> magic_stored_late drv s'"

lemma handle_node_provision_cases:
  assumes atomic: "nvs_stores drv" and faithful: "cbor_rest_faithful ser der" and parsed: "parse_node_provision der body = Inr p"
    and run: "handle_node_provision drv ser der p s = (status, s')"
  shows "status = NODE_ACK_SUCCESS \<and> provisioned der p (stored_layout der s) s' \<or>
    status = NODE_ACK_STORAGE_ERROR \<and> (read_key s' = None \<or> key_left_behind drv p s s')"
proof -
  note ok = nvs_stores_ok [OF atomic] and p = parsed_provision [OF parsed]
  note t = touches_storage_ops [OF ok] touches_provisioning [OF ok]
  let ?s0 = "ignoring (erase_key drv) s"
  obtain r1 s1 where 1: "write_key drv (np_key_hint p) (np_psk p) ?s0 = (r1, s1)" by (meson surj_pair)
  obtain r2 s2 where 2: "write_peer_payload drv (np_encrypted_payload p) s1 = (r2, s2)" by (meson surj_pair)
  obtain r3 s3 where 3: "write_reg_complete drv False s2 = (r3, s3)" by (meson surj_pair)
  obtain r4 s4 where 4: "write_channel drv (np_rf_channel p) s3 = (r4, s4)" by (meson surj_pair)
  note e2 = touchesD [OF t(13) 2] and e3 = touchesD [OF t(5) 3] and e4 = touchesD [OF t(3) 4]
  consider e where "r1 = Inl e" | e where "r1 = Inr ()" "r2 = Inl e" | e where "r1 = Inr ()" "r2 = Inr ()" "r3 = Inl e"
    | e where "r1 = Inr ()" "r2 = Inr ()" "r3 = Inr ()" "r4 = Inl e" | "r1 = Inr ()" "r2 = Inr ()" "r3 = Inr ()" "r4 = Inr ()"
    by (metis old.sum.exhaust old.unit.exhaust)
  then show ?thesis
  proof cases
    case 1
    then have w: "write_key drv (np_key_hint p) (np_psk p) ?s0 = (Inl e, s')" "status = NODE_ACK_STORAGE_ERROR"
      using run \<open>write_key _ _ _ _ = _\<close> by (simp_all add: handle_node_provision_def)
    obtain r0 u where u: "erase_key drv s = (r0, u)" by (meson surj_pair)
    show ?thesis
    proof (cases r0)
      case Inl
      with w u show ?thesis unfolding key_left_behind_def by (auto simp: ignoring_def)
    next
      case (Inr z)
      then have "u32_at ''magic'' ?s0 = None" using erase_key_unpairs [OF ok] u by (simp add: ignoring_def)
      from write_key_failed [OF ok this w(1)] w(2) show ?thesis by (auto simp: key_left_behind_def)
    qed
  next
    case 2
    with run \<open>write_key _ _ _ _ = _\<close> \<open>write_peer_payload _ _ _ = _\<close> erase_key_cases [OF ok, of s2]
    show ?thesis by (auto simp: handle_node_provision_def key_left_behind_def)
  next
    case 3
    with run 1 2 \<open>write_reg_complete _ _ _ = _\<close> undo_credentials_cases [OF ok, of s3]
    show ?thesis by (auto simp: handle_node_provision_def key_left_behind_def)
  next
    case 4
    with run 1 2 3 \<open>write_channel _ _ _ = _\<close> undo_credentials_cases [OF ok, of s4]
    show ?thesis by (auto simp: handle_node_provision_def key_left_behind_def)
  next
    case 5
    with run 1 2 3 4 have lay: "store_layout drv ser der (read_channel s3) (np_board_layout p) s4 = (status, s')"
      by (simp add: handle_node_provision_def)
    have stored: "read_key s1 = Some (np_key_hint p, np_psk p)" "blob_at ''peer_payload'' s2 = Some (np_encrypted_payload p)"
        "u32_at ''reg_complete'' s3 = Some 0" "u32_at ''channel'' s4 = Some (ucast (np_rf_channel p))"
      using 1 2 3 4 5 p write_key_stores [OF atomic] set_blob_stored [OF atomic] set_u32_stored [OF atomic]
      by (auto simp: write_peer_payload_def write_reg_complete_def write_channel_def valid_channel_def not_less split: if_splits)
    have disj: "{''psk'', ''key_hint'', ''magic''} \<inter> {''board_layout'', ''i2c0_sda'', ''i2c0_scl''} = {}"
        "{''peer_payload''} \<inter> {''board_layout'', ''i2c0_sda'', ''i2c0_scl''} = {}"
        "{''reg_complete''} \<inter> {''board_layout'', ''i2c0_sda'', ''i2c0_scl''} = {}"
        "{''channel''} \<inter> {''board_layout'', ''i2c0_sda'', ''i2c0_scl''} = {}" by auto
    have "stored_layout der ?s0 = stored_layout der s"
      unfolding ignoring_def by (rule stored_layout_cong [OF t(8) disj(1) surjective_pairing])
    then have old: "stored_layout der s4 = stored_layout der s"
      by (simp add: stored_layout_cong [OF t(12) disj(1) 1] stored_layout_cong [OF t(13) disj(2) 2]
          stored_layout_cong [OF t(5) disj(3) 3] stored_layout_cong [OF t(3) disj(4) 4])
    have "\<forall>l. np_board_layout p = Provided l \<longrightarrow> layout_validate l = Inr ()" using p by blast
    from store_layout_cases [OF atomic faithful this lay] show ?thesis
    proof
      assume s': "status = NODE_ACK_SUCCESS \<and>
        (\<forall>j. j \<notin> {''board_layout'', ''i2c0_sda'', ''i2c0_scl''} \<longrightarrow> u32_at j s' = u32_at j s4 \<and> blob_at j s' = blob_at j s4) \<and>
        stored_layout der s' = Some (case np_board_layout p of Provided l \<Rightarrow> l
          | Absent \<Rightarrow> (case stored_layout der s4 of Some l \<Rightarrow> l | None \<Rightarrow> LEGACY_COMPAT))"
      have "read_key s' = read_key s1" by (rule read_key_cong) (simp_all add: s' e2 e3 e4)
      then have "provisioned der p (stored_layout der s) s'"
        using stored s' e3 e4 p old channel_stored
        by (auto simp: provisioned_def read_peer_payload_def get_blob_def read_reg_complete_def read_channel_def
            PEER_PAYLOAD_MAX_LEN_def split: provisioned_board_layout.split)
      with s' show ?thesis by simp
    qed (auto simp: key_left_behind_def)
  qed
qed

text \<open>C14. Provisioning and flash failures: whichever reads, writes and removals fail, the node answers a
  well-formed NODE_PROVISION with success only when NVS holds the key, the registration request, the
  cleared registration flag, the channel and the board layout of the message (or the previous layout,
  or the legacy preset), and otherwise with a storage error. After a storage error the node has no key,
  so that it boots into pairing mode again, unless flash failed once more where the code ignores it:
  the key could not be removed, or the write of the magic value was reported as failed and stored
  nevertheless. Programs and schedule are untouched either way.\<close>

theorem provisioning_atomic:
  assumes "nvs_stores drv" and "cbor_rest_faithful ser der"
    and "parse_ble_envelope data = Some (BLE_NODE_PROVISION, body)" and "parse_node_provision der body = Inr p"
  shows "\<exists>status s'. gatt_write drv ser der data s = (Indicate (encode_node_ack status) False, s') \<and>
    (status = NODE_ACK_SUCCESS \<and> provisioned der p (stored_layout der s) s' \<or>
     status = NODE_ACK_STORAGE_ERROR \<and> (read_key s' = None \<or> key_left_behind drv p s s')) \<and>
    (\<forall>i. read_program s' i = read_program s i) \<and> read_schedule s' = read_schedule s"
proof -
  obtain status s' where run: "handle_node_provision drv ser der p s = (status, s')" by (meson surj_pair)
  have "same_outside provision_keys s s'" by (rule handle_node_provision_frame [OF nvs_stores_ok [OF assms(1)] run])
  moreover have "prog_key i \<notin> provision_keys" "''interval'' \<notin> provision_keys" "''active_p'' \<notin> provision_keys" for i
    by (simp_all add: provision_keys_def prog_key_def)
  ultimately have "read_program s' i = read_program s i" "read_schedule s' = read_schedule s" for i
    unfolding same_outside_def by (intro read_program_cong read_schedule_cong; blast)+
  with handle_node_provision_cases [OF assms(1,2,4) run] assms(3,4) run show ?thesis
    by (intro exI [of _ status] exI [of _ s']) (simp add: gatt_write_def)
qed

definition sample_provision :: bytes where
  "sample_provision = [0x12, 0x34] @ replicate 32 7 @ [6, 0, 2, 9, 9]"

lemma sample_provision_parsed:
  "parse_node_provision der sample_provision = Inr \<lparr>np_key_hint = 0x1234, np_psk = replicate 32 7, np_rf_channel = 6,
     np_encrypted_payload = [9, 9], np_board_layout = Absent\<rparr>"
  by (simp add: parse_node_provision_def sample_provision_def NODE_PROVISION_MIN_LEN_def PEER_PAYLOAD_MAX_LEN_def
      from_be_bytes_def nth_append valid_channel_def nth_Cons')

lemma sample_provision_acknowledged:
  "parse_node_provision rfc_der sample_provision = Inr p \<Longrightarrow>
   fst (handle_node_provision perfect_driver rfc_ser rfc_der p blank_storage) = NODE_ACK_SUCCESS"
  using layout_roundtrip [OF rfc_rest_faithful presets_valid(1)]
  by (auto simp: sample_provision_parsed handle_node_provision_def ignoring_def erase_key_def write_key_def read_key_def st_seq_def st_bind_def
      remove_key_def set_blob_def set_u32_def perfect_driver_def blank_storage_def write_peer_payload_def write_reg_complete_def write_channel_def
      store_layout_def read_board_layout_def read_blob_exact_def has_legacy_i2c0_pins_def write_board_layout_def restore_legacy_i2c0_pins_def
      legacy_i2c0_pin_state_def read_pin_def PEER_PAYLOAD_MAX_LEN_def split: option.split)

theorem provisioning_atomic_witness:
  "\<exists>s'. gatt_write perfect_driver rfc_ser rfc_der ([1, 0, 39] @ sample_provision) blank_storage =
     (Indicate (encode_node_ack NODE_ACK_SUCCESS) False, s') \<and>
     read_key s' = Some (0x1234, replicate 32 7) \<and> read_channel s' = Some 6 \<and> read_peer_payload s' = Some [9, 9]"
proof -
  have e: "parse_ble_envelope ([1, 0, 39] @ sample_provision) = Some (BLE_NODE_PROVISION, sample_provision)"
    by (simp add: parse_ble_envelope_def sample_provision_def BLE_NODE_PROVISION_def from_be_bytes_def)
  note p = sample_provision_parsed [of rfc_der]
  obtain status s' where run: "gatt_write perfect_driver rfc_ser rfc_der ([1, 0, 39] @ sample_provision) blank_storage =
        (Indicate (encode_node_ack status) False, s')"
      and cases: "status = NODE_ACK_SUCCESS \<and> read_key s' = Some (0x1234, replicate 32 7) \<and> read_channel s' = Some 6 \<and>
        read_peer_payload s' = Some [9, 9] \<or> status = NODE_ACK_STORAGE_ERROR"
    using provisioning_atomic [OF perfect_driver_stores rfc_rest_faithful e p, of blank_storage]
    unfolding provisioned_def by (elim exE conjE) (auto simp del: append.simps)
  have "encode_node_ack status = encode_node_ack NODE_ACK_SUCCESS"
    using run e p sample_provision_acknowledged [OF p] by (auto simp: gatt_write_def simp del: append.simps split: prod.splits)
  then have "status = NODE_ACK_SUCCESS"
    by (simp add: encode_node_ack_def encode_ble_envelope_def)
  with run cases show ?thesis by (auto simp: NODE_ACK_SUCCESS_def NODE_ACK_STORAGE_ERROR_def)
qed

section \<open>The pre-provisioning test\<close>

text \<open>\<open>heard w w' f i\<close>: between \<open>w\<close> and \<open>w'\<close> the radio delivered frame \<open>f\<close> with strength \<open>i\<close>.\<close>

definition heard :: "diag_radio \<Rightarrow> bytes \<Rightarrow> u8 option \<Rightarrow> bool" where
  "heard w f i \<longleftrightarrow> (\<exists>dt. DiagFrame dt f i \<in> set (dr_rx w))"

lemma heard_mono: "heard w' f i \<Longrightarrow> set (dr_rx w') \<subseteq> set (dr_rx w) \<Longrightarrow> heard w f i"
  by (auto simp: heard_def)

lemma diag_recv_effect:
  assumes "diag_recv t w = (r, w')"
  shows "set (dr_rx w') \<subseteq> set (dr_rx w) \<and> dr_sent w' = dr_sent w \<and> dr_now w \<le> dr_now w' \<and> dr_now w' \<le> dr_now w + t \<and>
    (\<forall>f i. r = Some (f, i) \<longrightarrow> heard w f i)"
  using assms by (auto simp: diag_recv_def heard_def split: list.splits diag_rx.splits)

lemma diag_listen_effect:
  assumes "diag_listen t w = (r, w')" and "t < 2 ^ 32"
  shows "set (dr_rx w') \<subseteq> set (dr_rx w) \<and> dr_sent w' = dr_sent w \<and> dr_now w' \<le> dr_now w + t \<and>
    (\<forall>f i. r = Some (f, i) \<longrightarrow> heard w f i \<and> is_diag_reply f)"
  using assms
proof (induction t w arbitrary: r w' rule: diag_listen.induct)
  case (1 t w)
  show ?case
  proof (cases "t = 0")
    case True
    with "1.prems" show ?thesis by (simp add: diag_listen.simps)
  next
    case False
    obtain x w1 where x: "diag_recv t w = (x, w1)" by (meson surj_pair)
    note e = diag_recv_effect [OF x]
    show ?thesis
    proof (cases "\<exists>f i. x = Some (f, i) \<and> \<not> is_diag_reply f")
      case True
      then obtain f i where f: "x = Some (f, i)" "\<not> is_diag_reply f" by blast
      let ?d = "(dr_now w1 - dr_now w) mod 2 ^ 32"
      have "dr_now w1 - dr_now w < 2 ^ 32" using e "1.prems"(2) by linarith
      then have d: "?d = dr_now w1 - dr_now w" by (rule mod_less)
      have "diag_listen (t - max ?d 1) w1 = (r, w')" using "1.prems"(1) False x f by (simp add: diag_listen.simps [of t w])
      moreover have "t - max ?d 1 < 2 ^ 32" using "1.prems"(2) by simp
      ultimately have ih: "set (dr_rx w') \<subseteq> set (dr_rx w1) \<and> dr_sent w' = dr_sent w1 \<and> dr_now w' \<le> dr_now w1 + (t - max ?d 1) \<and>
          (\<forall>f i. r = Some (f, i) \<longrightarrow> heard w1 f i \<and> is_diag_reply f)"
        using "1.IH" [OF False x [symmetric] f(1) HOL.refl f(2)] by blast
      then have "dr_now w' \<le> dr_now w + t" using e d False by (auto simp: max_def split: if_splits)
      with ih e show ?thesis using heard_mono by (metis (no_types, lifting) subset_trans)
    next
      case False2: False
      with "1.prems"(1) False x e show ?thesis
        by (auto simp: diag_listen.simps [of t w] split: option.splits if_splits)
    qed
  qed
qed

lemma diag_attempts_effect:
  assumes "diag_attempts payload k left ok w = (r, w')"
  shows "set (dr_rx w') \<subseteq> set (dr_rx w) \<and> (\<exists>n \<le> left. dr_sent w' = dr_sent w @ replicate n payload) \<and>
    dr_now w' \<le> dr_now w + left * (TEST_RETRY_DELAY_MS + TEST_LISTEN_TIMEOUT_MS) \<and>
    (\<forall>f i n. r = Inr (f, i, n) \<longrightarrow> heard w f i \<and> is_diag_reply f)"
  using assms
proof (induction left arbitrary: k ok w)
  case (Suc left)
  let ?w = "if k > 0 then w\<lparr>dr_now := dr_now w + TEST_RETRY_DELAY_MS\<rparr> else w"
  obtain sent w1 where 1: "diag_send payload ?w = (sent, w1)" by (meson surj_pair)
  have e1: "dr_rx w1 = dr_rx w" "dr_now w1 \<le> dr_now w + TEST_RETRY_DELAY_MS" "dr_sent w1 = dr_sent w @ (if sent then [payload] else [])"
    using 1 by (auto simp: diag_send_def split: list.splits bool.splits if_splits)
  obtain x w2 where 2: "diag_listen TEST_LISTEN_TIMEOUT_MS w1 = (x, w2)" by (meson surj_pair)
  have "TEST_LISTEN_TIMEOUT_MS < 2 ^ 32" by (simp add: TEST_LISTEN_TIMEOUT_MS_def)
  note e2 = diag_listen_effect [OF 2 this]
  consider "\<not> sent" | f i where "sent" "x = Some (f, i)" | "sent" "x = None" by (metis option.exhaust surj_pair)
  then show ?case
  proof cases
    case 1
    with Suc.prems \<open>diag_send _ _ = _\<close> have "diag_attempts payload (k + 1) left ok w1 = (r, w')" by simp
    from Suc.IH [OF this] e1 1 show ?thesis by (auto simp: heard_def intro: le_SucI)
  next
    case 2
    with Suc.prems 1 \<open>diag_listen _ _ = _\<close> have "r = Inr (f, i, k + 1)" "w' = w2" by auto
    with 2 e1 e2 show ?thesis by (auto simp: heard_def intro!: exI [of _ 1])
  next
    case 3
    with Suc.prems 1 2 have "diag_attempts payload (k + 1) left True w2 = (r, w')" by simp
    from Suc.IH [OF this] obtain n where ih: "n \<le> left" "dr_sent w' = dr_sent w2 @ replicate n payload" "set (dr_rx w') \<subseteq> set (dr_rx w2)"
        "dr_now w' \<le> dr_now w2 + left * (TEST_RETRY_DELAY_MS + TEST_LISTEN_TIMEOUT_MS)"
        "\<forall>f i n. r = Inr (f, i, n) \<longrightarrow> heard w2 f i \<and> is_diag_reply f" by blast
    then have "dr_sent w' = dr_sent w @ replicate (Suc n) payload" using 3 e1 e2 by simp
    with ih e1 e2 heard_mono [of w2 _ _ w] show ?thesis by (intro conjI exI [of _ "Suc n"]) auto
  qed
qed auto

lemma valid_results:
  "validate_test_result (execution_error_result t n ms) = Inr ()"
  "0 < length f \<Longrightarrow> length f \<le> MAX_FRAME_SIZE \<Longrightarrow> validate_test_result (success_result t f i n ms) = Inr ()"
  "validate_test_result no_result_result = Inr ()"
  by (simp_all add: validate_test_result_def execution_error_result_def success_result_def no_result_result_def
      TEST_RESULT_OK_def TEST_RESULT_EXECUTION_ERROR_def TEST_RESULT_NO_RESULT_def)

lemma sanitize_valid: "validate_test_result (sanitize_test_result r) = Inr ()"
  using valid_results by (cases "validate_test_result r") (auto simp: sanitize_test_result_def split: option.split)

text \<open>The retained result is read back as it was written.\<close>

lemma retained_result_roundtrip:
  assumes "validate_test_result r = Inr ()"
  shows "\<exists>s'. write_test_result r s = (Inr (), s') \<and> read_test_result s' = Some r \<and>
    st_nvs s' = st_nvs s \<and> STAGED_TEST_COMMAND s' = STAGED_TEST_COMMAND s"
proof -
  let ?f = "case tr_reply_frame r of Some f \<Rightarrow> f | None \<Rightarrow> []"
  have f: "length ?f \<le> MAX_FRAME_SIZE" and ne: "tr_reply_frame r \<noteq> Some []"
    using assms by (auto simp: validate_test_result_def split: if_splits option.splits)
  then have len: "unat (of_nat (length ?f) :: u16) = length ?f"
    by (simp add: unat_of_nat MAX_FRAME_SIZE_def)
  have "(if length ?f = 0 then None else Some ?f) = tr_reply_frame r" using ne by (auto split: option.splits)
  with assms f len show ?thesis
    by (cases r) (auto simp: write_test_result_def read_test_result_def retained_test_result_is_valid_def Let_def
        split: option.splits)
qed

lemma execute_diag_effect:
  assumes "execute_diag_frame_test c w = (r, w')"
  shows "(\<exists>n \<le> TEST_MAX_RETRIES + 1. dr_sent w' = dr_sent w @ replicate n (stc_payload c)) \<and>
    dr_now w' \<le> dr_now w + (TEST_MAX_RETRIES + 1) * (TEST_RETRY_DELAY_MS + TEST_LISTEN_TIMEOUT_MS) \<and>
    (tr_status r = TEST_RESULT_OK \<longrightarrow> (\<exists>f i. heard w f i \<and> is_diag_reply f \<and> tr_reply_frame r = Some f \<and> tr_reply_rssi_dbm r = i)) \<and>
    ((\<forall>f i. heard w f i \<longrightarrow> length f \<le> MAX_FRAME_SIZE) \<longrightarrow> validate_test_result r = Inr ())"
proof -
  obtain x v where x: "diag_attempts (stc_payload c) 0 (TEST_MAX_RETRIES + 1) False w = (x, v)" by (meson surj_pair)
  note e = diag_attempts_effect [OF this]
  have pos: "0 < length f" if "is_diag_reply f" for f using that by (auto simp: is_diag_reply_def MIN_FRAME_SIZE_def HEADER_SIZE_def)
  consider "stc_rf_channel c = None \<or> (\<exists>ch. stc_rf_channel c = Some ch \<and> (\<not> valid_channel ch \<or> stc_payload c = [] \<or> length (stc_payload c) > MAX_FRAME_SIZE))"
    | ch where "stc_rf_channel c = Some ch" "valid_channel ch" "stc_payload c \<noteq> []" "length (stc_payload c) \<le> MAX_FRAME_SIZE"
    by fastforce
  then show ?thesis
  proof cases
    case 1
    then have "r = execution_error_result (stc_test_type c) 0 0 \<and> w' = w"
      using assms by (auto simp: execute_diag_frame_test_def split: option.splits if_splits)
    then show ?thesis
      using valid_results(1) by (auto simp: execution_error_result_def TEST_RESULT_OK_def TEST_RESULT_EXECUTION_ERROR_def intro!: exI [of _ 0])
  next
    case 2
    then have v: "w' = v" using assms x by (simp add: execute_diag_frame_test_def Let_def del: diag_attempts.simps)
    show ?thesis
    proof (cases x)
      case (Inl b)
      with 2 assms x have "tr_status r \<noteq> TEST_RESULT_OK" "validate_test_result r = Inr ()"
        using valid_results(1)
        by (auto simp: execute_diag_frame_test_def Let_def execution_error_result_def validate_test_result_def TEST_RESULT_OK_def
            TEST_RESULT_EXECUTION_ERROR_def TEST_RESULT_TIMEOUT_def TEST_RESULT_NO_RESULT_def simp del: diag_attempts.simps split: bool.splits)
      with e v show ?thesis by blast
    next
      case (Inr y)
      obtain f i n where y: "y = (f, i, n)" by (cases y)
      have h: "heard w f i" "is_diag_reply f" using e Inr y by blast+
      have "\<exists>m ms. r = success_result (stc_test_type c) f i m ms"
        using 2 assms x Inr y by (auto simp: execute_diag_frame_test_def Let_def simp del: diag_attempts.simps)
      then have "tr_reply_frame r = Some f \<and> tr_reply_rssi_dbm r = i \<and> (length f \<le> MAX_FRAME_SIZE \<longrightarrow> validate_test_result r = Inr ())"
        using valid_results(2) [OF pos [OF h(2)]] by (auto simp: success_result_def)
      with e v h show ?thesis by blast
    qed
  qed
qed

lemma cleared_staged: "read_staged_test_command (ignoring clear_staged_test_command s) = None"
  by (simp add: ignoring_def clear_staged_test_command_def read_staged_test_command_def rtc_staged_zero_def
      staged_test_command_is_valid_def RTC_STAGED_TEST_MAGIC_def)

lemma read_key_nvs: "st_nvs s' = st_nvs s \<Longrightarrow> read_key s' = read_key s"
  by (rule read_key_cong) simp_all

lemma write_test_result_keeps: "write_test_result r s = (x, s') \<Longrightarrow> st_nvs s' = st_nvs s"
  by (auto simp: write_test_result_def Let_def split: sum.splits if_splits)

text \<open>C27. A staged test always ends: the node sends the staged frame at most four times, is done within
  8.8 seconds, and whatever the radio did the command is gone, so an unpaired node boots into pairing
  mode next. A result that reports success carries a DIAG_REPLY frame the radio delivered, with its
  signal strength, and the result the node reports is the one that is read back after the reboot; if
  the radio delivers no oversized frames there always is one.\<close>

theorem staged_test_ends:
  assumes "read_staged_test_command s = Some c" and "execute_staged_test_command w s = (r, w', s')"
  shows "(\<exists>n \<le> 4. dr_sent w' = dr_sent w @ replicate n (stc_payload c)) \<and> dr_now w' \<le> dr_now w + 8800 \<and>
    read_key s' = read_key s \<and> read_staged_test_command s' = None \<and>
    (read_key s = None \<longrightarrow> fst (boot drv st False reason (s', m)) = Inr ActBlePairing) \<and>
    (\<forall>res. r = Inr (Some res) \<longrightarrow> read_test_result s' = Some res \<and>
       (tr_status res = TEST_RESULT_OK \<longrightarrow>
          (\<exists>f i. heard w f i \<and> is_diag_reply f \<and> tr_reply_frame res = Some f \<and> tr_reply_rssi_dbm res = i))) \<and>
    ((\<forall>f i. heard w f i \<longrightarrow> length f \<le> MAX_FRAME_SIZE) \<longrightarrow> (\<exists>res. r = Inr (Some res)))"
proof -
  let ?run = "if stc_test_type c = TEST_TYPE_DIAG_FRAME then execute_diag_frame_test c w
    else (execution_error_result (stc_test_type c) 0 0, w)"
  obtain res v where run: "?run = (res, v)" by (meson surj_pair)
  have e: "(\<exists>n \<le> 4. dr_sent v = dr_sent w @ replicate n (stc_payload c)) \<and> dr_now v \<le> dr_now w + 8800 \<and>
      (tr_status res = TEST_RESULT_OK \<longrightarrow> (\<exists>f i. heard w f i \<and> is_diag_reply f \<and> tr_reply_frame res = Some f \<and> tr_reply_rssi_dbm res = i)) \<and>
      ((\<forall>f i. heard w f i \<longrightarrow> length f \<le> MAX_FRAME_SIZE) \<longrightarrow> validate_test_result res = Inr ())"
  proof (cases "stc_test_type c = TEST_TYPE_DIAG_FRAME")
    case True
    with run execute_diag_effect [of c w res v] show ?thesis
      by (simp add: TEST_MAX_RETRIES_def TEST_RETRY_DELAY_MS_def TEST_LISTEN_TIMEOUT_MS_def)
  next
    case False
    with run valid_results(1) show ?thesis
      by (auto simp: execution_error_result_def TEST_RESULT_OK_def TEST_RESULT_EXECUTION_ERROR_def intro!: exI [of _ 0])
  qed
  obtain x t where t: "write_test_result res s = (x, t)" by (meson surj_pair)
  have ends: "w' = v" "s' = ignoring clear_staged_test_command t" "r = (case x of Inl e \<Rightarrow> Inl e | Inr _ \<Rightarrow> Inr (Some res))"
    using assms run t by (auto simp: execute_staged_test_command_def clear_staged_test_command_def ignoring_def split: sum.splits)
  have keep: "st_nvs s' = st_nvs s" "LATEST_TEST_RESULT s' = LATEST_TEST_RESULT t"
    using write_test_result_keeps [OF t] ends(2) by (simp_all add: ignoring_def clear_staged_test_command_def)
  then have reread: "read_test_result s' = read_test_result t" by (simp add: read_test_result_def)
  have res: "x = Inr () \<and> read_test_result t = Some res" if "validate_test_result res = Inr ()"
    using retained_result_roundtrip [OF that, of s] t by auto
  have ok: "validate_test_result res = Inr ()" if "x = Inr u" for u
    using that t by (cases "validate_test_result res") (auto simp: write_test_result_def)
  have none: "read_staged_test_command s' = None" by (simp add: ends(2) cleared_staged)
  have "fst (boot drv st False reason (s', m)) = Inr ActBlePairing" if "read_key s = None"
    using that none read_key_nvs [OF keep(1)]
    by (simp add: boot_def select_boot_action_def select_boot_mode_def should_enter_brownout_recovery_def)
  then show ?thesis using e ends(1,3) none read_key_nvs [OF keep(1)] reread res ok by (cases x) auto
qed

definition sample_staged :: node_storage where
  "sample_staged = snd (write_staged_test_command \<lparr>stc_test_type = 1, stc_rf_channel = Some 6, stc_payload = [1, 2, 3]\<rparr> blank_storage)"

definition sample_radio :: diag_radio where
  "sample_radio = \<lparr>dr_rx = [DiagFrame 5 [1] None, DiagTimeout, DiagFrame 7 ([0, 0, 0x85] @ replicate 24 0) (Some 200)],
     dr_tx_fails = [True], dr_sent = [], dr_now = 0\<rparr>"

theorem staged_test_ends_witness:
  "read_staged_test_command sample_staged \<noteq> None \<and>
   read_staged_test_command (snd (snd (execute_staged_test_command sample_radio sample_staged))) = None"
proof -
  have "read_staged_test_command sample_staged = Some \<lparr>stc_test_type = 1, stc_rf_channel = Some 6, stc_payload = [1, 2, 3]\<rparr>"
    by (simp add: sample_staged_def write_staged_test_command_def read_staged_test_command_def staged_test_command_is_valid_def
        MAX_FRAME_SIZE_def blank_storage_def RTC_STAGED_TEST_MAGIC_def)
  moreover obtain r w s where run: "execute_staged_test_command sample_radio sample_staged = (r, w, s)" by (metis prod_cases3)
  ultimately show ?thesis using staged_test_ends [OF _ run] by fastforce
qed

end
