(* ===== verification/Onboarding.thy ===== *)
theory Onboarding
  imports Phone_Correct Node_Pairing_Correct End_To_End
begin

text \<open>
  Phone, gateway and node together. The phone's exchanges over Bluetooth rely on a link that delivers
  what the peer answers (locale \<open>ble_link\<close>); the links to the gateway's handler and to the node's
  pairing mode are two instances.
\<close>

section \<open>The link\<close>

locale ble_link =
  fixes bt :: "'t ble_transport"
    and peer :: "'t \<Rightarrow> 'p"
    and answer :: "bytes \<Rightarrow> 'p \<Rightarrow> bytes option \<times> 'p"
    and idle :: "'t \<Rightarrow> bool"
  assumes connects: "idle t \<Longrightarrow> \<exists>mtu t'. bt_connect bt a t = (Inr mtu, t') \<and> PHONE_BLE_MTU_MIN \<le> mtu \<and> idle t' \<and> peer t' = peer t"
    and answers: "idle t \<Longrightarrow> answer data (peer t) = (Some m, p) \<Longrightarrow>
      \<exists>t1 t2. bt_write bt svc ch data t = (Inr (), t1) \<and> bt_read_indication bt svc ch ms t1 = (Inr m, t2) \<and> idle t2 \<and> peer t2 = p"
    and hangs_up: "idle t \<Longrightarrow> idle (hang_up bt t) \<and> peer (hang_up bt t) = peer t"
    and defers: "idle t \<Longrightarrow> idle (bt_set_defer_bonding bt b t) \<and> peer (bt_set_defer_bonding bt b t) = peer t"
    and secure: "idle t \<Longrightarrow> bt_pairing_method bt t = None \<or> bt_pairing_method bt t = Some NumericComparison"
begin

lemma mtu_passes: "PHONE_BLE_MTU_MIN \<le> mtu \<Longrightarrow> check_mtu bt a mtu t = (Inr (), t)"
  by (simp add: check_mtu_def not_less)

lemma connect_to_node_link:
  assumes "idle t" shows "\<exists>t'. connect_to_node bt a t = (Inr (), t') \<and> idle t' \<and> peer t' = peer t"
proof -
  have d: "idle (bt_set_defer_bonding bt True t)" "peer (bt_set_defer_bonding bt True t) = peer t" using defers [OF assms] by blast+
  from connects [OF d(1), of a] obtain mtu t1 where "bt_connect bt a (bt_set_defer_bonding bt True t) = (Inr mtu, t1)"
      "PHONE_BLE_MTU_MIN \<le> mtu" "idle t1" "peer t1 = peer t" using d(2) by metis
  with defers [of t1 False] mtu_passes show ?thesis by (simp add: connect_to_node_def)
qed

lemma exchange_link:
  assumes "idle t" and "answer data (peer t) = (Some m, p)"
  shows "\<exists>t'. st_bind (bt_write bt svc ch data) (\<lambda>_. st_bind (bt_read_indication bt svc ch ms) (\<lambda>r. st_lift (k r))) t = (k m, t') \<and>
    idle t' \<and> peer t' = p"
  using answers [OF assms, of svc ch ms] by (auto simp: st_bind_def st_lift_def)

lemma then_hang_up_link:
  assumes "m t = (r, t1)" and "idle t1"
  shows "then_hang_up bt m t = (r, hang_up bt t1) \<and> idle (hang_up bt t1) \<and> peer (hang_up bt t1) = peer t1"
  using assms hangs_up by (simp add: then_hang_up_def)

text \<open>The outcome of phase 1 is the phone's reading of what the gateway answers to the registration.\<close>

lemma pair_link:
  assumes "idle t" and "length label \<le> 64" and "pw_psk wld = Inr psk" and "length psk = 32"
    and "encode_ble_envelope REGISTER_PHONE (register_body psk label) = Some msg" and "answer msg (peer t) = (Some m, p)"
  shows "\<exists>t'. pair_with_gateway bt env wld a label t = (accept_registration env psk label m, t') \<and> idle t' \<and> peer t' = p"
proof -
  obtain mtu t1 where 1: "bt_connect bt a t = (Inr mtu, t1)" "PHONE_BLE_MTU_MIN \<le> mtu" "idle t1" "peer t1 = peer t"
    using connects [OF assms(1)] by metis
  have lesc: "enforce_lesc bt t1 = (Inr (), t1)" using secure [OF 1(3)] by (auto simp: enforce_lesc_def)
  have "answer msg (peer t1) = (Some m, p)" using assms(6) 1(4) by simp
  from exchange_link [OF 1(3) this] obtain t2 where t2: "do_pair_with_gateway bt env wld label t1 = (accept_registration env psk label m, t2)"
      "idle t2" "peer t2 = p"
    using assms(3,5) by (fastforce simp: do_pair_with_gateway_def st_bind_def st_lift_def envelope_copies(2))
  from then_hang_up_link [of "do_pair_with_gateway bt env wld label", OF t2(1,2)] t2(3) 1 lesc assms(2)
  show ?thesis by (auto simp: pair_with_gateway_def st_bind_def mtu_passes not_less)
qed

text \<open>The outcome of phase 2 is the phone's reading of the node's acknowledgement.\<close>

lemma provision_link:
  assumes "idle t" and "validate_node_id node_id = Inr ()"
    and "case layout of None \<Rightarrow> lc = None
      | Some l \<Rightarrow> layout_validate l = Inr () \<and> validate_supported_battery_adc l = Inr () \<and>
          (\<exists>b. encode_board_layout_cbor (pe_ser env) l = Inr b \<and> lc = Some b)"
    and "pw_psk wld = Inr psk" and "phone_timestamp wld = Inr ts"
    and "encode_pairing_request (pe_ser env) (pe_sha env) node_id psk (pt_rf_channel art) sensors ts = Inr cbor"
    and "encrypt_pairing_request env wld (pt_phone_psk art) cbor = Inr frame" and "length frame \<le> PHONE_PEER_PAYLOAD_MAX_LEN"
    and "encode_ble_envelope NODE_PROVISION (provision_payload (compute_key_hint (pe_sha env) psk) psk (pt_rf_channel art) frame lc) = Some msg"
    and "answer msg (peer t) = (Some m, p)"
  shows "\<exists>t'. provision_node bt env wld art a node_id sensors layout t = (accept_node_ack m, t') \<and> idle t' \<and> peer t' = p"
proof -
  obtain t1 where 1: "connect_to_node bt a t = (Inr (), t1)" "idle t1" "peer t1 = peer t"
    using connect_to_node_link [OF assms(1)] by blast
  let ?do = "do_provision_node bt env (compute_key_hint (pe_sha env) psk) psk (pt_rf_channel art) frame layout"
  have "answer msg (peer t1) = (Some m, p)" using assms(10) 1(3) by simp
  from exchange_link [OF 1(2) this] obtain t2 where t2: "?do t1 = (accept_node_ack m, t2)" "idle t2" "peer t2 = p"
    using assms(3,8,9) by (fastforce simp: do_provision_node_def st_bind_def st_lift_def envelope_copies(2) split: option.splits)
  from then_hang_up_link [of ?do, OF t2(1,2)] t2(3) 1 assms(2-7) show ?thesis
    by (auto simp: provision_node_def st_bind_def st_lift_def split: option.splits)
qed

end

text \<open>A link to a peer that answers each write with at most one indication.\<close>

definition peer_transport :: "u16 \<Rightarrow> (bytes \<Rightarrow> 'p \<Rightarrow> bytes option \<times> 'p) \<Rightarrow> ('p \<times> bytes list) ble_transport" where
  "peer_transport mtu ans = \<lparr>
     bt_connect = \<lambda>_ t. (Inr mtu, t), bt_disconnect = \<lambda>t. (Inr (), t),
     bt_write = \<lambda>_ _ data (p, q). (case ans data p of (None, p') \<Rightarrow> (Inr (), (p', q)) | (Some m, p') \<Rightarrow> (Inr (), (p', q @ [m]))),
     bt_read_indication = \<lambda>_ _ _ (p, q). (case q of [] \<Rightarrow> (Inl (IndicationTimeout None), (p, q)) | m # ms \<Rightarrow> (Inr m, (p, ms))),
     bt_pairing_method = \<lambda>_. Some NumericComparison, bt_set_defer_bonding = \<lambda>_ t. t, bt_now_ms = \<lambda>_. 0, bt_sleep_ms = \<lambda>_ t. t\<rparr>"

lemma peer_transport_link: "PHONE_BLE_MTU_MIN \<le> mtu \<Longrightarrow> ble_link (peer_transport mtu ans) fst ans (\<lambda>t. snd t = [])"
  by unfold_locales (auto simp: peer_transport_def hang_up_def)

text \<open>The two peers of the phone.\<close>

definition node_answer :: "nvs_driver \<Rightarrow> cbor_ser \<Rightarrow> cbor_de_rest \<Rightarrow> bytes \<Rightarrow> node_storage \<Rightarrow> bytes option \<times> node_storage" where
  "node_answer drv ser der data s =
     (case gatt_write drv ser der data s of (Indicate m _, s') \<Rightarrow> (Some m, s') | (_, s') \<Rightarrow> (None, s'))"

interpretation node_link: ble_link "peer_transport 247 (node_answer drv ser der)" fst "node_answer drv ser der" "\<lambda>t. snd t = []"
  for drv ser der
  by (rule peer_transport_link) (simp add: PHONE_BLE_MTU_MIN_def)

interpretation gateway_link: ble_link "peer_transport 247 (handle_ble_recv sha sign identity store rf_channel now wall)" fst
    "handle_ble_recv sha sign identity store rf_channel now wall" "\<lambda>t. snd t = []"
  for sha sign identity store rf_channel now wall
  by (rule peer_transport_link) (simp add: PHONE_BLE_MTU_MIN_def)

end
