(* ===== verification/Gateway_Pairing_Correct.thy ===== *)
theory Gateway_Pairing_Correct
  imports Gateway_Pairing
begin

text \<open>
  Phones are registered only through an open registration window. The phones of a storage backend are
  an interface (locale \<open>phone_registry\<close>), which extends the registry of nodes; the storage in memory
  implements it.
\<close>

section \<open>The phones of a backend\<close>

locale phone_registry = node_registry +
  fixes store :: "phone_psk_record \<Rightarrow> ('a, storage_error, u32) op"
    and phones :: "'a \<Rightarrow> phone_psk_record list"
  assumes store_view: "ok s \<Longrightarrow> store r s = (q, s') \<Longrightarrow>
      ok s' \<and> view s' = view s \<and> phones s' = (case q of Inl _ \<Rightarrow> phones s | Inr i \<Rightarrow> phones s @ [r\<lparr>ph_phone_id := i\<rparr>])"
    and phones_by_hint: "ok s \<Longrightarrow> sa_get_phone_psks_by_key_hint api h s = Inr (filter (\<lambda>p. ph_key_hint p = h) (phones s))"
    and insert_phones: "ok s \<Longrightarrow> sa_insert_node_if_not_exists api n s = (b, s') \<Longrightarrow> (\<exists>x. b = Inr x) \<and> phones s' = phones s"

interpretation mem_phones: phone_registry mem_api mem_ok mem_view store_phone_psk ms_phone_psks
  by unfold_locales
    (auto simp: mem_api_def get_phone_psks_by_key_hint_def insert_node_if_not_exists_def store_phone_psk_def push_phone_def mem_ok_def
      mem_view_def split: if_splits option.splits)

section \<open>The window\<close>

text \<open>What happens to the pairing mode of a gateway: an administrator opens or closes the window, a message
  arrives. \<open>run\<close> is the sequence of such steps from a gateway whose controller is new.\<close>

datatype pairing_step = StepOpen nat u32 pairing_origin bool | StepClose | StepRecv nat nat bytes "bytes option"

inductive pairing_run ::
    "sha_fn \<Rightarrow> (bytes \<Rightarrow> bytes) \<Rightarrow> gateway_identity \<Rightarrow> (phone_psk_record \<Rightarrow> ('s, storage_error, u32) op) \<Rightarrow> u8
       \<Rightarrow> 's ble_gateway \<Rightarrow> pairing_step list \<Rightarrow> 's ble_gateway \<Rightarrow> bool"
  for sha sign identity store rf_channel g0 where
  run_start: "bg_controller g0 = Some controller_new \<Longrightarrow> pairing_run sha sign identity store rf_channel g0 [] g0"
| open_step: "pairing_run sha sign identity store rf_channel g0 steps g \<Longrightarrow> bg_controller g = Some c \<Longrightarrow>
    open_window now d origin c = (b, c') \<Longrightarrow>
    pairing_run sha sign identity store rf_channel g0 (steps @ [StepOpen now d origin b]) (g\<lparr>bg_controller := Some c'\<rparr>)"
| close_step: "pairing_run sha sign identity store rf_channel g0 steps g \<Longrightarrow> bg_controller g = Some c \<Longrightarrow>
    pairing_run sha sign identity store rf_channel g0 (steps @ [StepClose]) (g\<lparr>bg_controller := Some (close_window c)\<rparr>)"
| recv_step: "pairing_run sha sign identity store rf_channel g0 steps g \<Longrightarrow>
    handle_ble_recv sha sign identity store rf_channel now wall data g = (reply, g') \<Longrightarrow>
    pairing_run sha sign identity store rf_channel g0 (steps @ [StepRecv now wall data reply]) g'"

text \<open>The opening that was granted last and not taken back.\<close>

fun opened :: "(nat \<times> u32) option \<Rightarrow> pairing_step \<Rightarrow> (nat \<times> u32) option" where
  "opened w (StepOpen now d _ b) = (if b then Some (now, d) else w)"
| "opened w StepClose = None"
| "opened w (StepRecv _ _ _ _) = w"

definition last_opening :: "pairing_step list \<Rightarrow> (nat \<times> u32) option" where
  "last_opening steps = foldl opened None steps"

lemma last_opening_snoc [simp]: "last_opening [] = None" "last_opening (steps @ [st]) = opened (last_opening steps) st"
  by (simp_all add: last_opening_def)

text \<open>An open window is the last opening, with its deadline.\<close>

definition window_from :: "(nat \<times> u32) option \<Rightarrow> 's ble_gateway \<Rightarrow> bool" where
  "window_from w g \<longleftrightarrow> (\<exists>c. bg_controller g = Some c \<and>
     (rw_open (ps_window (bc_session c)) \<longrightarrow>
        (\<exists>t d. w = Some (t, d) \<and> rw_deadline (ps_window (bc_session c)) = instant_add_secs t d)))"

lemma is_window_open_effect:
  assumes "is_window_open now c = (b, c')"
  shows "b = (rw_open (ps_window (bc_session c)) \<and> (\<forall>t. rw_deadline (ps_window (bc_session c)) = Some t \<longrightarrow> now < t))"
    and "rw_open (ps_window (bc_session c')) = b" and "b \<Longrightarrow> ps_window (bc_session c') = ps_window (bc_session c)"
  using assms by (auto simp: is_window_open_def window_is_open_def split: if_splits option.splits)

lemma registered_keeps_window:
  assumes "is_window_open now c = (True, c1)"
  shows "ps_window (bc_session (broadcast_pairing_event e (mark_phone_registered now c1))) = ps_window (bc_session c)"
proof -
  obtain b c2 where c2: "is_window_open now c1 = (b, c2)" by (meson surj_pair)
  have "ps_window (bc_session c1) = ps_window (bc_session c)" using is_window_open_effect(3) [OF assms] by simp
  with is_window_open_effect(1) [OF assms] is_window_open_effect(1,3) [OF c2] c2 show ?thesis
    by (auto simp: mark_phone_registered_def broadcast_pairing_event_def)
qed

lemma register_body_parts:
  fixes body :: bytes
  assumes "33 \<le> length body" and "length body = 33 + unat (body ! 32)"
  shows "body = take 32 body @ [of_nat (length (drop 33 body))] @ drop 33 body"
proof -
  have "drop 32 body = body ! 32 # drop 33 body" using assms(1) by (simp add: Cons_nth_drop_Suc [symmetric])
  moreover have "of_nat (length (drop 33 body)) = body ! 32" using assms(2) by simp
  ultimately show ?thesis by (metis append_take_drop_id append_Cons append_Nil)
qed

text \<open>A registration reaches the storage only through the open window, with the record the message gives.\<close>

definition register_message :: "bytes \<Rightarrow> bytes \<Rightarrow> bytes \<Rightarrow> bool" where
  "register_message body psk label \<longleftrightarrow>
     body = psk @ [of_nat (length label)] @ label \<and> length psk = 32 \<and> length label \<le> PHONE_LABEL_MAX_BYTES \<and> utf8_valid label"

lemma register_phone_effect:
  assumes "handle_register_phone sha store rf_channel now wall body g = (reply, g')" and "bg_controller g = Some c"
    and "is_window_open now c = (b, c1)"
  shows "bg_storage g' = bg_storage g \<and> bg_controller g' = Some c1 \<or>
     b \<and> (\<exists>psk label q c2. register_message body psk label \<and>
        store (phone_record sha psk (text_of label) wall) (bg_storage g) = (q, bg_storage g') \<and>
        bg_controller g' = Some c2 \<and> ps_window (bc_session c2) = ps_window (bc_session c) \<and>
        (\<forall>i. q = Inr i \<longrightarrow> reply = encode_ble_envelope BLE_MSG_PHONE_REGISTERED [0, rf_channel, sha psk ! 30, sha psk ! 31]))"
proof -
  let ?n = "unat (body ! 32)" let ?psk = "take 32 body" let ?label = "drop 33 body"
  have w: "check_window now g = (b, g\<lparr>bg_controller := Some c1\<rparr>)" using assms(2,3) by (simp add: check_window_def)
  show ?thesis
  proof (cases "b \<and> 33 \<le> length body \<and> ?n \<le> PHONE_LABEL_MAX_BYTES \<and> length body = 33 + ?n \<and> utf8_valid ?label")
    case False
    with assms(1) w show ?thesis
      by (auto simp: handle_register_phone_def Let_def split: if_splits)
  next
    case True
    then have m: "register_message body ?psk ?label" using register_body_parts [of body] by (simp add: register_message_def)
    obtain q s' where q: "store (phone_record sha ?psk (text_of ?label) wall) (bg_storage g) = (q, s')" by (meson surj_pair)
    have b: "is_window_open now c = (True, c1)" using assms(3) True by simp
    show ?thesis
      using assms(1) w True m q registered_keeps_window [OF b] is_window_open_effect(3) [OF b]
      by (cases q) (fastforce simp: handle_register_phone_def Let_def not_less)+
  qed
qed

section \<open>Registrations\<close>

lemma recv_cases:
  assumes "handle_ble_recv sha sign identity store rf_channel now wall data g = (reply, g')"
  obtains "g' = g"
  | body where "parse_ble_envelope data = Some (BLE_MSG_REGISTER_PHONE, body)"
      and "handle_register_phone sha store rf_channel now wall body g = (reply, g')"
  using assms by (auto simp: handle_ble_recv_def split: option.splits if_splits)

lemma window_from_closes:
  assumes "window_from w g" and "bg_controller g = Some c" and "is_window_open now c = (b, c1)"
  shows "window_from w (g'\<lparr>bg_controller := Some c1\<rparr>)"
    and "b \<Longrightarrow> \<exists>t d. w = Some (t, d) \<and> (\<forall>e. instant_add_secs t d = Some e \<longrightarrow> now < e)"
  using assms is_window_open_effect [OF assms(3)] by (auto simp: window_from_def)

lemma window_from_cong:
  "bg_controller g' = Some c' \<Longrightarrow> bg_controller g = Some c \<Longrightarrow> ps_window (bc_session c') = ps_window (bc_session c) \<Longrightarrow>
   window_from w g' = window_from w g"
  by (simp add: window_from_def)

lemma open_window_from:
  assumes "window_from w g" and "bg_controller g = Some c" and "open_window now d origin c = (b, c')"
  shows "window_from (if b then Some (now, d) else w) (g\<lparr>bg_controller := Some c'\<rparr>)"
proof -
  obtain o1 c1 where c1: "is_window_open now c = (o1, c1)" by (meson surj_pair)
  show ?thesis
  proof (cases o1)
    case True
    with assms(3) c1 have "\<not> b" "c' = c1" by (simp_all add: open_window_def)
    with window_from_closes(1) [OF assms(1,2) c1] show ?thesis by simp
  next
    case False
    with assms(3) c1 show ?thesis by (auto simp: open_window_def window_open_def window_from_def)
  qed
qed

lemma recv_window_from:
  assumes "window_from w g" and "handle_ble_recv sha sign identity store rf_channel now wall data g = (reply, g')"
  shows "window_from w g'"
  using assms(2)
proof (cases rule: recv_cases)
  case 1
  with assms(1) show ?thesis by simp
next
  case (2 body)
  obtain c where c: "bg_controller g = Some c" using assms(1) by (auto simp: window_from_def)
  obtain b c1 where b: "is_window_open now c = (b, c1)" by (meson surj_pair)
  from register_phone_effect [OF 2(2) c b] consider
      "bg_controller g' = Some c1" | c2 where "bg_controller g' = Some c2" "ps_window (bc_session c2) = ps_window (bc_session c)"
    by blast
  then show ?thesis
  proof cases
    case 1
    with window_from_closes(1) [OF assms(1) c b, of g'] show ?thesis by (simp add: window_from_def)
  next
    case 2
    with window_from_cong [OF 2(1) c 2(2)] assms(1) show ?thesis by blast
  qed
qed

lemma run_window: "pairing_run sha sign identity store rf_channel g0 steps g \<Longrightarrow> window_from (last_opening steps) g"
proof (induction rule: pairing_run.induct)
  case run_start
  then show ?case by (simp add: window_from_def controller_new_def window_new_def)
next
  case (open_step steps g c now d origin b c')
  then show ?case using open_window_from by fastforce
next
  case (close_step steps g c)
  then show ?case by (simp add: window_from_def close_window_def window_close_def)
next
  case (recv_step steps g now wall data reply g')
  then show ?case using recv_window_from by fastforce
qed

context phone_registry
begin

lemma recv_ok:
  assumes "ok (bg_storage g)" and "handle_ble_recv sha sign identity store rf_channel now wall data g = (reply, g')"
    and "bg_controller g = Some c"
  shows "ok (bg_storage g') \<and> view (bg_storage g') = view (bg_storage g)"
  using assms(2)
proof (cases rule: recv_cases)
  case (2 body)
  obtain b c1 where "is_window_open now c = (b, c1)" by (meson surj_pair)
  from register_phone_effect [OF 2(2) assms(3) this] assms(1) store_view show ?thesis by fastforce
qed (simp add: assms(1))

lemma run_ok:
  assumes "pairing_run sha sign identity store rf_channel g0 steps g" and "ok (bg_storage g0)"
  shows "ok (bg_storage g)"
  using assms(1)
proof (induction rule: pairing_run.induct)
  case (recv_step steps g now wall data reply g')
  then show ?case using run_window [OF recv_step(1)] recv_ok by (auto simp: window_from_def)
qed (simp_all add: assms(2))

lemma registers_in_window:
  assumes "pairing_run sha sign identity store rf_channel g0 steps g" and "ok (bg_storage g0)"
    and "handle_ble_recv sha sign identity store rf_channel now wall data g = (reply, g')"
  shows "view (bg_storage g') = view (bg_storage g)"
    and "phones (bg_storage g') = phones (bg_storage g) \<or>
      (\<exists>t d psk label i. last_opening steps = Some (t, d) \<and> (\<forall>e. instant_add_secs t d = Some e \<longrightarrow> now < e) \<and>
         (\<exists>body. parse_ble_envelope data = Some (BLE_MSG_REGISTER_PHONE, body) \<and> register_message body psk label) \<and>
         phones (bg_storage g') = phones (bg_storage g) @ [(phone_record sha psk (text_of label) wall)\<lparr>ph_phone_id := i\<rparr>] \<and>
         reply = encode_ble_envelope BLE_MSG_PHONE_REGISTERED [0, rf_channel, sha psk ! 30, sha psk ! 31])"
proof -
  have ok: "ok (bg_storage g)" using run_ok [OF assms(1,2)] .
  have w: "window_from (last_opening steps) g" using run_window [OF assms(1)] .
  then obtain c where c: "bg_controller g = Some c" by (auto simp: window_from_def)
  obtain b c1 where b: "is_window_open now c = (b, c1)" by (meson surj_pair)
  show "view (bg_storage g') = view (bg_storage g)" using recv_ok [OF ok assms(3) c] by blast
  show "phones (bg_storage g') = phones (bg_storage g) \<or>
      (\<exists>t d psk label i. last_opening steps = Some (t, d) \<and> (\<forall>e. instant_add_secs t d = Some e \<longrightarrow> now < e) \<and>
         (\<exists>body. parse_ble_envelope data = Some (BLE_MSG_REGISTER_PHONE, body) \<and> register_message body psk label) \<and>
         phones (bg_storage g') = phones (bg_storage g) @ [(phone_record sha psk (text_of label) wall)\<lparr>ph_phone_id := i\<rparr>] \<and>
         reply = encode_ble_envelope BLE_MSG_PHONE_REGISTERED [0, rf_channel, sha psk ! 30, sha psk ! 31])"
    using assms(3)
  proof (cases rule: recv_cases)
    case (2 body)
    from register_phone_effect [OF 2(2) c b] show ?thesis
    proof (elim disjE conjE exE)
      fix psk label q c2
      assume r: "b" "register_message body psk label"
        "store (phone_record sha psk (text_of label) wall) (bg_storage g) = (q, bg_storage g')"
        "\<forall>i. q = Inr i \<longrightarrow> reply = encode_ble_envelope BLE_MSG_PHONE_REGISTERED [0, rf_channel, sha psk ! 30, sha psk ! 31]"
      from store_view [OF ok r(3)] r(4) window_from_closes(2) [OF w c b r(1)] 2(1) r(2) show ?thesis
        by (cases q) (simp, simp, blast)
    qed simp
  qed simp
qed

end

text \<open>C13. Phones are registered only through the registration window. After any sequence of openings,
  closings and messages of a gateway with storage in memory, a message leaves the registered phones as they are
  unless a window was granted, has not been closed and its deadline has not passed; then it is a well-formed
  registration, exactly one phone is added, active and with the key of the message, and the answer names the
  channel and the key's hint. The nodes are never touched.\<close>

theorem phone_registration_window:
  assumes "pairing_run sha sign identity store_phone_psk rf_channel g0 steps g" and "mem_ok (bg_storage g0)"
    and "handle_ble_recv sha sign identity store_phone_psk rf_channel now wall data g = (reply, g')"
  shows "mem_view (bg_storage g') = mem_view (bg_storage g) \<and>
     (ms_phone_psks (bg_storage g') = ms_phone_psks (bg_storage g) \<or>
      (\<exists>t d psk label i. last_opening steps = Some (t, d) \<and> (\<forall>e. instant_add_secs t d = Some e \<longrightarrow> now < e) \<and>
         (\<exists>body. parse_ble_envelope data = Some (BLE_MSG_REGISTER_PHONE, body) \<and> register_message body psk label) \<and>
         ms_phone_psks (bg_storage g') = ms_phone_psks (bg_storage g) @ [(phone_record sha psk (text_of label) wall)\<lparr>ph_phone_id := i\<rparr>] \<and>
         reply = encode_ble_envelope BLE_MSG_PHONE_REGISTERED [0, rf_channel, sha psk ! 30, sha psk ! 31]))"
  using mem_phones.registers_in_window [OF assms] by blast

lemmas window_simps = open_window_def is_window_open_def window_is_open_def window_open_def controller_new_def window_new_def
  instant_add_secs_def check_window_def mark_phone_registered_def broadcast_pairing_event_def

definition sample_opened :: "mem_storage ble_gateway" where
  "sample_opened = \<lparr>bg_storage = mem_new, bg_window = window_new, bg_controller = Some (snd (open_window 10 60 ButtonOrigin controller_new))\<rparr>"

definition sample_recv :: "nat \<Rightarrow> bytes option \<times> mem_storage ble_gateway" where
  "sample_recv now = handle_ble_recv (\<lambda>_. replicate 32 7) id \<lparr>gi_seed = [], gi_gateway_id = [], gi_public_key = []\<rparr> store_phone_psk 6 now 99
     (2 # 0 # 34 # replicate 32 0 @ [1, 65]) sample_opened"

lemma sample_parse:
  "parse_ble_envelope (2 # 0 # 34 # replicate 32 0 @ [1, 65]) = Some (2, replicate 32 0 @ [1, 65])"
  "utf8_valid [65 :: u8]" "be16 4 = [0, 4]" "be16 1 = [0, 1]" by code_simp+

lemmas sample_simps = sample_recv_def sample_opened_def handle_ble_recv_def handle_register_phone_def window_simps
  encode_ble_envelope_def BLE_MSG_REGISTER_PHONE_def BLE_MSG_REQUEST_GW_INFO_def BLE_MSG_PHONE_REGISTERED_def BLE_MSG_ERROR_def
  ERROR_WINDOW_CLOSED_def PHONE_LABEL_MAX_BYTES_def store_phone_psk_def mem_new_def push_phone_def label_too_long_def
  phone_record_def text_of_def checked_add_def sample_parse nth_append Let_def

theorem phone_registration_window_witness:
  "fst (sample_recv 20) = Some [0x82, 0, 4, 0, 6, 7, 7] \<and> length (ms_phone_psks (bg_storage (snd (sample_recv 20)))) = 1 \<and>
   fst (sample_recv (61 * 10 ^ 9)) = Some [0xFF, 0, 1, 2] \<and> mem_view (bg_storage (snd (sample_recv 20))) = mem_view mem_new"
proof -
  define g0 where "g0 = \<lparr>bg_storage = mem_new, bg_window = window_new, bg_controller = Some controller_new\<rparr>"
  have "fst (open_window 10 60 ButtonOrigin controller_new)" by (simp add: window_simps)
  then have 1: "pairing_run (\<lambda>_. replicate 32 7) id \<lparr>gi_seed = [], gi_gateway_id = [], gi_public_key = []\<rparr> store_phone_psk 6 g0
      ([] @ [StepOpen 10 60 ButtonOrigin True]) (g0\<lparr>bg_controller := Some (snd (open_window 10 60 ButtonOrigin controller_new))\<rparr>)"
    by (intro pairing_run.intros) (simp_all add: g0_def prod_eq_iff)
  have "g0\<lparr>bg_controller := Some (snd (open_window 10 60 ButtonOrigin controller_new))\<rparr> = sample_opened"
    by (simp add: g0_def sample_opened_def)
  note 2 = phone_registration_window [OF 1 [unfolded this], of 20 99 "2 # 0 # 34 # replicate 32 0 @ [1, 65]", folded sample_recv_def]
  have "mem_ok (bg_storage g0)" by (simp add: g0_def mem_ok_def mem_new_def)
  with 2 [of "fst (sample_recv 20)" "snd (sample_recv 20)"] have "mem_view (bg_storage (snd (sample_recv 20))) = mem_view (bg_storage sample_opened)"
    by simp
  moreover have "fst (sample_recv 20) = Some [0x82, 0, 4, 0, 6, 7, 7]" by (simp add: sample_simps)
  moreover have "length (ms_phone_psks (bg_storage (snd (sample_recv 20)))) = 1" by (simp add: sample_simps)
  moreover have "fst (sample_recv (61 * 10 ^ 9)) = Some [0xFF, 0, 1, 2]" by (simp add: sample_simps)
  moreover have "bg_storage sample_opened = mem_new" by (simp add: sample_opened_def)
  ultimately show ?thesis by simp
qed

end
