(* ===== verification/Onboarding_Correct.thy ===== *)
theory Onboarding_Correct
  imports Onboarding Gateway_Pairing_Correct
begin

text \<open>
  Onboarding from end to end: a phone registers with the gateway, provisions a node over Bluetooth, and the node
  registers itself with the request the phone sealed. The lemmas are the hops: what each side makes of
  the message of the one before.
\<close>

section \<open>Common ground\<close>

definition shared_providers :: "phone_env \<Rightarrow> node_env \<Rightarrow> 's gateway_env \<Rightarrow> bool" where
  "shared_providers penv env genv \<longleftrightarrow> same_providers env genv \<and> pe_seal penv = en_seal env \<and> pe_open penv = en_open env \<and>
     pe_sha penv = en_sha env \<and> pe_ser penv = en_ser env \<and> pe_de penv = en_de env"

definition ack_fits :: "node_env \<Rightarrow> bool" where
  "ack_fits env \<longleftrightarrow> (\<exists>b. en_ser env peer_ack_value = Inr b \<and> length b \<le> MAX_PAYLOAD_SIZE)"

section \<open>The sealed request\<close>

lemma sealed_payload_opens:
  assumes "cbor_faithful ser (ge_de genv)" and "aead_correct sl (ge_open genv)" and "aead_expands sl" and "length n = 12" and "length cbor < 2 ^ 32"
    and "ser (CborMap [(CborInt (uint PEER_REQ_KEY_PAYLOAD), CborBytes (n @ sl psk n PAIRING_REQUEST_AAD cbor))]) = Inr buf"
  shows "open_pairing_request genv psk buf = parse_pairing_request (ge_de genv) cbor"
proof -
  let ?enc = "n @ sl psk n PAIRING_REQUEST_AAD cbor"
  let ?v = "CborMap [(CborInt (uint PEER_REQ_KEY_PAYLOAD), CborBytes ?enc)]"
  have len: "length ?enc = 28 + length cbor" using assms(3,4) by (simp add: aead_expands_def frame_consts)
  then have "cbor_wf ?v" using assms(5) by (simp add: PEER_REQ_KEY_PAYLOAD_def)
  from cbor_faithfulE [OF assms(1) this] assms(6) have "ge_de genv buf = Inr ?v" by auto
  moreover have "PAIRING_AAD = PAIRING_REQUEST_AAD" by code_simp
  ultimately show ?thesis
    using len assms(2,4)
    by (simp add: open_pairing_request_def payload_field_def cbor_u64_def to_unsigned_def PEER_REQ_KEY_PAYLOAD_def aead_correct_def)
qed

text \<open>The frame of the phone at the gateway.\<close>

lemma phone_frame_opens:
  assumes ok: "providers_ok env" "shared_providers penv env genv"
    and w: "pw_inner_nonce wld = Inr n" "length n = 12" and c: "length cbor < 2 ^ 32"
    and e: "encrypt_pairing_request penv wld psk cbor = Inr frame"
  shows "\<exists>d p nc. decode_frame frame = Inr d \<and> df_header d = \<lparr>key_hint = key_hint_from_psk psk (en_sha env), msg_type = MSG_PEER_REQUEST, nonce = nc\<rparr> \<and>
    open_frame d psk (en_open env) (en_sha env) = Inr p \<and> open_pairing_request genv psk p = parse_pairing_request (en_de env) cbor"
proof -
  note p = ok [unfolded providers_ok_def shared_providers_def same_providers_def]
  obtain buf nb where b: "pe_ser penv (CborMap [(CborInt (uint PEER_REQ_KEY_PAYLOAD), CborBytes (n @ pe_seal penv psk n PAIRING_REQUEST_AAD cbor))]) = Inr buf"
      "encode_frame \<lparr>key_hint = key_hint_from_psk psk (pe_sha penv), msg_type = MSG_PEER_REQUEST, nonce = from_be_bytes nb\<rparr> buf psk (pe_seal penv) (pe_sha penv) = Inr frame"
    using e w(1) by (auto simp: encrypt_pairing_request_def Let_def res_bind_Inr_iff split: sum.splits) (metis old.sum.exhaust)
  have "length buf \<le> MAX_PAYLOAD_SIZE" using b(2) by (auto simp: encode_frame_def Let_def frame_consts split: if_splits)
  from encode_frame_opens [of "en_seal env" "en_open env" buf
      "\<lparr>key_hint = key_hint_from_psk psk (en_sha env), msg_type = MSG_PEER_REQUEST, nonce = from_be_bytes nb\<rparr>" psk "en_sha env"] this p b(2)
  obtain d where "decode_frame frame = Inr d" "df_header d = \<lparr>key_hint = key_hint_from_psk psk (en_sha env), msg_type = MSG_PEER_REQUEST, nonce = from_be_bytes nb\<rparr>"
      "open_frame d psk (en_open env) (en_sha env) = Inr buf" by auto
  moreover have "open_pairing_request genv psk buf = parse_pairing_request (en_de env) cbor"
    using sealed_payload_opens [of "pe_ser penv" genv "pe_seal penv" n cbor psk buf] p w(2) c b(1) by simp
  ultimately show ?thesis by blast
qed

lemma request_parsed:
  assumes "cbor_faithful ser de" and "request_ok node_id psk ch sensors ts" and "gateway_accepts node_id sensors"
    and "encode_pairing_request ser sha node_id psk ch sensors ts = Inr b"
  shows "parse_pairing_request de b = Some \<lparr>pq_node_id = node_id, pq_node_key_hint = key_hint_from_psk psk sha, pq_node_psk = psk,
    pq_rf_channel = ch, pq_timestamp = of_int ts, pq_sensors = sensors\<rparr>"
proof -
  let ?v = "pairing_request_value sha node_id psk ch sensors ts"
  obtain b' where b': "ser ?v = Inr b'" "de b' = Inr ?v" using cbor_faithfulE [OF assms(1) request_value_wf [OF assms(2)]] by blast
  then have "de b = Inr ?v" using assms(4) by (simp add: encode_pairing_request_def)
  from gateway_reads_request [OF assms(2), of de b sha, OF this] assms(3) show ?thesis by simp
qed

section \<open>The gateway registers the node\<close>

text \<open>The request in a frame is accepted: the phone that sealed it is the only one with its hint.\<close>

context phone_registry
begin

lemma request_registered:
  assumes ok: "providers_ok env" "same_providers env genv" "ge_storage genv = api" "ack_fits env" "ok (gw_storage g)"
    and d: "decode_frame (fi_raw f) = Inr d" "msg_type (df_header d) = MSG_PEER_REQUEST"
      "open_frame d (ph_psk phone) (en_open env) (en_sha env) = Inr p" "open_pairing_request genv (ph_psk phone) p = Some pr"
    and ph: "filter (\<lambda>p. ph_key_hint p = key_hint (df_header d)) (phones (gw_storage g)) = [phone]" "ph_status phone = Active"
    and pr: "abs_diff (unat (wall_secs f)) (unat (pq_timestamp pr)) \<le> MAX_TIMESTAMP_DRIFT_S"
      "pq_node_key_hint pr = key_hint_from_psk (pq_node_psk pr) (en_sha env)" "view (gw_storage g) (pq_node_id pr) = None"
  shows "\<exists>ack b d' g'. process_frame genv f g = (Some ack, g') \<and>
    view (gw_storage g') = (view (gw_storage g))(pq_node_id pr \<mapsto> pairing_record pr (ph_phone_id phone)) \<and>
    decode_frame ack = Inr d' \<and> df_header d' = \<lparr>key_hint = pq_node_key_hint pr, msg_type = MSG_PEER_ACK, nonce = nonce (df_header d)\<rparr> \<and>
    open_frame d' (pq_node_psk pr) (en_open env) (en_sha env) = Inr b \<and> en_de env b = Inr peer_ack_value"
proof -
  note p = ok(1) [unfolded providers_ok_def] ok(2) [unfolded same_providers_def]
  have phone: "find_phone genv d g = Some (phone, p)"
    using phones_by_hint [OF ok(5)] ph d(3) ok(3) p by (simp add: find_phone_def phone_key_def)
  obtain q s' where q: "sa_insert_node_if_not_exists api (pairing_record pr (ph_phone_id phone)) (gw_storage g) = (q, s')" by (meson surj_pair)
  obtain x where x: "q = Inr x" using insert_phones [OF ok(5) q] by blast
  have v: "x" "view s' = (view (gw_storage g))(pq_node_id pr \<mapsto> pairing_record pr (ph_phone_id phone))"
    using insert_view [OF ok(5) q] x pr(3) by (auto split: if_splits)
  then have reg: "register_node genv (pairing_record pr (ph_phone_id phone)) g = (True, g\<lparr>gw_storage := s'\<rparr>)"
    using q x ok(3) by (simp add: register_node_def on_store_def)
  let ?h = "\<lparr>key_hint = pq_node_key_hint pr, msg_type = MSG_PEER_ACK, nonce = nonce (df_header d)\<rparr>"
  obtain b where b: "en_ser env peer_ack_value = Inr b" "length b \<le> MAX_PAYLOAD_SIZE" using ok(4) by (auto simp: ack_fits_def)
  have "cbor_wf peer_ack_value" by (simp add: peer_ack_value_def PEER_ACK_KEY_STATUS_def)
  with cbor_faithfulE [of "en_ser env" "en_de env"] p b(1) have de: "en_de env b = Inr peer_ack_value" by force
  from encode_frame_opens [of "en_seal env" "en_open env" b ?h "pq_node_psk pr" "en_sha env"] p b(2)
  obtain ack d' where "encode_frame ?h b (pq_node_psk pr) (en_seal env) (en_sha env) = Inr ack" "decode_frame ack = Inr d'" "df_header d' = ?h"
      "open_frame d' (pq_node_psk pr) (en_open env) (en_sha env) = Inr b" by auto
  moreover from this(1) have "process_frame genv f g = (Some ack, g\<lparr>gw_storage := s'\<rparr>)"
    using d phone reg pr(1,2) b(1) p by (simp add: process_frame_def handle_peer_request_def encode_response_def not_less)
  ultimately show ?thesis using v(2) de by auto
qed

end

section \<open>The node takes the acknowledgement\<close>

text \<open>A driver that reports success for every write, removal and read.\<close>

definition nvs_reliable :: "nvs_driver \<Rightarrow> bool" where
  "nvs_reliable drv \<longleftrightarrow> nvs_stores drv \<and> (\<forall>k v n. fst (drv_set_u32 drv k v n)) \<and> (\<forall>k b n. fst (drv_set_blob drv k b n)) \<and>
     (\<forall>k n. fst (drv_remove drv k n)) \<and> (\<forall>k n. drv_blob_fault drv k n = None)"

lemma reliable_writes:
  assumes "nvs_reliable drv"
  shows "\<exists>s'. set_u32 drv k v err s = (Inr (), s')" "\<exists>s'. set_blob drv k b err s = (Inr (), s')" "\<exists>s'. remove_key drv k err s = (Inr (), s')"
  using assms by (auto simp: nvs_reliable_def set_u32_def set_blob_def remove_key_def split: prod.split) (metis fst_conv)+

lemma ack_verified:
  assumes "decode_frame ack = Inr d" and "msg_type (df_header d) = MSG_PEER_ACK" and "nonce (df_header d) = n"
    and "open_frame d (id_psk ident) (en_open env) (en_sha env) = Inr b" and "en_de env b = Inr peer_ack_value"
  shows "verify_peer_ack env ident n ack = Inr ()"
  using assms by (simp add: verify_peer_ack_def peer_ack_value_def ack_field_def to_unsigned_def PEER_ACK_KEY_STATUS_def PEER_ACK_STATUS_OK_def)

lemma exchange_completes:
  assumes "nvs_reliable drv" and "decode_frame frame = Inr d" and "msg_type (df_header d) = MSG_PEER_REQUEST"
    and "verify_peer_ack env ident (nonce (df_header d)) ack = Inr ()" and "rx_script w = [RxFrame dt ack]" and "tx_script w = []"
  shows "\<exists>w' s'. peer_request_exchange drv env ident frame (w, s) = (Inr True, (w', s')) \<and> sent w' = sent w @ [frame] \<and>
    read_reg_complete s' \<and> read_key s' = read_key s \<and> read_channel s' = read_channel s"
proof -
  obtain s' where s': "write_reg_complete drv True s = (Inr (), s')" using reliable_writes(1) [OF assms(1)] unfolding write_reg_complete_def by blast
  have at: "nvs_stores drv" using assms(1) by (simp add: nvs_reliable_def)
  have "u32_at ''reg_complete'' s' = Some 1" using set_u32_stored [OF at] s' by (auto simp: write_reg_complete_def)
  moreover have keep: "u32_at ''magic'' s' = u32_at ''magic'' s" "u32_at ''key_hint'' s' = u32_at ''key_hint'' s"
      "blob_at ''psk'' s' = blob_at ''psk'' s" "u32_at ''channel'' s' = u32_at ''channel'' s"
    using touchesD [OF touches_storage_ops(5) [OF nvs_stores_ok [OF at]] s'] by auto
  ultimately have "read_reg_complete s' \<and> read_key s' = read_key s \<and> read_channel s' = read_channel s"
    unfolding read_key_def read_channel_def keep by (simp add: read_reg_complete_def)
  moreover have "\<exists>w'. peer_request_exchange drv env ident frame (w, s) = (Inr True, (w', s')) \<and> sent w' = sent w @ [frame]"
    using assms(2-6) s'
    by (subst peer_request_exchange_def) (simp add: build_peer_request_frame_def radio_send_def peer_ack_loop.simps radio_recv_def PEER_ACK_TIMEOUT_MS_def)
  ultimately show ?thesis by blast
qed

section \<open>The node is provisioned\<close>

text \<open>The layout the phone sends with the provisioning, if any.\<close>

definition sendable_layout :: "phone_env \<Rightarrow> board_layout option \<Rightarrow> bytes option \<Rightarrow> bool" where
  "sendable_layout penv layout lc \<longleftrightarrow>
     (case layout of
        None \<Rightarrow> lc = None
      | Some l \<Rightarrow> layout_validate l = Inr () \<and> validate_supported_battery_adc l = Inr () \<and>
          (\<exists>b. encode_board_layout_cbor (pe_ser penv) l = Inr b \<and> lc = Some b \<and> b \<noteq> [] \<and> length b \<le> 0xF000))"

definition wanted_layout :: "board_layout option \<Rightarrow> provisioned_board_layout" where
  "wanted_layout layout = (case layout of None \<Rightarrow> Absent | Some l \<Rightarrow> Provided l)"

lemma be16_bytes: "\<exists>a b. be16 w = [a, b] \<and> from_be_bytes [a, b] = w"
proof -
  obtain a b where "be16 w = [a, b]" using be16.length_enc [of w] by (cases "be16 w"; cases "tl (be16 w)") auto
  then show ?thesis using be16.dec_enc [of w] by auto
qed

lemma provision_payload_parsed:
  assumes "cbor_rest_faithful (pe_ser penv) der" and "length psk = 32" and "valid_channel ch" and "length frame \<le> PEER_PAYLOAD_MAX_LEN"
    and "sendable_layout penv layout lc"
  shows "parse_node_provision der (provision_payload hint psk ch frame lc) =
    Inr \<lparr>np_key_hint = hint, np_psk = psk, np_rf_channel = ch, np_encrypted_payload = frame, np_board_layout = wanted_layout layout\<rparr>"
proof -
  obtain a b where ab: "be16 hint = [a, b]" "from_be_bytes [a, b] = hint" using be16_bytes by blast
  obtain c d where cd: "be16 (of_nat (length frame)) = [c, d]" "from_be_bytes [c, d] = (of_nat (length frame) :: u16)" using be16_bytes by blast
  have n: "unat (of_nat (length frame) :: u16) = length frame" using assms(4) by (simp add: unat_of_nat PEER_PAYLOAD_MAX_LEN_def)
  define rest where "rest = (case lc of Some x \<Rightarrow> x | None \<Rightarrow> [])"
  have body: "provision_payload hint psk ch frame lc = [a, b] @ psk @ [ch, c, d] @ frame @ rest"
    by (simp add: provision_payload_def ab cd rest_def split: option.split)
  have "rest = [] \<and> wanted_layout layout = Absent \<or> rest \<noteq> [] \<and> (\<exists>l. decode_board_layout_cbor der rest = Inr l \<and> wanted_layout layout = Provided l)"
    using assms(5) layout_roundtrip [OF assms(1)] by (fastforce simp: sendable_layout_def wanted_layout_def rest_def split: option.splits)
  moreover have "drop (37 + length frame) (a # b # psk @ ch # c # d # frame @ rest) = rest"
    using assms(2) by (simp add: drop_Cons')
  ultimately show ?thesis
    using assms(2-4) n ab(2) cd(2)
    by (auto simp: parse_node_provision_def body NODE_PROVISION_MIN_LEN_def Let_def nth_append)
qed

lemma reliable_layout:
  assumes "nvs_reliable drv" and "encode_board_layout_cbor ser l = Inr b" shows "\<exists>s'. write_board_layout drv ser l s = (Inr (), s')"
proof -
  note w = reliable_writes [OF assms(1)]
  have pins: "\<exists>s'. restore_legacy_i2c0_pins drv sda scl t = (Inr (), s')" for sda scl t
  proof -
    obtain s1 where "(case sda of Some pin \<Rightarrow> set_u32 drv ''i2c0_sda'' (ucast pin) ''legacy i2c0_sda write failed''
        | None \<Rightarrow> remove_key drv ''i2c0_sda'' ''legacy i2c0_sda erase failed'') t = (Inr (), s1)"
      using w(1,3) by (cases sda) (simp, blast, simp, blast)
    moreover obtain s2 where "(case scl of Some pin \<Rightarrow> set_u32 drv ''i2c0_scl'' (ucast pin) ''legacy i2c0_scl write failed''
        | None \<Rightarrow> remove_key drv ''i2c0_scl'' ''legacy i2c0_scl erase failed'') s1 = (Inr (), s2)"
      using w(1,3) by (cases scl) (simp, blast, simp, blast)
    ultimately show ?thesis by (simp add: restore_legacy_i2c0_pins_def st_seq_def st_bind_def)
  qed
  obtain s1 where 1: "set_blob drv ''board_layout'' b ''board_layout write failed'' s = (Inr (), s1)" using w(2) by blast
  obtain s2 where "restore_legacy_i2c0_pins drv (i2c0_sda l) (i2c0_scl l) s1 = (Inr (), s2)" using pins by blast
  moreover have "\<exists>p. read_blob_exact drv ''board_layout'' s = Inr p" using assms(1) by (simp add: nvs_reliable_def read_blob_exact_def)
  ultimately show ?thesis using 1 assms(2) by (auto simp: write_board_layout_def split: prod.split)
qed

lemma reliable_provision:
  assumes r: "nvs_reliable drv" and f: "cbor_rest_faithful ser der" and p: "parse_node_provision der body = Inr p"
  shows "\<exists>s'. handle_node_provision drv ser der p s = (NODE_ACK_SUCCESS, s') \<and> provisioned der p (stored_layout der s) s'"
proof -
  note w = reliable_writes [OF r]
  have at: "nvs_stores drv" using r by (simp add: nvs_reliable_def)
  note pp = parsed_provision [OF p]
  have "\<exists>s'. erase_key drv s = (Inr (), s')"
    using w(3) [of "''psk''" "''erase psk failed''"] w(3) [of "''key_hint''" "''erase key_hint failed''"] w(3) [of "''magic''" "''erase magic failed''"]
    unfolding erase_key_def st_seq_def st_bind_Inr by blast
  then have "read_key (ignoring (erase_key drv) s) = None"
    using no_magic_no_key [OF erase_key_unpairs [OF nvs_stores_ok [OF at]]] by (auto simp: ignoring_def)
  moreover obtain s1 where "set_blob drv ''psk'' (np_psk p) ''psk write failed'' (ignoring (erase_key drv) s) = (Inr (), s1)" using w(2) by blast
  moreover obtain s2 where "set_u32 drv ''key_hint'' (ucast (np_key_hint p)) ''key_hint write failed'' s1 = (Inr (), s2)" using w(1) by blast
  moreover obtain s3 where "set_u32 drv ''magic'' MAGIC_VALUE ''magic write failed'' s2 = (Inr (), s3)" using w(1) by blast
  ultimately have 1: "write_key drv (np_key_hint p) (np_psk p) (ignoring (erase_key drv) s) = (Inr (), s3)"
    by (simp add: write_key_def st_seq_def st_bind_def)
  obtain s4 where 2: "write_peer_payload drv (np_encrypted_payload p) s3 = (Inr (), s4)"
    using w(2) [of "''peer_payload''" "np_encrypted_payload p" "''peer_payload write failed''" s3] pp
    by (auto simp: write_peer_payload_def)
  obtain s5 where 3: "write_reg_complete drv False s4 = (Inr (), s5)" using w(1) unfolding write_reg_complete_def by blast
  obtain s6 where 4: "write_channel drv (np_rf_channel p) s5 = (Inr (), s6)"
    using w(1) [of "''channel''" "ucast (np_rf_channel p)" "''channel write failed''" s5] pp
    by (auto simp: write_channel_def valid_channel_def not_less [symmetric])
  have layout: "\<exists>b. encode_board_layout_cbor ser l = Inr b" if "layout_validate l = Inr ()" for l using layout_roundtrip [OF f that] by blast
  have "fst (store_layout drv ser der (read_channel s5) (np_board_layout p) s6) = NODE_ACK_SUCCESS"
  proof (cases "np_board_layout p")
    case Absent
    obtain s' where "write_board_layout drv ser LEGACY_COMPAT s6 = (Inr (), s')"
      using layout [OF presets_valid(1)] reliable_layout [OF r] by blast
    with Absent show ?thesis by (simp add: store_layout_def)
  next
    case (Provided l)
    then obtain s' where "write_board_layout drv ser l s6 = (Inr (), s')"
      using pp layout [of l] reliable_layout [OF r] by blast
    with Provided show ?thesis by (simp add: store_layout_def Let_def)
  qed
  then obtain s' where "handle_node_provision drv ser der p s = (NODE_ACK_SUCCESS, s')"
    using 1 2 3 4 by (cases "store_layout drv ser der (read_channel s5) (np_board_layout p) s6") (simp add: handle_node_provision_def)
  with handle_node_provision_cases [OF at f p this] show ?thesis by (auto simp: NODE_ACK_SUCCESS_def NODE_ACK_STORAGE_ERROR_def)
qed

section \<open>The phone is registered\<close>

lemma text_of_chars [simp]: "text_of (map of_char s) = s"
  by (simp add: text_of_def comp_def)

lemma checked_add_max: "(w :: u32) \<noteq> - 1 \<Longrightarrow> checked_add w 1 = Some (w + 1)"
  using uint_bounded [of w] word_uint_eq_iff [of w "- 1"]
  by (simp add: checked_add_def unsigned_minus_1_eq_mask mask_eq_exp_minus_1)

lemma phone_registered:
  assumes w: "bg_controller bg = Some c" "fst (is_window_open now c)"
    and p: "length psk = 32" "length label \<le> 64" "utf8_valid (map of_char label)" "valid_channel ch"
    and m: "encode_ble_envelope REGISTER_PHONE (register_body psk label) = Some msg"
    and s: "ms_next_phone_id (bg_storage bg) \<noteq> - 1" and sha: "pe_sha penv = sha"
  shows "\<exists>m bg' i. handle_ble_recv sha sign identity store_phone_psk ch now wall msg bg = (Some m, bg') \<and>
    accept_registration penv psk label m = Inr \<lparr>pt_phone_psk = psk, pt_phone_key_hint = key_hint_from_psk psk sha, pt_rf_channel = ch, pt_phone_label = label\<rparr> \<and>
    ms_phone_psks (bg_storage bg') = ms_phone_psks (bg_storage bg) @ [(phone_record sha psk label wall)\<lparr>ph_phone_id := i\<rparr>] \<and>
    mem_view (bg_storage bg') = mem_view (bg_storage bg) \<and> (mem_ok (bg_storage bg) \<longrightarrow> mem_ok (bg_storage bg'))"
proof -
  obtain c1 where c1: "is_window_open now c = (True, c1)" using w(2) by (metis prod.collapse)
  have "length (register_body psk label) \<le> 0xFFFF" using p by (simp add: register_body_def)
  from envelope_roundtrip [OF this, of REGISTER_PHONE] m
  have parse: "parse_ble_envelope msg = Some (REGISTER_PHONE, register_body psk label)" by simp
  let ?r = "phone_record sha psk label wall"
  obtain i s' where st: "store_phone_psk ?r (bg_storage bg) = (Inr i, s')"
    using p(2) s by (auto simp: store_phone_psk_def label_too_long_def push_phone_def phone_record_def PHONE_LABEL_MAX_BYTES_def
        checked_add_max)
  have len: "unat (of_nat (length label) :: u8) = length label" using p(2) by (simp add: unat_of_nat)
  obtain m where reply: "encode_ble_envelope BLE_MSG_PHONE_REGISTERED [0, ch, sha psk ! 30, sha psk ! 31] = Some m"
      "parse_ble_envelope m = Some (BLE_MSG_PHONE_REGISTERED, [0, ch, sha psk ! 30, sha psk ! 31])"
    using envelope_roundtrip [of "[0, ch, sha psk ! 30, sha psk ! 31]" BLE_MSG_PHONE_REGISTERED] by auto
  have "\<exists>bg'. handle_register_phone sha store_phone_psk ch now wall (register_body psk label) bg = (Some m, bg') \<and> bg_storage bg' = s'"
    using w(1) c1 p(1-3) len st reply(1)
    by (simp add: handle_register_phone_def check_window_def register_body_def nth_append Let_def PHONE_LABEL_MAX_BYTES_def)
  then obtain bg' where "handle_ble_recv sha sign identity store_phone_psk ch now wall msg bg = (Some m, bg')" "bg_storage bg' = s'"
    using parse by (auto simp: handle_ble_recv_def REGISTER_PHONE_def BLE_MSG_REGISTER_PHONE_def BLE_MSG_REQUEST_GW_INFO_def)
  moreover have "accept_registration penv psk label m =
      Inr \<lparr>pt_phone_psk = psk, pt_phone_key_hint = key_hint_from_psk psk sha, pt_rf_channel = ch, pt_phone_label = label\<rparr>"
    using reply(2) [folded envelope_copies(1)] p(4) sha
    by (simp add: accept_registration_def BLE_MSG_PHONE_REGISTERED_def MSG_ERROR_def PHONE_REGISTERED_def validate_rf_channel_def
        compute_key_hint_def key_hint_from_psk_def Let_def)
  moreover have "ms_phone_psks s' = ms_phone_psks (bg_storage bg) @ [?r\<lparr>ph_phone_id := i\<rparr>] \<and> mem_view s' = mem_view (bg_storage bg) \<and>
      (mem_ok (bg_storage bg) \<longrightarrow> mem_ok s')"
    using st p(2) by (auto simp: store_phone_psk_def push_phone_def mem_ok_def mem_view_def split: if_splits option.splits)
  ultimately show ?thesis by blast
qed

lemma provision_answered:
  assumes r: "nvs_reliable drv" and f: "cbor_rest_faithful ser der"
    and p: "parse_node_provision der body = Inr p" and m: "encode_ble_envelope NODE_PROVISION body = Some msg" "length body \<le> 0xFFFF"
  shows "\<exists>m s'. node_answer drv ser der msg s = (Some m, s') \<and> accept_node_ack m = Inr AckSuccess \<and> provisioned der p (stored_layout der s) s'"
proof -
  have parse: "parse_ble_envelope msg = Some (NODE_PROVISION, body)" using envelope_roundtrip [OF m(2), of NODE_PROVISION] m(1) by simp
  obtain s' where s': "handle_node_provision drv ser der p s = (NODE_ACK_SUCCESS, s')" "provisioned der p (stored_layout der s) s'"
    using reliable_provision [OF r f p] by blast
  obtain a where a: "encode_ble_envelope BLE_NODE_ACK [NODE_ACK_SUCCESS] = Some a" "parse_ble_envelope a = Some (BLE_NODE_ACK, [NODE_ACK_SUCCESS])"
    using envelope_roundtrip [of "[NODE_ACK_SUCCESS]" BLE_NODE_ACK] by auto
  have "node_answer drv ser der msg s = (Some a, s')"
    using parse p s'(1) a(1) by (simp add: node_answer_def gatt_write_def encode_node_ack_def NODE_PROVISION_def BLE_NODE_PROVISION_def)
  moreover have "accept_node_ack a = Inr AckSuccess"
    using a(2) [folded envelope_copies(1)]
    by (simp add: accept_node_ack_def BLE_NODE_ACK_def MSG_ERROR_def NODE_ACK_def parse_node_ack_def NODE_ACK_SUCCESS_def ack_from_byte_def)
  ultimately show ?thesis using s'(2) by blast
qed

section \<open>The whole onboarding\<close>

text \<open>What the phone is given and draws: keys, nonce, time, and a request that fits.\<close>

definition onboarding_input ::
    "phone_env \<Rightarrow> phone_world \<Rightarrow> phone_world \<Rightarrow> bytes \<Rightarrow> bytes \<Rightarrow> string \<Rightarrow> u8 \<Rightarrow> string \<Rightarrow> sensor_descriptor list \<Rightarrow> nat \<Rightarrow> bytes \<Rightarrow> bool" where
  "onboarding_input penv wld1 wld2 ppsk npsk label ch node_id sensors secs frame \<longleftrightarrow>
     pw_psk wld1 = Inr ppsk \<and> length ppsk = 32 \<and> length label \<le> 64 \<and> utf8_valid (map of_char label) \<and>
     pw_psk wld2 = Inr npsk \<and> pw_unix_secs wld2 = Some secs \<and> (\<exists>n. pw_inner_nonce wld2 = Inr n \<and> length n = 12) \<and>
     request_ok node_id npsk ch sensors (int secs) \<and> gateway_accepts node_id sensors \<and> validate_node_id node_id = Inr () \<and>
     (\<exists>cbor. encode_pairing_request (pe_ser penv) (pe_sha penv) node_id npsk ch sensors (int secs) = Inr cbor \<and> length cbor < 2 ^ 32 \<and>
        encrypt_pairing_request penv wld2 ppsk cbor = Inr frame \<and> length frame \<le> PEER_PAYLOAD_MAX_LEN)"

text \<open>The two exchanges over Bluetooth.\<close>

lemma phase1_succeeds:
  assumes "bg_controller bg = Some c" "fst (is_window_open now c)" "ms_next_phone_id (bg_storage bg) \<noteq> - 1" "mem_ok (bg_storage bg)"
    and "pe_sha penv = sha" "valid_channel ch"
    and "pw_psk wld = Inr psk" "length psk = 32" "length label \<le> 64" "utf8_valid (map of_char label)"
  shows "\<exists>art bg' i. pair_with_gateway (peer_transport 247 (handle_ble_recv sha sign identity store_phone_psk ch now wall)) penv wld a label (bg, []) = (Inr art, (bg', [])) \<and>
    pt_phone_psk art = psk \<and> pt_rf_channel art = ch \<and>
    ms_phone_psks (bg_storage bg') = ms_phone_psks (bg_storage bg) @ [(phone_record sha psk label wall)\<lparr>ph_phone_id := i\<rparr>] \<and>
    mem_view (bg_storage bg') = mem_view (bg_storage bg) \<and> mem_ok (bg_storage bg')"
proof -
  have "length (register_body psk label) \<le> 0xFFFF" using assms by (simp add: register_body_def)
  then obtain msg where msg: "encode_ble_envelope REGISTER_PHONE (register_body psk label) = Some msg" using envelope_roundtrip by blast
  from phone_registered [OF assms(1,2,8,9,10,6) msg assms(3,5)] assms(4)
  obtain m bg' i where ph: "handle_ble_recv sha sign identity store_phone_psk ch now wall msg bg = (Some m, bg')"
      "accept_registration penv psk label m =
        Inr \<lparr>pt_phone_psk = psk, pt_phone_key_hint = key_hint_from_psk psk sha, pt_rf_channel = ch, pt_phone_label = label\<rparr>"
      "ms_phone_psks (bg_storage bg') = ms_phone_psks (bg_storage bg) @ [(phone_record sha psk label wall)\<lparr>ph_phone_id := i\<rparr>]"
      "mem_view (bg_storage bg') = mem_view (bg_storage bg)" "mem_ok (bg_storage bg')" by blast
  have "handle_ble_recv sha sign identity store_phone_psk ch now wall msg (fst (bg, [] :: bytes list)) = (Some m, bg')" using ph(1) by simp
  from gateway_link.pair_link [OF _ assms(9,7,8) msg this, of penv a] ph(2-5) show ?thesis by (auto simp: prod_eq_iff)
qed

lemma phase2_succeeds:
  assumes r: "nvs_reliable drv" "cbor_rest_faithful (pe_ser penv) der"
    and i: "validate_node_id node_id = Inr ()" "pw_psk wld = Inr psk" "length psk = 32" "valid_channel (pt_rf_channel art)"
      "phone_timestamp wld = Inr ts" "sendable_layout penv layout lc"
    and c: "encode_pairing_request (pe_ser penv) (pe_sha penv) node_id psk (pt_rf_channel art) sensors ts = Inr cbor"
      "encrypt_pairing_request penv wld (pt_phone_psk art) cbor = Inr frame" "length frame \<le> PEER_PAYLOAD_MAX_LEN"
  shows "\<exists>s1. provision_node (peer_transport 247 (node_answer drv (pe_ser penv) der)) penv wld art a node_id sensors layout (s, []) = (Inr AckSuccess, (s1, [])) \<and>
    provisioned der \<lparr>np_key_hint = key_hint_from_psk psk (pe_sha penv), np_psk = psk, np_rf_channel = pt_rf_channel art,
      np_encrypted_payload = frame, np_board_layout = wanted_layout layout\<rparr> (stored_layout der s) s1"
proof -
  let ?hint = "compute_key_hint (pe_sha penv) psk"
  let ?body = "provision_payload ?hint psk (pt_rf_channel art) frame lc"
  note p = provision_payload_parsed [OF r(2) i(3,4) c(3) i(6), of ?hint]
  have "length (case lc of None \<Rightarrow> [] | Some b \<Rightarrow> b) \<le> 0xF000" using i(6) by (auto simp: sendable_layout_def split: option.splits)
  then have len: "length ?body \<le> 0xFFFF" using i(3) c(3) by (simp add: provision_payload_def PEER_PAYLOAD_MAX_LEN_def split: option.splits)
  then obtain msg where msg: "encode_ble_envelope NODE_PROVISION ?body = Some msg" using envelope_roundtrip by blast
  obtain m s1 where m: "node_answer drv (pe_ser penv) der msg (fst (s, [] :: bytes list)) = (Some m, s1)" "accept_node_ack m = Inr AckSuccess"
      "provisioned der \<lparr>np_key_hint = ?hint, np_psk = psk, np_rf_channel = pt_rf_channel art, np_encrypted_payload = frame,
        np_board_layout = wanted_layout layout\<rparr> (stored_layout der s) s1"
    using provision_answered [OF r p msg len, of s] by auto
  have lay: "case layout of None \<Rightarrow> lc = None
      | Some l \<Rightarrow> layout_validate l = Inr () \<and> validate_supported_battery_adc l = Inr () \<and>
          (\<exists>b. encode_board_layout_cbor (pe_ser penv) l = Inr b \<and> lc = Some b)"
    using i(6) by (auto simp: sendable_layout_def split: option.splits)
  have "length frame \<le> PHONE_PEER_PAYLOAD_MAX_LEN" using c(3) by (simp add: PHONE_PEER_PAYLOAD_MAX_LEN_def PEER_PAYLOAD_MAX_LEN_def)
  from node_link.provision_link [OF _ i(1) lay i(2,5) c(1,2) this msg m(1), of a] m(2,3) show ?thesis
    by (auto simp: prod_eq_iff key_hint_copies)
qed

text \<open>C2. Onboarding works from end to end. With the registration window open, a fresh phone key hint and a node
  name not in use, the phone's pairing succeeds; with what it got it provisions the node over Bluetooth,
  which acknowledges; the request the node stored, sent as its PEER_REQUEST, is accepted by the gateway
  within a day of the phone's clock; the answer makes the node mark its registration complete. Then the
  gateway holds a record of the node with exactly the key, key hint, channel and sensors that phone and
  node hold, and no other record has changed.\<close>

theorem onboarding_end_to_end:
  assumes "providers_ok env" and "shared_providers penv env genv" and "cbor_rest_faithful (en_ser env) der" and "ack_fits env"
    and "ge_storage genv = mem_api" and "mem_ok (gw_storage g)" and "bg_storage bg = gw_storage g"
    and "bg_controller bg = Some c" and "fst (is_window_open now c)" and "ms_next_phone_id (gw_storage g) \<noteq> - 1"
    and "\<forall>p\<in>set (ms_phone_psks (gw_storage g)). ph_key_hint p \<noteq> key_hint_from_psk ppsk (en_sha env)"
    and "mem_view (gw_storage g) node_id = None"
    and "onboarding_input penv wld1 wld2 ppsk npsk label ch node_id sensors secs frame"
    and "sendable_layout penv layout lc" and "nvs_reliable drv"
    and "abs_diff (unat (wall_secs f)) secs \<le> MAX_TIMESTAMP_DRIFT_S" and "fi_raw f = frame" and "tx_script w = []"
  shows "\<exists>art bg' s1 ack g' w' s2 node ident.
    pair_with_gateway (peer_transport 247 (handle_ble_recv (en_sha env) sign identity store_phone_psk ch now wall)) penv wld1 a1 label (bg, [])
      = (Inr art, (bg', [])) \<and>
    provision_node (peer_transport 247 (node_answer drv (en_ser env) der)) penv wld2 art a2 node_id sensors layout (s, [])
      = (Inr AckSuccess, (s1, [])) \<and>
    load_identity s1 = Some ident \<and> read_peer_payload s1 = Some frame \<and> \<not> read_reg_complete s1 \<and>
    process_frame genv f (g\<lparr>gw_storage := bg_storage bg'\<rparr>) = (Some ack, g') \<and>
    peer_request_exchange drv env ident frame (w\<lparr>rx_script := [RxFrame dt ack]\<rparr>, s1) = (Inr True, (w', s2)) \<and>
    read_reg_complete s2 \<and> load_identity s2 = Some ident \<and> read_channel s2 = Some ch \<and>
    mem_view (gw_storage g') = (mem_view (gw_storage g))(node_id \<mapsto> node) \<and> holds_key node ident \<and> id_psk ident = npsk \<and>
    gn_rf_channel node = Some ch \<and> gn_sensors node = sensors"
proof -
  note inp = assms(13) [unfolded onboarding_input_def]
  note sh = assms(2) [unfolded shared_providers_def same_providers_def]
  let ?ident = "\<lparr>id_key_hint = key_hint_from_psk npsk (en_sha env), id_psk = npsk\<rparr>"
  obtain n cbor where n: "pw_inner_nonce wld2 = Inr n" "length n = 12"
      and cbor: "encode_pairing_request (en_ser env) (en_sha env) node_id npsk ch sensors (int secs) = Inr cbor" "length cbor < 2 ^ 32"
        "encrypt_pairing_request penv wld2 ppsk cbor = Inr frame" "length frame \<le> PEER_PAYLOAD_MAX_LEN"
    using inp sh by auto
  have ok: "valid_channel ch" "length npsk = 32" "phone_timestamp wld2 = Inr (int secs)" "request_ok node_id npsk ch sensors (int secs)"
    using inp by (auto simp: request_ok_def phone_timestamp_def)
  obtain art bg' i where one: "pair_with_gateway (peer_transport 247 (handle_ble_recv (en_sha env) sign identity store_phone_psk ch now wall)) penv wld1 a1 label (bg, []) = (Inr art, (bg', []))"
      "pt_phone_psk art = ppsk" "pt_rf_channel art = ch"
      "ms_phone_psks (bg_storage bg') = ms_phone_psks (gw_storage g) @ [(phone_record (en_sha env) ppsk label wall)\<lparr>ph_phone_id := i\<rparr>]"
      "mem_view (bg_storage bg') = mem_view (gw_storage g)" "mem_ok (bg_storage bg')"
    using phase1_succeeds [OF assms(8,9) _ _ _ ok(1), of penv "en_sha env" wld1 ppsk label sign identity wall a1] inp sh assms(6,7,10) by auto
  obtain s1 where two: "provision_node (peer_transport 247 (node_answer drv (en_ser env) der)) penv wld2 art a2 node_id sensors layout (s, []) = (Inr AckSuccess, (s1, []))"
      "provisioned der \<lparr>np_key_hint = key_hint_from_psk npsk (en_sha env), np_psk = npsk, np_rf_channel = ch,
        np_encrypted_payload = frame, np_board_layout = wanted_layout layout\<rparr> (stored_layout der s) s1"
    using phase2_succeeds [OF assms(15) _ _ _ ok(2) _ ok(3) assms(14), of der node_id art sensors cbor frame a2 s] inp sh one(2,3) assms(3) cbor ok(1) by auto
  \<comment> \<open>the node's request at the gateway\<close>
  let ?phone = "(phone_record (en_sha env) ppsk label wall)\<lparr>ph_phone_id := i\<rparr>" let ?g = "g\<lparr>gw_storage := bg_storage bg'\<rparr>"
  let ?pr = "\<lparr>pq_node_id = node_id, pq_node_key_hint = key_hint_from_psk npsk (en_sha env), pq_node_psk = npsk, pq_rf_channel = ch,
      pq_timestamp = of_int (int secs), pq_sensors = sensors\<rparr>"
  obtain d p nc where d: "decode_frame frame = Inr d" "df_header d = \<lparr>key_hint = key_hint_from_psk ppsk (en_sha env), msg_type = MSG_PEER_REQUEST, nonce = nc\<rparr>"
      "open_frame d ppsk (en_open env) (en_sha env) = Inr p" "open_pairing_request genv ppsk p = parse_pairing_request (en_de env) cbor"
    using phone_frame_opens [OF assms(1,2) n cbor(2,3)] by blast
  have "parse_pairing_request (en_de env) cbor = Some ?pr"
    using request_parsed [of "en_ser env" "en_de env", OF _ ok(4) _ cbor(1)] assms(1) inp by (auto simp: providers_ok_def)
  with d(4) have pr: "open_pairing_request genv (ph_psk ?phone) p = Some ?pr" by (simp add: phone_record_def)
  have sole: "filter (\<lambda>p. ph_key_hint p = key_hint (df_header d)) (ms_phone_psks (gw_storage ?g)) = [?phone]"
    using one(4) assms(11) d(2) by (auto simp: key_hint_copies(2) filter_empty_conv)
  have "unat (of_int (int secs) :: u64) = secs" using ok(4) by (simp add: request_ok_def unat_of_nat)
  then obtain ack b d' g' where three: "process_frame genv f ?g = (Some ack, g')"
      "mem_view (gw_storage g') = (mem_view (gw_storage g))(node_id \<mapsto> pairing_record ?pr i)" "decode_frame ack = Inr d'"
      "df_header d' = \<lparr>key_hint = key_hint_from_psk npsk (en_sha env), msg_type = MSG_PEER_ACK, nonce = nonce (df_header d)\<rparr>"
      "open_frame d' npsk (en_open env) (en_sha env) = Inr b" "en_de env b = Inr peer_ack_value"
    using mem_phones.request_registered [OF assms(1) _ assms(5,4), of ?g f d ?phone p ?pr] assms(2,12,16,17) d(1-3) pr sole one(5,6)
    by (auto simp: shared_providers_def phone_record_def)
  have v: "verify_peer_ack env ?ident (nonce (df_header d)) ack = Inr ()" using ack_verified [of ack d' _ ?ident env b] three(3-6) by simp
  obtain w' s2 where four: "peer_request_exchange drv env ?ident frame (w\<lparr>rx_script := [RxFrame dt ack]\<rparr>, s1) = (Inr True, (w', s2))"
      "read_reg_complete s2" "read_key s2 = read_key s1" "read_channel s2 = read_channel s1"
    using exchange_completes [OF assms(15) d(1) _ v, of "w\<lparr>rx_script := [RxFrame dt ack]\<rparr>" dt s1] d(2) assms(18) by auto
  have "load_identity s1 = Some ?ident" "read_peer_payload s1 = Some frame" "\<not> read_reg_complete s1" "read_channel s1 = Some ch"
    using two(2) by (simp_all add: provisioned_def load_identity_def)
  moreover have "load_identity s2 = load_identity s1" using four(3) by (simp add: load_identity_def)
  moreover have "holds_key (pairing_record ?pr i) ?ident" "gn_rf_channel (pairing_record ?pr i) = Some ch" "gn_sensors (pairing_record ?pr i) = sensors"
    by (simp_all add: holds_key_def pairing_record_def node_record_new_def)
  ultimately show ?thesis using one(1) two(1) three(1,2) four
    by (intro exI [of _ art] exI [of _ bg'] exI [of _ s1] exI [of _ ack] exI [of _ g'] exI [of _ w'] exI [of _ s2]
        exI [of _ "pairing_record ?pr i"] exI [of _ ?ident] conjI) simp_all
qed

text \<open>A gateway with an empty storage and an open window, a phone, and the node of the other examples.\<close>

definition demo_penv :: phone_env where
  "demo_penv = \<lparr>pe_seal = plain_seal, pe_open = plain_open, pe_sha = \<lambda>_. replicate 32 0, pe_ser = rfc_ser, pe_de = rfc_de, pe_der = rfc_der\<rparr>"

definition demo_world :: "bytes \<Rightarrow> phone_world" where
  "demo_world psk = \<lparr>pw_psk = Inr psk, pw_inner_nonce = Inr (replicate 12 0), pw_frame_nonce = Inr (replicate 8 0), pw_unix_secs = Some 5\<rparr>"

definition demo_transport :: "(mem_storage ble_gateway \<times> bytes list) ble_transport" where
  "demo_transport = peer_transport 247 (handle_ble_recv (\<lambda>_. replicate 32 0) id \<lparr>gi_seed = [], gi_gateway_id = [], gi_public_key = []\<rparr>
     store_phone_psk 6 20 99)"

definition demo_pairing_gateway :: "mem_storage ble_gateway" where
  "demo_pairing_gateway = \<lparr>bg_storage = mem_new, bg_window = window_new,
     bg_controller = Some (snd (open_window 10 60 ButtonOrigin controller_new))\<rparr>"

lemma demo_input:
  "\<exists>frame. onboarding_input demo_penv (demo_world (replicate 32 9)) (demo_world (replicate 32 7)) (replicate 32 9) (replicate 32 7) ''phone'' 6
     ''n1'' [] 5 frame"
proof -
  let ?v = "pairing_request_value (\<lambda>_. replicate 32 0) ''n1'' (replicate 32 7) 6 [] 5" let ?cbor = "rfc_encode ?v"
  have v: "compute_key_hint (\<lambda>_. replicate 32 0) (replicate 32 7) = 0" by (simp add: compute_key_hint_def from_be_bytes_def)
  have len: "length ?cbor \<le> 100" by (simp add: pairing_request_value_def rfc_head_def v)
  define buf where "buf = rfc_encode (CborMap [(CborInt (uint PEER_REQ_KEY_PAYLOAD),
      CborBytes (replicate 12 0 @ plain_seal (replicate 32 9) (replicate 12 0) PAIRING_REQUEST_AAD ?cbor))])"
  have buf: "length buf \<le> 175" using len by (simp add: buf_def rfc_head_def PEER_REQ_KEY_PAYLOAD_def plain_seal_def frame_consts)
  let ?h = "\<lparr>key_hint = key_hint_from_psk (replicate 32 9) (\<lambda>_. replicate 32 0), msg_type = MSG_PEER_REQUEST, nonce = from_be_bytes (replicate 8 0)\<rparr>"
  from encode_frame_opens [OF plain_aead(1,2), of buf ?h "replicate 32 9" "\<lambda>_. replicate 32 0"] buf
  obtain frame where fr: "encode_frame ?h buf (replicate 32 9) plain_seal (\<lambda>_. replicate 32 0) = Inr frame" "length frame = length buf + 27"
    by (auto simp: frame_consts)
  have "encrypt_pairing_request demo_penv (demo_world (replicate 32 7)) (replicate 32 9) ?cbor = Inr frame" "length frame \<le> 202"
    using fr buf by (simp_all add: encrypt_pairing_request_def demo_penv_def demo_world_def rfc_ser_def buf_def [symmetric] Let_def del: rfc_encode.simps)
  moreover have "validate_node_id ''n1'' = Inr ()" by (simp add: validate_node_id_def trim_visible visible_def)
  moreover have "utf8_valid (map of_char ''phone'')" by code_simp
  ultimately show ?thesis
    using len unfolding onboarding_input_def
    by (intro exI [of _ frame]) (simp add: demo_world_def demo_penv_def request_ok_def gateway_accepts_def is_ascii_def valid_channel_def
        encode_pairing_request_def rfc_ser_def PEER_PAYLOAD_MAX_LEN_def)
qed

theorem onboarding_end_to_end_witness:
  "\<exists>art bg' s1 f ack g'.
     pair_with_gateway demo_transport demo_penv (demo_world (replicate 32 9)) [1, 2, 3, 4, 5, 6] ''phone'' (demo_pairing_gateway, []) = (Inr art, (bg', [])) \<and>
     provision_node (peer_transport 247 (node_answer perfect_driver rfc_ser rfc_der)) demo_penv (demo_world (replicate 32 7)) art [1, 2, 3, 4, 5, 7] ''n1'' [] None
       (nd_storage demo_node, []) = (Inr AckSuccess, (s1, [])) \<and>
     process_frame demo_genv f (demo_gateway (bg_storage bg')) = (Some ack, g') \<and>
     map_option gn_psk (mem_view (gw_storage g') ''n1'') = Some (replicate 32 7)"
proof -
  obtain frame where i: "onboarding_input demo_penv (demo_world (replicate 32 9)) (demo_world (replicate 32 7)) (replicate 32 9) (replicate 32 7) ''phone'' 6
      ''n1'' [] 5 frame"
    using demo_input by blast
  have p: "shared_providers demo_penv demo_env demo_genv" "cbor_rest_faithful (en_ser demo_env) rfc_der" "ge_storage demo_genv = mem_api"
    using rfc_rest_faithful by (simp_all add: shared_providers_def same_providers_def demo_penv_def demo_env_def demo_genv_def)
  have a: "ack_fits demo_env" by (simp add: ack_fits_def demo_env_def rfc_ser_def peer_ack_value_def PEER_ACK_KEY_STATUS_def rfc_head_def frame_consts)
  have m: "mem_ok (gw_storage (demo_gateway mem_new))" "bg_storage demo_pairing_gateway = gw_storage (demo_gateway mem_new)"
      "bg_controller demo_pairing_gateway = Some (snd (open_window 10 60 ButtonOrigin controller_new))"
      "ms_next_phone_id (gw_storage (demo_gateway mem_new)) \<noteq> - 1" "mem_view (gw_storage (demo_gateway mem_new)) ''n1'' = None"
      "\<forall>p\<in>set (ms_phone_psks (gw_storage (demo_gateway mem_new))). ph_key_hint p \<noteq> key_hint_from_psk (replicate 32 9) (en_sha demo_env)"
    by (simp_all add: demo_gateway_def mem_new_def mem_ok_def mem_view_def demo_pairing_gateway_def)
  have w: "fst (is_window_open 20 (snd (open_window 10 60 ButtonOrigin controller_new)))" by (simp add: window_simps)
  have l: "sendable_layout demo_penv None None" "nvs_reliable perfect_driver"
      "abs_diff (unat (wall_secs (demo_frame_in frame))) 5 \<le> MAX_TIMESTAMP_DRIFT_S" "fi_raw (demo_frame_in frame) = frame" "tx_script (demo_radio []) = []"
    using perfect_driver_stores
    by (simp_all add: sendable_layout_def nvs_reliable_def perfect_driver_def abs_diff_def wall_secs_def demo_frame_in_def demo_radio_def)
  have g: "demo_gateway mem_new\<lparr>gw_storage := t\<rparr> = demo_gateway t" for t by (simp add: demo_gateway_def)
  have e: "en_sha demo_env = (\<lambda>_. replicate 32 0)" "en_ser demo_env = rfc_ser" by (simp_all add: demo_env_def)
  from onboarding_end_to_end [OF demo_ok p(1,2) a p(3) m(1,2,3) w m(4,6,5) i l, of id "\<lparr>gi_seed = [], gi_gateway_id = [], gi_public_key = []\<rparr>" 99
      "[1, 2, 3, 4, 5, 6]" "[1, 2, 3, 4, 5, 7]" "nd_storage demo_node" 0,
      unfolded g e, folded demo_transport_def]
  show ?thesis by (elim exE conjE) (intro exI conjI, assumption+, simp add: holds_key_def)
qed

end
