(* ===== verification/Gateway_Registry.thy ===== *)
theory Gateway_Registry
  imports End_To_End
begin

text \<open>
  The registry under the frames of the radio: whatever a frame is, the registry stays well formed, no node is
  removed, and a registered node keeps its name and its key. Recovery of escrowed keys is the one handler
  that writes keys: it replaces the record of a node by a fresh one with the escrowed key (\<open>promoted\<close>), when a
  frame under a key hint that no registered node has opens under that key.
\<close>

section \<open>Steps of the storage\<close>

lemma quiet_steps:
  "gw_storage (report_missing_hint f hint g) = gw_storage g" "gw_storage (drop_pending i p g) = gw_storage g"
  "gw_storage (purge_pending i ph g) = gw_storage g" "gw_storage (on_sessions k g) = gw_storage g"
  "gw_storage (enter_transfer i cmd g) = gw_storage g" "gw_storage (snd (wake_session f node h g)) = gw_storage g"
  by (auto simp: report_missing_hint_def drop_pending_def purge_pending_def on_sessions_def enter_transfer_def wake_session_def Let_def
      split: prod.splits option.splits if_splits)

lemma select_command_storage: "select_command env node ph abi g = (r, g') \<Longrightarrow> gw_storage g' = gw_storage g"
  by (auto simp: select_command_def select_ephemeral_def quiet_steps split: option.splits sum.splits prod.splits if_splits)

lemma handle_app_data_storage: "handle_app_data env f node h blob g = (r, g') \<Longrightarrow> gw_storage g' = gw_storage g"
  by (auto simp: handle_app_data_def Let_def quiet_storage split: option.splits handler_message.splits if_splits sum.splits)

text \<open>The frame \<open>f\<close> promotes node \<open>i\<close> to the key and hint of \<open>n\<close>: no registered node has the frame's key hint, the key
  is escrowed for \<open>i\<close> under the current master key, and it opens the frame.\<close>

definition promoted :: "'s gateway_env \<Rightarrow> frame_in \<Rightarrow> 's gateway \<Rightarrow> string \<Rightarrow> node_record \<Rightarrow> bool" where
  "promoted env f g i n \<longleftrightarrow>
     (\<exists>ra kid d cands enc payload. ge_recovery env = Some ra \<and> gw_master_key_id g = Some kid \<and> decode_frame (fi_raw f) = Inr d \<and>
        sa_get_nodes_by_key_hint (ge_storage env) (key_hint (df_header d)) (gw_storage g) = Inr [] \<and>
        ra_lookup ra (key_hint (df_header d)) kid MAX_TRIAL_CANDIDATES (gw_storage g) = Inr cands \<and> (i, enc) \<in> set cands \<and>
        ra_decrypt ra (gw_storage g) i enc = Some (gn_psk n) \<and> gn_key_hint n = key_hint (df_header d) \<and>
        open_frame d (gn_psk n) (ge_open env) (ge_sha env) = Inr payload)"

text \<open>The escrowed keys are a table of their own: deleting one does not change the registry.\<close>

definition escrow_apart :: "('s \<Rightarrow> bool) \<Rightarrow> ('s \<Rightarrow> string \<Rightarrow> node_record option) \<Rightarrow> 's recovery_api \<Rightarrow> bool" where
  "escrow_apart ok view ra \<longleftrightarrow> (\<forall>hint i s r s'. ok s \<longrightarrow> ra_delete ra hint i s = (r, s') \<longrightarrow> ok s' \<and> view s' = view s)"

context node_registry
begin

text \<open>A step keeps the registry well formed and every node's key.\<close>

definition reg_step :: "'s \<Rightarrow> 's \<Rightarrow> bool" where
  "reg_step s s' \<longleftrightarrow> (ok s \<longrightarrow> ok s' \<and> keeps_nodes s s')"

lemma reg_step_refl [simp]: "reg_step s s"
  by (simp add: reg_step_def)

lemma reg_step_trans: "reg_step s t \<Longrightarrow> reg_step t u \<Longrightarrow> reg_step s u"
  unfolding reg_step_def using keeps_nodes_trans by blast

lemma wake_writes:
  assumes "ge_storage env = api"
  shows "reg_step (gw_storage g) (gw_storage (record_wake env f node abi mv v g))"
    and "reg_step (gw_storage g) (gw_storage (reconcile_program env node ph g))"
proof -
  obtain r s1 where 1: "sa_update_node_wake_metadata api (gn_node_id node) abi v (gw_storage g) = (r, s1)" by (meson surj_pair)
  have "gw_storage (record_wake env f node abi mv v g) = s1"
    using assms 1 by (auto simp: record_wake_def on_store_def quiet_steps Let_def split: sum.splits storage_error.splits)
  then show "reg_step (gw_storage g) (gw_storage (record_wake env f node abi mv v g))"
    using wake_writes_keep_nodes(1) [OF _ 1] metadata_view [OF _ 1] by (simp add: reg_step_def)
  obtain q s2 where 2: "sa_reconcile_current_program_hash api (gn_node_id node) ph (gw_storage g) = (q, s2)" by (meson surj_pair)
  show "reg_step (gw_storage g) (gw_storage (reconcile_program env node ph g))"
    using assms wake_writes_keep_nodes(2) [OF _ 2] reconcile_view [OF _ 2] 2
    by (auto simp: reconcile_program_def on_store_def reg_step_def)
qed

lemma program_ack_step:
  assumes "ge_storage env = api" and "ok (gw_storage g)" and "view (gw_storage g) (gn_node_id node) = Some node"
  shows "reg_step (gw_storage g) (gw_storage (handle_program_ack env f node ph g))"
proof -
  obtain r s1 where 1: "sa_upsert_node api (confirm_program ph node) (gw_storage g) = (r, s1)" by (meson surj_pair)
  have id: "gn_node_id (confirm_program ph node) = gn_node_id node" using keeps_keys_trivial(3) by (simp add: keeps_keys_def)
  have "keeps_nodes (gw_storage g) s1"
    using upsert_view [OF assms(2) 1] assms(3) id keeps_keys_trivial
    by (auto simp: keeps_nodes_def split: sum.splits)
  then show ?thesis
    using upsert_view [OF assms(2) 1] 1 assms(1)
    by (auto simp: handle_program_ack_def on_store_def quiet_steps quiet_storage reg_step_def Let_def split: option.splits session_state.splits)
qed

lemma wake_core_step:
  assumes "ge_storage env = api" and "handle_wake_core env f node h payload g = (r, g')"
  shows "reg_step (gw_storage g) (gw_storage g')"
proof -
  have sel: "gw_storage g2 = gw_storage g1"
    if "(case reused of Some cmd \<Rightarrow> (Some cmd, g1) | None \<Rightarrow> select_command env node ph abi g1) = (c, g2)" for reused ph abi g1 c g2
    using that by (cases reused) (auto dest: select_command_storage)
  have ses: "gw_storage g1 = gw_storage g" if "wake_session f node h g = (x, g1)" for x g1
    using quiet_steps(6) [of f node h g] that by simp
  have late: "reg_step (gw_storage g2) (gw_storage (reconcile_program env node ph (broadcast_event e (emit_connector c
      (record_wake env f node abi mv v (enter_transfer i cmd g2))))))" for g2 ph e c abi mv v i cmd
    using reg_step_trans [OF wake_writes(1) [OF assms(1)] wake_writes(2) [OF assms(1), of "broadcast_event e (emit_connector c
      (record_wake env f node abi mv v (enter_transfer i cmd g2)))", unfolded quiet_storage]] by (simp add: quiet_steps)
  have core: ?thesis if m: "node_message_decode (ge_de env) MSG_WAKE payload = Inr (Wake abi ph mv v blob)" for abi ph mv v blob
  proof -
    obtain x g1 where ws: "wake_session f node h g = (x, g1)" by (meson surj_pair)
    show ?thesis
    proof (cases x)
      case None
      with assms(2) m ws ses [OF ws] show ?thesis by (simp add: handle_wake_core_def)
    next
      case (Some y)
      obtain seq reused where y: "y = (seq, reused)" by (meson surj_pair)
      obtain c g2 where c: "(case reused of Some cmd \<Rightarrow> (Some cmd, g1) | None \<Rightarrow> select_command env node ph abi g1) = (c, g2)" by (meson surj_pair)
      have g2: "gw_storage g2 = gw_storage g" using sel [OF c] ses [OF ws] by simp
      show ?thesis
      proof (cases c)
        case None
        with assms(2) m ws Some y c g2 show ?thesis by (simp add: handle_wake_core_def)
      next
        case cmd: (Some cmd)
        with assms(2) m ws Some y c late [of g2] g2 show ?thesis
          by (auto simp: handle_wake_core_def Let_def quiet_storage(3) split: sum.splits simp del: option.case_eq_if)
      qed
    qed
  qed
  show ?thesis
    using assms(2) core by (fastforce simp: handle_wake_core_def split: sum.splits node_message.splits)
qed

lemma dispatch_step:
  assumes "ge_storage env = api" and "ok (gw_storage g)" and "view (gw_storage g) (gn_node_id node) = Some node"
    and "dispatch_frame env f node h payload g = (r, g')"
  shows "reg_step (gw_storage g) (gw_storage g')"
proof (cases "msg_type h = MSG_WAKE")
  case True
  obtain x g1 where 1: "handle_wake_core env f node h payload g = (x, g1)" by (meson surj_pair)
  have "gw_storage g' = gw_storage g1"
    using assms(4) True 1 by (auto simp: dispatch_frame_def handle_wake_def split: option.splits prod.splits)
  with wake_core_step [OF assms(1) 1] show ?thesis by simp
next
  case False
  have ack: "reg_step (gw_storage g) (gw_storage (handle_program_ack env f node ph (g\<lparr>gw_sessions := m\<rparr>)))" for ph m
    using program_ack_step [OF assms(1), of "g\<lparr>gw_sessions := m\<rparr>" node f ph] assms(2,3) by simp
  have app: "gw_storage g1 = gw_storage g" if "handle_app_data env f node h blob (g\<lparr>gw_sessions := m\<rparr>) = (x, g1)" for blob m x g1
    using handle_app_data_storage [OF that] by simp
  show ?thesis
    using assms(4) False ack app
    by (auto simp: dispatch_frame_def handle_post_wake_def Let_def split: if_splits sum.splits prod.splits node_message.splits)
qed

text \<open>What a frame may do to the registry: a node's key is kept, or the frame promoted it.\<close>

definition frame_rel :: "'s gateway_env \<Rightarrow> frame_in \<Rightarrow> 's gateway \<Rightarrow> 's gateway \<Rightarrow> bool" where
  "frame_rel env f g g' \<longleftrightarrow> ok (gw_storage g') \<and>
     (\<forall>i n. view (gw_storage g) i = Some n \<longrightarrow>
        (\<exists>n'. view (gw_storage g') i = Some n' \<and> (keeps_keys n n' \<or> promoted env f g i n')))"

lemma frame_rel_step: "ok (gw_storage g) \<Longrightarrow> reg_step (gw_storage g) (gw_storage g') \<Longrightarrow> frame_rel env f g g'"
  unfolding frame_rel_def reg_step_def keeps_nodes_def by blast

lemma recovery_step:
  assumes "ge_storage env = api" and "ok (gw_storage g)" and "decode_frame (fi_raw f) = Inr d"
    and "sa_get_nodes_by_key_hint api (key_hint (df_header d)) (gw_storage g) = Inr []"
    and "\<forall>ra. ge_recovery env = Some ra \<longrightarrow> escrow_apart ok view ra"
    and "try_recovery_auth env f d g = (r, g')"
  shows "frame_rel env f g g'"
proof -
  let ?hint = "key_hint (df_header d)"
  consider "gw_storage g' = gw_storage g"
    | ra kid cands i enc payload psk q s1 where "ge_recovery env = Some ra" "gw_master_key_id g = Some kid"
        "ra_lookup ra ?hint kid MAX_TRIAL_CANDIDATES (gw_storage g) = Inr cands"
        "try_keys env d (\<lambda>(i, enc). ra_decrypt ra (gw_storage g) i enc) cands = Some ((i, enc), payload)"
        "ra_decrypt ra (gw_storage g) i enc = Some psk" "sa_upsert_node api (node_record_new i ?hint psk) (gw_storage g) = (q, s1)"
        "case q of Inl _ \<Rightarrow> gw_storage g' = s1
         | Inr _ \<Rightarrow> dispatch_frame env f (node_record_new i ?hint psk) (df_header d) payload
             (snd (on_store (ra_delete ra ?hint i) (g\<lparr>gw_storage := s1\<rparr>))) = (r, g')"
    using assms(1,6)
    by (auto simp: try_recovery_auth_def on_store_def quiet_steps Let_def split: option.splits sum.splits prod.splits)
  then show ?thesis
  proof cases
    case 1
    with assms(2) show ?thesis by (intro frame_rel_step) simp_all
  next
    case 2
    let ?n = "node_record_new i ?hint psk"
    have opened: "(i, enc) \<in> set cands" "open_frame d psk (ge_open env) (ge_sha env) = Inr payload"
      using try_keys_Some [OF 2(4)] 2(5) by auto
    have prom: "promoted env f g i n'" if "keeps_keys ?n n'" for n'
      using 2(1-3,5) opened assms(1,3,4) that unfolding promoted_def keeps_keys_def node_record_new_def by auto
    note up = upsert_view [OF assms(2) 2(6)]
    show ?thesis
    proof (cases q)
      case (Inl e)
      with up 2(7) assms(2) show ?thesis
        by (auto simp: frame_rel_def intro: keeps_keys_trivial(1))
    next
      case (Inr u)
      obtain x s2 where del: "ra_delete ra ?hint i s1 = (x, s2)" by (meson surj_pair)
      let ?g2 = "g\<lparr>gw_storage := s2\<rparr>"
      have s2: "ok s2" "view s2 = (view (gw_storage g))(i \<mapsto> ?n)"
        using assms(5) 2(1) up Inr del by (auto simp: escrow_apart_def node_record_new_def)
      have disp: "dispatch_frame env f ?n (df_header d) payload ?g2 = (r, g')"
        using 2(7) Inr del by (simp add: on_store_def)
      have "reg_step s2 (gw_storage g')"
        using dispatch_step [OF assms(1) _ _ disp] s2 by (simp add: node_record_new_def)
      then have keep: "ok (gw_storage g')" "\<And>j n. view s2 j = Some n \<Longrightarrow> \<exists>n'. view (gw_storage g') j = Some n' \<and> keeps_keys n n'"
        using s2(1) by (auto simp: reg_step_def keeps_nodes_def)
      have "\<exists>n'. view (gw_storage g') j = Some n' \<and> (keeps_keys n n' \<or> promoted env f g j n')"
        if "view (gw_storage g) j = Some n" for j n
        using keep(2) [of j] s2(2) that prom by (cases "j = i") auto
      with keep(1) show ?thesis by (simp add: frame_rel_def)
    qed
  qed
qed

lemma frame_step:
  assumes "ge_storage env = api" and "ok (gw_storage g)" and "\<forall>ra. ge_recovery env = Some ra \<longrightarrow> escrow_apart ok view ra"
    and "process_frame env f g = (r, g')"
  shows "frame_rel env f g g'"
proof (cases "decode_frame (fi_raw f)")
  case (Inl e)
  with assms(2,4) show ?thesis by (intro frame_rel_step) (simp_all add: process_frame_def)
next
  case (Inr d)
  have peer: ?thesis if p: "handle_peer_request env f d g = (r, g')"
  proof (rule frame_rel_step [OF assms(2)])
    obtain b where "g' = g \<or> (\<exists>rec. register_node env rec g = (b, g'))"
      using p by (auto simp: handle_peer_request_def split: option.splits prod.splits if_splits bool.splits sum.splits)
    then show "reg_step (gw_storage g) (gw_storage g')"
    proof
      assume "\<exists>rec. register_node env rec g = (b, g')"
      then obtain rec where reg: "register_node env rec g = (b, g')" by blast
      from register_view(1,2) [OF assms(1,2) reg] show ?thesis
        by (auto simp: reg_step_def keeps_nodes_def intro: keeps_keys_trivial(1))
    qed simp
  qed
  have quiet: ?thesis if "gw_storage g' = gw_storage g" using that assms(2) by (intro frame_rel_step) simp_all
  have rec: ?thesis if "sa_get_nodes_by_key_hint api (key_hint (df_header d)) (gw_storage g) = Inr []" "try_recovery_auth env f d g = (r, g')"
    using recovery_step [OF assms(1,2) Inr that(1) assms(3) that(2)] .
  have disp: ?thesis if "sa_get_nodes_by_key_hint api (key_hint (df_header d)) (gw_storage g) = Inr ns"
      "try_keys env d (\<lambda>n. Some (gn_psk n)) ns = Some (node, payload)" "dispatch_frame env f node (df_header d) payload g = (r, g')" for ns node payload
  proof -
    have "node \<in> set ns" using try_keys_Some [OF that(2)] by blast
    with hint_view [OF assms(2) that(1)] dispatch_step [OF assms(1,2) _ that(3)] frame_rel_step [OF assms(2)] show ?thesis by blast
  qed
  show ?thesis
    using assms(1,4) Inr peer rec disp quiet
    by (auto simp: process_frame_def split: if_splits sum.splits list.splits option.splits prod.splits)
qed

lemma serve_step:
  assumes "ge_storage env = api" and "\<forall>ra. ge_recovery env = Some ra \<longrightarrow> escrow_apart ok view ra"
    and "ok (gw_storage g)" and "serve env fs g = (rs, g')"
  shows "ok (gw_storage g') \<and> (\<forall>i n. view (gw_storage g) i = Some n \<longrightarrow>
    (\<exists>n'. view (gw_storage g') i = Some n' \<and> (keeps_keys n n' \<or>
       (\<exists>k < length fs. promoted env (fs ! k) (snd (serve env (take k fs) g)) i n'))))"
  using assms(3,4)
proof (induction fs arbitrary: g rs)
  case (Cons f fs)
  obtain r g1 rs1 where 1: "process_frame env f g = (r, g1)" and 2: "serve env fs g1 = (rs1, g')"
    using Cons.prems(2) by (auto split: prod.splits)
  have f: "frame_rel env f g g1" by (rule frame_step [OF assms(1) Cons.prems(1) assms(2) 1])
  then have "ok (gw_storage g1)" by (simp add: frame_rel_def)
  note ih = Cons.IH [OF this 2]
  have run: "snd (serve env (take (Suc k) (f # fs)) g) = snd (serve env (take k fs) g1)" for k
    using 1 by (simp split: prod.split)
  have "\<exists>n'. view (gw_storage g') i = Some n' \<and> (keeps_keys n n' \<or>
       (\<exists>k < length (f # fs). promoted env ((f # fs) ! k) (snd (serve env (take k (f # fs)) g)) i n'))"
    if v: "view (gw_storage g) i = Some n" for i n
  proof -
    obtain n1 where n1: "view (gw_storage g1) i = Some n1" "keeps_keys n n1 \<or> promoted env f g i n1"
      using f v by (auto simp: frame_rel_def)
    obtain n' where n': "view (gw_storage g') i = Some n'" "keeps_keys n1 n' \<or>
        (\<exists>k < length fs. promoted env (fs ! k) (snd (serve env (take k fs) g1)) i n')"
      using ih n1(1) by blast
    from n'(2) show ?thesis
    proof
      assume keep: "keeps_keys n1 n'"
      show ?thesis
      proof (cases "keeps_keys n n1")
        case True
        with keep n'(1) show ?thesis by (auto simp: keeps_keys_def)
      next
        case False
        with n1(2) have "promoted env f g i n1" by blast
        with keep have "promoted env f g i n'" unfolding promoted_def keeps_keys_def by simp
        then show ?thesis using n'(1) by (intro exI [of _ n'] conjI disjI2 exI [of _ 0]) simp_all
      qed
    next
      assume "\<exists>k < length fs. promoted env (fs ! k) (snd (serve env (take k fs) g1)) i n'"
      then obtain k where k: "k < length fs" "promoted env (fs ! k) (snd (serve env (take k fs) g1)) i n'" by blast
      then show ?thesis
        using n'(1) run [of k] by (intro exI [of _ n'] conjI disjI2 exI [of _ "Suc k"]) (simp_all del: take_Suc_Cons serve.simps)
    qed
  qed
  with ih show ?case by blast
qed (auto intro: keeps_keys_trivial(1))

end

text \<open>C12. The registry stays well formed under any sequence of frames: no frame removes a node or changes its name, and
  its key and key hint only change by recovery, to the key that was escrowed for this very node and that
  opened a frame under a key hint no registered node had.\<close>

theorem frames_keep_registry:
  assumes "node_registry (ge_storage env) ok view" and "\<forall>ra. ge_recovery env = Some ra \<longrightarrow> escrow_apart ok view ra"
    and "ok (gw_storage g)" and "serve env fs g = (rs, g')"
  shows "ok (gw_storage g') \<and>
    (\<forall>i n. view (gw_storage g) i = Some n \<longrightarrow>
       (\<exists>n'. view (gw_storage g') i = Some n' \<and> gn_node_id n' = i \<and>
          (gn_key_hint n' = gn_key_hint n \<and> gn_psk n' = gn_psk n \<or>
           (\<exists>k < length fs. promoted env (fs ! k) (snd (serve env (take k fs) g)) i n'))))"
proof -
  note s = node_registry.serve_step [OF assms(1) HOL.refl assms(2-4)]
  then have "gn_node_id n' = i" if "view (gw_storage g') i = Some n'" for i n'
    using node_registry.view_id [OF assms(1)] that by blast
  moreover have "ok (gw_storage g')" using s by blast
  moreover have "\<exists>n'. view (gw_storage g') i = Some n' \<and> (gn_key_hint n' = gn_key_hint n \<and> gn_psk n' = gn_psk n \<or>
      (\<exists>k < length fs. promoted env (fs ! k) (snd (serve env (take k fs) g)) i n'))" if "view (gw_storage g) i = Some n" for i n
    using s that unfolding keeps_keys_def by blast
  ultimately show ?thesis by blast
qed

definition demo_recovery :: "mem_storage recovery_api" where
  "demo_recovery = \<lparr>ra_lookup = (\<lambda>hint kid k s. Inr [(''n1'', [1])]), ra_delete = (\<lambda>hint i s. (Inr (), s)),
     ra_decrypt = (\<lambda>s i enc. Some (replicate 32 4)), ra_escrow = (\<lambda>i s. Inr None)\<rparr>"

theorem frames_keep_registry_witness:
  "\<exists>rs g' n'. serve (demo_genv\<lparr>ge_recovery := Some demo_recovery\<rparr>) [demo_frame_in (replicate 27 0), demo_frame_in []]
      ((demo_gateway demo_store)\<lparr>gw_master_key_id := Some [3]\<rparr>) = (rs, g') \<and>
    mem_view (gw_storage g') ''n1'' = Some n' \<and> gn_node_id n' = ''n1''"
proof -
  let ?env = "demo_genv\<lparr>ge_recovery := Some demo_recovery\<rparr>" let ?g = "(demo_gateway demo_store)\<lparr>gw_master_key_id := Some [3]\<rparr>"
  let ?fs = "[demo_frame_in (replicate 27 0), demo_frame_in []]"
  have reg: "node_registry (ge_storage ?env) mem_ok mem_view" using mem.node_registry_axioms by (simp add: demo_genv_def)
  have g: "\<forall>ra. ge_recovery ?env = Some ra \<longrightarrow> escrow_apart mem_ok mem_view ra" "mem_ok (gw_storage ?g)"
      "mem_view (gw_storage ?g) ''n1'' = Some demo_record"
    using demo_store_facts(1,2) by (simp_all add: demo_gateway_def demo_recovery_def escrow_apart_def)
  obtain rs g' where run: "serve ?env ?fs ?g = (rs, g')" by (meson surj_pair)
  from frames_keep_registry [OF reg g(1,2) run] g(3) run show ?thesis by blast
qed

end
