(* ===== verification/Modem_Bridge.thy ===== *)
theory Modem_Bridge
  imports Modem_Correct
begin

text \<open>
  The bridge of the modem (\<open>sonde-modem/src/bridge.rs\<close>) and its counters (\<open>status.rs\<close>): commands of the
  gateway from the serial port to radio, Bluetooth and display, and their events back. The traits
  \<open>SerialPort\<close>, \<open>Radio\<close>, \<open>Ble\<close>, \<open>ButtonPoll\<close> and \<open>Display\<close> are one record of operations on a state of
  the devices; the radio driver shares the counters with the bridge, so sending gets them. A slice out
  of range is the panic \<open>None\<close>. The strings the build puts into the firmware (version, commit) are
  arguments. Log output is not modelled.
\<close>

definition MODEM_ERR_CHANNEL_SET_FAILED :: u8 where "MODEM_ERR_CHANNEL_SET_FAILED = 0x03"
definition EVENT_ERROR_INVALID_FRAME :: u8 where "EVENT_ERROR_INVALID_FRAME = 0x01"
definition EVENT_ERROR_DISPLAY_WRITE_FAILED :: u8 where "EVENT_ERROR_DISPLAY_WRITE_FAILED = 0x02"
definition MAX_RX_FRAMES_PER_POLL :: nat where "MAX_RX_FRAMES_PER_POLL = 16"
definition MAX_BLE_EVENTS_PER_POLL :: nat where "MAX_BLE_EVENTS_PER_POLL = 16"
definition MAX_DRAIN :: nat where "MAX_DRAIN = 256"

section \<open>Version and commit\<close>

text \<open>\<open>None\<close>: the build fails.\<close>

primrec version_digits :: "bytes \<Rightarrow> nat \<Rightarrow> nat option" where
  "version_digits [] val = Some val"
| "version_digits (b # bs) val =
     (if b < 0x30 \<or> b > 0x39 then None
      else let v = val * 10 + unat (b - 0x30) in
        if v > 255 then None else version_digits bs v)"

definition parse_version_component :: "bytes \<Rightarrow> u8 option" where
  "parse_version_component s = (if s = [] then None else map_option of_nat (version_digits s 0))"

definition hex_nibble :: "u8 \<Rightarrow> u8" where
  "hex_nibble c =
     (if 0x30 \<le> c \<and> c \<le> 0x39 then c - 0x30
      else if 0x61 \<le> c \<and> c \<le> 0x66 then c - 0x61 + 10
      else if 0x41 \<le> c \<and> c \<le> 0x46 then c - 0x41 + 10
      else 0xFF)"

text \<open>The loop over the eight pairs; a bad digit makes the whole result zero.\<close>

primrec commit_bytes :: "bytes \<Rightarrow> nat \<Rightarrow> bytes option" where
  "commit_bytes hex 0 = Some []"
| "commit_bytes hex (Suc n) =
     (let hi = hex_nibble (hex ! 0); lo = hex_nibble (hex ! 1) in
      if hi = 0xFF \<or> lo = 0xFF then None
      else map_option ((#) ((push_bit 4 hi) OR lo)) (commit_bytes (drop 2 hex) n))"

definition decode_firmware_commit :: "bytes \<Rightarrow> bytes" where
  "decode_firmware_commit hex =
     (if length hex < 16 then replicate 8 0
      else case commit_bytes hex 8 of Some b \<Rightarrow> b | None \<Rightarrow> replicate 8 0)"

section \<open>Counters\<close>

record modem_counters =
  mc_tx_count :: u32
  mc_rx_count :: u32
  mc_tx_fail_count :: u32
  mc_reset_epoch_ms :: u64

definition counters_new :: modem_counters where
  "counters_new = \<lparr>mc_tx_count = 0, mc_rx_count = 0, mc_tx_fail_count = 0, mc_reset_epoch_ms = 0\<rparr>"

definition inc_tx :: "modem_counters \<Rightarrow> modem_counters" where "inc_tx c = c\<lparr>mc_tx_count := mc_tx_count c + 1\<rparr>"
definition inc_rx :: "modem_counters \<Rightarrow> modem_counters" where "inc_rx c = c\<lparr>mc_rx_count := mc_rx_count c + 1\<rparr>"
definition inc_tx_fail :: "modem_counters \<Rightarrow> modem_counters" where "inc_tx_fail c = c\<lparr>mc_tx_fail_count := mc_tx_fail_count c + 1\<rparr>"

text \<open>\<open>total_ms\<close>: the milliseconds since boot.\<close>

definition uptime_s :: "u64 \<Rightarrow> modem_counters \<Rightarrow> u32" where
  "uptime_s total_ms c =
     of_nat ((unat total_ms - unat (mc_reset_epoch_ms c)) div 1000)"

definition counters_reset :: "u64 \<Rightarrow> modem_counters \<Rightarrow> modem_counters" where
  "counters_reset now_ms c = c\<lparr>mc_tx_count := 0, mc_rx_count := 0, mc_tx_fail_count := 0, mc_reset_epoch_ms := now_ms\<rparr>"

section \<open>The button\<close>

definition BUTTON_DEBOUNCE_MS :: nat where "BUTTON_DEBOUNCE_MS = 30"
definition BUTTON_LONG_THRESHOLD :: nat where "BUTTON_LONG_THRESHOLD = 1000"

text \<open>Instants in milliseconds; \<open>duration_since\<close> of a later instant is zero.\<close>

datatype button_state =
    ButtonIdle
  | DebouncePress nat
  | Pressed nat
  | DebounceRelease nat nat

definition button_poll_at :: "nat \<Rightarrow> bool \<Rightarrow> button_state \<Rightarrow> u8 option \<times> button_state" where
  "button_poll_at now pressed st =
     (case st of
        ButtonIdle \<Rightarrow> (None, if pressed then DebouncePress now else ButtonIdle)
      | DebouncePress since \<Rightarrow>
          (None, if \<not> pressed then ButtonIdle
                 else if now - since \<ge> BUTTON_DEBOUNCE_MS then Pressed (since + BUTTON_DEBOUNCE_MS)
                 else DebouncePress since)
      | Pressed press_start \<Rightarrow> (None, if \<not> pressed then DebounceRelease press_start now else Pressed press_start)
      | DebounceRelease press_start since \<Rightarrow>
          if pressed then (None, Pressed press_start)
          else if now - since \<ge> BUTTON_DEBOUNCE_MS then
            let duration = (since + BUTTON_DEBOUNCE_MS) - press_start in
            (Some (if duration \<ge> BUTTON_LONG_THRESHOLD then BUTTON_TYPE_LONG else BUTTON_TYPE_SHORT), ButtonIdle)
          else (None, DebounceRelease press_start since))"

section \<open>Devices\<close>

datatype modem_ble_event =
    EvRecv bytes
  | EvConnected bytes u16
  | EvDisconnected bytes u8
  | EvPairingConfirm u32

record 'd drivers =
  dv_read :: "'d \<Rightarrow> (bytes \<times> bool) \<times> 'd"
  dv_write :: "bytes \<Rightarrow> 'd \<Rightarrow> bool \<times> 'd"
  dv_is_connected :: "'d \<Rightarrow> bool"
  dv_send :: "bytes \<Rightarrow> bytes \<Rightarrow> modem_counters \<times> 'd \<Rightarrow> bool \<times> modem_counters \<times> 'd"
  dv_drain_one :: "'d \<Rightarrow> recv_frame option \<times> 'd"
  dv_set_channel :: "u8 \<Rightarrow> 'd \<Rightarrow> (bytes + unit) \<times> 'd"
  dv_channel :: "'d \<Rightarrow> u8"
  dv_scan_channels :: "'d \<Rightarrow> (u8 \<times> u8 \<times> u8) list \<times> 'd"
  dv_mac_address :: "'d \<Rightarrow> bytes"
  dv_reset_state :: "'d \<Rightarrow> 'd"
  dv_ble_enable :: "'d \<Rightarrow> 'd"
  dv_ble_disable :: "'d \<Rightarrow> 'd"
  dv_indicate :: "bytes \<Rightarrow> 'd \<Rightarrow> 'd"
  dv_pairing_confirm_reply :: "bool \<Rightarrow> 'd \<Rightarrow> 'd"
  dv_advance_indication :: "'d \<Rightarrow> 'd"
  dv_check_pairing_timeout :: "'d \<Rightarrow> 'd"
  dv_check_encryption_fallback :: "'d \<Rightarrow> 'd"
  dv_drain_event :: "'d \<Rightarrow> modem_ble_event option \<times> 'd"
  dv_button_poll :: "'d \<Rightarrow> u8 option \<times> 'd"
  dv_queue_frame :: "bytes \<Rightarrow> 'd \<Rightarrow> 'd"
  dv_display_reset :: "'d \<Rightarrow> 'd"
  dv_display_poll :: "'d \<Rightarrow> bool \<times> 'd"
  dv_elapsed_ms :: "'d \<Rightarrow> u64"
  dv_firmware_version :: bytes
  dv_firmware_commit :: bytes

section \<open>The bridge\<close>

record display_transfer =
  dt_transfer_id :: u8
  dt_next_chunk_index :: u8
  dt_framebuffer :: bytes

record 'd bridge =
  br_dev :: 'd
  br_display_transfer :: "display_transfer option"
  br_ble_enabled :: bool
  br_counters :: modem_counters
  br_decoder :: frame_decoder

definition bridge_new :: "'d drivers \<Rightarrow> modem_counters \<Rightarrow> 'd \<Rightarrow> 'd bridge" where
  "bridge_new dv counters d =
     \<lparr>br_dev = dv_ble_disable dv d, br_display_transfer = None, br_ble_enabled = False, br_counters = counters,
      br_decoder = decoder_new\<rparr>"

definition on_dev :: "('d \<Rightarrow> 'd) \<Rightarrow> 'd bridge \<Rightarrow> 'd bridge" where
  "on_dev k b = b\<lparr>br_dev := k (br_dev b)\<rparr>"

definition send_msg :: "'d drivers \<Rightarrow> modem_message \<Rightarrow> 'd bridge \<Rightarrow> bool \<times> 'd bridge" where
  "send_msg dv msg b =
     (case encode_modem_frame msg of
        Inl _ \<Rightarrow> (False, b)
      | Inr frame \<Rightarrow> (case dv_write dv frame (br_dev b) of (ok, d) \<Rightarrow> (ok, b\<lparr>br_dev := d\<rparr>)))"

definition send_event_error :: "'d drivers \<Rightarrow> u8 \<Rightarrow> 'd bridge \<Rightarrow> 'd bridge" where
  "send_event_error dv code b = snd (send_msg dv (EventError code) b)"

definition abort_display_transfer_invalid_frame :: "'d drivers \<Rightarrow> 'd bridge \<Rightarrow> 'd bridge" where
  "abort_display_transfer_invalid_frame dv b = send_event_error dv EVENT_ERROR_INVALID_FRAME (b\<lparr>br_display_transfer := None\<rparr>)"

definition send_modem_ready :: "'d drivers \<Rightarrow> 'd bridge \<Rightarrow> 'd bridge" where
  "send_modem_ready dv b =
     snd (send_msg dv (ModemReady \<lparr>mr_firmware_version = dv_firmware_version dv, mr_mac_address = dv_mac_address dv (br_dev b),
       mr_firmware_commit = dv_firmware_commit dv\<rparr>) b)"

definition is_usb_connected :: "'d drivers \<Rightarrow> 'd bridge \<Rightarrow> bool" where
  "is_usb_connected dv b = dv_is_connected dv (br_dev b)"

subsection \<open>Commands\<close>

primrec drain_stale :: "'d drivers \<Rightarrow> nat \<Rightarrow> 'd \<Rightarrow> 'd" where
  "drain_stale dv 0 d = d"
| "drain_stale dv (Suc n) d =
     (case dv_drain_event dv d of (None, d') \<Rightarrow> d' | (Some _, d') \<Rightarrow> drain_stale dv n d')"

definition handle_reset :: "'d drivers \<Rightarrow> 'd bridge \<Rightarrow> 'd bridge" where
  "handle_reset dv b =
     (let b1 = (on_dev (dv_display_reset dv \<circ> dv_reset_state dv) b)\<lparr>br_display_transfer := None\<rparr>;
          b2 = on_dev (drain_stale dv MAX_DRAIN \<circ> dv_ble_disable dv) b1
      in send_modem_ready dv
           (b2\<lparr>br_ble_enabled := False, br_counters := counters_reset (dv_elapsed_ms dv (br_dev b2)) (br_counters b2),
               br_decoder := decoder_reset (br_decoder b2)\<rparr>))"

definition handle_send_frame :: "'d drivers \<Rightarrow> send_frame \<Rightarrow> 'd bridge \<Rightarrow> 'd bridge" where
  "handle_send_frame dv sf b =
     (case dv_send dv (sf_peer_mac sf) (sf_frame_data sf) (br_counters b, br_dev b) of
        (_, c, d) \<Rightarrow> b\<lparr>br_counters := c, br_dev := d\<rparr>)"

definition handle_set_channel :: "'d drivers \<Rightarrow> u8 \<Rightarrow> 'd bridge \<Rightarrow> 'd bridge" where
  "handle_set_channel dv ch b =
     (case dv_set_channel dv ch (br_dev b) of (r, d) \<Rightarrow>
        let b1 = b\<lparr>br_dev := d\<rparr> in
        case r of
          Inr _ \<Rightarrow> snd (send_msg dv (SetChannelAck ch) b1)
        | Inl reason \<Rightarrow>
            snd (send_msg dv (ModemErr \<lparr>me_error_code = MODEM_ERR_CHANNEL_SET_FAILED, me_message = reason\<rparr>) b1))"

definition handle_get_status :: "'d drivers \<Rightarrow> 'd bridge \<Rightarrow> 'd bridge" where
  "handle_get_status dv b =
     snd (send_msg dv (ModemStatus \<lparr>ms_channel = dv_channel dv (br_dev b),
       ms_uptime_s = uptime_s (dv_elapsed_ms dv (br_dev b)) (br_counters b), ms_tx_count = mc_tx_count (br_counters b),
       ms_rx_count = mc_rx_count (br_counters b), ms_tx_fail_count = mc_tx_fail_count (br_counters b)\<rparr>) b)"

definition handle_scan_channels :: "'d drivers \<Rightarrow> 'd bridge \<Rightarrow> 'd bridge" where
  "handle_scan_channels dv b =
     (case dv_scan_channels dv (br_dev b) of (results, d) \<Rightarrow>
        snd (send_msg dv (ScanResult (map (\<lambda>(ch, count, rssi).
          \<lparr>se_channel = ch, se_ap_count = count, se_strongest_rssi = rssi\<rparr>) results)) (b\<lparr>br_dev := d\<rparr>)))"

definition send_display_frame_ack :: "'d drivers \<Rightarrow> u8 \<Rightarrow> u8 \<Rightarrow> 'd bridge \<Rightarrow> 'd bridge" where
  "send_display_frame_ack dv tid idx b = snd (send_msg dv (DisplayFrameAck \<lparr>da_transfer_id = tid, da_next_chunk_index = idx\<rparr>) b)"

definition handle_display_frame_begin :: "'d drivers \<Rightarrow> u8 \<Rightarrow> 'd bridge \<Rightarrow> 'd bridge" where
  "handle_display_frame_begin dv tid b =
     send_display_frame_ack dv tid 0
       (b\<lparr>br_display_transfer := Some \<lparr>dt_transfer_id = tid, dt_next_chunk_index = 0,
            dt_framebuffer = replicate DISPLAY_FRAME_BODY_SIZE 0\<rparr>\<rparr>)"

definition handle_display_frame_chunk :: "'d drivers \<Rightarrow> display_frame_chunk \<Rightarrow> 'd bridge \<Rightarrow> 'd bridge option" where
  "handle_display_frame_chunk dv c b =
     (case br_display_transfer b of
        None \<Rightarrow> Some (abort_display_transfer_invalid_frame dv b)
      | Some s \<Rightarrow>
          if dc_transfer_id c \<noteq> dt_transfer_id s then Some (abort_display_transfer_invalid_frame dv b)
          else if dc_chunk_index c \<noteq> dt_next_chunk_index s then
            Some (send_display_frame_ack dv (dt_transfer_id s) (dt_next_chunk_index s) b)
          else
            let start = unat (dc_chunk_index c) * DISPLAY_FRAME_CHUNK_SIZE;
                stop = start + DISPLAY_FRAME_CHUNK_SIZE in
            if stop > length (dt_framebuffer s) \<or> length (dc_chunk_data c) \<noteq> DISPLAY_FRAME_CHUNK_SIZE then None
            else
              let s1 = s\<lparr>dt_framebuffer := take start (dt_framebuffer s) @ dc_chunk_data c @ drop stop (dt_framebuffer s),
                         dt_next_chunk_index := dt_next_chunk_index s + 1\<rparr>;
                  b1 = send_display_frame_ack dv (dt_transfer_id s1) (dt_next_chunk_index s1) (b\<lparr>br_display_transfer := Some s1\<rparr>)
              in Some (if dt_next_chunk_index s1 = DISPLAY_FRAME_CHUNK_COUNT
                       then (on_dev (dv_queue_frame dv (dt_framebuffer s1)) b1)\<lparr>br_display_transfer := None\<rparr>
                       else b1))"

definition handle_ble_enable :: "'d drivers \<Rightarrow> 'd bridge \<Rightarrow> 'd bridge" where
  "handle_ble_enable dv b = (on_dev (dv_ble_enable dv) b)\<lparr>br_ble_enabled := True\<rparr>"

definition handle_ble_disable :: "'d drivers \<Rightarrow> 'd bridge \<Rightarrow> 'd bridge" where
  "handle_ble_disable dv b = (on_dev (dv_ble_disable dv) b)\<lparr>br_ble_enabled := False\<rparr>"

definition bridge_dispatch :: "'d drivers \<Rightarrow> modem_message \<Rightarrow> 'd bridge \<Rightarrow> 'd bridge option" where
  "bridge_dispatch dv msg b =
     (case msg of
        Reset \<Rightarrow> Some (handle_reset dv b)
      | SendFrame sf \<Rightarrow> Some (handle_send_frame dv sf b)
      | SetChannel ch \<Rightarrow> Some (handle_set_channel dv ch b)
      | GetStatus \<Rightarrow> Some (handle_get_status dv b)
      | ScanChannels \<Rightarrow> Some (handle_scan_channels dv b)
      | DisplayFrameBegin tid \<Rightarrow> Some (handle_display_frame_begin dv tid b)
      | DisplayFrameChunk c \<Rightarrow> handle_display_frame_chunk dv c b
      | BleIndicate d \<Rightarrow> Some (on_dev (dv_indicate dv d) b)
      | BleEnable \<Rightarrow> Some (handle_ble_enable dv b)
      | BleDisable \<Rightarrow> Some (handle_ble_disable dv b)
      | BlePairingConfirmReply accept \<Rightarrow> Some (on_dev (dv_pairing_confirm_reply dv accept) b)
      | _ \<Rightarrow> Some b)"

subsection \<open>Polling\<close>

text \<open>No command puts bytes into the decoder.\<close>

lemma send_msg_keeps:
  "br_decoder (snd (send_msg dv msg b)) = br_decoder b" "br_display_transfer (snd (send_msg dv msg b)) = br_display_transfer b"
  "br_counters (snd (send_msg dv msg b)) = br_counters b" "br_ble_enabled (snd (send_msg dv msg b)) = br_ble_enabled b"
  by (simp_all add: send_msg_def split: sum.split prod.split)

lemmas bridge_ops = send_event_error_def abort_display_transfer_invalid_frame_def send_modem_ready_def on_dev_def handle_reset_def
  handle_send_frame_def handle_set_channel_def handle_get_status_def handle_scan_channels_def send_display_frame_ack_def
  handle_display_frame_begin_def handle_ble_enable_def handle_ble_disable_def

lemma dispatch_decoder:
  assumes "bridge_dispatch dv msg b = Some b'" shows "buffered (br_decoder b') \<le> buffered (br_decoder b)"
  using assms
  by (cases msg)
    (auto simp: bridge_dispatch_def bridge_ops handle_display_frame_chunk_def send_msg_keeps Let_def decoder_reset_def buffered_def
      split: prod.splits sum.splits option.splits if_splits)

lemma abort_decoder: "br_decoder (abort_display_transfer_invalid_frame dv b) = br_decoder b"
  by (simp add: bridge_ops send_msg_keeps)

text \<open>The body errors that abort a display transfer.\<close>

definition aborts_transfer :: "modem_codec_error \<Rightarrow> bool" where
  "aborts_transfer e \<longleftrightarrow>
     (case e of
        BodyTooShort t _ _ \<Rightarrow> t = MODEM_MSG_DISPLAY_FRAME_BEGIN \<or> t = MODEM_MSG_DISPLAY_FRAME_CHUNK
      | BodyTooLong t _ _ \<Rightarrow> t = MODEM_MSG_DISPLAY_FRAME_BEGIN \<or> t = MODEM_MSG_DISPLAY_FRAME_CHUNK
      | InvalidFieldValue t _ _ \<Rightarrow> t = MODEM_MSG_DISPLAY_FRAME_CHUNK
      | _ \<Rightarrow> False)"

function decode_loop :: "'d drivers \<Rightarrow> 'd bridge \<Rightarrow> 'd bridge option" where
  "decode_loop dv b =
     (case decoder_decode (br_decoder b) of (r, dec) \<Rightarrow>
        let b1 = b\<lparr>br_decoder := dec\<rparr> in
        case r of
          Inr None \<Rightarrow> Some b1
        | Inr (Some msg) \<Rightarrow> (case bridge_dispatch dv msg b1 of None \<Rightarrow> None | Some b2 \<Rightarrow> decode_loop dv b2)
        | Inl e \<Rightarrow>
            (case e of
               SerialFrameTooLarge _ \<Rightarrow> Some (b1\<lparr>br_decoder := decoder_reset (br_decoder b1)\<rparr>)
             | _ \<Rightarrow> decode_loop dv (if aborts_transfer e then abort_display_transfer_invalid_frame dv b1 else b1)))"
  by pat_completeness auto

lemma decode_shrinks:
  assumes "(r, dec) = decoder_decode d" and "r \<noteq> Inr None" shows "buffered dec < buffered d"
proof -
  have "decoder_decode d = (r, dec)" using assms(1) by simp
  with decoder_progress [of d] assms(2) show ?thesis by auto
qed

termination decode_loop
  by (relation "measure (\<lambda>(dv, b). buffered (br_decoder b))")
    (auto dest: decode_shrinks dest!: dispatch_decoder simp: abort_decoder intro: le_less_trans)

declare decode_loop.simps [simp del]

primrec forward_radio :: "'d drivers \<Rightarrow> nat \<Rightarrow> 'd bridge \<Rightarrow> 'd bridge" where
  "forward_radio dv 0 b = b"
| "forward_radio dv (Suc n) b =
     (case dv_drain_one dv (br_dev b) of
        (None, d) \<Rightarrow> b\<lparr>br_dev := d\<rparr>
      | (Some rf, d) \<Rightarrow>
          (case send_msg dv (RecvFrame rf) (b\<lparr>br_dev := d\<rparr>) of (ok, b1) \<Rightarrow>
             forward_radio dv n (if ok then b1\<lparr>br_counters := inc_rx (br_counters b1)\<rparr> else b1)))"

fun ble_event_message :: "modem_ble_event \<Rightarrow> modem_message" where
  "ble_event_message (EvRecv data) = BleRecv data"
| "ble_event_message (EvConnected addr mtu) = BleConnected \<lparr>bc_peer_addr = addr, bc_mtu = mtu\<rparr>"
| "ble_event_message (EvDisconnected addr reason) = BleDisconnected \<lparr>bd_peer_addr = addr, bd_reason = reason\<rparr>"
| "ble_event_message (EvPairingConfirm passkey) = BlePairingConfirm passkey"

primrec forward_ble :: "'d drivers \<Rightarrow> nat \<Rightarrow> 'd bridge \<Rightarrow> 'd bridge" where
  "forward_ble dv 0 b = b"
| "forward_ble dv (Suc n) b =
     (case dv_drain_event dv (br_dev b) of
        (None, d) \<Rightarrow> b\<lparr>br_dev := d\<rparr>
      | (Some e, d) \<Rightarrow> forward_ble dv n (snd (send_msg dv (ble_event_message e) (b\<lparr>br_dev := d\<rparr>))))"

definition poll_button :: "'d drivers \<Rightarrow> 'd bridge \<Rightarrow> 'd bridge" where
  "poll_button dv b =
     (case dv_button_poll dv (br_dev b) of
        (None, d) \<Rightarrow> b\<lparr>br_dev := d\<rparr>
      | (Some t, d) \<Rightarrow> snd (send_msg dv (EventButton t) (b\<lparr>br_dev := d\<rparr>)))"

definition poll_display :: "'d drivers \<Rightarrow> 'd bridge \<Rightarrow> 'd bridge" where
  "poll_display dv b =
     (case dv_display_poll dv (br_dev b) of (ok, d) \<Rightarrow>
        let b1 = b\<lparr>br_dev := d\<rparr> in
        if ok then b1 else send_event_error dv EVENT_ERROR_DISPLAY_WRITE_FAILED b1)"

definition poll_serial :: "'d drivers \<Rightarrow> 'd bridge \<Rightarrow> 'd bridge" where
  "poll_serial dv b =
     (case dv_read dv (br_dev b) of ((data, reconnected), d) \<Rightarrow>
        let b1 = b\<lparr>br_dev := d\<rparr>;
            b2 = (if reconnected then send_modem_ready dv (b1\<lparr>br_decoder := decoder_reset (br_decoder b1)\<rparr>) else b1)
        in if data \<noteq> [] then b2\<lparr>br_decoder := decoder_push data (br_decoder b2)\<rparr> else b2)"

definition bridge_poll :: "'d drivers \<Rightarrow> 'd bridge \<Rightarrow> 'd bridge option" where
  "bridge_poll dv b =
     (case decode_loop dv (poll_serial dv b) of
        None \<Rightarrow> None
      | Some b1 \<Rightarrow>
          Some (poll_display dv (poll_button dv (forward_ble dv MAX_BLE_EVENTS_PER_POLL
            (on_dev (dv_check_encryption_fallback dv \<circ> dv_check_pairing_timeout dv \<circ> dv_advance_indication dv)
              (forward_radio dv MAX_RX_FRAMES_PER_POLL b1))))))"

end
