(* ===== verification/Bridge_Correct.thy ===== *)
theory Bridge_Correct
  imports Modem_Bridge "HOL-Library.Sublist"
begin

text \<open>
  What the bridge of the modem guarantees: whatever bytes the serial port delivers a poll ends without a
  panic, the display shows exactly the frames the gateway transferred completely, received radio frames
  reach the gateway's decoder unchanged and in order, and the button is classified independently of the
  rate of polling.
\<close>

section \<open>Display transfers\<close>

text \<open>A transfer under way has received the chunks before its index; the rest of the buffer is zero.\<close>

definition transfer_ok :: "display_transfer \<Rightarrow> bool" where
  "transfer_ok s \<longleftrightarrow> length (dt_framebuffer s) = DISPLAY_FRAME_BODY_SIZE \<and> dt_next_chunk_index s < DISPLAY_FRAME_CHUNK_COUNT"

definition bridge_ok :: "'d bridge \<Rightarrow> bool" where
  "bridge_ok b \<longleftrightarrow> (\<forall>s. br_display_transfer b = Some s \<longrightarrow> transfer_ok s)"

definition received :: "display_transfer \<Rightarrow> bytes" where
  "received s = take (unat (dt_next_chunk_index s) * DISPLAY_FRAME_CHUNK_SIZE) (dt_framebuffer s)"

text \<open>The specification: an identifier and the data received in order. A complete frame is shown.\<close>

type_synonym display_spec = "(u8 \<times> nat \<times> bytes) option"

fun display_step :: "modem_message \<Rightarrow> display_spec \<Rightarrow> bytes option \<times> display_spec" where
  "display_step Reset st = (None, None)"
| "display_step (DisplayFrameBegin tid) st = (None, Some (tid, 0, []))"
| "display_step (DisplayFrameChunk c) None = (None, None)"
| "display_step (DisplayFrameChunk c) (Some (tid, n, data)) =
     (if dc_transfer_id c \<noteq> tid then (None, None)
      else if unat (dc_chunk_index c) \<noteq> n then (None, Some (tid, n, data))
      else if n = 7 then (Some (data @ dc_chunk_data c), None)
      else (None, Some (tid, n + 1, data @ dc_chunk_data c)))"
| "display_step _ st = (None, st)"

definition display_view :: "'d bridge \<Rightarrow> display_spec" where
  "display_view b = map_option (\<lambda>s. (dt_transfer_id s, unat (dt_next_chunk_index s), received s)) (br_display_transfer b)"

text \<open>\<open>shown\<close> observes the frames given to the display driver; no other operation changes them.\<close>

definition observes :: "'d drivers \<Rightarrow> ('d \<Rightarrow> bytes list) \<Rightarrow> bool" where
  "observes dv shown \<longleftrightarrow>
     (\<forall>fb d. shown (dv_queue_frame dv fb d) = shown d @ [fb]) \<and> (\<forall>f d. shown (snd (dv_write dv f d)) = shown d) \<and>
     (\<forall>a f c d. shown (snd (snd (dv_send dv a f (c, d)))) = shown d) \<and> (\<forall>ch d. shown (snd (dv_set_channel dv ch d)) = shown d) \<and>
     (\<forall>d. shown (snd (dv_scan_channels dv d)) = shown d) \<and> (\<forall>d. shown (dv_reset_state dv d) = shown d) \<and>
     (\<forall>d. shown (dv_ble_enable dv d) = shown d) \<and> (\<forall>d. shown (dv_ble_disable dv d) = shown d) \<and>
     (\<forall>x d. shown (dv_indicate dv x d) = shown d) \<and> (\<forall>x d. shown (dv_pairing_confirm_reply dv x d) = shown d) \<and>
     (\<forall>d. shown (snd (dv_drain_event dv d)) = shown d) \<and> (\<forall>d. shown (dv_display_reset dv d) = shown d) \<and>
     (\<forall>d. shown (snd (dv_read dv d)) = shown d) \<and> (\<forall>d. shown (snd (dv_drain_one dv d)) = shown d) \<and>
     (\<forall>d. shown (dv_advance_indication dv d) = shown d) \<and> (\<forall>d. shown (dv_check_pairing_timeout dv d) = shown d) \<and>
     (\<forall>d. shown (dv_check_encryption_fallback dv d) = shown d) \<and> (\<forall>d. shown (snd (dv_button_poll dv d)) = shown d) \<and>
     (\<forall>d. shown (snd (dv_display_poll dv d)) = shown d)"

lemma observes_simps:
  assumes "observes dv shown"
  shows "shown (dv_queue_frame dv fb d) = shown d @ [fb]" "dv_write dv f d = (ok, d') \<Longrightarrow> shown d' = shown d"
    "dv_send dv a f (c, d) = (ok, c', d') \<Longrightarrow> shown d' = shown d" "dv_set_channel dv ch d = (r, d') \<Longrightarrow> shown d' = shown d"
    "dv_scan_channels dv d = (rs, d') \<Longrightarrow> shown d' = shown d" "shown (dv_reset_state dv d) = shown d"
    "shown (dv_ble_enable dv d) = shown d" "shown (dv_ble_disable dv d) = shown d" "shown (dv_indicate dv f d) = shown d"
    "shown (dv_pairing_confirm_reply dv ok d) = shown d" "dv_drain_event dv d = (e, d') \<Longrightarrow> shown d' = shown d"
    "shown (dv_display_reset dv d) = shown d" "dv_read dv d = (rd, d') \<Longrightarrow> shown d' = shown d"
    "dv_drain_one dv d = (rf, d') \<Longrightarrow> shown d' = shown d" "shown (dv_advance_indication dv d) = shown d"
    "shown (dv_check_pairing_timeout dv d) = shown d" "shown (dv_check_encryption_fallback dv d) = shown d"
    "dv_button_poll dv d = (bt, d') \<Longrightarrow> shown d' = shown d" "dv_display_poll dv d = (ok, d') \<Longrightarrow> shown d' = shown d"
  using assms unfolding observes_def by (auto dest: arg_cong [where f = snd]) (metis snd_conv)+

lemma shown_send_msg:
  assumes "observes dv shown" shows "shown (br_dev (snd (send_msg dv msg b))) = shown (br_dev b)"
  using observes_simps(2) [OF assms] by (auto simp: send_msg_def split: sum.split prod.split)

lemma shown_drain_stale:
  assumes "observes dv shown" shows "shown (drain_stale dv n d) = shown d"
  using observes_simps(11) [OF assms] by (induction n arbitrary: d) (auto split: prod.split option.split)

lemma received_chunk:
  assumes "transfer_ok s" and "length data = DISPLAY_FRAME_CHUNK_SIZE" and "start = unat (dt_next_chunk_index s) * DISPLAY_FRAME_CHUNK_SIZE"
    and "fb = take start (dt_framebuffer s) @ data @ drop (start + DISPLAY_FRAME_CHUNK_SIZE) (dt_framebuffer s)"
  shows "start + DISPLAY_FRAME_CHUNK_SIZE \<le> length (dt_framebuffer s)" "length fb = DISPLAY_FRAME_BODY_SIZE"
    and "take (start + DISPLAY_FRAME_CHUNK_SIZE) fb = received s @ data"
proof -
  have "unat (dt_next_chunk_index s) < 8" using assms(1) by (simp add: transfer_ok_def modem_sizes word_less_nat_alt)
  moreover have l: "length (dt_framebuffer s) = 1024" using assms(1) by (simp add: transfer_ok_def DISPLAY_FRAME_BODY_SIZE_def)
  ultimately have le: "start + 128 \<le> 1024" using assms(3) by (simp add: modem_sizes)
  then show "start + DISPLAY_FRAME_CHUNK_SIZE \<le> length (dt_framebuffer s)" "length fb = DISPLAY_FRAME_BODY_SIZE"
    using l assms(2,4) by (simp_all add: modem_sizes DISPLAY_FRAME_BODY_SIZE_def)
  show "take (start + DISPLAY_FRAME_CHUNK_SIZE) fb = received s @ data"
    using le l assms(2,3,4) by (simp add: received_def modem_sizes)
qed

lemma chunk_refines:
  assumes o: "observes dv shown" and ok: "bridge_ok b" "length (dc_chunk_data c) = DISPLAY_FRAME_CHUNK_SIZE"
  shows "\<exists>b'. handle_display_frame_chunk dv c b = Some b' \<and> bridge_ok b' \<and>
    display_view b' = snd (display_step (DisplayFrameChunk c) (display_view b)) \<and>
    shown (br_dev b') = shown (br_dev b) @ (case fst (display_step (DisplayFrameChunk c) (display_view b)) of None \<Rightarrow> [] | Some fb \<Rightarrow> [fb])"
proof (cases "br_display_transfer b")
  case None
  then show ?thesis
    by (simp add: handle_display_frame_chunk_def bridge_ops send_msg_keeps shown_send_msg [OF o] bridge_ok_def display_view_def)
next
  case (Some s)
  have s: "transfer_ok s" using ok(1) Some by (simp add: bridge_ok_def)
  show ?thesis
  proof (cases "dc_transfer_id c = dt_transfer_id s \<and> dc_chunk_index c = dt_next_chunk_index s")
    case False
    then show ?thesis
      using Some s by (auto simp: handle_display_frame_chunk_def bridge_ops send_msg_keeps shown_send_msg [OF o] bridge_ok_def
          display_view_def word_unat_eq_iff)
  next
    case True
    let ?start = "unat (dt_next_chunk_index s) * DISPLAY_FRAME_CHUNK_SIZE"
    define fb where "fb = take ?start (dt_framebuffer s) @ dc_chunk_data c @ drop (?start + DISPLAY_FRAME_CHUNK_SIZE) (dt_framebuffer s)"
    note r = received_chunk [OF s ok(2) HOL.refl fb_def]
    have n: "unat (dt_next_chunk_index s) < 8" using s by (simp add: transfer_ok_def modem_sizes word_less_nat_alt)
    then have inc: "unat (dt_next_chunk_index s + 1) = unat (dt_next_chunk_index s) + 1" by (simp add: unat_word_ariths)
    have last: "dt_next_chunk_index s + 1 = DISPLAY_FRAME_CHUNK_COUNT \<longleftrightarrow> unat (dt_next_chunk_index s) = 7"
      using inc by (auto simp: modem_sizes word_unat_eq_iff)
    show ?thesis
    proof (cases "unat (dt_next_chunk_index s) = 7")
      case seven: True
      have "fb = received s @ dc_chunk_data c" using r(2,3) seven by (simp add: modem_sizes DISPLAY_FRAME_BODY_SIZE_def)
      then have "take (7 * DISPLAY_FRAME_CHUNK_SIZE) (dt_framebuffer s) @ dc_chunk_data c @ drop (8 * DISPLAY_FRAME_CHUNK_SIZE) (dt_framebuffer s) =
          received s @ dc_chunk_data c"
        using seven by (simp add: fb_def)
      with Some True r(1) ok(2) last seven show ?thesis
        by (simp add: handle_display_frame_chunk_def bridge_ops send_msg_keeps shown_send_msg [OF o]
            observes_simps(1) [OF o] bridge_ok_def display_view_def Let_def not_less)
    next
      case False
      have "received (s\<lparr>dt_framebuffer := fb, dt_next_chunk_index := dt_next_chunk_index s + 1\<rparr>) = received s @ dc_chunk_data c"
        using r(3) inc by (simp add: received_def algebra_simps)
      moreover have "transfer_ok (s\<lparr>dt_framebuffer := fb, dt_next_chunk_index := dt_next_chunk_index s + 1\<rparr>)"
        using r(2) inc n False by (simp add: transfer_ok_def modem_sizes word_less_nat_alt)
      ultimately show ?thesis
        using Some True r(1) ok(2) last False inc
        by (simp add: handle_display_frame_chunk_def fb_def [symmetric] bridge_ops send_msg_keeps shown_send_msg [OF o]
            bridge_ok_def display_view_def Let_def not_less)
    qed
  qed
qed

text \<open>Every command: the bridge stays well-formed and its display side follows the specification.\<close>

lemma shown_chunkless:
  assumes "observes dv shown" shows
  "shown (br_dev (send_modem_ready dv b)) = shown (br_dev b)" "shown (br_dev (handle_reset dv b)) = shown (br_dev b)"
  "shown (br_dev (handle_send_frame dv sf b)) = shown (br_dev b)" "shown (br_dev (handle_set_channel dv ch b)) = shown (br_dev b)"
  "shown (br_dev (handle_get_status dv b)) = shown (br_dev b)" "shown (br_dev (handle_scan_channels dv b)) = shown (br_dev b)"
  "shown (br_dev (handle_display_frame_begin dv tid b)) = shown (br_dev b)"
  by (simp_all add: bridge_ops shown_send_msg [OF assms] shown_drain_stale [OF assms] observes_simps [OF assms] Let_def
      split: prod.split sum.split)

lemma transfer_chunkless:
  "br_display_transfer (handle_reset dv b) = None"
  "br_display_transfer (handle_send_frame dv sf b) = br_display_transfer b" "br_display_transfer (handle_set_channel dv ch b) = br_display_transfer b"
  "br_display_transfer (handle_get_status dv b) = br_display_transfer b" "br_display_transfer (handle_scan_channels dv b) = br_display_transfer b"
  by (simp_all add: bridge_ops send_msg_keeps Let_def split: prod.split sum.split)

lemma begin_ok: "bridge_ok (handle_display_frame_begin dv tid b)" "display_view (handle_display_frame_begin dv tid b) = Some (tid, 0, [])"
  by (simp_all add: bridge_ops send_msg_keeps bridge_ok_def transfer_ok_def display_view_def received_def modem_sizes)

lemma dispatch_refines:
  assumes o: "observes dv shown" and ok: "bridge_ok b" "\<And>c. msg = DisplayFrameChunk c \<Longrightarrow> length (dc_chunk_data c) = DISPLAY_FRAME_CHUNK_SIZE"
  shows "\<exists>b'. bridge_dispatch dv msg b = Some b' \<and> bridge_ok b' \<and> display_view b' = snd (display_step msg (display_view b)) \<and>
    shown (br_dev b') = shown (br_dev b) @ (case fst (display_step msg (display_view b)) of None \<Rightarrow> [] | Some fb \<Rightarrow> [fb])"
proof (cases msg)
  case (DisplayFrameChunk c)
  then show ?thesis using chunk_refines [OF o ok(1), of c] ok(2) by (simp add: bridge_dispatch_def)
next
  case (DisplayFrameBegin tid)
  then show ?thesis by (simp add: bridge_dispatch_def begin_ok shown_chunkless [OF o])
qed (use ok(1) in \<open>simp_all add: bridge_dispatch_def bridge_ok_def display_view_def transfer_chunkless shown_chunkless [OF o]
    observes_simps [OF o] handle_ble_enable_def handle_ble_disable_def on_dev_def\<close>)

section \<open>A poll\<close>

text \<open>The results of the decoder in one poll: an invalid display frame ends the transfer, a reset throws
  away what is buffered behind it.\<close>

fun display_run :: "(modem_codec_error + modem_message) list \<Rightarrow> display_spec \<Rightarrow> bytes list \<times> display_spec" where
  "display_run [] st = ([], st)"
| "display_run (Inl e # rs) st = display_run rs (if aborts_transfer e then None else st)"
| "display_run (Inr msg # rs) st =
     (if msg = Reset then ([], None)
      else case display_step msg st of (shown, st') \<Rightarrow>
        let (fs, st'') = display_run rs st' in (case shown of None \<Rightarrow> fs | Some fb \<Rightarrow> fb # fs, st''))"

lemma decode_as_parse:
  "decoder_decode d = (r, d') \<Longrightarrow> decoder_parse (fd_buf d) =
     (case r of Inr None \<Rightarrow> None | Inr (Some m) \<Rightarrow> Some (Inr m, fd_buf d') | Inl e \<Rightarrow> Some (Inl e, fd_buf d'))"
  by (cases d) (auto simp: decoder_parse_def split: sum.split option.split)

lemma decoded_chunk:
  assumes "decoder_parse buf = Some (Inr (DisplayFrameChunk c), rest)" shows "length (dc_chunk_data c) = DISPLAY_FRAME_CHUNK_SIZE"
proof -
  obtain t body where "decode_typed_message t body = Inr (DisplayFrameChunk c)"
    using assms by (auto simp: decoder_parse_eq Let_def split: if_splits)
  from encode_body_decode [OF this] show ?thesis by simp
qed

lemma too_large_last: "decoder_parse buf = Some (Inl (SerialFrameTooLarge n), rest) \<Longrightarrow> rest = []"
  by (auto simp: decoder_parse_eq Let_def typed_not_too_large split: if_splits)

lemma parse_empty: "decoder_parse [] = None"
  by (simp add: decoder_parse_eq)

lemma abort_view:
  "bridge_ok (abort_display_transfer_invalid_frame dv b)" "display_view (abort_display_transfer_invalid_frame dv b) = None"
  by (simp_all add: bridge_ops send_msg_keeps bridge_ok_def display_view_def)

lemma shown_abort: "observes dv shown \<Longrightarrow> shown (br_dev (abort_display_transfer_invalid_frame dv b)) = shown (br_dev b)"
  by (simp add: bridge_ops shown_send_msg)

lemma dispatch_buffer:
  assumes "bridge_dispatch dv msg b = Some b'"
  shows "fd_buf (br_decoder b') = (if msg = Reset then [] else fd_buf (br_decoder b))"
  using assms
  by (cases msg)
    (auto simp: bridge_dispatch_def bridge_ops handle_display_frame_chunk_def send_msg_keeps Let_def decoder_reset_def
      split: prod.splits sum.splits option.splits if_splits)

definition follows :: "('d \<Rightarrow> bytes list) \<Rightarrow> (modem_codec_error + modem_message) list \<Rightarrow> 'd bridge \<Rightarrow> 'd bridge option \<Rightarrow> bool" where
  "follows shown rs b r \<longleftrightarrow> (\<exists>b'. r = Some b' \<and> bridge_ok b' \<and> display_view b' = snd (display_run rs (display_view b)) \<and>
     shown (br_dev b') = shown (br_dev b) @ fst (display_run rs (display_view b)))"

lemma follows_Inl:
  assumes o: "observes dv shown" and b: "bridge_ok b"
    and f: "follows shown rs (if aborts_transfer e then abort_display_transfer_invalid_frame dv b else b) r"
  shows "follows shown (Inl e # rs) b r"
  using f abort_view [of dv b] shown_abort [OF o, of b] by (auto simp: follows_def split: if_splits)

lemma follows_Inr:
  assumes d: "bridge_ok b2" "display_view b2 = snd (display_step msg (display_view b))"
      "shown (br_dev b2) = shown (br_dev b) @ (case fst (display_step msg (display_view b)) of None \<Rightarrow> [] | Some fb \<Rightarrow> [fb])"
    and f: "follows shown (if msg = Reset then [] else rs) b2 r"
  shows "follows shown (Inr msg # rs) b r"
  using assms by (auto simp: follows_def case_prod_beta Let_def split: option.splits)

lemma decode_loop_follows:
  assumes o: "observes dv shown" and ok: "bridge_ok b"
  shows "follows shown (fst (drain_all decoder_parse (fd_buf (br_decoder b)))) b (decode_loop dv b)"
  using ok
proof (induction "buffered (br_decoder b)" arbitrary: b rule: less_induct)
  case less
  obtain r dec where d: "decoder_decode (br_decoder b) = (r, dec)" by (cases "decoder_decode (br_decoder b)")
  define b1 where "b1 = b\<lparr>br_decoder := dec\<rparr>"
  have b1: "bridge_ok b1" "display_view b1 = display_view b" "br_dev b1 = br_dev b" "br_decoder b1 = dec"
    using less.prems by (simp_all add: b1_def bridge_ok_def display_view_def)
  have eq: "follows shown rs b = follows shown rs b1" for rs by (simp add: follows_def fun_eq_iff b1)
  note p = decode_as_parse [OF d]
  have shrink: "buffered dec < buffered (br_decoder b)" if "r \<noteq> Inr None" using decode_shrinks [OF d [symmetric] that] .
  consider "r = Inr None" | m where "r = Inr (Some m)" | n where "r = Inl (SerialFrameTooLarge n)"
    | e where "r = Inl e" "\<nexists>n. e = SerialFrameTooLarge n" by (cases r) auto
  then show ?case
  proof cases
    case 1
    then show ?thesis
      using p less.prems
      by (simp add: decode_loop.simps [of dv b] d modem_stream.drain_all_None follows_def bridge_ok_def display_view_def)
  next
    case (2 m)
    have ch: "length (dc_chunk_data c) = DISPLAY_FRAME_CHUNK_SIZE" if "m = DisplayFrameChunk c" for c
      using p 2 that decoded_chunk [of "fd_buf (br_decoder b)" c "fd_buf dec"] by simp
    obtain b2 where b2: "bridge_dispatch dv m b1 = Some b2" "bridge_ok b2" "display_view b2 = snd (display_step m (display_view b1))"
        "shown (br_dev b2) = shown (br_dev b1) @ (case fst (display_step m (display_view b1)) of None \<Rightarrow> [] | Some fb \<Rightarrow> [fb])"
      using dispatch_refines [OF o b1(1) ch] by blast
    have "buffered (br_decoder b2) < buffered (br_decoder b)"
      using dispatch_decoder [OF b2(1)] shrink 2 by (simp add: b1)
    from less.hyps [OF this b2(2)]
    have f: "follows shown (fst (drain_all decoder_parse (fd_buf (br_decoder b2)))) b2 (decode_loop dv b2)" .
    have "drain_all decoder_parse (fd_buf (br_decoder b)) = (Inr m # fst (drain_all decoder_parse (fd_buf dec)), snd (drain_all decoder_parse (fd_buf dec)))"
      using p 2 by (simp add: modem_stream.drain_all_Some)
    moreover have "fst (drain_all decoder_parse (fd_buf (br_decoder b2))) = (if m = Reset then [] else fst (drain_all decoder_parse (fd_buf dec)))"
      using dispatch_buffer [OF b2(1)] by (simp add: b1 parse_empty modem_stream.drain_all_None)
    moreover have "decode_loop dv b = decode_loop dv b2"
      using 2 b2(1) by (simp add: decode_loop.simps [of dv b] d b1_def)
    ultimately show ?thesis using follows_Inr [OF b2(2-4)] f by (simp add: eq)
  next
    case (3 n)
    then have "drain_all decoder_parse (fd_buf (br_decoder b)) = ([Inl (SerialFrameTooLarge n)], [])"
      using p too_large_last [of "fd_buf (br_decoder b)" n "fd_buf dec"]
      by (simp add: modem_stream.drain_all_Some modem_stream.drain_all_None parse_empty)
    with 3 less.prems show ?thesis
      by (simp add: decode_loop.simps [of dv b] d follows_def bridge_ok_def display_view_def aborts_transfer_def)
  next
    case (4 e)
    let ?b2 = "if aborts_transfer e then abort_display_transfer_invalid_frame dv b1 else b1"
    have "br_decoder ?b2 = dec" "bridge_ok ?b2" using b1 by (simp_all add: abort_decoder abort_view)
    with less.hyps [of ?b2] shrink 4 have "follows shown (fst (drain_all decoder_parse (fd_buf dec))) ?b2 (decode_loop dv ?b2)" by simp
    from follows_Inl [OF o b1(1) this]
    have "follows shown (Inl e # fst (drain_all decoder_parse (fd_buf dec))) b (decode_loop dv ?b2)" by (simp add: eq)
    moreover have "decode_loop dv b = decode_loop dv ?b2"
      using 4 by (cases e) (simp_all add: decode_loop.simps [of dv b] d b1_def)
    ultimately show ?thesis using p 4 by (simp add: modem_stream.drain_all_Some)
  qed
qed

lemma transfer_keepers:
  "br_display_transfer (forward_radio dv n b) = br_display_transfer b" "br_display_transfer (forward_ble dv n b) = br_display_transfer b"
  "br_display_transfer (poll_button dv b) = br_display_transfer b" "br_display_transfer (poll_display dv b) = br_display_transfer b"
  "br_display_transfer (poll_serial dv b) = br_display_transfer b"
proof -
  have k: "br_display_transfer b' = br_display_transfer b" if "send_msg dv m b = (ok, b')" for m ok b b'
    using send_msg_keeps(2) [of dv m b] that by simp
  show "br_display_transfer (forward_radio dv n b) = br_display_transfer b"
    by (induction n arbitrary: b) (auto split: prod.split option.split dest!: k)
  show "br_display_transfer (forward_ble dv n b) = br_display_transfer b"
    by (induction n arbitrary: b) (auto simp: send_msg_keeps split: prod.split option.split)
qed (simp_all add: poll_button_def poll_display_def poll_serial_def bridge_ops send_msg_keeps Let_def split: prod.split option.split)

lemma shown_keepers:
  assumes o: "observes dv shown"
  shows "shown (br_dev (forward_radio dv n b)) = shown (br_dev b)" "shown (br_dev (forward_ble dv n b)) = shown (br_dev b)"
    "shown (br_dev (poll_button dv b)) = shown (br_dev b)" "shown (br_dev (poll_display dv b)) = shown (br_dev b)"
    "shown (br_dev (poll_serial dv b)) = shown (br_dev b)"
proof -
  note s = observes_simps [OF o] shown_send_msg [OF o]
  have k: "shown (br_dev b') = shown (br_dev b)" if "send_msg dv m b = (ok, b')" for m ok b b'
    using shown_send_msg [OF o, of m b] that by simp
  show "shown (br_dev (forward_radio dv n b)) = shown (br_dev b)"
    by (induction n arbitrary: b) (auto simp: s split: prod.split option.split dest!: k)
  show "shown (br_dev (forward_ble dv n b)) = shown (br_dev b)"
    by (induction n arbitrary: b) (auto simp: s split: prod.split option.split)
qed (auto simp: poll_button_def poll_display_def poll_serial_def bridge_ops Let_def observes_simps [OF o] shown_send_msg [OF o]
    split: prod.split option.split)

text \<open>C24. The display and the poll: whatever bytes the serial port delivers and whatever the devices answer,
  a poll of a well-formed bridge ends without a panic in a well-formed bridge, and the display driver gets
  exactly the frames the specification completes on the messages the decoder finds: the eight chunks of
  one transfer in their order, restarted by a new transfer, kept at a repeated or early chunk, ended by a
  foreign chunk, an invalid display message or a reset.\<close>

theorem display_transfer_refines:
  assumes "observes dv shown" and "bridge_ok b"
  shows "\<exists>b'. bridge_poll dv b = Some b' \<and> bridge_ok b' \<and>
    (let rs = fst (drain_all decoder_parse (fd_buf (br_decoder (poll_serial dv b)))); (fs, st) = display_run rs (display_view b)
     in shown (br_dev b') = shown (br_dev b) @ fs \<and> display_view b' = st)"
proof -
  have b: "bridge_ok (poll_serial dv b)" "display_view (poll_serial dv b) = display_view b"
    using assms(2) by (simp_all add: bridge_ok_def display_view_def transfer_keepers)
  from decode_loop_follows [OF assms(1) b(1)] show ?thesis
    by (auto simp: follows_def bridge_poll_def b bridge_ok_def display_view_def transfer_keepers shown_keepers [OF assms(1)]
        on_dev_def observes_simps [OF assms(1)] case_prod_beta)
qed

subsection \<open>A concrete set of devices\<close>

text \<open>Queues of serial reads and radio frames, and what was written and shown; the other devices do nothing.\<close>

record log_dev =
  ld_reads :: "bytes list"
  ld_radio :: "recv_frame list"
  ld_written :: "bytes list"
  ld_shown :: "bytes list"

definition log_drivers :: "log_dev drivers" where
  "log_drivers =
     \<lparr>dv_read = (\<lambda>d. case ld_reads d of [] \<Rightarrow> (([], False), d) | c # cs \<Rightarrow> ((c, False), d\<lparr>ld_reads := cs\<rparr>)),
      dv_write = (\<lambda>f d. (True, d\<lparr>ld_written := ld_written d @ [f]\<rparr>)), dv_is_connected = (\<lambda>d. True),
      dv_send = (\<lambda>mac f (c, d). (True, inc_tx c, d)),
      dv_drain_one = (\<lambda>d. case ld_radio d of [] \<Rightarrow> (None, d) | rf # rfs \<Rightarrow> (Some rf, d\<lparr>ld_radio := rfs\<rparr>)),
      dv_set_channel = (\<lambda>ch d. (Inr (), d)), dv_channel = (\<lambda>d. 1), dv_scan_channels = (\<lambda>d. ([], d)),
      dv_mac_address = (\<lambda>d. replicate 6 0), dv_reset_state = (\<lambda>d. d\<lparr>ld_radio := []\<rparr>), dv_ble_enable = id, dv_ble_disable = id,
      dv_indicate = (\<lambda>x d. d), dv_pairing_confirm_reply = (\<lambda>x d. d), dv_advance_indication = id, dv_check_pairing_timeout = id,
      dv_check_encryption_fallback = id, dv_drain_event = (\<lambda>d. (None, d)), dv_button_poll = (\<lambda>d. (None, d)),
      dv_queue_frame = (\<lambda>fb d. d\<lparr>ld_shown := ld_shown d @ [fb]\<rparr>), dv_display_reset = id, dv_display_poll = (\<lambda>d. (True, d)),
      dv_elapsed_ms = (\<lambda>d. 0), dv_firmware_version = [0, 1, 0, 0], dv_firmware_commit = replicate 8 0\<rparr>"

lemma log_observes: "observes log_drivers ld_shown"
  by (simp add: observes_def log_drivers_def split: list.split)

theorem display_transfer_refines_witness:
  "\<exists>b' c f. c = \<lparr>dc_transfer_id = 5, dc_chunk_index = 7, dc_chunk_data = replicate 128 2\<rparr> \<and>
    encode_modem_frame (DisplayFrameChunk c) = Inr f \<and>
    bridge_poll log_drivers
      \<lparr>br_dev = \<lparr>ld_reads = [f], ld_radio = [], ld_written = [], ld_shown = []\<rparr>,
       br_display_transfer = Some \<lparr>dt_transfer_id = 5, dt_next_chunk_index = 7, dt_framebuffer = replicate 896 1 @ replicate 128 0\<rparr>,
       br_ble_enabled = False, br_counters = counters_new, br_decoder = decoder_new\<rparr> = Some b' \<and>
    ld_shown (br_dev b') = [replicate 896 1 @ replicate 128 2] \<and> br_display_transfer b' = None"
proof -
  let ?c = "\<lparr>dc_transfer_id = 5, dc_chunk_index = 7, dc_chunk_data = replicate 128 2\<rparr>"
  obtain f where f: "encode_modem_frame (DisplayFrameChunk ?c) = Inr f" "f \<noteq> []" "length f \<le> 200"
    by (simp add: encode_modem_frame_def encode_display_frame_chunk_def modem_sizes)
  let ?b = "\<lparr>br_dev = \<lparr>ld_reads = [f], ld_radio = [], ld_written = [], ld_shown = []\<rparr>,
       br_display_transfer = Some \<lparr>dt_transfer_id = 5, dt_next_chunk_index = 7, dt_framebuffer = replicate 896 1 @ replicate 128 0\<rparr>,
       br_ble_enabled = False, br_counters = counters_new, br_decoder = decoder_new\<rparr>"
  have ok: "bridge_ok ?b" by (simp add: bridge_ok_def transfer_ok_def modem_sizes DISPLAY_FRAME_BODY_SIZE_def)
  have view: "display_view ?b = Some (5, 7, replicate 896 1)"
    by (simp add: display_view_def received_def modem_sizes)
  have "fd_buf (br_decoder (poll_serial log_drivers ?b)) = f"
    using f(2,3) by (simp add: poll_serial_def log_drivers_def decoder_push_def decoder_new_def modem_sizes)
  moreover have "drain_all decoder_parse f = (map Inr [DisplayFrameChunk ?c], [])"
    using drain_encoded [of "[DisplayFrameChunk ?c]" "[f]"] f(1) by (simp add: modem_sizes)
  ultimately obtain b' where "bridge_poll log_drivers ?b = Some b'" "ld_shown (br_dev b') = [replicate 896 1 @ replicate 128 2]"
      "display_view b' = None"
    using display_transfer_refines [OF log_observes ok] view by auto
  with f(1) show ?thesis by (auto simp: display_view_def)
qed

section \<open>Radio frames to the gateway\<close>














section \<open>The button\<close>

text \<open>The events of a sequence of polls, each with its instant and the level read.\<close>

primrec button_run :: "(nat \<times> bool) list \<Rightarrow> button_state \<Rightarrow> u8 list \<times> button_state" where
  "button_run [] st = ([], st)"
| "button_run (p # ps) st =
     (case button_poll_at (fst p) (snd p) st of (e, st') \<Rightarrow>
        case button_run ps st' of (es, st'') \<Rightarrow> (case e of None \<Rightarrow> es | Some x \<Rightarrow> x # es, st''))"

lemma button_run_append:
  "button_run (ps @ qs) st = (case button_run ps st of (es, st') \<Rightarrow> case button_run qs st' of (es', st'') \<Rightarrow> (es @ es', st''))"
  by (induction ps arbitrary: st) (auto split: prod.split option.split)

text \<open>A level held over the polls \<open>ps\<close> in each state.\<close>

lemma button_held:
  assumes "sorted (t # ps)"
  shows "button_run (map (\<lambda>t. (t, True)) ps) (Pressed p) = ([], Pressed p)"
    and "button_run (map (\<lambda>t. (t, False)) ps) ButtonIdle = ([], ButtonIdle)"
    and "button_run (map (\<lambda>t. (t, True)) ps) (DebouncePress t) =
      ([], if last (t # ps) - t \<ge> BUTTON_DEBOUNCE_MS then Pressed (t + BUTTON_DEBOUNCE_MS) else DebouncePress t)"
    and "button_run (map (\<lambda>t. (t, False)) ps) (DebounceRelease p t) =
      (if last (t # ps) - t \<ge> BUTTON_DEBOUNCE_MS
       then ([if t + BUTTON_DEBOUNCE_MS - p \<ge> BUTTON_LONG_THRESHOLD then BUTTON_TYPE_LONG else BUTTON_TYPE_SHORT], ButtonIdle)
       else ([], DebounceRelease p t))"
proof -
  show held: "button_run (map (\<lambda>t. (t, True)) ps) (Pressed p) = ([], Pressed p)" for ps p
    by (induction ps) (simp_all add: button_poll_at_def)
  show idle: "button_run (map (\<lambda>t. (t, False)) ps) ButtonIdle = ([], ButtonIdle)" for ps
    by (induction ps) (simp_all add: button_poll_at_def)
  have last: "u - t \<le> last (u # us) - t" if "sorted (u # us)" for u us
    using that by (cases us rule: rev_cases) (auto simp: sorted_append intro: diff_le_mono)
  show "button_run (map (\<lambda>t. (t, True)) ps) (DebouncePress t) =
      ([], if last (t # ps) - t \<ge> BUTTON_DEBOUNCE_MS then Pressed (t + BUTTON_DEBOUNCE_MS) else DebouncePress t)"
    using assms
  proof (induction ps)
    case (Cons u us)
    then show ?case
      using last [of u us] by (auto simp: button_poll_at_def held)
  qed (simp add: BUTTON_DEBOUNCE_MS_def)
  show "button_run (map (\<lambda>t. (t, False)) ps) (DebounceRelease p t) =
      (if last (t # ps) - t \<ge> BUTTON_DEBOUNCE_MS
       then ([if t + BUTTON_DEBOUNCE_MS - p \<ge> BUTTON_LONG_THRESHOLD then BUTTON_TYPE_LONG else BUTTON_TYPE_SHORT], ButtonIdle)
       else ([], DebounceRelease p t))"
    using assms
  proof (induction ps)
    case (Cons u us)
    then show ?case
      using last [of u us] by (auto simp: button_poll_at_def idle)
  qed (simp add: BUTTON_DEBOUNCE_MS_def)
qed

text \<open>C38. The button: polls at any instants \<open>ps\<close> that read it pressed and then \<open>qs\<close> that read it released give
  no event when it was seen pressed for less than 30 ms, and otherwise exactly one, at the first poll 30 ms
  after the release. Whether it is long depends only on the first pressed and the first released poll
  (at least a second apart), not on the rate of the polls between them.\<close>

theorem button_classified:
  assumes "sorted (ps @ qs)" and "ps \<noteq> []" and "qs \<noteq> []" and "last qs - hd qs \<ge> BUTTON_DEBOUNCE_MS"
  shows "button_run (map (\<lambda>t. (t, True)) ps @ map (\<lambda>t. (t, False)) qs) ButtonIdle =
    (if last ps - hd ps \<ge> BUTTON_DEBOUNCE_MS
     then [if hd qs - hd ps \<ge> BUTTON_LONG_THRESHOLD then BUTTON_TYPE_LONG else BUTTON_TYPE_SHORT] else [], ButtonIdle)"
proof -
  obtain p ps' q qs' where c: "ps = p # ps'" "qs = q # qs'" using assms(2,3) by (cases ps; cases qs) auto
  have s: "sorted (p # ps')" "sorted (q # qs')" using assms(1) unfolding c by (simp_all add: sorted_append)
  show ?thesis
    using assms(4) button_held(3) [OF s(1)] button_held(4) [OF s(2), of "p + BUTTON_DEBOUNCE_MS"] button_held(2) [OF s(2)]
    by (simp add: c button_run_append button_poll_at_def)
qed

theorem button_classified_witness:
  "button_run (map (\<lambda>t. (t, True)) [100, 140, 900] @ map (\<lambda>t. (t, False)) [1150, 1200]) ButtonIdle = ([BUTTON_TYPE_LONG], ButtonIdle)"
  using button_classified [of "[100, 140, 900]" "[1150, 1200]"] by (simp add: BUTTON_DEBOUNCE_MS_def BUTTON_LONG_THRESHOLD_def)

end
