(* ===== verification/Spec2Isabelle.thy ===== *)
theory Spec2Isabelle
  imports Bpf_Correct Frame_Codec Modem_Correct Map_Correct Async_Queue Messages Program_Image Cycle_Correct Peer_Table
    Gateway_Correct End_To_End Node_Maps Onboarding_Correct Gateway_Registry Bridge_Correct
begin

text \<open>
  Verification of sonde, a system of battery-powered sensor nodes programmed over the air.

  \<^bold>\<open>The program.\<close> A \<^emph>\<open>node\<close> (\<open>crates/sonde-node\<close>) sleeps, wakes, sends an authenticated WAKE frame over ESP-NOW
  radio, receives one COMMAND, possibly loads a new BPF program in chunks, executes its program in the
  interpreter (\<open>crates/sonde-bpf\<close>) and sleeps again. A \<^emph>\<open>modem\<close> (\<open>crates/sonde-modem\<close>) relays radio frames over
  a serial line to the \<^emph>\<open>gateway\<close> (\<open>crates/sonde-gateway\<close>), which keeps the registry of nodes, phones and
  programs, answers the nodes and passes application data to handlers. A \<^emph>\<open>phone\<close> (\<open>crates/sonde-pair\<close>)
  registers with the gateway over Bluetooth and provisions nodes. The formats they share are in
  \<open>crates/sonde-protocol\<close>.

  \<^bold>\<open>Theories and sources.\<close>
  \<^item> \<open>Sonde_Prelude\<close>: machine integers, results as sums, byte strings, loops with fuel, and the interfaces shared by
    the components: \<open>int_codec\<close>, \<open>loop_invariant\<close>, \<open>loop_variant\<close>, \<open>keyed_store\<close>, \<open>op_refinement\<close>.
    \<open>Stream_Parser\<close>: framing over a byte stream (locale \<open>stream_parser\<close>).
  \<^item> Formats of \<open>sonde-protocol/src\<close>: \<open>Frame_Codec\<close> (\<open>header.rs\<close>, \<open>aead_codec.rs\<close>, \<open>chunk.rs\<close>), \<open>Cbor\<close> (values and the
    laws of the library), \<open>Messages\<close> (\<open>messages.rs\<close>), \<open>Program_Image\<close> (\<open>program_image.rs\<close>), \<open>Modem_Codec\<close> (\<open>modem.rs\<close>),
    \<open>Ble_Envelope\<close> (\<open>ble_envelope.rs\<close>), \<open>Board_Layout\<close> (\<open>board_layout.rs\<close>).
  \<^item> The interpreter: \<open>Ebpf\<close> (\<open>ebpf.rs\<close>), \<open>Bpf_Memory\<close> and \<open>Bpf_Machine\<close> (\<open>interpreter.rs\<close>); \<open>Bpf_Spill\<close>, \<open>Bpf_Safety\<close>,
    \<open>Bpf_Termination\<close>, \<open>Bpf_Correct\<close> hold its invariants and theorems.
  \<^item> The node, \<open>sonde-node/src\<close>: \<open>Node_Types\<close> (\<open>error.rs\<close>), \<open>Node_Storage\<close> (\<open>esp_storage.rs\<close>, \<open>traits.rs\<close>), \<open>Map_Storage\<close>
    (\<open>map_storage.rs\<close>), \<open>Async_Queue\<close> (\<open>async_queue.rs\<close>), \<open>Program_Store\<close> (\<open>program_store.rs\<close>, \<open>key_store.rs\<close>),
    \<open>Sleep_Manager\<close> (\<open>sleep.rs\<close>), \<open>Node_Radio\<close> and \<open>Wake_Cycle\<close> (\<open>wake_cycle.rs\<close>, \<open>peer_request.rs\<close>), \<open>Node_Bpf\<close>
    (\<open>bpf_dispatch.rs\<close>, \<open>bpf_runtime.rs\<close>, \<open>sonde_bpf_adapter.rs\<close>, \<open>hal.rs\<close>), \<open>Node_Pairing\<close> (\<open>ble_pairing.rs\<close>,
    \<open>esp_ble_pairing.rs\<close>, \<open>bin/node.rs\<close>). \<open>Map_Correct\<close>, \<open>Wake_Correct\<close>, \<open>Cycle_Correct\<close>, \<open>Node_Bpf_Memory\<close>,
    \<open>Node_Bpf_Correct\<close>, \<open>Node_Bpf_Examples\<close>, \<open>Node_Maps\<close>, \<open>Node_Pairing_Correct\<close> hold their theorems.
  \<^item> The modem, \<open>sonde-modem/src\<close>: \<open>Peer_Table\<close> (\<open>peer_table.rs\<close>), \<open>Modem_Bridge\<close> (\<open>bridge.rs\<close>, \<open>status.rs\<close>);
    \<open>Modem_Correct\<close> and \<open>Bridge_Correct\<close> hold the theorems.
  \<^item> The gateway, \<open>sonde-gateway/src\<close>: \<open>Gateway_Storage\<close> (\<open>storage.rs\<close>, \<open>registry.rs\<close>, \<open>phone_trust.rs\<close>, records of
    \<open>program.rs\<close>), \<open>Gateway_Session\<close> (\<open>session.rs\<close>), \<open>Handler_Router\<close> (\<open>handler.rs\<close>), \<open>Missing_Hints\<close> and
    \<open>Gateway_Engine\<close> (\<open>engine.rs\<close>), \<open>Gateway_Pairing\<close> (\<open>ble_pairing.rs\<close>); \<open>Gateway_Correct\<close>, \<open>Gateway_Registry\<close>,
    \<open>Gateway_Pairing_Correct\<close> hold the theorems.
  \<^item> The phone, \<open>sonde-pair/src\<close>: \<open>Phone_Pairing\<close>; theorems in \<open>Phone_Correct\<close>.
  \<^item> Compositions: \<open>End_To_End\<close> (node and gateway: a program update), \<open>Onboarding\<close> and \<open>Onboarding_Correct\<close> (phone,
    gateway and node: registration of a new node).

  \<^bold>\<open>State and operations.\<close> A Rust struct is a record, an enum a datatype, a method a function from the state to
  result and state. \<open>Result\<close> is a sum with the error on the left. Machine integers keep their width; \<open>+\<close> wraps
  as in a release build. \<open>usize\<close> is a natural number, checked against 32 bits on the node where the
  source computes with it. A \<open>HashMap\<close> is an association list; where the source iterates over one,
  the statements do not depend on the order. Instants are natural numbers. A call that would panic is
  a value of its own (\<open>None\<close>, or an outcome \<open>Panicked\<close>), so that its absence is a theorem.

  \<^bold>\<open>What the environment is.\<close> Code outside the repository is an argument: AES-256-GCM (\<open>seal\<close>, \<open>unseal\<close>),
  SHA-256, signatures, the CBOR library (\<open>ser\<close>, \<open>de\<close>), the NVS flash driver, the devices of the modem,
  the Bluetooth transport, random numbers and clocks. What a theorem needs of them is a named predicate
  (round trip of the cipher, its authenticity, a serialiser the parser inverts, a flash driver that has
  stored what it reports as written), and its witness instantiates the argument with a concrete function.
  A flash operation may fail at any time: a removal may leave its key, a failed write of a number leaves
  the old or the new value, a failed write of a blob leaves anything under its key, a read of the layout
  may fail. A failed write to the serial line may leave a part of a frame. The laws of CBOR are used for
  the values of the formats: shallow, with texts of ASCII characters. The
  radio of the node is a script of receptions per attempt, so that every loss and every forged frame
  is covered by quantification over scripts. Bus devices answer as a function of the calls before.
  The gateway handles one frame at a time with one clock reading per frame: the locks of the source
  serialise the state the handlers share.

  \<^bold>\<open>Interfaces.\<close> Where one component relies on another the promise is a locale, interpreted on the model: the
  storage of the gateway (\<open>node_registry\<close>, \<open>program_library\<close>, \<open>phone_registry\<close>, \<open>config_store\<close>, all provided
  by the storage in memory), the send queue (\<open>bounded_queue\<close>), the map storage (\<open>keyed_store\<close>), the
  incremental decoder (\<open>stream_parser\<close>), the interpreter's loop (\<open>loop_invariant\<close>, \<open>loop_variant\<close>), the
  peer table (\<open>op_refinement\<close>) and the Bluetooth link (\<open>ble_link\<close>, provided by node and gateway).

  \<^bold>\<open>What is shown.\<close>
  \<^item> Composition: an assigned program reaches the node and is recorded as running; a new node ends
    registered with exactly the key, channel and sensors it and the phone hold.
  \<^item> Interpreter: memory is confined for writes and reads, no program makes it panic, every program
    with a budget ends, a local call restores the caller; the eighth nested call has no stack.
  \<^item> Node: only a command sealed for this WAKE is obeyed, the active program changes only to the image
    the command named, frames are numbered without gap or repetition, each cycle ends asleep,
    rebooting or unpaired with the rail off; installation, provisioning, factory reset and the layout
    record against failing writes or resets, with the cases in which a key survives a storage error;
    what programs may change depends on their class. The helpers dereference the pointers a program
    gives them; that these lie in the program's memory is the guarantee of the static verifier at the
    gateway, a hypothesis (\<open>verified_program\<close>) under which no other byte of memory changes.
  \<^item> Gateway: unauthenticated frames have no effect, no sequence number is acted on twice, a
    registration never replaces a key and needs a stored, active phone, no frame changes a registered
    identity except that recovery restores an escrowed key, phones are registered only through an open
    window, a WAKE gets the command of highest priority once, a reload keeps unchanged handlers running.
  \<^item> Modem: the serial stream decodes however it is cut, a poll never panics and shows exactly the
    display frames transferred completely, radio frames are relayed in order up to the first failing write, the peer table is an
    LRU cache, a press of the button is one event.
  \<^item> Formats: round trips, canonical encodings and the agreement of the two codecs of a pairing
    request, with the names the phone accepts and the gateway refuses.

  \<^bold>\<open>Loops and fuel.\<close> The interpreter runs with fuel; \<open>budget + 2\<close> iterations are enough for every program
  (\<open>bpf_terminates\<close>), and the node's budget is 100,000 instructions. The decoding loop of the modem,
  the receive loops of the node and the transfer loop terminate and are defined with a measure. The
  phone's reconnection loop depends on the answers of the transport and is a \<open>partial_function\<close>, where
  \<open>None\<close> is not returning; nothing is claimed of it beyond its definition. Loops over ranges are
  primitive recursions with the bound of the source (16 frames per poll, 256 drained events).

  \<^bold>\<open>Not modelled.\<close> Log output, progress messages and the wording of error reasons. The gateway binary and the
  asynchronous modem transport (task wiring over the modelled codec and engine), the SQLite backend
  (SQL run by a database; the engine uses it through the storage interface), the gRPC administration
  (generated protocol code), the encrypted state bundle and key rotation, ELF ingestion and the
  program verifier (bindings of a library), the rendering of the display, handler processes, the
  hardware drivers of node and modem (calls of the ESP-IDF), the user interfaces, the cloud companion
  and handler, the circuit board generator and the example sensor handlers.
\<close>

end
